(* ===== verification/Prelude.thy ===== *)
theory Prelude
  imports Main "HOL-Library.Sublist"
begin

text \<open>
  Shared vocabulary of the development: the collections of rewrite rules that the component
  proofs draw on, and generic lemmas on lists, options and folds that more than one component
  needs. Nothing in this theory is about the program itself.
\<close>

named_theorems str_simps \<open>evaluation rules for the models of Go's string functions\<close>
named_theorems span_simps \<open>rules about positions, ranges and spans\<close>
named_theorems line_simps \<open>rules about lines, segments and their contents\<close>
named_theorems view_simps \<open>frame rules of the viewport operations\<close>

text \<open>A Go slice read that panics out of range.\<close>

definition slice_get :: "'a list \<Rightarrow> int \<Rightarrow> 'a option" where
  "slice_get xs i = (if 0 \<le> i \<and> i < int (length xs) then Some (xs ! nat i) else None)"

lemma slice_get_Some_iff:
  "slice_get xs i = Some x \<longleftrightarrow> 0 \<le> i \<and> i < int (length xs) \<and> x = xs ! nat i"
  by (auto simp: slice_get_def)

lemma slice_get_of_nat [simp]: "n < length xs \<Longrightarrow> slice_get xs (int n) = Some (xs ! n)"
  by (simp add: slice_get_def)

text \<open>Run a fallible step over a list, left to right, stopping at the first failure.\<close>

fun foldM :: "('s \<Rightarrow> 'a \<Rightarrow> 's option) \<Rightarrow> 's \<Rightarrow> 'a list \<Rightarrow> 's option" where
  "foldM f s [] = Some s"
| "foldM f s (x # xs) = (case f s x of None \<Rightarrow> None | Some t \<Rightarrow> foldM f t xs)"

lemma foldM_append:
  "foldM f s (xs @ ys) = (case foldM f s xs of None \<Rightarrow> None | Some t \<Rightarrow> foldM f t ys)"
  by (induction xs arbitrary: s) (auto split: option.splits)

lemma foldM_invariant:
  assumes "foldM f s xs = Some t" and "P s"
    and "\<And>s x t. x \<in> set xs \<Longrightarrow> P s \<Longrightarrow> f s x = Some t \<Longrightarrow> P t"
  shows "P t"
  using assms
proof (induction xs arbitrary: s)
  case Nil
  then show ?case by simp
next
  case (Cons x xs)
  then obtain u where u: "f s x = Some u" "foldM f u xs = Some t"
    by (auto split: option.splits)
  with Cons.prems have "P u" by (metis list.set_intros(1))
  then show ?case using Cons.prems(3) by (intro Cons.IH [OF u(2)]) auto
qed

lemma foldM_total:
  assumes "P s" and "\<And>s x. x \<in> set xs \<Longrightarrow> P s \<Longrightarrow> \<exists>t. f s x = Some t \<and> P t"
  shows "\<exists>t. foldM f s xs = Some t \<and> P t"
  using assms
proof (induction xs arbitrary: s)
  case Nil
  then show ?case by simp
next
  case (Cons x xs)
  then obtain t where "f s x = Some t" "P t" by (metis list.set_intros(1))
  with Cons show ?case by simp
qed

lemma foldM_exact:
  assumes "foldM f s xs = Some t" and "I s"
    and "\<And>s x t. x \<in> set xs \<Longrightarrow> I s \<Longrightarrow> f s x = Some t \<Longrightarrow> I t \<and> (P t \<longleftrightarrow> P s \<or> Q x)"
  shows "I t \<and> (P t \<longleftrightarrow> P s \<or> (\<exists>x \<in> set xs. Q x))"
  using assms
proof (induction xs arbitrary: s)
  case Nil
  then show ?case by simp
next
  case (Cons x xs)
  then obtain u where u: "f s x = Some u" "foldM f u xs = Some t"
    by (auto split: option.splits)
  have step: "I u \<and> (P u \<longleftrightarrow> P s \<or> Q x)"
    using Cons.prems(3) [of x s u] Cons.prems(2) u(1) by simp
  have "I t \<and> (P t \<longleftrightarrow> P u \<or> (\<exists>x \<in> set xs. Q x))"
    using step Cons.prems(3) by (intro Cons.IH [OF u(2)]) auto
  with step show ?case by auto
qed

lemma foldl_invariant:
  assumes "P s" and "\<And>s x. x \<in> set xs \<Longrightarrow> P s \<Longrightarrow> P (f s x)"
  shows "P (foldl f s xs)"
  using assms by (induction xs arbitrary: s) auto

text \<open>The first element of a list that satisfies a predicate, with its index.\<close>

fun find_index :: "('a \<Rightarrow> bool) \<Rightarrow> 'a list \<Rightarrow> nat option" where
  "find_index P [] = None"
| "find_index P (x # xs) = (if P x then Some 0 else map_option Suc (find_index P xs))"

lemma find_index_None: "find_index P xs = None \<longleftrightarrow> (\<forall>x \<in> set xs. \<not> P x)"
  by (induction xs) auto

lemma find_index_Some:
  "find_index P xs = Some i \<Longrightarrow> i < length xs \<and> P (xs ! i) \<and> (\<forall>j < i. \<not> P (xs ! j))"
proof (induction xs arbitrary: i)
  case Nil
  then show ?case by simp
next
  case (Cons x xs)
  show ?case
  proof (cases "P x")
    case True
    with Cons.prems show ?thesis by simp
  next
    case False
    with Cons.prems obtain k where k: "find_index P xs = Some k" "i = Suc k" by auto
    with Cons.IH [OF k(1)] False show ?thesis by (auto simp: less_Suc_eq_0_disj)
  qed
qed

lemma take_drop_split: "i \<le> j \<Longrightarrow> take j xs = take i xs @ take (j - i) (drop i xs)"
  by (metis le_add_diff_inverse take_add)

lemma nth_map_upt0: "i < n \<Longrightarrow> map f [0..<n] ! i = f i"
  by simp

lemma sum_list_concat: "sum_list (concat xss) = sum_list (map sum_list xss)"
  by (induction xss) auto

lemma length_concat_map: "length (concat (map f xs)) = sum_list (map (\<lambda>x. length (f x)) xs)"
  by (induction xs) auto

lemma filter_map_Not: "length (filter P xs) + length (filter (\<lambda>x. \<not> P x) xs) = length xs"
  by (rule sum_length_filter_compl)

end
