(* ===== verification/Go_Strings.thy ===== *)
theory Go_Strings
  imports Prelude
begin

text \<open>
  Go's strings, as far as the program uses them. A Go \<open>string\<close> is an immutable sequence of
  bytes; here it is a \<open>string\<close>, whose characters are bytes. Runes are code points (\<open>nat\<close>).
  Ranging over a string, \<open>[]rune(s)\<close> and the \<open>unicode/utf8\<close> functions decode UTF-8, reading
  an invalid byte as U+FFFD of width 1; \<open>decode_rune\<close> is that decoder, \<open>encode_rune\<close> is
  \<open>strings.Builder.WriteRune\<close>. The rest are the functions of packages \<open>strings\<close>, \<open>strconv\<close>
  and \<open>fmt\<close> that the program calls. These definitions model Go's standard library, not files
  of the repository, so they carry no source mapping.
\<close>

section \<open>UTF-8\<close>

type_synonym rune = nat

definition byte :: "char \<Rightarrow> nat" where
  "byte c = of_char c"

definition chr :: "nat \<Rightarrow> char" where
  "chr n = char_of n"

lemma byte_chr [simp]: "n < 256 \<Longrightarrow> byte (chr n) = n"
  by (simp add: byte_def chr_def)

lemma chr_byte [simp]: "chr (byte c) = c"
  by (simp add: byte_def chr_def)

lemma byte_less: "byte c < 256"
  by (simp add: byte_def)

definition rune_error :: rune where
  "rune_error = 0xFFFD"

definition valid_rune :: "rune \<Rightarrow> bool" where
  "valid_rune r \<longleftrightarrow> r < 0xD800 \<or> (0xE000 \<le> r \<and> r \<le> 0x10FFFF)"

definition in_range :: "nat \<Rightarrow> nat \<Rightarrow> char \<Rightarrow> bool" where
  "in_range lo hi c \<longleftrightarrow> lo \<le> byte c \<and> byte c \<le> hi"

text \<open>The two, three and four byte forms, after the leading byte \<open>b0\<close>.\<close>

definition decode2 :: "nat \<Rightarrow> string \<Rightarrow> rune \<times> nat" where
  "decode2 b0 cs = (case cs of
     c1 # _ \<Rightarrow>
       if in_range 0x80 0xBF c1 then ((b0 - 0xC0) * 64 + (byte c1 - 0x80), 2)
       else (rune_error, 1)
   | _ \<Rightarrow> (rune_error, 1))"

definition decode3 :: "nat \<Rightarrow> string \<Rightarrow> rune \<times> nat" where
  "decode3 b0 cs = (case cs of
     c1 # c2 # _ \<Rightarrow>
       if in_range (if b0 = 0xE0 then 0xA0 else 0x80) (if b0 = 0xED then 0x9F else 0xBF) c1
          \<and> in_range 0x80 0xBF c2
       then ((b0 - 0xE0) * 4096 + (byte c1 - 0x80) * 64 + (byte c2 - 0x80), 3)
       else (rune_error, 1)
   | _ \<Rightarrow> (rune_error, 1))"

definition decode4 :: "nat \<Rightarrow> string \<Rightarrow> rune \<times> nat" where
  "decode4 b0 cs = (case cs of
     c1 # c2 # c3 # _ \<Rightarrow>
       if in_range (if b0 = 0xF0 then 0x90 else 0x80) (if b0 = 0xF4 then 0x8F else 0xBF) c1
          \<and> in_range 0x80 0xBF c2 \<and> in_range 0x80 0xBF c3
       then ((b0 - 0xF0) * 262144 + (byte c1 - 0x80) * 4096
               + (byte c2 - 0x80) * 64 + (byte c3 - 0x80), 4)
       else (rune_error, 1)
   | _ \<Rightarrow> (rune_error, 1))"

text \<open>\<open>utf8.DecodeRuneInString\<close>: the rune and its width in bytes.\<close>

fun decode_rune :: "string \<Rightarrow> rune \<times> nat" where
  "decode_rune [] = (rune_error, 0)"
| "decode_rune (c0 # cs) =
     (let b0 = byte c0 in
      if b0 < 0x80 then (b0, 1)
      else if 0xC2 \<le> b0 \<and> b0 \<le> 0xDF then decode2 b0 cs
      else if 0xE0 \<le> b0 \<and> b0 \<le> 0xEF then decode3 b0 cs
      else if 0xF0 \<le> b0 \<and> b0 \<le> 0xF4 then decode4 b0 cs
      else (rune_error, 1))"

declare decode_rune.simps(2) [simp del]

text \<open>\<open>WriteRune\<close> and \<open>string(r)\<close>: surrogates and values past U+10FFFF become U+FFFD.\<close>

definition encode_rune :: "rune \<Rightarrow> string" where
  "encode_rune r =
     (if r < 0x80 then [chr r]
      else if r < 0x800 then [chr (0xC0 + r div 64), chr (0x80 + r mod 64)]
      else if \<not> valid_rune r then [chr 0xEF, chr 0xBF, chr 0xBD]
      else if r < 0x10000 then
        [chr (0xE0 + r div 4096), chr (0x80 + (r div 64) mod 64), chr (0x80 + r mod 64)]
      else [chr (0xF0 + r div 262144), chr (0x80 + (r div 4096) mod 64),
            chr (0x80 + (r div 64) mod 64), chr (0x80 + r mod 64)])"

definition encode_runes :: "rune list \<Rightarrow> string" where
  "encode_runes rs = concat (map encode_rune rs)"

lemma encode_runes_simps [simp]:
  "encode_runes [] = []"
  "encode_runes (r # rs) = encode_rune r @ encode_runes rs"
  "encode_runes (rs @ rs') = encode_runes rs @ encode_runes rs'"
  by (simp_all add: encode_runes_def)

lemma valid_rune_error [simp]: "valid_rune rune_error"
  by (simp add: valid_rune_def rune_error_def)

lemma in_rangeE:
  assumes "in_range lo hi c" "0x80 \<le> lo"
  obtains k where "byte c = 0x80 + k" "lo \<le> 0x80 + k" "0x80 + k \<le> hi"
  using assms that [of "byte c - 0x80"] by (simp add: in_range_def)

lemma decode2_ok:
  assumes "0xC2 \<le> b0" "b0 \<le> 0xDF"
  shows "0 < snd (decode2 b0 cs) \<and> snd (decode2 b0 cs) \<le> Suc (length cs)
    \<and> valid_rune (fst (decode2 b0 cs))"
proof (cases cs)
  case Nil
  then show ?thesis by (simp add: decode2_def)
next
  case (Cons c1 cs')
  have "(b0 - 0xC0) * 64 + (byte c1 - 0x80) < 0xD800" if "in_range 0x80 0xBF c1"
    using that assms by (elim in_rangeE) auto
  with Cons show ?thesis by (simp add: decode2_def valid_rune_def [of "_ + _"])
qed

lemma decode3_ok:
  assumes "0xE0 \<le> b0" "b0 \<le> 0xEF"
  shows "0 < snd (decode3 b0 cs) \<and> snd (decode3 b0 cs) \<le> Suc (length cs)
    \<and> valid_rune (fst (decode3 b0 cs))"
proof (cases "2 \<le> length cs")
  case False
  then have "cs = [] \<or> (\<exists>c. cs = [c])" by (cases cs; cases "tl cs") auto
  then show ?thesis by (auto simp: decode3_def)
next
  case True
  then obtain c1 c2 ds where cs: "cs = c1 # c2 # ds"
    by (cases cs; cases "tl cs") auto
  have "valid_rune ((b0 - 0xE0) * 4096 + (byte c1 - 0x80) * 64 + (byte c2 - 0x80))"
    if i1: "in_range (if b0 = 0xE0 then 0xA0 else 0x80) (if b0 = 0xED then 0x9F else 0xBF) c1"
      and i2: "in_range 0x80 0xBF c2"
  proof -
    obtain k1 where k1: "byte c1 = 0x80 + k1" "k1 \<le> 0x3F" "b0 = 0xED \<Longrightarrow> k1 \<le> 0x1F"
      using i1 by (elim in_rangeE) (auto split: if_splits)
    obtain k2 where k2: "byte c2 = 0x80 + k2" "k2 \<le> 0x3F"
      using i2 by (elim in_rangeE) auto
    obtain a where a: "b0 = 0xE0 + a" "a \<le> 0xF"
      using assms by (intro that [of "b0 - 0xE0"]) simp_all
    have "a * 4096 + k1 * 64 + k2 < 0xD800 \<or> 0xE000 \<le> a * 4096 + k1 * 64 + k2"
      using k1 k2 a by (cases "a < 13"; cases "a = 13") auto
    moreover have "a * 4096 + k1 * 64 + k2 \<le> 0x10FFFF" using k1 k2 a by linarith
    ultimately show ?thesis using k1 k2 a by (simp add: valid_rune_def)
  qed
  with cs show ?thesis by (simp add: decode3_def)
qed

lemma decode4_ok:
  assumes "0xF0 \<le> b0" "b0 \<le> 0xF4"
  shows "0 < snd (decode4 b0 cs) \<and> snd (decode4 b0 cs) \<le> Suc (length cs)
    \<and> valid_rune (fst (decode4 b0 cs))"
proof (cases "3 \<le> length cs")
  case False
  then have "cs = [] \<or> (\<exists>c. cs = [c]) \<or> (\<exists>c d. cs = [c, d])"
    by (cases cs; cases "tl cs"; cases "tl (tl cs)") auto
  then show ?thesis by (auto simp: decode4_def)
next
  case True
  then obtain c1 c2 c3 ds where cs: "cs = c1 # c2 # c3 # ds"
    by (cases cs; cases "tl cs"; cases "tl (tl cs)") auto
  have "valid_rune ((b0 - 0xF0) * 262144 + (byte c1 - 0x80) * 4096
      + (byte c2 - 0x80) * 64 + (byte c3 - 0x80))"
    if i1: "in_range (if b0 = 0xF0 then 0x90 else 0x80) (if b0 = 0xF4 then 0x8F else 0xBF) c1"
      and i2: "in_range 0x80 0xBF c2" and i3: "in_range 0x80 0xBF c3"
  proof -
    obtain k1 where k1: "byte c1 = 0x80 + k1" "k1 \<le> 0x3F" "b0 = 0xF0 \<Longrightarrow> 0x10 \<le> k1"
        "b0 = 0xF4 \<Longrightarrow> k1 \<le> 0xF"
      using i1 by (elim in_rangeE) (auto split: if_splits)
    obtain k2 where k2: "byte c2 = 0x80 + k2" "k2 \<le> 0x3F"
      using i2 by (elim in_rangeE) auto
    obtain k3 where k3: "byte c3 = 0x80 + k3" "k3 \<le> 0x3F"
      using i3 by (elim in_rangeE) auto
    obtain a where a: "b0 = 0xF0 + a" "a \<le> 4"
      using assms by (intro that [of "b0 - 0xF0"]) simp_all
    have "0xE000 \<le> a * 262144 + k1 * 4096 + k2 * 64 + k3"
      using k1 k2 k3 a by (cases "a = 0") auto
    moreover have "a * 262144 + k1 * 4096 + k2 * 64 + k3 \<le> 0x10FFFF"
      using k1 k2 k3 a by (cases "a = 4") auto
    ultimately show ?thesis using k1 k2 k3 a by (simp add: valid_rune_def)
  qed
  with cs show ?thesis by (simp add: decode4_def)
qed

lemma decode_rune_ok:
  "0 < snd (decode_rune (c # cs)) \<and> snd (decode_rune (c # cs)) \<le> Suc (length cs)
    \<and> valid_rune (fst (decode_rune (c # cs)))"
proof -
  have "valid_rune (byte c)" if "byte c < 0x80" using that by (simp add: valid_rune_def)
  then show ?thesis
    using decode2_ok [of "byte c" cs] decode3_ok [of "byte c" cs] decode4_ok [of "byte c" cs]
    by (simp add: decode_rune.simps Let_def)
qed

lemma decode_rune_width:
  "s \<noteq> [] \<Longrightarrow> 0 < snd (decode_rune s) \<and> snd (decode_rune s) \<le> length s"
  using decode_rune_ok by (cases s) auto

lemma decode_rune_valid: "valid_rune (fst (decode_rune s))"
  using decode_rune_ok by (cases s) auto

text \<open>\<open>[]rune(s)\<close>, and the runes a \<open>range\<close> loop over \<open>s\<close> visits.\<close>

function runes :: "string \<Rightarrow> rune list" where
  "runes s = (if s = [] then []
              else fst (decode_rune s) # runes (drop (snd (decode_rune s)) s))"
  by pat_completeness auto
termination
proof (relation "measure length")
  show "wf (measure (length :: string \<Rightarrow> nat))" by simp
next
  fix s :: string
  assume "s \<noteq> []"
  with decode_rune_width [of s] show "(drop (snd (decode_rune s)) s, s) \<in> measure length"
    by (cases s) auto
qed

declare runes.simps [simp del]

lemma runes_Nil [simp]: "runes [] = []"
  by (simp add: runes.simps)

lemma runes_unfold:
  "s \<noteq> [] \<Longrightarrow> runes s = fst (decode_rune s) # runes (drop (snd (decode_rune s)) s)"
  by (simp add: runes.simps [of s])

lemma runes_eq_Nil [simp]: "runes s = [] \<longleftrightarrow> s = []"
  by (cases "s = []") (simp_all add: runes_unfold)

definition rune_count :: "string \<Rightarrow> nat" where
  "rune_count s = length (runes s)"

lemma rune_count_Nil [simp]: "rune_count [] = 0"
  by (simp add: rune_count_def)

lemma rune_count_0 [simp]: "rune_count s = 0 \<longleftrightarrow> s = []"
  by (simp add: rune_count_def)

lemma rune_count_le_length: "rune_count s \<le> length s"
proof (induction s rule: runes.induct)
  case (1 s)
  show ?case
  proof (cases "s = []")
    case True
    then show ?thesis by simp
  next
    case False
    with 1 decode_rune_width [OF False] show ?thesis
      by (auto simp: rune_count_def runes_unfold)
  qed
qed

text \<open>Decoding undoes encoding for every rune that UTF-8 can represent.\<close>

lemma decode_encode_2:
  assumes "0x80 \<le> r" "r < 0x800"
  shows "decode_rune (encode_rune r @ s) = (r, length (encode_rune r))"
proof -
  define a l where "a = r div 64" and "l = r mod 64"
  have r: "r = a * 64 + l" unfolding a_def l_def by simp
  have "l < 64" unfolding l_def by simp
  moreover have "a < 32" "2 \<le> a" unfolding a_def using assms by auto
  moreover have "encode_rune r = [chr (0xC0 + a), chr (0x80 + l)]"
    using assms by (simp add: encode_rune_def a_def l_def)
  ultimately show ?thesis
    using r by (simp add: decode_rune.simps decode2_def in_range_def Let_def)
qed

lemma decode_encode_3:
  assumes "0x800 \<le> r" "r < 0x10000" "valid_rune r"
  shows "decode_rune (encode_rune r @ s) = (r, length (encode_rune r))"
proof -
  define a m l where "a = r div 4096" and "m = (r div 64) mod 64" and "l = r mod 64"
  have "r div 4096 = r div 64 div 64" by (simp add: div_mult2_eq [symmetric])
  then have r: "r = a * 4096 + m * 64 + l"
    using div_mult_mod_eq [of r 64] div_mult_mod_eq [of "r div 64" 64]
    unfolding a_def m_def l_def by linarith
  have b: "m < 64" "l < 64" unfolding m_def l_def by simp_all
  have "a < 16" using assms(2) r by linarith
  moreover have "a = 0 \<Longrightarrow> 32 \<le> m" using assms(1) r b by linarith
  moreover have "a = 13 \<Longrightarrow> m \<le> 31"
    using assms(3) r b unfolding valid_rune_def by linarith
  moreover have "encode_rune r = [chr (0xE0 + a), chr (0x80 + m), chr (0x80 + l)]"
    using assms by (simp add: encode_rune_def a_def m_def l_def)
  ultimately show ?thesis
    using b r by (simp add: decode_rune.simps decode3_def in_range_def Let_def)
qed

lemma decode_encode_4:
  assumes "0x10000 \<le> r" "valid_rune r"
  shows "decode_rune (encode_rune r @ s) = (r, length (encode_rune r))"
proof -
  define a h m l where "a = r div 262144" and "h = (r div 4096) mod 64"
    and "m = (r div 64) mod 64" and "l = r mod 64"
  have "r div 4096 = r div 64 div 64" "r div 262144 = r div 4096 div 64"
    by (simp_all add: div_mult2_eq [symmetric])
  then have r: "r = a * 262144 + h * 4096 + m * 64 + l"
    using div_mult_mod_eq [of r 64] div_mult_mod_eq [of "r div 64" 64]
      div_mult_mod_eq [of "r div 4096" 64]
    unfolding a_def h_def m_def l_def by linarith
  have b: "h < 64" "m < 64" "l < 64" unfolding h_def m_def l_def by simp_all
  have u: "r \<le> 0x10FFFF" using assms by (simp add: valid_rune_def)
  have "a < 5" using u r by linarith
  moreover have "a = 0 \<Longrightarrow> 16 \<le> h" using assms(1) r b by linarith
  moreover have "a = 4 \<Longrightarrow> h \<le> 15" using u r b by linarith
  moreover have "encode_rune r = [chr (0xF0 + a), chr (0x80 + h), chr (0x80 + m), chr (0x80 + l)]"
    using assms by (simp add: encode_rune_def a_def h_def m_def l_def)
  ultimately show ?thesis
    using b r by (simp add: decode_rune.simps decode4_def in_range_def Let_def)
qed

lemma decode_encode_rune:
  assumes "valid_rune r"
  shows "decode_rune (encode_rune r @ s) = (r, length (encode_rune r))"
proof -
  consider "r < 0x80" | "0x80 \<le> r" "r < 0x800" | "0x800 \<le> r" "r < 0x10000" | "0x10000 \<le> r"
    by linarith
  then show ?thesis
  proof cases
    case 1
    then show ?thesis by (simp add: encode_rune_def decode_rune.simps)
  next
    case 2
    then show ?thesis by (rule decode_encode_2)
  next
    case 3
    then show ?thesis using assms by (rule decode_encode_3)
  next
    case 4
    then show ?thesis using assms by (rule decode_encode_4)
  qed
qed

lemma encode_rune_nonempty [simp]: "encode_rune r \<noteq> []"
  by (simp add: encode_rune_def)

lemma runes_encode_Cons:
  assumes "valid_rune r"
  shows "runes (encode_rune r @ s) = r # runes s"
  using assms by (simp add: runes_unfold decode_encode_rune)

lemma runes_encode_append:
  "list_all valid_rune rs \<Longrightarrow> runes (encode_runes rs @ s) = rs @ runes s"
  by (induction rs) (simp_all add: runes_encode_Cons)

lemma runes_encode_runes: "list_all valid_rune rs \<Longrightarrow> runes (encode_runes rs) = rs"
  using runes_encode_append [of rs "[]"] by simp

lemma runes_valid: "list_all valid_rune (runes s)"
proof (induction s rule: runes.induct)
  case (1 s)
  then show ?case
    by (cases "s = []") (simp_all add: runes_unfold decode_rune_valid)
qed

definition ascii :: "string \<Rightarrow> bool" where
  "ascii s \<longleftrightarrow> list_all (\<lambda>c. byte c < 0x80) s"

lemma runes_ascii_Cons: "byte c < 0x80 \<Longrightarrow> runes (c # s) = byte c # runes s"
  by (simp add: runes_unfold decode_rune.simps)

lemma runes_ascii_append: "ascii s \<Longrightarrow> runes (s @ t) = map byte s @ runes t"
  by (induction s) (simp_all add: ascii_def runes_ascii_Cons)

lemma runes_ascii: "ascii s \<Longrightarrow> runes s = map byte s"
  using runes_ascii_append [of s "[]"] by simp

text \<open>An ASCII byte is a rune boundary on both sides, whatever bytes surround it.\<close>

lemma decode_rune_append_ascii:
  assumes "s \<noteq> []" "byte c < 0x80"
  shows "decode_rune (s @ c # t) = decode_rune s"
proof -
  have n: "\<not> in_range lo hi c" if "0x80 \<le> lo" for lo hi
    using assms that by (simp add: in_range_def)
  obtain c0 cs where s: "s = c0 # cs" using assms by (cases s) auto
  have "decode2 b (cs @ c # t) = decode2 b cs" for b
    by (cases cs) (simp_all add: decode2_def n)
  moreover have "decode3 b (cs @ c # t) = decode3 b cs" for b
    by (cases cs; cases "tl cs") (simp_all add: decode3_def n split: list.split)
  moreover have "decode4 b (cs @ c # t) = decode4 b cs" for b
    by (cases cs; cases "tl cs"; cases "tl (tl cs)") (simp_all add: decode4_def n split: list.split)
  ultimately show ?thesis by (simp add: s decode_rune.simps Let_def)
qed

lemma runes_append_ascii:
  assumes "byte c < 0x80"
  shows "runes (s @ c # t) = runes s @ byte c # runes t"
proof (induction s rule: runes.induct)
  case (1 s)
  show ?case
  proof (cases "s = []")
    case True
    then show ?thesis by (simp add: runes_ascii_Cons assms)
  next
    case False
    have "snd (decode_rune s) \<le> length s" using decode_rune_width [OF False] by simp
    with 1 [OF False] False show ?thesis
      by (simp add: runes_unfold decode_rune_append_ascii assms)
  qed
qed

lemma rune_count_append_ascii:
  "byte c < 0x80 \<Longrightarrow> rune_count (s @ c # t) = rune_count s + 1 + rune_count t"
  by (simp add: rune_count_def runes_append_ascii)

section \<open>Package strings\<close>

definition LF :: char where "LF = CHR 0x0A"
definition CR :: char where "CR = CHR 0x0D"
definition SP :: char where "SP = CHR 0x20"
definition TAB :: char where "TAB = CHR 0x09"

lemma char_codes [simp]:
  "byte LF = 10" "byte CR = 13" "byte SP = 32" "byte TAB = 9"
  by (simp_all add: LF_def CR_def SP_def TAB_def byte_def)

lemma char_neq [simp]:
  "LF \<noteq> CR" "CR \<noteq> LF" "LF \<noteq> SP" "SP \<noteq> LF" "CR \<noteq> SP" "SP \<noteq> CR" "TAB \<noteq> LF" "LF \<noteq> TAB"
  by (simp_all add: LF_def CR_def SP_def TAB_def)

definition has_prefix :: "string \<Rightarrow> string \<Rightarrow> bool" where
  "has_prefix s p \<longleftrightarrow> take (length p) s = p"

definition has_suffix :: "string \<Rightarrow> string \<Rightarrow> bool" where
  "has_suffix s p \<longleftrightarrow> length p \<le> length s \<and> drop (length s - length p) s = p"

definition trim_suffix :: "string \<Rightarrow> string \<Rightarrow> string" where
  "trim_suffix s p = (if has_suffix s p then take (length s - length p) s else s)"

lemma has_suffix_iff: "has_suffix s p \<longleftrightarrow> (\<exists>u. s = u @ p)"
proof
  assume "has_suffix s p"
  then have "s = take (length s - length p) s @ p"
    unfolding has_suffix_def by (metis append_take_drop_id)
  then show "\<exists>u. s = u @ p" by blast
qed (auto simp: has_suffix_def)

lemma has_suffix_append [simp]: "has_suffix (u @ p) p"
  by (auto simp: has_suffix_iff)

lemma has_suffix_single: "has_suffix s [c] \<longleftrightarrow> s \<noteq> [] \<and> last s = c"
  by (auto simp: has_suffix_iff) (metis append_butlast_last_id)

lemma trim_suffix_append [simp]: "trim_suffix (u @ p) p = u"
  by (simp add: trim_suffix_def)

lemma trim_suffix_id: "\<not> has_suffix s p \<Longrightarrow> trim_suffix s p = s"
  by (simp add: trim_suffix_def)

lemma trim_suffix_single:
  "trim_suffix s [c] = (if s \<noteq> [] \<and> last s = c then butlast s else s)"
  by (auto simp: trim_suffix_def has_suffix_single butlast_conv_take)

lemma trim_suffix_single_snoc [simp]: "trim_suffix (u @ [c]) [c] = u"
  by (simp add: trim_suffix_single)

lemma trim_suffix_prefix: "\<exists>v. s = trim_suffix s p @ v"
  by (auto simp: trim_suffix_def) (metis append_take_drop_id)

lemma set_trim_suffix: "set (trim_suffix s p) \<subseteq> set s"
  by (auto simp: trim_suffix_def dest: in_set_takeD)

text \<open>\<open>strings.Index\<close>: the byte offset of the first occurrence, \<open>None\<close> for -1.\<close>

fun index_of :: "string \<Rightarrow> string \<Rightarrow> nat option" where
  "index_of [] p = (if p = [] then Some 0 else None)"
| "index_of (c # s) p =
     (if has_prefix (c # s) p then Some 0 else map_option Suc (index_of s p))"

lemma has_prefix_Nil [simp]: "has_prefix s []"
  by (simp add: has_prefix_def)

lemma has_prefix_of_Nil [simp]: "has_prefix [] p \<longleftrightarrow> p = []"
  by (auto simp: has_prefix_def)

lemma has_prefix_Cons [simp]:
  "has_prefix (c # s) (d # p) \<longleftrightarrow> c = d \<and> has_prefix s p"
  by (auto simp: has_prefix_def)

lemma has_prefix_iff: "has_prefix s p \<longleftrightarrow> (\<exists>u. s = p @ u)"
  by (metis append_eq_conv_conj append_take_drop_id has_prefix_def)

lemma index_of_Nil [simp]: "index_of s [] = Some 0"
  by (cases s) simp_all

lemma index_of_Some:
  "index_of s p = Some i \<Longrightarrow>
     i + length p \<le> length s \<and> take (length p) (drop i s) = p
     \<and> (\<forall>j < i. \<not> has_prefix (drop j s) p)"
proof (induction s arbitrary: i)
  case Nil
  then show ?case by (auto split: if_splits)
next
  case (Cons c s)
  show ?case
  proof (cases "has_prefix (c # s) p")
    case True
    with Cons.prems show ?thesis
      by (auto simp: has_prefix_def) (metis length_Cons length_take min.cobounded1)
  next
    case False
    with Cons.prems obtain k where k: "index_of s p = Some k" "i = Suc k" by auto
    with Cons.IH [OF k(1)] False show ?thesis by (auto simp: less_Suc_eq_0_disj)
  qed
qed

lemma index_of_None: "index_of s p = None \<Longrightarrow> \<not> has_prefix (drop j s) p"
proof (induction s arbitrary: j)
  case Nil
  then show ?case by (auto split: if_splits)
next
  case (Cons c s)
  then show ?case by (cases j) (auto split: if_splits)
qed

text \<open>\<open>strings.SplitAfter(s, "\n")\<close> and \<open>strings.Split(s, "\n")\<close>.\<close>

fun split_after_nl :: "string \<Rightarrow> string list" where
  "split_after_nl [] = [[]]"
| "split_after_nl (c # cs) =
     (if c = LF then [c] # split_after_nl cs
      else (case split_after_nl cs of [] \<Rightarrow> [[c]] | p # ps \<Rightarrow> (c # p) # ps))"

fun split_nl :: "string \<Rightarrow> string list" where
  "split_nl [] = [[]]"
| "split_nl (c # cs) =
     (if c = LF then [] # split_nl cs
      else (case split_nl cs of [] \<Rightarrow> [[c]] | p # ps \<Rightarrow> (c # p) # ps))"

lemma split_after_nl_nonempty [simp]: "split_after_nl s \<noteq> []"
  by (induction s) (auto split: list.splits)

lemma split_nl_nonempty [simp]: "split_nl s \<noteq> []"
  by (induction s) (auto split: list.splits)

lemma concat_split_after_nl: "concat (split_after_nl s) = s"
  by (induction s) (auto split: list.splits)

text \<open>A newline ends a part: no part holds one before its last byte, and all parts but the
  last end in one.\<close>

lemma split_after_nl_parts:
  "\<forall>p \<in> set (split_after_nl s). LF \<notin> set (butlast p)"
proof (induction s)
  case Nil
  then show ?case by simp
next
  case (Cons c s)
  then show ?case by (cases "split_after_nl s") auto
qed

lemma split_after_nl_init:
  "\<forall>p \<in> set (butlast (split_after_nl s)). p \<noteq> [] \<and> last p = LF"
proof (induction s)
  case Nil
  then show ?case by simp
next
  case (Cons c s)
  then show ?case by (cases "split_after_nl s") (auto split: if_splits)
qed

lemma split_nl_no_newline: "p \<in> set (split_nl s) \<Longrightarrow> LF \<notin> set p"
proof (induction s arbitrary: p)
  case Nil
  then show ?case by simp
next
  case (Cons c s)
  then show ?case by (cases "split_nl s") (auto split: if_splits)
qed

text \<open>\<open>strings.Join\<close> and \<open>strings.Repeat(" ", n)\<close>.\<close>

fun join :: "string \<Rightarrow> string list \<Rightarrow> string" where
  "join sep [] = []"
| "join sep [x] = x"
| "join sep (x # y # xs) = x @ sep @ join sep (y # xs)"

definition spaces :: "nat \<Rightarrow> string" where
  "spaces n = replicate n SP"

lemma join_split_nl: "join [LF] (split_nl s) = s"
proof (induction s)
  case Nil
  then show ?case by simp
next
  case (Cons c s)
  obtain p ps where p: "split_nl s = p # ps" by (cases "split_nl s") auto
  with Cons show ?case by (cases ps) auto
qed

definition count_byte :: "char \<Rightarrow> string \<Rightarrow> nat" where
  "count_byte c s = length (filter (\<lambda>d. d = c) s)"

text \<open>\<open>strings.TrimLeft(s, cut)\<close> and \<open>strings.TrimRight(s, cut)\<close> for ASCII cutsets.\<close>

definition trim_left :: "char set \<Rightarrow> string \<Rightarrow> string" where
  "trim_left cs s = dropWhile (\<lambda>c. c \<in> cs) s"

definition trim_right :: "char set \<Rightarrow> string \<Rightarrow> string" where
  "trim_right cs s = rev (dropWhile (\<lambda>c. c \<in> cs) (rev s))"

text \<open>The part of \<open>strings.Cut(s, "\n")\<close> before the separator.\<close>

definition cut_line :: "string \<Rightarrow> string" where
  "cut_line s = takeWhile (\<lambda>c. c \<noteq> LF) s"

section \<open>Numbers in decimal\<close>

definition digit :: "nat \<Rightarrow> char" where
  "digit d = chr (48 + d)"

fun nat_digits :: "nat \<Rightarrow> string" where
  "nat_digits n = (if n < 10 then [digit n] else nat_digits (n div 10) @ [digit (n mod 10)])"

declare nat_digits.simps [simp del]

text \<open>The verb \<open>%d\<close>.\<close>

definition itoa :: "int \<Rightarrow> string" where
  "itoa i = (if i < 0 then CHR ''-'' # nat_digits (nat (- i)) else nat_digits (nat i))"

text \<open>The verb \<open>%4d\<close>: padded with spaces on the left to width 4.\<close>

definition itoa4 :: "int \<Rightarrow> string" where
  "itoa4 i = spaces (4 - length (itoa i)) @ itoa i"

lemma byte_digit: "d < 10 \<Longrightarrow> byte (digit d) = 48 + d"
  by (simp add: digit_def)

lemma digit_inj: "d < 10 \<Longrightarrow> e < 10 \<Longrightarrow> digit d = digit e \<longleftrightarrow> d = e"
  by (metis add_left_cancel byte_digit)

definition is_digit :: "char \<Rightarrow> bool" where
  "is_digit c \<longleftrightarrow> 48 \<le> byte c \<and> byte c \<le> 57"

lemma nat_digits_are_digits: "c \<in> set (nat_digits n) \<Longrightarrow> is_digit c"
proof (induction n rule: nat_digits.induct)
  case (1 n)
  show ?case
  proof (cases "n < 10")
    case True
    with 1 show ?thesis by (auto simp: nat_digits.simps [of n] is_digit_def byte_digit)
  next
    case False
    have "is_digit (digit (n mod 10))" by (simp add: is_digit_def byte_digit)
    with 1 False show ?thesis by (auto simp: nat_digits.simps [of n])
  qed
qed

lemma nat_digits_nonempty [simp]: "nat_digits n \<noteq> []"
  by (subst nat_digits.simps) simp

text \<open>Decimal notation is injective.\<close>

definition digits_value :: "string \<Rightarrow> nat" where
  "digits_value s = foldl (\<lambda>v c. 10 * v + (byte c - 48)) 0 s"

lemma digits_value_nat_digits: "digits_value (nat_digits n) = n"
proof (induction n rule: nat_digits.induct)
  case (1 n)
  show ?case
  proof (cases "n < 10")
    case True
    then show ?thesis by (simp add: nat_digits.simps [of n] digits_value_def byte_digit)
  next
    case False
    with 1 show ?thesis
      by (simp add: nat_digits.simps [of n] digits_value_def byte_digit)
  qed
qed

lemma nat_digits_inj [simp]: "nat_digits m = nat_digits n \<longleftrightarrow> m = n"
  by (metis digits_value_nat_digits)

lemma nat_digits_no_char: "\<not> is_digit c \<Longrightarrow> c \<notin> set (nat_digits n)"
  using nat_digits_are_digits by blast

lemma itoa_inj [simp]: "itoa i = itoa j \<longleftrightarrow> i = j"
proof -
  have m: "CHR ''-'' \<notin> set (nat_digits n)" for n
    by (rule nat_digits_no_char) (simp add: is_digit_def byte_def)
  have "nat_digits n \<noteq> CHR ''-'' # nat_digits k" "CHR ''-'' # nat_digits k \<noteq> nat_digits n" for n k
    using m [of n] by (metis list.set_intros(1))+
  then show ?thesis by (auto simp: itoa_def)
qed

end
