(* ===== verification/Positions.thy ===== *)
theory Positions
  imports Go_Strings
begin

text \<open>
  Package \<open>position\<close>: 0-indexed positions, half-open ranges of positions, half-open spans of
  integers, the grouping of change indices into hunk spans, and prefix sums. Go's \<open>int\<close> is
  modelled by \<open>int\<close>: every value is a line or column number of a document in memory, far
  below \<open>2^63\<close>.
\<close>

section \<open>Positions and ranges\<close>

definition maxCol :: int where
  "maxCol = 1000000"

record position =
  pline :: int
  pcol :: int

abbreviation New :: "int \<Rightarrow> int \<Rightarrow> position" where
  "New l c \<equiv> \<lparr>pline = l, pcol = c\<rparr>"

text \<open>A token's \<open>Position\<close>, as the go-yaml lexer fills it in (1-indexed).\<close>

record token_position =
  tline :: int
  tcolumn :: int
  toffset :: int
  tindent_num :: int
  tindent_level :: int

text \<open>The argument is the token's position, \<open>None\<close> when the token or its position is nil.\<close>

definition NewFromToken :: "token_position option \<Rightarrow> position" where
  "NewFromToken tp = (case tp of
     None \<Rightarrow> New 0 0
   | Some p \<Rightarrow> New (max 0 (tline p - 1)) (max 0 (tcolumn p - 1)))"

definition position_String :: "position \<Rightarrow> string" where
  "position_String p = itoa (pline p + 1) @ '':'' @ itoa (pcol p + 1)"

record range =
  rstart :: position
  rend :: position

abbreviation NewRange :: "position \<Rightarrow> position \<Rightarrow> range" where
  "NewRange s e \<equiv> \<lparr>rstart = s, rend = e\<rparr>"

definition range_Contains :: "range \<Rightarrow> position \<Rightarrow> bool" where
  "range_Contains r pos =
     (if pline pos < pline (rstart r)
         \<or> (pline pos = pline (rstart r) \<and> pcol pos < pcol (rstart r)) then False
      else if pline pos > pline (rend r)
         \<or> (pline pos = pline (rend r) \<and> pcol pos \<ge> pcol (rend r)) then False
      else True)"

definition range_String :: "range \<Rightarrow> string" where
  "range_String r = position_String (rstart r) @ ''-'' @ position_String (rend r)"

text \<open>\<open>SliceLines\<close>; \<open>make\<close> panics (\<open>None\<close>) on a negative length.\<close>

definition slice_line :: "range \<Rightarrow> int \<Rightarrow> int \<Rightarrow> range" where
  "slice_line r lineCount i =
     (let ln = pline (rstart r) + i in
      if i = 0 then NewRange (New ln (pcol (rstart r))) (New ln maxCol)
      else if i = lineCount - 1 then NewRange (New ln 0) (New ln (pcol (rend r)))
      else NewRange (New ln 0) (New ln maxCol))"

definition SliceLines :: "range \<Rightarrow> range list option" where
  "SliceLines r =
     (if pline (rstart r) = pline (rend r) then Some [r]
      else let lineCount = pline (rend r) - pline (rstart r) + 1 in
        if lineCount < 0 then None
        else Some (map (\<lambda>i. slice_line r lineCount (int i)) [0..<nat lineCount]))"

text \<open>Positions are ordered by line, then column, as the viewport sorts search matches.\<close>

instantiation position_ext :: (linorder) linorder
begin

definition less_eq_position_ext ::
  "'a position_scheme \<Rightarrow> 'a position_scheme \<Rightarrow> bool" where
  "less_eq_position_ext p q \<longleftrightarrow>
     pline p < pline q \<or> (pline p = pline q
       \<and> (pcol p < pcol q \<or> (pcol p = pcol q \<and> position.more p \<le> position.more q)))"

definition less_position_ext ::
  "'a position_scheme \<Rightarrow> 'a position_scheme \<Rightarrow> bool" where
  "less_position_ext p q \<longleftrightarrow> p \<le> q \<and> \<not> q \<le> p"

instance
  by standard (auto simp: less_eq_position_ext_def less_position_ext_def)

end

lemma position_le_iff:
  "(p :: position) \<le> q \<longleftrightarrow> pline p < pline q \<or> (pline p = pline q \<and> pcol p \<le> pcol q)"
  by (auto simp: less_eq_position_ext_def)

lemma position_less_iff:
  "(p :: position) < q \<longleftrightarrow> pline p < pline q \<or> (pline p = pline q \<and> pcol p < pcol q)"
  by (auto simp: less_position_ext_def less_eq_position_ext_def)

lemma range_Contains_iff [span_simps]:
  "range_Contains r pos \<longleftrightarrow> rstart r \<le> pos \<and> pos < rend r"
  by (auto simp: range_Contains_def position_le_iff position_less_iff)

section \<open>Spans\<close>

record span =
  sstart :: int
  send :: int

abbreviation NewSpan :: "int \<Rightarrow> int \<Rightarrow> span" where
  "NewSpan s e \<equiv> \<lparr>sstart = s, send = e\<rparr>"

definition span_Len :: "span \<Rightarrow> int" where
  "span_Len s = send s - sstart s"

definition span_Contains :: "span \<Rightarrow> int \<Rightarrow> bool" where
  "span_Contains s v \<longleftrightarrow> v \<ge> sstart s \<and> v < send s"

definition span_Overlaps :: "span \<Rightarrow> span \<Rightarrow> bool" where
  "span_Overlaps s other =
     (if sstart s \<ge> send s \<or> sstart other \<ge> send other then False
      else sstart s < send other \<and> send s > sstart other)"

definition span_String :: "span \<Rightarrow> string" where
  "span_String s = itoa (sstart s) @ ''-'' @ itoa (send s)"

definition Expand :: "span list \<Rightarrow> int \<Rightarrow> span list" where
  "Expand ss amount = map (\<lambda>s. NewSpan (sstart s - amount) (send s + amount)) ss"

definition Clamp :: "span list \<Rightarrow> int \<Rightarrow> int \<Rightarrow> span list" where
  "Clamp ss lower upper = map (\<lambda>s. NewSpan (max (sstart s) lower) (min (send s) upper)) ss"

section \<open>Collections of ranges\<close>

fun unique_loop :: "range set \<Rightarrow> range list \<Rightarrow> range list" where
  "unique_loop seen [] = []"
| "unique_loop seen (r # rs) =
     (if r \<in> seen then unique_loop seen rs else r # unique_loop (insert r seen) rs)"

definition UniqueValues :: "range list \<Rightarrow> range list" where
  "UniqueValues rs = unique_loop {} rs"

definition LineIndices :: "range list \<Rightarrow> int list" where
  "LineIndices rs = concat (map (\<lambda>r. [pline (rstart r)..pline (rend r)]) rs)"

definition ranges_String :: "range list \<Rightarrow> string" where
  "ranges_String rs = join '', '' (map range_String rs)"

section \<open>Grouping indices\<close>

definition group_step :: "int \<Rightarrow> span list \<Rightarrow> int \<Rightarrow> span list" where
  "group_step threshold spans idx =
     (let lastSpan = last spans in
      if idx < send lastSpan + threshold
      then butlast spans @ [lastSpan\<lparr>send := idx + 1\<rparr>]
      else spans @ [NewSpan idx (idx + 1)])"

definition GroupIndices :: "int list \<Rightarrow> int \<Rightarrow> span list" where
  "GroupIndices indices ctx = (case indices of
     [] \<Rightarrow> []
   | i # is \<Rightarrow> foldl (group_step (ctx * 2 + 1)) [NewSpan i (i + 1)] is)"

section \<open>Prefix sums\<close>

fun sums_from :: "int \<Rightarrow> int list \<Rightarrow> int list" where
  "sums_from acc [] = [acc]"
| "sums_from acc (v # vs) = acc # sums_from (acc + v) vs"

definition NewPrefixSums :: "nat \<Rightarrow> (nat \<Rightarrow> int) \<Rightarrow> int list" where
  "NewPrefixSums n valueFn = sums_from 0 (map valueFn [0..<n])"

text \<open>\<open>At\<close> and \<open>Range\<close> index the slice of sums, and panic (\<open>None\<close>) out of range.\<close>

definition sums_At :: "int list \<Rightarrow> int \<Rightarrow> int option" where
  "sums_At sums i = slice_get sums i"

definition sums_Range :: "int list \<Rightarrow> span \<Rightarrow> int option" where
  "sums_Range sums s = (case (slice_get sums (send s), slice_get sums (sstart s)) of
     (Some e, Some b) \<Rightarrow> Some (e - b) | _ \<Rightarrow> None)"

section \<open>Facts about ranges and spans\<close>

lemma span_Contains_iff [span_simps]: "span_Contains s v \<longleftrightarrow> sstart s \<le> v \<and> v < send s"
  by (auto simp: span_Contains_def)

lemma span_Overlaps_iff [span_simps]:
  "span_Overlaps s t \<longleftrightarrow> (\<exists>v. span_Contains s v \<and> span_Contains t v)"
proof
  assume "span_Overlaps s t"
  then have "span_Contains s (max (sstart s) (sstart t))"
    "span_Contains t (max (sstart s) (sstart t))"
    by (auto simp: span_Overlaps_def span_Contains_def split: if_splits)
  then show "\<exists>v. span_Contains s v \<and> span_Contains t v" by blast
qed (auto simp: span_Overlaps_def span_Contains_def)

lemma unique_loop_set: "set (unique_loop seen rs) = set rs - seen"
  by (induction rs arbitrary: seen) auto

lemma unique_loop_distinct: "distinct (unique_loop seen rs)"
  by (induction rs arbitrary: seen) (auto simp: unique_loop_set)

lemma unique_loop_subseq: "subseq (unique_loop seen rs) rs"
  by (induction rs arbitrary: seen) auto

lemma sums_from_length [simp]: "length (sums_from acc vs) = Suc (length vs)"
  by (induction vs arbitrary: acc) auto

lemma sums_from_nth: "i \<le> length vs \<Longrightarrow> sums_from acc vs ! i = acc + sum_list (take i vs)"
proof (induction vs arbitrary: acc i)
  case Nil
  then show ?case by simp
next
  case (Cons v vs)
  then show ?case by (cases i) auto
qed

lemma NewPrefixSums_At:
  "i \<le> n \<Longrightarrow> sums_At (NewPrefixSums n f) (int i) = Some (\<Sum>k < i. f k)"
  by (simp add: sums_At_def slice_get_def NewPrefixSums_def sums_from_nth take_map
      sum_list_map_eq_sum_count2 interv_sum_list_conv_sum_set_nat atLeast0LessThan)

lemma NewPrefixSums_Range:
  assumes "i \<le> j" "j \<le> n"
  shows "sums_Range (NewPrefixSums n f) (NewSpan (int i) (int j)) = Some (\<Sum>k = i..<j. f k)"
proof -
  have "sum f {..<j} = sum f {..<i} + sum f {i..<j}"
    using assms sum.atLeastLessThan_concat [of 0 i j f] by (simp add: atLeast0LessThan)
  then show ?thesis
    using assms NewPrefixSums_At [of i n f] NewPrefixSums_At [of j n f]
    by (simp add: sums_Range_def sums_At_def)
qed

text \<open>A multi-line range is covered exactly by its per-line slices, up to \<open>maxCol\<close>.\<close>

lemma slice_line_Contains:
  assumes lt: "pline (rstart r) < pline (rend r)" and p: "0 \<le> pcol p" "pcol p < maxCol"
    and n: "lineCount = pline (rend r) - pline (rstart r) + 1" and i: "0 \<le> i" "i < lineCount"
  shows "range_Contains (slice_line r lineCount i) p
    \<longleftrightarrow> pline p = pline (rstart r) + i \<and> range_Contains r p"
proof -
  consider "i = 0" | "i \<noteq> 0" "i = lineCount - 1" | "i \<noteq> 0" "i \<noteq> lineCount - 1" by blast
  then show ?thesis
  proof cases
    case 1
    then have "slice_line r lineCount i = NewRange (New (pline (rstart r)) (pcol (rstart r)))
        (New (pline (rstart r)) maxCol)"
      by (simp add: slice_line_def Let_def)
    then have "range_Contains (slice_line r lineCount i) p
        \<longleftrightarrow> pline p = pline (rstart r) \<and> pcol (rstart r) \<le> pcol p"
      using p by (auto simp: range_Contains_iff position_le_iff position_less_iff)
    moreover have "range_Contains r p \<longleftrightarrow> pcol (rstart r) \<le> pcol p"
      if "pline p = pline (rstart r)"
      using that lt by (simp add: range_Contains_iff position_le_iff position_less_iff)
    ultimately show ?thesis using 1 by auto
  next
    case 2
    then have "slice_line r lineCount i
        = NewRange (New (pline (rend r)) 0) (New (pline (rend r)) (pcol (rend r)))"
      using n by (simp add: slice_line_def Let_def)
    then have "range_Contains (slice_line r lineCount i) p
        \<longleftrightarrow> pline p = pline (rend r) \<and> pcol p < pcol (rend r)"
      using p by (auto simp: range_Contains_iff position_le_iff position_less_iff)
    moreover have "range_Contains r p \<longleftrightarrow> pcol p < pcol (rend r)"
      if "pline p = pline (rend r)"
      using that lt by (simp add: range_Contains_iff position_le_iff position_less_iff)
    moreover have "pline (rstart r) + i = pline (rend r)" using 2 n by simp
    ultimately show ?thesis by auto
  next
    case 3
    then have "slice_line r lineCount i = NewRange (New (pline (rstart r) + i) 0)
        (New (pline (rstart r) + i) maxCol)"
      by (simp add: slice_line_def Let_def)
    moreover have "0 < i" "i < pline (rend r) - pline (rstart r)" using 3 i n by auto
    ultimately have "range_Contains (slice_line r lineCount i) p
        \<longleftrightarrow> pline p = pline (rstart r) + i"
      using p by (auto simp: range_Contains_iff position_le_iff position_less_iff)
    moreover have "range_Contains r p" if "pline p = pline (rstart r) + i"
      using that \<open>0 < i\<close> \<open>i < pline (rend r) - pline (rstart r)\<close>
      by (simp add: range_Contains_iff position_le_iff position_less_iff)
    ultimately show ?thesis by auto
  qed
qed

lemma SliceLines_total: "pline (rstart r) \<le> pline (rend r) \<Longrightarrow> \<exists>rs. SliceLines r = Some rs"
  by (simp add: SliceLines_def Let_def)

lemma SliceLines_one_line:
  assumes "SliceLines r = Some rs" "s \<in> set rs"
  shows "pline (rstart s) = pline (rend s) \<and> pline (rstart r) \<le> pline (rstart s)
    \<and> pline (rstart s) \<le> pline (rend r)"
  using assms by (auto simp: SliceLines_def Let_def slice_line_def split: if_splits)

lemma SliceLines_Contains:
  assumes "SliceLines r = Some rs" "pline (rstart r) \<le> pline (rend r)"
    and "0 \<le> pcol p" "pcol p < maxCol"
  shows "(\<exists>s \<in> set rs. range_Contains s p) \<longleftrightarrow> range_Contains r p"
proof (cases "pline (rstart r) = pline (rend r)")
  case True
  with assms(1) have "rs = [r]" by (simp add: SliceLines_def)
  then show ?thesis by simp
next
  case False
  with assms have lt: "pline (rstart r) < pline (rend r)" by simp
  define n where "n = pline (rend r) - pline (rstart r) + 1"
  from lt assms(1) have rs: "rs = map (\<lambda>i. slice_line r n (int i)) [0..<nat n]"
    by (simp add: SliceLines_def Let_def n_def)
  have "(\<exists>s \<in> set rs. range_Contains s p)
    \<longleftrightarrow> (\<exists>i < nat n. pline p = pline (rstart r) + int i \<and> range_Contains r p)"
    using slice_line_Contains [OF lt assms(3,4) n_def] by (auto simp: rs)
  also have "\<dots> \<longleftrightarrow> range_Contains r p"
  proof
    assume c: "range_Contains r p"
    then have "pline (rstart r) \<le> pline p" "pline p \<le> pline (rend r)"
      by (auto simp: range_Contains_iff position_le_iff position_less_iff)
    then have "nat (pline p - pline (rstart r)) < nat n
      \<and> pline p = pline (rstart r) + int (nat (pline p - pline (rstart r)))"
      by (simp add: n_def)
    with c show "\<exists>i < nat n. pline p = pline (rstart r) + int i \<and> range_Contains r p" by blast
  qed auto
  finally show ?thesis .
qed


section \<open>Hunk spans\<close>

text \<open>
  What grouping means: the grouped spans, widened by the context, cover exactly the lines
  within the context of an index, and consecutive spans stay more than twice the context
  apart. \<open>group_inv I c ss\<close> says so of the spans built for the indices in \<open>I\<close>.
\<close>

definition group_inv :: "int set \<Rightarrow> int \<Rightarrow> span list \<Rightarrow> bool" where
  "group_inv I c ss \<longleftrightarrow> ss \<noteq> []
     \<and> (\<forall>j. (\<exists>s \<in> set ss. sstart s - c \<le> j \<and> j < send s + c) \<longleftrightarrow> (\<exists>i \<in> I. \<bar>i - j\<bar> \<le> c))
     \<and> sorted_wrt (\<lambda>s t. send s + (2 * c + 1) \<le> sstart t) ss
     \<and> (\<forall>s \<in> set ss. sstart s < send s)
     \<and> (\<forall>s \<in> set ss. sstart s \<in> I \<and> send s - 1 \<in> I)
     \<and> (\<forall>i \<in> I. i < send (last ss))"

lemma group_inv_single: "0 \<le> c \<Longrightarrow> group_inv {i} c [NewSpan i (i + 1)]"
  by (auto simp: group_inv_def)

lemma group_inv_step:
  assumes inv: "group_inv I c ss" and c: "0 \<le> c" and idx: "\<forall>i \<in> I. i \<le> idx"
  shows "group_inv (insert idx I) c (group_step (c * 2 + 1) ss idx)"
proof -
  obtain us l where ss: "ss = us @ [l]"
    using inv by (cases ss rule: rev_cases) (auto simp: group_inv_def)
  note inv' = inv [unfolded group_inv_def ss]
  have cover: "(\<exists>s \<in> set us. sstart s - c \<le> j \<and> j < send s + c)
      \<or> (sstart l - c \<le> j \<and> j < send l + c) \<longleftrightarrow> (\<exists>i \<in> I. \<bar>i - j\<bar> \<le> c)" for j
    using inv' by auto
  have l: "sstart l < send l" "sstart l \<in> I" "send l - 1 \<in> I" and I: "\<forall>i \<in> I. i < send l"
    using inv' by auto
  have le: "send l \<le> idx + 1" "sstart l \<le> idx" using idx l by auto
  show ?thesis
  proof (cases "idx < send l + (c * 2 + 1)")
    case True
    have "(\<exists>s \<in> set us. sstart s - c \<le> j \<and> j < send s + c)
        \<or> (sstart l - c \<le> j \<and> j < idx + 1 + c)
        \<longleftrightarrow> (\<exists>i \<in> insert idx I. \<bar>i - j\<bar> \<le> c)" for j
      using cover [of j] True le by auto
    with True inv' le show ?thesis
      by (auto simp: group_inv_def group_step_def ss sorted_wrt_append)
  next
    case False
    have "(\<exists>s \<in> set ss. sstart s - c \<le> j \<and> j < send s + c) \<or> (idx - c \<le> j \<and> j < idx + 1 + c)
        \<longleftrightarrow> (\<exists>i \<in> insert idx I. \<bar>i - j\<bar> \<le> c)" for j
      using cover [of j] ss by auto
    moreover have "\<forall>s \<in> set ss. send s \<le> send l"
      using inv' c by (auto simp: ss sorted_wrt_append) (smt (verit))
    ultimately show ?thesis
      using False inv' le by (auto simp: group_inv_def group_step_def ss sorted_wrt_append)
  qed
qed

lemma group_inv_foldl:
  assumes "group_inv I c ss" "0 \<le> c" "sorted is" "\<forall>i \<in> I. \<forall>k \<in> set is. i \<le> k"
  shows "group_inv (I \<union> set is) c (foldl (group_step (c * 2 + 1)) ss is)"
  using assms
proof (induction "is" arbitrary: I ss)
  case Nil
  then show ?case by simp
next
  case (Cons k ks)
  have "group_inv (insert k I) c (group_step (c * 2 + 1) ss k)"
    using Cons.prems by (intro group_inv_step) auto
  from Cons.IH [OF this] Cons.prems
  have "group_inv (insert k I \<union> set ks) c
      (foldl (group_step (c * 2 + 1)) (group_step (c * 2 + 1) ss k) ks)" by auto
  then show ?case by simp
qed

lemma GroupIndices_inv:
  assumes "0 \<le> c" "sorted is" "is \<noteq> []"
  shows "group_inv (set is) c (GroupIndices is c)"
proof -
  obtain i ks where "is": "is = i # ks" using assms by (cases "is") auto
  have "group_inv ({i} \<union> set ks) c (foldl (group_step (c * 2 + 1)) [NewSpan i (i + 1)] ks)"
    using assms "is" by (intro group_inv_foldl group_inv_single) auto
  then show ?thesis by (simp add: GroupIndices_def "is")
qed

text \<open>The chain that both the diff hunks and the error hunks go through.\<close>

definition hunk_spans :: "int list \<Rightarrow> int \<Rightarrow> int \<Rightarrow> span list" where
  "hunk_spans indices ctx n = Clamp (Expand (GroupIndices indices ctx) ctx) 0 n"

lemma hunk_spans_Nil [simp]: "hunk_spans [] c n = []"
  by (simp add: hunk_spans_def GroupIndices_def Expand_def Clamp_def)

lemma hunk_spans_Contains:
  assumes "0 \<le> c" "sorted is"
  shows "(\<exists>s \<in> set (hunk_spans is c n). span_Contains s j)
    \<longleftrightarrow> 0 \<le> j \<and> j < n \<and> (\<exists>i \<in> set is. \<bar>i - j\<bar> \<le> c)"
proof (cases "is = []")
  case True
  then show ?thesis by simp
next
  case False
  with GroupIndices_inv [OF assms] have
    "(\<exists>s \<in> set (GroupIndices is c). sstart s - c \<le> j \<and> j < send s + c)
      \<longleftrightarrow> (\<exists>i \<in> set is. \<bar>i - j\<bar> \<le> c)"
    by (simp add: group_inv_def)
  moreover have "(\<exists>s \<in> set (hunk_spans is c n). span_Contains s j)
      \<longleftrightarrow> 0 \<le> j \<and> j < n \<and> (\<exists>s \<in> set (GroupIndices is c). sstart s - c \<le> j \<and> j < send s + c)"
    by (auto simp: hunk_spans_def Clamp_def Expand_def span_Contains_def)
  ultimately show ?thesis by simp
qed

lemma hunk_spans_bounds:
  assumes "0 \<le> c" "sorted is" "\<forall>i \<in> set is. 0 \<le> i \<and> i < n" "s \<in> set (hunk_spans is c n)"
  shows "0 \<le> sstart s \<and> sstart s < send s \<and> send s \<le> n"
proof -
  have "is \<noteq> []" using assms(4) by auto
  with GroupIndices_inv [OF assms(1,2)] have inv: "group_inv (set is) c (GroupIndices is c)"
    by blast
  from assms(4) obtain g where g: "g \<in> set (GroupIndices is c)"
    "sstart s = max (sstart g - c) 0" "send s = min (send g + c) n"
    by (auto simp: hunk_spans_def Clamp_def Expand_def)
  have g': "sstart g < send g" "sstart g \<in> set is" "send g - 1 \<in> set is"
    using inv g(1) by (auto simp: group_inv_def)
  with assms(3) have "0 \<le> sstart g" "sstart g < n" "send g \<le> n" "0 < send g" by fastforce+
  with assms(1) g g'(1) show ?thesis by auto
qed

lemma hunk_spans_gap:
  assumes "0 \<le> c" "sorted is"
  shows "sorted_wrt (\<lambda>s t. send s < sstart t) (hunk_spans is c n)"
proof (cases "is = []")
  case True
  then show ?thesis by simp
next
  case False
  with GroupIndices_inv [OF assms] have
    "sorted_wrt (\<lambda>s t. send s + (2 * c + 1) \<le> sstart t) (GroupIndices is c)"
    by (simp add: group_inv_def)
  then show ?thesis
    unfolding hunk_spans_def Clamp_def Expand_def sorted_wrt_map
    by (rule sorted_wrt_mono_rel [rotated]) auto
qed

section \<open>Properties\<close>

text \<open>The hunks around a sorted list of line indices cover exactly the lines of the file
  that lie within the context of some index; they come in order with at least one uncovered
  line between neighbours, and none is empty or leaves the file.\<close>

theorem hunks_exact:
  assumes "0 \<le> c" "sorted is" "\<forall>i \<in> set is. 0 \<le> i \<and> i < n"
  shows "((\<exists>s \<in> set (Clamp (Expand (GroupIndices is c) c) 0 n). span_Contains s j)
          \<longleftrightarrow> 0 \<le> j \<and> j < n \<and> (\<exists>i \<in> set is. \<bar>i - j\<bar> \<le> c))
    \<and> sorted_wrt (\<lambda>s t. send s < sstart t) (Clamp (Expand (GroupIndices is c) c) 0 n)
    \<and> (\<forall>s \<in> set (Clamp (Expand (GroupIndices is c) c) 0 n).
          0 \<le> sstart s \<and> sstart s < send s \<and> send s \<le> n)"
  using hunk_spans_Contains [OF assms(1,2), of n j] hunk_spans_gap [OF assms(1,2), of n]
    hunk_spans_bounds [OF assms] by (simp add: hunk_spans_def)

theorem hunks_exact_witness:
  "Clamp (Expand (GroupIndices [2, 3, 9] 1) 1) 0 10 = [NewSpan 1 5, NewSpan 8 10]
   \<and> (\<exists>s \<in> set (Clamp (Expand (GroupIndices [2, 3, 9] 1) 1) 0 10). span_Contains s 4)"
  using hunks_exact [of 1 "[2, 3, 9]" 10 4]
  by (simp add: GroupIndices_def group_step_def Clamp_def Expand_def Let_def)

text \<open>Slicing a range into lines neither loses nor adds a position (with columns below the
  package's column limit), and every slice stays on one line of the range; it only panics on a
  range that ends before the line it starts on.\<close>

theorem SliceLines_exact:
  assumes "pline (rstart r) \<le> pline (rend r)" "0 \<le> pcol p" "pcol p < maxCol"
  shows "\<exists>rs. SliceLines r = Some rs
    \<and> ((\<exists>s \<in> set rs. range_Contains s p) \<longleftrightarrow> range_Contains r p)
    \<and> (\<forall>s \<in> set rs. pline (rstart s) = pline (rend s)
          \<and> pline (rstart r) \<le> pline (rstart s) \<and> pline (rstart s) \<le> pline (rend r))"
proof -
  obtain rs where rs: "SliceLines r = Some rs" using SliceLines_total [OF assms(1)] by blast
  with SliceLines_Contains [OF rs assms] SliceLines_one_line [OF rs] show ?thesis by blast
qed

theorem SliceLines_exact_witness:
  "\<exists>rs. SliceLines (NewRange (New 1 4) (New 3 2)) = Some rs
    \<and> (\<exists>s \<in> set rs. range_Contains s (New 2 7))"
  using SliceLines_exact [of "NewRange (New 1 4) (New 3 2)" "New 2 7"]
  by (auto simp: maxCol_def range_Contains_iff position_le_iff position_less_iff)

end
