(* ===== verification/Styles.thy ===== *)
theory Styles
  imports Prelude
begin

text \<open>
  Package \<open>style\<close>: the style categories, their inheritance table, and style sets
  (\<open>Styles\<close>). A \<open>lipgloss.Style\<close> is a value of a third-party type; it is the type
  parameter \<open>'ls\<close> here, and only stored, copied and looked up. A \<open>Styles\<close> map, Go's
  \<open>map[Style]*lipgloss.Style\<close>, is a HOL map from category names.
\<close>

type_synonym style = string

section \<open>Categories\<close>

text \<open>The constants of the package, in their order.\<close>

abbreviation style_Text :: style where "style_Text \<equiv> ''text''"
abbreviation style_TextAccent :: style where "style_TextAccent \<equiv> ''textAccent''"
abbreviation style_TextAccentDim :: style where "style_TextAccentDim \<equiv> ''textAccentDim''"
abbreviation style_TextSubtle :: style where "style_TextSubtle \<equiv> ''textSubtle''"
abbreviation style_TextSubtleDim :: style where "style_TextSubtleDim \<equiv> ''textSubtleDim''"
abbreviation style_TextOK :: style where "style_TextOK \<equiv> ''textOK''"
abbreviation style_TextWarn :: style where "style_TextWarn \<equiv> ''textWarn''"
abbreviation style_TextError :: style where "style_TextError \<equiv> ''textError''"
abbreviation style_Comment :: style where "style_Comment \<equiv> ''comment''"
abbreviation style_CommentPreproc :: style where "style_CommentPreproc \<equiv> ''commentPreproc''"
abbreviation style_Generic :: style where "style_Generic \<equiv> ''generic''"
abbreviation style_GenericDeleted :: style where "style_GenericDeleted \<equiv> ''genericDeleted''"
abbreviation style_GenericError :: style where "style_GenericError \<equiv> ''genericError''"
abbreviation style_GenericErrorInvalid :: style where "style_GenericErrorInvalid \<equiv> ''genericErrorInvalid''"
abbreviation style_GenericErrorUnknown :: style where "style_GenericErrorUnknown \<equiv> ''genericErrorUnknown''"
abbreviation style_GenericInserted :: style where "style_GenericInserted \<equiv> ''genericInserted''"
abbreviation style_GenericHighlight :: style where "style_GenericHighlight \<equiv> ''genericHighlight''"
abbreviation style_GenericHighlightDim :: style where "style_GenericHighlightDim \<equiv> ''genericHighlightDim''"
abbreviation style_GenericHeading :: style where "style_GenericHeading \<equiv> ''genericHeading''"
abbreviation style_GenericHeadingAccent :: style where "style_GenericHeadingAccent \<equiv> ''genericHeadingAccent''"
abbreviation style_GenericHeadingSubtle :: style where "style_GenericHeadingSubtle \<equiv> ''genericHeadingSubtle''"
abbreviation style_GenericHeadingOK :: style where "style_GenericHeadingOK \<equiv> ''genericHeadingOK''"
abbreviation style_GenericHeadingWarn :: style where "style_GenericHeadingWarn \<equiv> ''genericHeadingWarn''"
abbreviation style_GenericHeadingError :: style where "style_GenericHeadingError \<equiv> ''genericHeadingError''"
abbreviation style_Literal :: style where "style_Literal \<equiv> ''literal''"
abbreviation style_LiteralBoolean :: style where "style_LiteralBoolean \<equiv> ''literalBoolean''"
abbreviation style_LiteralNull :: style where "style_LiteralNull \<equiv> ''literalNull''"
abbreviation style_LiteralNullImplicit :: style where "style_LiteralNullImplicit \<equiv> ''literalNullImplicit''"
abbreviation style_LiteralNumber :: style where "style_LiteralNumber \<equiv> ''literalNumber''"
abbreviation style_LiteralNumberBin :: style where "style_LiteralNumberBin \<equiv> ''literalNumberBin''"
abbreviation style_LiteralNumberFloat :: style where "style_LiteralNumberFloat \<equiv> ''literalNumberFloat''"
abbreviation style_LiteralNumberHex :: style where "style_LiteralNumberHex \<equiv> ''literalNumberHex''"
abbreviation style_LiteralNumberInfinity :: style where "style_LiteralNumberInfinity \<equiv> ''literalNumberInfinity''"
abbreviation style_LiteralNumberInteger :: style where "style_LiteralNumberInteger \<equiv> ''literalNumberInteger''"
abbreviation style_LiteralNumberNaN :: style where "style_LiteralNumberNaN \<equiv> ''literalNumberNaN''"
abbreviation style_LiteralNumberOct :: style where "style_LiteralNumberOct \<equiv> ''literalNumberOct''"
abbreviation style_LiteralString :: style where "style_LiteralString \<equiv> ''literalString''"
abbreviation style_LiteralStringDouble :: style where "style_LiteralStringDouble \<equiv> ''literalStringDouble''"
abbreviation style_LiteralStringSingle :: style where "style_LiteralStringSingle \<equiv> ''literalStringSingle''"
abbreviation style_Name :: style where "style_Name \<equiv> ''name''"
abbreviation style_NameAlias :: style where "style_NameAlias \<equiv> ''nameAlias''"
abbreviation style_NameAliasMerge :: style where "style_NameAliasMerge \<equiv> ''nameAliasMerge''"
abbreviation style_NameAnchor :: style where "style_NameAnchor \<equiv> ''nameAnchor''"
abbreviation style_NameDecorator :: style where "style_NameDecorator \<equiv> ''nameDecorator''"
abbreviation style_NameTag :: style where "style_NameTag \<equiv> ''nameTag''"
abbreviation style_Punctuation :: style where "style_Punctuation \<equiv> ''punctuation''"
abbreviation style_PunctuationBlock :: style where "style_PunctuationBlock \<equiv> ''punctuationBlock''"
abbreviation style_PunctuationBlockFolded :: style where "style_PunctuationBlockFolded \<equiv> ''punctuationBlockFolded''"
abbreviation style_PunctuationBlockLiteral :: style where "style_PunctuationBlockLiteral \<equiv> ''punctuationBlockLiteral''"
abbreviation style_PunctuationCollectEntry :: style where "style_PunctuationCollectEntry \<equiv> ''punctuationCollectEntry''"
abbreviation style_PunctuationHeading :: style where "style_PunctuationHeading \<equiv> ''punctuationHeading''"
abbreviation style_PunctuationMapping :: style where "style_PunctuationMapping \<equiv> ''punctuationMapping''"
abbreviation style_PunctuationMappingEnd :: style where "style_PunctuationMappingEnd \<equiv> ''punctuationMappingEnd''"
abbreviation style_PunctuationMappingStart :: style where "style_PunctuationMappingStart \<equiv> ''punctuationMappingStart''"
abbreviation style_PunctuationMappingValue :: style where "style_PunctuationMappingValue \<equiv> ''punctuationMappingValue''"
abbreviation style_PunctuationSequence :: style where "style_PunctuationSequence \<equiv> ''punctuationSequence''"
abbreviation style_PunctuationSequenceEnd :: style where "style_PunctuationSequenceEnd \<equiv> ''punctuationSequenceEnd''"
abbreviation style_PunctuationSequenceEntry :: style where "style_PunctuationSequenceEntry \<equiv> ''punctuationSequenceEntry''"
abbreviation style_PunctuationSequenceStart :: style where "style_PunctuationSequenceStart \<equiv> ''punctuationSequenceStart''"

definition predefined_styles :: "style list" where
  "predefined_styles =
    [style_Text, style_TextAccent, style_TextAccentDim,
     style_TextSubtle, style_TextSubtleDim, style_TextOK,
     style_TextWarn, style_TextError, style_Comment,
     style_CommentPreproc, style_Generic, style_GenericDeleted,
     style_GenericError, style_GenericErrorInvalid, style_GenericErrorUnknown,
     style_GenericInserted, style_GenericHighlight, style_GenericHighlightDim,
     style_GenericHeading, style_GenericHeadingAccent, style_GenericHeadingSubtle,
     style_GenericHeadingOK, style_GenericHeadingWarn, style_GenericHeadingError,
     style_Literal, style_LiteralBoolean, style_LiteralNull,
     style_LiteralNullImplicit, style_LiteralNumber, style_LiteralNumberBin,
     style_LiteralNumberFloat, style_LiteralNumberHex, style_LiteralNumberInfinity,
     style_LiteralNumberInteger, style_LiteralNumberNaN, style_LiteralNumberOct,
     style_LiteralString, style_LiteralStringDouble, style_LiteralStringSingle,
     style_Name, style_NameAlias, style_NameAliasMerge,
     style_NameAnchor, style_NameDecorator, style_NameTag,
     style_Punctuation, style_PunctuationBlock, style_PunctuationBlockFolded,
     style_PunctuationBlockLiteral, style_PunctuationCollectEntry, style_PunctuationHeading,
     style_PunctuationMapping, style_PunctuationMappingEnd, style_PunctuationMappingStart,
     style_PunctuationMappingValue, style_PunctuationSequence, style_PunctuationSequenceEnd,
     style_PunctuationSequenceEntry, style_PunctuationSequenceStart]"

section \<open>Inheritance\<close>

definition styleParent_table :: "(style \<times> style) list" where
  "styleParent_table =
    [(style_Comment, style_Text),
     (style_CommentPreproc, style_Comment),
     (style_Generic, style_Text),
     (style_GenericDeleted, style_Generic),
     (style_GenericError, style_Generic),
     (style_GenericErrorInvalid, style_GenericError),
     (style_GenericErrorUnknown, style_GenericError),
     (style_GenericHeading, style_Generic),
     (style_GenericHeadingAccent, style_GenericHeading),
     (style_GenericHeadingError, style_GenericHeading),
     (style_GenericHeadingOK, style_GenericHeading),
     (style_GenericHeadingSubtle, style_GenericHeading),
     (style_GenericHeadingWarn, style_GenericHeading),
     (style_GenericHighlight, style_Generic),
     (style_GenericHighlightDim, style_GenericHighlight),
     (style_GenericInserted, style_Generic),
     (style_Literal, style_Text),
     (style_LiteralBoolean, style_Literal),
     (style_LiteralNull, style_Literal),
     (style_LiteralNullImplicit, style_LiteralNull),
     (style_LiteralNumber, style_Literal),
     (style_LiteralNumberBin, style_LiteralNumber),
     (style_LiteralNumberFloat, style_LiteralNumber),
     (style_LiteralNumberHex, style_LiteralNumber),
     (style_LiteralNumberInfinity, style_LiteralNumber),
     (style_LiteralNumberInteger, style_LiteralNumber),
     (style_LiteralNumberNaN, style_LiteralNumber),
     (style_LiteralNumberOct, style_LiteralNumber),
     (style_LiteralString, style_Literal),
     (style_LiteralStringDouble, style_LiteralString),
     (style_LiteralStringSingle, style_LiteralString),
     (style_Name, style_Text),
     (style_NameAlias, style_Name),
     (style_NameAliasMerge, style_NameAlias),
     (style_NameAnchor, style_Name),
     (style_NameDecorator, style_NameAnchor),
     (style_NameTag, style_Name),
     (style_Punctuation, style_Text),
     (style_PunctuationBlock, style_Punctuation),
     (style_PunctuationBlockFolded, style_PunctuationBlock),
     (style_PunctuationBlockLiteral, style_PunctuationBlock),
     (style_PunctuationCollectEntry, style_Punctuation),
     (style_PunctuationHeading, style_Punctuation),
     (style_PunctuationMapping, style_Punctuation),
     (style_PunctuationMappingEnd, style_PunctuationMapping),
     (style_PunctuationMappingStart, style_PunctuationMapping),
     (style_PunctuationMappingValue, style_PunctuationMapping),
     (style_PunctuationSequence, style_Punctuation),
     (style_PunctuationSequenceEnd, style_PunctuationSequence),
     (style_PunctuationSequenceEntry, style_PunctuationSequence),
     (style_PunctuationSequenceStart, style_PunctuationSequence),
     (style_TextAccent, style_Text),
     (style_TextAccentDim, style_TextAccent),
     (style_TextError, style_Text),
     (style_TextOK, style_Text),
     (style_TextSubtle, style_Text),
     (style_TextSubtleDim, style_TextSubtle),
     (style_TextWarn, style_Text)]"

definition styleParent :: "style \<rightharpoonup> style" where
  "styleParent = map_of styleParent_table"

definition getParent :: "style \<Rightarrow> style" where
  "getParent s = (case styleParent s of Some p \<Rightarrow> p | None \<Rightarrow> style_Text)"

text \<open>
  The loop of \<open>NewStyles\<close> walks from a category to its parent until it reaches \<open>Text\<close>. It
  stops because the parent of every entry of the table is \<open>Text\<close> or an earlier entry
  (\<open>parents_earlier\<close>), so the position in the table (\<open>style_rank\<close>) decreases.
\<close>

fun parents_earlier :: "style list \<Rightarrow> (style \<times> style) list \<Rightarrow> bool" where
  "parents_earlier seen [] = True"
| "parents_earlier seen ((c, p) # xs) \<longleftrightarrow> p \<in> set seen \<and> parents_earlier (c # seen) xs"

definition style_rank :: "style \<Rightarrow> nat" where
  "style_rank s = (case find_index (\<lambda>e. fst e = s) styleParent_table of
     Some i \<Rightarrow> Suc i
   | None \<Rightarrow> if s = style_Text then 0 else Suc (length styleParent_table))"

lemma parents_earlier_index:
  "parents_earlier seen xs \<Longrightarrow> map_of xs s = Some p \<Longrightarrow> p \<notin> set seen \<Longrightarrow>
     \<exists>i j. find_index (\<lambda>e. fst e = s) xs = Some i \<and> find_index (\<lambda>e. fst e = p) xs = Some j \<and> j < i"
proof (induction seen xs rule: parents_earlier.induct)
  case (1 seen)
  then show ?case by simp
next
  case (2 seen c q xs)
  then have sc: "s \<noteq> c" and m: "map_of xs s = Some p" by (auto split: if_splits)
  have ex: "\<exists>i. find_index (\<lambda>e. fst e = s) xs = Some i"
    using m find_index_None [of "\<lambda>e. fst e = s" xs] by (fastforce dest: map_of_SomeD)
  show ?case
  proof (cases "p = c")
    case True
    with sc ex show ?thesis by auto
  next
    case False
    with 2 m sc show ?thesis by auto
  qed
qed

lemma parents_earlier_table: "parents_earlier [style_Text] styleParent_table"
  by code_simp

lemma style_rank_parent:
  assumes s: "s \<noteq> style_Text"
  shows "style_rank (getParent s) < style_rank s"
proof (cases "getParent s = style_Text")
  case True
  have "find_index (\<lambda>e. fst e = style_Text) styleParent_table = None"
    by code_simp
  with s True show ?thesis by (simp add: style_rank_def split: option.split)
next
  case False
  then have "map_of styleParent_table s = Some (getParent s)"
    by (auto simp: getParent_def styleParent_def split: option.splits)
  with parents_earlier_index [OF parents_earlier_table this] False show ?thesis
    by (auto simp: style_rank_def)
qed

section \<open>Style sets\<close>

type_synonym 'ls styles = "style \<rightharpoonup> 'ls"

text \<open>A \<open>StylesOption\<close> is a function on the map; \<open>Set\<close> is the one the package has.\<close>

definition Set_option :: "style \<Rightarrow> 'ls \<Rightarrow> 'ls styles \<Rightarrow> 'ls styles" where
  "Set_option s ls m = m(s \<mapsto> ls)"

function resolve :: "'ls styles \<Rightarrow> 'ls \<Rightarrow> style \<Rightarrow> 'ls" where
  "resolve overrides base current =
     (case overrides current of
        Some ls \<Rightarrow> ls
      | None \<Rightarrow> if current = style_Text then base
                else resolve overrides base (getParent current))"
  by pat_completeness auto
termination
  by (relation "measure (\<lambda>(m, b, s). style_rank s)") (auto simp: style_rank_parent)

declare resolve.simps [simp del]

definition NewStyles :: "'ls \<Rightarrow> ('ls styles \<Rightarrow> 'ls styles) list \<Rightarrow> 'ls styles" where
  "NewStyles base opts =
     (let overrides = foldl (\<lambda>m opt. opt m) [style_Text \<mapsto> base] opts;
          resolved = (\<lambda>st. if st = style_Text \<or> styleParent st \<noteq> None
                           then Some (resolve overrides base st) else None)
      in (\<lambda>st. if overrides st \<noteq> None \<and> styleParent st = None \<and> st \<noteq> style_Text
                then overrides st else resolved st))"

text \<open>\<open>Styles.Style\<close> falls back to the package's empty style.\<close>

definition styles_Style :: "'ls \<Rightarrow> 'ls styles \<Rightarrow> style \<Rightarrow> 'ls" where
  "styles_Style emptyStyle s st = (case s st of Some ls \<Rightarrow> ls | None \<Rightarrow> emptyStyle)"

definition styles_With :: "'ls styles \<Rightarrow> ('ls styles \<Rightarrow> 'ls styles) list \<Rightarrow> 'ls styles" where
  "styles_With s opts = foldl (\<lambda>m opt. opt m) s opts"

section \<open>Facts\<close>

text \<open>The chain of ancestors of a category, up to \<open>Text\<close>.\<close>

function ancestors :: "style \<Rightarrow> style list" where
  "ancestors s = (if s = style_Text then [s] else s # ancestors (getParent s))"
  by pat_completeness auto
termination
  by (relation "measure style_rank") (auto simp: style_rank_parent)

declare ancestors.simps [simp del]

lemma ancestors_Text [simp]: "ancestors style_Text = [style_Text]"
  by (subst ancestors.simps) simp

lemma ancestors_other: "s \<noteq> style_Text \<Longrightarrow> ancestors s = s # ancestors (getParent s)"
  by (subst ancestors.simps) simp

lemma resolve_ancestors:
  "resolve m b s = (case List.find (\<lambda>t. m t \<noteq> None) (ancestors s) of
     Some t \<Rightarrow> the (m t) | None \<Rightarrow> b)"
proof (induction m b s rule: resolve.induct)
  case (1 m b s)
  show ?case
  proof (cases "s = style_Text")
    case True
    then show ?thesis by (subst resolve.simps) (auto split: option.split)
  next
    case False
    with 1 show ?thesis
      by (subst resolve.simps) (auto simp: ancestors_other split: option.split)
  qed
qed

lemma ancestors_ends_Text: "ancestors s \<noteq> [] \<and> last (ancestors s) = style_Text"
proof (induction s rule: ancestors.induct)
  case (1 s)
  then show ?case by (cases "s = style_Text") (auto simp: ancestors_other)
qed

lemma NewStyles_predefined:
  "st = style_Text \<or> styleParent st \<noteq> None \<Longrightarrow>
     NewStyles base opts st
       = Some (resolve (foldl (\<lambda>m opt. opt m) [style_Text \<mapsto> base] opts) base st)"
  by (auto simp: NewStyles_def Let_def)

lemma NewStyles_custom:
  "st \<noteq> style_Text \<Longrightarrow> styleParent st = None \<Longrightarrow>
     NewStyles base opts st = foldl (\<lambda>m opt. opt m) [style_Text \<mapsto> base] opts st"
  by (auto simp: NewStyles_def Let_def)

lemma styleParent_predefined: "styleParent s \<noteq> None \<Longrightarrow> s \<in> set predefined_styles"
proof -
  have "list_all (\<lambda>(c, p). c \<in> set predefined_styles) styleParent_table"
    by code_simp
  then show "styleParent s \<noteq> None \<Longrightarrow> s \<in> set predefined_styles"
    by (auto simp: styleParent_def list_all_iff dest: map_of_SomeD)
qed

section \<open>Properties\<close>

text \<open>C12: a predefined category gets the style of the nearest category on its path to the root
  that the options define, the base style for lack of one nearer; any other key keeps just what
  the options set for it.\<close>

theorem NewStyles_inherits:
  "NewStyles base opts st =
     (let overrides = foldl (\<lambda>m opt. opt m) [style_Text \<mapsto> base] opts in
      if st = style_Text \<or> styleParent st \<noteq> None
      then Some (case List.find (\<lambda>t. overrides t \<noteq> None) (ancestors st) of
             Some t \<Rightarrow> the (overrides t) | None \<Rightarrow> base)
      else overrides st)"
  using NewStyles_predefined [of st base opts] NewStyles_custom [of st base opts]
  by (auto simp: Let_def resolve_ancestors)

theorem NewStyles_inherits_witness:
  "NewStyles (0::nat) [Set_option style_Literal 7] style_LiteralNumberHex = Some 7"
proof -
  have a: "ancestors style_LiteralNumberHex
    = [style_LiteralNumberHex, style_LiteralNumber, style_Literal, style_Text]"
    by code_simp
  have p: "styleParent style_LiteralNumberHex \<noteq> None" by code_simp
  show ?thesis
    unfolding NewStyles_inherits Let_def using p by (simp add: a Set_option_def)
qed

end
