(* ===== verification/Tokens.thy ===== *)
theory Tokens
  imports Positions Styles
begin

text \<open>
  Package \<open>tokens\<close>, over the tokens of the go-yaml lexer. A \<open>*token.Token\<close> is a record:
  \<open>tk_id\<close> is the pointer (the code compares tokens by pointer), \<open>tk_prevs\<close> is the chain
  of \<open>Prev\<close> pointers, of which the code reads only the types, nearest first. The fields
  \<open>CharacterType\<close>, \<open>Indicator\<close> and \<open>Error\<close> are copied and never read, so they are left out.
  \<open>Clone\<close> copies every field; in the model a clone keeps the \<open>tk_id\<close> of the token it was
  made from, as no operation compares the pointer of a clone with another.
  Segments are built by the lines builder from non-nil tokens, so the \<open>nil\<close> guards of
  \<open>NewSegment\<close>, \<open>Source\<close> and \<open>Part\<close> do not appear.
\<close>

section \<open>Tokens\<close>

datatype token_type =
  UnknownType | DocumentHeaderType | DocumentEndType | SequenceEntryType | MappingKeyType
| MappingValueType | MergeKeyType | CollectEntryType | SequenceStartType | SequenceEndType
| MappingStartType | MappingEndType | CommentType | AnchorType | AliasType | TagType
| LiteralType | FoldedType | SingleQuoteType | DoubleQuoteType | DirectiveType | SpaceType
| NullType | ImplicitNullType | InfinityType | NanType | IntegerType | BinaryIntegerType
| OctetIntegerType | HexIntegerType | FloatType | StringType | BoolType | InvalidType

record token =
  tk_id :: nat
  tk_type :: token_type
  tk_value :: string
  tk_origin :: string
  tk_pos :: "token_position option"
  tk_prevs :: "token_type list"

text \<open>
  The code joins tokens with \<open>token.Tokens.Add\<close> of go-yaml, a parameter \<open>add\<close> of what follows:
  it appends, it changes nothing of the new token but its link to the last one, and where that
  link is already right it changes nothing at all. These are the laws of the locale
  \<open>token_stream\<close>; \<open>tokens_Add\<close> is the function that has them.
\<close>

definition link_after :: "token \<Rightarrow> token \<Rightarrow> token" where
  "link_after prev tk = tk\<lparr>tk_prevs := tk_type prev # tk_prevs prev\<rparr>"

definition tokens_Add :: "token list \<Rightarrow> token \<Rightarrow> token list" where
  "tokens_Add ts tk = (if ts = [] then [tk] else ts @ [link_after (last ts) tk])"

type_synonym adder = "token list \<Rightarrow> token \<Rightarrow> token list"

text \<open>A stream whose \<open>Prev\<close> pointers follow the order of the slice, as the lexer's do.\<close>

fun linked :: "token list \<Rightarrow> bool" where
  "linked (a # b # ts) \<longleftrightarrow> b = link_after a b \<and> linked (b # ts)"
| "linked ts \<longleftrightarrow> True"

section \<open>Styles of token types\<close>

fun tokenTypeStyles :: "token_type \<Rightarrow> style option" where
  "tokenTypeStyles AliasType = Some style_NameAlias"
| "tokenTypeStyles AnchorType = Some style_NameAnchor"
| "tokenTypeStyles BinaryIntegerType = Some style_LiteralNumberBin"
| "tokenTypeStyles BoolType = Some style_LiteralBoolean"
| "tokenTypeStyles CollectEntryType = Some style_PunctuationCollectEntry"
| "tokenTypeStyles CommentType = Some style_Comment"
| "tokenTypeStyles DirectiveType = Some style_CommentPreproc"
| "tokenTypeStyles DocumentEndType = Some style_PunctuationHeading"
| "tokenTypeStyles DocumentHeaderType = Some style_PunctuationHeading"
| "tokenTypeStyles DoubleQuoteType = Some style_LiteralStringDouble"
| "tokenTypeStyles FloatType = Some style_LiteralNumberFloat"
| "tokenTypeStyles FoldedType = Some style_PunctuationBlockFolded"
| "tokenTypeStyles HexIntegerType = Some style_LiteralNumberHex"
| "tokenTypeStyles ImplicitNullType = Some style_LiteralNullImplicit"
| "tokenTypeStyles InfinityType = Some style_LiteralNumberInfinity"
| "tokenTypeStyles IntegerType = Some style_LiteralNumberInteger"
| "tokenTypeStyles InvalidType = Some style_GenericErrorInvalid"
| "tokenTypeStyles LiteralType = Some style_PunctuationBlockLiteral"
| "tokenTypeStyles MappingEndType = Some style_PunctuationMappingEnd"
| "tokenTypeStyles MappingKeyType = Some style_NameTag"
| "tokenTypeStyles MappingStartType = Some style_PunctuationMappingStart"
| "tokenTypeStyles MappingValueType = Some style_PunctuationMappingValue"
| "tokenTypeStyles MergeKeyType = Some style_NameAliasMerge"
| "tokenTypeStyles NanType = Some style_LiteralNumberNaN"
| "tokenTypeStyles NullType = Some style_LiteralNull"
| "tokenTypeStyles OctetIntegerType = Some style_LiteralNumberOct"
| "tokenTypeStyles SequenceEndType = Some style_PunctuationSequenceEnd"
| "tokenTypeStyles SequenceEntryType = Some style_PunctuationSequenceEntry"
| "tokenTypeStyles SequenceStartType = Some style_PunctuationSequenceStart"
| "tokenTypeStyles SingleQuoteType = Some style_LiteralStringSingle"
| "tokenTypeStyles SpaceType = Some style_Text"
| "tokenTypeStyles StringType = Some style_LiteralString"
| "tokenTypeStyles TagType = Some style_NameDecorator"
| "tokenTypeStyles UnknownType = Some style_GenericErrorUnknown"

text \<open>
  \<open>PreviousType\<close> and \<open>NextType\<close> are \<open>UnknownType\<close> when there is no neighbour; the next
  token's type is an argument, as the model's tokens carry no \<open>Next\<close> chain.
\<close>

definition PreviousType :: "token \<Rightarrow> token_type" where
  "PreviousType tk = (case tk_prevs tk of [] \<Rightarrow> UnknownType | t # _ \<Rightarrow> t)"

definition getVisualType :: "token \<Rightarrow> token_type \<Rightarrow> token_type" where
  "getVisualType tk nextType =
     (let prevType = PreviousType tk in
      if prevType = AnchorType \<or> prevType = AliasType then prevType
      else if nextType = MappingValueType then MappingKeyType
      else tk_type tk)"

definition TypeStyle :: "token \<Rightarrow> token_type \<Rightarrow> style" where
  "TypeStyle tk nextType = (case tokenTypeStyles (getVisualType tk nextType) of
     Some s \<Rightarrow> s | None \<Rightarrow> style_Text)"

section \<open>Segments\<close>

record segment =
  seg_source :: token
  seg_part :: token
  seg_width :: int

definition NewSegment :: "token \<Rightarrow> token \<Rightarrow> segment" where
  "NewSegment source part = \<lparr>seg_source = source, seg_part = part,
     seg_width = int (rune_count (trim_suffix (tk_origin part) [LF]))\<rparr>"

text \<open>Pointer comparisons take the pointer.\<close>

definition seg_Contains :: "segment \<Rightarrow> nat \<Rightarrow> bool" where
  "seg_Contains s ptr \<longleftrightarrow> tk_id (seg_source s) = ptr \<or> tk_id (seg_part s) = ptr"

definition SourceEquals :: "segment \<Rightarrow> nat \<Rightarrow> bool" where
  "SourceEquals s ptr \<longleftrightarrow> tk_id (seg_source s) = ptr"

definition PartEquals :: "segment \<Rightarrow> nat \<Rightarrow> bool" where
  "PartEquals s ptr \<longleftrightarrow> tk_id (seg_part s) = ptr"

definition segs_Append :: "segment list \<Rightarrow> token \<Rightarrow> token \<Rightarrow> segment list" where
  "segs_Append s source part = s @ [NewSegment source part]"

definition segs_Merge :: "segment list \<Rightarrow> segment list list \<Rightarrow> segment list" where
  "segs_Merge s others = foldl (@) s others"

definition segs_Clone :: "segment list \<Rightarrow> segment list" where
  "segs_Clone s = map (\<lambda>seg. NewSegment (seg_source seg) (seg_part seg)) s"

text \<open>\<open>SourceTokens\<close>: \<open>lastSource\<close> is \<open>None\<close> for the initial nil.\<close>

fun source_tokens_loop :: "adder \<Rightarrow> token list \<Rightarrow> nat option \<Rightarrow> segment list \<Rightarrow> token list" where
  "source_tokens_loop add result lastSource [] = result"
| "source_tokens_loop add result lastSource (seg # segs) =
     (if Some (tk_id (seg_source seg)) \<noteq> lastSource
      then source_tokens_loop add (add result (seg_source seg))
             (Some (tk_id (seg_source seg))) segs
      else source_tokens_loop add result lastSource segs)"

definition SourceTokens :: "adder \<Rightarrow> segment list \<Rightarrow> token list" where
  "SourceTokens add s = source_tokens_loop add [] None s"

definition PartTokens :: "adder \<Rightarrow> segment list \<Rightarrow> token list" where
  "PartTokens add s = foldl (\<lambda>result seg. add result (seg_part seg)) [] s"

definition next_column_step :: "int \<Rightarrow> segment \<Rightarrow> int" where
  "next_column_step col seg = (case tk_pos (seg_part seg) of
     Some p \<Rightarrow> if tcolumn p > col then tcolumn p else col
   | None \<Rightarrow> col)"

definition NextColumn :: "segment list \<Rightarrow> int" where
  "NextColumn s = foldl next_column_step 0 s"

fun source_at_loop :: "int \<Rightarrow> int \<Rightarrow> segment list \<Rightarrow> token option" where
  "source_at_loop c col [] = None"
| "source_at_loop c col (seg # segs) =
     (if col \<ge> c \<and> col < c + seg_width seg then Some (seg_source seg)
      else source_at_loop (c + seg_width seg) col segs)"

definition sourceTokenAtPtr :: "segment list \<Rightarrow> int \<Rightarrow> token option" where
  "sourceTokenAtPtr s col = source_at_loop 0 col s"

definition SourceTokenAt :: "segment list \<Rightarrow> int \<Rightarrow> token option" where
  "SourceTokenAt s col = sourceTokenAtPtr s col"

section \<open>Segments of several lines\<close>

text \<open>The ranges of one line: \<open>rng\<close> is what a matching segment contributes.\<close>

fun line_ranges_loop :: "(segment \<Rightarrow> int \<Rightarrow> range list) \<Rightarrow> nat \<Rightarrow> int \<Rightarrow> segment list \<Rightarrow> range list" where
  "line_ranges_loop rng src lineCol [] = []"
| "line_ranges_loop rng src lineCol (seg # segs) =
     (let w = seg_width seg in
      (if tk_id (seg_source seg) = src \<and> w > 0 then rng seg lineCol else [])
      @ line_ranges_loop rng src (lineCol + w) segs)"

definition token_range :: "int \<Rightarrow> segment \<Rightarrow> int \<Rightarrow> range list" where
  "token_range i seg lineCol =
     [NewRange (New i lineCol) (New i (lineCol + seg_width seg))]"

definition TokenRangesAt :: "segment list list \<Rightarrow> int \<Rightarrow> int \<Rightarrow> range list" where
  "TokenRangesAt s2 idx col =
     (if idx < 0 \<or> idx \<ge> int (length s2) then []
      else case sourceTokenAtPtr (s2 ! nat idx) col of
        None \<Rightarrow> []
      | Some source \<Rightarrow>
          concat (map (\<lambda>(i, segs). line_ranges_loop (token_range (int i)) (tk_id source) 0 segs)
                      (enumerate 0 s2)))"

definition countLeadingSpaces :: "string \<Rightarrow> int" where
  "countLeadingSpaces s = int (length s) - int (length (trim_left {SP} s))"

definition countTrailingSpaces :: "string \<Rightarrow> int" where
  "countTrailingSpaces s = int (length s) - int (length (trim_right {SP} s))"

definition content_range :: "int \<Rightarrow> segment \<Rightarrow> int \<Rightarrow> range list" where
  "content_range i seg lineCol =
     (let w = seg_width seg;
          origin = trim_suffix (trim_suffix (tk_origin (seg_part seg)) [LF]) [CR];
          leading = countLeadingSpaces origin;
          trailing = countTrailingSpaces origin;
          contentWidth = w - leading - trailing
      in if contentWidth > 0
         then [NewRange (New i (lineCol + leading)) (New i (lineCol + leading + contentWidth))]
         else [])"

definition ContentRangesAt :: "segment list list \<Rightarrow> int \<Rightarrow> int \<Rightarrow> range list" where
  "ContentRangesAt s2 idx col =
     (if idx < 0 \<or> idx \<ge> int (length s2) then []
      else case sourceTokenAtPtr (s2 ! nat idx) col of
        None \<Rightarrow> []
      | Some source \<Rightarrow>
          concat (map (\<lambda>(i, segs). line_ranges_loop (content_range (int i)) (tk_id source) 0 segs)
                      (enumerate 0 s2)))"

definition ValueOffset :: "token \<Rightarrow> int" where
  "ValueOffset tk =
     (let firstLine = cut_line (tk_origin tk) in
      if firstLine = [] then 0
      else case index_of firstLine (tk_value tk) of Some idx \<Rightarrow> int idx | None \<Rightarrow> 0)"

section \<open>Documents\<close>

text \<open>\<open>CloneWithResetPositions\<close>: shift by the first token that has a position.\<close>

definition first_position :: "token list \<Rightarrow> int \<times> int \<times> int" where
  "first_position tks = (case List.find (\<lambda>tk. tk_pos tk \<noteq> None) tks of
     Some tk \<Rightarrow> (case tk_pos tk of Some p \<Rightarrow> (tline p, tcolumn p, toffset p) | None \<Rightarrow> (0, 0, 0))
   | None \<Rightarrow> (0, 0, 0))"

definition reset_position :: "int \<times> int \<times> int \<Rightarrow> token_position \<Rightarrow> token_position" where
  "reset_position start p = (case start of (startLine, startCol, startOffset) \<Rightarrow>
     let ln = tline p - startLine + 1;
         col = (if ln = 1 then tcolumn p - startCol + 1 else tcolumn p)
     in p\<lparr>tline := ln, tcolumn := col, toffset := toffset p - startOffset\<rparr>)"

definition CloneWithResetPositions :: "adder \<Rightarrow> token list \<Rightarrow> token list" where
  "CloneWithResetPositions add tks =
     (if tks = [] then tks
      else let start = first_position tks
           in foldl (\<lambda>result tk. add result
                 (tk\<lparr>tk_pos := map_option (reset_position start) (tk_pos tk)\<rparr>)) [] tks)"

text \<open>
  \<open>SplitDocuments\<close> as the list of all the pairs its iterator yields (a consumer that stops
  early sees a prefix of it).
\<close>

fun split_loop ::
  "adder \<Rightarrow> bool \<Rightarrow> nat \<Rightarrow> token list \<Rightarrow> token list \<Rightarrow> (nat \<times> token list) list" where
  "split_loop add reset docIdx current [] =
     (if current \<noteq> []
      then [(docIdx, if reset then CloneWithResetPositions add current else current)] else [])"
| "split_loop add reset docIdx current (tk # tks) =
     (if tk_type tk = DocumentHeaderType \<and> current \<noteq> []
      then (docIdx, if reset then CloneWithResetPositions add current else current)
             # split_loop add reset (Suc docIdx) (add [] tk) tks
      else split_loop add reset docIdx (add current tk) tks)"

definition SplitDocuments :: "adder \<Rightarrow> bool \<Rightarrow> token list \<Rightarrow> (nat \<times> token list) list" where
  "SplitDocuments add resetPositions tks = split_loop add resetPositions 0 [] tks"

section \<open>Facts\<close>

lemma linked_Cons: "linked (a # ts) \<longleftrightarrow> (ts = [] \<or> (hd ts = link_after a (hd ts) \<and> linked ts))"
  by (cases ts) auto

lemma linked_append:
  "linked (xs @ ys) \<longleftrightarrow> linked xs \<and> linked ys
     \<and> (xs = [] \<or> ys = [] \<or> hd ys = link_after (last xs) (hd ys))"
proof (induction xs)
  case Nil
  then show ?case by simp
next
  case (Cons x xs)
  then show ?case by (cases xs; cases ys) (auto simp: linked_Cons)
qed

text \<open>Well-formed segments are those \<open>NewSegment\<close> builds.\<close>

definition wf_segment :: "segment \<Rightarrow> bool" where
  "wf_segment s \<longleftrightarrow> s = NewSegment (seg_source s) (seg_part s)"

lemma wf_NewSegment [simp]: "wf_segment (NewSegment a b)"
  by (simp add: wf_segment_def NewSegment_def)

lemma NewSegment_sel [simp]:
  "seg_source (NewSegment a b) = a" "seg_part (NewSegment a b) = b"
  "seg_width (NewSegment a b) = int (rune_count (trim_suffix (tk_origin b) [LF]))"
  by (simp_all add: NewSegment_def)

lemma segs_Clone_id: "list_all wf_segment s \<Longrightarrow> segs_Clone s = s"
  by (induction s) (auto simp: segs_Clone_def wf_segment_def)

lemma wf_width_nonneg: "wf_segment s \<Longrightarrow> 0 \<le> seg_width s"
  unfolding wf_segment_def by (metis NewSegment_sel(3) of_nat_0_le_iff)

text \<open>A header token only ever starts a document.\<close>

definition header_first :: "token list \<Rightarrow> bool" where
  "header_first doc \<longleftrightarrow> doc \<noteq> [] \<and> (\<forall>tk \<in> set (tl doc). tk_type tk \<noteq> DocumentHeaderType)"

text \<open>Fields of a token that its links do not touch.\<close>

definition link_blind :: "(token \<Rightarrow> 'a) \<Rightarrow> bool" where
  "link_blind f \<longleftrightarrow> (\<forall>tk ps. f (tk\<lparr>tk_prevs := ps\<rparr>) = f tk)"

lemma link_blind_fields [simp]:
  "link_blind tk_id" "link_blind tk_type" "link_blind tk_value" "link_blind tk_origin"
  "link_blind tk_pos"
  by (simp_all add: link_blind_def)

section \<open>The laws of the token list\<close>

locale token_stream =
  fixes add :: adder
  assumes add_appends: "\<exists>ps. add ts tk = ts @ [tk\<lparr>tk_prevs := ps\<rparr>]"
    and add_linked: "linked (ts @ [tk]) \<Longrightarrow> add ts tk = ts @ [tk]"
begin

lemma map_add: "link_blind f \<Longrightarrow> map f (add ts tk) = map f ts @ [f tk]"
  using add_appends [of ts tk] by (auto simp: link_blind_def)

lemma add_nonempty [simp]: "add ts tk \<noteq> []"
  using add_appends [of ts tk] by auto

lemma hd_add: "ts \<noteq> [] \<Longrightarrow> hd (add ts tk) = hd ts"
  using add_appends [of ts tk] by auto

lemma add_Nil_type [simp]: "tk_type (hd (add [] tk)) = tk_type tk"
  using add_appends [of "[]" tk] by auto

lemma map_foldl_add:
  assumes "link_blind f"
  shows "map f (foldl (\<lambda>res x. add res (g x)) ts xs) = map f ts @ map (f \<circ> g) xs"
  by (induction xs arbitrary: ts) (simp_all add: map_add assms)

lemma PartTokens_map:
  "link_blind f \<Longrightarrow> map f (PartTokens add s) = map (\<lambda>seg. f (seg_part seg)) s"
  by (simp add: PartTokens_def map_foldl_add comp_def)

lemma PartTokens_length [simp]: "length (PartTokens add s) = length s"
  using PartTokens_map [of tk_origin s] by (metis length_map link_blind_fields(4))

text \<open>Deduplicating runs of one source pointer.\<close>

lemma source_tokens_same:
  "list_all (\<lambda>seg. tk_id (seg_source seg) = i) segs \<Longrightarrow>
     source_tokens_loop add res (Some i) (segs @ rest) = source_tokens_loop add res (Some i) rest"
  by (induction segs) auto

lemma source_tokens_run:
  assumes "segs \<noteq> []" "\<forall>seg \<in> set segs. seg_source seg = tk" "last_id \<noteq> Some (tk_id tk)"
  shows "source_tokens_loop add res last_id (segs @ rest)
    = source_tokens_loop add (add res tk) (Some (tk_id tk)) rest"
proof -
  obtain s ss where segs: "segs = s # ss" using assms(1) by (cases segs) auto
  have all: "seg_source x = tk" if "x \<in> set segs" for x using assms(2) that by blast
  then have s: "seg_source s = tk" by (simp add: segs)
  have ss: "list_all (\<lambda>seg. tk_id (seg_source seg) = tk_id tk) ss"
    unfolding list_all_iff using all segs by (metis list.set_intros(2))
  show ?thesis using assms(3) source_tokens_same [OF ss] by (simp add: segs s)
qed

text \<open>Splitting loses nothing: every token comes out, once, in order.\<close>

lemma split_loop_concat:
  assumes "link_blind f"
  shows "map f (concat (map snd (split_loop add False n cur tks))) = map f cur @ map f tks"
proof (induction tks arbitrary: n cur)
  case Nil
  then show ?case by simp
next
  case (Cons tk tks)
  then show ?case by (auto simp: map_add assms)
qed

lemma split_loop_indices:
  "map fst (split_loop add r n cur tks) = [n..<n + length (split_loop add r n cur tks)]"
proof (induction tks arbitrary: n cur)
  case Nil
  then show ?case by simp
next
  case (Cons tk tks)
  show ?case
    using Cons [of "Suc n" "add [] tk"] Cons [of n "add cur tk"]
    by (auto simp: upt_rec [of n])
qed

lemma header_first_add:
  "header_first cur \<Longrightarrow> tk_type tk \<noteq> DocumentHeaderType \<Longrightarrow> header_first (add cur tk)"
  using add_appends [of cur tk] by (auto simp: header_first_def)

lemma header_first_one: "header_first (add [] tk)"
  using add_appends [of "[]" tk] by (auto simp: header_first_def)

lemma split_loop_headers:
  "cur = [] \<or> header_first cur \<Longrightarrow> \<forall>d \<in> set (split_loop add False n cur tks). header_first (snd d)"
proof (induction tks arbitrary: n cur)
  case Nil
  then show ?case by auto
next
  case (Cons tk tks)
  show ?case
  proof (cases "tk_type tk = DocumentHeaderType \<and> cur \<noteq> []")
    case True
    with Cons.prems Cons.IH [of "add [] tk"] header_first_one show ?thesis by auto
  next
    case False
    with Cons.prems have "header_first (add cur tk)"
      using header_first_one header_first_add by (cases "cur = []") auto
    with False Cons.IH [of "add cur tk"] show ?thesis by auto
  qed
qed

lemma split_loop_later_headers:
  "cur \<noteq> [] \<Longrightarrow> \<exists>d ds. split_loop add False n cur tks = (n, d) # ds \<and> hd d = hd cur
     \<and> (\<forall>e \<in> set ds. tk_type (hd (snd e)) = DocumentHeaderType)"
proof (induction tks arbitrary: n cur)
  case Nil
  then show ?case by simp
next
  case (Cons tk tks)
  show ?case
  proof (cases "tk_type tk = DocumentHeaderType")
    case True
    with Cons.prems Cons.IH [of "add [] tk" "Suc n"] show ?thesis by auto
  next
    case False
    with Cons.IH [of "add cur tk" n] Cons.prems show ?thesis by (auto simp: hd_add)
  qed
qed

end

interpretation linking: token_stream tokens_Add
proof
  show "\<exists>ps. tokens_Add ts tk = ts @ [tk\<lparr>tk_prevs := ps\<rparr>]" for ts tk
  proof (cases "ts = []")
    case True
    then show ?thesis by (intro exI [of _ "tk_prevs tk"]) (simp add: tokens_Add_def)
  next
    case False
    then show ?thesis by (auto simp: tokens_Add_def link_after_def)
  qed
  show "linked (ts @ [tk]) \<Longrightarrow> tokens_Add ts tk = ts @ [tk]" for ts tk
    by (auto simp: tokens_Add_def linked_append)
qed

section \<open>Properties\<close>

context token_stream begin

lemma split_shape:
  "map fst (SplitDocuments add r tks) = [0..<length (SplitDocuments add r tks)]"
  "\<forall>d \<in> set (SplitDocuments add False tks). header_first (snd d)"
  "\<forall>d \<in> set (tl (SplitDocuments add False tks)). tk_type (hd (snd d)) = DocumentHeaderType"
proof -
  show "map fst (SplitDocuments add r tks) = [0..<length (SplitDocuments add r tks)]"
    using split_loop_indices [of r 0 "[]" tks] by (simp add: SplitDocuments_def)
  show "\<forall>d \<in> set (SplitDocuments add False tks). header_first (snd d)"
    using split_loop_headers [of "[]" 0 tks] by (simp add: SplitDocuments_def)
  show "\<forall>d \<in> set (tl (SplitDocuments add False tks)). tk_type (hd (snd d)) = DocumentHeaderType"
  proof (cases tks)
    case Nil
    then show ?thesis by (simp add: SplitDocuments_def)
  next
    case (Cons tk rest)
    with split_loop_later_headers [of "add [] tk" 0 rest] show ?thesis
      by (auto simp: SplitDocuments_def)
  qed
qed

lemma split_lossless:
  "link_blind f \<Longrightarrow> map f (concat (map snd (SplitDocuments add False tks))) = map f tks"
  by (simp add: SplitDocuments_def split_loop_concat)

end

text \<open>Splitting a stream into documents loses, repeats and reorders no token (every field
  but the links comes out as it went in); the documents are numbered from 0, none is empty, a
  header token only stands first in its document, and every document after the first starts
  with one.\<close>

theorem SplitDocuments_lossless:
  assumes "token_stream add" "link_blind f"
  shows "map f (concat (map snd (SplitDocuments add False tks))) = map f tks
    \<and> map fst (SplitDocuments add False tks) = [0..<length (SplitDocuments add False tks)]
    \<and> (\<forall>d \<in> set (SplitDocuments add False tks).
         snd d \<noteq> [] \<and> (\<forall>tk \<in> set (tl (snd d)). tk_type tk \<noteq> DocumentHeaderType))
    \<and> (\<forall>d \<in> set (tl (SplitDocuments add False tks)). tk_type (hd (snd d)) = DocumentHeaderType)"
  using token_stream.split_lossless [OF assms] token_stream.split_shape [OF assms(1)]
  by (simp add: header_first_def)

definition sample_token :: "nat \<Rightarrow> token_type \<Rightarrow> string \<Rightarrow> token" where
  "sample_token i ty orig = \<lparr>tk_id = i, tk_type = ty, tk_value = orig, tk_origin = orig,
     tk_pos = None, tk_prevs = []\<rparr>"

theorem SplitDocuments_lossless_witness:
  "map tk_id (concat (map snd (SplitDocuments tokens_Add False
     [sample_token 1 StringType ''a'', sample_token 2 DocumentHeaderType ''---'']))) = [1, 2]"
  using SplitDocuments_lossless [OF linking.token_stream_axioms link_blind_fields(1), of
    "[sample_token 1 StringType ''a'', sample_token 2 DocumentHeaderType ''---'']"]
  by (simp add: sample_token_def)

end
