(* ===== verification/Lines.thy ===== *)
theory Lines
  imports Tokens
begin

text \<open>
  Package \<open>line\<close>: annotations, overlays, flags, a single \<open>Line\<close> and the collection
  \<open>Lines\<close>. A slice read that panics out of range is \<open>None\<close>; \<open>Validate\<close> returns its error
  as a value. The builder that makes lines from a token stream is in theory Lines_Builder.
\<close>

section \<open>Annotations, overlays and flags\<close>

datatype RelativePosition = Above | Below

datatype flag = FlagDefault | FlagInserted | FlagDeleted | FlagAnnotation

record annotation =
  ann_content :: string
  ann_position :: RelativePosition
  ann_col :: int

definition annotation_String :: "annotation \<Rightarrow> string" where
  "annotation_String a =
     (if ann_content a = [] then [] else spaces (nat (max 0 (ann_col a))) @ ann_content a)"

definition FilterPosition :: "annotation list \<Rightarrow> RelativePosition \<Rightarrow> annotation list" where
  "FilterPosition as pos = filter (\<lambda>a. ann_position a = pos) as"

definition annotations_Col :: "annotation list \<Rightarrow> int" where
  "annotations_Col as = (case as of
     [] \<Rightarrow> 0
   | a # rest \<Rightarrow> foldl (\<lambda>col v. min col (ann_col v)) (ann_col a) rest)"

definition Contents :: "annotation list \<Rightarrow> string list" where
  "Contents as = map ann_content as"

definition annotations_String :: "annotation list \<Rightarrow> string" where
  "annotations_String as = (case as of
     [] \<Rightarrow> []
   | [a] \<Rightarrow> annotation_String a
   | a # rest \<Rightarrow>
       let minCol = foldl (\<lambda>m ann. if ann_col ann < m then ann_col ann else m) (ann_col a) as
       in spaces (nat (max 0 minCol)) @ join ''; '' (map ann_content as))"

record overlay =
  ov_kind :: style
  ov_cols :: span

section \<open>Lines\<close>

record line =
  l_annotations :: "annotation list"
  l_overlays :: "overlay list"
  l_segments :: "segment list"
  l_flag :: flag
  l_number :: int

definition empty_line :: line where
  "empty_line = \<lparr>l_annotations = [], l_overlays = [], l_segments = [],
     l_flag = FlagDefault, l_number = 0\<rparr>"

definition line_AddAnnotation :: "line \<Rightarrow> annotation list \<Rightarrow> line" where
  "line_AddAnnotation l ann = l\<lparr>l_annotations := l_annotations l @ ann\<rparr>"

definition line_AddOverlay :: "line \<Rightarrow> overlay list \<Rightarrow> line" where
  "line_AddOverlay l os = l\<lparr>l_overlays := l_overlays l @ os\<rparr>"

definition line_Number :: "line \<Rightarrow> int" where
  "line_Number l =
     (if l_number l \<noteq> 0 then l_number l
      else case l_segments l of
        [] \<Rightarrow> 0
      | seg # _ \<Rightarrow> (case tk_pos (seg_part seg) of None \<Rightarrow> 0 | Some p \<Rightarrow> tline p))"

text \<open>A segment's text without its line ending.\<close>

definition seg_text :: "segment \<Rightarrow> string" where
  "seg_text seg = trim_suffix (trim_suffix (tk_origin (seg_part seg)) [LF]) [CR]"

definition line_Content :: "line \<Rightarrow> string" where
  "line_Content l = concat (map seg_text (l_segments l))"

definition line_Clone :: "line \<Rightarrow> line" where
  "line_Clone l = \<lparr>l_annotations = l_annotations l, l_overlays = l_overlays l,
     l_segments = segs_Clone (l_segments l), l_flag = l_flag l, l_number = l_number l\<rparr>"

definition line_Tokens :: "adder \<Rightarrow> line \<Rightarrow> token list" where
  "line_Tokens add l = PartTokens add (l_segments l)"

definition line_Token :: "line \<Rightarrow> int \<Rightarrow> token option" where
  "line_Token l idx = map_option seg_part (slice_get (l_segments l) idx)"

fun token_positions_loop :: "int \<Rightarrow> nat \<Rightarrow> int \<Rightarrow> segment list \<Rightarrow> position list" where
  "token_positions_loop lineIdx tk col [] = []"
| "token_positions_loop lineIdx tk col (seg # segs) =
     (if seg_Contains seg tk then [New lineIdx col] else [])
     @ token_positions_loop lineIdx tk (col + seg_width seg) segs"

definition tokenPositions :: "line \<Rightarrow> int \<Rightarrow> nat \<Rightarrow> position list" where
  "tokenPositions l lineIdx tk = token_positions_loop lineIdx tk 0 (l_segments l)"

fun token_ranges_loop :: "int \<Rightarrow> nat \<Rightarrow> int \<Rightarrow> segment list \<Rightarrow> range list" where
  "token_ranges_loop lineIdx tk col [] = []"
| "token_ranges_loop lineIdx tk col (seg # segs) =
     (let w = seg_width seg in
      (if seg_Contains seg tk \<and> w > 0
       then [NewRange (New lineIdx col) (New lineIdx (col + w))] else [])
      @ token_ranges_loop lineIdx tk (col + w) segs)"

definition tokenPositionRanges :: "line \<Rightarrow> int \<Rightarrow> nat \<Rightarrow> range list" where
  "tokenPositionRanges l lineIdx tk = token_ranges_loop lineIdx tk 0 (l_segments l)"

definition line_IsEmpty :: "line \<Rightarrow> bool" where
  "line_IsEmpty l \<longleftrightarrow> l_segments l = []"

definition line_Width :: "line \<Rightarrow> int" where
  "line_Width l = sum_list (map seg_width (l_segments l))"

definition line_String :: "line \<Rightarrow> string" where
  "line_String l =
     (let prefix = itoa4 (line_Number l) @ '' | '';
          above = FilterPosition (l_annotations l) Above;
          below = FilterPosition (l_annotations l) Below
      in (if above \<noteq> [] then prefix @ annotations_String above @ [LF] else [])
         @ prefix @ line_Content l
         @ (if below \<noteq> []
            then [LF] @ prefix @ spaces (nat (max 0 (annotations_Col below)))
                   @ ''^ '' @ join ''; '' (Contents below)
            else []))"

section \<open>Collections of lines\<close>

type_synonym lines = "line list"

definition lines_Tokens :: "adder \<Rightarrow> lines \<Rightarrow> token list" where
  "lines_Tokens add ls = SourceTokens add (segs_Merge [] (map l_segments ls))"

text \<open>The argument of the position queries is the token's pointer, \<open>None\<close> for nil.\<close>

definition TokenPositions :: "lines \<Rightarrow> nat option \<Rightarrow> position list" where
  "TokenPositions ls tk = (case tk of
     None \<Rightarrow> []
   | Some p \<Rightarrow> concat (map (\<lambda>(i, l). tokenPositions l (int i) p) (enumerate 0 ls)))"

definition TokenAt :: "lines \<Rightarrow> position \<Rightarrow> token option" where
  "TokenAt ls pos =
     (if pline pos < 0 \<or> pline pos \<ge> int (length ls) then None
      else SourceTokenAt (l_segments (ls ! nat (pline pos))) (pcol pos))"

definition TokenPositionRanges :: "lines \<Rightarrow> nat option \<Rightarrow> range list" where
  "TokenPositionRanges ls tk = (case tk of
     None \<Rightarrow> []
   | Some p \<Rightarrow> concat (map (\<lambda>(i, l). tokenPositionRanges l (int i) p) (enumerate 0 ls)))"

definition TokenPositionRangesAt :: "lines \<Rightarrow> position \<Rightarrow> range list" where
  "TokenPositionRangesAt ls pos = TokenRangesAt (map l_segments ls) (pline pos) (pcol pos)"

definition ContentPositionRangesAt :: "lines \<Rightarrow> position \<Rightarrow> range list" where
  "ContentPositionRangesAt ls pos = ContentRangesAt (map l_segments ls) (pline pos) (pcol pos)"

definition lines_Content :: "lines \<Rightarrow> string" where
  "lines_Content ls = join [LF] (map line_Content ls)"

definition lines_String :: "lines \<Rightarrow> string" where
  "lines_String ls = join [LF] (map line_String ls)"

section \<open>Validation\<close>

text \<open>The errors carry the numbers of the code's messages.\<close>

datatype validate_error =
  ErrLineNumberNotIncreasing nat int int
| ErrLineNumberMismatch nat nat int int
| ErrColumnNotIncreasing nat nat int int

fun validate_segs :: "nat \<Rightarrow> nat \<Rightarrow> int \<Rightarrow> int \<Rightarrow> segment list \<Rightarrow> validate_error option" where
  "validate_segs i j expectedLineNum prevCol [] = None"
| "validate_segs i j expectedLineNum prevCol (seg # segs) =
     (case tk_pos (seg_part seg) of
        None \<Rightarrow> validate_segs i (Suc j) expectedLineNum prevCol segs
      | Some p \<Rightarrow>
          if expectedLineNum \<noteq> -1 \<and> tline p \<noteq> expectedLineNum
          then Some (ErrLineNumberMismatch i j (tline p) expectedLineNum)
          else let expected = (if expectedLineNum = -1 then tline p else expectedLineNum) in
            if tk_origin (seg_part seg) \<noteq> [] then
              if tcolumn p \<le> prevCol
              then Some (ErrColumnNotIncreasing i j (tcolumn p) prevCol)
              else validate_segs i (Suc j) expected (tcolumn p) segs
            else validate_segs i (Suc j) expected prevCol segs)"

fun validate_loop :: "nat \<Rightarrow> int \<Rightarrow> lines \<Rightarrow> validate_error option" where
  "validate_loop i prevLineNum [] = None"
| "validate_loop i prevLineNum (l # ls) =
     (let lineNum = line_Number l in
      if lineNum \<noteq> 0 \<and> lineNum \<le> prevLineNum
      then Some (ErrLineNumberNotIncreasing i lineNum prevLineNum)
      else case validate_segs i 0 (-1) 0 (l_segments l) of
        Some e \<Rightarrow> Some e
      | None \<Rightarrow> validate_loop (Suc i) (if lineNum \<noteq> 0 then lineNum else prevLineNum) ls)"

definition lines_Validate :: "lines \<Rightarrow> validate_error option" where
  "lines_Validate ls = validate_loop 0 0 ls"

section \<open>Overlays on lines\<close>

definition addOverlaySlice :: "style \<Rightarrow> lines \<Rightarrow> range \<Rightarrow> lines option" where
  "addOverlaySlice kind ls lineRange =
     (let lineIdx = pline (rstart lineRange) in
      case slice_get ls lineIdx of
        None \<Rightarrow> None
      | Some l \<Rightarrow> Some (ls[nat lineIdx := line_AddOverlay l
          [\<lparr>ov_kind = kind, ov_cols = NewSpan (pcol (rstart lineRange)) (pcol (rend lineRange))\<rparr>]]))"

definition addOverlayRange :: "style \<Rightarrow> lines \<Rightarrow> range \<Rightarrow> lines option" where
  "addOverlayRange kind ls r = (case SliceLines r of
     None \<Rightarrow> None | Some slices \<Rightarrow> foldM (addOverlaySlice kind) ls slices)"

definition lines_AddOverlay :: "style \<Rightarrow> range list \<Rightarrow> lines \<Rightarrow> lines option" where
  "lines_AddOverlay kind ranges ls =
     (if ls = [] then Some ls else foldM (addOverlayRange kind) ls ranges)"

definition lines_ClearOverlays :: "lines \<Rightarrow> lines" where
  "lines_ClearOverlays ls = map (\<lambda>l. l\<lparr>l_overlays := []\<rparr>) ls"

section \<open>Facts\<close>

text \<open>The lines of the program: every segment comes from \<open>NewSegment\<close>.\<close>

definition wf_line :: "line \<Rightarrow> bool" where
  "wf_line l \<longleftrightarrow> list_all wf_segment (l_segments l)"

definition wf_lines :: "lines \<Rightarrow> bool" where
  "wf_lines ls \<longleftrightarrow> list_all wf_line ls"

lemma line_Clone_id [line_simps]: "wf_line l \<Longrightarrow> line_Clone l = l"
  by (simp add: line_Clone_def wf_line_def segs_Clone_id)

lemma line_Content_Clone [simp]: "line_Content (line_Clone l) = line_Content l"
  by (simp add: line_Content_def line_Clone_def segs_Clone_def seg_text_def [abs_def] comp_def)

lemma line_flag_update [simp]:
  "line_Content (l\<lparr>l_flag := f\<rparr>) = line_Content l" "line_Number (l\<lparr>l_flag := f\<rparr>) = line_Number l"
  "line_Content (l\<lparr>l_annotations := a\<rparr>) = line_Content l"
  "line_Content (l\<lparr>l_overlays := ov\<rparr>) = line_Content l"
  by (simp_all add: line_Content_def line_Number_def)

lemma segs_Merge_Nil: "segs_Merge [] xss = concat xss"
proof -
  have "foldl (@) ys xss = ys @ concat xss" for ys :: "segment list"
    by (induction xss arbitrary: ys) auto
  then show ?thesis by (simp add: segs_Merge_def)
qed

lemma lines_Tokens_concat: "lines_Tokens add ls = SourceTokens add (concat (map l_segments ls))"
  by (simp add: lines_Tokens_def segs_Merge_Nil)

text \<open>The source pointer at a column, and the ranges of a pointer, agree.\<close>

lemma source_at_loop_before: "col < c \<Longrightarrow> list_all wf_segment segs \<Longrightarrow> source_at_loop c col segs = None"
proof (induction segs arbitrary: c)
  case Nil
  then show ?case by simp
next
  case (Cons seg segs)
  then have "0 \<le> seg_width seg" by (simp add: wf_width_nonneg)
  with Cons show ?case by auto
qed

lemma line_ranges_loop_Contains:
  assumes "list_all wf_segment segs"
  shows "(\<exists>r \<in> set (line_ranges_loop (token_range i) src c segs). range_Contains r (New i' col))
    \<longleftrightarrow> i' = i \<and> (\<exists>t. source_at_loop c col segs = Some t \<and> tk_id t = src)"
  using assms
proof (induction segs arbitrary: c)
  case Nil
  then show ?case by simp
next
  case (Cons seg segs)
  define w where "w = seg_width seg"
  have w: "0 \<le> w" using Cons.prems by (simp add: w_def wf_width_nonneg)
  define L where "L = set (line_ranges_loop (token_range i) src (c + w) segs)"
  have IH: "(\<exists>r \<in> L. range_Contains r (New i' col))
    \<longleftrightarrow> i' = i \<and> (\<exists>t. source_at_loop (c + w) col segs = Some t \<and> tk_id t = src)"
    unfolding L_def using Cons by simp
  define H where "H = (tk_id (seg_source seg) = src \<and> w > 0)"
  have set: "set (line_ranges_loop (token_range i) src c (seg # segs))
    = (if H then {NewRange (New i c) (New i (c + w))} else {}) \<union> L"
    unfolding H_def L_def w_def
    by (cases "tk_id (seg_source seg) = src \<and> 0 < seg_width seg")
       (simp_all only: line_ranges_loop.simps Let_def token_range_def [of i seg] if_True if_False
          set_append list.set append_Nil Un_empty_left simp_thms)
  have here: "range_Contains (NewRange (New i c) (New i (c + w))) (New i' col)
    \<longleftrightarrow> i' = i \<and> c \<le> col \<and> col < c + w"
    using w by (auto simp: range_Contains_iff position_le_iff position_less_iff)
  have split: "(\<exists>r \<in> set (line_ranges_loop (token_range i) src c (seg # segs)).
      range_Contains r (New i' col))
    \<longleftrightarrow> (H \<and> i' = i \<and> c \<le> col \<and> col < c + w) \<or> (\<exists>r \<in> L. range_Contains r (New i' col))"
    unfolding set by (cases H) (simp_all add: here)
  have before: "col < c + w \<Longrightarrow> source_at_loop (c + w) col segs = None"
    using Cons.prems by (simp add: source_at_loop_before)
  show ?case
  proof (cases "c \<le> col \<and> col < c + w")
    case True
    then have "source_at_loop c col (seg # segs) = Some (seg_source seg)"
      by (simp add: w_def)
    moreover have "0 < w" using True by simp
    ultimately show ?thesis unfolding split IH using True before by (auto simp: H_def)
  next
    case False
    then have "source_at_loop c col (seg # segs) = source_at_loop (c + w) col segs"
      by (auto simp: w_def)
    then show ?thesis unfolding split IH using False by auto
  qed
qed

lemma in_enumerate0: "(i, x) \<in> set (enumerate 0 xs) \<longleftrightarrow> i < length xs \<and> x = xs ! i"
  by (auto simp: in_set_enumerate_eq)

lemma TokenRangesAt_Contains:
  assumes wf: "\<forall>segs \<in> set s2. list_all wf_segment segs"
    and idx: "0 \<le> idx" "idx < int (length s2)"
    and src: "sourceTokenAtPtr (s2 ! nat idx) col = Some tk"
    and p: "0 \<le> pline p" "pline p < int (length s2)"
  shows "(\<exists>r \<in> set (TokenRangesAt s2 idx col). range_Contains r p)
    \<longleftrightarrow> (\<exists>t. sourceTokenAtPtr (s2 ! nat (pline p)) (pcol p) = Some t \<and> tk_id t = tk_id tk)"
proof -
  have split: "p = New (pline p) (pcol p)" by simp
  have "(\<exists>r \<in> set (TokenRangesAt s2 idx col). range_Contains r p)
    \<longleftrightarrow> (\<exists>k < length s2. \<exists>r \<in> set (line_ranges_loop (token_range (int k)) (tk_id tk) 0 (s2 ! k)).
          range_Contains r p)"
    using idx src by (fastforce simp: TokenRangesAt_def in_enumerate0)
  also have "\<dots> \<longleftrightarrow> (\<exists>k < length s2. pline p = int k
      \<and> (\<exists>t. sourceTokenAtPtr (s2 ! k) (pcol p) = Some t \<and> tk_id t = tk_id tk))"
  proof -
    have "(\<exists>r \<in> set (line_ranges_loop (token_range (int k)) (tk_id tk) 0 (s2 ! k)).
          range_Contains r p) \<longleftrightarrow> pline p = int k
      \<and> (\<exists>t. sourceTokenAtPtr (s2 ! k) (pcol p) = Some t \<and> tk_id t = tk_id tk)"
      if "k < length s2" for k
      using wf nth_mem [OF that]
      by (subst split, subst line_ranges_loop_Contains) (auto simp: sourceTokenAtPtr_def)
    then show ?thesis by blast
  qed
  also have "\<dots> \<longleftrightarrow> (\<exists>t. sourceTokenAtPtr (s2 ! nat (pline p)) (pcol p) = Some t \<and> tk_id t = tk_id tk)"
    using p by (metis nat_0_le nat_int of_nat_less_iff)
  finally show ?thesis .
qed

text \<open>
  What a successful validation means: the positions of each line's tokens name one line, the
  columns of the tokens with text increase from 1, and the line numbers that are set increase.
\<close>

definition positioned :: "segment list \<Rightarrow> token_position list" where
  "positioned segs = List.map_filter (\<lambda>s. tk_pos (seg_part s)) segs"

definition columns :: "segment list \<Rightarrow> int list" where
  "columns segs = List.map_filter (\<lambda>s. if tk_origin (seg_part s) = [] then None
     else map_option tcolumn (tk_pos (seg_part s))) segs"

lemma positioned_simps [simp]:
  "positioned [] = []"
  "positioned (s # segs) = (case tk_pos (seg_part s) of
     None \<Rightarrow> positioned segs | Some p \<Rightarrow> p # positioned segs)"
  by (auto simp: positioned_def List.map_filter_def split: option.splits)

lemma columns_simps [simp]:
  "columns [] = []"
  "columns (s # segs) = (case tk_pos (seg_part s) of
     None \<Rightarrow> columns segs
   | Some p \<Rightarrow> if tk_origin (seg_part s) = [] then columns segs else tcolumn p # columns segs)"
  by (auto simp: columns_def List.map_filter_def split: option.splits)

lemma validate_segs_expected:
  assumes "e \<noteq> -1"
  shows "validate_segs i j e c segs = None \<longleftrightarrow>
     sorted_wrt (<) (c # columns segs) \<and> (\<forall>p \<in> set (positioned segs). tline p = e)"
  using assms
proof (induction segs arbitrary: j c)
  case Nil
  then show ?case by simp
next
  case (Cons s segs)
  show ?case
  proof (cases "tk_pos (seg_part s)")
    case None
    with Cons show ?thesis by simp
  next
    case (Some p)
    with Cons.prems show ?thesis
      by (auto simp: Cons.IH [OF Cons.prems] Let_def)
  qed
qed

definition one_line :: "segment list \<Rightarrow> bool" where
  "one_line segs \<longleftrightarrow> (\<forall>p \<in> set (positioned segs). tline p = tline (hd (positioned segs)))"

lemma validate_segs_None:
  assumes "\<forall>p \<in> set (positioned segs). 0 < tline p"
  shows "validate_segs i j (-1) c segs = None \<longleftrightarrow>
     sorted_wrt (<) (c # columns segs) \<and> one_line segs"
  using assms
proof (induction segs arbitrary: j c)
  case Nil
  then show ?case by (simp add: one_line_def)
next
  case (Cons s segs)
  show ?case
  proof (cases "tk_pos (seg_part s)")
    case None
    with Cons show ?thesis by (simp add: one_line_def)
  next
    case (Some p)
    with Cons.prems have "tline p \<noteq> -1" by auto
    with Some show ?thesis
      by (auto simp: validate_segs_expected Let_def one_line_def)
  qed
qed

definition numbers_set :: "lines \<Rightarrow> int list" where
  "numbers_set ls = filter (\<lambda>n. n \<noteq> 0) (map line_Number ls)"

lemma validate_loop_None:
  assumes "\<forall>l \<in> set ls. \<forall>p \<in> set (positioned (l_segments l)). 0 < tline p"
  shows "validate_loop i prev ls = None \<longleftrightarrow>
     sorted_wrt (<) (prev # numbers_set ls)
     \<and> (\<forall>l \<in> set ls. sorted_wrt (<) (0 # columns (l_segments l)) \<and> one_line (l_segments l))"
  using assms
proof (induction ls arbitrary: i prev)
  case Nil
  then show ?case by (simp add: numbers_set_def)
next
  case (Cons l ls)
  have segs: "validate_segs i 0 (-1) 0 (l_segments l) = None \<longleftrightarrow>
      sorted_wrt (<) (0 # columns (l_segments l)) \<and> one_line (l_segments l)"
    using Cons.prems by (intro validate_segs_None) simp
  have IH: "\<And>i prev. validate_loop i prev ls = None \<longleftrightarrow>
     sorted_wrt (<) (prev # numbers_set ls)
     \<and> (\<forall>l \<in> set ls. sorted_wrt (<) (0 # columns (l_segments l)) \<and> one_line (l_segments l))"
    using Cons by simp
  have step: "validate_loop i prev (l # ls) = None \<longleftrightarrow>
      (line_Number l \<noteq> 0 \<longrightarrow> prev < line_Number l)
      \<and> validate_segs i 0 (-1) 0 (l_segments l) = None
      \<and> validate_loop (Suc i) (if line_Number l \<noteq> 0 then line_Number l else prev) ls = None"
    by (auto simp: Let_def split: option.splits)
  show ?case
    unfolding step segs IH
    by (auto simp: numbers_set_def dest: less_trans)
qed

lemma lines_Validate_None:
  assumes "\<forall>l \<in> set ls. \<forall>p \<in> set (positioned (l_segments l)). 0 < tline p"
  shows "lines_Validate ls = None \<longleftrightarrow>
     sorted_wrt (<) (0 # numbers_set ls)
     \<and> (\<forall>l \<in> set ls. sorted_wrt (<) (0 # columns (l_segments l)) \<and> one_line (l_segments l))"
  unfolding lines_Validate_def by (rule validate_loop_None [OF assms])

section \<open>Properties\<close>

text \<open>A position query returns ranges that cover exactly the positions at which the same
  source token is found, over all lines.\<close>

theorem TokenPositionRangesAt_exact:
  assumes "wf_lines ls" "TokenAt ls pos = Some tk" "0 \<le> pline p" "pline p < int (length ls)"
  shows "(\<exists>r \<in> set (TokenPositionRangesAt ls pos). range_Contains r p)
    \<longleftrightarrow> (\<exists>t. TokenAt ls p = Some t \<and> tk_id t = tk_id tk)"
proof -
  have wf: "\<forall>segs \<in> set (map l_segments ls). list_all wf_segment segs"
    using assms(1) by (auto simp: wf_lines_def wf_line_def list_all_iff)
  have pos: "0 \<le> pline pos" "pline pos < int (length ls)"
    "sourceTokenAtPtr (l_segments (ls ! nat (pline pos))) (pcol pos) = Some tk"
    using assms(2) by (auto simp: TokenAt_def SourceTokenAt_def split: if_splits)
  then have src: "sourceTokenAtPtr (map l_segments ls ! nat (pline pos)) (pcol pos) = Some tk"
    by simp
  show ?thesis
    using TokenRangesAt_Contains [OF wf pos(1) _ src] pos(2) assms(3,4)
    by (simp add: TokenPositionRangesAt_def TokenAt_def SourceTokenAt_def)
qed

definition sample_line :: "token \<Rightarrow> int \<Rightarrow> line" where
  "sample_line tk n = empty_line\<lparr>l_segments := [NewSegment tk tk], l_number := n\<rparr>"

theorem TokenPositionRangesAt_exact_witness:
  "(\<exists>r \<in> set (TokenPositionRangesAt [sample_line (sample_token 1 StringType ''ab'') 1] (New 0 0)).
      range_Contains r (New 0 1))
    \<longleftrightarrow> (\<exists>t. TokenAt [sample_line (sample_token 1 StringType ''ab'') 1] (New 0 1) = Some t
         \<and> tk_id t = 1)"
proof -
  let ?tk = "sample_token 1 StringType ''ab''"
  have c: "rune_count (trim_suffix ''ab'' [LF]) = 2" by code_simp
  have "TokenAt [sample_line ?tk 1] (New 0 0) = Some ?tk"
    by (simp add: TokenAt_def SourceTokenAt_def sourceTokenAtPtr_def sample_line_def
        sample_token_def c)
  from TokenPositionRangesAt_exact [OF _ this, of "New 0 1"] show ?thesis
    by (simp add: wf_lines_def wf_line_def sample_line_def sample_token_def)
qed

text \<open>C11: \<open>Validate\<close> accepts just the collections whose set line numbers increase from 1 and whose
  lines each have positions on one line only, with columns that increase from 1 over the tokens
  that have text.\<close>

theorem Validate_meaning:
  assumes "\<forall>l \<in> set ls. \<forall>p \<in> set (positioned (l_segments l)). 0 < tline p"
  shows "lines_Validate ls = None \<longleftrightarrow>
     sorted_wrt (<) (0 # filter (\<lambda>n. n \<noteq> 0) (map line_Number ls))
     \<and> (\<forall>l \<in> set ls. sorted_wrt (<) (0 # columns (l_segments l)) \<and> one_line (l_segments l))"
  using lines_Validate_None [OF assms] by (simp add: numbers_set_def)

theorem Validate_meaning_witness:
  "lines_Validate [sample_line (sample_token 1 StringType ''ab'') 2,
     sample_line (sample_token 2 StringType ''c'') 5] = None"
  using Validate_meaning [of "[sample_line (sample_token 1 StringType ''ab'') 2,
     sample_line (sample_token 2 StringType ''c'') 5]"]
  by (simp add: sample_line_def sample_token_def one_line_def line_Number_def NewSegment_def)

end
