(* ===== verification/Lines_Builder.thy ===== *)
theory Lines_Builder
  imports Lines
begin

text \<open>
  \<open>line/builder.go\<close>: from a token stream to lines. The builder is a record passed through
  its operations. The tokens it allocates for the parts of a token get the pointers
  \<open>lb_alloc\<close>, \<open>lb_alloc + 1\<close>, ..., above every pointer of the stream. \<open>AddToken\<close> panics on a
  builder that has been built, which is \<open>None\<close>. The byte loops over spaces, CR and LF agree with
  the code's loops over runes, because those stop at the first byte that is none of them.
\<close>

record linesBuilder =
  lb_lines :: "line list"
  lb_segs :: "segment list"
  lb_line :: int
  lb_built :: bool
  lb_prev_nl :: bool
  lb_offset :: int
  lb_indent_num :: int
  lb_prev_indent_num :: int
  lb_indent_level :: int
  lb_alloc :: nat

section \<open>Helpers\<close>

definition countLeadingWhitespace :: "string \<Rightarrow> int" where
  "countLeadingWhitespace s = int (length (takeWhile (\<lambda>c. c = SP) s))"

fun countLeadingNewlines :: "string \<Rightarrow> int" where
  "countLeadingNewlines [] = 0"
| "countLeadingNewlines (c # s) =
     (if c = CR then countLeadingNewlines s
      else if c \<noteq> LF then 0
      else 1 + countLeadingNewlines s)"

definition updateIndentLevel :: "int \<Rightarrow> int \<Rightarrow> int \<Rightarrow> int" where
  "updateIndentLevel prevIndentNum currentIndentNum currentLevel =
     (if prevIndentNum < currentIndentNum then currentLevel + 1
      else if prevIndentNum > currentIndentNum \<and> currentLevel > 0 then currentLevel - 1
      else currentLevel)"

fun block_header_behind :: "token_type list \<Rightarrow> bool" where
  "block_header_behind [] = False"
| "block_header_behind (t # ts) =
     (if t = LiteralType \<or> t = FoldedType then True
      else if t = CommentType then block_header_behind ts
      else False)"

definition isBlockScalarContent :: "token \<Rightarrow> bool" where
  "isBlockScalarContent tk \<longleftrightarrow> tk_type tk = StringType \<and> block_header_behind (tk_prevs tk)"

definition isPureNewline :: "string \<Rightarrow> bool" where
  "isPureNewline s \<longleftrightarrow> s = [LF] \<or> s = [CR, LF]"

definition isPureHorizontalWhitespace :: "string \<Rightarrow> bool" where
  "isPureHorizontalWhitespace s \<longleftrightarrow> s \<noteq> [] \<and> trim_left {SP, TAB} s = []"

definition splitOriginIntoParts :: "string \<Rightarrow> string list" where
  "splitOriginIntoParts origin =
     (if origin = [] then [[]] else filter (\<lambda>p. p \<noteq> []) (split_after_nl origin))"

text \<open>The backward search, over the indices still to try.\<close>

fun last_content_index :: "string list \<Rightarrow> nat \<Rightarrow> nat option" where
  "last_content_index parts 0 = None"
| "last_content_index parts (Suc i) =
     (if \<not> isPureNewline (parts ! i) then Some i else last_content_index parts i)"

definition findLastContentPartIndex :: "string list \<Rightarrow> int" where
  "findLastContentPartIndex parts = (case last_content_index parts (length parts) of
     Some i \<Rightarrow> int i | None \<Rightarrow> int (length parts) - 1)"

definition shouldPartReceiveValue :: "bool \<Rightarrow> bool \<Rightarrow> bool \<Rightarrow> bool" where
  "shouldPartReceiveValue isBlockScalar isFirstContentPart isLastContentPart =
     (if isBlockScalar then isLastContentPart else isFirstContentPart)"

definition partColumnAndValue :: "token \<Rightarrow> bool \<Rightarrow> bool \<Rightarrow> int \<times> string" where
  "partColumnAndValue tk isFirst shouldHaveValue =
     (let tkCol = (case tk_pos tk of Some p \<Rightarrow> if tcolumn p > 0 then tcolumn p else 1 | None \<Rightarrow> 1)
      in if tk_value tk \<noteq> [] \<and> shouldHaveValue then (tkCol, tk_value tk)
         else if isFirst then (tkCol, [])
         else (1, []))"

section \<open>The builder\<close>

text \<open>Pointers at or above this one are free.\<close>

definition first_free :: "token list \<Rightarrow> nat" where
  "first_free tks = Suc (foldl max 0 (map tk_id tks))"

definition newLinesBuilder :: "token list \<Rightarrow> linesBuilder option" where
  "newLinesBuilder tks = (case tks of
     [] \<Rightarrow> None
   | tk # _ \<Rightarrow>
       let line0 = (case tk_pos tk of
             None \<Rightarrow> 1
           | Some p \<Rightarrow>
               let leading = countLeadingNewlines (tk_origin tk)
               in if leading > 0 \<and> tline p > leading then tline p - leading else tline p);
           (offset, indentNum, indentLevel) = (case tk_pos tk of
             None \<Rightarrow> (1, 0, 0)
           | Some p \<Rightarrow> if toffset p > 0 then (toffset p, tindent_num p, tindent_level p)
                       else (1, 0, 0))
       in Some \<lparr>lb_lines = [], lb_segs = [], lb_line = line0, lb_built = False,
                lb_prev_nl = False, lb_offset = offset, lb_indent_num = indentNum,
                lb_prev_indent_num = 0, lb_indent_level = indentLevel,
                lb_alloc = first_free tks\<rparr>)"

text \<open>A line as the builder appends it.\<close>

definition built_line :: "segment list \<Rightarrow> int \<Rightarrow> line" where
  "built_line segs n = empty_line\<lparr>l_segments := segs, l_number := n\<rparr>"

definition finishLine :: "linesBuilder \<Rightarrow> linesBuilder" where
  "finishLine b = b\<lparr>lb_lines := lb_lines b @ [built_line (lb_segs b) (lb_line b)],
     lb_prev_indent_num := lb_indent_num b, lb_segs := [], lb_indent_num := 0,
     lb_line := lb_line b + 1\<rparr>"

definition handleGap :: "token \<Rightarrow> linesBuilder \<Rightarrow> linesBuilder" where
  "handleGap tk b =
     (let origin = tk_origin tk;
          newlineCount = count_byte LF origin;
          isSimple = (newlineCount = 0 \<or> (newlineCount = 1 \<and> has_suffix origin [LF]))
      in if \<not> isSimple then b
         else
           let tkLine = (case tk_pos tk of None \<Rightarrow> lb_line b | Some p \<Rightarrow> tline p);
               b1 = (if tkLine > lb_line b + 1 \<and> lb_segs b \<noteq> []
                     then b\<lparr>lb_lines := lb_lines b @ [built_line (lb_segs b) (lb_line b)],
                            lb_segs := []\<rparr>
                     else b)
           in if lb_segs b1 = [] \<and> tkLine > lb_line b1
              then (case tk_pos tk of
                  None \<Rightarrow> b1\<lparr>lb_line := tkLine\<rparr>
                | Some p \<Rightarrow> b1\<lparr>lb_line := tkLine,
                    lb_offset := (if toffset p > 0 then toffset p else lb_offset b1),
                    lb_indent_num := tindent_num p, lb_indent_level := tindent_level p\<rparr>)
              else b1)"

record part_context =
  pc_tk :: token
  pc_part :: string
  pc_parts :: "string list"
  pc_index :: nat
  pc_last_content :: int
  pc_is_last :: bool
  pc_block :: bool
  pc_multi :: bool

text \<open>A newline that the lexer gave to two tokens goes onto the line already finished.\<close>

definition isDuplicateNewline :: "part_context \<Rightarrow> linesBuilder \<Rightarrow> bool" where
  "isDuplicateNewline ctx b \<longleftrightarrow>
     pc_index ctx = 0 \<and> isPureNewline (pc_part ctx) \<and> lb_prev_nl b
     \<and> (case tk_pos (pc_tk ctx) of None \<Rightarrow> False | Some p \<Rightarrow> lb_line b = tline p)"

definition attach_duplicate :: "part_context \<Rightarrow> linesBuilder \<Rightarrow> linesBuilder" where
  "attach_duplicate ctx b =
     (let lastLine = last (lb_lines b);
          newTk = \<lparr>tk_id = lb_alloc b, tk_type = tk_type (pc_tk ctx), tk_value = [],
            tk_origin = pc_part ctx,
            tk_pos = Some \<lparr>tline = lb_line b - 1, tcolumn = NextColumn (l_segments lastLine) + 1,
              toffset = lb_offset b, tindent_num = lb_prev_indent_num b,
              tindent_level = lb_indent_level b\<rparr>,
            tk_prevs = []\<rparr>
      in b\<lparr>lb_lines := butlast (lb_lines b)
               @ [lastLine\<lparr>l_segments := segs_Append (l_segments lastLine) (pc_tk ctx) newTk\<rparr>],
           lb_offset := lb_offset b + int (length (pc_part ctx)),
           lb_alloc := Suc (lb_alloc b)\<rparr>)"

text \<open>Indentation of the first content on a line.\<close>

definition update_indent :: "part_context \<Rightarrow> linesBuilder \<Rightarrow> linesBuilder" where
  "update_indent ctx b =
     (if lb_segs b = [] \<and> \<not> isPureNewline (pc_part ctx)
      then (case tk_pos (pc_tk ctx) of
          Some p \<Rightarrow>
            if pc_index ctx = 0 \<and> (\<not> pc_block ctx \<or> \<not> pc_multi ctx)
            then b\<lparr>lb_indent_num := tindent_num p, lb_indent_level := tindent_level p\<rparr>
            else let n = countLeadingWhitespace (pc_part ctx) in
              b\<lparr>lb_indent_num := n,
                lb_indent_level := updateIndentLevel (lb_prev_indent_num b) n (lb_indent_level b)\<rparr>
        | None \<Rightarrow> let n = countLeadingWhitespace (pc_part ctx) in
              b\<lparr>lb_indent_num := n,
                lb_indent_level := updateIndentLevel (lb_prev_indent_num b) n (lb_indent_level b)\<rparr>)
      else b)"

text \<open>The token of a part, without the special positions, and its value.\<close>

definition part_token :: "part_context \<Rightarrow> bool \<Rightarrow> linesBuilder \<Rightarrow> token" where
  "part_token ctx isFirst b =
     (let tk = pc_tk ctx;
          pureNewline = isPureNewline (pc_part ctx);
          isLastContentPart = (int (pc_index ctx) = pc_last_content ctx);
          shouldHaveValue = shouldPartReceiveValue (pc_block ctx) isFirst isLastContentPart;
          (col, val) = (if pureNewline then (NextColumn (lb_segs b) + 1, [])
                        else partColumnAndValue tk isFirst shouldHaveValue);
          useOriginalOffset = (\<not> pc_multi ctx \<or> (pc_is_last ctx \<and> pc_block ctx)
            \<or> (shouldHaveValue \<and> val \<noteq> []));
          valueOffset = (case tk_pos tk of
            None \<Rightarrow> lb_offset b
          | Some p \<Rightarrow> if useOriginalOffset \<and> toffset p > 0 then toffset p else lb_offset b);
          tokenType = (if isPureHorizontalWhitespace (pc_part ctx) \<and> val = [] \<and> \<not> pc_block ctx
                       then SpaceType else tk_type tk)
      in \<lparr>tk_id = lb_alloc b, tk_type = tokenType, tk_value = val, tk_origin = pc_part ctx,
          tk_pos = Some \<lparr>tline = lb_line b, tcolumn = col, toffset = valueOffset,
            tindent_num = lb_indent_num b, tindent_level = lb_indent_level b\<rparr>,
          tk_prevs = []\<rparr>)"

text \<open>The two cases in which a part keeps the position of the token it comes from.\<close>

definition keeps_block_position :: "part_context \<Rightarrow> bool \<Rightarrow> bool" where
  "keeps_block_position ctx wasFirstContentPart \<longleftrightarrow>
     pc_block ctx \<and> pc_multi ctx \<and> (case tk_pos (pc_tk ctx) of
       None \<Rightarrow> False
     | Some p \<Rightarrow> (wasFirstContentPart \<and> tcolumn p = 0)
                 \<or> (int (pc_index ctx) = pc_last_content ctx \<and> tcolumn p \<noteq> 0))"

definition keeps_blank_line_position :: "part_context \<Rightarrow> bool \<Rightarrow> bool" where
  "keeps_blank_line_position ctx wasFirstContentPart \<longleftrightarrow>
     pc_multi ctx \<and> length (pc_parts ctx) > 1 \<and> isPureNewline (hd (pc_parts ctx))
     \<and> wasFirstContentPart \<and> tk_pos (pc_tk ctx) \<noteq> None"

definition position_part :: "part_context \<Rightarrow> bool \<Rightarrow> token \<Rightarrow> token" where
  "position_part ctx wasFirst newTk =
     (if keeps_block_position ctx wasFirst \<or> keeps_blank_line_position ctx wasFirst
      then newTk\<lparr>tk_pos := tk_pos (pc_tk ctx)\<rparr> else newTk)"

definition sync_level :: "part_context \<Rightarrow> bool \<Rightarrow> linesBuilder \<Rightarrow> linesBuilder" where
  "sync_level ctx wasFirst b =
     (if keeps_blank_line_position ctx wasFirst
      then (case tk_pos (pc_tk ctx) of
          Some p \<Rightarrow> b\<lparr>lb_indent_level := tindent_level p\<rparr> | None \<Rightarrow> b)
      else b)"

text \<open>
  \<open>processPart\<close> returns the builder and the flag \<open>isFirstContentPart\<close> that the contexts of a
  token share by pointer; the code's boolean result is never read.
\<close>

definition processPart :: "part_context \<Rightarrow> linesBuilder \<times> bool \<Rightarrow> linesBuilder \<times> bool" where
  "processPart ctx = (\<lambda>(b, isFirst).
     if isDuplicateNewline ctx b \<and> lb_lines b \<noteq> [] then (attach_duplicate ctx b, isFirst)
     else
       let pureNewline = isPureNewline (pc_part ctx);
           b1 = update_indent ctx b;
           wasFirst = (isFirst \<and> \<not> pureNewline);
           isFirst' = (if pureNewline then isFirst else False);
           newTk = position_part ctx wasFirst (part_token ctx isFirst b1);
           b2 = sync_level ctx wasFirst b1;
           b3 = b2\<lparr>lb_segs := segs_Append (lb_segs b2) (pc_tk ctx) newTk,
                   lb_offset := lb_offset b2 + int (length (pc_part ctx)),
                   lb_alloc := Suc (lb_alloc b2)\<rparr>
       in (if has_suffix (pc_part ctx) [LF] then finishLine b3 else b3, isFirst'))"

definition part_ctx :: "token \<Rightarrow> string list \<Rightarrow> nat \<Rightarrow> string \<Rightarrow> part_context" where
  "part_ctx tk parts i part = \<lparr>pc_tk = tk, pc_part = part, pc_parts = parts, pc_index = i,
     pc_last_content = findLastContentPartIndex parts, pc_is_last = (i = length parts - 1),
     pc_block = isBlockScalarContent tk, pc_multi = (length parts > 1)\<rparr>"

definition AddToken :: "linesBuilder \<Rightarrow> token \<Rightarrow> linesBuilder option" where
  "AddToken b tk =
     (if lb_built b then None
      else
        let b1 = handleGap tk b;
            parts = splitOriginIntoParts (tk_origin tk);
            (b2, _) = foldl (\<lambda>st (i, part). processPart (part_ctx tk parts i part) st)
                        (b1, True) (enumerate 0 parts)
        in Some (b2\<lparr>lb_prev_nl := has_suffix (tk_origin tk) [LF]\<rparr>))"

definition Build :: "linesBuilder \<Rightarrow> lines \<times> linesBuilder" where
  "Build b =
     (let ls = (if lb_segs b \<noteq> [] then lb_lines b @ [built_line (lb_segs b) (lb_line b)]
                else lb_lines b)
      in (ls, b\<lparr>lb_lines := ls, lb_built := True\<rparr>))"

text \<open>\<open>line.NewLines\<close>: \<open>None\<close> would be a panic, which \<open>NewLines_total\<close> below excludes.\<close>

definition NewLines :: "token list \<Rightarrow> lines option" where
  "NewLines tks = (case newLinesBuilder tks of
     None \<Rightarrow> Some []
   | Some b \<Rightarrow> map_option (\<lambda>b'. fst (Build b')) (foldM AddToken b tks))"

section \<open>Facts\<close>

subsection \<open>Parts\<close>

text \<open>A part holds a newline at most as its last byte.\<close>

definition part_ok :: "string \<Rightarrow> bool" where
  "part_ok p \<longleftrightarrow> LF \<notin> set (butlast p)"

lemma concat_filter_nonempty: "concat (filter (\<lambda>p. p \<noteq> []) ps) = concat ps"
  by (induction ps) auto

lemma splitOriginIntoParts_concat: "concat (splitOriginIntoParts origin) = origin"
  by (simp add: splitOriginIntoParts_def concat_filter_nonempty concat_split_after_nl)

lemma splitOriginIntoParts_ok: "list_all part_ok (splitOriginIntoParts origin)"
  using split_after_nl_parts [of origin]
  by (auto simp: splitOriginIntoParts_def part_ok_def list_all_iff)

lemma splitOriginIntoParts_nonempty [simp]: "splitOriginIntoParts origin \<noteq> []"
proof
  assume "splitOriginIntoParts origin = []"
  then have "origin = []" using splitOriginIntoParts_concat [of origin] by simp
  with \<open>splitOriginIntoParts origin = []\<close> show False by (simp add: splitOriginIntoParts_def)
qed

lemma last_splitOriginIntoParts:
  assumes "has_suffix origin [LF]"
  shows "has_suffix (last (splitOriginIntoParts origin)) [LF]"
proof -
  let ?ps = "splitOriginIntoParts origin"
  from assms have o: "origin \<noteq> []" "last origin = LF" by (auto simp: has_suffix_single)
  then have ne: "last ?ps \<noteq> []"
    using last_in_set [OF splitOriginIntoParts_nonempty, of origin]
    by (simp add: splitOriginIntoParts_def)
  have "origin = concat (butlast ?ps) @ last ?ps"
    by (metis append_butlast_last_id concat.simps concat_append append_Nil2
        splitOriginIntoParts_concat splitOriginIntoParts_nonempty)
  with o ne show ?thesis by (metis has_suffix_single last_appendR)
qed

subsection \<open>The builder's invariant\<close>

text \<open>Everything the builder holds, in order.\<close>

definition held :: "linesBuilder \<Rightarrow> segment list" where
  "held b = concat (map l_segments (lb_lines b)) @ lb_segs b"

definition seg_ok :: "segment \<Rightarrow> bool" where
  "seg_ok s \<longleftrightarrow> wf_segment s \<and> part_ok (tk_origin (seg_part s))"

definition seg_open :: "segment \<Rightarrow> bool" where
  "seg_open s \<longleftrightarrow> seg_ok s \<and> LF \<notin> set (tk_origin (seg_part s))"

definition line_ok :: "line \<Rightarrow> bool" where
  "line_ok l \<longleftrightarrow> l_segments l \<noteq> [] \<and> list_all seg_ok (l_segments l)
     \<and> l_annotations l = [] \<and> l_overlays l = [] \<and> l_flag l = FlagDefault"

text \<open>Line numbers increase from above \<open>k\<close>, and the line being built comes next.\<close>

definition builder_inv :: "int \<Rightarrow> linesBuilder \<Rightarrow> bool" where
  "builder_inv k b \<longleftrightarrow>
     sorted_wrt (<) (k # map l_number (lb_lines b) @ [lb_line b])
     \<and> list_all line_ok (lb_lines b) \<and> list_all seg_open (lb_segs b)"

lemma builder_inv_frame [simp]:
  "builder_inv k (b\<lparr>lb_offset := o'\<rparr>) = builder_inv k b"
  "builder_inv k (b\<lparr>lb_alloc := n\<rparr>) = builder_inv k b"
  "builder_inv k (b\<lparr>lb_indent_num := i\<rparr>) = builder_inv k b"
  "builder_inv k (b\<lparr>lb_indent_level := i\<rparr>) = builder_inv k b"
  "builder_inv k (b\<lparr>lb_prev_nl := v\<rparr>) = builder_inv k b"
  by (simp_all add: builder_inv_def)

lemma update_indent_frame [simp]:
  "lb_lines (update_indent ctx b) = lb_lines b" "lb_segs (update_indent ctx b) = lb_segs b"
  "lb_line (update_indent ctx b) = lb_line b" "lb_built (update_indent ctx b) = lb_built b"
  "lb_prev_nl (update_indent ctx b) = lb_prev_nl b"
  by (simp_all add: update_indent_def Let_def split: option.splits)

lemma sync_level_frame [simp]:
  "lb_lines (sync_level ctx w b) = lb_lines b" "lb_segs (sync_level ctx w b) = lb_segs b"
  "lb_line (sync_level ctx w b) = lb_line b" "lb_built (sync_level ctx w b) = lb_built b"
  "lb_prev_nl (sync_level ctx w b) = lb_prev_nl b"
  by (simp_all add: sync_level_def split: option.splits)

lemma part_token_origin [simp]: "tk_origin (part_token ctx f b) = pc_part ctx"
  by (simp add: part_token_def Let_def split: prod.splits option.splits)

lemma position_part_origin [simp]: "tk_origin (position_part ctx w t) = tk_origin t"
  by (simp add: position_part_def)

lemma built_line_fields [simp]:
  "l_segments (built_line s n) = s" "l_number (built_line s n) = n"
  "line_ok (built_line s n) \<longleftrightarrow> s \<noteq> [] \<and> list_all seg_ok s"
  by (simp_all add: built_line_def empty_line_def line_ok_def)

lemma seg_open_ok: "list_all seg_open s \<Longrightarrow> list_all seg_ok s"
  by (auto simp: list_all_iff seg_open_def)

lemma finishLine_inv:
  assumes "sorted_wrt (<) (k # map l_number (lb_lines b) @ [lb_line b])"
    "list_all line_ok (lb_lines b)" "lb_segs b \<noteq> []" "list_all seg_ok (lb_segs b)"
  shows "builder_inv k (finishLine b)" "held (finishLine b) = held b"
  using assms by (force simp: finishLine_def builder_inv_def held_def sorted_wrt_append)+

lemma finishLine_frame [simp]:
  "lb_segs (finishLine b) = []" "lb_prev_nl (finishLine b) = lb_prev_nl b"
  "lb_built (finishLine b) = lb_built b"
  by (simp_all add: finishLine_def)

lemma attach_duplicate_props:
  assumes inv: "builder_inv k b" and ne: "lb_lines b \<noteq> []" and empty: "lb_segs b = []"
    and ok: "part_ok (pc_part ctx)"
  shows "builder_inv k (attach_duplicate ctx b)"
    "\<exists>t. tk_origin t = pc_part ctx \<and> held (attach_duplicate ctx b) = held b @ [NewSegment (pc_tk ctx) t]"
    "lb_segs (attach_duplicate ctx b) = []" "lb_prev_nl (attach_duplicate ctx b) = lb_prev_nl b"
    "lb_built (attach_duplicate ctx b) = lb_built b"
proof -
  obtain ls l where b: "lb_lines b = ls @ [l]" using ne by (metis append_butlast_last_id)
  show "builder_inv k (attach_duplicate ctx b)"
    using inv ok by (simp add: b attach_duplicate_def builder_inv_def Let_def segs_Append_def
        line_ok_def seg_ok_def)
  show "\<exists>t. tk_origin t = pc_part ctx \<and> held (attach_duplicate ctx b) = held b @ [NewSegment (pc_tk ctx) t]"
    using empty by (auto simp: b attach_duplicate_def Let_def held_def segs_Append_def
        intro!: exI [of _ "\<lparr>tk_id = _, tk_type = _, tk_value = _, tk_origin = _, tk_pos = _, tk_prevs = _\<rparr>"])
  show "lb_segs (attach_duplicate ctx b) = []" "lb_prev_nl (attach_duplicate ctx b) = lb_prev_nl b"
    "lb_built (attach_duplicate ctx b) = lb_built b"
    using empty by (simp_all add: attach_duplicate_def Let_def)
qed

lemma processPart_props:
  assumes inv: "builder_inv k b" and ok: "part_ok (pc_part ctx)"
    and empty: "pc_index ctx = 0 \<Longrightarrow> lb_prev_nl b \<Longrightarrow> lb_segs b = []"
    and result: "processPart ctx (b, f) = (b', f')"
  shows "builder_inv k b' \<and> lb_prev_nl b' = lb_prev_nl b \<and> lb_built b' = lb_built b
    \<and> (has_suffix (pc_part ctx) [LF] \<longrightarrow> lb_segs b' = [])
    \<and> (\<exists>t. tk_origin t = pc_part ctx \<and> held b' = held b @ [NewSegment (pc_tk ctx) t])"
proof (cases "isDuplicateNewline ctx b \<and> lb_lines b \<noteq> []")
  case True
  then have "lb_segs b = []" using empty by (simp add: isDuplicateNewline_def)
  with True attach_duplicate_props [OF inv _ _ ok] result show ?thesis
    by (auto simp: processPart_def)
next
  case False
  define w where "w = (f \<and> \<not> isPureNewline (pc_part ctx))"
  define b1 where "b1 = update_indent ctx b"
  define t where "t = position_part ctx w (part_token ctx f b1)"
  define b2 where "b2 = sync_level ctx w b1"
  define b3 where "b3 = b2\<lparr>lb_segs := lb_segs b @ [NewSegment (pc_tk ctx) t],
    lb_offset := lb_offset b2 + int (length (pc_part ctx)), lb_alloc := Suc (lb_alloc b2)\<rparr>"
  have b': "b' = (if has_suffix (pc_part ctx) [LF] then finishLine b3 else b3)"
  proof -
    have "b' = fst (processPart ctx (b, f))" using result by simp
    then show ?thesis
      unfolding processPart_def prod.case if_not_P [OF False]
      by (simp add: Let_def b3_def b2_def t_def b1_def w_def segs_Append_def)
  qed
  have t: "tk_origin t = pc_part ctx" by (simp add: t_def)
  have fields: "lb_lines b3 = lb_lines b" "lb_line b3 = lb_line b" "lb_prev_nl b3 = lb_prev_nl b"
    "lb_built b3 = lb_built b" "lb_segs b3 = lb_segs b @ [NewSegment (pc_tk ctx) t]"
    by (simp_all add: b3_def b2_def b1_def)
  have seg: "seg_ok (NewSegment (pc_tk ctx) t)" using ok by (simp add: seg_ok_def t)
  have held3: "held b3 = held b @ [NewSegment (pc_tk ctx) t]" by (simp add: held_def fields)
  have segs3: "list_all seg_ok (lb_segs b3)"
    using inv seg by (simp add: builder_inv_def fields seg_open_ok)
  show ?thesis
  proof (cases "has_suffix (pc_part ctx) [LF]")
    case True
    have "builder_inv k (finishLine b3)" "held (finishLine b3) = held b3"
    proof -
      have "sorted_wrt (<) (k # map l_number (lb_lines b3) @ [lb_line b3])"
        "list_all line_ok (lb_lines b3)" "lb_segs b3 \<noteq> []"
        using inv by (simp_all add: builder_inv_def fields)
      from finishLine_inv [OF this segs3] show "builder_inv k (finishLine b3)"
        "held (finishLine b3) = held b3" by simp_all
    qed
    with True t held3 show ?thesis unfolding b' by (auto simp: fields)
  next
    case False
    have "LF \<notin> set (pc_part ctx)"
    proof (cases "pc_part ctx" rule: rev_cases)
      case (snoc u c)
      with ok False show ?thesis by (auto simp: part_ok_def has_suffix_single)
    qed simp
    then have "seg_open (NewSegment (pc_tk ctx) t)" using seg by (simp add: seg_open_def t)
    then have "builder_inv k b3" using inv by (simp add: builder_inv_def fields)
    with False t held3 show ?thesis unfolding b' by (auto simp: fields)
  qed
qed

lemma parts_loop_props:
  assumes "builder_inv k b" "list_all part_ok ps"
    "n = 0 \<Longrightarrow> lb_prev_nl b \<Longrightarrow> lb_segs b = []"
    "foldl (\<lambda>st (i, part). processPart (part_ctx tk parts i part) st) (b, f) (enumerate n ps) = (b', f')"
  shows "builder_inv k b' \<and> lb_built b' = lb_built b
    \<and> (ps \<noteq> [] \<longrightarrow> has_suffix (last ps) [LF] \<longrightarrow> lb_segs b' = [])
    \<and> (\<exists>ts. map tk_origin ts = ps \<and> held b' = held b @ map (NewSegment tk) ts)"
  using assms
proof (induction ps arbitrary: b f n)
  case Nil
  then show ?case by simp
next
  case (Cons p ps)
  obtain b1 f1 where step: "processPart (part_ctx tk parts n p) (b, f) = (b1, f1)"
    by (metis surj_pair)
  have ctx: "pc_part (part_ctx tk parts n p) = p" "pc_index (part_ctx tk parts n p) = n"
    "pc_tk (part_ctx tk parts n p) = tk"
    by (simp_all add: part_ctx_def)
  from processPart_props [OF Cons.prems(1) _ _ step, unfolded ctx] Cons.prems(2,3)
  have one: "builder_inv k b1" "lb_built b1 = lb_built b"
    "has_suffix p [LF] \<longrightarrow> lb_segs b1 = []"
    and ex: "\<exists>t. tk_origin t = p \<and> held b1 = held b @ [NewSegment tk t]" by auto
  from ex obtain t where t: "tk_origin t = p" "held b1 = held b @ [NewSegment tk t]" by blast
  have rest: "foldl (\<lambda>st (i, part). processPart (part_ctx tk parts i part) st) (b1, f1)
      (enumerate (Suc n) ps) = (b', f')"
    using Cons.prems(4) step by simp
  have IH: "builder_inv k b'" "lb_built b' = lb_built b1"
    "ps \<noteq> [] \<longrightarrow> has_suffix (last ps) [LF] \<longrightarrow> lb_segs b' = []"
    and ex': "\<exists>ts. map tk_origin ts = ps \<and> held b' = held b1 @ map (NewSegment tk) ts"
    using Cons.IH [OF one(1) _ _ rest] Cons.prems(2) by auto
  from ex' obtain ts where ts: "map tk_origin ts = ps" "held b' = held b1 @ map (NewSegment tk) ts"
    by blast
  have "ps = [] \<Longrightarrow> b' = b1" using rest by simp
  moreover have "map tk_origin (t # ts) = p # ps" "held b' = held b @ map (NewSegment tk) (t # ts)"
    using t ts by simp_all
  moreover have "has_suffix (last (p # ps)) [LF] \<longrightarrow> lb_segs b' = []"
    using IH(3) one(3) calculation(1) by (cases ps) auto
  ultimately show ?case
    by (intro conjI exI [of _ "t # ts"] IH(1) trans [OF IH(2) one(2)]) simp_all
qed

lemma handleGap_props:
  assumes "builder_inv k b"
  shows "builder_inv k (handleGap tk b)" "held (handleGap tk b) = held b"
    "lb_built (handleGap tk b) = lb_built b" "lb_prev_nl (handleGap tk b) = lb_prev_nl b"
    "lb_segs b = [] \<Longrightarrow> lb_segs (handleGap tk b) = []"
proof -
  define tkLine where "tkLine = (case tk_pos tk of None \<Rightarrow> lb_line b | Some p \<Rightarrow> tline p)"
  define simple where "simple = (count_byte LF (tk_origin tk) = 0
    \<or> (count_byte LF (tk_origin tk) = 1 \<and> has_suffix (tk_origin tk) [LF]))"
  define flush where "flush = (tkLine > lb_line b + 1 \<and> lb_segs b \<noteq> [])"
  define b1 where "b1 = (if flush
    then b\<lparr>lb_lines := lb_lines b @ [built_line (lb_segs b) (lb_line b)], lb_segs := []\<rparr> else b)"
  define sync where "sync = (lb_segs b1 = [] \<and> tkLine > lb_line b1)"
  obtain o' i' l' where gap: "handleGap tk b =
    (if \<not> simple then b else if sync
     then b1\<lparr>lb_line := tkLine, lb_offset := o', lb_indent_num := i', lb_indent_level := l'\<rparr> else b1)"
  proof (cases "tk_pos tk")
    case None
    then have "handleGap tk b = (if \<not> simple then b else if sync
     then b1\<lparr>lb_line := tkLine, lb_offset := lb_offset b1, lb_indent_num := lb_indent_num b1,
            lb_indent_level := lb_indent_level b1\<rparr> else b1)"
      by (simp add: handleGap_def Let_def simple_def sync_def b1_def flush_def tkLine_def)
    then show ?thesis by (rule that)
  next
    case (Some p)
    then have "handleGap tk b = (if \<not> simple then b else if sync
     then b1\<lparr>lb_line := tkLine, lb_offset := (if toffset p > 0 then toffset p else lb_offset b1),
            lb_indent_num := tindent_num p, lb_indent_level := tindent_level p\<rparr> else b1)"
      by (simp add: handleGap_def Let_def simple_def sync_def b1_def flush_def tkLine_def)
    then show ?thesis by (rule that)
  qed
  have b1: "held b1 = held b" "lb_built b1 = lb_built b" "lb_prev_nl b1 = lb_prev_nl b"
    "lb_line b1 = lb_line b" "lb_segs b = [] \<Longrightarrow> lb_segs b1 = []"
    by (auto simp: b1_def held_def)
  show "held (handleGap tk b) = held b" "lb_built (handleGap tk b) = lb_built b"
    "lb_prev_nl (handleGap tk b) = lb_prev_nl b"
    "lb_segs b = [] \<Longrightarrow> lb_segs (handleGap tk b) = []"
    unfolding gap using b1 by (auto simp: held_def)
  show "builder_inv k (handleGap tk b)"
  proof (cases "simple \<and> sync")
    case True
    have up: "sorted_wrt (<) (k # map l_number (lb_lines b) @ [lb_line b, tkLine])"
      using assms True b1(4) by (auto simp: builder_inv_def sorted_wrt_append sync_def)
    with True assms show ?thesis unfolding gap
      by (auto simp: b1_def builder_inv_def sorted_wrt_append seg_open_ok flush_def sync_def)
  next
    case False
    have "\<not> flush" if "\<not> sync"
      using that by (cases flush) (auto simp: sync_def b1_def, auto simp: flush_def)
    with False assms show ?thesis unfolding gap by (auto simp: b1_def)
  qed
qed

lemma AddToken_props:
  assumes inv: "builder_inv k b" and built: "\<not> lb_built b" and nl: "lb_prev_nl b \<Longrightarrow> lb_segs b = []"
  shows "\<exists>b' ts. AddToken b tk = Some b' \<and> builder_inv k b' \<and> \<not> lb_built b'
    \<and> (lb_prev_nl b' \<longrightarrow> lb_segs b' = [])
    \<and> map tk_origin ts = splitOriginIntoParts (tk_origin tk)
    \<and> held b' = held b @ map (NewSegment tk) ts"
proof -
  let ?ps = "splitOriginIntoParts (tk_origin tk)"
  note gap = handleGap_props [OF inv, of tk]
  obtain b2 f2 where loop: "foldl (\<lambda>st (i, part). processPart (part_ctx tk ?ps i part) st)
      (handleGap tk b, True) (enumerate 0 ?ps) = (b2, f2)"
    by (metis surj_pair)
  have nl1: "lb_segs (handleGap tk b) = []" if "lb_prev_nl (handleGap tk b)"
    using that gap(4,5) nl by auto
  from parts_loop_props [OF gap(1) splitOriginIntoParts_ok _ loop] nl1
  obtain ts where b2: "builder_inv k b2" "lb_built b2 = lb_built (handleGap tk b)"
    "has_suffix (last ?ps) [LF] \<longrightarrow> lb_segs b2 = []"
    "map tk_origin ts = ?ps" "held b2 = held (handleGap tk b) @ map (NewSegment tk) ts"
    by auto
  have "AddToken b tk = Some (b2\<lparr>lb_prev_nl := has_suffix (tk_origin tk) [LF]\<rparr>)"
    using built loop by (simp add: AddToken_def Let_def)
  moreover have "held (b2\<lparr>lb_prev_nl := v\<rparr>) = held b2" for v by (simp add: held_def)
  ultimately show ?thesis
    using b2 gap(2,3) built last_splitOriginIntoParts [of "tk_origin tk"] by auto
qed

lemma newLinesBuilder_props:
  assumes "newLinesBuilder (tk # tks) = Some b"
  shows "lb_lines b = []" "lb_segs b = []" "\<not> lb_built b" "\<not> lb_prev_nl b" "held b = []"
  using assms by (auto simp: newLinesBuilder_def held_def Let_def split: option.splits prod.splits)

lemma countLeadingNewlines_nonneg: "0 \<le> countLeadingNewlines s"
  by (induction s) auto

lemma newLinesBuilder_line:
  assumes "newLinesBuilder (tk # tks) = Some b"
    and "\<And>p. tk_pos tk = Some p \<Longrightarrow> 0 < tline p"
  shows "0 < lb_line b"
  using assms countLeadingNewlines_nonneg [of "tk_origin tk"]
  by (auto simp: newLinesBuilder_def Let_def split: option.splits prod.splits if_splits)

text \<open>The runs of segments that the tokens added so far left, in order.\<close>

definition token_run :: "token \<Rightarrow> segment list \<Rightarrow> bool" where
  "token_run tk run \<longleftrightarrow> (\<exists>ts. run = map (NewSegment tk) ts
     \<and> map tk_origin ts = splitOriginIntoParts (tk_origin tk))"

lemma AddTokens_props:
  assumes "builder_inv k b" "\<not> lb_built b" "lb_prev_nl b \<Longrightarrow> lb_segs b = []"
  shows "\<exists>b' runs. foldM AddToken b tks = Some b' \<and> builder_inv k b'
    \<and> list_all2 token_run tks runs \<and> held b' = held b @ concat runs"
  using assms
proof (induction tks arbitrary: b)
  case Nil
  then show ?case by simp
next
  case (Cons tk tks)
  from AddToken_props [OF Cons.prems, of tk] obtain b1 ts where b1: "AddToken b tk = Some b1"
    "builder_inv k b1" "\<not> lb_built b1" "lb_prev_nl b1 \<longrightarrow> lb_segs b1 = []"
    "map tk_origin ts = splitOriginIntoParts (tk_origin tk)"
    "held b1 = held b @ map (NewSegment tk) ts" by blast
  from Cons.IH [OF b1(2,3)] b1(4) obtain b' runs where b': "foldM AddToken b1 tks = Some b'"
    "builder_inv k b'" "list_all2 token_run tks runs" "held b' = held b1 @ concat runs" by blast
  have "token_run tk (map (NewSegment tk) ts)" using b1(5) by (auto simp: token_run_def)
  with b1 b' show ?case
    by (intro exI [of _ b'] exI [of _ "map (NewSegment tk) ts # runs"]) simp
qed

text \<open>What \<open>NewLines\<close> returns: it never panics, and its lines are made of the tokens' runs.\<close>

definition built_from :: "int \<Rightarrow> token list \<Rightarrow> lines \<Rightarrow> bool" where
  "built_from k tks ls \<longleftrightarrow>
     sorted_wrt (<) (k # map l_number ls) \<and> list_all line_ok ls
     \<and> (\<exists>runs. list_all2 token_run tks runs \<and> concat (map l_segments ls) = concat runs)"

lemma Build_props:
  assumes "builder_inv k b" "list_all2 token_run tks runs" "held b = concat runs"
  shows "built_from k tks (fst (Build b))"
proof -
  have "sorted_wrt (<) (k # map l_number (fst (Build b)))"
    "list_all line_ok (fst (Build b))"
    using assms(1) by (auto simp: Build_def Let_def builder_inv_def sorted_wrt_append seg_open_ok)
  moreover have "concat (map l_segments (fst (Build b))) = held b"
    by (simp add: Build_def Let_def held_def)
  ultimately show ?thesis using assms(2,3) unfolding built_from_def by auto
qed

lemma NewLines_built:
  assumes "\<And>b. newLinesBuilder tks = Some b \<Longrightarrow> k < lb_line b"
  shows "\<exists>ls. NewLines tks = Some ls \<and> built_from k tks ls"
proof (cases tks)
  case Nil
  then show ?thesis by (simp add: NewLines_def newLinesBuilder_def built_from_def)
next
  case (Cons tk rest)
  have "\<exists>b. newLinesBuilder tks = Some b"
    by (simp add: Cons newLinesBuilder_def Let_def split: prod.split)
  then obtain b where b: "newLinesBuilder tks = Some b" by blast
  note init = newLinesBuilder_props [OF b [unfolded Cons]]
  have "builder_inv k b" using assms [OF b] init by (simp add: builder_inv_def)
  from AddTokens_props [OF this init(3), of tks] init obtain b' runs where
    b': "foldM AddToken b tks = Some b'" "builder_inv k b'" "list_all2 token_run tks runs"
    "held b' = concat runs" by auto
  from Build_props [OF b'(2-4)] b b'(1) show ?thesis by (simp add: NewLines_def)
qed

lemma NewLines_built_any: "\<exists>k ls. NewLines tks = Some ls \<and> built_from k tks ls"
proof -
  obtain k where "\<And>b. newLinesBuilder tks = Some b \<Longrightarrow> k < lb_line b"
    by (metis gt_ex lt_ex option.inject)
  then show ?thesis using NewLines_built [of tks k] by blast
qed

subsection \<open>Consequences\<close>

lemma token_run_props:
  assumes "token_run tk run"
  shows "run \<noteq> []" "\<forall>seg \<in> set run. seg_source seg = tk"
    "concat (map (\<lambda>s. tk_origin (seg_part s)) run) = tk_origin tk"
proof -
  from assms obtain ts where ts: "run = map (NewSegment tk) ts"
    "map tk_origin ts = splitOriginIntoParts (tk_origin tk)" by (auto simp: token_run_def)
  from ts(2) show "run \<noteq> []" using ts(1) splitOriginIntoParts_nonempty by (metis map_is_Nil_conv)
  show "\<forall>seg \<in> set run. seg_source seg = tk" by (auto simp: ts(1))
  show "concat (map (\<lambda>s. tk_origin (seg_part s)) run) = tk_origin tk"
    using arg_cong [OF ts(2), of concat] by (simp add: ts(1) comp_def splitOriginIntoParts_concat)
qed

text \<open>Neighbouring tokens of a stream are different objects.\<close>

fun distinct_adjacent :: "token list \<Rightarrow> bool" where
  "distinct_adjacent (a # b # ts) \<longleftrightarrow> tk_id a \<noteq> tk_id b \<and> distinct_adjacent (b # ts)"
| "distinct_adjacent ts \<longleftrightarrow> True"

context token_stream begin

lemma source_tokens_runs:
  assumes "list_all2 token_run tks runs" "distinct_adjacent tks"
    "linked (res @ tks)" "res = [] \<longrightarrow> lst = None" "tks \<noteq> [] \<longrightarrow> lst \<noteq> Some (tk_id (hd tks))"
  shows "source_tokens_loop add res lst (concat runs) = res @ tks"
  using assms
proof (induction tks runs arbitrary: res lst rule: list_all2_induct)
  case Nil
  then show ?case by simp
next
  case (Cons tk tks run runs)
  have "source_tokens_loop add res lst (run @ concat runs)
    = source_tokens_loop add (add res tk) (Some (tk_id tk)) (concat runs)"
    using token_run_props [OF Cons.hyps(1)] Cons.prems by (intro source_tokens_run) auto
  also have "add res tk = res @ [tk]"
    using Cons.prems(2) by (intro add_linked) (simp add: linked_append)
  also have "source_tokens_loop add (res @ [tk]) (Some (tk_id tk)) (concat runs) = (res @ [tk]) @ tks"
    using Cons.prems by (intro Cons.IH) (cases tks; auto)+
  finally show ?case by simp
qed

lemma built_Tokens:
  assumes "built_from k tks ls" "linked tks" "distinct_adjacent tks"
  shows "lines_Tokens add ls = tks"
proof -
  from assms(1) obtain runs where "list_all2 token_run tks runs"
    "concat (map l_segments ls) = concat runs" by (auto simp: built_from_def)
  with assms(2,3) show ?thesis
    by (simp add: lines_Tokens_concat SourceTokens_def source_tokens_runs [where res = "[]", simplified])
qed

end

definition lines_origins :: "lines \<Rightarrow> string" where
  "lines_origins ls = concat (map (\<lambda>s. tk_origin (seg_part s)) (concat (map l_segments ls)))"

lemma built_origins:
  assumes "built_from k tks ls"
  shows "lines_origins ls = concat (map tk_origin tks)"
proof -
  from assms obtain runs where r: "list_all2 token_run tks runs"
    "concat (map l_segments ls) = concat runs" by (auto simp: built_from_def)
  from r(1) have "concat (map (\<lambda>s. tk_origin (seg_part s)) (concat runs)) = concat (map tk_origin tks)"
    by (induction rule: list_all2_induct) (simp_all add: token_run_props)
  then show ?thesis by (simp add: lines_origins_def r(2))
qed

lemma part_ok_no_newline: "part_ok p \<Longrightarrow> LF \<notin> set (trim_suffix (trim_suffix p [LF]) [CR])"
  by (cases p rule: rev_cases)
     (auto simp: part_ok_def trim_suffix_single dest: in_set_butlastD split: if_splits)

lemma line_ok_no_newline: "line_ok l \<Longrightarrow> LF \<notin> set (line_Content l)"
  by (auto simp: line_ok_def line_Content_def list_all_iff seg_ok_def seg_text_def
      dest: part_ok_no_newline)

lemma line_ok_wf: "line_ok l \<Longrightarrow> wf_line l"
  by (auto simp: line_ok_def wf_line_def list_all_iff seg_ok_def)

section \<open>Properties\<close>





text \<open>Line numbers are positive and strictly increase when the first token has a positive
  line: lines are skipped where the tokens skip them, and none is numbered twice.\<close>

theorem NewLines_numbers_increase:
  assumes "\<forall>p. tks \<noteq> [] \<and> tk_pos (hd tks) = Some p \<longrightarrow> 0 < tline p"
  shows "\<exists>ls. NewLines tks = Some ls \<and> sorted_wrt (<) (0 # map line_Number ls)"
proof -
  have "0 < lb_line b" if "newLinesBuilder tks = Some b" for b
    using that assms newLinesBuilder_line [of "hd tks" "tl tks" b]
    by (cases tks) (auto simp: newLinesBuilder_def)
  then obtain ls where ls: "NewLines tks = Some ls" "built_from 0 tks ls"
    using NewLines_built by blast
  then have s: "sorted_wrt (<) (0 # map l_number ls)" by (simp add: built_from_def)
  then have "map line_Number ls = map l_number ls" by (auto simp: line_Number_def)
  with ls s show ?thesis by metis
qed

theorem NewLines_numbers_increase_witness:
  "\<exists>ls. NewLines [sample_token 1 StringType (''ab'' @ [LF] @ ''c'')] = Some ls
     \<and> sorted_wrt (<) (0 # map line_Number ls)"
  using NewLines_numbers_increase [of "[sample_token 1 StringType (''ab'' @ [LF] @ ''c'')]"]
  by (simp add: sample_token_def)

end
