(* ===== verification/Sources.thy ===== *)
theory Sources
  imports Lines_Builder
begin

text \<open>
  \<open>source.go\<close>, the part that holds lines: construction, iteration over lines and runes, position
  queries and overlays. The lexer is the parameter \<open>tokenize\<close>. The iterators are the lists of
  what they yield (a consumer that stops early sees a prefix). The mutexes and \<open>fileOnce\<close> only
  serialise: \<open>src_file\<close> is the cached result, \<open>None\<close> until it is computed. The type of the parsed
  file is \<open>'f\<close>, that of the option values that are only passed on is \<open>'o\<close>. Parsing and errors
  are in theory Yaml_Error.
\<close>

record ('f, 'o) source =
  src_name :: string
  src_path :: string
  src_lines :: lines
  src_file :: "'f option"
  src_parserOpts :: "'o list"
  src_decodeOpts :: "'o list"
  src_errorOpts :: "'o list"

section \<open>Construction\<close>

type_synonym ('f, 'o) source_option = "('f, 'o) source \<Rightarrow> ('f, 'o) source"

definition empty_source :: "('f, 'o) source" where
  "empty_source = \<lparr>src_name = [], src_path = [], src_lines = [], src_file = None,
     src_parserOpts = [], src_decodeOpts = [], src_errorOpts = []\<rparr>"

definition WithName :: "string \<Rightarrow> ('f, 'o) source_option" where
  "WithName name s = s\<lparr>src_name := name\<rparr>"

definition WithFilePath :: "string \<Rightarrow> ('f, 'o) source_option" where
  "WithFilePath path s = s\<lparr>src_path := path\<rparr>"

definition WithParserOptions :: "'o list \<Rightarrow> ('f, 'o) source_option" where
  "WithParserOptions opts s = s\<lparr>src_parserOpts := opts\<rparr>"

definition WithDecodeOptions :: "'o list \<Rightarrow> ('f, 'o) source_option" where
  "WithDecodeOptions opts s = s\<lparr>src_decodeOpts := opts\<rparr>"

definition WithErrorOptions :: "'o list \<Rightarrow> ('f, 'o) source_option" where
  "WithErrorOptions opts s = s\<lparr>src_errorOpts := opts\<rparr>"

text \<open>\<open>None\<close> would be a panic of the builder; \<open>NewLines\<close> has none.\<close>

definition NewSourceFromTokens ::
  "token list \<Rightarrow> ('f, 'o) source_option list \<Rightarrow> ('f, 'o) source option" where
  "NewSourceFromTokens tks opts =
     map_option (\<lambda>ls. (foldl (\<lambda>t opt. opt t) empty_source opts)\<lparr>src_lines := ls\<rparr>) (NewLines tks)"

definition NewSourceFromString ::
  "(string \<Rightarrow> token list) \<Rightarrow> string \<Rightarrow> ('f, 'o) source_option list \<Rightarrow> ('f, 'o) source option" where
  "NewSourceFromString tokenize src opts = NewSourceFromTokens (tokenize src) opts"

definition NewSourceFromBytes ::
  "(string \<Rightarrow> token list) \<Rightarrow> string \<Rightarrow> ('f, 'o) source_option list \<Rightarrow> ('f, 'o) source option" where
  "NewSourceFromBytes tokenize data opts = NewSourceFromString tokenize data opts"

text \<open>\<open>os.ReadFile\<close> is the parameter \<open>readFile\<close>: an error or the bytes.\<close>

definition NewSourceFromFile ::
  "(string \<Rightarrow> 'e + string) \<Rightarrow> (string \<Rightarrow> token list) \<Rightarrow> string \<Rightarrow> ('f, 'o) source_option list
    \<Rightarrow> 'e + ('f, 'o) source option" where
  "NewSourceFromFile readFile tokenize path opts = (case readFile path of
     Inl e \<Rightarrow> Inl e
   | Inr data \<Rightarrow> Inr (NewSourceFromString tokenize data ([WithFilePath path, WithName path] @ opts)))"

section \<open>Reading\<close>

definition source_Tokens :: "adder \<Rightarrow> ('f, 'o) source \<Rightarrow> token list" where
  "source_Tokens add s = lines_Tokens add (src_lines s)"

definition source_Len :: "('f, 'o) source \<Rightarrow> int" where
  "source_Len s = int (length (src_lines s))"

definition source_IsEmpty :: "('f, 'o) source \<Rightarrow> bool" where
  "source_IsEmpty s \<longleftrightarrow> length (src_lines s) = 0"

definition lines_between :: "lines \<Rightarrow> int \<Rightarrow> int \<Rightarrow> (position \<times> line) list" where
  "lines_between ls start end' = map (\<lambda>i. (New i 0, ls ! nat i)) [start..end' - 1]"

definition AllLines :: "span list \<Rightarrow> ('f, 'o) source \<Rightarrow> (position \<times> line) list" where
  "AllLines spans s =
     (let ls = src_lines s in
      if spans = [] then map (\<lambda>(i, l). (New (int i) 0, l)) (enumerate 0 ls)
      else concat (map (\<lambda>sp. lines_between ls (max 0 (sstart sp)) (min (int (length ls)) (send sp))) spans))"

text \<open>The runes of one line with their columns: the column counts across the tokens.\<close>

definition line_runes :: "adder \<Rightarrow> line \<Rightarrow> rune list" where
  "line_runes add l = concat (map (\<lambda>tk. runes (tk_origin tk)) (line_Tokens add l))"

definition runes_at :: "adder \<Rightarrow> int \<Rightarrow> line \<Rightarrow> (position \<times> rune) list" where
  "runes_at add i l = map (\<lambda>(col, r). (New i (int col), r)) (enumerate 0 (line_runes add l))"

definition AllRunes :: "adder \<Rightarrow> range list \<Rightarrow> ('f, 'o) source \<Rightarrow> (position \<times> rune) list" where
  "AllRunes add ranges s =
     (let ls = src_lines s in
      if ranges = [] then concat (map (\<lambda>(i, l). runes_at add (int i) l) (enumerate 0 ls))
      else concat (map (\<lambda>rng.
        let startLine = max 0 (pline (rstart rng));
            endLine = min (int (length ls) - 1) (pline (rend rng))
        in concat (map (\<lambda>i. filter (\<lambda>(pos, r). range_Contains rng pos) (runes_at add i (ls ! nat i)))
                    [startLine..endLine])) ranges))"

definition source_Line :: "('f, 'o) source \<Rightarrow> int \<Rightarrow> line option" where
  "source_Line s idx = slice_get (src_lines s) idx"

definition source_Content :: "('f, 'o) source \<Rightarrow> string" where
  "source_Content s = lines_Content (src_lines s)"

definition source_String :: "('f, 'o) source \<Rightarrow> string" where
  "source_String s = lines_String (src_lines s)"

definition source_Validate :: "('f, 'o) source \<Rightarrow> validate_error option" where
  "source_Validate s = lines_Validate (src_lines s)"

definition source_TokenAt :: "('f, 'o) source \<Rightarrow> position \<Rightarrow> token option" where
  "source_TokenAt s pos = TokenAt (src_lines s) pos"

definition source_TokenPositionRanges :: "('f, 'o) source \<Rightarrow> position list \<Rightarrow> range list" where
  "source_TokenPositionRanges s positions =
     UniqueValues (foldl (\<lambda>all pos. all @ TokenPositionRangesAt (src_lines s) pos) [] positions)"

definition TokenPositionRangesFromToken :: "('f, 'o) source \<Rightarrow> nat option \<Rightarrow> range list" where
  "TokenPositionRangesFromToken s tk =
     source_TokenPositionRanges s (TokenPositions (src_lines s) tk)"

definition ContentPositionRanges :: "('f, 'o) source \<Rightarrow> position list \<Rightarrow> range list" where
  "ContentPositionRanges s positions =
     UniqueValues (foldl (\<lambda>all pos. all @ ContentPositionRangesAt (src_lines s) pos) [] positions)"

definition ContentPositionRangesFromToken :: "('f, 'o) source \<Rightarrow> nat option \<Rightarrow> range list" where
  "ContentPositionRangesFromToken s tk =
     ContentPositionRanges s (TokenPositions (src_lines s) tk)"

definition source_Width :: "('f, 'o) source \<Rightarrow> int" where
  "source_Width s = foldl (\<lambda>m l. if line_Width l > m then line_Width l else m) 0 (src_lines s)"

section \<open>Overlays\<close>

definition source_AddOverlay ::
  "style \<Rightarrow> range list \<Rightarrow> ('f, 'o) source \<Rightarrow> ('f, 'o) source option" where
  "source_AddOverlay kind ranges s =
     map_option (\<lambda>ls. s\<lparr>src_lines := ls\<rparr>) (lines_AddOverlay kind ranges (src_lines s))"

definition source_ClearOverlays :: "('f, 'o) source \<Rightarrow> ('f, 'o) source" where
  "source_ClearOverlays s = s\<lparr>src_lines := lines_ClearOverlays (src_lines s)\<rparr>"

section \<open>Facts\<close>

lemma runes_at_pline: "(p, r) \<in> set (runes_at add i l) \<Longrightarrow> pline p = i"
  by (auto simp: runes_at_def)

lemma in_lines_between:
  "0 \<le> a \<Longrightarrow> b \<le> int (length ls) \<Longrightarrow> (p, l) \<in> set (lines_between ls a b)
     \<longleftrightarrow> (\<exists>i. a \<le> i \<and> i < b \<and> p = New i 0 \<and> l = ls ! nat i)"
  by (auto simp: lines_between_def)

lemma in_AllLines_Nil:
  "(p, l) \<in> set (AllLines [] s)
     \<longleftrightarrow> (\<exists>i < length (src_lines s). p = New (int i) 0 \<and> l = src_lines s ! i)"
  by (force simp: AllLines_def in_enumerate0 Let_def)

lemma AllLines_spans:
  assumes "spans \<noteq> []"
  shows "(p, l) \<in> set (AllLines spans s)
    \<longleftrightarrow> (p, l) \<in> set (AllLines [] s) \<and> (\<exists>sp \<in> set spans. span_Contains sp (pline p))"
proof -
  let ?ls = "src_lines s"
  have "(p, l) \<in> set (AllLines spans s) \<longleftrightarrow> (\<exists>sp \<in> set spans. \<exists>i. max 0 (sstart sp) \<le> i
      \<and> i < min (int (length ?ls)) (send sp) \<and> p = New i 0 \<and> l = ?ls ! nat i)"
    using assms by (simp add: AllLines_def Let_def in_lines_between)
  also have "\<dots> \<longleftrightarrow> (\<exists>i < length ?ls. p = New (int i) 0 \<and> l = ?ls ! i
      \<and> (\<exists>sp \<in> set spans. span_Contains sp (int i)))"
  proof
    assume "\<exists>sp \<in> set spans. \<exists>i. max 0 (sstart sp) \<le> i
      \<and> i < min (int (length ?ls)) (send sp) \<and> p = New i 0 \<and> l = ?ls ! nat i"
    then obtain sp i where "sp \<in> set spans" "0 \<le> i" "sstart sp \<le> i" "i < int (length ?ls)"
      "i < send sp" "p = New i 0" "l = ?ls ! nat i" by auto
    then show "\<exists>i < length ?ls. p = New (int i) 0 \<and> l = ?ls ! i
      \<and> (\<exists>sp \<in> set spans. span_Contains sp (int i))"
      by (intro exI [of _ "nat i"]) (auto simp: span_Contains_iff)
  next
    assume "\<exists>i < length ?ls. p = New (int i) 0 \<and> l = ?ls ! i
      \<and> (\<exists>sp \<in> set spans. span_Contains sp (int i))"
    then obtain i sp where i: "i < length ?ls" "p = New (int i) 0" "l = ?ls ! i"
      "sp \<in> set spans" "span_Contains sp (int i)" by blast
    then show "\<exists>sp \<in> set spans. \<exists>i. max 0 (sstart sp) \<le> i
      \<and> i < min (int (length ?ls)) (send sp) \<and> p = New i 0 \<and> l = ?ls ! nat i"
      by (intro bexI [of _ sp] exI [of _ "int i"]) (simp_all add: span_Contains_iff)
  qed
  finally show ?thesis by (auto simp: in_AllLines_Nil)
qed

lemma in_AllRunes_Nil:
  "(p, r) \<in> set (AllRunes add [] s)
     \<longleftrightarrow> (\<exists>i < length (src_lines s). (p, r) \<in> set (runes_at add (int i) (src_lines s ! i)))"
  by (force simp: AllRunes_def in_enumerate0 Let_def)

lemma AllRunes_ranges:
  assumes "ranges \<noteq> []"
  shows "(p, r) \<in> set (AllRunes add ranges s)
    \<longleftrightarrow> (p, r) \<in> set (AllRunes add [] s) \<and> (\<exists>rng \<in> set ranges. range_Contains rng p)"
proof -
  let ?ls = "src_lines s"
  have "(p, r) \<in> set (AllRunes add ranges s) \<longleftrightarrow> (\<exists>rng \<in> set ranges. \<exists>i.
      max 0 (pline (rstart rng)) \<le> i \<and> i \<le> min (int (length ?ls) - 1) (pline (rend rng))
      \<and> (p, r) \<in> set (runes_at add i (?ls ! nat i)) \<and> range_Contains rng p)"
    using assms by (simp add: AllRunes_def Let_def Bex_def) blast
  also have "\<dots> \<longleftrightarrow> (\<exists>i < length ?ls. (p, r) \<in> set (runes_at add (int i) (?ls ! i))
      \<and> (\<exists>rng \<in> set ranges. range_Contains rng p))"
  proof
    assume "\<exists>rng \<in> set ranges. \<exists>i.
      max 0 (pline (rstart rng)) \<le> i \<and> i \<le> min (int (length ?ls) - 1) (pline (rend rng))
      \<and> (p, r) \<in> set (runes_at add i (?ls ! nat i)) \<and> range_Contains rng p"
    then obtain rng i where "rng \<in> set ranges" "0 \<le> i" "i < int (length ?ls)"
      "(p, r) \<in> set (runes_at add i (?ls ! nat i))" "range_Contains rng p" by auto
    then show "\<exists>i < length ?ls. (p, r) \<in> set (runes_at add (int i) (?ls ! i))
      \<and> (\<exists>rng \<in> set ranges. range_Contains rng p)"
      by (intro exI [of _ "nat i"]) auto
  next
    assume "\<exists>i < length ?ls. (p, r) \<in> set (runes_at add (int i) (?ls ! i))
      \<and> (\<exists>rng \<in> set ranges. range_Contains rng p)"
    then obtain i rng where i: "i < length ?ls" "(p, r) \<in> set (runes_at add (int i) (?ls ! i))"
      "rng \<in> set ranges" "range_Contains rng p" by blast
    have "pline p = int i" using runes_at_pline [OF i(2)] .
    then have "pline (rstart rng) \<le> int i" "int i \<le> pline (rend rng)"
      using i(4) by (auto simp: range_Contains_iff position_le_iff position_less_iff)
    with i show "\<exists>rng \<in> set ranges. \<exists>i.
      max 0 (pline (rstart rng)) \<le> i \<and> i \<le> min (int (length ?ls) - 1) (pline (rend rng))
      \<and> (p, r) \<in> set (runes_at add i (?ls ! nat i)) \<and> range_Contains rng p"
      by (intro bexI [of _ rng] exI [of _ "int i"]) simp_all
  qed
  finally show ?thesis by (auto simp: in_AllRunes_Nil)
qed

text \<open>Overlays do not change what a line says.\<close>

definition same_text :: "lines \<Rightarrow> lines \<Rightarrow> bool" where
  "same_text ls ls' \<longleftrightarrow> map (\<lambda>l. l\<lparr>l_overlays := []\<rparr>) ls = map (\<lambda>l. l\<lparr>l_overlays := []\<rparr>) ls'"

lemma addOverlaySlice_text:
  assumes "addOverlaySlice kind ls r = Some ls'"
  shows "same_text ls ls'"
proof -
  obtain o' where ls': "ls' = ls[nat (pline (rstart r)) := (ls ! nat (pline (rstart r)))\<lparr>l_overlays := o'\<rparr>]"
    and i: "nat (pline (rstart r)) < length ls"
    using assms
    by (auto simp: addOverlaySlice_def Let_def slice_get_def line_AddOverlay_def
        split: option.splits if_splits)
  show ?thesis unfolding same_text_def ls'
    using i by (intro nth_equalityI) (auto simp: nth_list_update)
qed

lemma same_text_trans: "same_text a b \<Longrightarrow> same_text b c \<Longrightarrow> same_text a c"
  by (simp add: same_text_def)

lemma addOverlayRange_text:
  assumes "addOverlayRange kind ls r = Some ls'"
  shows "same_text ls ls'"
proof -
  from assms obtain rs where "foldM (addOverlaySlice kind) ls rs = Some ls'"
    by (auto simp: addOverlayRange_def split: option.splits)
  then show ?thesis
    by (rule foldM_invariant [where P = "same_text ls"])
       (auto simp: same_text_def [of ls ls] intro: same_text_trans addOverlaySlice_text)
qed

lemma lines_AddOverlay_text:
  assumes "lines_AddOverlay kind rs ls = Some ls'"
  shows "same_text ls ls'"
proof (cases "ls = []")
  case True
  with assms show ?thesis by (simp add: lines_AddOverlay_def same_text_def)
next
  case False
  with assms have "foldM (addOverlayRange kind) ls rs = Some ls'"
    by (simp add: lines_AddOverlay_def)
  then show ?thesis
    by (rule foldM_invariant [where P = "same_text ls"])
       (auto simp: same_text_def [of ls ls] intro: same_text_trans addOverlayRange_text)
qed

lemma lines_ClearOverlays_text: "same_text ls (lines_ClearOverlays ls)"
  by (simp add: same_text_def lines_ClearOverlays_def)

text \<open>Which columns an overlay covers.\<close>

definition overlaid :: "lines \<Rightarrow> style \<Rightarrow> int \<Rightarrow> int \<Rightarrow> bool" where
  "overlaid ls kind i c \<longleftrightarrow> (\<exists>ov \<in> set (l_overlays (ls ! nat i)). ov_kind ov = kind
     \<and> span_Contains (ov_cols ov) c)"

lemma addOverlaySlice_exact:
  assumes "addOverlaySlice kind ls s = Some ls'" "0 \<le> i" "i < int (length ls)"
    "pline (rstart s) = pline (rend s)"
  shows "length ls' = length ls
    \<and> (overlaid ls' k i c \<longleftrightarrow> overlaid ls k i c \<or> k = kind \<and> range_Contains s (New i c))"
proof -
  have ls': "ls' = ls[nat (pline (rstart s)) := line_AddOverlay (ls ! nat (pline (rstart s)))
      [\<lparr>ov_kind = kind, ov_cols = NewSpan (pcol (rstart s)) (pcol (rend s))\<rparr>]]"
    and j: "0 \<le> pline (rstart s)" "nat (pline (rstart s)) < length ls"
    using assms(1) by (auto simp: addOverlaySlice_def Let_def slice_get_def split: option.splits if_splits)
  have "range_Contains s (New i c) \<longleftrightarrow> i = pline (rstart s) \<and> pcol (rstart s) \<le> c \<and> c < pcol (rend s)"
    using assms(4) by (auto simp: range_Contains_iff position_le_iff position_less_iff)
  moreover have "nat (pline (rstart s)) = nat i \<longleftrightarrow> i = pline (rstart s)"
    using assms(2) j by auto
  ultimately show ?thesis
    using j assms(2,3)
    by (auto simp: ls' overlaid_def nth_list_update line_AddOverlay_def span_Contains_iff)
qed

lemma addOverlayRange_exact:
  assumes "addOverlayRange kind ls r = Some ls'" "0 \<le> i" "i < int (length ls)"
    "0 \<le> c" "c < maxCol" "pline (rstart r) \<le> pline (rend r)"
  shows "length ls' = length ls
    \<and> (overlaid ls' k i c \<longleftrightarrow> overlaid ls k i c \<or> k = kind \<and> range_Contains r (New i c))"
proof -
  from assms(1) obtain rs where rs: "SliceLines r = Some rs"
    and fold: "foldM (addOverlaySlice kind) ls rs = Some ls'"
    by (auto simp: addOverlayRange_def split: option.splits)
  have "length ls' = length ls
    \<and> (overlaid ls' k i c
        \<longleftrightarrow> overlaid ls k i c \<or> (\<exists>s \<in> set rs. k = kind \<and> range_Contains s (New i c)))"
  proof (rule foldM_exact [OF fold refl])
    fix u s t
    assume "s \<in> set rs" "length u = length ls" "addOverlaySlice kind u s = Some t"
    with addOverlaySlice_exact [of kind u s t i k c] SliceLines_one_line [OF rs] assms(2,3)
    show "length t = length ls
      \<and> (overlaid t k i c \<longleftrightarrow> overlaid u k i c \<or> k = kind \<and> range_Contains s (New i c))" by simp
  qed
  with SliceLines_Contains [OF rs assms(6), of "New i c"] assms(4,5) show ?thesis by simp
qed

lemma lines_AddOverlay_exact:
  assumes "lines_AddOverlay kind ranges ls = Some ls'" "0 \<le> i" "i < int (length ls)"
    "0 \<le> c" "c < maxCol" "\<forall>r \<in> set ranges. pline (rstart r) \<le> pline (rend r)"
  shows "length ls' = length ls
    \<and> (overlaid ls' k i c
        \<longleftrightarrow> overlaid ls k i c \<or> (\<exists>r \<in> set ranges. k = kind \<and> range_Contains r (New i c)))"
proof -
  have fold: "foldM (addOverlayRange kind) ls ranges = Some ls'"
    using assms(1,2,3) by (auto simp: lines_AddOverlay_def split: if_splits)
  show ?thesis
  proof (rule foldM_exact [OF fold refl])
    fix u r t
    assume "r \<in> set ranges" "length u = length ls" "addOverlayRange kind u r = Some t"
    with addOverlayRange_exact [of kind u r t i c k] assms
    show "length t = length ls
      \<and> (overlaid t k i c \<longleftrightarrow> overlaid u k i c \<or> k = kind \<and> range_Contains r (New i c))" by simp
  qed
qed

text \<open>Adding an overlay only fails (the code panics) on a range outside the lines.\<close>

lemma addOverlayRange_total:
  assumes "0 \<le> pline (rstart r)" "pline (rstart r) \<le> pline (rend r)"
    "pline (rend r) < int (length ls)"
  shows "\<exists>ls'. addOverlayRange kind ls r = Some ls' \<and> length ls' = length ls"
proof -
  obtain rs where rs: "SliceLines r = Some rs" using SliceLines_total [OF assms(2)] by blast
  have "\<exists>ls'. foldM (addOverlaySlice kind) ls rs = Some ls' \<and> length ls' = length ls"
  proof (rule foldM_total [where P = "\<lambda>l. length l = length ls"])
    fix u :: lines and s
    assume "s \<in> set rs" "length u = length ls"
    with SliceLines_one_line [OF rs, of s] assms
    show "\<exists>t. addOverlaySlice kind u s = Some t \<and> length t = length ls"
      by (simp add: addOverlaySlice_def Let_def slice_get_def)
  qed simp
  with rs show ?thesis by (simp add: addOverlayRange_def)
qed

lemma lines_AddOverlay_total:
  assumes "\<forall>r \<in> set ranges. 0 \<le> pline (rstart r) \<and> pline (rstart r) \<le> pline (rend r)
    \<and> pline (rend r) < int (length ls)"
  shows "\<exists>ls'. lines_AddOverlay kind ranges ls = Some ls'"
proof -
  have "\<exists>ls'. foldM (addOverlayRange kind) ls ranges = Some ls' \<and> length ls' = length ls"
  proof (rule foldM_total [where P = "\<lambda>l. length l = length ls"])
    fix u :: lines and r
    assume "r \<in> set ranges" "length u = length ls"
    with assms addOverlayRange_total [of r u kind]
    show "\<exists>t. addOverlayRange kind u r = Some t \<and> length t = length ls" by simp
  qed simp
  then show ?thesis by (auto simp: lines_AddOverlay_def)
qed

section \<open>Properties\<close>

text \<open>With ranges or spans given, the iterators yield just those runes and lines of the whole
  iteration that lie in one of them; lines and runes outside the source are skipped, not read.\<close>

theorem iterators_exact:
  assumes "ranges \<noteq> []" "spans \<noteq> []"
  shows "set (AllRunes add ranges s)
      = {(p, r) \<in> set (AllRunes add [] s). \<exists>rng \<in> set ranges. range_Contains rng p}
    \<and> set (AllLines spans s)
      = {(p, l) \<in> set (AllLines [] s). \<exists>sp \<in> set spans. span_Contains sp (pline p)}"
  using AllRunes_ranges [OF assms(1)] AllLines_spans [OF assms(2)] by fast

theorem iterators_exact_witness:
  "set (AllLines [NewSpan (-1) 9] (empty_source :: (nat, nat) source)) = {}"
  using iterators_exact [of "[NewRange (New 0 0) (New 1 0)]" "[NewSpan (-1) 9]" tokens_Add
      "empty_source :: (nat, nat) source"]
  by (simp add: AllLines_def empty_source_def)

text \<open>C19: \<open>AddOverlay\<close> never panics on ranges inside the source, then covers exactly the columns of
  the ranges with its kind, on top of what was covered before, and changes nothing but overlays.\<close>

theorem AddOverlay_exact:
  assumes "\<forall>r \<in> set ranges. 0 \<le> pline (rstart r) \<and> pline (rstart r) \<le> pline (rend r)
      \<and> pline (rend r) < int (length (src_lines s))"
    and "0 \<le> i" "i < int (length (src_lines s))" "0 \<le> c" "c < maxCol"
  shows "\<exists>s'. source_AddOverlay kind ranges s = Some s'
    \<and> (overlaid (src_lines s') k i c
         \<longleftrightarrow> overlaid (src_lines s) k i c
           \<or> k = kind \<and> (\<exists>r \<in> set ranges. range_Contains r (New i c)))
    \<and> source_ClearOverlays s' = source_ClearOverlays s"
proof -
  obtain ls' where ls': "lines_AddOverlay kind ranges (src_lines s) = Some ls'"
    using lines_AddOverlay_total [OF assms(1)] by blast
  from lines_AddOverlay_exact [OF ls' assms(2-5)] assms(1) lines_AddOverlay_text [OF ls'] ls'
  show ?thesis
    by (simp add: source_AddOverlay_def source_ClearOverlays_def lines_ClearOverlays_def same_text_def)
qed

theorem AddOverlay_exact_witness:
  "\<exists>s'. source_AddOverlay style_Comment [NewRange (New 0 1) (New 1 1)]
       ((empty_source :: (nat, nat) source)\<lparr>src_lines := [empty_line, empty_line]\<rparr>) = Some s'
     \<and> overlaid (src_lines s') style_Comment 1 0"
  using AddOverlay_exact [of "[NewRange (New 0 1) (New 1 1)]"
      "(empty_source :: (nat, nat) source)\<lparr>src_lines := [empty_line, empty_line]\<rparr>" 1 0 style_Comment style_Comment]
  by (auto simp: maxCol_def range_Contains_iff position_le_iff position_less_iff)

end
