(* ===== verification/LCS.thy ===== *)
theory LCS
  imports Prelude
begin

text \<open>
  The specification behind the diff: the length of a longest common subsequence, its
  symmetry under reversal, its recursion from the back (which the row buffers follow) and the
  split that divide and conquer rests on.
\<close>

fun lcs :: "'a list \<Rightarrow> 'a list \<Rightarrow> nat" where
  "lcs [] ys = 0"
| "lcs xs [] = 0"
| "lcs (x # xs) (y # ys) =
     (if x = y then Suc (lcs xs ys) else max (lcs (x # xs) ys) (lcs xs (y # ys)))"

lemma lcs_Nil2 [simp]: "lcs xs [] = 0"
  by (cases xs) auto

lemma lcs_upper: "subseq zs xs \<Longrightarrow> subseq zs ys \<Longrightarrow> length zs \<le> lcs xs ys"
proof (induction xs ys arbitrary: zs rule: lcs.induct)
  case (3 x xs y ys)
  show ?case
  proof (cases "x = y")
    case True
    show ?thesis
    proof (cases zs)
      case Nil
      then show ?thesis by simp
    next
      case (Cons z zs')
      have "subseq zs' xs" "subseq zs' ys"
        using "3.prems" unfolding Cons by (metis subseq_Cons' subseq_Cons2_iff)+
      with True "3.IH"(1) Cons show ?thesis by simp
    qed
  next
    case False
    consider "subseq zs xs" | "subseq zs ys"
      using "3.prems" False by (cases zs) (auto simp: subseq_Cons2_iff split: if_splits)
    then show ?thesis
      using "3.prems" "3.IH"(2,3) False by cases (auto simp: max.coboundedI1 max.coboundedI2)
  qed
qed auto

lemma lcs_attained: "\<exists>zs. subseq zs xs \<and> subseq zs ys \<and> length zs = lcs xs ys"
proof (induction xs ys rule: lcs.induct)
  case (3 x xs y ys)
  show ?case
  proof (cases "x = y")
    case True
    with "3.IH"(1) obtain zs where "subseq zs xs" "subseq zs ys" "length zs = lcs xs ys" by auto
    with True show ?thesis by (intro exI [of _ "x # zs"]) auto
  next
    case False
    from "3.IH"(2,3) False obtain us vs where
      "subseq us (x # xs)" "subseq us ys" "length us = lcs (x # xs) ys"
      "subseq vs xs" "subseq vs (y # ys)" "length vs = lcs xs (y # ys)" by auto
    with False show ?thesis
      by (cases "lcs (x # xs) ys \<le> lcs xs (y # ys)")
         (simp_all add: max_def, (metis list_emb_Cons)+)
  qed
qed auto

lemma lcs_eqI:
  assumes "\<And>zs. subseq zs xs \<Longrightarrow> subseq zs ys \<Longrightarrow> length zs \<le> n"
    and "\<exists>zs. subseq zs xs \<and> subseq zs ys \<and> length zs = n"
  shows "lcs xs ys = n"
  using assms lcs_upper lcs_attained by (metis le_antisym)

lemma subseq_rev_imp: "subseq xs ys \<Longrightarrow> subseq (rev xs) (rev ys)"
  by (induction rule: list_emb.induct)
     (auto intro: list_emb_prefix list_emb_append_mono)

lemma subseq_rev: "subseq (rev xs) (rev ys) \<longleftrightarrow> subseq xs ys"
  using subseq_rev_imp [of xs ys] subseq_rev_imp [of "rev xs" "rev ys"] by auto

lemma lcs_rev: "lcs (rev xs) (rev ys) = lcs xs ys"
proof (rule lcs_eqI)
  fix zs :: "'a list"
  assume "subseq zs (rev xs)" "subseq zs (rev ys)"
  then have "subseq (rev zs) xs" "subseq (rev zs) ys" by (metis rev_rev_ident subseq_rev)+
  then show "length zs \<le> lcs xs ys" using lcs_upper by force
next
  show "\<exists>zs. subseq zs (rev xs) \<and> subseq zs (rev ys) \<and> length zs = lcs xs ys"
    using lcs_attained [of xs ys] by (metis length_rev subseq_rev)
qed

lemma lcs_snoc:
  "lcs (xs @ [x]) (ys @ [y]) =
     (if x = y then Suc (lcs xs ys) else max (lcs (xs @ [x]) ys) (lcs xs (ys @ [y])))"
  by (subst (1 2 3 4) lcs_rev [symmetric]) simp

lemma lcs_append_ge: "lcs xs us + lcs ys vs \<le> lcs (xs @ ys) (us @ vs)"
proof -
  obtain zs ws where "subseq zs xs" "subseq zs us" "length zs = lcs xs us"
    "subseq ws ys" "subseq ws vs" "length ws = lcs ys vs" using lcs_attained by metis
  then show ?thesis using lcs_upper [of "zs @ ws" "xs @ ys" "us @ vs"]
    by (auto intro: list_emb_append_mono)
qed

lemma subseq_append_split:
  assumes "subseq (zs @ ws) ys"
  shows "\<exists>k \<le> length ys. subseq zs (take k ys) \<and> subseq ws (drop k ys)"
proof -
  from assms obtain us vs where "ys = us @ vs" "subseq zs us" "subseq ws vs"
    by (metis list_emb_appendD)
  then show ?thesis by (intro exI [of _ "length us"]) simp
qed

text \<open>Some split of the second list adds up.\<close>

lemma lcs_split: "\<exists>k \<le> length ys. lcs xs (take k ys) + lcs xs' (drop k ys) = lcs (xs @ xs') ys"
proof -
  obtain zs where zs: "subseq zs (xs @ xs')" "subseq zs ys" "length zs = lcs (xs @ xs') ys"
    using lcs_attained by blast
  then obtain us vs where uv: "zs = us @ vs" "subseq us xs" "subseq vs xs'"
    by (metis subseq_appendE)
  with zs obtain k where k: "k \<le> length ys" "subseq us (take k ys)" "subseq vs (drop k ys)"
    using subseq_append_split by blast
  have "length zs \<le> lcs xs (take k ys) + lcs xs' (drop k ys)"
    using lcs_upper [OF uv(2) k(2)] lcs_upper [OF uv(3) k(3)] uv(1) by simp
  moreover have "lcs xs (take k ys) + lcs xs' (drop k ys) \<le> lcs (xs @ xs') ys"
    using lcs_append_ge [of xs "take k ys" xs' "drop k ys"] by simp
  ultimately show ?thesis using k(1) zs(3) by (intro exI [of _ k]) simp
qed

lemma lcs_le_split: "lcs xs (take k ys) + lcs xs' (drop k ys) \<le> lcs (xs @ xs') ys"
  using lcs_append_ge [of xs "take k ys" xs' "drop k ys"] by simp

lemma lcs_mono: "lcs xs ys \<le> lcs xs (ys @ vs)" "lcs xs vs \<le> lcs xs (ys @ vs)"
  using lcs_append_ge [of xs ys "[]" vs] lcs_append_ge [of "[]" ys xs vs] by simp_all

lemma lcs_single: "lcs [x] ys = (if x \<in> set ys then 1 else 0)"
  by (induction ys) auto

end
