(* ===== verification/Hirschberg.thy ===== *)
theory Hirschberg
  imports Lines LCS
begin

text \<open>
  Package \<open>diff\<close>: the interface \<open>Algorithm\<close> (a locale) and \<open>Hirschberg\<close>, its implementation,
  with the row buffers it reuses between calls. A buffer is a list that is written in place;
  the writes outside it, at which the code would panic, are excluded by the facts on
  \<open>fits\<close>: every buffer holds at least \<open>length after + 1\<close> cells and no index exceeds
  \<open>length after\<close>. The specification is the length of a longest common subsequence.
\<close>

section \<open>Operations\<close>

datatype op_kind = OpEqual | OpDelete | OpInsert

fun Flag :: "op_kind \<Rightarrow> flag" where
  "Flag OpDelete = FlagDeleted"
| "Flag OpInsert = FlagInserted"
| "Flag OpEqual = FlagDefault"

record op =
  op_kind :: op_kind
  op_index :: nat

abbreviation Op :: "op_kind \<Rightarrow> nat \<Rightarrow> op" where
  "Op k i \<equiv> \<lparr>op_kind = k, op_index = i\<rparr>"

section \<open>The algorithm\<close>

record hirschberg =
  h_row0 :: "int list"
  h_row1 :: "int list"
  h_fwd :: "int list"
  h_bwd :: "int list"
  h_ops :: "op list"

definition NewHirschberg :: hirschberg where
  "NewHirschberg = \<lparr>h_row0 = [], h_row1 = [], h_fwd = [], h_bwd = [], h_ops = []\<rparr>"

definition make_buffers :: "nat \<Rightarrow> hirschberg \<Rightarrow> hirschberg" where
  "make_buffers n h = h\<lparr>h_row0 := replicate n 0, h_row1 := replicate n 0,
     h_fwd := replicate n 0, h_bwd := replicate n 0\<rparr>"

text \<open>
  The capacity of the operations buffer is not observable, but \<open>Init\<close> drops the operations
  of the previous call when it allocates a larger one; \<open>ops_capacity\<close> is that capacity.
\<close>

definition Init :: "nat \<Rightarrow> nat \<Rightarrow> nat \<Rightarrow> hirschberg \<Rightarrow> hirschberg" where
  "Init ops_capacity beforeLen afterLen h =
     (let capacity = min beforeLen afterLen + 1;
          h1 = (if capacity > length (h_row0 h) then make_buffers capacity h else h)
      in if beforeLen + afterLen > ops_capacity then h1\<lparr>h_ops := []\<rparr> else h1)"

definition zero_row :: "nat \<Rightarrow> int list \<Rightarrow> int list" where
  "zero_row n row = foldl (\<lambda>r j. r[j := 0]) row [0..<Suc n]"

definition fill_row :: "(nat \<Rightarrow> bool) \<Rightarrow> nat \<Rightarrow> int list \<Rightarrow> int list \<Rightarrow> int list" where
  "fill_row eq n row0 row1 =
     foldl (\<lambda>r j. if eq j then r[Suc j := row0 ! j + 1]
                  else r[Suc j := max (r ! j) (row0 ! Suc j)])
       (row1[0 := 0]) [0..<n]"

text \<open>One iteration of the outer loop: swap the rows, then fill the second.\<close>

definition swap_fill :: "(nat \<Rightarrow> bool) \<Rightarrow> nat \<Rightarrow> int list \<times> int list \<Rightarrow> int list \<times> int list" where
  "swap_fill eq n = (\<lambda>(row0, row1). (row1, fill_row eq n row1 row0))"

definition forward ::
  "string list \<Rightarrow> string list \<Rightarrow> nat \<Rightarrow> nat \<Rightarrow> nat \<Rightarrow> nat \<Rightarrow> hirschberg \<Rightarrow> hirschberg" where
  "forward before after bStart bMid aStart aEnd h =
     (let n = aEnd - aStart;
          (row0, row1) = foldl (\<lambda>rows i. swap_fill (\<lambda>j. before ! i = after ! (aStart + j)) n rows)
            (zero_row n (h_row0 h), zero_row n (h_row1 h)) [bStart..<bMid];
          src = (if bStart = bMid then row0 else row1)
      in h\<lparr>h_row0 := row0, h_row1 := row1,
           h_fwd := take (Suc n) src @ drop (Suc n) (h_fwd h)\<rparr>)"

definition backward ::
  "string list \<Rightarrow> string list \<Rightarrow> nat \<Rightarrow> nat \<Rightarrow> nat \<Rightarrow> nat \<Rightarrow> hirschberg \<Rightarrow> hirschberg" where
  "backward before after bMid bEnd aStart aEnd h =
     (let n = aEnd - aStart;
          (row0, row1) = foldl (\<lambda>rows i. swap_fill (\<lambda>j. before ! i = after ! (aEnd - 1 - j)) n rows)
            (zero_row n (h_row0 h), zero_row n (h_row1 h)) (rev [bMid..<bEnd]);
          src = (if bMid = bEnd then row0 else row1)
      in h\<lparr>h_row0 := row0, h_row1 := row1,
           h_bwd := take (Suc n) src @ drop (Suc n) (h_bwd h)\<rparr>)"

definition append_ops :: "op list \<Rightarrow> hirschberg \<Rightarrow> hirschberg" where
  "append_ops ops h = h\<lparr>h_ops := h_ops h @ ops\<rparr>"

definition single_ops :: "string list \<Rightarrow> string list \<Rightarrow> nat \<Rightarrow> nat \<Rightarrow> nat \<Rightarrow> op list" where
  "single_ops before after bStart aStart aEnd =
     (case find_index (\<lambda>j. before ! bStart = after ! j) [aStart..<aEnd] of
        None \<Rightarrow> Op OpDelete bStart # map (Op OpInsert) [aStart..<aEnd]
      | Some k \<Rightarrow>
          let matchIdx = aStart + k in
          map (Op OpInsert) [aStart..<matchIdx] @ [Op OpEqual matchIdx]
          @ map (Op OpInsert) [matchIdx + 1..<aEnd])"

definition singleBeforeLine ::
  "string list \<Rightarrow> string list \<Rightarrow> nat \<Rightarrow> nat \<Rightarrow> nat \<Rightarrow> hirschberg \<Rightarrow> hirschberg" where
  "singleBeforeLine before after bStart aStart aEnd h =
     append_ops (single_ops before after bStart aStart aEnd) h"

text \<open>The first split that maximises the score.\<close>

definition best_split :: "(nat \<Rightarrow> int) \<Rightarrow> nat \<Rightarrow> nat \<Rightarrow> nat \<times> int" where
  "best_split score aStart aEnd =
     foldl (\<lambda>(aMid, best) j. if score j > best then (j, score j) else (aMid, best))
       (aStart, -1) [aStart..<Suc aEnd]"

function recurse ::
  "string list \<Rightarrow> string list \<Rightarrow> nat \<Rightarrow> nat \<Rightarrow> nat \<Rightarrow> nat \<Rightarrow> hirschberg \<Rightarrow> hirschberg" where
  "recurse before after bStart bEnd aStart aEnd h =
     (let m = bEnd - bStart; n = aEnd - aStart in
      if m = 0 then append_ops (map (Op OpInsert) [aStart..<aEnd]) h
      else if n = 0 then append_ops (map (Op OpDelete) [bStart..<bEnd]) h
      else if m = 1 then singleBeforeLine before after bStart aStart aEnd h
      else
        let bMid = bStart + m div 2;
            h1 = forward before after bStart bMid aStart aEnd h;
            h2 = backward before after bMid bEnd aStart aEnd h1;
            aMid = fst (best_split (\<lambda>j. h_fwd h2 ! (j - aStart) + h_bwd h2 ! (aEnd - j)) aStart aEnd);
            h3 = recurse before after bStart bMid aStart aMid h2
        in recurse before after bMid bEnd aMid aEnd h3)"
  by pat_completeness auto

termination
  by (relation "measure (\<lambda>(before, after, bStart, bEnd, aStart, aEnd, h). bEnd - bStart)") auto

declare recurse.simps [simp del]

text \<open>\<open>Diff\<close> returns the operations, which it also keeps.\<close>

definition Diff :: "string list \<Rightarrow> string list \<Rightarrow> hirschberg \<Rightarrow> op list \<times> hirschberg" where
  "Diff before after h =
     (let needed = length after + 1;
          h1 = h\<lparr>h_ops := []\<rparr>;
          h2 = (if length (h_row0 h1) < needed then make_buffers needed h1 else h1);
          h3 = recurse before after 0 (length before) 0 (length after) h2
      in (h_ops h3, h3))"

section \<open>The rows hold lengths of common subsequences\<close>

definition slice :: "'a list \<Rightarrow> nat \<Rightarrow> nat \<Rightarrow> 'a list" where
  "slice xs i j = take (j - i) (drop i xs)"

lemma length_slice: "i \<le> j \<Longrightarrow> j \<le> length xs \<Longrightarrow> length (slice xs i j) = j - i"
  by (simp add: slice_def)

lemma slice_split: "i \<le> k \<Longrightarrow> k \<le> j \<Longrightarrow> slice xs i j = slice xs i k @ slice xs k j"
  using take_drop_split [of "k - i" "j - i" "drop i xs"] by (simp add: slice_def)

lemma slice_empty [simp]: "slice xs i i = []"
  by (simp add: slice_def)

lemma slice_full [simp]: "slice xs 0 (length xs) = xs"
  by (simp add: slice_def)

lemma slice_Cons: "i < j \<Longrightarrow> j \<le> length xs \<Longrightarrow> slice xs i j = xs ! i # slice xs (Suc i) j"
  by (simp add: slice_def Cons_nth_drop_Suc [symmetric] take_Cons' Suc_diff_Suc [symmetric])

lemma slice_map: "j \<le> length xs \<Longrightarrow> slice xs i j = map (\<lambda>k. xs ! k) [i..<j]"
  by (rule nth_equalityI) (auto simp: slice_def)

lemma slice_single: "i < length xs \<Longrightarrow> slice xs i (Suc i) = [xs ! i]"
  by (simp add: slice_Cons)

lemma take_slice: "i \<le> j \<Longrightarrow> j \<le> e \<Longrightarrow> take (j - i) (slice xs i e) = slice xs i j"
  by (simp add: slice_def min_def)

lemma drop_slice: "i \<le> j \<Longrightarrow> drop (j - i) (slice xs i e) = slice xs j e"
  by (simp add: slice_def drop_take)

definition row_of :: "'a list \<Rightarrow> 'a list \<Rightarrow> int list" where
  "row_of xs ys = map (\<lambda>j. int (lcs xs (take j ys))) [0..<Suc (length ys)]"

lemma length_zero_row [simp]: "length (zero_row n row) = length row"
  unfolding zero_row_def by (rule foldl_invariant [where P = "\<lambda>r. length r = length row"]) auto

lemma zero_row_take:
  assumes "n < length row"
  shows "take (Suc n) (zero_row n row) = replicate (Suc n) 0"
proof -
  have "k \<le> length row \<Longrightarrow> length (foldl (\<lambda>r j. r[j := 0]) row [0..<k]) = length row
      \<and> take k (foldl (\<lambda>r j. r[j := 0]) row [0..<k]) = replicate k (0::int)" for k
    by (induction k) (auto simp: take_Suc_conv_app_nth replicate_append_same)
  with assms show ?thesis by (simp add: zero_row_def del: upt_Suc)
qed

lemma row_of_Nil: "row_of [] ys = replicate (Suc (length ys)) 0"
  by (auto simp: row_of_def map_replicate_const simp del: upt_Suc)

lemma length_row_of [simp]: "length (row_of xs ys) = Suc (length ys)"
  by (simp add: row_of_def)

lemma row_of_nth: "j \<le> length ys \<Longrightarrow> row_of xs ys ! j = int (lcs xs (take j ys))"
  by (simp add: row_of_def del: upt_Suc)

lemma take_row_nth: "take (Suc n) row = row_of xs ys \<Longrightarrow> n = length ys \<Longrightarrow> j \<le> n \<Longrightarrow>
    row ! j = int (lcs xs (take j ys))"
  by (metis le_imp_less_Suc nth_take row_of_nth)

lemma fill_row_correct:
  assumes row0: "take (Suc n) row0 = row_of xs ys" and n: "n = length ys" "n < length row1"
    and eq: "\<And>j. j < n \<Longrightarrow> eq j \<longleftrightarrow> x = ys ! j"
  shows "length (fill_row eq n row0 row1) = length row1"
    "take (Suc n) (fill_row eq n row0 row1) = row_of (xs @ [x]) ys"
proof -
  let ?f = "\<lambda>r j. if eq j then r[Suc j := row0 ! j + 1] else r[Suc j := max (r ! j) (row0 ! Suc j)]"
  let ?r = "\<lambda>k. foldl ?f (row1[0 := 0]) [0..<k]"
  have loop: "k \<le> n \<Longrightarrow> length (?r k) = length row1
      \<and> (\<forall>j \<le> k. ?r k ! j = int (lcs (xs @ [x]) (take j ys)))" for k
  proof (induction k)
    case 0
    then show ?case using n(2) by (cases row1) auto
  next
    case (Suc k)
    then have k: "k < n" and len: "length (?r k) = length row1"
      and IH: "\<forall>j \<le> k. ?r k ! j = int (lcs (xs @ [x]) (take j ys))" by simp_all
    have snoc: "take (Suc k) ys = take k ys @ [ys ! k]"
      using k n by (simp add: take_Suc_conv_app_nth)
    have r0: "row0 ! k = int (lcs xs (take k ys))" "row0 ! Suc k = int (lcs xs (take (Suc k) ys))"
      using take_row_nth [OF row0 n(1)] k by auto
    define v where "v = (if eq k then row0 ! k + 1 else max (?r k ! k) (row0 ! Suc k))"
    have v: "v = int (lcs (xs @ [x]) (take (Suc k) ys))"
      using IH r0 eq [OF k] unfolding snoc v_def by (simp add: lcs_snoc of_nat_max)
    have "?r (Suc k) = (?r k)[Suc k := v]" by (simp add: v_def)
    with len IH v k n show ?case
      by (auto simp: nth_list_update le_Suc_eq)
  qed
  show "length (fill_row eq n row0 row1) = length row1"
    using loop [of n] by (simp add: fill_row_def)
  show "take (Suc n) (fill_row eq n row0 row1) = row_of (xs @ [x]) ys"
  proof (rule nth_equalityI)
    show "length (take (Suc n) (fill_row eq n row0 row1)) = length (row_of (xs @ [x]) ys)"
      using loop [of n] n by (simp add: fill_row_def row_of_def)
    show "take (Suc n) (fill_row eq n row0 row1) ! j = row_of (xs @ [x]) ys ! j"
      if "j < length (take (Suc n) (fill_row eq n row0 row1))" for j
      using loop [of n] that n by (simp add: fill_row_def row_of_nth)
  qed
qed

lemma rows_loop:
  assumes "length r0 = len" "length r1 = len" "n < len" "n = length ys"
    and "take (Suc n) r1 = row_of xs ys"
    and "\<And>i j. i \<in> set is \<Longrightarrow> j < n \<Longrightarrow> eq i j \<longleftrightarrow> g i = ys ! j"
    and "foldl (\<lambda>rows i. swap_fill (eq i) n rows) (r0, r1) is = (r0', r1')"
  shows "length r0' = len \<and> length r1' = len \<and> take (Suc n) r1' = row_of (xs @ map g is) ys"
  using assms
proof (induction "is" arbitrary: r0 r1 xs)
  case Nil
  then show ?case by simp
next
  case (Cons i "is")
  have fill: "length (fill_row (eq i) n r1 r0) = len"
    "take (Suc n) (fill_row (eq i) n r1 r0) = row_of (xs @ [g i]) ys"
    using fill_row_correct [of n r1 xs ys r0 "eq i" "g i"] Cons.prems by auto
  have "length r0' = len \<and> length r1' = len
    \<and> take (Suc n) r1' = row_of ((xs @ [g i]) @ map g is) ys"
  proof (rule Cons.IH)
    show "foldl (\<lambda>rows i. swap_fill (eq i) n rows) (r1, fill_row (eq i) n r1 r0) is = (r0', r1')"
      using Cons.prems(7) by (simp add: swap_fill_def)
  qed (use Cons.prems fill in auto)
  then show ?case by simp
qed

text \<open>The buffers are large enough for rows of \<open>n + 1\<close> cells.\<close>

definition fits :: "nat \<Rightarrow> hirschberg \<Rightarrow> bool" where
  "fits n h \<longleftrightarrow> n < length (h_row0 h) \<and> length (h_row1 h) = length (h_row0 h)
     \<and> length (h_fwd h) = length (h_row0 h) \<and> length (h_bwd h) = length (h_row0 h)"

lemma forward_correct:
  assumes fits: "fits N h" and a: "aStart \<le> aEnd" "aEnd \<le> length after" "length after \<le> N"
    and b: "bStart \<le> bMid" "bMid \<le> length before" and j: "aStart \<le> j" "j \<le> aEnd"
  defines "h' \<equiv> forward before after bStart bMid aStart aEnd h"
  shows "fits N h'" "h_ops h' = h_ops h" "h_bwd h' = h_bwd h"
    "h_fwd h' ! (j - aStart) = int (lcs (slice before bStart bMid) (slice after aStart j))"
proof -
  define n where "n = aEnd - aStart"
  define ys where "ys = slice after aStart aEnd"
  have n: "n = length ys" "n \<le> N" using a by (simp_all add: n_def ys_def length_slice)
  define eq where "eq = (\<lambda>i j. before ! i = after ! (aStart + j))"
  obtain r0 r1 where loop: "foldl (\<lambda>rows i. swap_fill (eq i) n rows)
      (zero_row n (h_row0 h), zero_row n (h_row1 h)) [bStart..<bMid] = (r0, r1)"
    by (metis surj_pair)
  have ys: "ys ! j = after ! (aStart + j)" if "j < n" for j
    using that a by (simp add: ys_def slice_def n_def)
  have rows: "length r0 = length (h_row0 h) \<and> length r1 = length (h_row0 h)
      \<and> take (Suc n) r1 = row_of ([] @ map ((!) before) [bStart..<bMid]) ys"
    by (rule rows_loop [OF _ _ _ n(1) _ _ loop])
       (use fits n ys in \<open>auto simp: fits_def zero_row_take row_of_Nil eq_def\<close>)
  define src where "src = (if bStart = bMid then r0 else r1)"
  have src: "take (Suc n) src = row_of (slice before bStart bMid) ys"
  proof (cases "bStart = bMid")
    case True
    then have "r0 = zero_row n (h_row0 h)" using loop by simp
    then show ?thesis using True fits n
      by (simp add: src_def zero_row_take row_of_Nil fits_def del: replicate_Suc)
  next
    case False
    then show ?thesis using rows slice_map [OF b(2)] by (simp add: src_def)
  qed
  have h': "h' = h\<lparr>h_row0 := r0, h_row1 := r1,
      h_fwd := row_of (slice before bStart bMid) ys @ drop (Suc n) (h_fwd h)\<rparr>"
    using loop unfolding h'_def forward_def Let_def n_def [symmetric] eq_def
    by (simp add: src_def [symmetric] src)
  show "h_ops h' = h_ops h" "h_bwd h' = h_bwd h" by (simp_all add: h')
  show "fits N h'" using fits rows n by (auto simp: h' fits_def)
  have "j - aStart \<le> n" using j by (simp add: n_def)
  then show "h_fwd h' ! (j - aStart) = int (lcs (slice before bStart bMid) (slice after aStart j))"
    using j by (simp add: h' nth_append row_of_nth n(1) [symmetric])
       (simp add: ys_def take_slice)
qed

lemma slice_rev_take:
  assumes "i \<le> j" "j \<le> e" "e \<le> length xs"
  shows "take (e - j) (rev (slice xs i e)) = rev (slice xs j e)"
proof -
  have "e - i - (e - j) = j - i" using assms by simp
  then have "drop (length (slice xs i e) - (e - j)) (slice xs i e) = slice xs j e"
    using assms by (simp add: length_slice drop_slice)
  then show ?thesis by (simp add: take_rev)
qed

lemma backward_correct:
  assumes fits: "fits N h" and a: "aStart \<le> aEnd" "aEnd \<le> length after" "length after \<le> N"
    and b: "bMid \<le> bEnd" "bEnd \<le> length before" and j: "aStart \<le> j" "j \<le> aEnd"
  defines "h' \<equiv> backward before after bMid bEnd aStart aEnd h"
  shows "fits N h'" "h_ops h' = h_ops h" "h_fwd h' = h_fwd h"
    "h_bwd h' ! (aEnd - j) = int (lcs (slice before bMid bEnd) (slice after j aEnd))"
proof -
  define n where "n = aEnd - aStart"
  define ys where "ys = rev (slice after aStart aEnd)"
  have n: "n = length ys" "n \<le> N" using a by (simp_all add: n_def ys_def length_slice)
  define eq where "eq = (\<lambda>i j. before ! i = after ! (aEnd - 1 - j))"
  obtain r0 r1 where loop: "foldl (\<lambda>rows i. swap_fill (eq i) n rows)
      (zero_row n (h_row0 h), zero_row n (h_row1 h)) (rev [bMid..<bEnd]) = (r0, r1)"
    by (metis surj_pair)
  have ys: "ys ! k = after ! (aEnd - 1 - k)" if "k < n" for k
  proof -
    have "n - Suc k < n" "aStart + (n - Suc k) = aEnd - 1 - k" using that by (auto simp: n_def)
    then show ?thesis using that a
      by (simp add: ys_def rev_nth length_slice n_def [symmetric]) (simp add: slice_def n_def)
  qed
  have rows: "length r0 = length (h_row0 h) \<and> length r1 = length (h_row0 h)
      \<and> take (Suc n) r1 = row_of ([] @ map ((!) before) (rev [bMid..<bEnd])) ys"
    by (rule rows_loop [OF _ _ _ n(1) _ _ loop])
       (use fits n ys in \<open>auto simp: fits_def zero_row_take row_of_Nil eq_def\<close>)
  define src where "src = (if bMid = bEnd then r0 else r1)"
  have src: "take (Suc n) src = row_of (rev (slice before bMid bEnd)) ys"
  proof (cases "bMid = bEnd")
    case True
    then have "r0 = zero_row n (h_row0 h)" using loop by simp
    then show ?thesis using True fits n
      by (simp add: src_def zero_row_take row_of_Nil fits_def del: replicate_Suc)
  next
    case False
    then show ?thesis using rows slice_map [OF b(2)] by (simp add: src_def rev_map)
  qed
  have h': "h' = h\<lparr>h_row0 := r0, h_row1 := r1,
      h_bwd := row_of (rev (slice before bMid bEnd)) ys @ drop (Suc n) (h_bwd h)\<rparr>"
    using loop unfolding h'_def backward_def Let_def n_def [symmetric] eq_def
    by (simp add: src_def [symmetric] src)
  show "h_ops h' = h_ops h" "h_fwd h' = h_fwd h" by (simp_all add: h')
  show "fits N h'" using fits rows n by (auto simp: h' fits_def)
  have "aEnd - j \<le> n" using j by (simp add: n_def)
  then show "h_bwd h' ! (aEnd - j) = int (lcs (slice before bMid bEnd) (slice after j aEnd))"
    using j a by (simp add: h' nth_append row_of_nth n(1) [symmetric])
       (simp add: ys_def slice_rev_take lcs_rev)
qed

section \<open>The split\<close>

lemma best_split_correct:
  assumes "\<And>j. 0 \<le> score j" "s \<le> e"
  shows "s \<le> fst (best_split score s e)" "fst (best_split score s e) \<le> e"
    "j \<in> {s..e} \<Longrightarrow> score j \<le> score (fst (best_split score s e))"
    "s \<le> j \<Longrightarrow> j < fst (best_split score s e) \<Longrightarrow> score j < score (fst (best_split score s e))"
proof -
  let ?f = "\<lambda>(aMid, best) j. if score j > best then (j, score j) else (aMid, best)"
  have "\<exists>k. foldl ?f (s, -1) [s..<Suc (s + d)] = (k, score k) \<and> s \<le> k \<and> k \<le> s + d
      \<and> (\<forall>j \<in> {s..s + d}. score j \<le> score k) \<and> (\<forall>j \<in> {s..<k}. score j < score k)" for d
  proof (induction d)
    case 0
    have "-1 < score s" using assms(1) [of s] by simp
    then show ?case by auto
  next
    case (Suc d)
    then obtain k where k: "foldl ?f (s, -1) [s..<Suc (s + d)] = (k, score k)" "s \<le> k" "k \<le> s + d"
      "\<forall>j \<in> {s..s + d}. score j \<le> score k" "\<forall>j \<in> {s..<k}. score j < score k" by blast
    have step: "foldl ?f (s, -1) [s..<Suc (s + Suc d)]
      = ?f (foldl ?f (s, -1) [s..<Suc (s + d)]) (Suc (s + d))" by simp
    show ?case
    proof (cases "score (Suc (s + d)) > score k")
      case True
      have "score j < score (Suc (s + d))" if "j \<in> {s..s + d}" for j
        using k(4) that True by fastforce
      with True show ?thesis unfolding step k(1)
        by (intro exI [of _ "Suc (s + d)"]) (auto simp: less_Suc_eq_le le_Suc_eq less_imp_le)
    next
      case False
      with k show ?thesis unfolding step k(1)
        by (intro exI [of _ k]) (auto simp: le_Suc_eq)
    qed
  qed
  from this [of "e - s"] assms(2) obtain k where k: "best_split score s e = (k, score k)"
    "s \<le> k" "k \<le> e" "\<forall>j \<in> {s..e}. score j \<le> score k" "\<forall>j \<in> {s..<k}. score j < score k"
    unfolding best_split_def by auto
  then show "s \<le> fst (best_split score s e)" "fst (best_split score s e) \<le> e"
    "j \<in> {s..e} \<Longrightarrow> score j \<le> score (fst (best_split score s e))"
    "s \<le> j \<Longrightarrow> j < fst (best_split score s e) \<Longrightarrow> score j < score (fst (best_split score s e))"
    by auto
qed

lemma best_split_cong:
  assumes "\<And>j. s \<le> j \<Longrightarrow> j \<le> e \<Longrightarrow> score j = score' j"
  shows "best_split score s e = best_split score' s e"
  unfolding best_split_def by (rule foldl_cong) (auto simp: assms)

section \<open>The operations without the buffers\<close>

definition split_score :: "string list \<Rightarrow> string list \<Rightarrow> nat \<Rightarrow> nat \<Rightarrow> nat \<Rightarrow> nat \<Rightarrow> nat \<Rightarrow> nat \<Rightarrow> int" where
  "split_score before after bStart bMid bEnd aStart aEnd j =
     int (lcs (slice before bStart bMid) (slice after aStart j)
          + lcs (slice before bMid bEnd) (slice after j aEnd))"

function script :: "string list \<Rightarrow> string list \<Rightarrow> nat \<Rightarrow> nat \<Rightarrow> nat \<Rightarrow> nat \<Rightarrow> op list" where
  "script before after bStart bEnd aStart aEnd =
     (let m = bEnd - bStart; n = aEnd - aStart in
      if m = 0 then map (Op OpInsert) [aStart..<aEnd]
      else if n = 0 then map (Op OpDelete) [bStart..<bEnd]
      else if m = 1 then single_ops before after bStart aStart aEnd
      else
        let bMid = bStart + m div 2;
            aMid = fst (best_split (split_score before after bStart bMid bEnd aStart aEnd) aStart aEnd)
        in script before after bStart bMid aStart aMid @ script before after bMid bEnd aMid aEnd)"
  by pat_completeness auto

termination
  by (relation "measure (\<lambda>(before, after, bStart, bEnd, aStart, aEnd). bEnd - bStart)") auto

declare script.simps [simp del]

lemma append_ops_fields [simp]:
  "h_ops (append_ops ops h) = h_ops h @ ops" "fits n (append_ops ops h) = fits n h"
  by (simp_all add: append_ops_def fits_def)

text \<open>The buffers do not influence the result.\<close>

lemma recurse_script:
  assumes "fits (length after) h" "aStart \<le> aEnd" "aEnd \<le> length after"
    "bStart \<le> bEnd" "bEnd \<le> length before"
  shows "fits (length after) (recurse before after bStart bEnd aStart aEnd h)
    \<and> h_ops (recurse before after bStart bEnd aStart aEnd h)
        = h_ops h @ script before after bStart bEnd aStart aEnd"
  using assms
proof (induction before after bStart bEnd aStart aEnd h rule: recurse.induct)
  case (1 before after bStart bEnd aStart aEnd h)
  consider "bEnd - bStart = 0" | "bEnd - bStart \<noteq> 0" "aEnd - aStart = 0"
    | "bEnd - bStart = 1" "aEnd - aStart \<noteq> 0" | "2 \<le> bEnd - bStart" "aEnd - aStart \<noteq> 0"
    by linarith
  then show ?case
  proof cases
    case 4
    define bMid where "bMid = bStart + (bEnd - bStart) div 2"
    have bMid: "bStart \<le> bMid" "bMid \<le> bEnd" "bMid \<le> length before"
      using 4 "1.prems" by (auto simp: bMid_def)
    define h1 where "h1 = forward before after bStart bMid aStart aEnd h"
    define h2 where "h2 = backward before after bMid bEnd aStart aEnd h1"
    note fw = forward_correct [OF "1.prems"(1-3) order_refl bMid(1,3), folded h1_def]
    have fits1: "fits (length after) h1" "h_ops h1 = h_ops h" using fw(1,2) "1.prems"(2) by blast+
    note bw = backward_correct [OF fits1(1) "1.prems"(2,3) order_refl bMid(2) "1.prems"(5), folded h2_def]
    have fits2: "fits (length after) h2" "h_ops h2 = h_ops h" "h_fwd h2 = h_fwd h1"
      using bw(1-3) "1.prems"(2) fits1 by (metis order_refl)+
    let ?score = "split_score before after bStart bMid bEnd aStart aEnd"
    define aMid where "aMid = fst (best_split ?score aStart aEnd)"
    have score: "best_split (\<lambda>j. h_fwd h2 ! (j - aStart) + h_bwd h2 ! (aEnd - j)) aStart aEnd
        = best_split ?score aStart aEnd"
      by (rule best_split_cong) (simp add: split_score_def fits2(3) fw(4) bw(4))
    have aMid: "aStart \<le> aMid" "aMid \<le> aEnd"
      using best_split_correct(1,2) [of ?score aStart aEnd] "1.prems"(2)
      by (simp_all add: aMid_def split_score_def)
    define h3 where "h3 = recurse before after bStart bMid aStart aMid h2"
    have rec: "recurse before after bStart bEnd aStart aEnd h = recurse before after bMid bEnd aMid aEnd h3"
      using 4 by (subst recurse.simps)
        (simp add: Let_def bMid_def [symmetric] h1_def [symmetric] h2_def [symmetric] score
          aMid_def [symmetric] h3_def)
    have scr: "script before after bStart bEnd aStart aEnd
      = script before after bStart bMid aStart aMid @ script before after bMid bEnd aMid aEnd"
      using 4 by (subst script.simps) (simp add: Let_def bMid_def [symmetric] aMid_def [symmetric])
    note IH = "1.IH" [OF refl refl _ _ _ bMid_def h1_def h2_def _ , unfolded score, folded aMid_def]
    have A: "fits (length after) h3 \<and> h_ops h3 = h_ops h2 @ script before after bStart bMid aStart aMid"
      unfolding h3_def using 4 bMid aMid fits2 "1.prems" by (intro IH(1)) auto
    have "fits (length after) (recurse before after bMid bEnd aMid aEnd h3)
      \<and> h_ops (recurse before after bMid bEnd aMid aEnd h3) = h_ops h3 @ script before after bMid bEnd aMid aEnd"
      using 4 bMid aMid A "1.prems" by (intro IH(2)) (auto simp: h3_def)
    with A fits2 show ?thesis by (simp add: rec scr)
  qed (use "1.prems" in \<open>simp_all add: recurse.simps [of before after bStart] script.simps [of before after bStart]
      singleBeforeLine_def\<close>)
qed

section \<open>Edit scripts\<close>

text \<open>
  \<open>edits before after (i, j) ops (i', j')\<close>: with \<open>i\<close> lines of \<open>before\<close> consumed and \<open>j\<close> lines of
  \<open>after\<close> produced, the operations lead to \<open>i'\<close> and \<open>j'\<close>. An index refers to \<open>before\<close> for a
  deletion and to \<open>after\<close> otherwise.
\<close>

inductive edits :: "string list \<Rightarrow> string list \<Rightarrow> nat \<times> nat \<Rightarrow> op list \<Rightarrow> nat \<times> nat \<Rightarrow> bool"
  for before after where
  edits_done: "edits before after s [] s"
| edits_equal: "i < length before \<Longrightarrow> j < length after \<Longrightarrow> before ! i = after ! j \<Longrightarrow>
     edits before after (Suc i, Suc j) ops t \<Longrightarrow> edits before after (i, j) (Op OpEqual j # ops) t"
| edits_delete: "i < length before \<Longrightarrow> edits before after (Suc i, j) ops t \<Longrightarrow>
     edits before after (i, j) (Op OpDelete i # ops) t"
| edits_insert: "j < length after \<Longrightarrow> edits before after (i, Suc j) ops t \<Longrightarrow>
     edits before after (i, j) (Op OpInsert j # ops) t"

inductive_simps edits_Nil [simp]: "edits before after s [] t"
inductive_cases edits_ConsE: "edits before after s (x # ops) t"

lemma edits_append: "edits b a s ops1 t \<Longrightarrow> edits b a t ops2 u \<Longrightarrow> edits b a s (ops1 @ ops2) u"
  by (induction rule: edits.induct) (auto intro: edits.intros)

lemma edits_appendD: "edits b a s (ops1 @ ops2) u \<Longrightarrow> \<exists>t. edits b a s ops1 t \<and> edits b a t ops2 u"
proof (induction ops1 arbitrary: s)
  case Nil
  then show ?case by simp
next
  case (Cons x ops1)
  then have "edits b a s (x # ops1 @ ops2) u" by simp
  then show ?case by cases (use Cons.IH in \<open>blast intro: edits.intros\<close>)+
qed

lemma edits_mono: "edits b a s ops t \<Longrightarrow> fst s \<le> fst t \<and> snd s \<le> snd t"
  by (induction rule: edits.induct) auto

lemma edits_bound: "edits b a s ops t \<Longrightarrow> fst s \<le> length b \<Longrightarrow> snd s \<le> length a \<Longrightarrow>
    fst t \<le> length b \<and> snd t \<le> length a"
  by (induction rule: edits.induct) auto

lemma edits_inserts: "j \<le> j' \<Longrightarrow> j' \<le> length a \<Longrightarrow> edits b a (i, j) (map (Op OpInsert) [j..<j']) (i, j')"
proof (induction "j' - j" arbitrary: j)
  case (Suc d)
  then show ?case by (auto simp: upt_conv_Cons intro!: edits_insert)
qed simp

lemma edits_deletes: "i \<le> i' \<Longrightarrow> i' \<le> length b \<Longrightarrow> edits b a (i, j) (map (Op OpDelete) [i..<i']) (i', j)"
proof (induction "i' - i" arbitrary: i)
  case (Suc d)
  then show ?case by (auto simp: upt_conv_Cons intro!: edits_delete)
qed simp

definition equals :: "op list \<Rightarrow> nat" where
  "equals ops = length (filter (\<lambda>x. op_kind x = OpEqual) ops)"

lemma equals_simps [simp]:
  "equals [] = 0" "equals (x # ops) = (if op_kind x = OpEqual then Suc (equals ops) else equals ops)"
  "equals (ops @ ops') = equals ops + equals ops'"
  "equals (map (Op OpInsert) js) = 0" "equals (map (Op OpDelete) js) = 0"
  by (simp_all add: equals_def comp_def)

text \<open>No script keeps more lines than a longest common subsequence has.\<close>

lemma edits_equals_le:
  assumes "edits b a s ops t" "fst t \<le> length b" "snd t \<le> length a"
  shows "equals ops \<le> lcs (slice b (fst s) (fst t)) (slice a (snd s) (snd t))"
  using assms
proof (induction rule: edits.induct)
  case (edits_done s)
  then show ?case by simp
next
  case (edits_equal i j ops t)
  with edits_mono [OF edits_equal(4)] show ?case by (simp add: slice_Cons)
next
  case (edits_delete i j ops t)
  with edits_mono [OF edits_delete(2)] have c: "slice b i (fst t) = b ! i # slice b (Suc i) (fst t)"
    by (simp add: slice_Cons)
  have "lcs (slice b (Suc i) (fst t)) (slice a j (snd t)) \<le> lcs (slice b i (fst t)) (slice a j (snd t))"
    using lcs_append_ge [of "[b ! i]" "[]" "slice b (Suc i) (fst t)" "slice a j (snd t)"]
    by (simp add: c)
  with edits_delete show ?case by simp
next
  case (edits_insert j i ops t)
  with edits_mono [OF edits_insert(2)] have c: "slice a j (snd t) = a ! j # slice a (Suc j) (snd t)"
    by (simp add: slice_Cons)
  have "lcs (slice b i (fst t)) (slice a (Suc j) (snd t)) \<le> lcs (slice b i (fst t)) (slice a j (snd t))"
    using lcs_mono(2) [of _ "slice a (Suc j) (snd t)" "[a ! j]"] by (simp add: c)
  with edits_insert show ?case by simp
qed

text \<open>The script of a single line.\<close>

lemma find_index_upt:
  "find_index P [s..<e] = Some k \<Longrightarrow> s + k < e \<and> P (s + k) \<and> (\<forall>j. s \<le> j \<and> j < s + k \<longrightarrow> \<not> P j)"
proof -
  assume "find_index P [s..<e] = Some k"
  from find_index_Some [OF this] have k: "s + k < e" "P (s + k)"
    "\<forall>i < k. \<not> P ([s..<e] ! i)" by auto
  have "\<not> P j" if "s \<le> j" "j < s + k" for j
    using k(1) k(3) [rule_format, of "j - s"] that by simp
  with k(1,2) show ?thesis by blast
qed

lemma single_ops_correct:
  assumes "bStart < length before" "aStart \<le> aEnd" "aEnd \<le> length after"
  shows "edits before after (bStart, aStart) (single_ops before after bStart aStart aEnd) (Suc bStart, aEnd)"
    "equals (single_ops before after bStart aStart aEnd) = lcs [before ! bStart] (slice after aStart aEnd)"
proof -
  have mem: "before ! bStart \<in> set (slice after aStart aEnd)
      \<longleftrightarrow> (\<exists>j \<in> set [aStart..<aEnd]. before ! bStart = after ! j)"
    using assms by (auto simp: slice_map)
  show "edits before after (bStart, aStart) (single_ops before after bStart aStart aEnd) (Suc bStart, aEnd)"
    using assms
    by (auto simp: single_ops_def Let_def dest!: find_index_upt split: option.split
        intro!: edits_append [OF edits_inserts] edits.intros edits_inserts)
  show "equals (single_ops before after bStart aStart aEnd) = lcs [before ! bStart] (slice after aStart aEnd)"
  proof (cases "find_index (\<lambda>j. before ! bStart = after ! j) [aStart..<aEnd]")
    case None
    then have "before ! bStart \<notin> set (slice after aStart aEnd)"
      unfolding mem by (simp only: find_index_None) simp
    with None show ?thesis by (simp add: single_ops_def lcs_single)
  next
    case (Some k)
    then have "before ! bStart \<in> set (slice after aStart aEnd)"
      unfolding mem using find_index_upt [OF Some] by auto
    with Some show ?thesis by (simp add: single_ops_def lcs_single Let_def)
  qed
qed

text \<open>The split found by the scores is one that a longest common subsequence takes.\<close>

lemma split_score_max:
  fixes before :: "string list"
  assumes "bStart \<le> bMid" "bMid \<le> bEnd" "aStart \<le> aEnd" "aEnd \<le> length after"
  defines "score \<equiv> split_score before after bStart bMid bEnd aStart aEnd"
  shows "score (fst (best_split score aStart aEnd))
    = int (lcs (slice before bStart bEnd) (slice after aStart aEnd))"
proof -
  let ?xs = "slice before bStart bMid" and ?xs' = "slice before bMid bEnd"
    and ?ys = "slice after aStart aEnd"
  have nonneg: "\<And>j. 0 \<le> score j" by (simp add: score_def split_score_def)
  have sc: "score (aStart + k) = int (lcs ?xs (take k ?ys) + lcs ?xs' (drop k ?ys))"
    if "aStart + k \<le> aEnd" for k
    using that take_slice [of aStart "aStart + k" aEnd after] drop_slice [of aStart "aStart + k" after aEnd]
    by (simp add: score_def split_score_def)
  have full: "slice before bStart bEnd = ?xs @ ?xs'" using assms(1,2) by (rule slice_split)
  define best where "best = fst (best_split score aStart aEnd)"
  have best: "aStart \<le> best" "best \<le> aEnd"
    using best_split_correct(1,2) [OF nonneg assms(3)] by (simp_all add: best_def)
  have "score best \<le> int (lcs (?xs @ ?xs') ?ys)"
    using sc [of "best - aStart"] best lcs_le_split [of ?xs "best - aStart" ?ys ?xs'] by simp
  moreover obtain k where k: "k \<le> length ?ys"
    "lcs ?xs (take k ?ys) + lcs ?xs' (drop k ?ys) = lcs (?xs @ ?xs') ?ys"
    using lcs_split by blast
  have "aStart + k \<le> aEnd" using k(1) assms(3,4) by (simp add: length_slice)
  then have "int (lcs (?xs @ ?xs') ?ys) \<le> score best"
    using sc [of k] k(2) best_split_correct(3) [where score = score and s = aStart and e = aEnd
          and j = "aStart + k", OF nonneg assms(3)]
    by (simp add: best_def)
  ultimately show ?thesis by (simp add: full best_def)
qed

text \<open>Insertions do not come right before deletions.\<close>

fun deletions_first :: "op list \<Rightarrow> bool" where
  "deletions_first (x # y # ops) \<longleftrightarrow>
     \<not> (op_kind x = OpInsert \<and> op_kind y = OpDelete) \<and> deletions_first (y # ops)"
| "deletions_first ops \<longleftrightarrow> True"

lemma deletions_first_Cons:
  "deletions_first (x # ops) \<longleftrightarrow> deletions_first ops
     \<and> (ops \<noteq> [] \<longrightarrow> \<not> (op_kind x = OpInsert \<and> op_kind (hd ops) = OpDelete))"
  by (cases ops) auto

lemma deletions_first_append:
  "deletions_first (ops @ ops') \<longleftrightarrow> deletions_first ops \<and> deletions_first ops'
     \<and> (ops \<noteq> [] \<longrightarrow> ops' \<noteq> [] \<longrightarrow> \<not> (op_kind (last ops) = OpInsert \<and> op_kind (hd ops') = OpDelete))"
  by (induction ops) (auto simp: deletions_first_Cons)

lemma deletions_first_map [simp]: "deletions_first (map (Op k) js)"
  by (induction js) (auto simp: deletions_first_Cons hd_map)

lemma single_ops_deletions_first: "deletions_first (single_ops before after bStart aStart aEnd)"
  by (auto simp: single_ops_def Let_def deletions_first_append deletions_first_Cons hd_map
      split: option.split)

text \<open>The first half never ends with an insertion: an earlier split would score as much.\<close>

lemma first_half_end:
  assumes script: "edits before after (bStart, aStart) (ops @ [x]) (bMid, aMid)"
    and eq: "equals (ops @ [x]) = lcs (slice before bStart bMid) (slice after aStart aMid)"
    and bounds: "bMid \<le> length before" "aMid \<le> aEnd" "aEnd \<le> length after"
    and best: "aMid = fst (best_split (split_score before after bStart bMid bEnd aStart aEnd) aStart aEnd)"
      "aStart \<le> aEnd"
  shows "op_kind x \<noteq> OpInsert"
proof
  let ?score = "split_score before after bStart bMid bEnd aStart aEnd"
  assume ins: "op_kind x = OpInsert"
  obtain t where t: "edits before after (bStart, aStart) ops t" "edits before after t [x] (bMid, aMid)"
    using edits_appendD [OF script] by blast
  from t(2) ins obtain j where j: "t = (bMid, j)" "aMid = Suc j" by (auto elim!: edits_ConsE)
  have "aStart \<le> j" using edits_mono [OF t(1)] j by simp
  have "equals ops \<le> lcs (slice before bStart bMid) (slice after aStart j)"
    using edits_equals_le [OF t(1)] j bounds by simp
  then have fw: "lcs (slice before bStart bMid) (slice after aStart aMid)
      \<le> lcs (slice before bStart bMid) (slice after aStart j)"
    using eq ins by simp
  have "slice after j aEnd = slice after j aMid @ slice after aMid aEnd"
    using j bounds by (intro slice_split) auto
  then have bw: "lcs (slice before bMid bEnd) (slice after aMid aEnd)
      \<le> lcs (slice before bMid bEnd) (slice after j aEnd)"
    by (simp add: lcs_mono(2))
  have "?score aMid \<le> ?score j" using fw bw by (simp add: split_score_def)
  moreover have "?score j < ?score aMid"
    using best_split_correct(4) [of ?score aStart aEnd j] \<open>aStart \<le> j\<close> j best
    by (simp add: split_score_def)
  ultimately show False by simp
qed

lemma script_correct:
  assumes "aStart \<le> aEnd" "aEnd \<le> length after" "bStart \<le> bEnd" "bEnd \<le> length before"
  shows "edits before after (bStart, aStart) (script before after bStart bEnd aStart aEnd) (bEnd, aEnd)
    \<and> equals (script before after bStart bEnd aStart aEnd)
        = lcs (slice before bStart bEnd) (slice after aStart aEnd)
    \<and> deletions_first (script before after bStart bEnd aStart aEnd)"
  using assms
proof (induction before after bStart bEnd aStart aEnd rule: script.induct)
  case (1 before after bStart bEnd aStart aEnd)
  consider "bEnd = bStart" | "bStart < bEnd" "aEnd = aStart"
    | "bEnd = Suc bStart" "aStart < aEnd" | "2 \<le> bEnd - bStart" "aStart < aEnd"
    using "1.prems" by linarith
  then show ?case
  proof cases
    case 4
    define bMid where "bMid = bStart + (bEnd - bStart) div 2"
    have bMid: "bStart < bMid" "bMid \<le> bEnd" "bMid \<le> length before"
      using 4 "1.prems" by (auto simp: bMid_def)
    let ?score = "split_score before after bStart bMid bEnd aStart aEnd"
    define aMid where "aMid = fst (best_split ?score aStart aEnd)"
    have aMid: "aStart \<le> aMid" "aMid \<le> aEnd"
      using best_split_correct(1,2) [of ?score aStart aEnd] "1.prems"(1)
      by (simp_all add: aMid_def split_score_def)
    let ?L = "script before after bStart bMid aStart aMid"
    let ?R = "script before after bMid bEnd aMid aEnd"
    have scr: "script before after bStart bEnd aStart aEnd = ?L @ ?R"
      using 4 by (subst script.simps) (simp add: Let_def bMid_def [symmetric] aMid_def [symmetric])
    note IH = "1.IH" [OF refl refl _ _ _ bMid_def aMid_def]
    have L: "edits before after (bStart, aStart) ?L (bMid, aMid)"
      "equals ?L = lcs (slice before bStart bMid) (slice after aStart aMid)" "deletions_first ?L"
      using IH(1) 4 bMid aMid "1.prems" by auto
    have R: "edits before after (bMid, aMid) ?R (bEnd, aEnd)"
      "equals ?R = lcs (slice before bMid bEnd) (slice after aMid aEnd)" "deletions_first ?R"
      using IH(2) 4 bMid aMid "1.prems" by auto
    have "equals (?L @ ?R) = lcs (slice before bStart bEnd) (slice after aStart aEnd)"
      using split_score_max [of bStart bMid bEnd aStart aEnd after before] bMid "1.prems" L(2) R(2)
      by (simp add: aMid_def [symmetric]) (simp add: split_score_def)
    moreover have "deletions_first (?L @ ?R)"
    proof -
      have "op_kind (last ?L) \<noteq> OpInsert" if "?L \<noteq> []"
      proof (rule first_half_end [OF _ _ bMid(3) aMid(2) "1.prems"(2) aMid_def "1.prems"(1)])
        show "edits before after (bStart, aStart) (butlast ?L @ [last ?L]) (bMid, aMid)"
          using L(1) that by simp
        show "equals (butlast ?L @ [last ?L]) = lcs (slice before bStart bMid) (slice after aStart aMid)"
          using L(2) that by simp
      qed
      with L R show ?thesis by (auto simp: deletions_first_append)
    qed
    ultimately show ?thesis using edits_append [OF L(1) R(1)] by (simp add: scr)
  qed (use "1.prems" single_ops_correct [of bStart before aStart aEnd after] in
    \<open>simp_all add: script.simps [of before after bStart] edits_inserts edits_deletes
      single_ops_deletions_first slice_single\<close>)
qed

lemma Diff_script:
  "fst (Diff before after h) = script before after 0 (length before) 0 (length after)"
  if "length (h_row1 h) = length (h_row0 h)" "length (h_fwd h) = length (h_row0 h)"
    "length (h_bwd h) = length (h_row0 h)"
proof -
  define h1 where "h1 = h\<lparr>h_ops := []\<rparr>"
  define h2 where "h2 = (if length (h_row0 h1) < length after + 1
    then make_buffers (length after + 1) h1 else h1)"
  have "fits (length after) h2" "h_ops h2 = []"
    using that by (auto simp: h2_def h1_def fits_def make_buffers_def)
  from recurse_script [OF this(1), of 0 "length after" 0 "length before" before] this(2)
  show ?thesis unfolding Diff_def Let_def h1_def [symmetric] h2_def [symmetric] by simp
qed

section \<open>The interface\<close>

text \<open>
  \<open>diff.Algorithm\<close>: what a client relies on when it calls \<open>Init\<close> and then \<open>Diff\<close> on a state of
  the algorithm: the operations lead from \<open>before\<close> to \<open>after\<close>. \<open>valid\<close> are the states that the
  algorithm's own operations produce.
\<close>

locale diff_algorithm =
  fixes valid :: "'s \<Rightarrow> bool"
    and init :: "nat \<Rightarrow> nat \<Rightarrow> 's \<Rightarrow> 's"
    and diff :: "string list \<Rightarrow> string list \<Rightarrow> 's \<Rightarrow> op list \<times> 's"
  assumes valid_init: "valid s \<Longrightarrow> valid (init m n s)"
    and valid_diff: "valid s \<Longrightarrow> valid (snd (diff b a s))"
    and diff_edits: "valid s \<Longrightarrow>
      edits b a (0, 0) (fst (diff b a s)) (length b, length a)"

text \<open>The four buffers always have one length.\<close>

definition buffers_ok :: "hirschberg \<Rightarrow> bool" where
  "buffers_ok h \<longleftrightarrow> length (h_row1 h) = length (h_row0 h)
     \<and> length (h_fwd h) = length (h_row0 h) \<and> length (h_bwd h) = length (h_row0 h)"

lemma buffers_ok_New: "buffers_ok NewHirschberg"
  by (simp add: buffers_ok_def NewHirschberg_def)

lemma buffers_ok_Init: "buffers_ok h \<Longrightarrow> buffers_ok (Init c m n h)"
  by (simp add: buffers_ok_def Init_def make_buffers_def Let_def)

lemma buffers_ok_Diff:
  assumes "buffers_ok h"
  shows "buffers_ok (snd (Diff before after h))"
proof -
  define h1 where "h1 = h\<lparr>h_ops := []\<rparr>"
  define h2 where "h2 = (if length (h_row0 h1) < length after + 1
    then make_buffers (length after + 1) h1 else h1)"
  have "fits (length after) h2"
    using assms by (auto simp: h2_def h1_def fits_def make_buffers_def buffers_ok_def)
  from recurse_script [OF this, of 0 "length after" 0 "length before" before]
  show ?thesis unfolding Diff_def Let_def h1_def [symmetric] h2_def [symmetric]
    by (simp add: fits_def buffers_ok_def)
qed

lemma Diff_buffers_script:
  "buffers_ok h \<Longrightarrow> fst (Diff before after h) = script before after 0 (length before) 0 (length after)"
  by (rule Diff_script) (simp_all add: buffers_ok_def)

lemma whole_script:
  "edits before after (0, 0) (script before after 0 (length before) 0 (length after))
     (length before, length after)"
  "equals (script before after 0 (length before) 0 (length after)) = lcs before after"
  "deletions_first (script before after 0 (length before) 0 (length after))"
  using script_correct [of 0 "length after" after 0 "length before" before] by simp_all

interpretation hirschberg: diff_algorithm buffers_ok "Init c" Diff for c
proof
  show "buffers_ok s \<Longrightarrow> buffers_ok (Init c m n s)" for s m n by (rule buffers_ok_Init)
  show "buffers_ok s \<Longrightarrow> buffers_ok (snd (Diff b a s))" for s b a by (rule buffers_ok_Diff)
  show "buffers_ok s \<Longrightarrow> edits b a (0, 0) (fst (Diff b a s)) (length b, length a)" for s b a
    by (simp add: Diff_buffers_script whole_script)
qed

section \<open>Properties\<close>

text \<open>C2: the operations of \<open>Diff\<close> turn \<open>before\<close> into \<open>after\<close>, and no script that does so keeps more
  lines (a longest common subsequence of the two is kept), whatever the buffers held before.\<close>

theorem Diff_minimal:
  assumes "buffers_ok h"
  shows "edits before after (0, 0) (fst (Diff before after h)) (length before, length after)
    \<and> equals (fst (Diff before after h)) = lcs before after
    \<and> (\<forall>ops. edits before after (0, 0) ops (length before, length after)
         \<longrightarrow> equals ops \<le> equals (fst (Diff before after h)))"
  using edits_equals_le [of before after "(0, 0)" _ "(length before, length after)"]
  by (simp add: Diff_buffers_script [OF assms] whole_script)

theorem Diff_minimal_witness:
  "equals (fst (Diff [''a'', ''b'', ''c''] [''b'', ''c'', ''d''] NewHirschberg)) = 2"
  using Diff_minimal [OF buffers_ok_New, of "[''a'', ''b'', ''c'']" "[''b'', ''c'', ''d'']"]
  by simp

text \<open>An insertion never comes right before a deletion: within every run of changes the
  removed lines come first, across the boundaries of the divide and conquer too.\<close>

theorem Diff_deletions_first:
  assumes "buffers_ok h" "fst (Diff before after h) = ops1 @ x # y # ops2" "op_kind x = OpInsert"
  shows "op_kind y \<noteq> OpDelete"
  using whole_script(3) [of before after] assms(2,3)
  by (auto simp: Diff_buffers_script [OF assms(1)] deletions_first_append deletions_first_Cons)

theorem Diff_deletions_first_witness:
  "fst (Diff [] [''a'', ''b''] NewHirschberg) = [] @ Op OpInsert 0 # Op OpInsert 1 # []
   \<and> op_kind (Op OpInsert 1) \<noteq> OpDelete"
proof -
  have d: "fst (Diff [] [''a'', ''b''] NewHirschberg) = [] @ Op OpInsert 0 # Op OpInsert 1 # []"
    by (simp add: Diff_buffers_script buffers_ok_New script.simps upt_rec)
  with Diff_deletions_first [OF buffers_ok_New d] show ?thesis by simp
qed

text \<open>The operations depend on the inputs only, not on what earlier calls left in the reused
  buffers, and the buffers stay usable: the next call starts from a valid state again.\<close>

theorem Diff_reusable:
  assumes "buffers_ok h"
  shows "fst (Diff before after h) = fst (Diff before after NewHirschberg)
    \<and> buffers_ok (snd (Diff before after h)) \<and> buffers_ok (Init c m n h)"
  using assms
  by (simp add: Diff_buffers_script buffers_ok_New buffers_ok_Diff buffers_ok_Init)

theorem Diff_reusable_witness:
  "fst (Diff [''a''] [''b''] (snd (Diff [''x'', ''y''] [''y''] NewHirschberg)))
   = fst (Diff [''a''] [''b''] NewHirschberg)"
  using Diff_reusable [OF buffers_ok_Diff [OF buffers_ok_New], of "[''a'']" "[''b'']"]
  by blast

end
