(* ===== verification/Diff_Result.thy ===== *)
theory Diff_Result
  imports Sources Hirschberg
begin

text \<open>
  \<open>diff.go\<close>: the \<open>Differ\<close>, its result and the renderings of it (unified, hunks, aligned panes,
  statistics). The algorithm is the pair of operations of the interface \<open>diff.Algorithm\<close>; the
  facts on the result are proved in the locale of that interface and hold for the default
  algorithm through its interpretation. Reads that panic out of range are \<open>None\<close>.
\<close>

record line_op =
  lo_line :: line
  lo_kind :: op_kind

record aligned_row =
  row_before :: line
  row_after :: line

text \<open>\<open>dr_rows\<close> is the lazily computed alignment, guarded by a \<open>sync.Once\<close>.\<close>

record diff_result =
  dr_before_sums :: "int list"
  dr_after_sums :: "int list"
  dr_name :: string
  dr_ops :: "line_op list"
  dr_rows :: "aligned_row list option"

section \<open>Computing the operations\<close>

fun opKindDeltas :: "op_kind \<Rightarrow> int \<times> int" where
  "opKindDeltas OpEqual = (1, 1)"
| "opKindDeltas OpDelete = (1, 0)"
| "opKindDeltas OpInsert = (0, 1)"

definition convert_op :: "lines \<Rightarrow> lines \<Rightarrow> op \<Rightarrow> line_op option" where
  "convert_op beforeLines afterLines x = (case op_kind x of
     OpEqual \<Rightarrow> map_option (\<lambda>l. \<lparr>lo_line = l, lo_kind = OpEqual\<rparr>)
       (slice_get afterLines (int (op_index x)))
   | OpDelete \<Rightarrow> map_option (\<lambda>l. \<lparr>lo_line = l, lo_kind = OpDelete\<rparr>)
       (slice_get beforeLines (int (op_index x)))
   | OpInsert \<Rightarrow> map_option (\<lambda>l. \<lparr>lo_line = l, lo_kind = OpInsert\<rparr>)
       (slice_get afterLines (int (op_index x))))"

text \<open>The state of the algorithm goes in and out; \<open>init\<close> and \<open>diff\<close> are its operations.\<close>

definition computeOps ::
  "(nat \<Rightarrow> nat \<Rightarrow> 's \<Rightarrow> 's) \<Rightarrow> (string list \<Rightarrow> string list \<Rightarrow> 's \<Rightarrow> op list \<times> 's)
    \<Rightarrow> 's \<Rightarrow> lines \<Rightarrow> lines \<Rightarrow> line_op list option \<times> 's" where
  "computeOps init diff algo beforeLines afterLines =
     (let beforeContent = map line_Content beforeLines;
          afterContent = map line_Content afterLines;
          algo1 = init (length beforeLines) (length afterLines) algo;
          (diffOps, algo2) = diff beforeContent afterContent algo1
      in (those (map (convert_op beforeLines afterLines) diffOps), algo2))"

definition differ_Diff ::
  "(nat \<Rightarrow> nat \<Rightarrow> 's \<Rightarrow> 's) \<Rightarrow> (string list \<Rightarrow> string list \<Rightarrow> 's \<Rightarrow> op list \<times> 's)
    \<Rightarrow> 's \<Rightarrow> ('f, 'o) source \<Rightarrow> ('f, 'o) source \<Rightarrow> diff_result option \<times> 's" where
  "differ_Diff init diff algo a b =
     (let (ops, algo') = computeOps init diff algo (src_lines a) (src_lines b)
      in (map_option (\<lambda>ops.
           \<lparr>dr_before_sums = NewPrefixSums (length ops) (\<lambda>i. fst (opKindDeltas (lo_kind (ops ! i)))),
            dr_after_sums = NewPrefixSums (length ops) (\<lambda>i. snd (opKindDeltas (lo_kind (ops ! i)))),
            dr_name = src_name a @ ''..'' @ src_name b,
            dr_ops = ops, dr_rows = None\<rparr>) ops, algo'))"

text \<open>The package function \<open>Diff\<close> uses a fresh \<open>Hirschberg\<close>.\<close>

text \<open>The algorithm of a differ: the one the last option sets, or, if there is none or it is nil, \<open>hirschberg\<close>, what \<open>NewHirschberg\<close> returns.\<close>

definition WithAlgorithm :: "'a option \<Rightarrow> 'a option \<Rightarrow> 'a option" where
  "WithAlgorithm algo _ = algo"

definition NewDiffer :: "'a \<Rightarrow> ('a option \<Rightarrow> 'a option) list \<Rightarrow> 'a" where
  "NewDiffer hirschberg opts = (case foldl (\<lambda>d opt. opt d) None opts of None \<Rightarrow> hirschberg | Some algo \<Rightarrow> algo)"

definition default_Diff :: "('f, 'o) source \<Rightarrow> ('f, 'o) source \<Rightarrow> diff_result option" where
  "default_Diff a b = fst (differ_Diff (Init 0) Diff NewHirschberg a b)"

section \<open>Unified\<close>

definition toLines :: "line_op list \<Rightarrow> lines" where
  "toLines ops = map (\<lambda>x. (line_Clone (lo_line x))\<lparr>l_flag := Flag (lo_kind x)\<rparr>) ops"

definition diff_source :: "string \<Rightarrow> lines \<Rightarrow> ('f, 'o) source" where
  "diff_source name ls = empty_source\<lparr>src_name := name, src_lines := ls\<rparr>"

definition Unified :: "diff_result \<Rightarrow> ('f, 'o) source" where
  "Unified r = diff_source (dr_name r) (toLines (dr_ops r))"

definition Stats :: "diff_result \<Rightarrow> int \<times> int" where
  "Stats r = foldl (\<lambda>(added, removed) x. case lo_kind x of
     OpInsert \<Rightarrow> (added + 1, removed)
   | OpDelete \<Rightarrow> (added, removed + 1)
   | OpEqual \<Rightarrow> (added, removed)) (0, 0) (dr_ops r)"

definition result_IsEmpty :: "diff_result \<Rightarrow> bool" where
  "result_IsEmpty r \<longleftrightarrow> length (dr_ops r) = 0"

section \<open>Hunks\<close>

definition change_indices :: "line_op list \<Rightarrow> int list" where
  "change_indices ops =
     map int (filter (\<lambda>i. lo_kind (ops ! i) \<noteq> OpEqual) [0..<length ops])"

definition selectHunkSpans :: "line_op list \<Rightarrow> int \<Rightarrow> span list" where
  "selectHunkSpans ops ctx =
     (let changeIndices = change_indices ops in
      if length changeIndices = 0 then []
      else Clamp (Expand (GroupIndices changeIndices ctx) ctx) 0 (int (length ops)))"

definition hunk_part :: "string \<Rightarrow> int \<Rightarrow> int \<Rightarrow> string" where
  "hunk_part sign ln count =
     '' '' @ sign @
     (if count > 1 then itoa ln @ '','' @ itoa count
      else if ln = 1 \<and> count = 0 then ''0,0''
      else itoa ln)"

definition formatHunkHeader :: "span \<Rightarrow> int list \<Rightarrow> int list \<Rightarrow> string option" where
  "formatHunkHeader sp beforeSums afterSums =
     (case (sums_At beforeSums (sstart sp), sums_At afterSums (sstart sp),
            sums_Range beforeSums sp, sums_Range afterSums sp) of
        (Some f, Some t, Some fromCount, Some toCount) \<Rightarrow>
          Some (''@@'' @ hunk_part ''-'' (f + 1) fromCount @ hunk_part ''+'' (t + 1) toCount @ '' @@'')
      | _ \<Rightarrow> None)"

definition hunk_header_step :: "diff_result \<Rightarrow> lines \<Rightarrow> span \<Rightarrow> lines option" where
  "hunk_header_step r ls sp =
     (case (formatHunkHeader sp (dr_before_sums r) (dr_after_sums r), slice_get ls (sstart sp)) of
        (Some header, Some l) \<Rightarrow> Some (ls[nat (sstart sp) := line_AddAnnotation l
          [\<lparr>ann_content = header, ann_position = Above, ann_col = 0\<rparr>]])
      | _ \<Rightarrow> None)"

definition Hunks :: "diff_result \<Rightarrow> int \<Rightarrow> (('f, 'o) source \<times> span list) option" where
  "Hunks r ctx0 =
     (let ctx = max 0 ctx0 in
      if length (dr_ops r) = 0 then Some (diff_source (dr_name r) [], [])
      else let hunkSpans = selectHunkSpans (dr_ops r) ctx in
        if length hunkSpans = 0 then Some (diff_source (dr_name r) [], [])
        else map_option (\<lambda>ls. (diff_source (dr_name r) ls, hunkSpans))
               (foldM (hunk_header_step r) (toLines (dr_ops r)) hunkSpans))"

text \<open>Away from the first line a side without lines reads like a side of one line.\<close>

lemma hunk_part_zero: "ln \<noteq> 1 \<Longrightarrow> hunk_part sign ln 0 = hunk_part sign ln 1"
  by (simp add: hunk_part_def)

section \<open>Side by side\<close>

text \<open>\<open>collectConsecutive(ops, i, kind)\<close>, over the rest of the operations from \<open>i\<close>.\<close>

definition collectConsecutive :: "line_op list \<Rightarrow> op_kind \<Rightarrow> line_op list" where
  "collectConsecutive ops k = takeWhile (\<lambda>x. lo_kind x = k) ops"

definition flagged :: "flag \<Rightarrow> line_op \<Rightarrow> line" where
  "flagged f x = (line_Clone (lo_line x))\<lparr>l_flag := f\<rparr>"

definition pair_row :: "line_op list \<Rightarrow> line_op list \<Rightarrow> nat \<Rightarrow> aligned_row" where
  "pair_row deletes inserts j =
     \<lparr>row_before = (if j < length deletes then flagged FlagDeleted (deletes ! j) else empty_line),
      row_after = (if j < length inserts then flagged FlagInserted (inserts ! j) else empty_line)\<rparr>"

function aligned_rows :: "line_op list \<Rightarrow> aligned_row list" where
  "aligned_rows [] = []"
| "aligned_rows (x # ops) = (case lo_kind x of
     OpEqual \<Rightarrow> \<lparr>row_before = flagged FlagDefault x, row_after = flagged FlagDefault x\<rparr>
       # aligned_rows ops
   | OpDelete \<Rightarrow>
       (let deletes = collectConsecutive (x # ops) OpDelete;
            rest = drop (length deletes) (x # ops);
            inserts = collectConsecutive rest OpInsert
        in map (pair_row deletes inserts) [0..<max (length deletes) (length inserts)]
           @ aligned_rows (drop (length inserts) rest))
   | OpInsert \<Rightarrow> \<lparr>row_before = empty_line, row_after = flagged FlagInserted x\<rparr> # aligned_rows ops)"
  by pat_completeness auto
termination
  by (relation "measure length") (auto simp: collectConsecutive_def)

definition getAlignedRows :: "diff_result \<Rightarrow> aligned_row list \<times> diff_result" where
  "getAlignedRows r = (case dr_rows r of
     Some rows \<Rightarrow> (rows, r)
   | None \<Rightarrow> (aligned_rows (dr_ops r), r\<lparr>dr_rows := Some (aligned_rows (dr_ops r))\<rparr>))"

definition diff_Before :: "diff_result \<Rightarrow> ('f, 'o) source \<times> diff_result" where
  "diff_Before r = (let (rows, r') = getAlignedRows r
     in (diff_source (dr_name r) (map row_before rows), r'))"

definition diff_After :: "diff_result \<Rightarrow> ('f, 'o) source \<times> diff_result" where
  "diff_After r = (let (rows, r') = getAlignedRows r
     in (diff_source (dr_name r) (map row_after rows), r'))"

section \<open>What the operations say\<close>

text \<open>
  The lines the operations keep of either side. \<open>of_sources\<close> is the contract of \<open>computeOps\<close>:
  dropping the insertions leaves the contents of \<open>before\<close>, dropping the deletions the lines of
  \<open>after\<close>.
\<close>

definition of_sources :: "lines \<Rightarrow> lines \<Rightarrow> line_op list \<Rightarrow> bool" where
  "of_sources before after ops \<longleftrightarrow>
     map (\<lambda>x. line_Content (lo_line x)) (filter (\<lambda>x. lo_kind x \<noteq> OpInsert) ops) = map line_Content before
     \<and> map lo_line (filter (\<lambda>x. lo_kind x \<noteq> OpDelete) ops) = after
     \<and> (\<forall>x \<in> set ops. lo_kind x = OpDelete \<longrightarrow> lo_line x \<in> set before)"

lemma edits_convert:
  assumes "edits (map line_Content b) (map line_Content a) s dops t"
    and "t = (length b, length a)"
  shows "\<exists>ops. those (map (convert_op b a) dops) = Some ops
    \<and> map lo_kind ops = map op_kind dops
    \<and> map (\<lambda>x. line_Content (lo_line x)) (filter (\<lambda>x. lo_kind x \<noteq> OpInsert) ops)
        = map line_Content (drop (fst s) b)
    \<and> map lo_line (filter (\<lambda>x. lo_kind x \<noteq> OpDelete) ops) = drop (snd s) a
    \<and> (\<forall>x \<in> set ops. lo_kind x = OpDelete \<longrightarrow> lo_line x \<in> set b)"
  using assms
proof (induction rule: edits.induct)
  case (edits_done s)
  then show ?case by simp
next
  case (edits_equal i j ops t)
  then show ?case by (auto simp: convert_op_def Cons_nth_drop_Suc [symmetric])
next
  case (edits_delete i j ops t)
  then show ?case by (auto simp: convert_op_def Cons_nth_drop_Suc [symmetric])
next
  case (edits_insert j i ops t)
  then show ?case by (auto simp: convert_op_def Cons_nth_drop_Suc [symmetric])
qed

context diff_algorithm begin

lemma computeOps_sources:
  assumes "valid s"
  shows "\<exists>ops. fst (computeOps init diff s b a) = Some ops \<and> of_sources b a ops
    \<and> valid (snd (computeOps init diff s b a))"
proof -
  define s1 where "s1 = init (length b) (length a) s"
  have v: "valid s1" using assms by (simp add: s1_def valid_init)
  obtain dops s2 where d: "diff (map line_Content b) (map line_Content a) s1 = (dops, s2)"
    by (metis surj_pair)
  have e: "edits (map line_Content b) (map line_Content a) (0, 0) dops (length b, length a)"
    using diff_edits [OF v, of "map line_Content b" "map line_Content a"] d by simp
  from edits_convert [OF e refl] obtain ops where
    "those (map (convert_op b a) dops) = Some ops" "of_sources b a ops"
    by (auto simp: of_sources_def)
  moreover have "valid s2" using valid_diff [OF v] d by (metis snd_conv)
  ultimately show ?thesis
    unfolding computeOps_def Let_def s1_def [symmetric] d by simp
qed

end

text \<open>The results that \<open>Differ.Diff\<close> returns.\<close>

definition kind_count :: "(op_kind \<Rightarrow> bool) \<Rightarrow> line_op list \<Rightarrow> int" where
  "kind_count P ops = int (length (filter (\<lambda>x. P (lo_kind x)) ops))"

definition result_of :: "line_op list \<Rightarrow> diff_result \<Rightarrow> bool" where
  "result_of ops r \<longleftrightarrow> dr_ops r = ops
     \<and> dr_before_sums r = NewPrefixSums (length ops) (\<lambda>i. fst (opKindDeltas (lo_kind (ops ! i))))
     \<and> dr_after_sums r = NewPrefixSums (length ops) (\<lambda>i. snd (opKindDeltas (lo_kind (ops ! i))))
     \<and> (dr_rows r = None \<or> dr_rows r = Some (aligned_rows ops))"

lemma differ_Diff_result:
  assumes "fst (computeOps init diff s (src_lines a) (src_lines b)) = Some ops"
  shows "\<exists>r. fst (differ_Diff init diff s a b) = Some r \<and> result_of ops r \<and> dr_rows r = None
    \<and> dr_name r = src_name a @ ''..'' @ src_name b"
  using assms
  by (auto simp: differ_Diff_def result_of_def Let_def split: prod.split)

lemma sum_deltas:
  assumes "i \<le> j" "j \<le> length ops"
  shows "(\<Sum>k = i..<j. fst (opKindDeltas (lo_kind (ops ! k))))
      = kind_count (\<lambda>k. k \<noteq> OpInsert) (slice ops i j)"
    "(\<Sum>k = i..<j. snd (opKindDeltas (lo_kind (ops ! k))))
      = kind_count (\<lambda>k. k \<noteq> OpDelete) (slice ops i j)"
proof -
  have sum: "(\<Sum>k = i..<j. g (lo_kind (ops ! k))) = kind_count P (slice ops i j)"
    if g: "\<And>k. g k = (if P k then 1 else 0)" for g :: "op_kind \<Rightarrow> int" and P
  proof -
    have "(\<Sum>k = i..<j. g (lo_kind (ops ! k))) = sum_list (map (\<lambda>x. g (lo_kind x)) (slice ops i j))"
      using assms(2) by (simp add: slice_map interv_sum_list_conv_sum_set_nat comp_def)
    also have "\<dots> = kind_count P (slice ops i j)"
      by (simp add: g kind_count_def sum_list_map_filter' [symmetric] sum_list_triv)
    finally show ?thesis .
  qed
  show "(\<Sum>k = i..<j. fst (opKindDeltas (lo_kind (ops ! k))))
      = kind_count (\<lambda>k. k \<noteq> OpInsert) (slice ops i j)"
    by (rule sum) (metis fst_conv op_kind.exhaust opKindDeltas.simps op_kind.distinct(3,6))
  show "(\<Sum>k = i..<j. snd (opKindDeltas (lo_kind (ops ! k))))
      = kind_count (\<lambda>k. k \<noteq> OpDelete) (slice ops i j)"
    by (rule sum) (metis snd_conv op_kind.exhaust opKindDeltas.simps op_kind.distinct(1,5))
qed

text \<open>The header of a hunk: where it starts and how many lines it has on either side.\<close>

definition header_of :: "line_op list \<Rightarrow> nat \<Rightarrow> nat \<Rightarrow> string" where
  "header_of ops i j = ''@@''
     @ hunk_part ''-'' (kind_count (\<lambda>k. k \<noteq> OpInsert) (take i ops) + 1)
         (kind_count (\<lambda>k. k \<noteq> OpInsert) (slice ops i j))
     @ hunk_part ''+'' (kind_count (\<lambda>k. k \<noteq> OpDelete) (take i ops) + 1)
         (kind_count (\<lambda>k. k \<noteq> OpDelete) (slice ops i j)) @ '' @@''"

lemma formatHunkHeader_result:
  assumes "result_of ops r" "i \<le> j" "j \<le> length ops"
  shows "formatHunkHeader (NewSpan (int i) (int j)) (dr_before_sums r) (dr_after_sums r)
    = Some (header_of ops i j)"
proof -
  have i: "i \<le> length ops" using assms(2,3) by simp
  have "slice ops 0 i = take i ops" by (simp add: slice_def)
  with sum_deltas [OF _ i, of 0] sum_deltas [OF assms(2,3)] assms
  show ?thesis
    by (simp add: formatHunkHeader_def result_of_def NewPrefixSums_At [OF i]
        NewPrefixSums_Range [OF assms(2,3)] header_of_def atLeast0LessThan)
qed

lemma selectHunkSpans_hunks: "selectHunkSpans ops c = hunk_spans (change_indices ops) c (int (length ops))"
  by (simp add: selectHunkSpans_def hunk_spans_def Let_def GroupIndices_def Clamp_def Expand_def)

lemma change_indices_props:
  "sorted (change_indices ops)" "\<forall>i \<in> set (change_indices ops). 0 \<le> i \<and> i < int (length ops)"
  "int i \<in> set (change_indices ops) \<longleftrightarrow> i < length ops \<and> lo_kind (ops ! i) \<noteq> OpEqual"
proof -
  have "sorted (map int (filter (\<lambda>i. lo_kind (ops ! i) \<noteq> OpEqual) [0..<length ops]))"
    by (simp add: sorted_map) (metis (mono_tags, lifting) sorted_upt sorted_wrt_filter)
  then show "sorted (change_indices ops)" by (simp add: change_indices_def)
qed (auto simp: change_indices_def)

lemma length_toLines [simp]: "length (toLines ops) = length ops"
  by (simp add: toLines_def)

text \<open>The header steps: each marks the first line of its span, and the spans start apart.\<close>

lemma hunk_headers_loop:
  assumes "result_of ops r" "length ls = length ops"
    "\<forall>sp \<in> set spans. 0 \<le> sstart sp \<and> sstart sp < send sp \<and> send sp \<le> int (length ops)"
    "sorted_wrt (\<lambda>s t. send s < sstart t) spans"
  shows "\<exists>ls'. foldM (hunk_header_step r) ls spans = Some ls' \<and> length ls' = length ops
    \<and> (\<forall>i < length ops. \<not> (\<exists>sp \<in> set spans. sstart sp = int i) \<longrightarrow> ls' ! i = ls ! i)
    \<and> (\<forall>sp \<in> set spans. ls' ! nat (sstart sp) = line_AddAnnotation (ls ! nat (sstart sp))
         [\<lparr>ann_content = header_of ops (nat (sstart sp)) (nat (send sp)),
           ann_position = Above, ann_col = 0\<rparr>])"
  using assms(2-4)
proof (induction spans arbitrary: ls)
  case Nil
  then show ?case by simp
next
  case (Cons sp spans)
  define i where "i = nat (sstart sp)"
  define j where "j = nat (send sp)"
  have sp: "sp = NewSpan (int i) (int j)" "i < j" "j \<le> length ops"
    using Cons.prems(2) by (auto simp: i_def j_def)
  define ann where "ann = \<lparr>ann_content = header_of ops i j, ann_position = Above, ann_col = 0\<rparr>"
  define ls1 where "ls1 = ls[i := line_AddAnnotation (ls ! i) [ann]]"
  have step: "hunk_header_step r ls sp = Some ls1"
    using sp formatHunkHeader_result [OF assms(1), of i j] Cons.prems(1)
    by (simp add: hunk_header_step_def ls1_def ann_def)
  have later: "\<forall>t \<in> set spans. int j < sstart t"
    using Cons.prems(3) sp by simp
  have prems: "length ls1 = length ops"
    "\<forall>sp \<in> set spans. 0 \<le> sstart sp \<and> sstart sp < send sp \<and> send sp \<le> int (length ops)"
    "sorted_wrt (\<lambda>s t. send s < sstart t) spans"
    using Cons.prems by (auto simp: ls1_def)
  obtain ls' where ls': "foldM (hunk_header_step r) ls1 spans = Some ls'" "length ls' = length ops"
    "\<forall>i < length ops. \<not> (\<exists>sp \<in> set spans. sstart sp = int i) \<longrightarrow> ls' ! i = ls1 ! i"
    "\<forall>sp \<in> set spans. ls' ! nat (sstart sp) = line_AddAnnotation (ls1 ! nat (sstart sp))
         [\<lparr>ann_content = header_of ops (nat (sstart sp)) (nat (send sp)),
           ann_position = Above, ann_col = 0\<rparr>]"
    using Cons.IH [OF prems] by blast
  have keep: "ls1 ! nat (sstart t) = ls ! nat (sstart t)" if "t \<in> set spans" for t
    using later that sp by (auto simp: ls1_def nth_list_update)
  have first: "ls' ! i = line_AddAnnotation (ls ! i) [ann]"
  proof -
    have "\<not> (\<exists>t \<in> set spans. sstart t = int i)" using later sp by fastforce
    then show ?thesis using ls'(3) sp Cons.prems(1) by (simp add: ls1_def)
  qed
  have others: "ls' ! k = ls ! k"
    if "k < length ops" "\<not> (\<exists>t \<in> set (sp # spans). sstart t = int k)" for k
    using that ls'(3) sp by (auto simp: ls1_def nth_list_update)
  have marked: "ls' ! nat (sstart t) = line_AddAnnotation (ls ! nat (sstart t))
         [\<lparr>ann_content = header_of ops (nat (sstart t)) (nat (send t)),
           ann_position = Above, ann_col = 0\<rparr>]" if "t \<in> set (sp # spans)" for t
  proof (cases "t = sp")
    case True
    then show ?thesis using first sp by (simp add: ann_def)
  next
    case False
    then have "t \<in> set spans" using that by simp
    then show ?thesis using ls'(4) keep by simp
  qed
  show ?case using step ls'(1,2) others marked by auto
qed

lemma toLines_content: "map line_Content (toLines ops) = map (\<lambda>x. line_Content (lo_line x)) ops"
  by (simp add: toLines_def comp_def)

lemma Flag_iff [simp]:
  "Flag k = FlagInserted \<longleftrightarrow> k = OpInsert" "Flag k = FlagDeleted \<longleftrightarrow> k = OpDelete"
  by (cases k; simp)+

lemma toLines_filter:
  "map line_Content (filter (\<lambda>l. l_flag l \<noteq> FlagInserted) (toLines ops))
     = map (\<lambda>x. line_Content (lo_line x)) (filter (\<lambda>x. lo_kind x \<noteq> OpInsert) ops)"
  "map line_Content (filter (\<lambda>l. l_flag l \<noteq> FlagDeleted) (toLines ops))
     = map (\<lambda>x. line_Content (lo_line x)) (filter (\<lambda>x. lo_kind x \<noteq> OpDelete) ops)"
  by (simp_all add: toLines_def filter_map comp_def)

subsection \<open>Aligned rows\<close>

definition before_flagged :: "line_op \<Rightarrow> line" where
  "before_flagged x = flagged (if lo_kind x = OpDelete then FlagDeleted else FlagDefault) x"

definition after_flagged :: "line_op \<Rightarrow> line" where
  "after_flagged x = flagged (if lo_kind x = OpInsert then FlagInserted else FlagDefault) x"

definition placed :: "line list \<Rightarrow> line list" where
  "placed ls = filter (\<lambda>l. l_segments l \<noteq> []) ls"

lemma placed_simps [simp]:
  "placed [] = []" "placed (l # ls) = (if l_segments l = [] then placed ls else l # placed ls)"
  "placed (xs @ ys) = placed xs @ placed ys"
  by (simp_all add: placed_def)

lemma flagged_segments [simp]: "l_segments (flagged f x) = [] \<longleftrightarrow> l_segments (lo_line x) = []"
  by (simp add: flagged_def line_Clone_def segs_Clone_def)

lemma empty_line_segments [simp]: "l_segments empty_line = []"
  by (simp add: empty_line_def)

lemma map_padded:
  "length xs \<le> n \<Longrightarrow>
     map (\<lambda>j. if j < length xs then f (xs ! j) else e) [0..<n] = map f xs @ replicate (n - length xs) e"
  by (intro nth_equalityI) (auto simp: nth_append)

lemma placed_padded:
  "length xs \<le> n \<Longrightarrow> \<forall>x \<in> set xs. l_segments (lo_line x) \<noteq> [] \<Longrightarrow>
     placed (map (\<lambda>j. if j < length xs then flagged f (xs ! j) else empty_line) [0..<n])
     = map (flagged f) xs"
  by (simp add: map_padded placed_def)

lemma pair_rows:
  "map row_before (map (pair_row ds ins) [0..<n])
     = map (\<lambda>j. if j < length ds then flagged FlagDeleted (ds ! j) else empty_line) [0..<n]"
  "map row_after (map (pair_row ds ins) [0..<n])
     = map (\<lambda>j. if j < length ins then flagged FlagInserted (ins ! j) else empty_line) [0..<n]"
  by (auto simp: pair_row_def)

text \<open>What a row may be.\<close>

definition row_ok :: "aligned_row \<Rightarrow> bool" where
  "row_ok w \<longleftrightarrow>
     (row_before w = row_after w \<and> l_flag (row_before w) = FlagDefault)
     \<or> ((row_before w = empty_line \<or> l_flag (row_before w) = FlagDeleted)
        \<and> (row_after w = empty_line \<or> l_flag (row_after w) = FlagInserted)
        \<and> (row_before w \<noteq> empty_line \<or> row_after w \<noteq> empty_line))"

lemma flagged_flag [simp]: "l_flag (flagged f x) = f"
  by (simp add: flagged_def)

lemma flagged_not_empty [simp]: "f \<noteq> FlagDefault \<Longrightarrow> flagged f x \<noteq> empty_line"
  by (metis empty_line_def flagged_flag line.select_convs(4))

lemma pair_row_ok: "j < max (length ds) (length ins) \<Longrightarrow> row_ok (pair_row ds ins j)"
  by (auto simp: row_ok_def pair_row_def)

lemma takeWhile_kind: "x \<in> set (collectConsecutive ops k) \<Longrightarrow> lo_kind x = k \<and> x \<in> set ops"
  by (auto simp: collectConsecutive_def dest: set_takeWhileD)

lemma run_split:
  "ops = collectConsecutive ops k @ drop (length (collectConsecutive ops k)) ops"
  by (simp add: collectConsecutive_def) (metis append_take_drop_id takeWhile_eq_take)

lemma aligned_rows_props:
  assumes "\<forall>x \<in> set ops. l_segments (lo_line x) \<noteq> []"
  shows "placed (map row_before (aligned_rows ops))
      = map before_flagged (filter (\<lambda>x. lo_kind x \<noteq> OpInsert) ops)
    \<and> placed (map row_after (aligned_rows ops))
      = map after_flagged (filter (\<lambda>x. lo_kind x \<noteq> OpDelete) ops)
    \<and> list_all row_ok (aligned_rows ops)"
  using assms
proof (induction ops rule: aligned_rows.induct)
  case 1
  then show ?case by simp
next
  case (2 x ops)
  show ?case
  proof (cases "lo_kind x")
    case OpEqual
    with 2 show ?thesis by (simp add: before_flagged_def after_flagged_def row_ok_def)
  next
    case OpInsert
    with 2 show ?thesis by (simp add: before_flagged_def after_flagged_def row_ok_def)
  next
    case OpDelete
    define ds where "ds = collectConsecutive (x # ops) OpDelete"
    define rest where "rest = drop (length ds) (x # ops)"
    define ins where "ins = collectConsecutive rest OpInsert"
    define rest' where "rest' = drop (length ins) rest"
    define n where "n = max (length ds) (length ins)"
    have split: "x # ops = ds @ ins @ rest'"
      using run_split [of "x # ops" OpDelete] run_split [of rest OpInsert]
      by (simp add: ds_def rest_def ins_def rest'_def)
    have rows: "aligned_rows (x # ops) = map (pair_row ds ins) [0..<n] @ aligned_rows rest'"
      using OpDelete by (simp add: Let_def ds_def rest_def ins_def rest'_def n_def)
    have ds: "\<forall>y \<in> set ds. lo_kind y = OpDelete" and ins: "\<forall>y \<in> set ins. lo_kind y = OpInsert"
      by (auto simp: ds_def ins_def dest: takeWhile_kind)
    have seg: "\<forall>y \<in> set (ds @ ins @ rest'). l_segments (lo_line y) \<noteq> []"
      using "2.prems" unfolding split [symmetric] .
    have IH: "placed (map row_before (aligned_rows rest'))
        = map before_flagged (filter (\<lambda>x. lo_kind x \<noteq> OpInsert) rest')
      \<and> placed (map row_after (aligned_rows rest'))
        = map after_flagged (filter (\<lambda>x. lo_kind x \<noteq> OpDelete) rest')
      \<and> list_all row_ok (aligned_rows rest')"
      unfolding rest'_def using "2.IH"(2) [OF OpDelete ds_def rest_def ins_def] seg
      by (simp add: rest'_def)
    have bf: "placed (map row_before (map (pair_row ds ins) [0..<n])) = map before_flagged ds"
      unfolding pair_rows using ds seg
      by (subst placed_padded) (auto simp: n_def before_flagged_def)
    have af: "placed (map row_after (map (pair_row ds ins) [0..<n])) = map after_flagged ins"
      unfolding pair_rows using ins seg
      by (subst placed_padded) (auto simp: n_def after_flagged_def)
    have ok: "list_all row_ok (map (pair_row ds ins) [0..<n])"
      by (auto simp: list_all_iff n_def intro!: pair_row_ok)
    have f: "filter (\<lambda>x. lo_kind x \<noteq> OpInsert) ds = ds" "filter (\<lambda>x. lo_kind x \<noteq> OpInsert) ins = []"
      "filter (\<lambda>x. lo_kind x \<noteq> OpDelete) ds = []" "filter (\<lambda>x. lo_kind x \<noteq> OpDelete) ins = ins"
      using ds ins by (auto simp: filter_empty_conv filter_id_conv)
    show ?thesis
      unfolding rows unfolding split filter_append map_append placed_simps bf af f
      using IH ok by simp
  qed
qed

lemma getAlignedRows_result:
  "result_of ops r \<Longrightarrow> fst (getAlignedRows r) = aligned_rows ops \<and> result_of ops (snd (getAlignedRows r))
     \<and> dr_rows (snd (getAlignedRows r)) = Some (aligned_rows ops)"
  by (auto simp: getAlignedRows_def result_of_def split: option.split)

lemma diff_source_lines [simp]: "src_lines (diff_source n ls) = ls" "src_name (diff_source n ls) = n"
  by (simp_all add: diff_source_def)

lemma before_after_content [simp]:
  "line_Content (before_flagged x) = line_Content (lo_line x)"
  "line_Content (after_flagged x) = line_Content (lo_line x)"
  by (simp_all add: before_flagged_def after_flagged_def flagged_def)

text \<open>The default \<open>Diff\<close>, through the interpretation of the interface.\<close>

lemma default_Diff_result:
  "\<exists>ops r. default_Diff a b = Some r \<and> result_of ops r
     \<and> of_sources (src_lines a) (src_lines b) ops"
proof -
  obtain ops where ops: "fst (computeOps (Init 0) Diff NewHirschberg (src_lines a) (src_lines b)) = Some ops"
    "of_sources (src_lines a) (src_lines b) ops"
    using hirschberg.computeOps_sources [OF buffers_ok_New] by blast
  from differ_Diff_result [OF ops(1)] ops(2) show ?thesis
    by (auto simp: default_Diff_def)
qed

lemma Stats_counts:
  "Stats r = (kind_count (\<lambda>k. k = OpInsert) (dr_ops r), kind_count (\<lambda>k. k = OpDelete) (dr_ops r))"
proof -
  have "foldl (\<lambda>(added, removed) x. case lo_kind x of OpInsert \<Rightarrow> (added + 1, removed)
      | OpDelete \<Rightarrow> (added, removed + 1) | OpEqual \<Rightarrow> (added, removed)) (a, b) ops
    = (a + kind_count (\<lambda>k. k = OpInsert) ops, b + kind_count (\<lambda>k. k = OpDelete) ops)"
    for a b :: int and ops
    by (induction ops arbitrary: a b) (auto simp: kind_count_def split: op_kind.split)
  then show ?thesis by (simp add: Stats_def)
qed

lemma length_filter_mono: "(\<And>x. P x \<Longrightarrow> Q x) \<Longrightarrow> length (filter P xs) \<le> length (filter Q xs)"
  by (induction xs) auto

lemma kind_count_complement:
  "kind_count P ops + kind_count (\<lambda>k. \<not> P k) ops = int (length ops)"
  by (induction ops) (auto simp: kind_count_def)

lemma of_sources_after:
  assumes "of_sources before after ops"
  shows "map (\<lambda>x. line_Content (lo_line x)) (filter (\<lambda>x. lo_kind x \<noteq> OpDelete) ops)
    = map line_Content after"
proof -
  have "map line_Content (map lo_line (filter (\<lambda>x. lo_kind x \<noteq> OpDelete) ops)) = map line_Content after"
    using assms by (simp only: of_sources_def)
  then show ?thesis by (simp add: comp_def)
qed

lemma Hunks_result:
  assumes "result_of ops r" "change_indices ops \<noteq> []"
  shows "\<exists>src spans. Hunks r ctx = Some (src, spans)
    \<and> length (src_lines src) = length ops
    \<and> (\<forall>i < length ops. (\<exists>sp \<in> set spans. span_Contains sp (int i))
          \<longleftrightarrow> (\<exists>k < length ops. lo_kind (ops ! k) \<noteq> OpEqual \<and> \<bar>int k - int i\<bar> \<le> max 0 ctx))
    \<and> (\<forall>i < length ops. \<not> (\<exists>sp \<in> set spans. sstart sp = int i)
          \<longrightarrow> src_lines src ! i = toLines ops ! i)
    \<and> (\<forall>sp \<in> set spans. src_lines src ! nat (sstart sp)
          = line_AddAnnotation (toLines ops ! nat (sstart sp))
              [\<lparr>ann_content = header_of ops (nat (sstart sp)) (nat (send sp)),
                ann_position = Above, ann_col = 0\<rparr>])"
proof -
  define c where "c = max 0 ctx"
  define spans where "spans = selectHunkSpans ops c"
  note ch = change_indices_props [where ops = ops]
  have c: "0 \<le> c" by (simp add: c_def)
  have cover: "(\<exists>sp \<in> set spans. span_Contains sp (int i)) \<longleftrightarrow> int i < int (length ops)
      \<and> (\<exists>k \<in> set (change_indices ops). \<bar>k - int i\<bar> \<le> c)" for i
    using hunk_spans_Contains [OF c ch(1), of "int (length ops)" "int i"]
    by (simp add: spans_def selectHunkSpans_hunks)
  have idx: "(\<exists>k \<in> set (change_indices ops). \<bar>k - int i\<bar> \<le> c)
      \<longleftrightarrow> (\<exists>k < length ops. lo_kind (ops ! k) \<noteq> OpEqual \<and> \<bar>int k - int i\<bar> \<le> c)" for i
    by (auto simp: change_indices_def)
  have "spans \<noteq> []"
  proof -
    obtain k where k: "k < length ops" "lo_kind (ops ! k) \<noteq> OpEqual"
      using assms(2) by (auto simp: change_indices_def filter_empty_conv)
    then have "\<exists>sp \<in> set spans. span_Contains sp (int k)"
      unfolding cover idx using c by auto
    then show ?thesis by auto
  qed
  have ne: "length ops \<noteq> 0" using assms(2) by (auto simp: change_indices_def)
  obtain ls where ls: "foldM (hunk_header_step r) (toLines ops) spans = Some ls"
    "length ls = length ops"
    "\<forall>i < length ops. \<not> (\<exists>sp \<in> set spans. sstart sp = int i) \<longrightarrow> ls ! i = toLines ops ! i"
    "\<forall>sp \<in> set spans. ls ! nat (sstart sp) = line_AddAnnotation (toLines ops ! nat (sstart sp))
         [\<lparr>ann_content = header_of ops (nat (sstart sp)) (nat (send sp)),
           ann_position = Above, ann_col = 0\<rparr>]"
    using hunk_headers_loop [OF assms(1) length_toLines, of spans]
      hunk_spans_bounds [OF c ch(1,2)] hunk_spans_gap [OF c ch(1), of "int (length ops)"]
    by (auto simp: spans_def selectHunkSpans_hunks)
  have hunks: "Hunks r ctx = Some (diff_source (dr_name r) ls, spans)"
    using ls(1) \<open>spans \<noteq> []\<close> ne assms(1)
    by (simp add: Hunks_def Let_def c_def [symmetric] spans_def [symmetric] result_of_def)
  show ?thesis
    by (intro exI [of _ "diff_source (dr_name r) ls"] exI [of _ spans] conjI)
       (use hunks ls cover idx in \<open>auto simp: c_def\<close>)
qed

lemma panes_result:
  assumes "result_of ops r" "of_sources before after ops"
    and "\<forall>x \<in> set ops. l_segments (lo_line x) \<noteq> []"
  shows "length (src_lines (fst (diff_Before r))) = length (src_lines (fst (diff_After r)))
    \<and> list_all row_ok (fst (getAlignedRows r))
    \<and> map line_Content (filter (\<lambda>l. l_segments l \<noteq> []) (src_lines (fst (diff_Before r))))
        = map line_Content before
    \<and> map line_Content (filter (\<lambda>l. l_segments l \<noteq> []) (src_lines (fst (diff_After r))))
        = map line_Content after"
proof -
  have rows: "fst (getAlignedRows r) = aligned_rows ops" using getAlignedRows_result [OF assms(1)] by simp
  have b: "src_lines (fst (diff_Before r)) = map row_before (aligned_rows ops)"
    "src_lines (fst (diff_After r)) = map row_after (aligned_rows ops)"
    by (simp_all add: diff_Before_def diff_After_def Let_def case_prod_beta rows)
  have before: "map (\<lambda>x. line_Content (lo_line x)) (filter (\<lambda>x. lo_kind x \<noteq> OpInsert) ops)
      = map line_Content before"
    using assms(2) by (simp add: of_sources_def)
  from aligned_rows_props [OF assms(3)] before of_sources_after [OF assms(2)] show ?thesis
    by (simp add: b rows placed_def comp_def)
qed

lemma Stats_result:
  assumes "of_sources before after (dr_ops r)"
  shows "int (length before) + fst (Stats r) = int (length after) + snd (Stats r)
    \<and> 0 \<le> fst (Stats r) \<and> fst (Stats r) \<le> int (length after)
    \<and> 0 \<le> snd (Stats r) \<and> snd (Stats r) \<le> int (length before)"
proof -
  let ?ops = "dr_ops r"
  have b: "kind_count (\<lambda>k. \<not> k = OpInsert) ?ops = int (length before)"
    using assms unfolding of_sources_def kind_count_def by (metis length_map)
  have a: "kind_count (\<lambda>k. \<not> k = OpDelete) ?ops = int (length after)"
    using assms unfolding of_sources_def kind_count_def by (metis length_map)
  have le: "kind_count (\<lambda>k. k = OpInsert) ?ops \<le> kind_count (\<lambda>k. \<not> k = OpDelete) ?ops"
    "kind_count (\<lambda>k. k = OpDelete) ?ops \<le> kind_count (\<lambda>k. \<not> k = OpInsert) ?ops"
    "0 \<le> kind_count (\<lambda>k. k = OpInsert) ?ops" "0 \<le> kind_count (\<lambda>k. k = OpDelete) ?ops"
    by (auto simp: kind_count_def intro!: length_filter_mono)
  show ?thesis
    using kind_count_complement [of "\<lambda>k. k = OpInsert" ?ops]
      kind_count_complement [of "\<lambda>k. k = OpDelete" ?ops] a b le
    by (simp add: Stats_counts)
qed

lemma of_sources_lines:
  assumes "of_sources before after ops" "x \<in> set ops"
  shows "lo_line x \<in> set before \<union> set after"
proof (cases "lo_kind x = OpDelete")
  case True
  with assms show ?thesis by (auto simp: of_sources_def)
next
  case False
  then have "lo_line x \<in> set (map lo_line (filter (\<lambda>x. lo_kind x \<noteq> OpDelete) ops))"
    using assms(2) by auto
  with assms(1) show ?thesis by (auto simp: of_sources_def)
qed

section \<open>Properties\<close>

text \<open>C9: the unified diff carries both files: \<open>Diff\<close> never panics, the lines not flagged as deleted
  are the lines of the second source in order, and those not flagged as inserted have the contents
  of the first.\<close>

theorem Unified_projections:
  "\<exists>r. default_Diff a b = Some r
    \<and> map line_Content (filter (\<lambda>l. l_flag l \<noteq> FlagInserted) (src_lines (Unified r)))
        = map line_Content (src_lines a)
    \<and> map line_Content (filter (\<lambda>l. l_flag l \<noteq> FlagDeleted) (src_lines (Unified r)))
        = map line_Content (src_lines b)"
proof -
  obtain ops r where r: "default_Diff a b = Some r" "result_of ops r"
    "of_sources (src_lines a) (src_lines b) ops" using default_Diff_result by blast
  with of_sources_after [OF r(3)] show ?thesis
    by (simp add: Unified_def toLines_filter result_of_def) (simp add: of_sources_def)
qed


definition sample_source :: "string list \<Rightarrow> (nat, nat) source" where
  "sample_source xs = empty_source\<lparr>src_lines := map (\<lambda>x. sample_line (sample_token 1 StringType x) 1) xs\<rparr>"


text \<open>C7: the two panes of the side by side view have equally many lines; a row shows one unchanged
  line on both sides, or a deleted line or a blank on the left and an inserted line or a blank on
  the right, never two blanks; without the blanks the left pane has the contents of the first
  source in order, the right pane those of the second.\<close>

theorem panes_aligned:
  assumes "\<forall>l \<in> set (src_lines a) \<union> set (src_lines b). l_segments l \<noteq> []"
  shows "\<exists>r. default_Diff a b = Some r
    \<and> length (src_lines (fst (diff_Before r))) = length (src_lines (fst (diff_After r)))
    \<and> list_all row_ok (fst (getAlignedRows r))
    \<and> map line_Content (filter (\<lambda>l. l_segments l \<noteq> []) (src_lines (fst (diff_Before r))))
        = map line_Content (src_lines a)
    \<and> map line_Content (filter (\<lambda>l. l_segments l \<noteq> []) (src_lines (fst (diff_After r))))
        = map line_Content (src_lines b)"
proof -
  obtain ops r where r: "default_Diff a b = Some r" "result_of ops r"
    "of_sources (src_lines a) (src_lines b) ops" using default_Diff_result by blast
  have "\<forall>x \<in> set ops. l_segments (lo_line x) \<noteq> []"
    using of_sources_lines [OF r(3)] assms by blast
  from panes_result [OF r(2,3) this] r(1) show ?thesis by blast
qed

theorem panes_aligned_witness:
  "\<exists>r. default_Diff (sample_source [''a'', ''b'']) (sample_source [''b'', ''c'']) = Some r
    \<and> length (src_lines (fst (diff_Before r))) = length (src_lines (fst (diff_After r)))"
  using panes_aligned [of "sample_source [''a'', ''b'']" "sample_source [''b'', ''c'']"]
  by (auto simp: sample_source_def sample_line_def)

text \<open>The statistics add up: the first source and the added lines are as many lines as the
  second source and the removed lines, and neither number exceeds its side.\<close>

theorem Stats_balance:
  "\<exists>r. default_Diff a b = Some r
    \<and> int (length (src_lines a)) + fst (Stats r) = int (length (src_lines b)) + snd (Stats r)
    \<and> 0 \<le> fst (Stats r) \<and> fst (Stats r) \<le> int (length (src_lines b))
    \<and> 0 \<le> snd (Stats r) \<and> snd (Stats r) \<le> int (length (src_lines a))"
proof -
  obtain ops r where r: "default_Diff a b = Some r" "result_of ops r"
    "of_sources (src_lines a) (src_lines b) ops" using default_Diff_result by blast
  then have "of_sources (src_lines a) (src_lines b) (dr_ops r)" by (simp add: result_of_def)
  from Stats_result [OF this] r(1) show ?thesis by blast
qed

end
