(* ===== verification/Finder.thy ===== *)
theory Finder
  imports Sources
begin

text \<open>
  \<open>find.go\<close>: the search index of a source and the search in it. The normalizer is a parameter,
  \<open>None\<close> for none. A line iterator is its identity and the runes it yields. The map from bytes
  to runes is an array of which only the rune boundaries are written. The loop of \<open>Find\<close> need
  not end, so it is a partial function: \<open>None\<close> is a search that does not return.
\<close>

record line_iterator =
  li_id :: nat
  li_empty :: bool
  li_runes :: "(position \<times> rune) list"

record position_map =
  pm_indices :: "int list"
  pm_positions :: "position list"

record finder =
  fd_normalizer :: "(string \<Rightarrow> string) option"
  fd_prev :: "nat option"
  fd_pos :: position_map
  fd_source :: string
  fd_byteToRune :: "int list"

definition empty_map :: position_map where
  "empty_map = \<lparr>pm_indices = [], pm_positions = []\<rparr>"

definition NewFinder :: "(finder \<Rightarrow> finder) list \<Rightarrow> finder" where
  "NewFinder opts = foldl (\<lambda>f opt. opt f) \<lparr>fd_normalizer = None, fd_prev = None,
     fd_pos = empty_map, fd_source = [], fd_byteToRune = []\<rparr> opts"

definition WithNormalizer :: "(string \<Rightarrow> string) \<Rightarrow> finder \<Rightarrow> finder" where
  "WithNormalizer n f = f\<lparr>fd_normalizer := Some n\<rparr>"

section \<open>The position map\<close>

definition pm_add :: "int \<Rightarrow> position \<Rightarrow> position_map \<Rightarrow> position_map" where
  "pm_add charIndex pos m = \<lparr>pm_indices = pm_indices m @ [charIndex],
     pm_positions = pm_positions m @ [pos]\<rparr>"

text \<open>\<open>sort.Search\<close>: the binary search for the first index in \<open>[i, j)\<close> with the property.\<close>

function sort_Search :: "(nat \<Rightarrow> bool) \<Rightarrow> nat \<Rightarrow> nat \<Rightarrow> nat" where
  "sort_Search f i j =
     (if i < j then
        let h = (i + j) div 2
        in if \<not> f h then sort_Search f (Suc h) j else sort_Search f i h
      else i)"
  by pat_completeness auto
termination
  by (relation "measure (\<lambda>(f, i, j). j - i)") auto

declare sort_Search.simps [simp del]

definition pm_lookup :: "position_map \<Rightarrow> int \<Rightarrow> position" where
  "pm_lookup m charIndex =
     (if length (pm_indices m) = 0 then New 0 0
      else
        let idx = sort_Search (\<lambda>i. pm_indices m ! i > charIndex) 0 (length (pm_indices m));
            idx = (if idx > 0 then idx - 1 else idx)
        in pm_positions m ! idx)"

section \<open>Loading\<close>

text \<open>The state of the loop: the builder, the map, the next index and the cache.\<close>

type_synonym build_state = "string \<times> position_map \<times> int \<times> (rune \<rightharpoonup> string)"

definition normalized_rune ::
  "(string \<Rightarrow> string) option \<Rightarrow> (rune \<rightharpoonup> string) \<Rightarrow> rune \<Rightarrow> string \<times> (rune \<rightharpoonup> string)" where
  "normalized_rune normalizer cache r = (case normalizer of
     None \<Rightarrow> (encode_rune r, cache)
   | Some nrm \<Rightarrow> (case cache r of
       Some cached \<Rightarrow> (cached, cache)
     | None \<Rightarrow> let normalized = nrm (encode_rune r) in (normalized, cache(r \<mapsto> normalized))))"

definition build_step ::
  "(string \<Rightarrow> string) option \<Rightarrow> build_state \<Rightarrow> position \<times> rune \<Rightarrow> build_state" where
  "build_step normalizer = (\<lambda>(sb, pm, index, cache) (pos, r).
     let (normalized, cache') = normalized_rune normalizer cache r;
         (sb', pm', index') = foldl (\<lambda>(sb, pm, index) nr.
             (sb @ encode_rune nr, pm_add index pos pm, index + 1)) (sb, pm, index) (runes normalized)
     in (sb', pm', index', cache'))"

definition buildSourceAndPositionMap ::
  "(string \<Rightarrow> string) option \<Rightarrow> line_iterator option \<Rightarrow> string \<times> position_map" where
  "buildSourceAndPositionMap normalizer lines = (case lines of
     None \<Rightarrow> ([], empty_map)
   | Some it \<Rightarrow> if li_empty it then ([], empty_map)
       else let (sb, pm, _, _) = foldl (build_step normalizer) ([], empty_map, 0, Map.empty) (li_runes it)
            in (sb, pm))"

function fill_byteToRune :: "string \<Rightarrow> nat \<Rightarrow> int \<Rightarrow> int list \<Rightarrow> int list" where
  "fill_byteToRune source i runeCount table =
     (if i < length source then
        fill_byteToRune source (i + snd (decode_rune (drop i source))) (runeCount + 1)
          (table[i := runeCount])
      else table[length source := runeCount])"
  by pat_completeness auto
termination
proof (relation "measure (\<lambda>(s, i, c, t). length s - i)")
  show "wf (measure (\<lambda>(s :: string, i, c :: int, t :: int list). length s - i))" by simp
next
  fix source :: string and i and c :: int and t :: "int list"
  assume "i < length source"
  with decode_rune_width [of "drop i source"]
  have "0 < snd (decode_rune (drop i source))" by simp
  with \<open>i < length source\<close>
  have "length source - (i + snd (decode_rune (drop i source))) < length source - i" by linarith
  then show "((source, i + snd (decode_rune (drop i source)), c + 1, t[i := c]), source, i, c, t)
    \<in> measure (\<lambda>(s, i, c, t). length s - i)" by simp
qed

declare fill_byteToRune.simps [simp del]

definition buildByteToRuneIndex :: "finder \<Rightarrow> finder" where
  "buildByteToRuneIndex f =
     (if fd_source f = [] then f\<lparr>fd_byteToRune := []\<rparr>
      else f\<lparr>fd_byteToRune :=
        fill_byteToRune (fd_source f) 0 0 (replicate (length (fd_source f) + 1) 0)\<rparr>)"

definition Load :: "line_iterator option \<Rightarrow> finder \<Rightarrow> finder" where
  "Load lines f =
     (if fd_prev f = map_option li_id lines then f
      else let (source, posMap) = buildSourceAndPositionMap (fd_normalizer f) lines
           in buildByteToRuneIndex
                (f\<lparr>fd_prev := map_option li_id lines, fd_source := source, fd_pos := posMap\<rparr>))"

section \<open>Searching\<close>

definition match_range :: "finder \<Rightarrow> int \<Rightarrow> nat \<Rightarrow> range" where
  "match_range f searchRuneCount matchStart =
     (let matchStartChar = fd_byteToRune f ! matchStart;
          matchEndChar = matchStartChar + searchRuneCount - 1;
          startPos = pm_lookup (fd_pos f) matchStartChar;
          endPos = pm_lookup (fd_pos f) matchEndChar
      in NewRange startPos (endPos\<lparr>pcol := pcol endPos + 1\<rparr>))"

partial_function (option) find_loop ::
  "finder \<Rightarrow> string \<Rightarrow> int \<Rightarrow> nat \<Rightarrow> range list \<Rightarrow> range list option" where
  "find_loop f searchStr searchRuneCount offset results =
     (case index_of (drop offset (fd_source f)) searchStr of
        None \<Rightarrow> Some results
      | Some idx \<Rightarrow>
          let matchStart = offset + idx; matchEnd = matchStart + length searchStr
          in find_loop f searchStr searchRuneCount matchEnd
               (results @ [match_range f searchRuneCount matchStart]))"

definition Find :: "finder \<Rightarrow> string \<Rightarrow> range list option" where
  "Find f search =
     (if search = [] \<or> fd_source f = [] then Some []
      else
        let searchStr = (case fd_normalizer f of None \<Rightarrow> search | Some nrm \<Rightarrow> nrm search)
        in find_loop f searchStr (int (rune_count searchStr)) 0 [])"

section \<open>UTF-8 search is rune search\<close>

definition continuation :: "char \<Rightarrow> bool" where
  "continuation c \<longleftrightarrow> 0x80 \<le> byte c \<and> byte c < 0xC0"

lemma encode_rune_shape:
  "\<not> continuation (hd (encode_rune r)) \<and> list_all continuation (tl (encode_rune r))"
proof -
  have "r div 262144 \<le> 4" if "valid_rune r" using that by (auto simp: valid_rune_def)
  then show ?thesis by (auto simp: encode_rune_def continuation_def)
qed

lemma encode_runes_hd: "rs \<noteq> [] \<Longrightarrow> \<not> continuation (hd (encode_runes rs))"
  using encode_rune_shape by (cases rs) auto

lemma has_prefix_encode:
  assumes "list_all valid_rune xs" "list_all valid_rune qs"
  shows "has_prefix (encode_runes xs) (encode_runes qs) \<longleftrightarrow> take (length qs) xs = qs"
proof
  assume "has_prefix (encode_runes xs) (encode_runes qs)"
  then obtain u where "encode_runes xs = encode_runes qs @ u" by (auto simp: has_prefix_iff)
  then have "xs = qs @ runes u"
    using runes_encode_append [OF assms(2), of u] runes_encode_runes [OF assms(1)] by simp
  then show "take (length qs) xs = qs" by (metis append_eq_conv_conj)
next
  assume "take (length qs) xs = qs"
  then show "has_prefix (encode_runes xs) (encode_runes qs)"
    by (metis append_take_drop_id encode_runes_simps(3) has_prefix_iff)
qed

lemma no_prefix_inside:
  assumes "qs \<noteq> []" "0 < j" "j < length (encode_rune x)"
  shows "\<not> has_prefix (drop j (encode_rune x @ rest)) (encode_runes qs)"
proof
  assume "has_prefix (drop j (encode_rune x @ rest)) (encode_runes qs)"
  moreover have ne: "encode_runes qs \<noteq> []" using assms(1) by (cases qs) auto
  ultimately have "hd (drop j (encode_rune x @ rest)) = hd (encode_runes qs)"
    by (auto simp: has_prefix_iff)
  moreover have "hd (drop j (encode_rune x @ rest)) = tl (encode_rune x) ! (j - 1)"
    using assms by (simp add: hd_append hd_drop_conv_nth nth_tl)
  moreover have "continuation (tl (encode_rune x) ! (j - 1))"
    using assms encode_rune_shape [of x] by (auto simp: list_all_length)
  ultimately show False using encode_runes_hd [OF assms(1)] by simp
qed

text \<open>The first occurrence in a list of runes.\<close>

fun rune_index :: "rune list \<Rightarrow> rune list \<Rightarrow> nat option" where
  "rune_index [] qs = (if qs = [] then Some 0 else None)"
| "rune_index (x # xs) qs =
     (if take (length qs) (x # xs) = qs then Some 0 else map_option Suc (rune_index xs qs))"

lemma index_of_skip:
  "n \<le> length s \<Longrightarrow> \<forall>j < n. \<not> has_prefix (drop j s) p \<Longrightarrow>
     index_of s p = map_option ((+) n) (index_of (drop n s) p)"
proof (induction n arbitrary: s)
  case 0
  then show ?case by (simp add: option.map_ident)
next
  case (Suc n)
  then obtain c s' where s: "s = c # s'" by (cases s) auto
  have "\<not> has_prefix s p" using Suc.prems(2) by (metis drop0 zero_less_Suc)
  moreover have "\<forall>j < n. \<not> has_prefix (drop j s') p"
    using Suc.prems(2) s by (metis Suc_mono drop_Suc_Cons)
  ultimately show ?case
    using Suc.IH [of s'] Suc.prems(1) s by (simp add: option.map_comp comp_def)
qed

lemma index_of_encode:
  assumes "list_all valid_rune xs" "list_all valid_rune qs" "qs \<noteq> []"
  shows "index_of (encode_runes xs) (encode_runes qs)
    = map_option (\<lambda>k. length (encode_runes (take k xs))) (rune_index xs qs)"
  using assms
proof (induction xs)
  case Nil
  then show ?case by (cases qs) auto
next
  case (Cons x xs)
  show ?case
  proof (cases "take (length qs) (x # xs) = qs")
    case True
    then have p: "has_prefix (encode_runes (x # xs)) (encode_runes qs)"
      using has_prefix_encode [OF Cons.prems(1,2)] by blast
    obtain c cs where "encode_runes (x # xs) = c # cs"
      by (metis append_is_Nil_conv encode_rune_nonempty encode_runes_simps(2) list.exhaust)
    with p True show ?thesis by simp
  next
    case False
    let ?n = "length (encode_rune x)"
    have "\<forall>j < ?n. \<not> has_prefix (drop j (encode_runes (x # xs))) (encode_runes qs)"
    proof (intro allI impI)
      fix j assume "j < ?n"
      then show "\<not> has_prefix (drop j (encode_runes (x # xs))) (encode_runes qs)"
        using no_prefix_inside [OF Cons.prems(3), of j x "encode_runes xs"]
          has_prefix_encode [OF Cons.prems(1,2)] False
        by (cases "j = 0") auto
    qed
    from index_of_skip [OF _ this] have "index_of (encode_runes (x # xs)) (encode_runes qs)
        = map_option ((+) ?n) (index_of (encode_runes xs) (encode_runes qs))"
      by simp
    with Cons False show ?thesis by (simp add: option.map_comp comp_def)
  qed
qed

section \<open>The loaded index\<close>

definition normal_form :: "(string \<Rightarrow> string) option \<Rightarrow> rune \<Rightarrow> string" where
  "normal_form normalizer r = (case normalizer of
     None \<Rightarrow> encode_rune r | Some nrm \<Rightarrow> nrm (encode_rune r))"

text \<open>The normalized runes with the positions they come from.\<close>

definition normal_runes ::
  "(string \<Rightarrow> string) option \<Rightarrow> (position \<times> rune) list \<Rightarrow> (position \<times> rune) list" where
  "normal_runes normalizer rs =
     concat (map (\<lambda>(pos, r). map (Pair pos) (runes (normal_form normalizer r))) rs)"

definition cache_ok :: "(string \<Rightarrow> string) option \<Rightarrow> (rune \<rightharpoonup> string) \<Rightarrow> bool" where
  "cache_ok normalizer cache \<longleftrightarrow> (\<forall>r s. cache r = Some s \<longrightarrow> s = normal_form normalizer r)"

lemma normalized_rune_ok:
  assumes "cache_ok normalizer cache"
  shows "\<exists>cache'. normalized_rune normalizer cache r = (normal_form normalizer r, cache')
    \<and> cache_ok normalizer cache'"
  using assms
  by (auto simp: normalized_rune_def normal_form_def cache_ok_def Let_def split: option.split)

definition map_upto :: "nat \<Rightarrow> position list \<Rightarrow> position_map" where
  "map_upto n ps = \<lparr>pm_indices = map int [0..<n], pm_positions = ps\<rparr>"

lemma build_inner:
  "foldl (\<lambda>(sb, pm, index) nr. (sb @ encode_rune nr, pm_add index pos pm, index + 1))
     (sb, map_upto n ps, int n) nrs
   = (sb @ encode_runes nrs, map_upto (n + length nrs) (ps @ replicate (length nrs) pos),
      int (n + length nrs))"
proof (induction nrs arbitrary: sb n ps)
  case Nil
  then show ?case by simp
next
  case (Cons nr nrs)
  have "pm_add (int n) pos (map_upto n ps) = map_upto (Suc n) (ps @ [pos])"
    by (simp add: pm_add_def map_upto_def)
  with Cons [of "sb @ encode_rune nr" "Suc n" "ps @ [pos]"] show ?case
    by (simp add: add.commute)
qed

lemma build_loop:
  assumes "cache_ok normalizer cache"
  shows "\<exists>cache'. foldl (build_step normalizer) (sb, map_upto n ps, int n, cache) rs
    = (sb @ encode_runes (map snd (normal_runes normalizer rs)),
       map_upto (n + length (normal_runes normalizer rs)) (ps @ map fst (normal_runes normalizer rs)),
       int (n + length (normal_runes normalizer rs)), cache')"
  using assms
proof (induction rs arbitrary: sb n ps cache)
  case Nil
  then show ?case by (simp add: normal_runes_def)
next
  case (Cons pr rs)
  obtain pos r where pr: "pr = (pos, r)" by (cases pr)
  obtain cache1 where c1: "normalized_rune normalizer cache r = (normal_form normalizer r, cache1)"
    "cache_ok normalizer cache1" using normalized_rune_ok [OF Cons.prems] by blast
  let ?nrs = "runes (normal_form normalizer r)"
  have step: "build_step normalizer (sb, map_upto n ps, int n, cache) pr
    = (sb @ encode_runes ?nrs, map_upto (n + length ?nrs) (ps @ replicate (length ?nrs) pos),
       int (n + length ?nrs), cache1)"
    using c1 build_inner [of pos sb n ps ?nrs] by (simp add: build_step_def pr)
  have ns: "normal_runes normalizer (pr # rs) = map (Pair pos) ?nrs @ normal_runes normalizer rs"
    by (simp add: normal_runes_def pr)
  have f: "map fst (map (Pair pos) ?nrs) = replicate (length ?nrs) pos"
    "map snd (map (Pair pos) ?nrs) = ?nrs"
    by (auto simp: map_replicate_const comp_def)
  from Cons.IH [OF c1(2), of "sb @ encode_runes ?nrs" "n + length ?nrs" "ps @ replicate (length ?nrs) pos"]
  show ?case
    unfolding foldl_Cons step ns map_append f encode_runes_simps
    by (simp add: add.assoc)
qed

lemma buildSourceAndPositionMap_eq:
  assumes "\<not> li_empty it"
  shows "buildSourceAndPositionMap normalizer (Some it)
    = (encode_runes (map snd (normal_runes normalizer (li_runes it))),
       map_upto (length (normal_runes normalizer (li_runes it)))
         (map fst (normal_runes normalizer (li_runes it))))"
proof -
  have "cache_ok normalizer Map.empty" by (simp add: cache_ok_def)
  from build_loop [OF this, of "[]" 0 "[]" "li_runes it"] assms show ?thesis
    by (auto simp: buildSourceAndPositionMap_def map_upto_def empty_map_def)
qed

lemma normal_runes_valid: "list_all valid_rune (map snd (normal_runes normalizer rs))"
  using runes_valid by (auto simp: normal_runes_def list_all_iff)

text \<open>The rune boundaries of an encoded string.\<close>

definition boundary :: "rune list \<Rightarrow> nat \<Rightarrow> nat" where
  "boundary rs k = length (encode_runes (take k rs))"

lemma boundary_0 [simp]: "boundary rs 0 = 0"
  by (simp add: boundary_def)

lemma boundary_full: "boundary rs (length rs) = length (encode_runes rs)"
  by (simp add: boundary_def)

lemma boundary_Suc:
  "k < length rs \<Longrightarrow> boundary rs (Suc k) = boundary rs k + length (encode_rune (rs ! k))"
  by (simp add: boundary_def take_Suc_conv_app_nth)

lemma boundary_mono: "j < k \<Longrightarrow> k \<le> length rs \<Longrightarrow> boundary rs j < boundary rs k"
proof (induction k)
  case 0
  then show ?case by simp
next
  case (Suc k)
  then show ?case by (cases "j = k") (auto simp: boundary_Suc intro: less_trans)
qed

lemma boundary_le: "k \<le> length rs \<Longrightarrow> boundary rs k \<le> length (encode_runes rs)"
  using boundary_mono [of k "length rs" rs] boundary_full [of rs] by (cases "k = length rs") auto

lemma drop_boundary: "drop (boundary rs k) (encode_runes rs) = encode_runes (drop k rs)"
  by (metis append_eq_conv_conj append_take_drop_id boundary_def encode_runes_simps(3))

lemma fill_byteToRune_ok:
  assumes "list_all valid_rune rs" "k \<le> length rs" "length table = length (encode_runes rs) + 1"
    "\<forall>j < k. table ! boundary rs j = int j"
  shows "\<forall>j \<le> length rs.
    fill_byteToRune (encode_runes rs) (boundary rs k) (int k) table ! boundary rs j = int j"
  using assms(2-4)
proof (induction "length rs - k" arbitrary: k table)
  case 0
  then have k: "k = length rs" by simp
  have "boundary rs j \<noteq> length (encode_runes rs)" if "j < length rs" for j
    using boundary_mono [OF that order_refl] by (simp add: boundary_full)
  note ne = this
  show ?case
  proof (intro allI impI)
    fix j assume "j \<le> length rs"
    then show "fill_byteToRune (encode_runes rs) (boundary rs k) (int k) table ! boundary rs j = int j"
      using ne [of j] 0 k
      by (cases "j = length rs")
         (simp_all add: fill_byteToRune.simps [of "encode_runes rs" "length (encode_runes rs)"]
           boundary_full nth_list_update)
  qed
next
  case (Suc d)
  then have k: "k < length rs" by simp
  let ?t = "table[boundary rs k := int k]"
  have lt: "boundary rs k < length (encode_runes rs)"
    using boundary_mono [OF k order_refl] by (simp add: boundary_full)
  have dr: "drop k rs = rs ! k # drop (Suc k) rs" using k by (simp add: Cons_nth_drop_Suc)
  have "valid_rune (rs ! k)" using assms(1) k by (simp add: list_all_length)
  then have dec: "snd (decode_rune (drop (boundary rs k) (encode_runes rs))) = length (encode_rune (rs ! k))"
    by (simp add: drop_boundary dr decode_encode_rune)
  have step: "fill_byteToRune (encode_runes rs) (boundary rs k) (int k) table
    = fill_byteToRune (encode_runes rs) (boundary rs (Suc k)) (int (Suc k)) ?t"
    by (subst fill_byteToRune.simps) (simp add: lt dec boundary_Suc [OF k] add.commute)
  have "\<forall>j < Suc k. ?t ! boundary rs j = int j"
  proof (intro allI impI)
    fix j assume "j < Suc k"
    then show "?t ! boundary rs j = int j"
      using Suc.prems(2,3) lt boundary_mono [of j k rs] k
      by (cases "j = k") (simp_all add: nth_list_update)
  qed
  with Suc.hyps(1) [of "Suc k" ?t] Suc.hyps(2) Suc.prems k show ?case unfolding step by simp
qed

text \<open>What \<open>Load\<close> leaves: \<open>ns\<close> are the normalized runes with their positions.\<close>

definition loaded :: "(position \<times> rune) list \<Rightarrow> finder \<Rightarrow> bool" where
  "loaded ns f \<longleftrightarrow> list_all valid_rune (map snd ns)
     \<and> fd_source f = encode_runes (map snd ns)
     \<and> fd_pos f = map_upto (length ns) (map fst ns)
     \<and> (ns \<noteq> [] \<longrightarrow> (\<forall>j \<le> length ns. fd_byteToRune f ! boundary (map snd ns) j = int j))"

lemma Load_loaded:
  assumes "fd_prev f \<noteq> Some (li_id it)" "\<not> li_empty it"
  shows "loaded (normal_runes (fd_normalizer f) (li_runes it)) (Load (Some it) f)
    \<and> fd_normalizer (Load (Some it) f) = fd_normalizer f"
proof -
  define ns where "ns = normal_runes (fd_normalizer f) (li_runes it)"
  have v: "list_all valid_rune (map snd ns)" unfolding ns_def by (rule normal_runes_valid)
  have load: "Load (Some it) f = buildByteToRuneIndex (f\<lparr>fd_prev := Some (li_id it),
      fd_source := encode_runes (map snd ns), fd_pos := map_upto (length ns) (map fst ns)\<rparr>)"
    using assms buildSourceAndPositionMap_eq [OF assms(2), of "fd_normalizer f"]
    by (simp add: Load_def ns_def)
  have "\<forall>j \<le> length ns. fill_byteToRune (encode_runes (map snd ns)) 0 0
      (replicate (length (encode_runes (map snd ns)) + 1) 0) ! boundary (map snd ns) j = int j"
    using fill_byteToRune_ok [OF v, of 0] by simp
  moreover have "encode_runes (map snd ns) = [] \<longleftrightarrow> ns = []" by (cases ns) auto
  ultimately show ?thesis
    using v unfolding load ns_def [symmetric] loaded_def buildByteToRuneIndex_def by auto
qed

section \<open>Lookup\<close>

lemma sort_Search_least:
  assumes "\<And>h h'. i \<le> h \<Longrightarrow> h \<le> h' \<Longrightarrow> h' < j \<Longrightarrow> f h \<Longrightarrow> f h'" "i \<le> j"
  shows "i \<le> sort_Search f i j \<and> sort_Search f i j \<le> j
    \<and> (\<forall>h. i \<le> h \<and> h < sort_Search f i j \<longrightarrow> \<not> f h)
    \<and> (\<forall>h. sort_Search f i j \<le> h \<and> h < j \<longrightarrow> f h)"
  using assms
proof (induction f i j rule: sort_Search.induct)
  case (1 f i j)
  show ?case
  proof (cases "i < j")
    case False
    with "1.prems"(2) show ?thesis by (subst (1 2 3 4) sort_Search.simps) auto
  next
    case True
    define h where "h = (i + j) div 2"
    have h: "i \<le> h" "h < j" using True by (auto simp: h_def)
    show ?thesis
    proof (cases "f h")
      case True
      have s: "sort_Search f i j = sort_Search f i h"
        using \<open>i < j\<close> True by (subst sort_Search.simps) (simp add: h_def [symmetric])
      define r where "r = sort_Search f i h"
      have "i \<le> r \<and> r \<le> h \<and> (\<forall>x. i \<le> x \<and> x < r \<longrightarrow> \<not> f x) \<and> (\<forall>x. r \<le> x \<and> x < h \<longrightarrow> f x)"
        unfolding r_def
      proof (rule "1.IH"(2) [OF \<open>i < j\<close> h_def])
        show "\<not> \<not> f h" using True by simp
        show "f x'" if "i \<le> x" "x \<le> x'" "x' < h" "f x" for x x'
          using "1.prems"(1) [OF that(1,2) less_trans [OF that(3) h(2)] that(4)] .
        show "i \<le> h" by (rule h(1))
      qed
      moreover have "f x" if "h \<le> x" "x < j" for x
        using "1.prems"(1) [OF h(1) that(1,2) True] .
      then have "\<forall>x. h \<le> x \<and> x < j \<longrightarrow> f x" by blast
      ultimately show ?thesis unfolding s r_def [symmetric] using h(2)
        by (meson le_trans less_imp_le not_le)
    next
      case False
      have s: "sort_Search f i j = sort_Search f (Suc h) j"
        using \<open>i < j\<close> False by (subst sort_Search.simps) (simp add: h_def [symmetric])
      define r where "r = sort_Search f (Suc h) j"
      have "Suc h \<le> r \<and> r \<le> j \<and> (\<forall>x. Suc h \<le> x \<and> x < r \<longrightarrow> \<not> f x)
          \<and> (\<forall>x. r \<le> x \<and> x < j \<longrightarrow> f x)"
        unfolding r_def
      proof (rule "1.IH"(1) [OF \<open>i < j\<close> h_def])
        show "\<not> f h" by (rule False)
        show "f x'" if "Suc h \<le> x" "x \<le> x'" "x' < j" "f x" for x x'
          using "1.prems"(1) [OF le_trans [OF h(1) Suc_leD [OF that(1)]] that(2-4)] .
        show "Suc h \<le> j" using h(2) by simp
      qed
      moreover have "\<not> f x" if "i \<le> x" "x \<le> h" for x
        using "1.prems"(1) [OF that(1,2) h(2)] False by blast
      then have "\<forall>x. i \<le> x \<and> x \<le> h \<longrightarrow> \<not> f x" by blast
      ultimately show ?thesis unfolding s r_def [symmetric] using h(1)
        by (meson Suc_leD le_trans not_less_eq_eq)
    qed
  qed
qed

lemma pm_lookup_map_upto:
  assumes "c < n" "length ps = n"
  shows "pm_lookup (map_upto n ps) (int c) = ps ! c"
proof -
  define f where "f = (\<lambda>i. map int [0..<n] ! i > int c)"
  have f: "f h \<longleftrightarrow> c < h" if "h < n" for h using that by (simp add: f_def)
  define r where "r = sort_Search f 0 n"
  have mono: "f h'" if "h \<le> h'" "h' < n" "f h" for h h'
    using that f [of h] f [of h'] by simp
  have r: "r \<le> n" "\<forall>h < r. \<not> f h" "\<forall>h. r \<le> h \<and> h < n \<longrightarrow> f h"
    using sort_Search_least [of 0 n f] mono unfolding r_def by blast+
  have "c < r"
  proof (rule ccontr)
    assume "\<not> c < r"
    then have "f c" using r(3) assms(1) by simp
    then show False using f [OF assms(1)] by simp
  qed
  moreover have "r \<le> Suc c"
  proof (rule ccontr)
    assume "\<not> r \<le> Suc c"
    then have "\<not> f (Suc c)" "Suc c < n" using r(1,2) by auto
    then show False using f [of "Suc c"] by simp
  qed
  ultimately have "r = Suc c" by simp
  then show ?thesis
    using assms(1) by (simp add: pm_lookup_def map_upto_def f_def [symmetric] r_def [symmetric])
qed

section \<open>The occurrences\<close>

lemma rune_index_Some:
  "rune_index xs qs = Some i \<Longrightarrow> i + length qs \<le> length xs \<and> take (length qs) (drop i xs) = qs
     \<and> (\<forall>j < i. take (length qs) (drop j xs) \<noteq> qs)"
proof (induction xs arbitrary: i)
  case Nil
  then show ?case by (auto split: if_splits)
next
  case (Cons x xs)
  show ?case
  proof (cases "take (length qs) (x # xs) = qs")
    case True
    then have "length qs \<le> length (x # xs)" by (metis length_take min.cobounded1)
    with True Cons.prems show ?thesis by auto
  next
    case False
    with Cons.prems obtain k where k: "rune_index xs qs = Some k" "i = Suc k" by auto
    with Cons.IH [OF k(1)] False show ?thesis by (auto simp: less_Suc_eq_0_disj)
  qed
qed

lemma rune_index_None: "rune_index xs qs = None \<Longrightarrow> take (length qs) (drop j xs) \<noteq> qs"
proof (induction xs arbitrary: j)
  case Nil
  then show ?case by (auto split: if_splits)
next
  case (Cons x xs)
  then show ?case by (cases j) (auto split: if_splits)
qed

function occurrences :: "rune list \<Rightarrow> nat \<Rightarrow> rune list \<Rightarrow> nat list" where
  "occurrences qs k xs = (case rune_index (drop k xs) qs of
     None \<Rightarrow> []
   | Some i \<Rightarrow> if qs = [] then [] else (k + i) # occurrences qs (k + i + length qs) xs)"
  by pat_completeness auto
termination
proof (relation "measure (\<lambda>(qs, k, xs). length xs - k)")
  show "wf (measure (\<lambda>(qs :: rune list, k, xs :: rune list). length xs - k))" by simp
next
  fix qs :: "rune list" and k and xs :: "rune list" and i
  assume "rune_index (drop k xs) qs = Some i" "qs \<noteq> []"
  with rune_index_Some [of "drop k xs" qs i]
  show "((qs, k + i + length qs, xs), qs, k, xs) \<in> measure (\<lambda>(qs, k, xs). length xs - k)"
    by (cases qs) auto
qed

declare occurrences.simps [simp del]

lemma occurrences_props:
  assumes "qs \<noteq> []"
  shows "(\<forall>j \<in> set (occurrences qs k xs). k \<le> j \<and> j + length qs \<le> length xs
        \<and> take (length qs) (drop j xs) = qs)
    \<and> sorted_wrt (\<lambda>i j. i + length qs \<le> j) (occurrences qs k xs)
    \<and> (\<forall>j \<ge> k. take (length qs) (drop j xs) = qs \<longrightarrow>
        (\<exists>i \<in> set (occurrences qs k xs). i \<le> j \<and> j < i + length qs))"
  using assms
proof (induction qs k xs rule: occurrences.induct)
  case (1 qs k xs)
  show ?case
  proof (cases "rune_index (drop k xs) qs")
    case None
    have "take (length qs) (drop j xs) \<noteq> qs" if "k \<le> j" for j
      using rune_index_None [OF None, of "j - k"] that by simp
    with None show ?thesis by (subst (1 2 3) occurrences.simps) simp
  next
    case (Some i)
    note s = rune_index_Some [OF Some]
    have occ: "occurrences qs k xs = (k + i) # occurrences qs (k + i + length qs) xs"
      using Some "1.prems" by (subst occurrences.simps) simp
    have q: "0 < length qs" using "1.prems" by simp
    have len: "k + i + length qs \<le> length xs"
    proof -
      have "i + length qs \<le> length xs - k" using s by simp
      then show ?thesis using q by linarith
    qed
    have here: "take (length qs) (drop (k + i) xs) = qs" using s by (simp add: add.commute)
    have before: "take (length qs) (drop j xs) \<noteq> qs" if "k \<le> j" "j < k + i" for j
      using s that by (metis drop_drop le_add_diff_inverse2 less_diff_conv2 add.commute)
    note IH = "1.IH" [OF Some "1.prems" "1.prems"]
    show ?thesis
    proof (intro conjI)
      show "\<forall>j \<in> set (occurrences qs k xs). k \<le> j \<and> j + length qs \<le> length xs
          \<and> take (length qs) (drop j xs) = qs"
        unfolding occ using IH len here by auto
      show "sorted_wrt (\<lambda>i j. i + length qs \<le> j) (occurrences qs k xs)"
        unfolding occ using IH by auto
      show "\<forall>j \<ge> k. take (length qs) (drop j xs) = qs \<longrightarrow>
          (\<exists>i \<in> set (occurrences qs k xs). i \<le> j \<and> j < i + length qs)"
      proof (intro allI impI)
        fix j assume j: "k \<le> j" "take (length qs) (drop j xs) = qs"
        consider "j < k + i" | "k + i \<le> j" "j < k + i + length qs" | "k + i + length qs \<le> j"
          by linarith
        then show "\<exists>i \<in> set (occurrences qs k xs). i \<le> j \<and> j < i + length qs"
        proof cases
          case 1
          with before j show ?thesis by blast
        next
          case 2
          then show ?thesis unfolding occ by (intro bexI [of _ "k + i"]) simp_all
        next
          case 3
          with IH j show ?thesis unfolding occ by (metis list.set_intros(2))
        qed
      qed
    qed
  qed
qed

section \<open>The search loop\<close>

text \<open>The range of a match of \<open>n\<close> runes from rune \<open>k\<close> on.\<close>

definition occurrence_range :: "(position \<times> rune) list \<Rightarrow> nat \<Rightarrow> nat \<Rightarrow> range" where
  "occurrence_range ns n k =
     NewRange (fst (ns ! k))
       ((fst (ns ! (k + n - 1)))\<lparr>pcol := pcol (fst (ns ! (k + n - 1))) + 1\<rparr>)"

lemma match_range_loaded:
  assumes "loaded ns f" "0 < n" "k + n \<le> length ns"
  shows "match_range f (int n) (boundary (map snd ns) k) = occurrence_range ns n k"
proof -
  have "ns \<noteq> []" using assms(2,3) by auto
  then have b: "fd_byteToRune f ! boundary (map snd ns) k = int k"
    using assms by (simp add: loaded_def)
  have e: "int k + int n - 1 = int (k + n - 1)" using assms(2) by simp
  have k: "k < length ns" "k + n - 1 < length ns" using assms(2,3) by auto
  have "fd_pos f = map_upto (length ns) (map fst ns)" using assms(1) by (simp add: loaded_def)
  with k show ?thesis
    unfolding match_range_def Let_def b e
    by (simp add: pm_lookup_map_upto occurrence_range_def)
qed

lemma find_loop_occurrences:
  assumes "loaded ns f" "list_all valid_rune qs" "qs \<noteq> []" "k \<le> length ns"
  shows "find_loop f (encode_runes qs) (int (length qs)) (boundary (map snd ns) k) res
    = Some (res @ map (occurrence_range ns (length qs)) (occurrences qs k (map snd ns)))"
  using assms(4)
proof (induction "length ns - k" arbitrary: k res rule: less_induct)
  case less
  let ?rs = "map snd ns"
  have src: "fd_source f = encode_runes ?rs" using assms(1) by (simp add: loaded_def)
  have "list_all valid_rune (take k ?rs @ drop k ?rs)" using assms(1) by (simp add: loaded_def)
  then have v: "list_all valid_rune (drop k ?rs)" by (simp only: list_all_append)
  have idx: "index_of (drop (boundary ?rs k) (fd_source f)) (encode_runes qs)
      = map_option (\<lambda>i. length (encode_runes (take i (drop k ?rs)))) (rune_index (drop k ?rs) qs)"
    unfolding src drop_boundary by (rule index_of_encode [OF v assms(2,3)])
  show ?case
  proof (cases "rune_index (drop k ?rs) qs")
    case None
    with idx show ?thesis
      by (simp add: find_loop.simps [of _ _ _ "boundary ?rs k"] occurrences.simps [of qs k])
  next
    case (Some i)
    have s: "i + length qs \<le> length ns - k" "take (length qs) (drop i (drop k ?rs)) = qs"
      using rune_index_Some [OF Some] by simp_all
    have q: "0 < length qs" using assms(3) by simp
    then have le: "k + i + length qs \<le> length ns" using s less.prems by linarith
    have start: "boundary ?rs k + length (encode_runes (take i (drop k ?rs))) = boundary ?rs (k + i)"
      by (simp add: boundary_def take_add)
    have "drop i (drop k ?rs) = drop (k + i) ?rs" by (simp add: add.commute)
    with s(2) have tk: "take (length qs) (drop (k + i) ?rs) = qs" by simp
    have stop: "boundary ?rs (k + i) + length (encode_runes qs) = boundary ?rs (k + i + length qs)"
      unfolding boundary_def take_add [of "k + i"] tk by simp
    have "length ns - (k + i + length qs) < length ns - k" using le q by linarith
    from less.hyps [OF this le] have IH:
      "find_loop f (encode_runes qs) (int (length qs)) (boundary ?rs (k + i + length qs)) r
        = Some (r @ map (occurrence_range ns (length qs)) (occurrences qs (k + i + length qs) ?rs))"
      for r .
    have m: "match_range f (int (length qs)) (boundary ?rs (k + i)) = occurrence_range ns (length qs) (k + i)"
      using le by (intro match_range_loaded [OF assms(1) q]) simp
    have "find_loop f (encode_runes qs) (int (length qs)) (boundary ?rs k) res
      = find_loop f (encode_runes qs) (int (length qs)) (boundary ?rs (k + i + length qs))
          (res @ [occurrence_range ns (length qs) (k + i)])"
      by (subst find_loop.simps) (simp add: idx Some Let_def start stop m)
    with IH Some assms(3) show ?thesis by (simp add: occurrences.simps [of qs k])
  qed
qed

text \<open>With nothing to search for, the loop stays where it is.\<close>

lemma find_loop_empty: "find_loop f s c n r = Some rs \<Longrightarrow> s \<noteq> []"
  by (rule find_loop.raw_induct [where P = "\<lambda>f s c n r y. s \<noteq> []"])
     (auto simp: Let_def split: option.splits)

section \<open>Properties\<close>

text \<open>C4: after \<open>Load\<close>, \<open>Find\<close> returns and reports exactly the leftmost matches, in order and without
  overlap, of the normalized search text in the sequence of normalized runes: each from the position
  of the rune its first character came from to just behind the one its last came from, whatever the
  widths in bytes and however the normalizer lengthens or drops runes; every match overlaps a
  reported one. The search text only has to be well-formed UTF-8 that does not normalize to nothing.\<close>

theorem Find_exact:
  assumes "fd_prev f \<noteq> Some (li_id it)" "\<not> li_empty it" "search \<noteq> []"
    and "list_all valid_rune qs" "qs \<noteq> []"
    and "(case fd_normalizer f of None \<Rightarrow> search | Some nrm \<Rightarrow> nrm search) = encode_runes qs"
  defines "ns \<equiv> normal_runes (fd_normalizer f) (li_runes it)"
  shows "\<exists>ks. Find (Load (Some it) f) search = Some (map (occurrence_range ns (length qs)) ks)
    \<and> (\<forall>k \<in> set ks. take (length qs) (drop k (map snd ns)) = qs)
    \<and> sorted_wrt (\<lambda>i j. i + length qs \<le> j) ks
    \<and> (\<forall>j. take (length qs) (drop j (map snd ns)) = qs
          \<longrightarrow> (\<exists>k \<in> set ks. k \<le> j \<and> j < k + length qs))"
proof -
  let ?f = "Load (Some it) f"
  have l: "loaded ns ?f" "fd_normalizer ?f = fd_normalizer f"
    using Load_loaded [OF assms(1,2)] by (simp_all add: ns_def)
  have "rune_count (encode_runes qs) = length qs"
    using runes_encode_runes [OF assms(4)] by (simp add: rune_count_def)
  with find_loop_occurrences [OF l(1) assms(4,5), of 0 "[]"] assms(3,6) l(2)
  have "fd_source ?f \<noteq> [] \<Longrightarrow>
    Find ?f search = Some (map (occurrence_range ns (length qs)) (occurrences qs 0 (map snd ns)))"
    by (simp add: Find_def)
  moreover have "Find ?f search = Some (map (occurrence_range ns (length qs)) (occurrences qs 0 (map snd ns)))"
    if "fd_source ?f = []"
  proof -
    have "ns = []" using that l(1) by (cases ns) (auto simp: loaded_def)
    then show ?thesis using that assms(5) by (simp add: Find_def occurrences.simps)
  qed
  ultimately have "Find ?f search
      = Some (map (occurrence_range ns (length qs)) (occurrences qs 0 (map snd ns)))" by blast
  moreover have "\<forall>k \<in> set (occurrences qs 0 (map snd ns)). take (length qs) (drop k (map snd ns)) = qs"
    "sorted_wrt (\<lambda>i j. i + length qs \<le> j) (occurrences qs 0 (map snd ns))"
    "\<forall>j. take (length qs) (drop j (map snd ns)) = qs \<longrightarrow>
      (\<exists>k \<in> set (occurrences qs 0 (map snd ns)). k \<le> j \<and> j < k + length qs)"
    using occurrences_props [OF assms(5), of 0 "map snd ns"] by simp_all
  ultimately show ?thesis by (intro exI conjI)
qed

definition sample_iterator :: "string \<Rightarrow> line_iterator" where
  "sample_iterator s = \<lparr>li_id = 7, li_empty = False,
     li_runes = map (\<lambda>(i, c). (New 0 (int i), byte c)) (enumerate 0 s)\<rparr>"

theorem Find_exact_witness:
  "\<exists>ks. Find (Load (Some (sample_iterator ''abab'')) (NewFinder [])) ''ab''
      = Some (map (occurrence_range (normal_runes None (li_runes (sample_iterator ''abab''))) 2) ks)
    \<and> sorted_wrt (\<lambda>i j. i + 2 \<le> j) ks"
proof -
  have e: "encode_runes [97, 98] = ''ab''" by code_simp
  have v: "list_all valid_rune [97, 98]" by (simp add: valid_rune_def)
  have n: "fd_normalizer (NewFinder []) = None" "fd_prev (NewFinder []) = None"
    by (simp_all add: NewFinder_def)
  show ?thesis
    using Find_exact [of "NewFinder []" "sample_iterator ''abab''" "''ab''" "[97, 98]"] e v n
    by (auto simp: sample_iterator_def numeral_2_eq_2)
qed

text \<open>C13: a search text that normalizes to nothing (a lone combining mark, say) sends \<open>Find\<close> into an
  endless loop on any source that is not empty: it finds the empty match at the current offset over
  and over, collecting a result each time.\<close>

theorem Find_diverges:
  assumes "search \<noteq> []" "fd_source f \<noteq> []" "fd_normalizer f = Some nrm" "nrm search = []"
  shows "Find f search = None"
proof -
  have "Find f search = find_loop f [] 0 0 []" using assms by (simp add: Find_def)
  then show ?thesis using find_loop_empty [of f "[]" 0 0 "[]"] by (cases "find_loop f [] 0 0 []") auto
qed

theorem Find_diverges_witness:
  "Find (Load (Some (sample_iterator ''a''))
     (NewFinder [WithNormalizer (\<lambda>s. if s = ''a'' then s else [])])) ''x'' = None"
proof -
  let ?f = "NewFinder [WithNormalizer (\<lambda>s. if s = ''a'' then s else [])]"
  have n: "fd_normalizer ?f = Some (\<lambda>s. if s = ''a'' then s else [])" "fd_prev ?f = None"
    by (simp_all add: NewFinder_def WithNormalizer_def)
  have l: "loaded (normal_runes (fd_normalizer ?f) (li_runes (sample_iterator ''a'')))
      (Load (Some (sample_iterator ''a'')) ?f)
    \<and> fd_normalizer (Load (Some (sample_iterator ''a'')) ?f) = fd_normalizer ?f"
    using n by (intro Load_loaded) (simp_all add: sample_iterator_def)
  have e: "encode_rune (byte CHR ''a'') = ''a''" by code_simp
  have "map snd (normal_runes (fd_normalizer ?f) (li_runes (sample_iterator ''a''))) = runes ''a''"
    by (simp add: n normal_runes_def normal_form_def sample_iterator_def e comp_def)
  moreover have "runes ''a'' \<noteq> []" by simp
  ultimately have "fd_source (Load (Some (sample_iterator ''a'')) ?f) \<noteq> []"
    using l by (cases "runes ''a''") (auto simp: loaded_def)
  with l n show ?thesis
    by (intro Find_diverges [where nrm = "\<lambda>s. if s = ''a'' then s else []"]) simp_all
qed

end
