(* ===== verification/Revisions.thy ===== *)
theory Revisions
  imports Sources
begin

text \<open>
  \<open>revision.go\<close>: revisions as nodes of a store that point at their neighbours, and the list
  with a cursor that a chain of them stands for. The loops that follow pointers need not end on
  an arbitrary store (a ring), so they are partial functions; reading a nil or dangling pointer
  is \<open>None\<close>, the code's panic. \<open>'s\<close> is what a revision holds, a pointer to a source.
\<close>

record 's rev_node =
  rn_prev :: "nat option"
  rn_next :: "nat option"
  rn_head :: 's

type_synonym 's rev_store = "nat \<rightharpoonup> 's rev_node"

section \<open>Operations\<close>

text \<open>Allocation takes a pointer that is free in the store.\<close>

definition NewRevision :: "nat \<Rightarrow> 's \<Rightarrow> 's rev_store \<Rightarrow> 's rev_store" where
  "NewRevision p s h = h(p \<mapsto> \<lparr>rn_prev = None, rn_next = None, rn_head = s\<rparr>)"

definition rev_Source :: "'s rev_store \<Rightarrow> nat \<Rightarrow> 's option" where
  "rev_Source h t = map_option rn_head (h t)"

definition rev_Name :: "('s \<Rightarrow> string) \<Rightarrow> 's rev_store \<Rightarrow> nat \<Rightarrow> string option" where
  "rev_Name name h t = map_option (\<lambda>n. name (rn_head n)) (h t)"

text \<open>One iteration of a seek stops where there is no neighbour.\<close>

fun seek_loop :: "('s rev_node \<Rightarrow> nat option) \<Rightarrow> 's rev_store \<Rightarrow> nat \<Rightarrow> nat \<Rightarrow> nat option" where
  "seek_loop link h 0 cur = Some cur"
| "seek_loop link h (Suc n) cur = (case h cur of
     None \<Rightarrow> None
   | Some node \<Rightarrow> (case link node of
       None \<Rightarrow> Some cur
     | Some q \<Rightarrow> seek_loop link h n q))"

definition Seek :: "'s rev_store \<Rightarrow> nat \<Rightarrow> int \<Rightarrow> nat option" where
  "Seek h t n =
     (if n > 0 then seek_loop rn_next h (nat n) t
      else if n < 0 then seek_loop rn_prev h (nat (- n)) t
      else Some t)"

partial_function (option) follow ::
  "('s rev_node \<Rightarrow> nat option) \<Rightarrow> 's rev_store \<Rightarrow> nat \<Rightarrow> nat option" where
  "follow link h cur = (case h cur of
     None \<Rightarrow> None
   | Some node \<Rightarrow> (case link node of None \<Rightarrow> Some cur | Some q \<Rightarrow> follow link h q))"

definition Tip :: "'s rev_store \<Rightarrow> nat \<Rightarrow> nat option" where
  "Tip h t = follow rn_next h t"

definition Origin :: "'s rev_store \<Rightarrow> nat \<Rightarrow> nat option" where
  "Origin h t = follow rn_prev h t"

definition rev_At :: "'s rev_store \<Rightarrow> nat \<Rightarrow> int \<Rightarrow> nat option" where
  "rev_At h t index = (case Origin h t of None \<Rightarrow> None | Some o' \<Rightarrow> Seek h o' index)"

definition AtTip :: "'s rev_store \<Rightarrow> nat \<Rightarrow> bool option" where
  "AtTip h t = map_option (\<lambda>n. rn_next n = None) (h t)"

definition AtOrigin :: "'s rev_store \<Rightarrow> nat \<Rightarrow> bool option" where
  "AtOrigin h t = map_option (\<lambda>n. rn_prev n = None) (h t)"

partial_function (option) collect_names ::
  "('s \<Rightarrow> string) \<Rightarrow> 's rev_store \<Rightarrow> nat option \<Rightarrow> string list \<Rightarrow> string list option" where
  "collect_names name h cur names = (case cur of
     None \<Rightarrow> Some names
   | Some p \<Rightarrow> (case h p of
       None \<Rightarrow> None
     | Some node \<Rightarrow> collect_names name h (rn_next node) (names @ [name (rn_head node)])))"

definition rev_Names :: "('s \<Rightarrow> string) \<Rightarrow> 's rev_store \<Rightarrow> nat \<Rightarrow> string list option" where
  "rev_Names name h t = (case follow rn_prev h t of
     None \<Rightarrow> None | Some origin \<Rightarrow> collect_names name h (Some origin) [])"

partial_function (option) count_links ::
  "('s rev_node \<Rightarrow> nat option) \<Rightarrow> 's rev_store \<Rightarrow> nat \<Rightarrow> int \<Rightarrow> int option" where
  "count_links link h cur n = (case h cur of
     None \<Rightarrow> None
   | Some node \<Rightarrow> (case link node of None \<Rightarrow> Some n | Some q \<Rightarrow> count_links link h q (n + 1)))"

definition rev_Index :: "'s rev_store \<Rightarrow> nat \<Rightarrow> int option" where
  "rev_Index h t = count_links rn_prev h t 0"

definition rev_Len :: "'s rev_store \<Rightarrow> nat \<Rightarrow> int option" where
  "rev_Len h t = (case rev_Index h t of
     None \<Rightarrow> None
   | Some count \<Rightarrow> map_option (\<lambda>c. c + 1) (count_links rn_next h t count))"

definition rev_Append :: "nat \<Rightarrow> nat \<Rightarrow> 's \<Rightarrow> 's rev_store \<Rightarrow> 's rev_store option" where
  "rev_Append p t s h = (case h t of
     None \<Rightarrow> None
   | Some node \<Rightarrow> Some (h(p \<mapsto> \<lparr>rn_prev = Some t, rn_next = None, rn_head = s\<rparr>,
                           t \<mapsto> node\<lparr>rn_next := Some p\<rparr>)))"

definition rev_Prepend :: "nat \<Rightarrow> nat \<Rightarrow> 's \<Rightarrow> 's rev_store \<Rightarrow> 's rev_store option" where
  "rev_Prepend p t s h = (case h t of
     None \<Rightarrow> None
   | Some node \<Rightarrow> Some (h(p \<mapsto> \<lparr>rn_prev = None, rn_next = Some t, rn_head = s\<rparr>,
                           t \<mapsto> node\<lparr>rn_prev := Some p\<rparr>)))"

section \<open>Chains\<close>

text \<open>
  \<open>chain h ps\<close>: the pointers \<open>ps\<close> form a doubly linked list in the store, in order. This is the
  invariant that \<open>NewRevision\<close> establishes, and \<open>Append\<close> at the tip and \<open>Prepend\<close> at the origin
  keep.
\<close>

definition chain :: "'s rev_store \<Rightarrow> nat list \<Rightarrow> bool" where
  "chain h ps \<longleftrightarrow> distinct ps \<and> (\<forall>i < length ps. \<exists>node. h (ps ! i) = Some node
     \<and> rn_prev node = (if i = 0 then None else Some (ps ! (i - 1)))
     \<and> rn_next node = (if Suc i < length ps then Some (ps ! Suc i) else None))"

definition heads :: "'s rev_store \<Rightarrow> nat list \<Rightarrow> 's list" where
  "heads h ps = map (\<lambda>p. rn_head (the (h p))) ps"

lemma chain_node:
  assumes "chain h ps" "i < length ps"
  shows "\<exists>node. h (ps ! i) = Some node \<and> rn_head node = heads h ps ! i
     \<and> rn_prev node = (if i = 0 then None else Some (ps ! (i - 1)))
     \<and> rn_next node = (if Suc i < length ps then Some (ps ! Suc i) else None)"
  using assms by (auto simp: chain_def heads_def)

lemma seek_next:
  "chain h ps \<Longrightarrow> i < length ps \<Longrightarrow>
     seek_loop rn_next h n (ps ! i) = Some (ps ! min (i + n) (length ps - 1))"
proof (induction n arbitrary: i)
  case 0
  then have "min i (length ps - 1) = i" by simp
  then show ?case by simp
next
  case (Suc n)
  obtain node where node: "h (ps ! i) = Some node"
    "rn_next node = (if Suc i < length ps then Some (ps ! Suc i) else None)"
    using chain_node [OF Suc.prems] by blast
  show ?case
  proof (cases "Suc i < length ps")
    case True
    with node Suc.IH [OF Suc.prems(1) True] show ?thesis by simp
  next
    case False
    with Suc.prems have "i = length ps - 1" by simp
    with node False show ?thesis by (simp add: min_def)
  qed
qed

lemma seek_prev:
  "chain h ps \<Longrightarrow> i < length ps \<Longrightarrow> seek_loop rn_prev h n (ps ! i) = Some (ps ! (i - n))"
proof (induction n arbitrary: i)
  case 0
  then show ?case by simp
next
  case (Suc n)
  obtain node where node: "h (ps ! i) = Some node"
    "rn_prev node = (if i = 0 then None else Some (ps ! (i - 1)))"
    using chain_node [OF Suc.prems] by blast
  show ?case
  proof (cases "i = 0")
    case True
    with node show ?thesis by simp
  next
    case False
    with Suc.prems have "i - 1 < length ps" by simp
    from Suc.IH [OF Suc.prems(1) this] node False show ?thesis by simp
  qed
qed

lemma Seek_chain:
  assumes "chain h ps" "i < length ps"
  shows "Seek h (ps ! i) n = Some (ps ! nat (max 0 (min (int i + n) (int (length ps) - 1))))"
proof -
  have "nat (max 0 (min (int i + n) (int (length ps) - 1))) = min (i + nat n) (length ps - 1)"
    if "0 < n" using that assms(2) by (simp add: min_def max_def) linarith
  moreover have "nat (max 0 (min (int i + n) (int (length ps) - 1))) = i - nat (- n)"
    if "n < 0" using that assms(2) by (simp add: min_def max_def) linarith
  moreover have "nat (max 0 (min (int i + n) (int (length ps) - 1))) = i"
    if "n = 0" using that assms(2) by (simp add: min_def max_def)
  ultimately show ?thesis
    using seek_next [OF assms] seek_prev [OF assms] by (simp add: Seek_def)
qed

lemma follow_next:
  "chain h ps \<Longrightarrow> i < length ps \<Longrightarrow> follow rn_next h (ps ! i) = Some (last ps)"
proof (induction "length ps - i" arbitrary: i)
  case 0
  then show ?case by simp
next
  case (Suc d)
  obtain node where node: "h (ps ! i) = Some node"
    "rn_next node = (if Suc i < length ps then Some (ps ! Suc i) else None)"
    using chain_node [OF Suc.prems] by blast
  show ?case
  proof (cases "Suc i < length ps")
    case True
    with node Suc.hyps(1) [of "Suc i"] Suc.hyps(2) Suc.prems show ?thesis
      by (simp add: follow.simps [of rn_next h "ps ! i"])
  next
    case False
    with Suc.prems have "last ps = ps ! i"
      by (cases ps) (auto simp: last_conv_nth le_less_Suc_eq)
    with node False show ?thesis by (simp add: follow.simps [of rn_next h "ps ! i"])
  qed
qed

lemma follow_prev:
  "chain h ps \<Longrightarrow> i < length ps \<Longrightarrow> follow rn_prev h (ps ! i) = Some (ps ! 0)"
proof (induction i)
  case 0
  then obtain node where "h (ps ! 0) = Some node" "rn_prev node = None"
    using chain_node [OF 0] by auto
  then show ?case by (simp add: follow.simps [of rn_prev h "ps ! 0"])
next
  case (Suc i)
  obtain node where node: "h (ps ! Suc i) = Some node" "rn_prev node = Some (ps ! i)"
    using chain_node [OF Suc.prems] by auto
  with Suc show ?case by (simp add: follow.simps [of rn_prev h "ps ! Suc i"])
qed

lemma count_prev:
  "chain h ps \<Longrightarrow> i < length ps \<Longrightarrow> count_links rn_prev h (ps ! i) n = Some (n + int i)"
proof (induction i arbitrary: n)
  case 0
  then obtain node where "h (ps ! 0) = Some node" "rn_prev node = None"
    using chain_node [OF 0] by auto
  then show ?case by (simp add: count_links.simps [of rn_prev h "ps ! 0"])
next
  case (Suc i)
  obtain node where node: "h (ps ! Suc i) = Some node" "rn_prev node = Some (ps ! i)"
    using chain_node [OF Suc.prems] by auto
  with Suc show ?case by (simp add: count_links.simps [of rn_prev h "ps ! Suc i"])
qed

lemma count_next:
  "chain h ps \<Longrightarrow> i < length ps \<Longrightarrow>
     count_links rn_next h (ps ! i) n = Some (n + int (length ps - 1 - i))"
proof (induction "length ps - i" arbitrary: i n)
  case 0
  then show ?case by simp
next
  case (Suc d)
  obtain node where node: "h (ps ! i) = Some node"
    "rn_next node = (if Suc i < length ps then Some (ps ! Suc i) else None)"
    using chain_node [OF Suc.prems] by blast
  show ?case
  proof (cases "Suc i < length ps")
    case True
    with node Suc.hyps(1) [of "Suc i" "n + 1"] Suc.hyps(2) Suc.prems show ?thesis
      by (simp add: count_links.simps [of rn_next h "ps ! i"])
  next
    case False
    with Suc.prems node show ?thesis
      by (simp add: count_links.simps [of rn_next h "ps ! i"])
  qed
qed

lemma collect_chain:
  "chain h ps \<Longrightarrow> i < length ps \<Longrightarrow>
     collect_names name h (Some (ps ! i)) ns = Some (ns @ map name (drop i (heads h ps)))"
proof (induction "length ps - i" arbitrary: i ns)
  case 0
  then show ?case by simp
next
  case (Suc d)
  obtain node where node: "h (ps ! i) = Some node" "rn_head node = heads h ps ! i"
    "rn_next node = (if Suc i < length ps then Some (ps ! Suc i) else None)"
    using chain_node [OF Suc.prems] by blast
  have len: "length (heads h ps) = length ps" by (simp add: heads_def)
  then have d: "drop i (heads h ps) = heads h ps ! i # drop (Suc i) (heads h ps)"
    using Suc.prems by (simp add: Cons_nth_drop_Suc)
  show ?case
  proof (cases "Suc i < length ps")
    case True
    with node d Suc.hyps(1) [of "Suc i"] Suc.hyps(2) Suc.prems show ?thesis
      by (simp add: collect_names.simps [of name h "Some (ps ! i)"])
  next
    case False
    with node d len show ?thesis
      by (simp add: collect_names.simps [of name h "Some (ps ! i)"] collect_names.simps [of name h None])
  qed
qed

lemma chain_New: "chain (NewRevision p s h) [p]"
  by (simp add: chain_def NewRevision_def)

lemma chain_Append:
  assumes "chain h ps" "ps \<noteq> []" "p \<notin> set ps"
  shows "\<exists>h'. rev_Append p (last ps) s h = Some h' \<and> chain h' (ps @ [p])
    \<and> heads h' (ps @ [p]) = heads h ps @ [s]"
proof -
  define n where "n = length ps - 1"
  have n: "n < length ps" "last ps = ps ! n" "length ps = Suc n"
    using assms(2) by (auto simp: n_def last_conv_nth)
  obtain node where node: "h (ps ! n) = Some node"
    "rn_prev node = (if n = 0 then None else Some (ps ! (n - 1)))" "rn_head node = heads h ps ! n"
    using chain_node [OF assms(1) n(1)] by blast
  define h' where "h' = h(p \<mapsto> \<lparr>rn_prev = Some (ps ! n), rn_next = None, rn_head = s\<rparr>,
    ps ! n \<mapsto> node\<lparr>rn_next := Some p\<rparr>)"
  have app: "rev_Append p (last ps) s h = Some h'" using node n by (simp add: rev_Append_def h'_def)
  have dist: "distinct ps" using assms(1) by (simp add: chain_def)
  have other: "h' (ps ! i) = h (ps ! i)" if "i < n" for i
    using that n assms(3) dist nth_eq_iff_index_eq [OF dist, of i n] nth_mem [of i ps]
    by (auto simp: h'_def)
  have pn: "p \<noteq> ps ! n" using assms(3) n(1) nth_mem by metis
  have "chain h' (ps @ [p])"
    unfolding chain_def
  proof (intro conjI allI impI)
    show "distinct (ps @ [p])" using dist assms(3) by simp
    fix i assume "i < length (ps @ [p])"
    then consider "i < n" | "i = n" | "i = Suc n" using n(3) by fastforce
    then show "\<exists>node. h' ((ps @ [p]) ! i) = Some node
     \<and> rn_prev node = (if i = 0 then None else Some ((ps @ [p]) ! (i - 1)))
     \<and> rn_next node = (if Suc i < length (ps @ [p]) then Some ((ps @ [p]) ! Suc i) else None)"
    proof cases
      case 1
      then show ?thesis using chain_node [OF assms(1), of i] other [OF 1] n(3)
        by (auto simp: nth_append)
    next
      case 2
      then show ?thesis using node n by (auto simp: h'_def nth_append)
    next
      case 3
      then show ?thesis using n pn by (auto simp: h'_def nth_append)
    qed
  qed
  moreover have "heads h' (ps @ [p]) = heads h ps @ [s]"
  proof (rule nth_equalityI)
    show "length (heads h' (ps @ [p])) = length (heads h ps @ [s])" by (simp add: heads_def)
    fix i assume "i < length (heads h' (ps @ [p]))"
    then consider "i < n" | "i = n" | "i = Suc n" using n(3) by (fastforce simp: heads_def)
    then show "heads h' (ps @ [p]) ! i = (heads h ps @ [s]) ! i"
      using other node n pn by cases (auto simp: heads_def nth_append h'_def)
  qed
  ultimately show ?thesis using app by blast
qed

section \<open>Properties\<close>

text \<open>C14: on a chain every operation of a revision terminates without panic and is the operation on
  the list of its sources with a cursor: \<open>Seek\<close> moves the cursor and stops at the ends, \<open>At\<close> is
  absolute and clamped, \<open>Tip\<close> and \<open>Origin\<close> are the ends, \<open>Index\<close> and \<open>Len\<close> count, \<open>Names\<close> are the
  names in order.\<close>

theorem revision_refines_cursor:
  assumes "chain h ps" "i < length ps"
  shows "Seek h (ps ! i) n = Some (ps ! nat (max 0 (min (int i + n) (int (length ps) - 1))))
    \<and> rev_At h (ps ! i) n = Some (ps ! nat (max 0 (min n (int (length ps) - 1))))
    \<and> Tip h (ps ! i) = Some (ps ! (length ps - 1)) \<and> Origin h (ps ! i) = Some (ps ! 0)
    \<and> AtTip h (ps ! i) = Some (i = length ps - 1) \<and> AtOrigin h (ps ! i) = Some (i = 0)
    \<and> rev_Index h (ps ! i) = Some (int i) \<and> rev_Len h (ps ! i) = Some (int (length ps))
    \<and> rev_Names name h (ps ! i) = Some (map name (heads h ps))
    \<and> rev_Source h (ps ! i) = Some (heads h ps ! i)"
proof -
  have ne: "ps \<noteq> []" "0 < length ps" using assms(2) by auto
  obtain node where node: "h (ps ! i) = Some node" "rn_head node = heads h ps ! i"
    "rn_prev node = (if i = 0 then None else Some (ps ! (i - 1)))"
    "rn_next node = (if Suc i < length ps then Some (ps ! Suc i) else None)"
    using chain_node [OF assms] by blast
  have "Origin h (ps ! i) = Some (ps ! 0)" using follow_prev [OF assms] by (simp add: Origin_def)
  moreover have "Seek h (ps ! 0) n = Some (ps ! nat (max 0 (min n (int (length ps) - 1))))"
    using Seek_chain [OF assms(1) ne(2)] by simp
  moreover have "Tip h (ps ! i) = Some (ps ! (length ps - 1))"
    using follow_next [OF assms] ne by (simp add: Tip_def last_conv_nth)
  moreover have "rev_Index h (ps ! i) = Some (int i)" using count_prev [OF assms] by (simp add: rev_Index_def)
  moreover have "rev_Len h (ps ! i) = Some (int (length ps))"
    using count_prev [OF assms, of 0] count_next [OF assms] assms(2)
    by (simp add: rev_Len_def rev_Index_def)
  moreover have "rev_Names name h (ps ! i) = Some (map name (heads h ps))"
    using follow_prev [OF assms] collect_chain [OF assms(1) ne(2)] by (simp add: rev_Names_def)
  moreover have "AtTip h (ps ! i) = Some (i = length ps - 1)" "AtOrigin h (ps ! i) = Some (i = 0)"
    using node assms(2) by (auto simp: AtTip_def AtOrigin_def)
  moreover have "rev_Source h (ps ! i) = Some (heads h ps ! i)"
    using node by (simp add: rev_Source_def)
  ultimately show ?thesis using Seek_chain [OF assms] by (simp add: rev_At_def)
qed

theorem revision_refines_cursor_witness:
  "Seek (NewRevision 4 ''a'' Map.empty) 4 7 = Some 4"
  using revision_refines_cursor [OF chain_New [of 4 "''a''" Map.empty], of 0 7 id] by simp

text \<open>Appending at the tip keeps the chain and adds the source at its end.\<close>

theorem Append_extends:
  assumes "chain h ps" "i < length ps" "p \<notin> set ps"
  shows "\<exists>t h'. Tip h (ps ! i) = Some t \<and> rev_Append p t s h = Some h'
    \<and> chain h' (ps @ [p]) \<and> heads h' (ps @ [p]) = heads h ps @ [s]"
proof -
  have "Tip h (ps ! i) = Some (last ps)" using follow_next [OF assms(1,2)] by (simp add: Tip_def)
  with chain_Append [OF assms(1) _ assms(3), of s] assms(2) show ?thesis by force
qed

theorem Append_extends_witness:
  "\<exists>t h'. Tip (NewRevision 4 ''a'' Map.empty) 4 = Some t
     \<and> rev_Append 9 t ''b'' (NewRevision 4 ''a'' Map.empty) = Some h' \<and> chain h' [4, 9]"
  using Append_extends [OF chain_New [of 4 "''a''" Map.empty], of 0 9 "''b''"] by auto

end
