(* ===== verification/Viewport.thy ===== *)
theory Viewport
  imports Diff_Result Finder Revisions "HOL-Library.Monad_Syntax"
begin

text \<open>
  Package \<open>yamlviewport\<close>: the model of the viewport and its operations. \<open>None\<close> is a panic or a
  search that does not return. The revisions are the list with a cursor that theory Revisions
  shows a chain of \<open>niceyaml.Revision\<close> to be. The finder is the parameter \<open>search\<close>: what
  \<open>Load\<close> of some lines followed by \<open>Find\<close> returns (the state a finder keeps is a cache of its
  last load). The printer is its settings; what it prints is the parameter of \<open>View\<close>. Of the
  container style the code reads the frame sizes and the fixed sizes. Key matching is a
  parameter. \<open>slices.SortFunc\<close> leaves the order of equal keys open; the model takes the stable
  order, and no fact below depends on it.

  A pane is a pointer to a source: either to that of a revision, whose lines it then shares, or
  to one made for the pane.
\<close>

datatype DiffMode = DiffModeAdjacent | DiffModeOrigin | DiffModeNone

datatype ViewMode = ViewModeFull | ViewModeHunks | ViewModeSideBySide

record frame =
  fr_horizontal :: int
  fr_vertical :: int
  fr_width :: int
  fr_height :: int

record print_settings =
  pr_width :: int
  pr_wordWrap :: bool

record ('f, 'o) revisions =
  rv_sources :: "('f, 'o) source list"
  rv_index :: nat

datatype ('f, 'o) pane = PaneRevision nat | PaneOwn "('f, 'o) source"

record search_match =
  sm_rng :: range
  sm_inLeft :: bool

record 'b keymap =
  km_Up :: 'b
  km_Down :: 'b
  km_PageUp :: 'b
  km_PageDown :: 'b
  km_HalfPageUp :: 'b
  km_HalfPageDown :: 'b
  km_Left :: 'b
  km_Right :: 'b
  km_NextRevision :: 'b
  km_PrevRevision :: 'b
  km_ToggleDiffMode :: 'b
  km_ToggleViewMode :: 'b
  km_ToggleWordWrap :: 'b

record ('f, 'o, 'b) model =
  m_Style :: frame
  m_printer :: print_settings
  m_revision :: "('f, 'o) revisions option"
  m_diffResult :: "diff_result option"
  m_left :: "('f, 'o) pane option"
  m_right :: "('f, 'o) source option"
  m_searchTerm :: string
  m_KeyMap :: "'b keymap"
  m_searchMatches :: "search_match list"
  m_leftMatches :: "range list"
  m_rightMatches :: "range list"
  m_horizontalStep :: int
  m_diffMode :: DiffMode
  m_MouseWheelDelta :: int
  m_width :: int
  m_searchIndex :: int
  m_yOffset :: int
  m_height :: int
  m_xOffset :: int
  m_viewMode :: ViewMode
  m_hunkContext :: int
  m_FillHeight :: bool
  m_MouseWheelEnabled :: bool
  m_WrapEnabled :: bool
  m_initialized :: bool

type_synonym searcher = "lines \<Rightarrow> string \<Rightarrow> range list option"

section \<open>Sizes and offsets\<close>

definition go_clamp :: "int \<Rightarrow> int \<Rightarrow> int \<Rightarrow> int" where
  "go_clamp v low high = min high (max low v)"

text \<open>Go's \<open>/ 2\<close> truncates, and \<open>%\<close> has the sign of its first argument.\<close>

definition half :: "int \<Rightarrow> int" where
  "half n = (if n < 0 then - ((- n) div 2) else n div 2)"

definition go_rem :: "int \<Rightarrow> int \<Rightarrow> int" where
  "go_rem a b = (if a < 0 then - ((- a) mod b) else a mod b)"

definition hasRevision :: "('f, 'o, 'b) model \<Rightarrow> bool" where
  "hasRevision m \<longleftrightarrow> m_revision m \<noteq> None"

text \<open>The source a pane points at.\<close>

definition pane_source :: "('f, 'o, 'b) model \<Rightarrow> ('f, 'o) pane \<Rightarrow> ('f, 'o) source option" where
  "pane_source m p = (case p of
     PaneOwn s \<Rightarrow> Some s
   | PaneRevision i \<Rightarrow> (case m_revision m of
       None \<Rightarrow> None
     | Some rv \<Rightarrow> if i < length (rv_sources rv) then Some (rv_sources rv ! i) else None))"

definition left_source :: "('f, 'o, 'b) model \<Rightarrow> ('f, 'o) source option" where
  "left_source m = Option.bind (m_left m) (pane_source m)"

definition left_lines :: "('f, 'o, 'b) model \<Rightarrow> lines" where
  "left_lines m = (case left_source m of None \<Rightarrow> [] | Some s \<Rightarrow> src_lines s)"

definition maxWidth :: "('f, 'o, 'b) model \<Rightarrow> int" where
  "maxWidth m = max 0 (m_width m - fr_horizontal (m_Style m))"

definition maxHeight :: "('f, 'o, 'b) model \<Rightarrow> int" where
  "maxHeight m = max 0 (m_height m - fr_vertical (m_Style m))"

definition lineCount :: "('f, 'o, 'b) model \<Rightarrow> int" where
  "lineCount m = (case left_source m of None \<Rightarrow> 0 | Some s \<Rightarrow> source_Len s)"

definition maxYOffset :: "('f, 'o, 'b) model \<Rightarrow> int" where
  "maxYOffset m = (let n = lineCount m in if n = 0 then 0 else max 0 (n - maxHeight m))"

definition maxXOffset :: "('f, 'o, 'b) model \<Rightarrow> int" where
  "maxXOffset m = (case left_source m of
     None \<Rightarrow> 0 | Some s \<Rightarrow> max 0 (source_Width s - maxWidth m))"

definition hasContent :: "('f, 'o, 'b) model \<Rightarrow> bool" where
  "hasContent m \<longleftrightarrow> (case left_source m of None \<Rightarrow> False | Some s \<Rightarrow> \<not> source_IsEmpty s)"

definition AtTop :: "('f, 'o, 'b) model \<Rightarrow> bool" where
  "AtTop m \<longleftrightarrow> \<not> hasContent m \<or> m_yOffset m \<le> 0"

definition AtBottom :: "('f, 'o, 'b) model \<Rightarrow> bool" where
  "AtBottom m \<longleftrightarrow> \<not> hasContent m \<or> m_yOffset m \<ge> maxYOffset m"

definition PastBottom :: "('f, 'o, 'b) model \<Rightarrow> bool" where
  "PastBottom m \<longleftrightarrow> hasContent m \<and> m_yOffset m > maxYOffset m"

definition SetYOffset :: "int \<Rightarrow> ('f, 'o, 'b) model \<Rightarrow> ('f, 'o, 'b) model" where
  "SetYOffset n m = m\<lparr>m_yOffset := go_clamp n 0 (maxYOffset m)\<rparr>"

definition SetXOffset :: "int \<Rightarrow> ('f, 'o, 'b) model \<Rightarrow> ('f, 'o, 'b) model" where
  "SetXOffset n m = m\<lparr>m_xOffset := go_clamp n 0 (maxXOffset m)\<rparr>"

definition ScrollDown :: "int \<Rightarrow> ('f, 'o, 'b) model \<Rightarrow> ('f, 'o, 'b) model" where
  "ScrollDown n m = (if AtBottom m \<or> n = 0 then m else SetYOffset (m_yOffset m + n) m)"

definition ScrollUp :: "int \<Rightarrow> ('f, 'o, 'b) model \<Rightarrow> ('f, 'o, 'b) model" where
  "ScrollUp n m = (if AtTop m \<or> n = 0 then m else SetYOffset (m_yOffset m - n) m)"

definition PageDown :: "('f, 'o, 'b) model \<Rightarrow> ('f, 'o, 'b) model" where
  "PageDown m = ScrollDown (maxHeight m) m"

definition PageUp :: "('f, 'o, 'b) model \<Rightarrow> ('f, 'o, 'b) model" where
  "PageUp m = ScrollUp (maxHeight m) m"

definition HalfPageDown :: "('f, 'o, 'b) model \<Rightarrow> ('f, 'o, 'b) model" where
  "HalfPageDown m = ScrollDown (half (maxHeight m)) m"

definition HalfPageUp :: "('f, 'o, 'b) model \<Rightarrow> ('f, 'o, 'b) model" where
  "HalfPageUp m = ScrollUp (half (maxHeight m)) m"

definition ScrollLeft :: "int \<Rightarrow> ('f, 'o, 'b) model \<Rightarrow> ('f, 'o, 'b) model" where
  "ScrollLeft n m = SetXOffset (m_xOffset m - n) m"

definition ScrollRight :: "int \<Rightarrow> ('f, 'o, 'b) model \<Rightarrow> ('f, 'o, 'b) model" where
  "ScrollRight n m = SetXOffset (m_xOffset m + n) m"

definition SetHorizontalStep :: "int \<Rightarrow> ('f, 'o, 'b) model \<Rightarrow> ('f, 'o, 'b) model" where
  "SetHorizontalStep n m = m\<lparr>m_horizontalStep := max 0 n\<rparr>"

definition GotoTop :: "('f, 'o, 'b) model \<Rightarrow> ('f, 'o, 'b) model" where
  "GotoTop m = SetYOffset 0 m"

definition GotoBottom :: "('f, 'o, 'b) model \<Rightarrow> ('f, 'o, 'b) model" where
  "GotoBottom m = SetYOffset (maxYOffset m) m"

definition SetHeight :: "int \<Rightarrow> ('f, 'o, 'b) model \<Rightarrow> ('f, 'o, 'b) model" where
  "SetHeight h m = m\<lparr>m_height := h\<rparr>"

definition SetHunkContext :: "int \<Rightarrow> ('f, 'o, 'b) model \<Rightarrow> ('f, 'o, 'b) model" where
  "SetHunkContext n m = m\<lparr>m_hunkContext := max 0 n\<rparr>"

text \<open>
  \<open>scrollPercent\<close> computes in \<open>float64\<close>; the model gives the numerator and the denominator of the
  clamped quotient.
\<close>

definition scrollPercent :: "int \<Rightarrow> int \<Rightarrow> int \<Rightarrow> int \<times> int" where
  "scrollPercent offset visible total' =
     (if visible \<ge> total' then (1, 1)
      else (go_clamp offset 0 (total' - visible), total' - visible))"

definition ScrollPercent :: "('f, 'o, 'b) model \<Rightarrow> int \<times> int" where
  "ScrollPercent m = (case left_source m of
     None \<Rightarrow> (1, 1) | Some s \<Rightarrow> scrollPercent (m_yOffset m) (maxHeight m) (source_Len s))"

definition HorizontalScrollPercent :: "('f, 'o, 'b) model \<Rightarrow> int \<times> int" where
  "HorizontalScrollPercent m = (case left_source m of
     None \<Rightarrow> (1, 1) | Some s \<Rightarrow> scrollPercent (m_xOffset m) (maxWidth m) (source_Width s))"

section \<open>Revisions and diffs\<close>

definition rv_current :: "('f, 'o) revisions \<Rightarrow> ('f, 'o) source option" where
  "rv_current rv = (if rv_index rv < length (rv_sources rv)
     then Some (rv_sources rv ! rv_index rv) else None)"

definition rv_AtOrigin :: "('f, 'o) revisions \<Rightarrow> bool" where
  "rv_AtOrigin rv \<longleftrightarrow> rv_index rv = 0"

definition rv_AtTip :: "('f, 'o) revisions \<Rightarrow> bool" where
  "rv_AtTip rv \<longleftrightarrow> rv_index rv = length (rv_sources rv) - 1"

definition rv_goto :: "int \<Rightarrow> ('f, 'o) revisions \<Rightarrow> ('f, 'o) revisions" where
  "rv_goto i rv = rv\<lparr>rv_index := nat (max 0 (min i (int (length (rv_sources rv)) - 1)))\<rparr>"

definition rv_Seek :: "int \<Rightarrow> ('f, 'o) revisions \<Rightarrow> ('f, 'o) revisions" where
  "rv_Seek n rv = rv_goto (int (rv_index rv) + n) rv"

definition IsShowingDiff :: "('f, 'o, 'b) model \<Rightarrow> bool" where
  "IsShowingDiff m \<longleftrightarrow> (case m_revision m of
     None \<Rightarrow> False | Some rv \<Rightarrow> \<not> rv_AtOrigin rv \<and> m_diffMode m \<noteq> DiffModeNone)"

definition RevisionIndex :: "('f, 'o, 'b) model \<Rightarrow> int" where
  "RevisionIndex m = (case m_revision m of None \<Rightarrow> 0 | Some rv \<Rightarrow> int (rv_index rv))"

definition RevisionName :: "('f, 'o, 'b) model \<Rightarrow> string option" where
  "RevisionName m = (case m_revision m of
     None \<Rightarrow> Some [] | Some rv \<Rightarrow> map_option src_name (rv_current rv))"

definition RevisionNames :: "('f, 'o, 'b) model \<Rightarrow> string list" where
  "RevisionNames m = (case m_revision m of None \<Rightarrow> [] | Some rv \<Rightarrow> map src_name (rv_sources rv))"

definition RevisionCount :: "('f, 'o, 'b) model \<Rightarrow> int" where
  "RevisionCount m = (case m_revision m of None \<Rightarrow> 0 | Some rv \<Rightarrow> int (length (rv_sources rv)))"

definition IsAtFirstRevision :: "('f, 'o, 'b) model \<Rightarrow> bool" where
  "IsAtFirstRevision m \<longleftrightarrow> (case m_revision m of None \<Rightarrow> True | Some rv \<Rightarrow> rv_AtOrigin rv)"

definition IsAtLatestRevision :: "('f, 'o, 'b) model \<Rightarrow> bool" where
  "IsAtLatestRevision m \<longleftrightarrow> (case m_revision m of None \<Rightarrow> True | Some rv \<Rightarrow> rv_AtTip rv)"

definition getDiffBaseRevision :: "('f, 'o, 'b) model \<Rightarrow> ('f, 'o) revisions option" where
  "getDiffBaseRevision m = (case m_revision m of
     None \<Rightarrow> None
   | Some rv \<Rightarrow> (case m_diffMode m of
       DiffModeOrigin \<Rightarrow> Some (rv_goto 0 rv)
     | DiffModeAdjacent \<Rightarrow> Some (rv_Seek (-1) rv)
     | DiffModeNone \<Rightarrow> None))"

text \<open>The result and the model with the result cached.\<close>

definition getDiffResult :: "('f, 'o, 'b) model \<Rightarrow> (diff_result \<times> ('f, 'o, 'b) model) option" where
  "getDiffResult m = (case m_diffResult m of
     Some d \<Rightarrow> Some (d, m)
   | None \<Rightarrow> do {
       base \<leftarrow> getDiffBaseRevision m;
       rv \<leftarrow> m_revision m;
       a \<leftarrow> rv_current base;
       b \<leftarrow> rv_current rv;
       d \<leftarrow> default_Diff a b;
       Some (d, m\<lparr>m_diffResult := Some d\<rparr>)
     })"

definition resolveRevisionSource :: "('f, 'o, 'b) model \<Rightarrow> ('f, 'o) pane option \<times> bool" where
  "resolveRevisionSource m = (case m_revision m of
     None \<Rightarrow> (None, False)
   | Some rv \<Rightarrow>
       if rv_AtOrigin rv then (Some (PaneRevision 0), False)
       else if \<not> IsShowingDiff m then (Some (PaneRevision (rv_index rv)), False)
       else (None, True))"

definition getDisplayLines :: "('f, 'o, 'b) model \<Rightarrow> (('f, 'o) pane option \<times> ('f, 'o, 'b) model) option" where
  "getDisplayLines m = (let (src, needsDiff) = resolveRevisionSource m in
     if \<not> needsDiff then Some (src, m)
     else do { (d, m1) \<leftarrow> getDiffResult m; Some (Some (PaneOwn (Unified d)), m1) })"

definition DiffStats :: "('f, 'o, 'b) model \<Rightarrow> (int \<times> int) option" where
  "DiffStats m = (if \<not> IsShowingDiff m then Some (0, 0)
     else map_option (\<lambda>(d, _). Stats d) (getDiffResult m))"

section \<open>Search\<close>

definition adjustSearchIndex :: "('f, 'o, 'b) model \<Rightarrow> ('f, 'o, 'b) model" where
  "adjustSearchIndex m =
     (if length (m_searchMatches m) = 0 then m\<lparr>m_searchIndex := -1\<rparr>
      else if m_searchIndex m \<ge> int (length (m_searchMatches m)) \<or> m_searchIndex m < 0
           then m\<lparr>m_searchIndex := 0\<rparr> else m)"

definition clear_matches :: "('f, 'o, 'b) model \<Rightarrow> ('f, 'o, 'b) model" where
  "clear_matches m = m\<lparr>m_searchMatches := [], m_leftMatches := [], m_rightMatches := []\<rparr>"

definition updateSearchState :: "searcher \<Rightarrow> lines \<Rightarrow> ('f, 'o, 'b) model \<Rightarrow> ('f, 'o, 'b) model option" where
  "updateSearchState search ls m =
     (if m_searchTerm m = [] then Some (clear_matches m)
      else do {
        ranges \<leftarrow> search ls (m_searchTerm m);
        Some (adjustSearchIndex
          (m\<lparr>m_searchMatches := map (\<lambda>r. \<lparr>sm_rng = r, sm_inLeft = False\<rparr>) ranges\<rparr>))
      })"

text \<open>Whether a match of the left pane starts on an equal line, so that the right pane's repeats it.\<close>

definition on_equal_line :: "lines \<Rightarrow> position \<Rightarrow> bool option" where
  "on_equal_line ls p =
     (if pline p < int (length ls)
      then map_option (\<lambda>l. l_flag l = FlagDefault) (slice_get ls (pline p)) else Some False)"

text \<open>The positions recorded for deduplication, in the order they are recorded.\<close>

fun equal_positions :: "lines \<Rightarrow> range list \<Rightarrow> position list option" where
  "equal_positions ls [] = Some []"
| "equal_positions ls (r # rs) = do {
     e \<leftarrow> on_equal_line ls (rstart r);
     ps \<leftarrow> equal_positions ls rs;
     Some (if e then rstart r # ps else ps) }"

definition combine_matches :: "position list \<Rightarrow> range list \<Rightarrow> range list \<Rightarrow> search_match list" where
  "combine_matches equalPos leftM rightM =
     sort_key (\<lambda>s. rstart (sm_rng s))
       (map (\<lambda>r. \<lparr>sm_rng = r, sm_inLeft = True\<rparr>) leftM
        @ map (\<lambda>r. \<lparr>sm_rng = r, sm_inLeft = False\<rparr>)
            (filter (\<lambda>r. rstart r \<notin> set equalPos) rightM))"

definition updateSideBySideSearchState ::
  "searcher \<Rightarrow> lines \<Rightarrow> lines \<Rightarrow> ('f, 'o, 'b) model \<Rightarrow> ('f, 'o, 'b) model option" where
  "updateSideBySideSearchState search leftLs rightLs m =
     (if m_searchTerm m = [] then Some (clear_matches m)
      else do {
        leftM \<leftarrow> search leftLs (m_searchTerm m);
        rightM \<leftarrow> search rightLs (m_searchTerm m);
        equalPos \<leftarrow> equal_positions leftLs leftM;
        Some (adjustSearchIndex (m\<lparr>m_leftMatches := leftM, m_rightMatches := rightM,
          m_searchMatches := combine_matches equalPos leftM rightM\<rparr>))
      })"

section \<open>Overlays\<close>

definition overlay_step ::
  "int \<Rightarrow> ('f, 'o) source \<Rightarrow> nat \<times> search_match \<Rightarrow> ('f, 'o) source option" where
  "overlay_step selected s = (\<lambda>(i, match).
     source_AddOverlay (if int i = selected then style_GenericHighlight else style_GenericHighlightDim)
       [sm_rng match] s)"

definition search_overlays ::
  "int \<Rightarrow> search_match list \<Rightarrow> ('f, 'o) source \<Rightarrow> ('f, 'o) source option" where
  "search_overlays selected matches s =
     foldM (overlay_step selected) (source_ClearOverlays s) (enumerate 0 matches)"

text \<open>Writing a source back through a pane's pointer.\<close>

definition set_left :: "('f, 'o) source \<Rightarrow> ('f, 'o, 'b) model \<Rightarrow> ('f, 'o, 'b) model" where
  "set_left s m = (case m_left m of
     None \<Rightarrow> m
   | Some (PaneOwn _) \<Rightarrow> m\<lparr>m_left := Some (PaneOwn s)\<rparr>
   | Some (PaneRevision i) \<Rightarrow>
       m\<lparr>m_revision := map_option (\<lambda>rv. rv\<lparr>rv_sources := (rv_sources rv)[i := s]\<rparr>) (m_revision m)\<rparr>)"

definition applySearchOverlays :: "('f, 'o, 'b) model \<Rightarrow> ('f, 'o, 'b) model option" where
  "applySearchOverlays m = do {
     s \<leftarrow> left_source m;
     s' \<leftarrow> search_overlays (m_searchIndex m) (m_searchMatches m) s;
     Some (set_left s' m) }"

definition pane_overlay_step ::
  "position \<Rightarrow> bool \<Rightarrow> ('f, 'o) source \<Rightarrow> range \<Rightarrow> ('f, 'o) source option" where
  "pane_overlay_step selectedPos showSelected s match =
     source_AddOverlay
       (if rstart match = selectedPos \<and> showSelected
        then style_GenericHighlight else style_GenericHighlightDim) [match] s"

definition applySideBySidePaneOverlays ::
  "('f, 'o) source \<Rightarrow> range list \<Rightarrow> position \<Rightarrow> bool \<Rightarrow> ('f, 'o) source option" where
  "applySideBySidePaneOverlays s matches selectedPos showSelected =
     foldM (pane_overlay_step selectedPos showSelected) (source_ClearOverlays s) matches"

text \<open>The selected position, whether it is in the left pane, and whether its line is equal.\<close>

definition selected_match :: "lines \<Rightarrow> ('f, 'o, 'b) model \<Rightarrow> (position \<times> bool \<times> bool) option" where
  "selected_match leftLs m =
     (if m_searchIndex m \<ge> 0 \<and> m_searchIndex m < int (length (m_searchMatches m))
      then let selected = m_searchMatches m ! nat (m_searchIndex m);
               p = rstart (sm_rng selected)
           in map_option (\<lambda>e. (p, sm_inLeft selected, e)) (on_equal_line leftLs p)
      else Some (New 0 0, False, False))"

definition applySideBySideOverlays :: "('f, 'o, 'b) model \<Rightarrow> ('f, 'o, 'b) model option" where
  "applySideBySideOverlays m =
     (if m_searchTerm m = [] then Some m
      else do {
        (pos, inLeft, isEqual) \<leftarrow> (case left_source m of
            Some l \<Rightarrow> selected_match (src_lines l) m
          | None \<Rightarrow> if m_searchIndex m \<ge> 0 \<and> m_searchIndex m < int (length (m_searchMatches m))
                    then None else Some (New 0 0, False, False));
        m1 \<leftarrow> (case left_source m of
            Some l \<Rightarrow> map_option (\<lambda>l'. set_left l' m)
              (applySideBySidePaneOverlays l (m_leftMatches m) pos (inLeft \<or> isEqual))
          | None \<Rightarrow> Some m);
        (case m_right m of
            Some r \<Rightarrow> map_option (\<lambda>r'. m1\<lparr>m_right := Some r'\<rparr>)
              (applySideBySidePaneOverlays r (m_rightMatches m) pos (\<not> inLeft \<or> isEqual))
          | None \<Rightarrow> Some m1)
      })"

section \<open>Rerendering\<close>

definition rerender :: "searcher \<Rightarrow> ('f, 'o, 'b) model \<Rightarrow> ('f, 'o, 'b) model option" where
  "rerender search m0 =
     (let m = m0\<lparr>m_diffResult := None, m_right := None\<rparr> in
      if m_viewMode m = ViewModeSideBySide \<and> snd (resolveRevisionSource m)
      then do {
        (d, m1) \<leftarrow> getDiffResult m;
        let (l, d1) = diff_Before d;
        let (r, d2) = diff_After d1;
        m2 \<leftarrow> updateSideBySideSearchState search (src_lines l) (src_lines r)
                (m1\<lparr>m_diffResult := Some d2, m_left := Some (PaneOwn l), m_right := Some r\<rparr>);
        applySideBySideOverlays m2
      }
      else do {
        (left, m1) \<leftarrow> getDisplayLines m;
        (case left of
          None \<Rightarrow> Some (m1\<lparr>m_left := None\<rparr>)
        | Some p \<Rightarrow> do {
            let m2 = m1\<lparr>m_left := Some p\<rparr>;
            s \<leftarrow> left_source m2;
            m3 \<leftarrow> updateSearchState search (src_lines s) m2;
            applySearchOverlays m3
          })
      })"

section \<open>Operations that rerender\<close>

definition updatePrinterWidth :: "('f, 'o, 'b) model \<Rightarrow> ('f, 'o, 'b) model" where
  "updatePrinterWidth m = m\<lparr>m_printer := (m_printer m)\<lparr>pr_width := maxWidth m\<rparr>\<rparr>"

definition SetWidth :: "searcher \<Rightarrow> int \<Rightarrow> ('f, 'o, 'b) model \<Rightarrow> ('f, 'o, 'b) model option" where
  "SetWidth search w m =
     (if m_width m \<noteq> w
      then let m1 = updatePrinterWidth (m\<lparr>m_width := w\<rparr>)
           in if m_WrapEnabled m1 then rerender search m1 else Some m1
      else Some m)"

definition SetPrinter :: "searcher \<Rightarrow> print_settings \<Rightarrow> ('f, 'o, 'b) model \<Rightarrow> ('f, 'o, 'b) model option" where
  "SetPrinter search p m = rerender search (updatePrinterWidth (m\<lparr>m_printer := p\<rparr>))"

definition AddRevision ::
  "searcher \<Rightarrow> ('f, 'o) source \<Rightarrow> ('f, 'o, 'b) model \<Rightarrow> ('f, 'o, 'b) model option" where
  "AddRevision search s m = do {
     let rv = (case m_revision m of
         None \<Rightarrow> \<lparr>rv_sources = [s], rv_index = 0\<rparr>
       | Some rv \<Rightarrow> \<lparr>rv_sources = rv_sources rv @ [s], rv_index = length (rv_sources rv)\<rparr>);
     m1 \<leftarrow> rerender search (m\<lparr>m_revision := Some rv\<rparr>);
     Some (if m_yOffset m1 > maxYOffset m1 then GotoBottom m1 else m1) }"

definition ClearRevisions :: "searcher \<Rightarrow> ('f, 'o, 'b) model \<Rightarrow> ('f, 'o, 'b) model option" where
  "ClearRevisions search m = rerender search (m\<lparr>m_revision := None\<rparr>)"

definition SetTokens ::
  "searcher \<Rightarrow> ('f, 'o) source \<Rightarrow> ('f, 'o, 'b) model \<Rightarrow> ('f, 'o, 'b) model option" where
  "SetTokens search s m = do { m1 \<leftarrow> ClearRevisions search m; AddRevision search s m1 }"

definition GoToRevision :: "searcher \<Rightarrow> int \<Rightarrow> ('f, 'o, 'b) model \<Rightarrow> ('f, 'o, 'b) model option" where
  "GoToRevision search index m = (case m_revision m of
     None \<Rightarrow> Some m
   | Some rv \<Rightarrow> do {
       let maxIndex = int (length (rv_sources rv)) - 1;
       m1 \<leftarrow> rerender search (m\<lparr>m_revision := Some (rv_goto (go_clamp index 0 maxIndex) rv)\<rparr>);
       Some (GotoTop m1) })"

definition seekRevision :: "searcher \<Rightarrow> int \<Rightarrow> ('f, 'o, 'b) model \<Rightarrow> ('f, 'o, 'b) model option" where
  "seekRevision search delta m = (case m_revision m of
     None \<Rightarrow> Some m
   | Some rv \<Rightarrow>
       if delta > 0 \<and> rv_AtTip rv then Some m
       else if delta < 0 \<and> rv_AtOrigin rv then Some m
       else do {
         m1 \<leftarrow> rerender search (m\<lparr>m_revision := Some (rv_Seek delta rv)\<rparr>);
         Some (GotoTop m1) })"

definition NextRevision :: "searcher \<Rightarrow> ('f, 'o, 'b) model \<Rightarrow> ('f, 'o, 'b) model option" where
  "NextRevision search m = seekRevision search 1 m"

definition PrevRevision :: "searcher \<Rightarrow> ('f, 'o, 'b) model \<Rightarrow> ('f, 'o, 'b) model option" where
  "PrevRevision search m = seekRevision search (-1) m"

definition SetDiffMode :: "searcher \<Rightarrow> DiffMode \<Rightarrow> ('f, 'o, 'b) model \<Rightarrow> ('f, 'o, 'b) model option" where
  "SetDiffMode search mode m = rerender search (m\<lparr>m_diffMode := mode\<rparr>)"

fun next_diff_mode :: "DiffMode \<Rightarrow> DiffMode" where
  "next_diff_mode DiffModeAdjacent = DiffModeOrigin"
| "next_diff_mode DiffModeOrigin = DiffModeNone"
| "next_diff_mode DiffModeNone = DiffModeAdjacent"

definition ToggleDiffMode :: "searcher \<Rightarrow> ('f, 'o, 'b) model \<Rightarrow> ('f, 'o, 'b) model option" where
  "ToggleDiffMode search m = rerender search (m\<lparr>m_diffMode := next_diff_mode (m_diffMode m)\<rparr>)"

definition SetViewMode :: "searcher \<Rightarrow> ViewMode \<Rightarrow> ('f, 'o, 'b) model \<Rightarrow> ('f, 'o, 'b) model option" where
  "SetViewMode search mode m = rerender search (m\<lparr>m_viewMode := mode\<rparr>)"

fun next_view_mode :: "ViewMode \<Rightarrow> ViewMode" where
  "next_view_mode ViewModeFull = ViewModeSideBySide"
| "next_view_mode ViewModeHunks = ViewModeFull"
| "next_view_mode ViewModeSideBySide = ViewModeFull"

definition ToggleViewMode :: "searcher \<Rightarrow> ('f, 'o, 'b) model \<Rightarrow> ('f, 'o, 'b) model option" where
  "ToggleViewMode search m = rerender search (m\<lparr>m_viewMode := next_view_mode (m_viewMode m)\<rparr>)"

definition ToggleWordWrap :: "searcher \<Rightarrow> ('f, 'o, 'b) model \<Rightarrow> ('f, 'o, 'b) model option" where
  "ToggleWordWrap search m =
     (let m1 = m\<lparr>m_WrapEnabled := \<not> m_WrapEnabled m\<rparr>;
          m2 = m1\<lparr>m_printer := (m_printer m1)\<lparr>pr_wordWrap := m_WrapEnabled m1\<rparr>\<rparr>;
          m3 = (if m_WrapEnabled m2 then m2\<lparr>m_xOffset := 0\<rparr> else m2)
      in rerender search m3)"

definition scrollToCurrentMatch :: "('f, 'o, 'b) model \<Rightarrow> ('f, 'o, 'b) model" where
  "scrollToCurrentMatch m =
     (if m_searchIndex m < 0 \<or> m_searchIndex m \<ge> int (length (m_searchMatches m)) then m
      else SetYOffset (pline (rstart (sm_rng (m_searchMatches m ! nat (m_searchIndex m))))
             - half (maxHeight m - 1)) m)"

definition ClearSearch :: "searcher \<Rightarrow> ('f, 'o, 'b) model \<Rightarrow> ('f, 'o, 'b) model option" where
  "ClearSearch search m =
     rerender search (m\<lparr>m_searchTerm := [], m_searchMatches := [], m_searchIndex := -1\<rparr>)"

definition SetSearchTerm :: "searcher \<Rightarrow> string \<Rightarrow> ('f, 'o, 'b) model \<Rightarrow> ('f, 'o, 'b) model option" where
  "SetSearchTerm search term m =
     (if term = [] then ClearSearch search m
      else map_option scrollToCurrentMatch (rerender search (m\<lparr>m_searchTerm := term\<rparr>)))"

definition navigateSearch :: "int \<Rightarrow> ('f, 'o, 'b) model \<Rightarrow> ('f, 'o, 'b) model option" where
  "navigateSearch delta m =
     (if length (m_searchMatches m) = 0 then Some m
      else do {
        let n = int (length (m_searchMatches m));
        let m1 = m\<lparr>m_searchIndex := go_rem (m_searchIndex m + delta + n) n\<rparr>;
        m2 \<leftarrow> (if m_viewMode m1 = ViewModeSideBySide \<and> m_right m1 \<noteq> None
               then applySideBySideOverlays m1
               else if m_left m1 \<noteq> None then applySearchOverlays m1 else Some m1);
        Some (scrollToCurrentMatch m2)
      })"

definition SearchNext :: "('f, 'o, 'b) model \<Rightarrow> ('f, 'o, 'b) model option" where
  "SearchNext m = navigateSearch 1 m"

definition SearchPrevious :: "('f, 'o, 'b) model \<Rightarrow> ('f, 'o, 'b) model option" where
  "SearchPrevious m = navigateSearch (-1) m"

section \<open>Construction and messages\<close>

definition setInitialValues :: "'b keymap \<Rightarrow> ('f, 'o, 'b) model \<Rightarrow> ('f, 'o, 'b) model" where
  "setInitialValues km m = m\<lparr>m_KeyMap := km, m_MouseWheelEnabled := True, m_MouseWheelDelta := 3,
     m_horizontalStep := 6, m_hunkContext := 3, m_WrapEnabled := True, m_searchIndex := -1,
     m_initialized := True\<rparr>"

text \<open>The zero model; \<open>p\<close> is the printer that \<open>setInitialValues\<close> makes when no option sets one.\<close>

definition zero_model :: "'b keymap \<Rightarrow> print_settings \<Rightarrow> ('f, 'o, 'b) model" where
  "zero_model km p = \<lparr>m_Style = \<lparr>fr_horizontal = 0, fr_vertical = 0, fr_width = 0, fr_height = 0\<rparr>,
     m_printer = p, m_revision = None, m_diffResult = None, m_left = None, m_right = None,
     m_searchTerm = [], m_KeyMap = km, m_searchMatches = [], m_leftMatches = [],
     m_rightMatches = [], m_horizontalStep = 0, m_diffMode = DiffModeAdjacent,
     m_MouseWheelDelta = 0, m_width = 0, m_searchIndex = 0, m_yOffset = 0, m_height = 0,
     m_xOffset = 0, m_viewMode = ViewModeFull, m_hunkContext = 0, m_FillHeight = False,
     m_MouseWheelEnabled = False, m_WrapEnabled = False, m_initialized = False\<rparr>"

definition view_WithPrinter :: "print_settings \<Rightarrow> ('f, 'o, 'b) model \<Rightarrow> ('f, 'o, 'b) model" where
  "view_WithPrinter p m = m\<lparr>m_printer := p\<rparr>"

definition view_WithStyle :: "frame \<Rightarrow> ('f, 'o, 'b) model \<Rightarrow> ('f, 'o, 'b) model" where
  "view_WithStyle s m = m\<lparr>m_Style := s\<rparr>"

definition New_model ::
  "'b keymap \<Rightarrow> print_settings \<Rightarrow> (('f, 'o, 'b) model \<Rightarrow> ('f, 'o, 'b) model) list \<Rightarrow> ('f, 'o, 'b) model" where
  "New_model km p opts = setInitialValues km (foldl (\<lambda>m opt. opt m) (zero_model km p) opts)"

datatype wheel = WheelUp | WheelDown | WheelLeft | WheelRight | WheelOther

datatype 'k msg = KeyPressMsg 'k | MouseWheelMsg bool wheel | OtherMsg

definition key_action ::
  "searcher \<Rightarrow> ('k \<Rightarrow> 'b \<Rightarrow> bool) \<Rightarrow> 'k \<Rightarrow> ('f, 'o, 'b) model \<Rightarrow> ('f, 'o, 'b) model option" where
  "key_action search matches k m = (let km = m_KeyMap m in
     if matches k (km_PageDown km) then Some (PageDown m)
     else if matches k (km_PageUp km) then Some (PageUp m)
     else if matches k (km_HalfPageDown km) then Some (HalfPageDown m)
     else if matches k (km_HalfPageUp km) then Some (HalfPageUp m)
     else if matches k (km_Down km) then Some (ScrollDown 1 m)
     else if matches k (km_Up km) then Some (ScrollUp 1 m)
     else if matches k (km_Left km) then Some (ScrollLeft (m_horizontalStep m) m)
     else if matches k (km_Right km) then Some (ScrollRight (m_horizontalStep m) m)
     else if matches k (km_NextRevision km) then NextRevision search m
     else if matches k (km_PrevRevision km) then PrevRevision search m
     else if matches k (km_ToggleDiffMode km) then ToggleDiffMode search m
     else if matches k (km_ToggleViewMode km) then ToggleViewMode search m
     else if matches k (km_ToggleWordWrap km) then ToggleWordWrap search m
     else Some m)"

definition wheel_action :: "bool \<Rightarrow> wheel \<Rightarrow> ('f, 'o, 'b) model \<Rightarrow> ('f, 'o, 'b) model" where
  "wheel_action shift button m =
     (if \<not> m_MouseWheelEnabled m then m
      else if shift then (case button of
          WheelDown \<Rightarrow> ScrollRight (m_horizontalStep m) m
        | WheelUp \<Rightarrow> ScrollLeft (m_horizontalStep m) m
        | _ \<Rightarrow> m)
      else (case button of
          WheelDown \<Rightarrow> ScrollDown (m_MouseWheelDelta m) m
        | WheelUp \<Rightarrow> ScrollUp (m_MouseWheelDelta m) m
        | WheelLeft \<Rightarrow> ScrollLeft (m_horizontalStep m) m
        | WheelRight \<Rightarrow> ScrollRight (m_horizontalStep m) m
        | WheelOther \<Rightarrow> m))"

definition Update ::
  "searcher \<Rightarrow> ('k \<Rightarrow> 'b \<Rightarrow> bool) \<Rightarrow> 'b keymap \<Rightarrow> 'k msg \<Rightarrow> ('f, 'o, 'b) model
    \<Rightarrow> ('f, 'o, 'b) model option" where
  "Update search matches km0 msg m0 =
     (let m = (if \<not> m_initialized m0 then setInitialValues km0 m0 else m0) in
      case msg of
        KeyPressMsg k \<Rightarrow> key_action search matches k m
      | MouseWheelMsg shift button \<Rightarrow> Some (wheel_action shift button m)
      | OtherMsg \<Rightarrow> Some m)"

end
