(* ===== verification/Viewport_Facts.thy ===== *)
theory Viewport_Facts
  imports Viewport
begin

text \<open>
  What keeps the viewport from panicking: the contract of its finder as a locale, the invariant of
  the model, and the proof that every operation keeps it. The finder of the library satisfies the
  contract for search texts that do not normalize to nothing.
\<close>

section \<open>The contract of the finder\<close>

definition fits :: "nat \<Rightarrow> range \<Rightarrow> bool" where
  "fits n r \<longleftrightarrow> 0 \<le> pline (rstart r) \<and> pline (rstart r) \<le> pline (rend r) \<and> pline (rend r) < int n"

lemma same_text_length: "same_text a b \<Longrightarrow> length a = length b"
  unfolding same_text_def by (metis length_map)

lemma same_text_refl [simp]: "same_text a a"
  by (simp add: same_text_def)

lemma same_text_sym: "same_text a b \<Longrightarrow> same_text b a"
  by (simp add: same_text_def)

locale viewport_finder =
  fixes ok :: "string \<Rightarrow> bool" and search :: searcher
  assumes search_fits: "ok term \<Longrightarrow> \<exists>rs. search ls term = Some rs \<and> (\<forall>r \<in> set rs. fits (length ls) r)"
    and search_text: "same_text ls ls' \<Longrightarrow> search ls term = search ls' term"

section \<open>The finder of the library\<close>

text \<open>What \<open>niceyaml.Finder\<close> finds in a source of these lines; the text must be searchable.\<close>

definition source_iterator :: "adder \<Rightarrow> lines \<Rightarrow> line_iterator" where
  "source_iterator add ls = \<lparr>li_id = 0, li_empty = (ls = []),
     li_runes = AllRunes add [] ((empty_source :: (nat, nat) source)\<lparr>src_lines := ls\<rparr>)\<rparr>"

definition finder_search :: "adder \<Rightarrow> (string \<Rightarrow> string) \<Rightarrow> searcher" where
  "finder_search add nrm ls term =
     Find (Load (Some (source_iterator add ls)) (NewFinder [WithNormalizer nrm])) term"

definition searchable :: "(string \<Rightarrow> string) \<Rightarrow> string \<Rightarrow> bool" where
  "searchable nrm term \<longleftrightarrow> nrm term \<noteq> [] \<and> encode_runes (runes (nrm term)) = nrm term"

definition line_sorted :: "nat \<Rightarrow> (position \<times> rune) list \<Rightarrow> bool" where
  "line_sorted n ps \<longleftrightarrow> sorted (map (pline \<circ> fst) ps)
     \<and> (\<forall>p \<in> set ps. 0 \<le> pline (fst p) \<and> pline (fst p) < int n)"

lemma AllRunes_sorted:
  "line_sorted (length (src_lines s)) (AllRunes add [] s)"
proof -
  have eq: "AllRunes add [] s = concat (map (\<lambda>(i, l). runes_at add (int i) l) (enumerate 0 (src_lines s)))"
    by (simp add: AllRunes_def)
  have "sorted (map (pline \<circ> fst) (concat (map (\<lambda>(i, l). runes_at add (int i) l) (enumerate k ls))))
    \<and> (\<forall>p \<in> set (concat (map (\<lambda>(i, l). runes_at add (int i) l) (enumerate k ls))).
         int k \<le> pline (fst p) \<and> pline (fst p) < int k + int (length ls))" for k ls
  proof (induction ls arbitrary: k)
    case Nil
    then show ?case by simp
  next
    case (Cons l ls)
    have c: "map (pline \<circ> fst) (runes_at add (int k) l) = replicate (length (runes_at add (int k) l)) (int k)"
      by (rule nth_equalityI) (auto simp: runes_at_def nth_enumerate_eq)
    have h: "pline (fst p) = int k" if "p \<in> set (runes_at add (int k) l)" for p
      using that runes_at_pline [of "fst p" "snd p" add "int k" l] by simp
    show ?case using Cons [of "Suc k"] h
      by (fastforce simp: sorted_append c [unfolded comp_def] comp_def)
  qed
  from this [of 0] show ?thesis unfolding line_sorted_def eq by simp
qed

lemma normal_runes_sorted:
  assumes "line_sorted n ps"
  shows "line_sorted n (normal_runes nrm ps)"
  using assms
proof (induction ps)
  case Nil
  then show ?case by (simp add: normal_runes_def)
next
  case (Cons p ps)
  obtain pos r where p: "p = (pos, r)" by (cases p)
  have ns: "normal_runes nrm (p # ps) = map (Pair pos) (runes (normal_form nrm r)) @ normal_runes nrm ps"
    by (simp add: normal_runes_def p)
  have sub: "fst ` set (normal_runes nrm ps) \<subseteq> fst ` set ps"
  proof
    fix y assume "y \<in> fst ` set (normal_runes nrm ps)"
    then obtain r where "(y, r) \<in> set ps" by (auto simp: normal_runes_def)
    then show "y \<in> fst ` set ps" by force
  qed
  have IH: "line_sorted n (normal_runes nrm ps)" 
    using Cons.prems by (intro Cons.IH) (simp add: line_sorted_def)
  have "pline pos \<le> pline (fst q)" if "q \<in> set (normal_runes nrm ps)" for q
  proof -
    from that sub obtain q' where "q' \<in> set ps" "fst q' = fst q" by (metis image_eqI imageE subsetD)
    with Cons.prems p show ?thesis by (fastforce simp: line_sorted_def)
  qed
  moreover have "map (pline \<circ> fst) (map (Pair pos) xs) = replicate (length xs) (pline pos)"
    for xs :: "rune list" by (simp add: map_replicate_const comp_def)
  ultimately show ?case
    using IH Cons.prems unfolding ns line_sorted_def by (auto simp: sorted_append p)
qed

lemma occurrence_fits:
  assumes "line_sorted n ns" "0 < m" "k + m \<le> length ns"
  shows "fits n (occurrence_range ns m k)"
proof -
  have "map (pline \<circ> fst) ns ! k \<le> map (pline \<circ> fst) ns ! (k + m - 1)"
    using assms by (intro sorted_nth_mono) (auto simp: line_sorted_def)
  moreover have "ns ! k \<in> set ns" "ns ! (k + m - 1) \<in> set ns" using assms by auto
  ultimately show ?thesis
    using assms by (auto simp: fits_def occurrence_range_def line_sorted_def)
qed

lemma finder_search_fits:
  assumes "searchable nrm term"
  shows "\<exists>rs. finder_search add nrm ls term = Some rs \<and> (\<forall>r \<in> set rs. fits (length ls) r)"
proof -
  let ?f = "NewFinder [WithNormalizer nrm]"
  let ?it = "source_iterator add ls"
  let ?qs = "runes (nrm term)"
  let ?ns = "normal_runes (Some nrm) (li_runes ?it)"
  have f: "fd_prev ?f = None" "fd_normalizer ?f = Some nrm"
    by (simp_all add: NewFinder_def WithNormalizer_def)
  show ?thesis
  proof (cases "term = [] \<or> ls = []")
    case True
    then show ?thesis
      by (auto simp: finder_search_def Find_def Load_def f buildSourceAndPositionMap_def
          source_iterator_def buildByteToRuneIndex_def)
  next
    case False
    have "fd_prev ?f \<noteq> Some (li_id ?it)" "\<not> li_empty ?it"
      using False f by (simp_all add: source_iterator_def)
    from Load_loaded [OF this] have l: "loaded ?ns (Load (Some ?it) ?f)"
      "fd_normalizer (Load (Some ?it) ?f) = Some nrm" by (simp_all add: f)
    have q: "?qs \<noteq> []" "list_all valid_rune ?qs" using assms runes_valid by (auto simp: searchable_def)
    have s: "line_sorted (length ls) ?ns"
      using normal_runes_sorted [OF AllRunes_sorted [of "(empty_source :: (nat, nat) source)\<lparr>src_lines := ls\<rparr>" add]]
      by (simp add: source_iterator_def)
    have "finder_search add nrm ls term = Some []" if "fd_source (Load (Some ?it) ?f) = []"
      using that by (simp add: finder_search_def Find_def)
    moreover have "finder_search add nrm ls term
        = Some (map (occurrence_range ?ns (length ?qs)) (occurrences ?qs 0 (map snd ?ns)))"
      if "fd_source (Load (Some ?it) ?f) \<noteq> []"
      using find_loop_occurrences [OF l(1) q(2,1), of 0 "[]"] that False assms l(2)
      by (simp add: finder_search_def Find_def searchable_def rune_count_def Let_def)
    moreover have "fits (length ls) (occurrence_range ?ns (length ?qs) k)"
      if "k \<in> set (occurrences ?qs 0 (map snd ?ns))" for k
      using that occurrences_props [OF q(1), of 0 "map snd ?ns"] q(1)
      by (intro occurrence_fits [OF s]) auto
    ultimately show ?thesis by (cases "fd_source (Load (Some ?it) ?f) = []") auto
  qed
qed

lemma finder_search_text:
  assumes "same_text ls ls'"
  shows "finder_search add nrm ls term = finder_search add nrm ls' term"
proof -
  have len: "length ls = length ls'" by (rule same_text_length [OF assms])
  have seg: "line_runes add (ls ! i) = line_runes add (ls' ! i)" if "i < length ls" for i
  proof -
    have "(ls ! i)\<lparr>l_overlays := []\<rparr> = (ls' ! i)\<lparr>l_overlays := []\<rparr>"
      using assms that len unfolding same_text_def by (metis nth_map)
    then have "l_segments (ls ! i) = l_segments (ls' ! i)"
      by (cases "ls ! i"; cases "ls' ! i") auto
    then show ?thesis by (simp add: line_runes_def line_Tokens_def)
  qed
  have "map (\<lambda>(i, l). runes_at add (int i) l) (enumerate 0 ls)
      = map (\<lambda>(i, l). runes_at add (int i) l) (enumerate 0 ls')"
    by (rule nth_equalityI) (auto simp: len nth_enumerate_eq runes_at_def seg)
  moreover have "ls = [] \<longleftrightarrow> ls' = []" using len by auto
  ultimately have "source_iterator add ls = source_iterator add ls'"
    by (simp add: source_iterator_def AllRunes_def)
  then show ?thesis by (simp add: finder_search_def)
qed

interpretation library_finder: viewport_finder "searchable nrm" "finder_search add nrm" for nrm add
  by unfold_locales (rule finder_search_fits, assumption, rule finder_search_text)

section \<open>The invariant\<close>

text \<open>The diff that the current revision and mode ask for, computed afresh.\<close>

definition fresh_diff :: "('f, 'o, 'b) model \<Rightarrow> diff_result option" where
  "fresh_diff m = do {
     base \<leftarrow> getDiffBaseRevision m;
     rv \<leftarrow> m_revision m;
     a \<leftarrow> rv_current base;
     b \<leftarrow> rv_current rv;
     default_Diff a b }"

definition revision_ok :: "('f, 'o, 'b) model \<Rightarrow> bool" where
  "revision_ok m \<longleftrightarrow> (\<forall>rv. m_revision m = Some rv \<longrightarrow> rv_index rv < length (rv_sources rv))"

definition index_ok :: "('f, 'o, 'b) model \<Rightarrow> bool" where
  "index_ok m \<longleftrightarrow> m_searchMatches m = [] \<and> m_searchIndex m = -1
     \<or> 0 \<le> m_searchIndex m \<and> m_searchIndex m < int (length (m_searchMatches m))"

definition settled :: "(string \<Rightarrow> bool) \<Rightarrow> ('f, 'o, 'b) model \<Rightarrow> bool" where
  "settled ok m \<longleftrightarrow> m_initialized m \<and> 0 \<le> m_yOffset m \<and> 0 \<le> m_xOffset m \<and> 0 \<le> m_hunkContext m
     \<and> 0 \<le> m_horizontalStep m \<and> revision_ok m \<and> index_ok m
     \<and> (m_searchTerm m = [] \<longrightarrow> m_searchMatches m = []) \<and> (m_searchTerm m \<noteq> [] \<longrightarrow> ok (m_searchTerm m))"

text \<open>The panes exist together, the matches are those of the lines on display, and the panes carry the
  highlights of just these matches.\<close>

definition painted :: "('f, 'o, 'b) model \<Rightarrow> ('f, 'o) source \<Rightarrow> bool" where
  "painted m l \<longleftrightarrow> (\<exists>s. search_overlays (m_searchIndex m) (m_searchMatches m) s = Some l)"

definition painted_panes :: "('f, 'o, 'b) model \<Rightarrow> ('f, 'o) source \<Rightarrow> ('f, 'o) source \<Rightarrow> bool" where
  "painted_panes m l r \<longleftrightarrow> (\<exists>l0 r0 pos inLeft isEqual.
     selected_match (src_lines l0) m = Some (pos, inLeft, isEqual) \<and> same_text (src_lines l0) (src_lines l)
     \<and> applySideBySidePaneOverlays l0 (m_leftMatches m) pos (inLeft \<or> isEqual) = Some l
     \<and> applySideBySidePaneOverlays r0 (m_rightMatches m) pos (\<not> inLeft \<or> isEqual) = Some r)"

definition panes_ok :: "searcher \<Rightarrow> ('f, 'o, 'b) model \<Rightarrow> bool" where
  "panes_ok search m \<longleftrightarrow> (case left_source m of
     None \<Rightarrow> m_left m = None \<and> m_right m = None
   | Some l \<Rightarrow> (case m_right m of
       None \<Rightarrow> painted m l \<and> (m_searchTerm m \<noteq> []
         \<longrightarrow> search (src_lines l) (m_searchTerm m) = Some (map sm_rng (m_searchMatches m)))
     | Some r \<Rightarrow> m_viewMode m = ViewModeSideBySide \<and> m_left m = Some (PaneOwn l)
         \<and> length (src_lines l) = length (src_lines r)
         \<and> (m_searchTerm m \<noteq> []
            \<longrightarrow> painted_panes m l r
              \<and> search (src_lines l) (m_searchTerm m) = Some (m_leftMatches m)
              \<and> search (src_lines r) (m_searchTerm m) = Some (m_rightMatches m)
              \<and> sm_rng ` set (m_searchMatches m) \<subseteq> set (m_leftMatches m) \<union> set (m_rightMatches m))))"

definition cache_fresh :: "('f, 'o, 'b) model \<Rightarrow> bool" where
  "cache_fresh m \<longleftrightarrow> (\<forall>d. m_diffResult m = Some d \<longrightarrow> IsShowingDiff m
     \<and> (\<exists>s. m_left m = Some (PaneOwn s))
     \<and> (\<exists>d0. fresh_diff m = Some d0 \<and> (d = d0 \<or> d = snd (getAlignedRows d0))))"

text \<open>A diff side by side has its right pane.\<close>

definition split_ok :: "('f, 'o, 'b) model \<Rightarrow> bool" where
  "split_ok m \<longleftrightarrow> (m_viewMode m = ViewModeSideBySide \<and> IsShowingDiff m \<longrightarrow> m_right m \<noteq> None)"

definition vinv :: "(string \<Rightarrow> bool) \<Rightarrow> searcher \<Rightarrow> ('f, 'o, 'b) model \<Rightarrow> bool" where
  "vinv ok search m \<longleftrightarrow> settled ok m \<and> panes_ok search m \<and> cache_fresh m \<and> split_ok m"

section \<open>Rerendering never panics\<close>

lemma IsShowingDiff_cong:
  "m_revision m = m_revision m' \<Longrightarrow> m_diffMode m = m_diffMode m' \<Longrightarrow> IsShowingDiff m = IsShowingDiff m'
     \<and> fresh_diff m = fresh_diff m' \<and> resolveRevisionSource m = resolveRevisionSource m'"
  by (simp add: IsShowingDiff_def [abs_def] fresh_diff_def getDiffBaseRevision_def
      resolveRevisionSource_def cong: option.case_cong if_cong)

lemma needs_diff: "snd (resolveRevisionSource m) \<longleftrightarrow> IsShowingDiff m"
  by (auto simp: resolveRevisionSource_def IsShowingDiff_def split: option.split)

lemma fresh_diff_total:
  assumes "IsShowingDiff m" "revision_ok m"
  shows "\<exists>d. fresh_diff m = Some d"
proof -
  obtain rv where rv: "m_revision m = Some rv" "rv_index rv \<noteq> 0" "m_diffMode m \<noteq> DiffModeNone"
    using assms(1) by (auto simp: IsShowingDiff_def rv_AtOrigin_def split: option.splits)
  have i: "rv_index rv < length (rv_sources rv)" "rv_sources rv \<noteq> []"
    using assms(2) rv(1) by (auto simp: revision_ok_def)
  obtain base where base: "getDiffBaseRevision m = Some base" "rv_sources base = rv_sources rv"
    "rv_index base < length (rv_sources rv)"
    using rv i by (cases "m_diffMode m") (auto simp: getDiffBaseRevision_def rv_goto_def rv_Seek_def)
  obtain d where "default_Diff (rv_sources rv ! rv_index base) (rv_sources rv ! rv_index rv) = Some d"
    using default_Diff_result by blast
  with rv(1) i base show ?thesis by (simp add: fresh_diff_def rv_current_def)
qed

lemma getDiffResult_fresh:
  "m_diffResult m = None \<Longrightarrow>
     getDiffResult m = map_option (\<lambda>d. (d, m\<lparr>m_diffResult := Some d\<rparr>)) (fresh_diff m)"
  by (auto simp: getDiffResult_def fresh_diff_def split: Option.bind_splits)

text \<open>Overlays on a source, and where a pane's pointer writes them.\<close>

definition same_source :: "('f, 'o) source \<Rightarrow> ('f, 'o) source \<Rightarrow> bool" where
  "same_source s s' \<longleftrightarrow> s' = s\<lparr>src_lines := src_lines s'\<rparr> \<and> same_text (src_lines s) (src_lines s')"

lemma same_source_refl [simp]: "same_source s s"
  by (simp add: same_source_def)

lemma same_source_trans: "same_source a b \<Longrightarrow> same_source b c \<Longrightarrow> same_source a c"
  by (cases a; cases b; cases c) (auto simp: same_source_def intro: same_text_trans)

lemma source_ClearOverlays_same: "same_source s (source_ClearOverlays s)"
  by (simp add: same_source_def source_ClearOverlays_def lines_ClearOverlays_text)

lemma source_AddOverlay_same:
  "\<forall>r \<in> set rs. fits (length (src_lines s)) r \<Longrightarrow>
     \<exists>s'. source_AddOverlay kind rs s = Some s' \<and> same_source s s'"
  using lines_AddOverlay_total [of rs "src_lines s" kind]
  by (auto simp: source_AddOverlay_def fits_def same_source_def dest: lines_AddOverlay_text)

lemma overlay_loop_total:
  assumes "\<And>x s. x \<in> set xs \<Longrightarrow> same_source s0 s \<Longrightarrow> \<exists>s'. f s x = Some s' \<and> same_source s s'"
    and "same_source s0 s1"
  shows "\<exists>s'. foldM f s1 xs = Some s' \<and> same_source s0 s'"
  by (rule foldM_total [where P = "same_source s0"], rule assms(2))
     (meson assms(1) same_source_trans)

lemma search_overlays_total:
  assumes "\<forall>match \<in> set matches. fits (length (src_lines s)) (sm_rng match)"
  shows "\<exists>s'. search_overlays selected matches s = Some s' \<and> same_source s s'"
  unfolding search_overlays_def
proof (rule overlay_loop_total [OF _ source_ClearOverlays_same])
  fix x :: "nat \<times> search_match" and u :: "('a, 'b) source"
  assume x: "x \<in> set (enumerate 0 matches)" and u: "same_source s u"
  have "matches ! fst x = snd x" "fst x < length matches" using x by (simp_all add: in_set_enumerate_eq)
  then have "snd x \<in> set matches" by (metis nth_mem)
  with assms same_text_length [of "src_lines s" "src_lines u"] u
  show "\<exists>s'. overlay_step selected u x = Some s' \<and> same_source u s'"
    by (auto simp: overlay_step_def case_prod_beta same_source_def [of s] intro!: source_AddOverlay_same)
qed

lemma pane_overlays_total:
  assumes "\<forall>r \<in> set matches. fits (length (src_lines s)) r"
  shows "\<exists>s'. applySideBySidePaneOverlays s matches pos b = Some s' \<and> same_source s s'"
  unfolding applySideBySidePaneOverlays_def
proof (rule overlay_loop_total [OF _ source_ClearOverlays_same])
  fix x and u :: "('a, 'b) source"
  assume "x \<in> set matches" "same_source s u"
  with assms same_text_length [of "src_lines s" "src_lines u"]
  show "\<exists>s'. pane_overlay_step pos b u x = Some s' \<and> same_source u s'"
    by (auto simp: pane_overlay_step_def same_source_def [of s] intro!: source_AddOverlay_same)
qed

lemma pane_source_cong: "m_revision m = m_revision m' \<Longrightarrow> pane_source m = pane_source m'"
  by (rule ext) (auto simp: pane_source_def split: pane.split)

lemma left_source_cong:
  "m_left m = m_left m' \<Longrightarrow> m_revision m = m_revision m' \<Longrightarrow> left_source m = left_source m'"
  using pane_source_cong [of m m'] by (simp add: left_source_def)

lemma resolve_cases:
  assumes "revision_ok m"
  shows "m_revision m = None
    \<or> (\<exists>p s. resolveRevisionSource m = (Some p, False) \<and> pane_source m p = Some s)
    \<or> IsShowingDiff m"
proof (cases "m_revision m")
  case (Some rv)
  with assms have "rv_index rv < length (rv_sources rv)" by (simp add: revision_ok_def)
  with Some show ?thesis
    by (auto simp: resolveRevisionSource_def pane_source_def)
qed simp

text \<open>What rerendering may write: the panes, the matches, the cache, and overlays on the revisions.\<close>

definition rest :: "('f, 'o, 'b) model \<Rightarrow> ('f, 'o, 'b) model" where
  "rest m = m\<lparr>m_revision := None, m_diffResult := None, m_left := None, m_right := None,
     m_searchMatches := [], m_leftMatches := [], m_rightMatches := [], m_searchIndex := 0\<rparr>"

definition same_revisions :: "('f, 'o) revisions option \<Rightarrow> ('f, 'o) revisions option \<Rightarrow> bool" where
  "same_revisions a b \<longleftrightarrow> rel_option (\<lambda>r r'. rv_index r' = rv_index r
     \<and> list_all2 same_source (rv_sources r) (rv_sources r')) a b"

definition keeps :: "('f, 'o, 'b) model \<Rightarrow> ('f, 'o, 'b) model \<Rightarrow> bool" where
  "keeps m m' \<longleftrightarrow> rest m' = rest m \<and> same_revisions (m_revision m) (m_revision m')"

lemma same_revisions_refl [simp]: "same_revisions r r"
  by (cases r) (simp_all add: same_revisions_def list_all2_refl)

lemma keeps_fields:
  assumes "keeps m m'"
  shows "m_Style m' = m_Style m" "m_printer m' = m_printer m" "m_searchTerm m' = m_searchTerm m"
    "m_KeyMap m' = m_KeyMap m" "m_horizontalStep m' = m_horizontalStep m"
    "m_diffMode m' = m_diffMode m" "m_MouseWheelDelta m' = m_MouseWheelDelta m"
    "m_width m' = m_width m" "m_yOffset m' = m_yOffset m" "m_height m' = m_height m"
    "m_xOffset m' = m_xOffset m" "m_viewMode m' = m_viewMode m" "m_hunkContext m' = m_hunkContext m"
    "m_FillHeight m' = m_FillHeight m" "m_MouseWheelEnabled m' = m_MouseWheelEnabled m"
    "m_WrapEnabled m' = m_WrapEnabled m" "m_initialized m' = m_initialized m"
  using assms by (cases m; cases m'; simp add: keeps_def rest_def)+

lemma keeps_showing:
  assumes "keeps m m'"
  shows "IsShowingDiff m' = IsShowingDiff m"
proof (cases "m_revision m")
  case None
  with assms have "m_revision m' = None" by (simp add: keeps_def same_revisions_def)
  with None show ?thesis by (simp add: IsShowingDiff_def)
next
  case (Some rv)
  with assms obtain rv' where "m_revision m' = Some rv'" "rv_index rv' = rv_index rv"
    by (cases "m_revision m'") (auto simp: keeps_def same_revisions_def)
  with Some show ?thesis using keeps_fields(6) [OF assms] by (simp add: IsShowingDiff_def rv_AtOrigin_def)
qed

lemma split_ok_keeps:
  "keeps m m' \<Longrightarrow> split_ok m \<Longrightarrow> (m_right m' = None \<longleftrightarrow> m_right m = None) \<Longrightarrow> split_ok m'"
  "keeps m m' \<Longrightarrow> \<not> (m_viewMode m = ViewModeSideBySide \<and> IsShowingDiff m) \<Longrightarrow> split_ok m'"
  using keeps_showing [of m m'] keeps_fields(12) [of m m'] by (auto simp: split_ok_def)

lemma getAlignedRows_again [simp]:
  "getAlignedRows (snd (getAlignedRows d)) = (fst (getAlignedRows d), snd (getAlignedRows d))"
  by (simp add: getAlignedRows_def split: option.split)

lemma panes_length:
  "length (src_lines (fst (diff_Before d))) = length (src_lines (fst (diff_After (snd (diff_Before d)))))"
  by (simp add: diff_Before_def diff_After_def Let_def case_prod_beta)

lemma on_equal_line_total: "0 \<le> pline p \<Longrightarrow> \<exists>e. on_equal_line ls p = Some e"
  by (auto simp: on_equal_line_def slice_get_def)

lemma equal_positions_total:
  "\<forall>r \<in> set rs. 0 \<le> pline (rstart r) \<Longrightarrow> \<exists>ps. equal_positions ls rs = Some ps"
proof (induction rs)
  case Nil
  then show ?case by simp
next
  case (Cons r rs)
  moreover obtain e where "on_equal_line ls (rstart r) = Some e"
    using on_equal_line_total [of "rstart r" ls] Cons.prems by auto
  ultimately show ?case by auto
qed

lemma combine_matches_ranges:
  "sm_rng ` set (combine_matches ps lm rm) \<subseteq> set lm \<union> set rm"
  by (auto simp: combine_matches_def)

lemma adjustSearchIndex_eq:
  "\<exists>i. adjustSearchIndex m = m\<lparr>m_searchIndex := i\<rparr> \<and> index_ok (m\<lparr>m_searchIndex := i\<rparr>)"
proof (cases "m_searchIndex m \<ge> int (length (m_searchMatches m)) \<or> m_searchIndex m < 0")
  case True
  then show ?thesis
    by (cases "m_searchMatches m = []") (auto simp: adjustSearchIndex_def index_ok_def)
next
  case False
  then have "adjustSearchIndex m = m\<lparr>m_searchIndex := m_searchIndex m\<rparr>"
    by (auto simp: adjustSearchIndex_def)
  with False show ?thesis by (intro exI conjI) (assumption, simp add: index_ok_def)
qed

context viewport_finder begin

lemma updateSearchState_total:
  assumes "m_searchTerm m \<noteq> [] \<longrightarrow> ok (m_searchTerm m)" "index_ok m"
    "m_searchTerm m = [] \<longrightarrow> m_searchMatches m = []"
  shows "\<exists>ms lm rm i. updateSearchState search ls m
        = Some (m\<lparr>m_searchMatches := ms, m_leftMatches := lm, m_rightMatches := rm, m_searchIndex := i\<rparr>)
    \<and> index_ok (m\<lparr>m_searchMatches := ms, m_searchIndex := i\<rparr>)
    \<and> (m_searchTerm m = [] \<longrightarrow> ms = [])
    \<and> (m_searchTerm m \<noteq> [] \<longrightarrow> search ls (m_searchTerm m) = Some (map sm_rng ms))
    \<and> (\<forall>match \<in> set ms. fits (length ls) (sm_rng match))"
proof (cases "m_searchTerm m = []")
  case True
  then show ?thesis
    using assms
    by (intro exI [of _ "[]"] exI [of _ "m_searchIndex m"])
      (simp add: updateSearchState_def clear_matches_def index_ok_def)
next
  case False
  then obtain rs where rs: "search ls (m_searchTerm m) = Some rs" "\<forall>r \<in> set rs. fits (length ls) r"
    using search_fits assms(1) by blast
  define ms where "ms = map (\<lambda>r. \<lparr>sm_rng = r, sm_inLeft = False\<rparr>) rs"
  obtain i where i: "adjustSearchIndex (m\<lparr>m_searchMatches := ms\<rparr>) = m\<lparr>m_searchMatches := ms, m_searchIndex := i\<rparr>"
    "index_ok (m\<lparr>m_searchMatches := ms, m_searchIndex := i\<rparr>)"
    using adjustSearchIndex_eq [of "m\<lparr>m_searchMatches := ms\<rparr>"] by auto
  have "map sm_rng ms = rs" by (simp add: ms_def comp_def)
  with False rs i show ?thesis
    by (intro exI [of _ ms] exI [of _ "m_leftMatches m"] exI [of _ "m_rightMatches m"] exI [of _ i])
      (auto simp: updateSearchState_def ms_def [symmetric] simp del: map_map) 
qed

lemma updateSideBySideSearchState_total:
  assumes "m_searchTerm m \<noteq> [] \<longrightarrow> ok (m_searchTerm m)" "index_ok m"
    "m_searchTerm m = [] \<longrightarrow> m_searchMatches m = []"
  shows "\<exists>ms lm rm i. updateSideBySideSearchState search ls rs m
        = Some (m\<lparr>m_searchMatches := ms, m_leftMatches := lm, m_rightMatches := rm, m_searchIndex := i\<rparr>)
    \<and> index_ok (m\<lparr>m_searchMatches := ms, m_searchIndex := i\<rparr>)
    \<and> (m_searchTerm m = [] \<longrightarrow> ms = [])
    \<and> (m_searchTerm m \<noteq> [] \<longrightarrow> search ls (m_searchTerm m) = Some lm \<and> search rs (m_searchTerm m) = Some rm
         \<and> sm_rng ` set ms \<subseteq> set lm \<union> set rm)"
proof (cases "m_searchTerm m = []")
  case True
  then show ?thesis
    using assms
    by (intro exI [of _ "[]"] exI [of _ "m_searchIndex m"])
      (simp add: updateSideBySideSearchState_def clear_matches_def index_ok_def)
next
  case False
  then obtain lm rm where lm: "search ls (m_searchTerm m) = Some lm" "\<forall>r \<in> set lm. fits (length ls) r"
    and rm: "search rs (m_searchTerm m) = Some rm"
    using search_fits assms(1) by blast
  obtain ps where ps: "equal_positions ls lm = Some ps"
    using equal_positions_total [of lm ls] lm(2) by (auto simp: fits_def)
  define ms where "ms = combine_matches ps lm rm"
  have m1: "m\<lparr>m_leftMatches := lm, m_rightMatches := rm, m_searchMatches := ms\<rparr>
      = m\<lparr>m_searchMatches := ms, m_leftMatches := lm, m_rightMatches := rm\<rparr>"
    by (cases m) simp
  obtain i where i: "adjustSearchIndex (m\<lparr>m_searchMatches := ms, m_leftMatches := lm, m_rightMatches := rm\<rparr>)
      = m\<lparr>m_searchMatches := ms, m_leftMatches := lm, m_rightMatches := rm, m_searchIndex := i\<rparr>"
    "index_ok (m\<lparr>m_searchMatches := ms, m_searchIndex := i\<rparr>)"
    using adjustSearchIndex_eq [of "m\<lparr>m_searchMatches := ms, m_leftMatches := lm, m_rightMatches := rm\<rparr>"]
    by (auto simp: index_ok_def)
  with False lm rm ps combine_matches_ranges [of ps lm rm] show ?thesis
    by (intro exI [of _ ms] exI [of _ lm] exI [of _ rm] exI [of _ i])
      (simp add: updateSideBySideSearchState_def ms_def [symmetric] m1)
qed

end

lemma applySearchOverlays_total:
  assumes "left_source m = Some s" "\<forall>match \<in> set (m_searchMatches m). fits (length (src_lines s)) (sm_rng match)"
  shows "\<exists>s'. applySearchOverlays m = Some (set_left s' m) \<and> same_source s s' \<and> painted m s'"
proof -
  obtain s' where "search_overlays (m_searchIndex m) (m_searchMatches m) s = Some s'" "same_source s s'"
    using search_overlays_total [OF assms(2)] by blast
  then show ?thesis by (intro exI [of _ s']) (auto simp: applySearchOverlays_def assms(1) painted_def)
qed

lemma selected_match_total:
  assumes "\<forall>match \<in> set (m_searchMatches m). 0 \<le> pline (rstart (sm_rng match))"
  shows "\<exists>p b e. selected_match ls m = Some (p, b, e)"
proof (cases "m_searchIndex m \<ge> 0 \<and> m_searchIndex m < int (length (m_searchMatches m))")
  case True
  then have "m_searchMatches m ! nat (m_searchIndex m) \<in> set (m_searchMatches m)" by auto
  with assms on_equal_line_total [of "rstart (sm_rng (m_searchMatches m ! nat (m_searchIndex m)))" ls]
  show ?thesis using True by (auto simp: selected_match_def Let_def)
next
  case False
  then show ?thesis by (auto simp: selected_match_def)
qed

lemma applySideBySideOverlays_total:
  assumes "m_searchTerm m \<noteq> []" "left_source m = Some l" "m_right m = Some r"
    and "\<forall>x \<in> set (m_leftMatches m). fits (length (src_lines l)) x"
    and "\<forall>x \<in> set (m_rightMatches m). fits (length (src_lines r)) x"
    and "sm_rng ` set (m_searchMatches m) \<subseteq> set (m_leftMatches m) \<union> set (m_rightMatches m)"
  shows "\<exists>l' r'. applySideBySideOverlays m = Some ((set_left l' m)\<lparr>m_right := Some r'\<rparr>)
    \<and> same_source l l' \<and> same_source r r' \<and> painted_panes m l' r'"
proof -
  have "\<forall>match \<in> set (m_searchMatches m). 0 \<le> pline (rstart (sm_rng match))"
    using assms(4,5,6) by (auto simp: fits_def)
  then obtain p b e where sel: "selected_match (src_lines l) m = Some (p, b, e)"
    using selected_match_total by blast
  obtain l' where l': "applySideBySidePaneOverlays l (m_leftMatches m) p (b \<or> e) = Some l'" "same_source l l'"
    using pane_overlays_total [OF assms(4)] by blast
  obtain r' where r': "applySideBySidePaneOverlays r (m_rightMatches m) p (\<not> b \<or> e) = Some r'" "same_source r r'"
    using pane_overlays_total [OF assms(5)] by blast
  have "painted_panes m l' r'"
  proof -
    have "same_text (src_lines l) (src_lines l')" using l'(2) by (simp add: same_source_def)
    with sel l'(1) r'(1) show ?thesis unfolding painted_panes_def by blast
  qed
  moreover have "applySideBySideOverlays m = Some ((set_left l' m)\<lparr>m_right := Some r'\<rparr>)"
    using sel l'(1) r'(1) assms(1-3) by (simp add: applySideBySideOverlays_def)
  ultimately show ?thesis using l'(2) r'(2) by blast
qed

lemma set_left_own [simp]:
  "m_left m = Some (PaneOwn s0) \<Longrightarrow> set_left s m = m\<lparr>m_left := Some (PaneOwn s)\<rparr>"
  by (simp add: set_left_def)

lemma left_source_own [simp]: "m_left m = Some (PaneOwn s) \<Longrightarrow> left_source m = Some s"
  by (simp add: left_source_def pane_source_def)

lemma set_left_shape:
  assumes "left_source m = Some s" "same_source s s'"
  shows "\<exists>lf rv. set_left s' m = m\<lparr>m_left := lf, m_revision := rv\<rparr> \<and> left_source (set_left s' m) = Some s'
    \<and> same_revisions (m_revision m) rv
    \<and> (rv = m_revision m \<and> lf = Some (PaneOwn s')
       \<or> lf = m_left m \<and> (\<exists>i. m_left m = Some (PaneRevision i)))"
proof -
  obtain p where p: "m_left m = Some p" "pane_source m p = Some s"
    using assms(1) by (auto simp: left_source_def bind_eq_Some_conv)
  show ?thesis
  proof (cases p)
    case (PaneRevision i)
    with p obtain rv where rv: "m_revision m = Some rv" "i < length (rv_sources rv)" "s = rv_sources rv ! i"
      by (auto simp: pane_source_def split: option.splits if_splits)
    define rv' where "rv' = Some (rv\<lparr>rv_sources := (rv_sources rv)[i := s']\<rparr>)"
    have "list_all2 same_source (rv_sources rv) ((rv_sources rv)[i := s'])"
      using assms(2) rv(2,3) by (auto simp: list_all2_conv_all_nth nth_list_update)
    then have "same_revisions (m_revision m) rv'" by (simp add: same_revisions_def rv rv'_def)
    moreover have "set_left s' m = m\<lparr>m_left := m_left m, m_revision := rv'\<rparr>"
      using p(1) PaneRevision rv(1) by (cases m) (simp add: set_left_def rv'_def)
    moreover have "left_source (set_left s' m) = Some s'"
      using p(1) PaneRevision rv by (simp add: set_left_def left_source_def pane_source_def)
    ultimately show ?thesis using p(1) PaneRevision by blast
  next
    case (PaneOwn s0)
    then have "set_left s' m = m\<lparr>m_left := Some (PaneOwn s'), m_revision := m_revision m\<rparr>"
      using p(1) by (cases m) simp
    then show ?thesis by (intro exI [of _ "Some (PaneOwn s')"] exI [of _ "m_revision m"]) simp
  qed
qed

lemma painted_panes_cong:
  "m_searchIndex m = m_searchIndex m' \<Longrightarrow> m_searchMatches m = m_searchMatches m'
     \<Longrightarrow> m_leftMatches m = m_leftMatches m' \<Longrightarrow> m_rightMatches m = m_rightMatches m'
     \<Longrightarrow> painted_panes m = painted_panes m'"
  by (intro ext) (simp add: painted_panes_def selected_match_def)

lemma cached_diff:
  "IsShowingDiff m \<Longrightarrow> fresh_diff m = Some d \<Longrightarrow> m_diffResult m = Some d \<or> m_diffResult m = Some (snd (getAlignedRows d))
     \<Longrightarrow> m_left m = Some (PaneOwn s) \<Longrightarrow> cache_fresh m"
  by (auto simp: cache_fresh_def)

lemma keeps_same_revisions:
  "rest m' = rest m \<Longrightarrow> same_revisions (m_revision m) (m_revision m') \<Longrightarrow> keeps m m'"
  by (simp add: keeps_def)

lemma same_revisions_ok:
  assumes "same_revisions (m_revision m) (m_revision m')" "revision_ok m"
  shows "revision_ok m'"
  unfolding revision_ok_def
proof (intro allI impI)
  fix rv' assume rv': "m_revision m' = Some rv'"
  with assms(1) obtain rv where "m_revision m = Some rv" "rv_index rv' = rv_index rv"
    "length (rv_sources rv') = length (rv_sources rv)"
    by (cases "m_revision m") (auto simp: same_revisions_def dest: list_all2_lengthD)
  with assms(2) show "rv_index rv' < length (rv_sources rv')" by (simp add: revision_ok_def)
qed

lemma settled_keeps:
  assumes "settled ok m" "keeps m m'" "index_ok m'" "m_searchTerm m = [] \<longrightarrow> m_searchMatches m' = []"
  shows "settled ok m'"
  using assms keeps_fields [OF assms(2)] same_revisions_ok [of m m']
  by (simp add: settled_def keeps_def)

context viewport_finder begin

lemma rerender_side_by_side:
  fixes m0 :: "('f, 'o, 'b) model"
  assumes "settled ok m0" "m_viewMode m0 = ViewModeSideBySide" "IsShowingDiff m0"
  shows "\<exists>m. rerender search m0 = Some m \<and> keeps m0 m \<and> vinv ok search m"
proof -
  define m where "m = m0\<lparr>m_diffResult := None, m_right := None\<rparr>"
  have fr: "fresh_diff m = fresh_diff m0" "IsShowingDiff m"
    using IsShowingDiff_cong [of m m0] assms(3) by (auto simp: m_def)
  obtain d where d: "fresh_diff m0 = Some d"
    using fresh_diff_total assms(1,3) by (auto simp: settled_def)
  have get: "getDiffResult m = Some (d, m\<lparr>m_diffResult := Some d\<rparr>)"
    using getDiffResult_fresh [of m] d fr by (simp add: m_def)
  define l r :: "('f, 'o) source" where "l = fst (diff_Before d)" and "r = fst (diff_After (snd (diff_Before d)))"
  have panes: "diff_Before d = (l, snd (getAlignedRows d))"
    "diff_After (snd (getAlignedRows d)) = (r, snd (getAlignedRows d))"
    by (simp_all add: l_def r_def diff_Before_def diff_After_def case_prod_beta)
  define m2 where "m2 = m\<lparr>m_diffResult := Some (snd (getAlignedRows d)), m_left := Some (PaneOwn l), m_right := Some r\<rparr>"
  have m2_eq: "m0\<lparr>m_diffResult := Some (snd (getAlignedRows d)), m_left := Some (PaneOwn l), m_right := Some r\<rparr> = m2"
    by (simp add: m2_def m_def)
  have m2: "m_searchTerm m2 = m_searchTerm m0" "m_left m2 = Some (PaneOwn l)" "m_right m2 = Some r"
    "rest m2 = rest m0" "m_revision m2 = m_revision m0" "m_viewMode m2 = ViewModeSideBySide"
    "m_diffMode m2 = m_diffMode m0" "m_diffResult m2 = Some (snd (getAlignedRows d))"
    using assms(2) by (simp_all add: m2_def m_def rest_def)
  obtain ms lm rm i where st: "updateSideBySideSearchState search (src_lines l) (src_lines r) m2
        = Some (m2\<lparr>m_searchMatches := ms, m_leftMatches := lm, m_rightMatches := rm, m_searchIndex := i\<rparr>)"
    "index_ok (m2\<lparr>m_searchMatches := ms, m_searchIndex := i\<rparr>)" "m_searchTerm m2 = [] \<longrightarrow> ms = []"
    "m_searchTerm m2 \<noteq> [] \<longrightarrow> search (src_lines l) (m_searchTerm m2) = Some lm
       \<and> search (src_lines r) (m_searchTerm m2) = Some rm \<and> sm_rng ` set ms \<subseteq> set lm \<union> set rm"
    using updateSideBySideSearchState_total [of m2 "src_lines l" "src_lines r"] assms(1)
    by (auto simp: settled_def m2_def m_def index_ok_def)
  define m3 where "m3 = m2\<lparr>m_searchMatches := ms, m_leftMatches := lm, m_rightMatches := rm, m_searchIndex := i\<rparr>"
  have m3: "m_left m3 = Some (PaneOwn l)" "m_right m3 = Some r" "m_searchTerm m3 = m_searchTerm m2"
    "m_leftMatches m3 = lm" "m_rightMatches m3 = rm" "m_searchMatches m3 = ms"
    by (simp_all add: m3_def m2)
  have "\<exists>l' r'. applySideBySideOverlays m3 = Some (m3\<lparr>m_left := Some (PaneOwn l'), m_right := Some r'\<rparr>)
    \<and> same_source l l' \<and> same_source r r' \<and> (m_searchTerm m2 \<noteq> [] \<longrightarrow> painted_panes m3 l' r')"
  proof (cases "m_searchTerm m2 = []")
    case True
    then have "applySideBySideOverlays m3 = Some m3" using m3 by (simp add: applySideBySideOverlays_def)
    moreover have "m3\<lparr>m_left := Some (PaneOwn l), m_right := Some r\<rparr> = m3"
      using m3(1,2) by (cases m3) simp
    ultimately show ?thesis using True by (intro exI [of _ l] exI [of _ r]) simp
  next
    case False
    with st(4) have "\<forall>x \<in> set lm. fits (length (src_lines l)) x" "\<forall>x \<in> set rm. fits (length (src_lines r)) x"
      using search_fits [of "m_searchTerm m2" "src_lines l"] search_fits [of "m_searchTerm m2" "src_lines r"]
        assms(1) m2(1) by (auto simp: settled_def)
    with False st(4) applySideBySideOverlays_total [of m3 l r] m3 show ?thesis by auto
  qed
  then obtain l' r' where fin: "applySideBySideOverlays m3 = Some (m3\<lparr>m_left := Some (PaneOwn l'), m_right := Some r'\<rparr>)"
    "same_source l l'" "same_source r r'" "m_searchTerm m2 \<noteq> [] \<longrightarrow> painted_panes m3 l' r'" by blast
  define m4 where "m4 = m3\<lparr>m_left := Some (PaneOwn l'), m_right := Some r'\<rparr>"
  have m4: "m_left m4 = Some (PaneOwn l')" "m_right m4 = Some r'" "m_searchTerm m4 = m_searchTerm m2"
    "m_leftMatches m4 = lm" "m_rightMatches m4 = rm" "m_searchMatches m4 = ms" "m_searchIndex m4 = i"
    "m_viewMode m4 = ViewModeSideBySide" "m_diffResult m4 = Some (snd (getAlignedRows d))"
    "m_revision m4 = m_revision m0" "m_diffMode m4 = m_diffMode m0" "rest m4 = rest m0"
    using m2 m3 by (simp_all add: m4_def m3_def rest_def)
  have "snd (resolveRevisionSource m)" using fr(2) by (simp add: needs_diff)
  then have "rerender search m0 = Some m4"
    using assms(2) st(1) fin(1) get m2_eq unfolding rerender_def m_def [symmetric] Let_def
    by (simp add: panes m3_def [symmetric] m4_def [symmetric] m_def)
  moreover have k: "keeps m0 m4" using m4 by (simp add: keeps_def)
  moreover have "settled ok m4"
    using settled_keeps [OF assms(1) k] st(2,3) m4 m2(1) by (simp add: index_ok_def)
  moreover have "panes_ok search m4"
  proof -
    have "same_text (src_lines l) (src_lines l')" "same_text (src_lines r) (src_lines r')"
      using fin(2,3) by (simp_all add: same_source_def)
    moreover have "length (src_lines l) = length (src_lines r)" by (simp add: l_def r_def panes_length)
    ultimately show ?thesis
      using st(4) m4 search_text [of "src_lines l" "src_lines l'"] search_text [of "src_lines r" "src_lines r'"]
        fin(4) painted_panes_cong [of m4 m3] m3(4-6)
      by (simp add: panes_ok_def same_text_length [symmetric] m4_def m3_def)
  qed
  moreover have "cache_fresh m4"
    using cached_diff [of m4 d l'] IsShowingDiff_cong [of m4 m0] m4 d assms(3) by simp
  moreover have "split_ok m4" using m4(2) by (simp add: split_ok_def)
  ultimately show ?thesis by (auto simp: vinv_def)
qed

lemma show_pane:
  fixes m2 :: "('f, 'o, 'b) model"
  assumes "settled ok m2" "left_source m2 = Some s" "m_right m2 = None"
  shows "\<exists>m4. Option.bind (updateSearchState search (src_lines s) m2) applySearchOverlays = Some m4
    \<and> keeps m2 m4 \<and> settled ok m4 \<and> panes_ok search m4 \<and> m_diffResult m4 = m_diffResult m2
    \<and> (m_revision m4 = m_revision m2 \<and> (\<exists>s. m_left m4 = Some (PaneOwn s))
       \<or> (\<exists>i. m_left m2 = Some (PaneRevision i)))"
proof -
  obtain ms lm rm i where st: "updateSearchState search (src_lines s) m2
        = Some (m2\<lparr>m_searchMatches := ms, m_leftMatches := lm, m_rightMatches := rm, m_searchIndex := i\<rparr>)"
    "index_ok (m2\<lparr>m_searchMatches := ms, m_searchIndex := i\<rparr>)" "m_searchTerm m2 = [] \<longrightarrow> ms = []"
    "m_searchTerm m2 \<noteq> [] \<longrightarrow> search (src_lines s) (m_searchTerm m2) = Some (map sm_rng ms)"
    "\<forall>match \<in> set ms. fits (length (src_lines s)) (sm_rng match)"
    using updateSearchState_total [of m2 "src_lines s"] assms(1) by (auto simp: settled_def)
  define m3 where "m3 = m2\<lparr>m_searchMatches := ms, m_leftMatches := lm, m_rightMatches := rm, m_searchIndex := i\<rparr>"
  have "left_source m3 = left_source m2" by (rule left_source_cong) (simp_all add: m3_def)
  then have m3: "left_source m3 = Some s" "m_left m3 = m_left m2" "m_searchMatches m3 = ms" "m_searchIndex m3 = i"
    "m_right m3 = None" "m_searchTerm m3 = m_searchTerm m2" "m_revision m3 = m_revision m2"
    "m_diffResult m3 = m_diffResult m2" "rest m3 = rest m2"
    using assms(2,3) by (simp_all add: m3_def rest_def)
  obtain s' where s': "applySearchOverlays m3 = Some (set_left s' m3)" "same_source s s'" "painted m3 s'"
    using applySearchOverlays_total [OF m3(1)] st(5) m3(3) by auto
  obtain lf rv where m4: "set_left s' m3 = m3\<lparr>m_left := lf, m_revision := rv\<rparr>"
    "left_source (set_left s' m3) = Some s'" "same_revisions (m_revision m3) rv"
    "rv = m_revision m3 \<and> lf = Some (PaneOwn s')
       \<or> lf = m_left m3 \<and> (\<exists>i. m_left m3 = Some (PaneRevision i))"
    using set_left_shape [OF m3(1) s'(2)] by blast
  define m4 where "m4 = set_left s' m3"
  have f: "m_searchMatches m4 = ms" "m_searchIndex m4 = i" "m_right m4 = None" "m_searchTerm m4 = m_searchTerm m2"
    "m_revision m4 = rv" "m_left m4 = lf" "m_diffResult m4 = m_diffResult m2" "rest m4 = rest m2"
    using m3 by (simp_all add: m4_def m4(1) rest_def)
  have k: "keeps m2 m4" using f m4(3) m3(7) by (simp add: keeps_def)
  moreover have "settled ok m4"
    using settled_keeps [OF assms(1) k] st(2,3) f by (simp add: index_ok_def)
  moreover have "panes_ok search m4"
    using m4(2) f st(4) s'(2,3) m3(3,4) search_text [of "src_lines s" "src_lines s'"]
    by (simp add: panes_ok_def m4_def [symmetric] same_source_def painted_def)
  moreover have "Option.bind (updateSearchState search (src_lines s) m2) applySearchOverlays = Some m4"
    using st(1) s'(1) by (simp add: m3_def m4_def)
  ultimately show ?thesis using f m4(4) m3(2,7) by auto
qed

lemma rerender_plain:
  fixes m0 :: "('f, 'o, 'b) model"
  assumes "settled ok m0" "\<not> (m_viewMode m0 = ViewModeSideBySide \<and> IsShowingDiff m0)"
  shows "\<exists>m. rerender search m0 = Some m \<and> keeps m0 m \<and> vinv ok search m"
proof -
  define m where "m = m0\<lparr>m_diffResult := None, m_right := None\<rparr>"
  have m: "m_revision m = m_revision m0" "m_right m = None" "m_diffResult m = None" "rest m = rest m0"
    "settled ok m"
    using assms(1) by (simp_all add: m_def rest_def settled_def revision_ok_def index_ok_def)
  have fr: "fresh_diff m = fresh_diff m0" "IsShowingDiff m = IsShowingDiff m0"
    "resolveRevisionSource m = resolveRevisionSource m0"
    using IsShowingDiff_cong [of m m0] by (auto simp: m_def)
  have rr: "rerender search m0 = (case getDisplayLines m of None \<Rightarrow> None
     | Some (None, m1) \<Rightarrow> Some (m1\<lparr>m_left := None\<rparr>)
     | Some (Some p, m1) \<Rightarrow> do {
         s \<leftarrow> left_source (m1\<lparr>m_left := Some p\<rparr>);
         Option.bind (updateSearchState search (src_lines s) (m1\<lparr>m_left := Some p\<rparr>)) applySearchOverlays })"
    using assms(2) fr unfolding rerender_def Let_def m_def [symmetric]
    by (auto simp: needs_diff m_def split: option.split prod.split)
  consider (none) "m_revision m0 = None"
    | (plain) p where "resolveRevisionSource m0 = (Some p, False)" "\<exists>s. pane_source m0 p = Some s"
    | (diff) "IsShowingDiff m0"
    using assms(1) resolve_cases [of m0] by (auto simp: settled_def)
  then show ?thesis
  proof cases
    case none
    then have "rerender search m0 = Some (m\<lparr>m_left := None\<rparr>)"
      using fr unfolding rr by (simp add: getDisplayLines_def resolveRevisionSource_def)
    moreover have k: "keeps m0 (m\<lparr>m_left := None\<rparr>)" using m none by (simp add: keeps_def rest_def)
    moreover have "settled ok (m\<lparr>m_left := None\<rparr>)"
      using m(5) by (simp add: settled_def revision_ok_def index_ok_def)
    moreover have "panes_ok search (m\<lparr>m_left := None\<rparr>)" "cache_fresh (m\<lparr>m_left := None\<rparr>)"
      using m by (simp_all add: panes_ok_def left_source_def cache_fresh_def)
    moreover have "split_ok (m\<lparr>m_left := None\<rparr>)" by (rule split_ok_keeps(2) [OF k assms(2)])
    ultimately show ?thesis by (auto simp: vinv_def)
  next
    case (plain p)
    then obtain s where s: "pane_source m0 p = Some s" by blast
    define m2 where "m2 = m\<lparr>m_left := Some p\<rparr>"
    have "pane_source m2 = pane_source m0" by (rule pane_source_cong) (simp add: m2_def m)
    then have m2: "left_source m2 = Some s" "m_right m2 = None" "settled ok m2" "rest m2 = rest m0"
      "m_revision m2 = m_revision m0" "m_diffResult m2 = None"
      using s m by (simp_all add: m2_def left_source_def settled_def revision_ok_def index_ok_def rest_def)
    obtain m4 where m4: "Option.bind (updateSearchState search (src_lines s) m2) applySearchOverlays = Some m4"
      "keeps m2 m4" "settled ok m4" "panes_ok search m4" "m_diffResult m4 = None"
      using show_pane [OF m2(3,1,2)] m2(6) by auto
    have "rerender search m0 = Some m4"
      using fr plain(1) m2(1) m4(1) unfolding rr by (simp add: getDisplayLines_def m2_def [symmetric])
    moreover have k: "keeps m0 m4" using m4(2) m2 by (simp add: keeps_def)
    moreover have "cache_fresh m4" using m4(5) by (simp add: cache_fresh_def)
    moreover have "split_ok m4" by (rule split_ok_keeps(2) [OF k assms(2)])
    ultimately show ?thesis using m4 by (auto simp: vinv_def)
  next
    case diff
    obtain d where d: "fresh_diff m0 = Some d"
      using fresh_diff_total diff assms(1) by (auto simp: settled_def)
    have get: "getDiffResult m = Some (d, m\<lparr>m_diffResult := Some d\<rparr>)"
      using getDiffResult_fresh [OF m(3)] d fr by simp
    have "snd (resolveRevisionSource m)" using fr(2) diff by (simp add: needs_diff)
    then have disp: "getDisplayLines m = Some (Some (PaneOwn (Unified d)), m\<lparr>m_diffResult := Some d\<rparr>)"
      using get by (simp add: getDisplayLines_def case_prod_beta)
    define m2 where "m2 = m\<lparr>m_diffResult := Some d, m_left := Some (PaneOwn (Unified d))\<rparr>"
    have m2: "left_source m2 = Some (Unified d)" "m_right m2 = None" "settled ok m2" "rest m2 = rest m0"
      "m_revision m2 = m_revision m0" "m_diffResult m2 = Some d" "m_left m2 = Some (PaneOwn (Unified d))"
      using m by (simp_all add: m2_def left_source_def pane_source_def settled_def revision_ok_def
          index_ok_def rest_def)
    obtain m4 where m4: "Option.bind (updateSearchState search (src_lines (Unified d :: ('f, 'o) source)) m2)
        applySearchOverlays = Some m4"
      "keeps m2 m4" "settled ok m4" "panes_ok search m4" "m_diffResult m4 = Some d" "m_revision m4 = m_revision m0"
      "\<exists>s. m_left m4 = Some (PaneOwn s)"
      using show_pane [OF m2(3,1,2)] m2(5-7) by auto
    have "rerender search m0 = Some m4"
      using m2(1) m4(1) unfolding rr disp by (simp add: m2_def [symmetric])
    moreover have k: "keeps m0 m4" using m4(2) m2 by (simp add: keeps_def)
    moreover have "cache_fresh m4"
      using cached_diff [of m4 d] IsShowingDiff_cong [of m4 m0] m4 d diff keeps_fields [OF k] by auto
    moreover have "split_ok m4" by (rule split_ok_keeps(2) [OF k assms(2)])
    ultimately show ?thesis using m4 by (auto simp: vinv_def)
  qed
qed

lemma rerender_safe:
  "settled ok m0 \<Longrightarrow> \<exists>m. rerender search m0 = Some m \<and> keeps m0 m \<and> vinv ok search m"
  using rerender_side_by_side [of m0] rerender_plain [of m0] by blast

end

end
