(* ===== verification/Viewport_Safety.thy ===== *)
theory Viewport_Safety
  imports Viewport_Facts
begin

text \<open>
  The operations of the viewport as commands, the states they reach, and the proof that every
  command of a reachable state returns and keeps the invariant. Searching moves the match index
  around the matches and scrolls the selected one into view.
\<close>

datatype ('f, 'o, 'k) command =
    CSetWidth int | CSetHeight int | CSetPrinter print_settings
  | CSetTokens "('f, 'o) source" | CAddRevision "('f, 'o) source" | CClearRevisions
  | CGoToRevision int | CNextRevision | CPrevRevision
  | CSetDiffMode DiffMode | CToggleDiffMode | CSetViewMode ViewMode | CToggleViewMode
  | CSetHunkContext int | CToggleWordWrap
  | CSetYOffset int | CSetXOffset int | CScrollDown int | CScrollUp int
  | CPageDown | CPageUp | CHalfPageDown | CHalfPageUp | CScrollLeft int | CScrollRight int
  | CSetHorizontalStep int | CGotoTop | CGotoBottom
  | CSetSearchTerm string | CClearSearch | CSearchNext | CSearchPrevious
  | CUpdate "'k msg" | CSetFields frame int bool bool

text \<open>\<open>CSetFields\<close> stands for assignments to the exported fields.\<close>

fun perform ::
  "searcher \<Rightarrow> ('k \<Rightarrow> 'b \<Rightarrow> bool) \<Rightarrow> 'b keymap \<Rightarrow> ('f, 'o, 'k) command \<Rightarrow> ('f, 'o, 'b) model
    \<Rightarrow> ('f, 'o, 'b) model option" where
  "perform search mt km (CSetWidth w) m = SetWidth search w m"
| "perform search mt km (CSetHeight h) m = Some (SetHeight h m)"
| "perform search mt km (CSetPrinter p) m = SetPrinter search p m"
| "perform search mt km (CSetTokens s) m = SetTokens search s m"
| "perform search mt km (CAddRevision s) m = AddRevision search s m"
| "perform search mt km CClearRevisions m = ClearRevisions search m"
| "perform search mt km (CGoToRevision i) m = GoToRevision search i m"
| "perform search mt km CNextRevision m = NextRevision search m"
| "perform search mt km CPrevRevision m = PrevRevision search m"
| "perform search mt km (CSetDiffMode d) m = SetDiffMode search d m"
| "perform search mt km CToggleDiffMode m = ToggleDiffMode search m"
| "perform search mt km (CSetViewMode v) m = SetViewMode search v m"
| "perform search mt km CToggleViewMode m = ToggleViewMode search m"
| "perform search mt km (CSetHunkContext n) m = Some (SetHunkContext n m)"
| "perform search mt km CToggleWordWrap m = ToggleWordWrap search m"
| "perform search mt km (CSetYOffset n) m = Some (SetYOffset n m)"
| "perform search mt km (CSetXOffset n) m = Some (SetXOffset n m)"
| "perform search mt km (CScrollDown n) m = Some (ScrollDown n m)"
| "perform search mt km (CScrollUp n) m = Some (ScrollUp n m)"
| "perform search mt km CPageDown m = Some (PageDown m)"
| "perform search mt km CPageUp m = Some (PageUp m)"
| "perform search mt km CHalfPageDown m = Some (HalfPageDown m)"
| "perform search mt km CHalfPageUp m = Some (HalfPageUp m)"
| "perform search mt km (CScrollLeft n) m = Some (ScrollLeft n m)"
| "perform search mt km (CScrollRight n) m = Some (ScrollRight n m)"
| "perform search mt km (CSetHorizontalStep n) m = Some (SetHorizontalStep n m)"
| "perform search mt km CGotoTop m = Some (GotoTop m)"
| "perform search mt km CGotoBottom m = Some (GotoBottom m)"
| "perform search mt km (CSetSearchTerm t) m = SetSearchTerm search t m"
| "perform search mt km CClearSearch m = ClearSearch search m"
| "perform search mt km CSearchNext m = SearchNext m"
| "perform search mt km CSearchPrevious m = SearchPrevious m"
| "perform search mt km (CUpdate msg) m = Update search mt km msg m"
| "perform search mt km (CSetFields st delta fill wheel) m = Some (m\<lparr>m_Style := st,
     m_MouseWheelDelta := delta, m_FillHeight := fill, m_MouseWheelEnabled := wheel\<rparr>)"

text \<open>Search texts are the only input that can hang the viewport.\<close>

fun command_ok :: "(string \<Rightarrow> bool) \<Rightarrow> ('f, 'o, 'k) command \<Rightarrow> bool" where
  "command_ok ok (CSetSearchTerm t) \<longleftrightarrow> t = [] \<or> ok t"
| "command_ok ok c \<longleftrightarrow> True"

inductive vp_reach ::
  "(string \<Rightarrow> bool) \<Rightarrow> searcher \<Rightarrow> ('k \<Rightarrow> 'b \<Rightarrow> bool) \<Rightarrow> 'b keymap \<Rightarrow> ('f, 'o, 'b) model \<Rightarrow> bool"
  for ok search mt km where
  reach_New: "\<forall>opt \<in> set opts. opt \<in> range view_WithPrinter \<union> range view_WithStyle
     \<Longrightarrow> vp_reach ok search mt km (New_model km p opts)"
| reach_perform: "vp_reach ok search mt km m \<Longrightarrow> command_ok ok c
     \<Longrightarrow> perform search mt km c m = Some m' \<Longrightarrow> vp_reach ok search mt km m'"

section \<open>Operations without rerendering\<close>

lemma vinv_fields:
  assumes "vinv ok search m" "settled ok m'"
    and "m_left m' = m_left m" "m_right m' = m_right m" "m_revision m' = m_revision m"
    "m_diffResult m' = m_diffResult m" "m_searchTerm m' = m_searchTerm m"
    "m_searchMatches m' = m_searchMatches m" "m_leftMatches m' = m_leftMatches m"
    "m_rightMatches m' = m_rightMatches m" "m_viewMode m' = m_viewMode m" "m_diffMode m' = m_diffMode m"
    "m_searchIndex m' = m_searchIndex m"
  shows "vinv ok search m'"
proof -
  have l: "left_source m' = left_source m" using assms by (intro left_source_cong)
  have "painted m' = painted m" "painted_panes m' = painted_panes m"
    using assms painted_panes_cong [of m' m] by (auto simp: painted_def fun_eq_iff)
  then have "panes_ok search m'"
    using assms l by (simp add: vinv_def panes_ok_def cong: option.case_cong)
  moreover have "cache_fresh m'"
    using assms IsShowingDiff_cong [of m' m] by (simp add: vinv_def cache_fresh_def)
  moreover have "split_ok m'"
    using assms IsShowingDiff_cong [of m' m] by (simp add: vinv_def split_ok_def)
  ultimately show ?thesis using assms(2) by (simp add: vinv_def)
qed

lemma go_clamp_bounds: "0 \<le> n \<Longrightarrow> 0 \<le> go_clamp v 0 n \<and> go_clamp v 0 n \<le> n"
  by (simp add: go_clamp_def)

lemma maxYOffset_nonneg: "0 \<le> maxYOffset m"
  by (simp add: maxYOffset_def Let_def)

lemma maxXOffset_nonneg: "0 \<le> maxXOffset m"
  by (simp add: maxXOffset_def split: option.split)

lemma vinv_settled: "vinv ok search m \<Longrightarrow> settled ok m"
  by (simp add: vinv_def)

lemmas settled_defs = settled_def revision_ok_def index_ok_def

lemma vinv_SetYOffset [intro]: "vinv ok search m \<Longrightarrow> vinv ok search (SetYOffset n m)"
  by (rule vinv_fields)
     (auto simp: SetYOffset_def settled_defs go_clamp_bounds maxYOffset_nonneg dest!: vinv_settled)

lemma vinv_SetXOffset [intro]: "vinv ok search m \<Longrightarrow> vinv ok search (SetXOffset n m)"
  by (rule vinv_fields)
     (auto simp: SetXOffset_def settled_defs go_clamp_bounds maxXOffset_nonneg dest!: vinv_settled)

lemma vinv_scrolls [intro]:
  assumes "vinv ok search m"
  shows "vinv ok search (ScrollDown n m)" "vinv ok search (ScrollUp n m)" "vinv ok search (PageDown m)"
    "vinv ok search (PageUp m)" "vinv ok search (HalfPageDown m)" "vinv ok search (HalfPageUp m)"
    "vinv ok search (ScrollLeft n m)" "vinv ok search (ScrollRight n m)" "vinv ok search (GotoTop m)"
    "vinv ok search (GotoBottom m)" "vinv ok search (scrollToCurrentMatch m)"
  using assms
  by (auto simp: ScrollDown_def ScrollUp_def PageDown_def PageUp_def HalfPageDown_def HalfPageUp_def
      ScrollLeft_def ScrollRight_def GotoTop_def GotoBottom_def scrollToCurrentMatch_def)

lemma vinv_settings [intro]:
  assumes "vinv ok search m"
  shows "vinv ok search (SetHeight h m)" "vinv ok search (SetHunkContext n m)"
    "vinv ok search (SetHorizontalStep n m)" "vinv ok search (updatePrinterWidth m)"
    "vinv ok search (m\<lparr>m_width := w\<rparr>)"
    "vinv ok search (m\<lparr>m_Style := st, m_MouseWheelDelta := delta, m_FillHeight := fill,
       m_MouseWheelEnabled := wheel\<rparr>)"
  by (rule vinv_fields [OF assms]; use vinv_settled [OF assms] in
      \<open>simp add: SetHeight_def SetHunkContext_def SetHorizontalStep_def updatePrinterWidth_def settled_defs\<close>)+

lemma vinv_wheel [intro]: "vinv ok search m \<Longrightarrow> vinv ok search (wheel_action shift b m)"
  by (cases b) (auto simp: wheel_action_def)

section \<open>Operations that rerender\<close>

text \<open>\<open>safe op m\<close>: the operation returns and keeps the invariant.\<close>

definition safe_result :: "(string \<Rightarrow> bool) \<Rightarrow> searcher \<Rightarrow> ('f, 'o, 'b) model option \<Rightarrow> bool" where
  "safe_result ok search r \<longleftrightarrow> (\<exists>m. r = Some m \<and> vinv ok search m)"

lemma safe_Some [simp]: "safe_result ok search (Some m) \<longleftrightarrow> vinv ok search m"
  by (simp add: safe_result_def)

lemma safe_bind:
  "safe_result ok search r \<Longrightarrow> (\<And>m. vinv ok search m \<Longrightarrow> safe_result ok search (f m))
     \<Longrightarrow> safe_result ok search (Option.bind r f)"
  by (auto simp: safe_result_def)

lemma safe_map_option:
  "safe_result ok search r \<Longrightarrow> (\<And>m. vinv ok search m \<Longrightarrow> vinv ok search (f m))
     \<Longrightarrow> safe_result ok search (map_option f r)"
  by (auto simp: safe_result_def)

context viewport_finder begin

lemma rerender_ok: "settled ok m \<Longrightarrow> safe_result ok search (rerender search m)"
  using rerender_safe [of m] by (auto simp: safe_result_def)

lemma revision_ops_safe:
  assumes "vinv ok search m"
  shows "safe_result ok search (AddRevision search s m)" "safe_result ok search (ClearRevisions search m)"
    "safe_result ok search (SetTokens search s m)" "safe_result ok search (GoToRevision search i m)"
    "safe_result ok search (seekRevision search n m)"
proof -
  have st: "settled ok m" by (rule vinv_settled [OF assms])
  have add: "safe_result ok search (AddRevision search s m)" if "settled ok m" for m :: "('a, 'b, 'c) model"
    unfolding AddRevision_def Let_def
    by (rule safe_bind, rule rerender_ok)
       (use that in \<open>auto simp: settled_defs split: option.splits\<close>)
  then show "safe_result ok search (AddRevision search s m)" using st by blast
  show clear: "safe_result ok search (ClearRevisions search m)"
    unfolding ClearRevisions_def using st by (intro rerender_ok) (simp add: settled_defs)
  show "safe_result ok search (SetTokens search s m)"
    unfolding SetTokens_def by (rule safe_bind [OF clear add]) (rule vinv_settled)
  show "safe_result ok search (GoToRevision search i m)"
    unfolding GoToRevision_def Let_def
    by (cases "m_revision m", simp add: assms, simp, rule safe_bind, rule rerender_ok)
       (use st in \<open>auto simp: settled_defs rv_goto_def go_clamp_def\<close>)
  show "safe_result ok search (seekRevision search n m)"
  proof (cases "m_revision m")
    case (Some rv)
    have "safe_result ok search (Option.bind (rerender search (m\<lparr>m_revision := Some (rv_Seek n rv)\<rparr>))
        (\<lambda>m1. Some (GotoTop m1)))"
      by (rule safe_bind, rule rerender_ok)
         (use st Some in \<open>auto simp: settled_defs rv_goto_def rv_Seek_def\<close>)
    with Some assms show ?thesis by (simp add: seekRevision_def)
  qed (simp add: seekRevision_def assms)
qed

lemma mode_ops_safe:
  assumes "vinv ok search m"
  shows "safe_result ok search (SetDiffMode search d m)" "safe_result ok search (ToggleDiffMode search m)"
    "safe_result ok search (SetViewMode search v m)" "safe_result ok search (ToggleViewMode search m)"
    "safe_result ok search (ToggleWordWrap search m)" "safe_result ok search (SetPrinter search p m)"
    "safe_result ok search (ClearSearch search m)"
  using vinv_settled [OF assms] assms
  by (auto simp: SetDiffMode_def ToggleDiffMode_def SetViewMode_def ToggleViewMode_def
      ToggleWordWrap_def SetPrinter_def ClearSearch_def Let_def updatePrinterWidth_def settled_defs
      intro!: rerender_ok)

lemma SetWidth_safe:
  assumes "vinv ok search m"
  shows "safe_result ok search (SetWidth search w m)"
proof -
  have "vinv ok search (updatePrinterWidth (m\<lparr>m_width := w\<rparr>))" using assms by (intro vinv_settings)
  with rerender_ok [OF vinv_settled [OF this]] assms show ?thesis by (simp add: SetWidth_def Let_def)
qed

lemma SetSearchTerm_safe:
  assumes "vinv ok search m" "t = [] \<or> ok t"
  shows "safe_result ok search (SetSearchTerm search t m)"
proof (cases "t = []")
  case False
  have "settled ok (m\<lparr>m_searchTerm := t\<rparr>)"
    using vinv_settled [OF assms(1)] assms(2) False by (simp add: settled_defs)
  with False show ?thesis
    by (auto simp: SetSearchTerm_def intro!: safe_map_option rerender_ok)
qed (use mode_ops_safe [OF assms(1)] in \<open>simp add: SetSearchTerm_def\<close>)

section \<open>Moving between the matches\<close>

lemma go_rem_step:
  assumes "0 \<le> i" "i < n" "\<bar>d\<bar> \<le> 1"
  shows "go_rem (i + d + n) n = (i + d) mod n"
proof -
  have "0 \<le> i + d + n" using assms by linarith
  then show ?thesis by (simp add: go_rem_def)
qed

lemma navigate_overlays:
  fixes m :: "('f, 'o, 'b) model"
  assumes "vinv ok search m" "m_searchMatches m \<noteq> []" "0 \<le> i" "i < int (length (m_searchMatches m))"
  defines "m1 \<equiv> m\<lparr>m_searchIndex := i\<rparr>"
  shows "\<exists>m2. (if m_viewMode m1 = ViewModeSideBySide \<and> m_right m1 \<noteq> None
               then applySideBySideOverlays m1
               else if m_left m1 \<noteq> None then applySearchOverlays m1 else Some m1) = Some m2
    \<and> vinv ok search m2 \<and> keeps m1 m2 \<and> m_searchMatches m2 = m_searchMatches m \<and> m_searchIndex m2 = i
    \<and> (left_source m2 = None \<longleftrightarrow> left_source m = None)"
proof -
  have st: "settled ok m1" using assms by (simp add: vinv_def settled_defs)
  have tm: "m_searchTerm m \<noteq> []" "ok (m_searchTerm m)" using assms(1,2) by (auto simp: vinv_def settled_def)
  have pn: "panes_ok search m" using assms(1) by (simp add: vinv_def)
  have cf: "cache_fresh m1"
    using assms(1) IsShowingDiff_cong [of m1 m] by (simp add: vinv_def cache_fresh_def m1_def)
  have sp: "split_ok m1"
    using assms(1) IsShowingDiff_cong [of m1 m] by (simp add: vinv_def split_ok_def m1_def)
  have lm: "left_source m1 = left_source m" by (rule left_source_cong) (simp_all add: m1_def)
  have same: "m_left m1 = m_left m" "m_right m1 = m_right m" "m_viewMode m1 = m_viewMode m"
    "m_leftMatches m1 = m_leftMatches m" "m_rightMatches m1 = m_rightMatches m"
    by (simp_all add: m1_def)
  have m1: "m_searchTerm m1 = m_searchTerm m" "m_searchMatches m1 = m_searchMatches m" "m_searchIndex m1 = i"
    by (simp_all add: m1_def)
  show ?thesis
  proof (cases "left_source m1")
    case None
    with pn lm have none: "m_left m1 = None" "m_right m1 = None" by (simp_all add: panes_ok_def same)
    then have "vinv ok search m1" using st cf sp None by (simp add: vinv_def panes_ok_def)
    then show ?thesis using none m1 lm by (simp add: keeps_def)
  next
    case (Some l)
    have here: "left_source m = Some l" using Some lm by simp
    have left: "m_left m1 \<noteq> None" using Some by (cases "m_left m1") (simp_all add: left_source_def)
    show ?thesis
    proof (cases "m_right m1")
      case None
      with here pn tm m1 have sr: "search (src_lines l) (m_searchTerm m) = Some (map sm_rng (m_searchMatches m))"
        by (simp add: panes_ok_def same)
      from sr search_fits [OF tm(2), of "src_lines l"]
      have "\<forall>match \<in> set (m_searchMatches m1). fits (length (src_lines l)) (sm_rng match)" using m1 by auto
      from applySearchOverlays_total [OF Some this] obtain l' where
        l': "applySearchOverlays m1 = Some (set_left l' m1)" "same_source l l'" "painted m1 l'" by blast
      obtain lf rv where sh: "set_left l' m1 = m1\<lparr>m_left := lf, m_revision := rv\<rparr>"
        "left_source (set_left l' m1) = Some l'" "same_revisions (m_revision m1) rv"
        "rv = m_revision m1 \<and> lf = Some (PaneOwn l')
         \<or> lf = m_left m1 \<and> (\<exists>i. m_left m1 = Some (PaneRevision i))"
        using set_left_shape [OF Some l'(2)] by blast
      define m2 where "m2 = set_left l' m1"
      have m2: "m_searchTerm m2 = m_searchTerm m" "m_searchMatches m2 = m_searchMatches m" "m_searchIndex m2 = i"
        "m_right m2 = None" "m_diffResult m2 = m_diffResult m1" "m_diffMode m2 = m_diffMode m1" "rest m2 = rest m1"
        "m_left m2 = lf" "m_revision m2 = rv"
        using sh(1) None m1 by (simp_all add: m2_def rest_def)
      have k: "keeps m1 m2" using m2 sh(3) by (simp add: keeps_def)
      have "settled ok m2" using settled_keeps [OF st k] m2 tm assms by (simp add: index_ok_def)
      moreover have "panes_ok search m2"
        using sr m1 m2 sh(2) l'(2,3) search_text [of "src_lines l" "src_lines l'"]
        by (simp add: panes_ok_def m2_def [symmetric] same_source_def same painted_def)
      moreover have "cache_fresh m2"
        using cf sh(4) m2 IsShowingDiff_cong [of m2 m1] unfolding cache_fresh_def by auto
      moreover have "split_ok m2" using split_ok_keeps(1) [OF k sp] m2(4) None by simp
      ultimately show ?thesis using l'(1) left None k m2 sh(2) here by (auto simp: m2_def vinv_def)
    next
      case right: (Some r)
      with here pn m1 tm have p: "m_viewMode m1 = ViewModeSideBySide" "m_left m1 = Some (PaneOwn l)"
        "length (src_lines l) = length (src_lines r)"
        "search (src_lines l) (m_searchTerm m) = Some (m_leftMatches m1)"
        "search (src_lines r) (m_searchTerm m) = Some (m_rightMatches m1)"
        "sm_rng ` set (m_searchMatches m1) \<subseteq> set (m_leftMatches m1) \<union> set (m_rightMatches m1)"
        by (simp_all add: panes_ok_def same)
      with search_fits [OF tm(2), of "src_lines l"] search_fits [OF tm(2), of "src_lines r"]
      have "\<forall>x \<in> set (m_leftMatches m1). fits (length (src_lines l)) x"
        "\<forall>x \<in> set (m_rightMatches m1). fits (length (src_lines r)) x" by auto
      from applySideBySideOverlays_total [OF _ Some right this p(6)] tm(1) m1(1)
      obtain l' r' where o: "applySideBySideOverlays m1 = Some ((set_left l' m1)\<lparr>m_right := Some r'\<rparr>)"
        "same_source l l'" "same_source r r'" "painted_panes m1 l' r'" by auto
      define m2 where "m2 = m1\<lparr>m_left := Some (PaneOwn l'), m_right := Some r'\<rparr>"
      have m2: "m_searchTerm m2 = m_searchTerm m" "m_searchMatches m2 = m_searchMatches m" "m_searchIndex m2 = i"
        "m_right m2 = Some r'" "m_diffResult m2 = m_diffResult m1" "m_diffMode m2 = m_diffMode m1"
        "rest m2 = rest m1" "m_left m2 = Some (PaneOwn l')" "m_revision m2 = m_revision m1"
        "m_leftMatches m2 = m_leftMatches m1" "m_rightMatches m2 = m_rightMatches m1"
        "m_viewMode m2 = m_viewMode m1"
        using m1 by (simp_all add: m2_def rest_def)
      have k: "keeps m1 m2" using m2 by (simp add: keeps_def)
      have "settled ok m2" using settled_keeps [OF st k] m2 tm assms by (simp add: index_ok_def)
      moreover have "panes_ok search m2"
      proof -
        have "same_text (src_lines l) (src_lines l')" "same_text (src_lines r) (src_lines r')"
          using o(2,3) by (simp_all add: same_source_def)
        then show ?thesis
          using p m1 m2 o(4) painted_panes_cong [of m2 m1]
            search_text [of "src_lines l" "src_lines l'"] search_text [of "src_lines r" "src_lines r'"]
          by (simp add: panes_ok_def same_text_length [symmetric])
      qed
      moreover have "cache_fresh m2"
        using cf m2 IsShowingDiff_cong [of m2 m1] unfolding cache_fresh_def by auto
      moreover have "split_ok m2" using split_ok_keeps(1) [OF k sp] m2(4) right by simp
      moreover have "applySideBySideOverlays m1 = Some m2" using o(1) p(2) by (simp add: m2_def)
      ultimately show ?thesis using right p(1) k m2 here by (auto simp: vinv_def)
    qed
  qed
qed

lemma scroll_keeps:
  "m_searchMatches (scrollToCurrentMatch m) = m_searchMatches m"
  "m_searchIndex (scrollToCurrentMatch m) = m_searchIndex m"
  "left_source (scrollToCurrentMatch m) = left_source m"
  "maxHeight (scrollToCurrentMatch m) = maxHeight m"
  by (auto simp: scrollToCurrentMatch_def SetYOffset_def maxHeight_def intro: left_source_cong)

lemma navigateSearch_safe:
  assumes "vinv ok search m" "\<bar>d\<bar> \<le> 1"
  shows "\<exists>m'. navigateSearch d m = Some m' \<and> vinv ok search m'
    \<and> m_searchMatches m' = m_searchMatches m
    \<and> (m_searchMatches m = [] \<and> m' = m
       \<or> m_searchMatches m \<noteq> [] \<and> m_searchIndex m' = (m_searchIndex m + d) mod int (length (m_searchMatches m))
         \<and> (left_source m' = None \<longleftrightarrow> left_source m = None) \<and> maxHeight m' = maxHeight m
         \<and> (\<exists>m2. m' = scrollToCurrentMatch m2 \<and> m_searchMatches m2 = m_searchMatches m
              \<and> m_searchIndex m2 = m_searchIndex m' \<and> vinv ok search m2))"
proof (cases "m_searchMatches m = []")
  case True
  then show ?thesis using assms(1) by (simp add: navigateSearch_def)
next
  case False
  let ?n = "int (length (m_searchMatches m))"
  let ?i = "(m_searchIndex m + d) mod ?n"
  have i: "0 \<le> m_searchIndex m" "m_searchIndex m < ?n"
    using assms(1) False by (auto simp: vinv_def settled_defs)
  have "0 \<le> ?i" "?i < ?n" using False by simp_all
  define m1 where "m1 = m\<lparr>m_searchIndex := ?i\<rparr>"
  let ?o = "if m_viewMode m1 = ViewModeSideBySide \<and> m_right m1 \<noteq> None then applySideBySideOverlays m1
    else if m_left m1 \<noteq> None then applySearchOverlays m1 else Some m1"
  obtain m2 where m2: "?o = Some m2"
    "vinv ok search m2" "m_searchMatches m2 = m_searchMatches m" "m_searchIndex m2 = ?i" "keeps m1 m2"
    "left_source m2 = None \<longleftrightarrow> left_source m = None"
    using navigate_overlays [OF assms(1) False \<open>0 \<le> ?i\<close> \<open>?i < ?n\<close>, folded m1_def]
    by (elim exE conjE) (rule that)
  have "navigateSearch d m = Option.bind ?o (\<lambda>m2. Some (scrollToCurrentMatch m2))"
    unfolding navigateSearch_def Let_def go_rem_step [OF i assms(2)] m1_def using False by simp
  then have "navigateSearch d m = Some (scrollToCurrentMatch m2)" by (simp only: m2(1) Option.bind.simps)
  moreover have f: "m_searchMatches (scrollToCurrentMatch m2) = m_searchMatches m"
    "m_searchIndex (scrollToCurrentMatch m2) = ?i"
    using m2(3,4) by (simp_all add: scrollToCurrentMatch_def SetYOffset_def)
  moreover have "maxHeight (scrollToCurrentMatch m2) = maxHeight m"
    using keeps_fields(1,10) [OF m2(5)] unfolding scroll_keeps by (simp add: maxHeight_def m1_def)
  moreover have "left_source (scrollToCurrentMatch m2) = None \<longleftrightarrow> left_source m = None"
    using m2(6) by (simp add: scroll_keeps)
  moreover have "vinv ok search (scrollToCurrentMatch m2)" using m2(2) by (rule vinv_scrolls)
  moreover have "\<exists>m3. scrollToCurrentMatch m2 = scrollToCurrentMatch m3 \<and> m_searchMatches m3 = m_searchMatches m
      \<and> m_searchIndex m3 = m_searchIndex (scrollToCurrentMatch m2) \<and> vinv ok search m3"
    unfolding f using m2 by (intro exI [of _ m2]) simp
  ultimately show ?thesis using False
    by - (rule exI [of _ "scrollToCurrentMatch m2"], intro conjI disjI2, assumption+)
qed

lemma search_ops_safe:
  "vinv ok search m \<Longrightarrow> safe_result ok search (SearchNext m)"
  "vinv ok search m \<Longrightarrow> safe_result ok search (SearchPrevious m)"
  using navigateSearch_safe [of m 1] navigateSearch_safe [of m "-1"]
  by (auto simp: safe_result_def SearchNext_def SearchPrevious_def)

lemma Update_safe:
  assumes "vinv ok search m"
  shows "safe_result ok search (Update search mt km msg m)"
proof -
  have key: "safe_result ok search (key_action search mt k m)" for k
    using assms revision_ops_safe(5) [OF assms] mode_ops_safe [OF assms]
    unfolding key_action_def Let_def NextRevision_def PrevRevision_def by auto
  have "m_initialized m" using assms by (simp add: vinv_def settled_def)
  with key assms show ?thesis by (cases msg) (auto simp: Update_def)
qed

lemma perform_safe:
  assumes "vinv ok search m" "command_ok ok c"
  shows "safe_result ok search (perform search mt km c m)"
  using assms revision_ops_safe [OF assms(1)] mode_ops_safe [OF assms(1)] SetWidth_safe [OF assms(1)]
    SetSearchTerm_safe [OF assms(1)] search_ops_safe [OF assms(1)] Update_safe [OF assms(1)]
  by (cases c) (simp_all add: NextRevision_def PrevRevision_def vinv_scrolls vinv_settings
      vinv_SetYOffset vinv_SetXOffset)

lemma New_model_vinv:
  assumes "\<forall>opt \<in> set opts. opt \<in> range view_WithPrinter \<union> range view_WithStyle"
  shows "vinv ok search (New_model km p opts)"
proof -
  define blank :: "('a, 'b, 'c) model \<Rightarrow> bool" where
    "blank m \<longleftrightarrow> m_revision m = None \<and> m_diffResult m = None \<and> m_left m = None \<and> m_right m = None
      \<and> m_searchTerm m = [] \<and> m_searchMatches m = [] \<and> m_yOffset m = 0 \<and> m_xOffset m = 0" for m
  have "blank (foldl (\<lambda>m opt. opt m) (zero_model km p) opts)"
  proof (rule foldl_invariant)
    show "blank (zero_model km p)" by (simp add: blank_def zero_model_def)
  next
    fix m :: "('a, 'b, 'c) model" and opt
    assume opt: "opt \<in> set opts" and b: "blank m"
    with assms have "opt \<in> range view_WithPrinter \<union> range view_WithStyle" by blast
    then show "blank (opt m)" using b by (auto simp: blank_def view_WithPrinter_def view_WithStyle_def)
  qed
  then show ?thesis
    by (simp add: blank_def New_model_def setInitialValues_def vinv_def settled_defs panes_ok_def
        left_source_def cache_fresh_def split_ok_def IsShowingDiff_def)
qed

lemma reachable_vinv:
  "vp_reach ok search mt km m \<Longrightarrow> vinv ok search m"
proof (induction rule: vp_reach.induct)
  case (reach_New opts p)
  then show ?case by (rule New_model_vinv)
next
  case (reach_perform m c m')
  then show ?case using perform_safe [of m c mt km] by (simp add: safe_result_def)
qed

end

section \<open>Scrolling to a match\<close>

lemma half_bounds: "0 \<le> n \<Longrightarrow> half n = n div 2"
  by (simp add: half_def)

lemma scroll_shows_line:
  assumes "0 \<le> ln" "ln < lineCount m" "0 < maxHeight m"
  defines "m' \<equiv> SetYOffset (ln - half (maxHeight m - 1)) m"
  shows "m_yOffset m' \<le> ln \<and> ln < m_yOffset m' + maxHeight m'"
proof -
  let ?h = "half (maxHeight m - 1)"
  have h: "0 \<le> ?h" "?h < maxHeight m" using assms(3) by (simp_all add: half_bounds)
  have mx: "maxYOffset m = max 0 (lineCount m - maxHeight m)"
    using assms(1,2) by (simp add: maxYOffset_def Let_def)
  have "m_yOffset m' = min (max 0 (lineCount m - maxHeight m)) (max 0 (ln - ?h))"
    by (simp add: m'_def SetYOffset_def go_clamp_def mx)
  moreover have "maxHeight m' = maxHeight m" by (simp add: m'_def SetYOffset_def maxHeight_def)
  ultimately show ?thesis using h assms(1,2) by (simp add: min_def max_def)
qed

lemma scrollToCurrentMatch_visible:
  assumes "0 \<le> m_searchIndex m" "m_searchIndex m < int (length (m_searchMatches m))"
    and "left_source m = Some l"
    and "fits (length (src_lines l)) (sm_rng (m_searchMatches m ! nat (m_searchIndex m)))"
    and "0 < maxHeight m"
  defines "m' \<equiv> scrollToCurrentMatch m"
    and "ln \<equiv> pline (rstart (sm_rng (m_searchMatches m ! nat (m_searchIndex m))))"
  shows "m_yOffset m' \<le> ln \<and> ln < m_yOffset m' + maxHeight m'"
proof -
  have "0 \<le> ln" "ln < lineCount m"
    using assms(3,4) by (simp_all add: ln_def fits_def lineCount_def source_Len_def)
  from scroll_shows_line [OF this assms(5)] show ?thesis
    using assms(1,2) by (simp add: m'_def ln_def scrollToCurrentMatch_def)
qed

context viewport_finder begin

text \<open>The matches of a settled viewport lie in its left pane (both panes are as long).\<close>

lemma match_fits:
  assumes "vinv ok search m" "left_source m = Some l" "match \<in> set (m_searchMatches m)"
  shows "fits (length (src_lines l)) (sm_rng match)"
proof -
  have tm: "m_searchTerm m \<noteq> []" "ok (m_searchTerm m)" using assms(1,3) by (auto simp: vinv_def settled_def)
  show ?thesis
  proof (cases "m_right m")
    case None
    with assms(1,2) tm have "search (src_lines l) (m_searchTerm m) = Some (map sm_rng (m_searchMatches m))"
      by (simp add: vinv_def panes_ok_def)
    with search_fits [OF tm(2), of "src_lines l"] assms(3) show ?thesis by auto
  next
    case (Some r)
    with assms(1,2) tm have "length (src_lines l) = length (src_lines r)"
      "search (src_lines l) (m_searchTerm m) = Some (m_leftMatches m)"
      "search (src_lines r) (m_searchTerm m) = Some (m_rightMatches m)"
      "sm_rng ` set (m_searchMatches m) \<subseteq> set (m_leftMatches m) \<union> set (m_rightMatches m)"
      by (simp_all add: vinv_def panes_ok_def)
    with search_fits [OF tm(2), of "src_lines l"] search_fits [OF tm(2), of "src_lines r"] assms(3)
    show ?thesis by auto
  qed
qed

lemma scrolled_match_visible:
  assumes "vinv ok search m" "left_source m = Some l" "m_searchMatches m \<noteq> []" "0 < maxHeight m"
  shows "m_yOffset (scrollToCurrentMatch m)
      \<le> pline (rstart (sm_rng (m_searchMatches m ! nat (m_searchIndex m))))
    \<and> pline (rstart (sm_rng (m_searchMatches m ! nat (m_searchIndex m))))
      < m_yOffset (scrollToCurrentMatch m) + maxHeight (scrollToCurrentMatch m)"
proof -
  have i: "0 \<le> m_searchIndex m" "m_searchIndex m < int (length (m_searchMatches m))"
    using assms(1,3) by (auto simp: vinv_def settled_defs)
  then have "m_searchMatches m ! nat (m_searchIndex m) \<in> set (m_searchMatches m)" by simp
  from scrollToCurrentMatch_visible [OF i assms(2) match_fits [OF assms(1,2) this] assms(4)]
  show ?thesis .
qed

lemma navigate_visible:
  assumes "vinv ok search m" "\<bar>d\<bar> \<le> 1" "navigateSearch d m = Some m'" "m_searchMatches m \<noteq> []"
    "left_source m = Some l" "0 < maxHeight m"
  shows "m_searchMatches m' = m_searchMatches m
    \<and> m_searchIndex m' = (m_searchIndex m + d) mod int (length (m_searchMatches m))
    \<and> m_yOffset m' \<le> pline (rstart (sm_rng (m_searchMatches m' ! nat (m_searchIndex m'))))
    \<and> pline (rstart (sm_rng (m_searchMatches m' ! nat (m_searchIndex m')))) < m_yOffset m' + maxHeight m'"
proof -
  obtain m2 where m2: "m' = scrollToCurrentMatch m2" "m_searchMatches m2 = m_searchMatches m"
    "vinv ok search m2" "m_searchMatches m' = m_searchMatches m"
    "m_searchIndex m' = (m_searchIndex m + d) mod int (length (m_searchMatches m))"
    "left_source m' \<noteq> None" "0 < maxHeight m'"
    using navigateSearch_safe [OF assms(1,2)] assms(3-6) by auto
  then obtain l2 where "left_source m2 = Some l2" "0 < maxHeight m2" by (auto simp: scroll_keeps)
  from scrolled_match_visible [OF m2(3) this(1) _ this(2)] assms(4) m2
  show ?thesis by (simp add: scroll_keeps)
qed

end

section \<open>The highlights\<close>

lemma overlay_step_exact:
  assumes "source_AddOverlay kind [r] s = Some s'" "0 \<le> i" "i < int (length (src_lines s))" "0 \<le> c" "c < maxCol"
    "pline (rstart r) \<le> pline (rend r)"
  shows "length (src_lines s') = length (src_lines s)
    \<and> (overlaid (src_lines s') k i c \<longleftrightarrow> overlaid (src_lines s) k i c \<or> k = kind \<and> range_Contains r (New i c))"
proof -
  obtain ls' where "lines_AddOverlay kind [r] (src_lines s) = Some ls'" "s' = s\<lparr>src_lines := ls'\<rparr>"
    using assms(1) by (auto simp: source_AddOverlay_def)
  with lines_AddOverlay_exact [of kind "[r]" "src_lines s" ls' i c k] assms show ?thesis by simp
qed

lemma overlaid_cleared:
  "0 \<le> i \<Longrightarrow> i < int (length (src_lines s)) \<Longrightarrow> \<not> overlaid (src_lines (source_ClearOverlays s)) k i c"
  by (simp add: overlaid_def source_ClearOverlays_def lines_ClearOverlays_def)

text \<open>The kind that a match is highlighted with.\<close>

definition match_kind :: "bool \<Rightarrow> style" where
  "match_kind selected = (if selected then style_GenericHighlight else style_GenericHighlightDim)"

lemma search_overlays_exact:
  assumes "search_overlays sel matches s = Some s'" "0 \<le> i" "i < int (length (src_lines s))"
    "0 \<le> c" "c < maxCol" "\<forall>match \<in> set matches. fits n (sm_rng match)"
  shows "overlaid (src_lines s') k i c
    \<longleftrightarrow> (\<exists>j < length matches. k = match_kind (int j = sel) \<and> range_Contains (sm_rng (matches ! j)) (New i c))"
proof -
  let ?Q = "\<lambda>x. k = match_kind (int (fst x) = sel) \<and> range_Contains (sm_rng (snd x)) (New i c)"
  have fold: "foldM (overlay_step sel) (source_ClearOverlays s) (enumerate 0 matches) = Some s'"
    using assms(1) by (simp add: search_overlays_def)
  have "length (src_lines s') = length (src_lines s)
    \<and> (overlaid (src_lines s') k i c \<longleftrightarrow> overlaid (src_lines (source_ClearOverlays s)) k i c
        \<or> (\<exists>x \<in> set (enumerate 0 matches). ?Q x))"
  proof (rule foldM_exact [where I = "\<lambda>u. length (src_lines u) = length (src_lines s)", OF fold])
    show "length (src_lines (source_ClearOverlays s)) = length (src_lines s)"
      by (simp add: source_ClearOverlays_def lines_ClearOverlays_def)
  next
    fix u and x :: "nat \<times> search_match" and v
    assume x: "x \<in> set (enumerate 0 matches)" and u: "length (src_lines u) = length (src_lines s)"
      and v: "overlay_step sel u x = Some v"
    have "snd x \<in> set matches" using x by (auto simp: in_set_enumerate_eq) (metis nth_mem)
    with assms(6) have "pline (rstart (sm_rng (snd x))) \<le> pline (rend (sm_rng (snd x)))" by (auto simp: fits_def)
    with overlay_step_exact [of "match_kind (int (fst x) = sel)" "sm_rng (snd x)" u v i c k] v u assms(2-5)
    show "length (src_lines v) = length (src_lines s)
      \<and> (overlaid (src_lines v) k i c \<longleftrightarrow> overlaid (src_lines u) k i c \<or> ?Q x)"
      by (simp add: overlay_step_def case_prod_beta match_kind_def)
  qed
  moreover have "(\<exists>x \<in> set (enumerate 0 matches). ?Q x) \<longleftrightarrow> (\<exists>j < length matches. ?Q (j, matches ! j))"
  proof
    assume "\<exists>x \<in> set (enumerate 0 matches). ?Q x"
    then obtain x where x: "x \<in> set (enumerate 0 matches)" "?Q x" by blast
    then have "fst x < length matches" "matches ! fst x = snd x" by (simp_all add: in_set_enumerate_eq)
    with x(2) show "\<exists>j < length matches. ?Q (j, matches ! j)" by (intro exI [of _ "fst x"]) simp
  next
    assume "\<exists>j < length matches. ?Q (j, matches ! j)"
    then obtain j where "j < length matches" "?Q (j, matches ! j)" by blast
    then show "\<exists>x \<in> set (enumerate 0 matches). ?Q x"
      by (intro bexI [of _ "(j, matches ! j)"]) (simp_all add: in_set_enumerate_eq)
  qed
  ultimately show ?thesis using overlaid_cleared [OF assms(2,3)] by simp
qed

lemma pane_overlays_exact:
  assumes "applySideBySidePaneOverlays s matches pos sel = Some s'" "0 \<le> i" "i < int (length (src_lines s))"
    "0 \<le> c" "c < maxCol" "\<forall>r \<in> set matches. fits n r"
  shows "overlaid (src_lines s') k i c
    \<longleftrightarrow> (\<exists>r \<in> set matches. k = match_kind (rstart r = pos \<and> sel) \<and> range_Contains r (New i c))"
proof -
  have "length (src_lines s') = length (src_lines s)
    \<and> (overlaid (src_lines s') k i c \<longleftrightarrow> overlaid (src_lines (source_ClearOverlays s)) k i c
        \<or> (\<exists>r \<in> set matches. k = match_kind (rstart r = pos \<and> sel) \<and> range_Contains r (New i c)))"
  proof (rule foldM_exact [where I = "\<lambda>u. length (src_lines u) = length (src_lines s)",
        OF assms(1) [unfolded applySideBySidePaneOverlays_def]])
    show "length (src_lines (source_ClearOverlays s)) = length (src_lines s)"
      by (simp add: source_ClearOverlays_def lines_ClearOverlays_def)
  next
    fix u r v
    assume r: "r \<in> set matches" and u: "length (src_lines u) = length (src_lines s)"
      and v: "pane_overlay_step pos sel u r = Some v"
    from r assms(6) have "pline (rstart r) \<le> pline (rend r)" by (auto simp: fits_def)
    with overlay_step_exact [of "match_kind (rstart r = pos \<and> sel)" r u v i c k] v u assms(2-5)
    show "length (src_lines v) = length (src_lines s)
      \<and> (overlaid (src_lines v) k i c \<longleftrightarrow> overlaid (src_lines u) k i c
          \<or> k = match_kind (rstart r = pos \<and> sel) \<and> range_Contains r (New i c))"
      by (simp add: pane_overlay_step_def match_kind_def)
  qed
  then show ?thesis using overlaid_cleared [OF assms(2,3)] by simp
qed

context viewport_finder begin

lemma painted_exact:
  assumes "vinv ok search m" "left_source m = Some l" "m_right m = None"
    and "0 \<le> i" "i < int (length (src_lines l))" "0 \<le> c" "c < maxCol"
  shows "overlaid (src_lines l) k i c \<longleftrightarrow> (\<exists>j < length (m_searchMatches m).
    k = match_kind (int j = m_searchIndex m) \<and> range_Contains (sm_rng (m_searchMatches m ! j)) (New i c))"
proof -
  obtain s where s: "search_overlays (m_searchIndex m) (m_searchMatches m) s = Some l"
    using assms(1-3) by (auto simp: vinv_def panes_ok_def painted_def)
  have f: "\<forall>match \<in> set (m_searchMatches m). fits (length (src_lines l)) (sm_rng match)"
    using match_fits [OF assms(1,2)] by blast
  have "foldM (overlay_step (m_searchIndex m)) (source_ClearOverlays s) (enumerate 0 (m_searchMatches m)) = Some l"
    using s by (simp add: search_overlays_def)
  then have "length (src_lines l) = length (src_lines s)"
  proof (rule foldM_invariant [where P = "\<lambda>u. length (src_lines u) = length (src_lines s)"])
    show "length (src_lines (source_ClearOverlays s)) = length (src_lines s)"
      by (simp add: source_ClearOverlays_def lines_ClearOverlays_def)
  next
    fix u and x :: "nat \<times> search_match" and v
    assume u: "length (src_lines u) = length (src_lines s)" and "overlay_step (m_searchIndex m) u x = Some v"
    then show "length (src_lines v) = length (src_lines s)"
      by (auto simp: overlay_step_def case_prod_beta source_AddOverlay_def same_text_length
          dest!: lines_AddOverlay_text)
  qed
  with search_overlays_exact [OF s assms(4) _ assms(6,7) f] assms(5) show ?thesis by simp
qed

end

lemma on_equal_line_text: "same_text a b \<Longrightarrow> on_equal_line a p = on_equal_line b p"
proof -
  assume t: "same_text a b"
  then have len: "length a = length b" by (rule same_text_length)
  have "l_flag (a ! i) = l_flag (b ! i)" if "i < length a" for i
  proof -
    have "(a ! i)\<lparr>l_overlays := []\<rparr> = (b ! i)\<lparr>l_overlays := []\<rparr>"
      using t that len unfolding same_text_def by (metis nth_map)
    then show ?thesis by (cases "a ! i"; cases "b ! i") auto
  qed
  then show ?thesis using len by (auto simp: on_equal_line_def slice_get_def)
qed

lemma pane_overlays_length:
  assumes "applySideBySidePaneOverlays s matches pos b = Some s'"
  shows "length (src_lines s') = length (src_lines s)"
  using assms unfolding applySideBySidePaneOverlays_def
proof (rule foldM_invariant [where P = "\<lambda>u. length (src_lines u) = length (src_lines s)"])
  show "length (src_lines (source_ClearOverlays s)) = length (src_lines s)"
    by (simp add: source_ClearOverlays_def lines_ClearOverlays_def)
next
  fix u v :: "('a, 'b) source" and x
  assume "length (src_lines u) = length (src_lines s)" "pane_overlay_step pos b u x = Some v"
  then show "length (src_lines v) = length (src_lines s)"
    by (auto simp: pane_overlay_step_def source_AddOverlay_def same_text_length dest!: lines_AddOverlay_text)
qed

context viewport_finder begin

lemma painted_panes_exact:
  assumes "vinv ok search m" "left_source m = Some l" "m_right m = Some r" "m_searchTerm m \<noteq> []"
    and "0 \<le> i" "i < int (length (src_lines l))" "0 \<le> c" "c < maxCol"
  shows "\<exists>p inLeft isEqual. selected_match (src_lines l) m = Some (p, inLeft, isEqual)
    \<and> (overlaid (src_lines l) k i c \<longleftrightarrow> (\<exists>x \<in> set (m_leftMatches m).
         k = match_kind (rstart x = p \<and> (inLeft \<or> isEqual)) \<and> range_Contains x (New i c)))
    \<and> (overlaid (src_lines r) k i c \<longleftrightarrow> (\<exists>x \<in> set (m_rightMatches m).
         k = match_kind (rstart x = p \<and> (\<not> inLeft \<or> isEqual)) \<and> range_Contains x (New i c)))"
proof -
  have pn: "painted_panes m l r" "length (src_lines l) = length (src_lines r)"
    "search (src_lines l) (m_searchTerm m) = Some (m_leftMatches m)"
    "search (src_lines r) (m_searchTerm m) = Some (m_rightMatches m)" "ok (m_searchTerm m)"
    using assms(1-4) by (auto simp: vinv_def panes_ok_def settled_def)
  then obtain l0 r0 p inLeft isEqual where o: "selected_match (src_lines l0) m = Some (p, inLeft, isEqual)"
    "same_text (src_lines l0) (src_lines l)"
    "applySideBySidePaneOverlays l0 (m_leftMatches m) p (inLeft \<or> isEqual) = Some l"
    "applySideBySidePaneOverlays r0 (m_rightMatches m) p (\<not> inLeft \<or> isEqual) = Some r"
    unfolding painted_panes_def by blast
  have len: "i < int (length (src_lines l0))" "i < int (length (src_lines r0))"
    using pane_overlays_length [OF o(3)] pane_overlays_length [OF o(4)] assms(6) pn(2) by simp_all
  have f: "\<forall>x \<in> set (m_leftMatches m). fits (length (src_lines l)) x"
    "\<forall>x \<in> set (m_rightMatches m). fits (length (src_lines r)) x"
    using search_fits [OF pn(5), of "src_lines l"] search_fits [OF pn(5), of "src_lines r"] pn(3,4) by auto
  have "selected_match (src_lines l) m = selected_match (src_lines l0) m"
    using on_equal_line_text [OF o(2)] by (simp add: selected_match_def)
  then show ?thesis
    using o(1) pane_overlays_exact [OF o(3) assms(5) len(1) assms(7,8) f(1)]
      pane_overlays_exact [OF o(4) assms(5) len(2) assms(7,8) f(2)] by auto
qed

lemma SetSearchTerm_visible:
  assumes "vinv ok search m" "ok t" "t \<noteq> []" "SetSearchTerm search t m = Some m'"
    "m_searchMatches m' \<noteq> []" "left_source m' = Some l" "0 < maxHeight m'"
  shows "m_yOffset m' \<le> pline (rstart (sm_rng (m_searchMatches m' ! nat (m_searchIndex m'))))
    \<and> pline (rstart (sm_rng (m_searchMatches m' ! nat (m_searchIndex m')))) < m_yOffset m' + maxHeight m'"
proof -
  have "settled ok (m\<lparr>m_searchTerm := t\<rparr>)"
    using vinv_settled [OF assms(1)] assms(2,3) by (simp add: settled_defs)
  from rerender_safe [OF this] obtain m2 where "rerender search (m\<lparr>m_searchTerm := t\<rparr>) = Some m2" "vinv ok search m2"
    by blast
  with assms(3,4) have m2: "m' = scrollToCurrentMatch m2" "vinv ok search m2" by (simp_all add: SetSearchTerm_def)
  with scrolled_match_visible [OF m2(2), of l] assms(5-7) show ?thesis by (simp add: scroll_keeps)
qed

end

section \<open>Properties\<close>


definition sample_keymap :: "nat keymap" where
  "sample_keymap = \<lparr>km_Up = 0, km_Down = 1, km_PageUp = 2, km_PageDown = 3, km_HalfPageUp = 4,
     km_HalfPageDown = 5, km_Left = 6, km_Right = 7, km_NextRevision = 8, km_PrevRevision = 9,
     km_ToggleDiffMode = 10, km_ToggleViewMode = 11, km_ToggleWordWrap = 12\<rparr>"

definition sample_model :: "(nat, nat, nat) model" where
  "sample_model = New_model sample_keymap \<lparr>pr_width = 80, pr_wordWrap = True\<rparr> []"

lemma sample_reached: "vp_reach ok search mt km sample_model" if "km = sample_keymap" for km :: "nat keymap"
  unfolding sample_model_def that by (rule reach_New) simp

lemma ascii_searchable: "searchable id ''a''"
  by (simp add: searchable_def) code_simp


text \<open>C26: the diff that the viewport caches is never stale: in every reachable state that shows a diff,
  \<open>DiffStats\<close> returns the numbers of the diff of the revisions that the current mode and index name.\<close>

theorem DiffStats_current:
  assumes "vp_reach (searchable nrm) (finder_search add nrm) mt km m" "IsShowingDiff m"
  shows "\<exists>d. fresh_diff m = Some d \<and> DiffStats m = Some (Stats d)"
proof -
  have v: "vinv (searchable nrm) (finder_search add nrm) m" by (rule library_finder.reachable_vinv [OF assms(1)])
  then obtain d where d: "fresh_diff m = Some d"
    using fresh_diff_total [OF assms(2)] by (auto simp: vinv_def settled_def)
  have same: "Stats (snd (getAlignedRows d)) = Stats d"
    by (simp add: Stats_def getAlignedRows_def split: option.split)
  show ?thesis
  proof (cases "m_diffResult m")
    case None
    with getDiffResult_fresh [OF None] d assms(2) show ?thesis by (simp add: DiffStats_def)
  next
    case (Some d')
    with v d have "d' = d \<or> d' = snd (getAlignedRows d)" by (simp add: vinv_def cache_fresh_def)
    with Some same assms(2) d show ?thesis by (auto simp: DiffStats_def getDiffResult_def)
  qed
qed

text \<open>C6: outside side by side diffs the highlights are exact: in every reachable state the matches are
  those that the finder reports for the lines on display, and a column is highlighted just when a
  match covers it, with the strong style for the selected match and the dim one for the others.\<close>

theorem highlights_exact:
  assumes "vp_reach (searchable nrm) (finder_search add nrm) mt km m"
    and "left_source m = Some l" "m_right m = None"
    and "0 \<le> i" "i < int (length (src_lines l))" "0 \<le> c" "c < maxCol"
  shows "(m_searchTerm m = [] \<and> m_searchMatches m = []
       \<or> finder_search add nrm (src_lines l) (m_searchTerm m) = Some (map sm_rng (m_searchMatches m)))
    \<and> (overlaid (src_lines l) k i c \<longleftrightarrow> (\<exists>j < length (m_searchMatches m).
         k = match_kind (int j = m_searchIndex m) \<and> range_Contains (sm_rng (m_searchMatches m ! j)) (New i c)))"
proof -
  have v: "vinv (searchable nrm) (finder_search add nrm) m" by (rule library_finder.reachable_vinv [OF assms(1)])
  then have "m_searchTerm m = [] \<and> m_searchMatches m = []
       \<or> finder_search add nrm (src_lines l) (m_searchTerm m) = Some (map sm_rng (m_searchMatches m))"
    using assms(2,3) by (auto simp: vinv_def settled_def panes_ok_def)
  with library_finder.painted_exact [OF v assms(2-7)] show ?thesis by blast
qed

text \<open>A reachable state that shows one line.\<close>

definition sample_shown :: "(nat, nat, nat) model" where
  "sample_shown = the (AddRevision (finder_search tokens_Add id) (sample_source [''a'']) sample_model)"

lemma sample_shown_reached:
  "vp_reach (searchable id) (finder_search tokens_Add id) (=) sample_keymap sample_shown
   \<and> (\<exists>l. left_source sample_shown = Some l \<and> length (src_lines l) = 1) \<and> m_right sample_shown = None
   \<and> m_searchTerm sample_shown = []"
proof -
  note r = sample_reached [where km = sample_keymap and mt = "(=)", OF refl]
  obtain m' where m': "AddRevision (finder_search tokens_Add id) (sample_source [''a'']) sample_model = Some m'"
    using library_finder.revision_ops_safe(1) [OF library_finder.reachable_vinv [OF r],
        of id tokens_Add "sample_source [''a'']"]
    unfolding safe_result_def by blast
  have eq: "sample_shown = m'" by (simp add: sample_shown_def m')
  have reach: "vp_reach (searchable id) (finder_search tokens_Add id) (=) sample_keymap sample_shown"
    using reach_perform [OF r, of "searchable id" "CAddRevision (sample_source [''a''])"] m' eq by simp
  moreover have "\<exists>l. left_source m' = Some l \<and> length (src_lines l) = 1" "m_right m' = None"
    "m_searchTerm m' = []"
    using m'
    by (auto simp: AddRevision_def rerender_def Let_def sample_model_def New_model_def zero_model_def
        setInitialValues_def resolveRevisionSource_def rv_AtOrigin_def getDisplayLines_def left_source_def
        pane_source_def updateSearchState_def clear_matches_def applySearchOverlays_def search_overlays_def
        set_left_def GotoBottom_def SetYOffset_def sample_source_def source_ClearOverlays_def
        lines_ClearOverlays_def)
  ultimately show ?thesis unfolding eq by blast
qed

theorem highlights_exact_witness:
  "\<not> overlaid (left_lines sample_shown) style_GenericHighlight 0 0"
proof -
  obtain l where l: "left_source sample_shown = Some l" "length (src_lines l) = 1"
    using sample_shown_reached by blast
  with highlights_exact [of id tokens_Add "(=)" sample_keymap sample_shown l 0 0 style_GenericHighlight]
    sample_shown_reached l show ?thesis
    by (auto simp: left_lines_def maxCol_def finder_search_def Find_def)
qed



text \<open>A reachable state with one match.\<close>

lemma sample_search_result:
  "map_option (\<lambda>m. (length (m_searchMatches m), left_source m \<noteq> None, maxHeight m))
     (SetSearchTerm (finder_search tokens_Add id) ''a'' (SetHeight 5 sample_shown)) = Some (1, True, 5)"
  by (code_simp, subst find_loop.simps, code_simp, subst find_loop.simps, code_simp)

lemma sample_searched:
  "\<exists>m :: (nat, nat, nat) model. vp_reach (searchable id) (finder_search tokens_Add id) (=) sample_keymap m
    \<and> length (m_searchMatches m) = 1 \<and> left_source m \<noteq> None \<and> maxHeight m = 5"
proof -
  have "vp_reach (searchable id) (finder_search tokens_Add id) (=) sample_keymap (SetHeight 5 sample_shown)"
    using reach_perform [of "searchable id" "finder_search tokens_Add id" "(=)" sample_keymap sample_shown
        "CSetHeight 5"] sample_shown_reached by simp
  note r = this
  from library_finder.SetSearchTerm_safe [OF library_finder.reachable_vinv [OF r], of "''a''"]
  obtain m where m: "SetSearchTerm (finder_search tokens_Add id) ''a'' (SetHeight 5 sample_shown) = Some m"
    using ascii_searchable by (auto simp: safe_result_def)
  then have "vp_reach (searchable id) (finder_search tokens_Add id) (=) sample_keymap m"
    using reach_perform [OF r, of "CSetSearchTerm ''a''"] ascii_searchable by simp
  with sample_search_result m show ?thesis by auto
qed


text \<open>A reachable side by side diff with a match.\<close>

definition run_commands ::
  "searcher \<Rightarrow> (nat, nat, nat) command list \<Rightarrow> (nat, nat, nat) model \<Rightarrow> (nat, nat, nat) model option" where
  "run_commands search cs m = foldM (\<lambda>m c. perform search (=) sample_keymap c m) m cs"

lemma run_commands_reach:
  assumes "run_commands search cs m = Some m'" "vp_reach ok search (=) sample_keymap m"
    "\<forall>c \<in> set cs. command_ok ok c"
  shows "vp_reach ok search (=) sample_keymap m'"
  using assms(1) [unfolded run_commands_def] assms(2)
  by (rule foldM_invariant [where P = "vp_reach ok search (=) sample_keymap"])
     (use assms(3) in \<open>auto intro: reach_perform\<close>)

definition sample_split :: "(nat, nat, nat) command list" where
  "sample_split = [CAddRevision (sample_source [''a'']), CAddRevision (sample_source [''a'']),
     CSetViewMode ViewModeSideBySide, CSetSearchTerm ''a'']"

lemma sample_split_result:
  "map_option (\<lambda>m. (m_searchTerm m, map_option (length \<circ> src_lines) (m_right m),
       map_option (length \<circ> src_lines) (left_source m)))
     (run_commands (finder_search tokens_Add id) sample_split sample_model) = Some (''a'', Some 1, Some 1)"
  by (code_simp, (subst find_loop.simps, code_simp)+)

lemma sample_split_shows:
  "map_option IsShowingDiff (run_commands (finder_search tokens_Add id) sample_split sample_model) = Some True"
  by (code_simp, (subst find_loop.simps, code_simp)+)


text \<open>C21: scrolling is exact: from an offset in range, \<open>ScrollDown\<close> and \<open>ScrollUp\<close> move by the given
  number of lines, stopping at the last full page and at the first line; \<open>GotoTop\<close> and \<open>GotoBottom\<close>
  reach the ends, and a page scrolled down to never reaches past the last line.\<close>

theorem scrolling_exact:
  assumes "0 \<le> n" "0 \<le> m_yOffset m" "m_yOffset m \<le> maxYOffset m" "hasContent m"
  shows "m_yOffset (ScrollDown n m) = min (m_yOffset m + n) (maxYOffset m)
    \<and> m_yOffset (ScrollUp n m) = max 0 (m_yOffset m - n)
    \<and> m_yOffset (GotoTop m) = 0 \<and> m_yOffset (GotoBottom m) = maxYOffset m
    \<and> (maxHeight m \<le> lineCount m \<longrightarrow> m_yOffset (ScrollDown n m) + maxHeight m \<le> lineCount m)"
proof -
  have lc: "maxYOffset m = max 0 (lineCount m - maxHeight m)"
    using assms(4) by (auto simp: maxYOffset_def Let_def lineCount_def hasContent_def source_Len_def
        source_IsEmpty_def split: option.splits)
  have "m_yOffset (ScrollDown n m) = min (m_yOffset m + n) (maxYOffset m)"
    using assms by (auto simp: ScrollDown_def AtBottom_def SetYOffset_def go_clamp_def min.commute)
  moreover have "m_yOffset (ScrollUp n m) = max 0 (m_yOffset m - n)"
    using assms by (simp add: ScrollUp_def AtTop_def SetYOffset_def go_clamp_def)
  ultimately show ?thesis
    using lc maxYOffset_nonneg [of m]
    by (auto simp: GotoTop_def GotoBottom_def SetYOffset_def go_clamp_def min_def)
qed

theorem scrolling_exact_witness:
  "m_yOffset (ScrollDown 3 sample_shown) = min 3 (maxYOffset sample_shown)"
proof -
  have "m_yOffset sample_shown = 0 \<and> maxYOffset sample_shown = 1 \<and> hasContent sample_shown" by code_simp
  with scrolling_exact [of 3 sample_shown] show ?thesis by simp
qed

theorem DiffStats_current_witness:
  "\<exists>(m :: (nat, nat, nat) model) d. fresh_diff m = Some d \<and> DiffStats m = Some (Stats d)"
proof -
  obtain m where m: "run_commands (finder_search tokens_Add id) sample_split sample_model = Some m"
    "IsShowingDiff m"
    using sample_split_shows by auto
  have "vp_reach (searchable id) (finder_search tokens_Add id) (=) sample_keymap m"
    by (rule run_commands_reach [OF m(1) sample_reached [OF refl]])
       (use ascii_searchable in \<open>auto simp: sample_split_def\<close>)
  from DiffStats_current [OF this m(2)] show ?thesis by blast
qed

end
