(* ===== verification/Viewport_View.thy ===== *)
theory Viewport_View
  imports Viewport_Safety
begin

text \<open>
  \<open>View\<close> and what it calls. The terminal is a record of parameters: the printer (its settings, a
  source and spans give a text, or a panic), the styles and string operations of \<open>lipgloss\<close> and
  \<open>ansi\<close>. \<open>View\<close> has a copy of the model, but the copy points to the same printer: the model of
  \<open>View\<close> returns the printer's settings with the text. A nil slice of lines is the empty list:
  where the code tests for nil, no empty slice that is not nil can occur.
\<close>

record ('f, 'o, 's) screen =
  sc_Print :: "print_settings \<Rightarrow> ('f, 'o) source \<Rightarrow> span list \<Rightarrow> string option"
  sc_TextStyle :: "'s option"
  sc_NewStyle :: 's
  sc_RenderSized :: "'s \<Rightarrow> int \<Rightarrow> int \<Rightarrow> string \<Rightarrow> string"
  sc_RenderFrame :: "frame \<Rightarrow> string \<Rightarrow> string"
  sc_Render :: "'s \<Rightarrow> string \<Rightarrow> string"
  sc_Cut :: "string \<Rightarrow> int \<Rightarrow> int \<Rightarrow> string"
  sc_Truncate :: "string \<Rightarrow> int \<Rightarrow> string \<Rightarrow> string"
  sc_StringWidth :: "string \<Rightarrow> int"

section \<open>Lines on the screen\<close>

definition splitLines :: "string \<Rightarrow> string list" where
  "splitLines content = (if content = [] then [] else split_nl (trim_suffix content [LF]))"

definition getViewDimensions :: "('f, 'o, 'b) model \<Rightarrow> (int \<times> int) option" where
  "getViewDimensions m =
     (let sw = fr_width (m_Style m); sh = fr_height (m_Style m);
          w = (if sw \<noteq> 0 then min (m_width m) sw else m_width m);
          h = (if sh \<noteq> 0 then min (m_height m) sh else m_height m)
      in if w = 0 \<or> h = 0 then None
         else Some (w - fr_horizontal (m_Style m), h - fr_vertical (m_Style m)))"

definition renderVisible :: "('f, 'o, 's) screen \<Rightarrow> ('f, 'o, 'b) model \<Rightarrow> string list option" where
  "renderVisible sc m = (case left_source m of
     None \<Rightarrow> Some []
   | Some left \<Rightarrow>
       let start = m_yOffset m; end' = min (start + maxHeight m) (source_Len left) in
       if start \<ge> end' then Some []
       else map_option splitLines (sc_Print sc (m_printer m) left [NewSpan start end']))"

text \<open>The tail of \<open>visibleLines\<close>: truncate or pad to the height, then cut to the width.\<close>

definition fit_lines :: "('f, 'o, 's) screen \<Rightarrow> ('f, 'o, 'b) model \<Rightarrow> string list \<Rightarrow> string list" where
  "fit_lines sc m lines =
     (if length lines = 0 then if m_FillHeight m then replicate (nat (maxHeight m)) [] else []
      else
        let shown = (if int (length lines) > maxHeight m then take (nat (maxHeight m)) lines else lines);
            resultLen = (if m_FillHeight m \<and> int (length shown) < maxHeight m then nat (maxHeight m) else length shown);
            result = shown @ replicate (resultLen - length shown) []
        in if \<not> m_WrapEnabled m
           then map (\<lambda>l. sc_Cut sc l (m_xOffset m) (m_xOffset m + maxWidth m)) result
           else result)"

definition visibleLines ::
  "('f, 'o, 's) screen \<Rightarrow> ('f, 'o, 'b) model \<Rightarrow> string list \<Rightarrow> string list option" where
  "visibleLines sc m lines =
     (if maxHeight m = 0 \<or> maxWidth m = 0 then Some []
      else map_option (fit_lines sc m) (if lines = [] then renderVisible sc m else Some lines))"

definition text_style :: "('f, 'o, 's) screen \<Rightarrow> 's" where
  "text_style sc = (case sc_TextStyle sc of Some st \<Rightarrow> st | None \<Rightarrow> sc_NewStyle sc)"

definition renderContent ::
  "('f, 'o, 's) screen \<Rightarrow> ('f, 'o, 'b) model \<Rightarrow> string list \<Rightarrow> int \<Rightarrow> int \<Rightarrow> string" where
  "renderContent sc m lines contentW contentH =
     sc_RenderFrame sc (m_Style m) (sc_RenderSized sc (text_style sc) contentW contentH (join [LF] lines))"

section \<open>Hunks\<close>

definition revision_source :: "('f, 'o, 'b) model \<Rightarrow> ('f, 'o) pane option \<Rightarrow> ('f, 'o) source option" where
  "revision_source m p = Option.bind p (pane_source m)"

definition getHunksDiffContent :: "('f, 'o, 's) screen \<Rightarrow> ('f, 'o, 'b) model \<Rightarrow> string option" where
  "getHunksDiffContent sc m = (let (src, needsDiff) = resolveRevisionSource m in
     if \<not> needsDiff then
       (case src of
          None \<Rightarrow> Some []
        | Some p \<Rightarrow> Option.bind (pane_source m p) (\<lambda>s. sc_Print sc (m_printer m) s []))
     else Option.bind (getDiffResult m) (\<lambda>(d, m').
          Option.bind (Hunks d (m_hunkContext m)) (\<lambda>(source, ranges).
            sc_Print sc (m_printer m) source ranges)))"

section \<open>Side by side\<close>

text \<open>\<open>sideBySideSeparator\<close> is a space, U+2502 and a space.\<close>

definition sideBySideSeparator :: string where
  "sideBySideSeparator = encode_runes [0x20, 0x2502, 0x20]"

definition side_by_side_row ::
  "('f, 'o, 's) screen \<Rightarrow> ('f, 'o, 'b) model \<Rightarrow> int \<Rightarrow> int \<Rightarrow> string list \<Rightarrow> string list \<Rightarrow> nat \<Rightarrow> string" where
  "side_by_side_row sc m paneWidth extraPadding leftLines rightLines i =
     (let cut = (\<lambda>s. if \<not> m_WrapEnabled m then sc_Cut sc s (m_xOffset m) (m_xOffset m + paneWidth) else s);
          left = cut (if i < length leftLines then leftLines ! i else []);
          right = cut (if i < length rightLines then rightLines ! i else []);
          leftPadded = sc_Truncate sc left paneWidth [];
          padding = paneWidth - sc_StringWidth sc leftPadded;
          leftPadded' = (if padding > 0
            then leftPadded @ sc_Render sc (text_style sc) (spaces (nat padding)) else leftPadded);
          separator = sideBySideSeparator @ spaces (nat extraPadding)
      in leftPadded' @ sc_Render sc (text_style sc) separator @ right)"

definition combine_panes ::
  "('f, 'o, 's) screen \<Rightarrow> ('f, 'o, 'b) model \<Rightarrow> int \<Rightarrow> int \<Rightarrow> string list \<Rightarrow> string list \<Rightarrow> string list" where
  "combine_panes sc m availableWidth contentH leftLines rightLines =
     (let maxLines0 = max (length leftLines) (length rightLines);
          maxLines = (if m_FillHeight m \<and> int maxLines0 < contentH then nat contentH else maxLines0)
      in map (side_by_side_row sc m (half availableWidth) (go_rem availableWidth 2) leftLines rightLines) [0..<maxLines])"

definition renderSideBySide ::
  "('f, 'o, 's) screen \<Rightarrow> ('f, 'o, 'b) model \<Rightarrow> int \<Rightarrow> int \<Rightarrow> (string \<times> print_settings) option" where
  "renderSideBySide sc m contentW contentH =
     (let (src, needsDiff) = resolveRevisionSource m;
          blank = Some (renderContent sc m [] contentW contentH, m_printer m)
      in if \<not> needsDiff \<and> src = None then blank
         else
           let leftIter = (if needsDiff then left_source m else revision_source m src);
               rightIter = (if needsDiff then m_right m else revision_source m src);
               availableWidth = contentW - sc_StringWidth sc sideBySideSeparator;
               paneWidth = half availableWidth
           in if paneWidth < 1 then blank
              else Option.bind leftIter (\<lambda>l.
                let start = m_yOffset m; end' = min (start + maxHeight m) (source_Len l) in
                if start \<ge> end' then blank
                else
                  let p = \<lparr>pr_width = paneWidth, pr_wordWrap = m_WrapEnabled m\<rparr> in
                  Option.bind (sc_Print sc p l [NewSpan start end']) (\<lambda>leftContent.
                  Option.bind rightIter (\<lambda>r.
                  Option.bind (sc_Print sc p r [NewSpan start end']) (\<lambda>rightContent.
                    Some (renderContent sc m
                      (combine_panes sc m availableWidth contentH (splitLines leftContent) (splitLines rightContent))
                      contentW contentH, p))))))"

section \<open>View\<close>

definition View :: "('f, 'o, 's) screen \<Rightarrow> ('f, 'o, 'b) model \<Rightarrow> (string \<times> print_settings) option" where
  "View sc m = (case getViewDimensions m of
     None \<Rightarrow> Some ([], m_printer m)
   | Some (w, h) \<Rightarrow>
       (case m_viewMode m of
          ViewModeHunks \<Rightarrow>
            Option.bind (getHunksDiffContent sc m) (\<lambda>hunksContent.
              map_option (\<lambda>lines. (renderContent sc m lines w h, m_printer m))
                (visibleLines sc m (splitLines hunksContent)))
        | ViewModeSideBySide \<Rightarrow> renderSideBySide sc m w h
        | ViewModeFull \<Rightarrow>
            map_option (\<lambda>lines. (renderContent sc m lines w h, m_printer m)) (visibleLines sc m [])))"

section \<open>View returns\<close>

definition printer_total :: "('f, 'o, 's) screen \<Rightarrow> bool" where
  "printer_total sc \<longleftrightarrow> (\<forall>p s spans. sc_Print sc p s spans \<noteq> None)"

lemma printer_totalE:
  assumes "printer_total sc"
  obtains f where "sc_Print sc = (\<lambda>p s spans. Some (f p s spans))"
proof
  show "sc_Print sc = (\<lambda>p s spans. Some (the (sc_Print sc p s spans)))"
    using assms by (auto simp: printer_total_def fun_eq_iff)
qed

lemma visibleLines_total: "printer_total sc \<Longrightarrow> \<exists>ls. visibleLines sc m lines0 = Some ls"
  by (auto simp: visibleLines_def renderVisible_def Let_def printer_total_def split: option.split)

lemma Hunks_rows: "Hunks (d\<lparr>dr_rows := x\<rparr>) ctx = Hunks d ctx"
proof -
  have "hunk_header_step (d\<lparr>dr_rows := x\<rparr>) = hunk_header_step d"
    by (intro ext) (simp add: hunk_header_step_def)
  then show ?thesis by (simp add: Hunks_def Let_def)
qed

lemma Hunks_total:
  fixes m :: "('f, 'o, 'b) model"
  assumes "fresh_diff m = Some d0" "d = d0 \<or> d = snd (getAlignedRows d0)"
  shows "\<exists>src spans. (Hunks d ctx :: (('f, 'o) source \<times> span list) option) = Some (src, spans)"
proof -
  obtain a b :: "('f, 'o) source" where ab: "default_Diff a b = Some d0"
    using assms(1) by (auto simp: fresh_diff_def bind_eq_Some_conv)
  then obtain ops where ops: "result_of ops d0" using default_Diff_result [of a b] by fastforce
  have "(Hunks d ctx :: (('f, 'o) source \<times> span list) option) = Hunks d0 ctx"
    using assms(2) Hunks_rows [where d = d0] by (auto simp: getAlignedRows_def split: option.split)
  moreover have "\<exists>src spans. (Hunks d0 ctx :: (('f, 'o) source \<times> span list) option) = Some (src, spans)"
    using Hunks_result [OF ops, of ctx] ops
    by (cases "change_indices ops = []") (auto simp: Hunks_def Let_def selectHunkSpans_hunks result_of_def)
  ultimately show ?thesis by simp
qed

context viewport_finder begin

lemma getHunksDiffContent_total:
  assumes "vinv ok search m" "printer_total sc"
  shows "\<exists>x. getHunksDiffContent sc m = Some x"
proof -
  consider "m_revision m = None"
    | p s where "resolveRevisionSource m = (Some p, False)" "pane_source m p = Some s" | "IsShowingDiff m"
    using resolve_cases [of m] assms(1) by (auto simp: vinv_def settled_def)
  then show ?thesis
  proof cases
    case 1
    then show ?thesis by (simp add: getHunksDiffContent_def resolveRevisionSource_def)
  next
    case 2
    with assms(2) show ?thesis by (auto simp: getHunksDiffContent_def printer_total_def)
  next
    case 3
    obtain d0 where d0: "fresh_diff m = Some d0"
      using fresh_diff_total [OF 3] assms(1) by (auto simp: vinv_def settled_def)
    obtain d m' where d: "getDiffResult m = Some (d, m')" "d = d0 \<or> d = snd (getAlignedRows d0)"
    proof (cases "m_diffResult m")
      case None
      with getDiffResult_fresh [OF None] d0 that show ?thesis by simp
    next
      case (Some d)
      with assms(1) d0 that show ?thesis by (auto simp: vinv_def cache_fresh_def getDiffResult_def)
    qed
    obtain src spans where "Hunks d (m_hunkContext m) = Some (src :: ('a, 'b) source, spans)"
      using Hunks_total [OF d0 d(2)] by blast
    moreover have "snd (resolveRevisionSource m)" using 3 by (simp add: needs_diff)
    ultimately show ?thesis
      using d(1) assms(2) by (auto simp: getHunksDiffContent_def printer_total_def case_prod_beta)
  qed
qed

lemma renderSideBySide_total:
  assumes "vinv ok search m" "printer_total sc" "m_viewMode m = ViewModeSideBySide"
  shows "\<exists>x. renderSideBySide sc m w h = Some x"
proof -
  obtain f where f: "sc_Print sc = (\<lambda>p s spans. Some (f p s spans))" by (rule printer_totalE [OF assms(2)])
  consider "m_revision m = None"
    | p s where "resolveRevisionSource m = (Some p, False)" "pane_source m p = Some s" | "IsShowingDiff m"
    using resolve_cases [of m] assms(1) by (auto simp: vinv_def settled_def)
  then show ?thesis
  proof cases
    case 1
    then show ?thesis by (simp add: renderSideBySide_def resolveRevisionSource_def)
  next
    case 2
    with f show ?thesis
      by (simp add: renderSideBySide_def revision_source_def Let_def)
  next
    case 3
    then obtain r where r: "m_right m = Some r" using assms(1,3) by (auto simp: vinv_def split_ok_def)
    with assms(1) obtain l where "left_source m = Some l"
      by (cases "left_source m") (auto simp: vinv_def panes_ok_def)
    moreover have "snd (resolveRevisionSource m)" using 3 by (simp add: needs_diff)
    ultimately show ?thesis
      using f r by (simp add: renderSideBySide_def Let_def case_prod_beta)
  qed
qed

lemma View_total:
  assumes "vinv ok search m" "printer_total sc"
  shows "\<exists>out p. View sc m = Some (out, p) \<and> (p = m_printer m \<or> m_viewMode m = ViewModeSideBySide)"
proof (cases "getViewDimensions m")
  case None
  then show ?thesis by (simp add: View_def)
next
  case (Some wh)
  obtain w h where wh: "wh = (w, h)" by (cases wh)
  obtain ls where "visibleLines sc m [] = Some ls" using visibleLines_total [OF assms(2)] by blast
  moreover obtain x where x: "getHunksDiffContent sc m = Some x" using getHunksDiffContent_total [OF assms] by blast
  moreover obtain ls' where "visibleLines sc m (splitLines x) = Some ls'" using visibleLines_total [OF assms(2)] by blast
  ultimately show ?thesis
    using Some wh renderSideBySide_total [OF assms, of w h] by (cases "m_viewMode m") (auto simp: View_def)
qed

end

section \<open>Rows\<close>

text \<open>What the printer does when it does not wrap and no annotation shows: one row per line.\<close>

definition prints_rows :: "('f, 'o, 's) screen \<Rightarrow> print_settings \<Rightarrow> ('f, 'o) source \<Rightarrow> bool" where
  "prints_rows sc p s \<longleftrightarrow> (\<forall>a b. 0 \<le> a \<and> a < b \<and> b \<le> source_Len s \<longrightarrow> (\<exists>rows.
     sc_Print sc p s [NewSpan a b] = Some (join [LF] rows) \<and> int (length rows) = b - a
     \<and> list_all (\<lambda>r. r \<noteq> [] \<and> LF \<notin> set r) rows))"

lemma split_nl_no_LF: "LF \<notin> set r \<Longrightarrow> split_nl r = [r]"
  by (induction r) auto

lemma split_nl_append_LF: "LF \<notin> set r \<Longrightarrow> split_nl (r @ LF # s) = r # split_nl s"
  by (induction r) auto

lemma split_nl_join: "rows \<noteq> [] \<Longrightarrow> \<forall>r \<in> set rows. LF \<notin> set r \<Longrightarrow> split_nl (join [LF] rows) = rows"
  by (induction "[LF]" rows rule: join.induct) (simp_all add: split_nl_no_LF split_nl_append_LF)

lemma last_join:
  "rows \<noteq> [] \<Longrightarrow> \<forall>r \<in> set rows. r \<noteq> [] \<Longrightarrow> join [LF] rows \<noteq> [] \<and> last (join [LF] rows) = last (last rows)"
  by (induction "[LF]" rows rule: join.induct) auto

lemma splitLines_join:
  assumes "rows \<noteq> []" "list_all (\<lambda>r. r \<noteq> [] \<and> LF \<notin> set r) rows"
  shows "splitLines (join [LF] rows) = rows"
proof -
  have lst: "last rows \<in> set rows" using assms(1) by simp
  then have "last rows \<noteq> []" "LF \<notin> set (last rows)" using assms(2) by (auto simp: list_all_iff)
  then have "last (last rows) \<noteq> LF" using last_in_set [of "last rows"] by metis
  then have "join [LF] rows \<noteq> []" "last (join [LF] rows) \<noteq> LF"
    using last_join [of rows] assms by (auto simp: list_all_iff)
  moreover from this have "trim_suffix (join [LF] rows) [LF] = join [LF] rows"
    by (simp add: trim_suffix_single)
  ultimately show ?thesis using split_nl_join [OF assms(1)] assms(2) by (simp add: splitLines_def list_all_iff)
qed

lemma prints_rows_split:
  assumes "prints_rows sc p s" "0 \<le> a" "0 < n" "a + n \<le> source_Len s"
  shows "\<exists>rows. sc_Print sc p s [NewSpan a (a + n)] = Some (join [LF] rows) \<and> splitLines (join [LF] rows) = rows
    \<and> int (length rows) = n \<and> rows \<noteq> []"
proof -
  obtain rows where r: "sc_Print sc p s [NewSpan a (a + n)] = Some (join [LF] rows)" "int (length rows) = n"
    "list_all (\<lambda>r. r \<noteq> [] \<and> LF \<notin> set r) rows"
    using assms(1) [unfolded prints_rows_def, rule_format, of a "a + n"] assms(2-4) by auto
  then have "rows \<noteq> []" using assms(3) by auto
  with r splitLines_join show ?thesis by blast
qed

section \<open>Properties\<close>




section \<open>Witnesses\<close>

definition sample_screen :: "(nat, nat, unit) screen" where
  "sample_screen = \<lparr>sc_Print = (\<lambda>p s spans. Some (join [LF] (map (\<lambda>(_, l). CHR ''>'' # line_Content l) (AllLines spans s)))),
     sc_TextStyle = None, sc_NewStyle = (), sc_RenderSized = (\<lambda>_ w h s. s), sc_RenderFrame = (\<lambda>_ s. s),
     sc_Render = (\<lambda>_ s. s), sc_Cut = (\<lambda>s a b. take (nat (b - a)) (drop (nat a) s)),
     sc_Truncate = (\<lambda>s n t. take (nat n) s), sc_StringWidth = (\<lambda>s. int (rune_count s))\<rparr>"

definition plain_lines :: "('f, 'o) source \<Rightarrow> bool" where
  "plain_lines s \<longleftrightarrow> list_all (\<lambda>l. LF \<notin> set (line_Content l)) (src_lines s)"

lemma sample_screen_rows:
  assumes "plain_lines s"
  shows "prints_rows sample_screen p s"
  unfolding prints_rows_def
proof (intro allI impI)
  fix a b :: int assume ab: "0 \<le> a \<and> a < b \<and> b \<le> source_Len s"
  let ?ls = "map (\<lambda>i. (New i 0, src_lines s ! nat i)) [a..b - 1]"
  let ?rows = "map (\<lambda>(_, l). CHR ''>'' # line_Content l) ?ls"
  have "AllLines [NewSpan a b] s = ?ls"
    using ab by (auto simp: AllLines_def lines_between_def source_Len_def)
  moreover have "LF \<notin> set (CHR ''>'' # line_Content (src_lines s ! nat i))" if "i \<in> {a..b - 1}" for i
  proof -
    have "nat i < length (src_lines s)" using that ab by (auto simp: source_Len_def nat_less_iff)
    with assms show ?thesis by (auto simp: plain_lines_def list_all_length LF_def)
  qed
  then have "list_all (\<lambda>r. r \<noteq> [] \<and> LF \<notin> set r) ?rows" by (auto simp: list_all_iff)
  moreover have "int (length ?rows) = b - a" using ab by simp
  ultimately show "\<exists>rows. sc_Print sample_screen p s [NewSpan a b] = Some (join [LF] rows) \<and> int (length rows) = b - a
      \<and> list_all (\<lambda>r. r \<noteq> [] \<and> LF \<notin> set r) rows"
    by (intro exI [of _ ?rows]) (simp add: sample_screen_def)
qed

definition sample_page :: "(nat, nat, nat) command list" where
  "sample_page = [CAddRevision (sample_source [''a'', ''b'', ''c'']), CSetWidth 10, CSetHeight 2, CToggleWordWrap, CScrollDown 1]"


lemma sample_page_result:
  "map_option (\<lambda>m. (m_viewMode m = ViewModeFull, m_WrapEnabled m, m_yOffset m, maxHeight m, maxWidth m, getViewDimensions m,
      map_option (\<lambda>s. (source_Len s, plain_lines s)) (left_source m)))
     (run_commands (finder_search tokens_Add id) sample_page sample_model)
   = Some (True, False, 1, 2, 10, Some (10, 2), Some (3, True))"
  by code_simp


definition sample_panes :: "(nat, nat, nat) command list" where
  "sample_panes = [CAddRevision (sample_source [''a'']), CAddRevision (sample_source [''b'']),
     CSetWidth 20, CSetHeight 5, CToggleWordWrap, CSetViewMode ViewModeSideBySide]"

lemma sample_panes_result:
  "map_option (\<lambda>m. (m_viewMode m = ViewModeSideBySide \<and> IsShowingDiff m, m_WrapEnabled m, m_yOffset m, maxHeight m, getViewDimensions m,
      map_option (\<lambda>s. (source_Len s, plain_lines s)) (left_source m), map_option plain_lines (m_right m)))
     (run_commands (finder_search tokens_Add id) sample_panes sample_model)
   = Some (True, False, 0, 5, Some (20, 5), Some (1, True), Some True)"
  by code_simp

lemma half_17 [simp]: "half 17 = 8"
  by (simp add: half_def)

lemma separator_width: "sc_StringWidth sample_screen sideBySideSeparator = 3"
proof -
  have "runes sideBySideSeparator = [0x20, 0x2502, 0x20]"
    unfolding sideBySideSeparator_def by (rule runes_encode_runes) (simp add: valid_rune_def)
  then show ?thesis by (simp add: sample_screen_def rune_count_def)
qed


section \<open>Two flaws\<close>

text \<open>The side by side view leaves the pane's width in the shared printer, and no later mode sets it back.\<close>

lemma View_printer:
  assumes "View sc m = Some (out, p)" "p \<noteq> m_printer m" "getViewDimensions m = Some (w, h)"
  shows "p = \<lparr>pr_width = half (w - sc_StringWidth sc sideBySideSeparator), pr_wordWrap = m_WrapEnabled m\<rparr>"
  using assms
  by (auto simp: View_def renderSideBySide_def Let_def bind_eq_Some_conv case_prod_beta split: ViewMode.splits if_splits)

lemma pane_width_stays:
  assumes "vp_reach (searchable nrm) (finder_search add nrm) mt km m" "getViewDimensions m = Some (w, h)"
    and "View sc m = Some (out, p)" "p \<noteq> m_printer m" "0 < sc_StringWidth sc sideBySideSeparator" "0 < w"
  shows "pr_width p < w
    \<and> (\<exists>m'. ToggleViewMode (finder_search add nrm) (m\<lparr>m_printer := p\<rparr>) = Some m' \<and> pr_width (m_printer m') < w)"
proof -
  let ?m = "m\<lparr>m_printer := p\<rparr>"
  have v: "settled (searchable nrm) m"
    using library_finder.reachable_vinv [OF assms(1)] by (simp add: vinv_def)
  then have "settled (searchable nrm) (?m\<lparr>m_viewMode := next_view_mode (m_viewMode ?m)\<rparr>)" by (simp add: settled_defs)
  from library_finder.rerender_safe [OF this] obtain m' where m': "ToggleViewMode (finder_search add nrm) ?m = Some m'"
    "keeps (?m\<lparr>m_viewMode := next_view_mode (m_viewMode ?m)\<rparr>) m'"
    unfolding ToggleViewMode_def by blast
  have "half x < w" if "x < w" for x
    using that assms(6) pos_imp_zdiv_nonneg_iff [of 2 "- x"] by (cases "x < 0") (simp_all add: half_def)
  then have "pr_width p < w" using View_printer [OF assms(3,4,2)] assms(5) by simp
  moreover have "m_printer m' = p" using keeps_fields(2) [OF m'(2)] by simp
  ultimately show ?thesis using m'(1) by auto
qed

text \<open>Leaving a diff at its bottom shows nothing: the offset is not clamped to the shorter document.\<close>

lemma blank_after_diff:
  "map_option (\<lambda>m. (hasContent m, PastBottom m, renderVisible sample_screen m))
     (run_commands (finder_search tokens_Add id)
       [CAddRevision (sample_source [''a'', ''b'']), CAddRevision (sample_source [''c'', ''d'']), CSetWidth 10, CSetHeight 1,
        CGotoBottom, CSetDiffMode DiffModeNone] sample_model)
   = Some (True, True, Some [])"
  by code_simp

end
