(* ===== verification/Colors.thy ===== *)
theory Colors
  imports Styles "HOL-Library.Word"
begin

unbundle bit_operations_syntax

text \<open>
  \<open>internal/colors\<close>: overriding and blending of styles, and the \<open>Blender\<close> that caches the results by
  the identity of the styles. A style of \<open>lipgloss\<close> is the record of the three properties the code
  reads and writes, with the rest carried along. A colour is \<open>None\<close> for the nil interface,
  \<open>NoColor\<close> or a colour proper; conversion to \<open>colorful\<close> and the LAB mix are parameters. Styles
  are reached through pointers: indices of a heap that only grows, since no code writes through
  a style pointer.
\<close>

datatype 'c color = NoColor | Color 'c

record ('c, 'x) lstyle =
  ls_fg :: "'c color option"
  ls_bg :: "'c color option"
  ls_transform :: "(string \<Rightarrow> string) option"
  ls_other :: 'x

text \<open>\<open>MakeColor\<close>, its verdict whether the colour is visible, and the half and half LAB mix.\<close>

record ('c, 'm) colorful =
  cf_MakeColor :: "'c \<Rightarrow> 'm \<times> bool"
  cf_BlendLab :: "'m \<Rightarrow> 'm \<Rightarrow> 'c"

definition Override :: "('c, 'm) colorful \<Rightarrow> 'c color option \<Rightarrow> 'c color option \<Rightarrow> 'c color option" where
  "Override cf base overlay = (case overlay of
     None \<Rightarrow> base
   | Some NoColor \<Rightarrow> base
   | Some (Color c) \<Rightarrow> if snd (cf_MakeColor cf c) then overlay else base)"

definition Blend_color :: "('c, 'm) colorful \<Rightarrow> 'c color option \<Rightarrow> 'c color option \<Rightarrow> 'c color option" where
  "Blend_color cf c1 c2 =
     (let noColor1 = (c1 = None \<or> c1 = Some NoColor); noColor2 = (c2 = None \<or> c2 = Some NoColor) in
      if noColor1 \<and> noColor2 then None
      else if noColor1 then c2
      else if noColor2 then c1
      else case (c1, c2) of
        (Some (Color x1), Some (Color x2)) \<Rightarrow>
          (let (cf1, visible1) = cf_MakeColor cf x1; (cf2, visible2) = cf_MakeColor cf x2 in
           if \<not> visible1 then c2 else if \<not> visible2 then c1
           else Some (Color (cf_BlendLab cf cf1 cf2)))
      | _ \<Rightarrow> None)"

text \<open>\<open>Style.Foreground\<close> and \<open>Style.Background\<close> set a colour, \<open>Style.Transform\<close> a transform.\<close>

definition BlendStyles :: "('c, 'm) colorful \<Rightarrow> ('c, 'x) lstyle \<Rightarrow> ('c, 'x) lstyle \<Rightarrow> ('c, 'x) lstyle" where
  "BlendStyles cf base overlay =
     (let st = base;
          blendedFg = Blend_color cf (ls_fg st) (ls_fg overlay);
          st = (if blendedFg \<noteq> None then st\<lparr>ls_fg := blendedFg\<rparr> else st);
          blendedBg = Blend_color cf (ls_bg st) (ls_bg overlay);
          st = (if blendedBg \<noteq> None then st\<lparr>ls_bg := blendedBg\<rparr> else st)
      in case (ls_transform st, ls_transform overlay) of
           (Some baseTransform, Some overlayTransform) \<Rightarrow>
             st\<lparr>ls_transform := Some (\<lambda>s. overlayTransform (baseTransform s))\<rparr>
         | (None, Some overlayTransform) \<Rightarrow> st\<lparr>ls_transform := Some overlayTransform\<rparr>
         | (_, None) \<Rightarrow> st)"

definition OverrideStyles :: "('c, 'm) colorful \<Rightarrow> ('c, 'x) lstyle \<Rightarrow> ('c, 'x) lstyle \<Rightarrow> ('c, 'x) lstyle" where
  "OverrideStyles cf base overlay =
     (let st = base;
          fg = Override cf (ls_fg st) (ls_fg overlay);
          st = (if fg \<noteq> None then st\<lparr>ls_fg := fg\<rparr> else st);
          bg = Override cf (ls_bg st) (ls_bg overlay);
          st = (if bg \<noteq> None then st\<lparr>ls_bg := bg\<rparr> else st)
      in case ls_transform overlay of
           None \<Rightarrow> st
         | Some t \<Rightarrow> st\<lparr>ls_transform := Some t\<rparr>)"

section \<open>The blender\<close>

type_synonym ('c, 'x) style_heap = "('c, 'x) lstyle list"

record blender =
  bl_keys :: "nat \<rightharpoonup> 64 word"
  bl_styles :: "64 word \<rightharpoonup> nat"
  bl_nextKey :: "64 word"

definition NewBlender :: blender where
  "NewBlender = \<lparr>bl_keys = Map.empty, bl_styles = Map.empty, bl_nextKey = 1\<rparr>"

definition blender_key :: "nat \<Rightarrow> blender \<Rightarrow> 64 word \<times> blender" where
  "blender_key s b = (case bl_keys b s of
     Some k \<Rightarrow> (k, b)
   | None \<Rightarrow> let k = bl_nextKey b
            in (k, b\<lparr>bl_nextKey := bl_nextKey b + 1, bl_keys := (bl_keys b)(s \<mapsto> k)\<rparr>))"

text \<open>How the keys of the two styles and the flag are packed.\<close>

definition pack_key :: "64 word \<Rightarrow> 64 word \<Rightarrow> bool \<Rightarrow> 64 word" where
  "pack_key baseKey overlayKey override =
     (let key = push_bit 32 baseKey OR overlayKey
      in if override then key OR push_bit 63 1 else key)"

definition blendKey :: "nat \<Rightarrow> nat \<Rightarrow> bool \<Rightarrow> blender \<Rightarrow> 64 word \<times> blender" where
  "blendKey base overlay override b =
     (let (baseKey, b1) = blender_key base b; (overlayKey, b2) = blender_key overlay b1
      in (pack_key baseKey overlayKey override, b2))"

definition combine_styles ::
  "('c, 'm) colorful \<Rightarrow> bool \<Rightarrow> ('c, 'x) lstyle \<Rightarrow> ('c, 'x) lstyle \<Rightarrow> ('c, 'x) lstyle" where
  "combine_styles cf override base overlay =
     (if override then OverrideStyles cf base overlay else BlendStyles cf base overlay)"

text \<open>The pointer that \<open>Blend\<close> returns, with the heap and the cache it leaves.\<close>

definition Blend ::
  "('c, 'm) colorful \<Rightarrow> nat \<Rightarrow> nat \<Rightarrow> bool \<Rightarrow> ('c, 'x) style_heap \<Rightarrow> blender
    \<Rightarrow> nat \<times> ('c, 'x) style_heap \<times> blender" where
  "Blend cf base overlay override h b =
     (let (key, b1) = blendKey base overlay override b in
      case bl_styles b1 key of
        Some cached \<Rightarrow> (cached, h, b1)
      | None \<Rightarrow>
          let result = length h;
              h' = h @ [combine_styles cf override (h ! base) (h ! overlay)]
          in (result, h', b1\<lparr>bl_styles := (bl_styles b1)(key \<mapsto> result),
                bl_keys := (bl_keys b1)(result \<mapsto> bl_nextKey b1),
                bl_nextKey := bl_nextKey b1 + 1\<rparr>))"

section \<open>The packed keys are distinct\<close>

lemma small_bits: "a < 2 ^ 31 \<Longrightarrow> bit a n \<Longrightarrow> n < 31" for a :: "64 word"
proof (rule ccontr)
  assume a: "a < 2 ^ 31" "bit a n" "\<not> n < 31"
  have "unat a < 2 ^ 31" using a(1) by (simp add: word_less_nat_alt)
  also have "(2 :: nat) ^ 31 \<le> 2 ^ n" using a(3) by (intro power_increasing) simp_all
  finally have "\<not> bit (unat a) n" by (simp add: bit_iff_odd)
  then show False using a(2) by (simp add: bit_unsigned_iff impossible_bit)
qed

lemma bit_top: "bit (push_bit 63 (1 :: 64 word)) n \<longleftrightarrow> n = 63"
  unfolding bit_push_bit_iff bit_1_iff by auto

lemma bit_pack_key:
  assumes "a < 2 ^ 31" "b < 2 ^ 31"
  shows "bit (pack_key a b ov) n \<longleftrightarrow> (n < 31 \<and> bit b n) \<or> (32 \<le> n \<and> n < 63 \<and> bit a (n - 32)) \<or> (n = 63 \<and> ov)"
proof -
  have "bit (pack_key a b ov) n \<longleftrightarrow> (32 \<le> n \<and> n < 64 \<and> bit a (n - 32)) \<or> bit b n \<or> (n = 63 \<and> ov)"
    unfolding pack_key_def Let_def
    by (cases ov; simp only: if_True if_False bit_or_iff bit_top)
       (auto simp: bit_push_bit_iff)
  then show ?thesis using small_bits [OF assms(1), of "n - 32"] small_bits [OF assms(2), of n] by auto
qed

lemma pack_key_inj:
  assumes "pack_key a b ov = pack_key c d ov'" "a < 2 ^ 31" "b < 2 ^ 31" "c < 2 ^ 31" "d < 2 ^ 31"
  shows "a = c \<and> b = d \<and> ov = ov'"
proof -
  have eq: "bit (pack_key a b ov) n = bit (pack_key c d ov') n" for n using assms(1) by simp
  note bits = eq [unfolded bit_pack_key [OF assms(2,3)] bit_pack_key [OF assms(4,5)]]
  have "a = c"
  proof (rule bit_word_eqI)
    fix n assume "n < LENGTH(64)"
    show "bit a n = bit c n"
      using bits [of "n + 32"] small_bits [OF assms(2), of n] small_bits [OF assms(4), of n] by (cases "n < 31") auto
  qed
  moreover have "b = d"
  proof (rule bit_word_eqI)
    fix n assume "n < LENGTH(64)"
    show "bit b n = bit d n"
      using bits [of n] small_bits [OF assms(3), of n] small_bits [OF assms(5), of n] by (cases "n < 31") auto
  qed
  moreover have "ov = ov'" using bits [of 63] by simp
  ultimately show ?thesis by blast
qed

section \<open>The cache is sound\<close>

text \<open>Every key is handed out once; every cached pointer leads to the combination it stands for.\<close>

definition cached_as ::
  "('c, 'm) colorful \<Rightarrow> ('c, 'x) style_heap \<Rightarrow> blender \<Rightarrow> 64 word \<Rightarrow> nat \<Rightarrow> bool" where
  "cached_as cf h b key p \<longleftrightarrow> p < length h \<and> (\<exists>base overlay kb ko ov.
     bl_keys b base = Some kb \<and> bl_keys b overlay = Some ko \<and> base < length h \<and> overlay < length h
     \<and> key = pack_key kb ko ov \<and> h ! p = combine_styles cf ov (h ! base) (h ! overlay))"

definition blender_ok :: "('c, 'm) colorful \<Rightarrow> ('c, 'x) style_heap \<Rightarrow> blender \<Rightarrow> bool" where
  "blender_ok cf h b \<longleftrightarrow>
     (\<forall>s k. bl_keys b s = Some k \<longrightarrow> s < length h \<and> k < bl_nextKey b)
     \<and> (\<forall>s t k. bl_keys b s = Some k \<longrightarrow> bl_keys b t = Some k \<longrightarrow> s = t)
     \<and> (\<forall>key p. bl_styles b key = Some p \<longrightarrow> cached_as cf h b key p)"

definition grows :: "blender \<Rightarrow> blender \<Rightarrow> bool" where
  "grows b b' \<longleftrightarrow> bl_keys b \<subseteq>\<^sub>m bl_keys b' \<and> bl_styles b \<subseteq>\<^sub>m bl_styles b'"

lemma grows_refl [simp]: "grows b b"
  by (simp add: grows_def)

lemma grows_trans: "grows a b \<Longrightarrow> grows b c \<Longrightarrow> grows a c"
  unfolding grows_def by (metis map_le_trans)

lemma cached_as_mono:
  assumes "cached_as cf h b key p" "bl_keys b \<subseteq>\<^sub>m bl_keys b'"
  shows "cached_as cf (h @ ys) b' key p"
proof -
  from assms(1) obtain base overlay kb ko ov where c: "p < length h"
    "bl_keys b base = Some kb" "bl_keys b overlay = Some ko" "base < length h" "overlay < length h"
    "key = pack_key kb ko ov" "h ! p = combine_styles cf ov (h ! base) (h ! overlay)"
    by (auto simp: cached_as_def)
  have "bl_keys b' base = Some kb" "bl_keys b' overlay = Some ko"
    using assms(2) c(2,3) by (metis domI map_le_def)+
  with c show ?thesis
    unfolding cached_as_def
    by (intro conjI exI [of _ base] exI [of _ overlay] exI [of _ kb] exI [of _ ko] exI [of _ ov])
       (simp_all add: nth_append)
qed

text \<open>The number of keys handed out so far, plus one.\<close>

abbreviation next_key :: "blender \<Rightarrow> nat" where
  "next_key b \<equiv> unat (bl_nextKey b)"

lemma blender_key_ok:
  assumes "blender_ok cf h b" "s < length h" "next_key b < 2 ^ 31"
  shows "\<exists>k b'. blender_key s b = (k, b') \<and> bl_keys b' s = Some k \<and> blender_ok cf h b' \<and> grows b b'
    \<and> bl_styles b' = bl_styles b \<and> next_key b' \<le> next_key b + 1"
proof (cases "bl_keys b s")
  case (Some k)
  with assms(1) show ?thesis by (auto simp: blender_key_def blender_ok_def)
next
  case None
  let ?k = "bl_nextKey b"
  let ?b = "b\<lparr>bl_nextKey := ?k + 1, bl_keys := (bl_keys b)(s \<mapsto> ?k)\<rparr>"
  have suc: "unat (?k + 1) = unat ?k + 1" using assms(3) by (simp add: unat_word_ariths)
  then have lt: "?k < ?k + 1" by (simp add: word_less_nat_alt)
  have fresh: "\<forall>t k'. bl_keys b t = Some k' \<longrightarrow> k' \<noteq> ?k" using assms(1) by (auto simp: blender_ok_def)
  have le: "bl_keys b \<subseteq>\<^sub>m bl_keys ?b" using None by (auto simp: map_le_def dom_def)
  have keys: "t < length h \<and> k' < bl_nextKey ?b" if "bl_keys ?b t = Some k'" for t k'
    using that assms(1,2) lt by (auto simp: blender_ok_def split: if_splits intro: less_trans)
  have "cached_as cf h ?b key p" if "bl_styles b key = Some p" for key p
    using cached_as_mono [of cf h b key p ?b "[]"] that assms(1) le by (simp add: blender_ok_def)
  then have "blender_ok cf h ?b"
    unfolding blender_ok_def using keys fresh assms(1)
    by (auto simp: blender_ok_def)
  moreover have "blender_key s b = (?k, ?b)" using None by (simp add: blender_key_def Let_def)
  moreover have "grows b ?b" using le by (simp add: grows_def)
  ultimately show ?thesis using suc by (intro exI [of _ ?k] exI [of _ ?b]) simp
qed

lemma blendKey_ok:
  assumes "blender_ok cf h b" "base < length h" "overlay < length h" "next_key b + 2 \<le> 2 ^ 31"
  shows "\<exists>kb ko b'. blendKey base overlay ov b = (pack_key kb ko ov, b') \<and> bl_keys b' base = Some kb
    \<and> bl_keys b' overlay = Some ko \<and> blender_ok cf h b' \<and> grows b b'
    \<and> bl_styles b' = bl_styles b \<and> next_key b' \<le> next_key b + 2"
proof -
  have "next_key b < 2 ^ 31" using assms(4) by linarith
  from blender_key_ok [OF assms(1,2) this] obtain kb b1 where
    k1: "blender_key base b = (kb, b1)" "bl_keys b1 base = Some kb" "blender_ok cf h b1" "grows b b1"
      "bl_styles b1 = bl_styles b" "next_key b1 \<le> next_key b + 1" by blast
  have "next_key b1 < 2 ^ 31" using assms(4) k1(6) by linarith
  from blender_key_ok [OF k1(3) assms(3) this] obtain ko b2 where
    k2: "blender_key overlay b1 = (ko, b2)" "bl_keys b2 overlay = Some ko" "blender_ok cf h b2" "grows b1 b2"
      "bl_styles b2 = bl_styles b1" "next_key b2 \<le> next_key b1 + 1" by blast
  have "bl_keys b2 base = Some kb" using k1(2) k2(4) by (metis domI grows_def map_le_def)
  with k1 k2 grows_trans [OF k1(4) k2(4)] show ?thesis by (auto simp: blendKey_def)
qed

lemma key_small:
  assumes "blender_ok cf h b" "bl_keys b s = Some k" "next_key b \<le> 2 ^ 31"
  shows "k < 2 ^ 31"
proof -
  have "unat k < next_key b" using assms(1,2) by (auto simp: blender_ok_def word_less_nat_alt)
  with assms(3) show ?thesis by (simp add: word_less_nat_alt)
qed

lemma Blend_ok:
  assumes "blender_ok cf h b" "base < length h" "overlay < length h" "next_key b + 3 \<le> 2 ^ 31"
  shows "\<exists>p ys b'. Blend cf base overlay ov h b = (p, h @ ys, b') \<and> blender_ok cf (h @ ys) b' \<and> grows b b'
    \<and> p < length (h @ ys) \<and> (h @ ys) ! p = combine_styles cf ov (h ! base) (h ! overlay)
    \<and> next_key b' \<le> next_key b + 3
    \<and> (\<exists>kb ko. bl_keys b' base = Some kb \<and> bl_keys b' overlay = Some ko
          \<and> bl_styles b' (pack_key kb ko ov) = Some p)"
proof -
  have "next_key b + 2 \<le> 2 ^ 31" using assms(4) by linarith
  from blendKey_ok [OF assms(1-3) this, of ov] obtain kb ko b1 where
    k: "blendKey base overlay ov b = (pack_key kb ko ov, b1)" "bl_keys b1 base = Some kb"
      "bl_keys b1 overlay = Some ko" "blender_ok cf h b1" "grows b b1" "bl_styles b1 = bl_styles b"
      "next_key b1 \<le> next_key b + 2" by blast
  have small: "next_key b1 < 2 ^ 31" using k(7) assms(4) by linarith
  have lt: "k < 2 ^ 31" if "bl_keys b1 s = Some k" for s k
    using key_small [OF k(4) that] small by simp
  show ?thesis
  proof (cases "bl_styles b1 (pack_key kb ko ov)")
    case (Some p)
    then have "cached_as cf h b1 (pack_key kb ko ov) p" using k(4) by (simp add: blender_ok_def)
    then obtain base' overlay' kb' ko' ov' where c: "p < length h"
      "bl_keys b1 base' = Some kb'" "bl_keys b1 overlay' = Some ko'"
      "pack_key kb ko ov = pack_key kb' ko' ov'"
      "h ! p = combine_styles cf ov' (h ! base') (h ! overlay')"
      unfolding cached_as_def by blast
    have "kb = kb' \<and> ko = ko' \<and> ov = ov'"
      using pack_key_inj [OF c(4)] lt k(2,3) c(2,3) by blast
    then have "base' = base" "overlay' = overlay" "ov' = ov"
      using k(2-4) c(2,3) by (auto simp: blender_ok_def)
    with Some k c show ?thesis
      by (intro exI [of _ p] exI [of _ "[]"] exI [of _ b1]) (auto simp: Blend_def)
  next
    case None
    let ?p = "length h"
    let ?ys = "[combine_styles cf ov (h ! base) (h ! overlay)]"
    let ?b = "b1\<lparr>bl_styles := (bl_styles b1)(pack_key kb ko ov \<mapsto> ?p),
        bl_keys := (bl_keys b1)(?p \<mapsto> bl_nextKey b1), bl_nextKey := bl_nextKey b1 + 1\<rparr>"
    have suc: "unat (bl_nextKey b1 + 1) = next_key b1 + 1" using small by (simp add: unat_word_ariths)
    then have lt1: "bl_nextKey b1 < bl_nextKey b1 + 1" by (simp add: word_less_nat_alt)
    have new: "bl_keys b1 ?p = None"
      using k(4) by (cases "bl_keys b1 ?p") (auto simp: blender_ok_def)
    then have le: "bl_keys b1 \<subseteq>\<^sub>m bl_keys ?b" by (auto simp: map_le_def dom_def)
    have fresh: "\<forall>t k'. bl_keys b1 t = Some k' \<longrightarrow> k' \<noteq> bl_nextKey b1" using k(4) by (auto simp: blender_ok_def)
    have keys: "t < length (h @ ?ys) \<and> k' < bl_nextKey ?b" if "bl_keys ?b t = Some k'" for t k'
      using that k(4) lt1 by (auto simp: blender_ok_def split: if_splits intro: less_trans less_SucI)
    have inj: "s = t" if "bl_keys ?b s = Some k'" "bl_keys ?b t = Some k'" for s t k'
      using that fresh k(4) by (auto simp: blender_ok_def split: if_splits)
    have c0: "cached_as cf (h @ ?ys) ?b (pack_key kb ko ov) ?p"
      unfolding cached_as_def using k(2,3) assms(2,3) new
      by (intro conjI exI [of _ base] exI [of _ overlay] exI [of _ kb] exI [of _ ko] exI [of _ ov])
         (auto simp: nth_append)
    have c1: "cached_as cf (h @ ?ys) ?b key p" if "bl_styles b1 key = Some p" for key p
      using cached_as_mono [OF _ le, of cf h key p ?ys] that k(4) by (simp add: blender_ok_def)
    have "\<forall>key p. bl_styles ?b key = Some p \<longrightarrow> cached_as cf (h @ ?ys) ?b key p"
    proof (intro allI impI)
      fix key p assume "bl_styles ?b key = Some p"
      with c0 c1 [of key p] show "cached_as cf (h @ ?ys) ?b key p"
        by (cases "key = pack_key kb ko ov") simp_all
    qed
    then have "blender_ok cf (h @ ?ys) ?b"
      unfolding blender_ok_def using keys inj by blast
    moreover have "grows b1 ?b" using le None by (auto simp: grows_def map_le_def dom_def)
    moreover have "Blend cf base overlay ov h b = (?p, h @ ?ys, ?b)"
      using k(1) None by (simp add: Blend_def Let_def)
    moreover have "bl_keys ?b base = Some kb" "bl_keys ?b overlay = Some ko"
      using k(2,3) assms(2,3) by simp_all
    ultimately show ?thesis
      using grows_trans [OF k(5)] k(7) suc
      by (intro exI [of _ ?p] exI [of _ ?ys] exI [of _ ?b]) auto
  qed
qed

text \<open>The blenders and heaps a program can have: new styles may appear at any time.\<close>

inductive blender_reach :: "('c, 'm) colorful \<Rightarrow> ('c, 'x) style_heap \<Rightarrow> blender \<Rightarrow> bool" for cf where
  reach_blender: "blender_reach cf h NewBlender"
| reach_alloc: "blender_reach cf h b \<Longrightarrow> blender_reach cf (h @ ys) b"
| reach_blend: "blender_reach cf h b \<Longrightarrow> base < length h \<Longrightarrow> overlay < length h
    \<Longrightarrow> next_key b + 3 \<le> 2 ^ 31 \<Longrightarrow> Blend cf base overlay ov h b = (p, h', b') \<Longrightarrow> blender_reach cf h' b'"

lemma blender_ok_alloc: "blender_ok cf h b \<Longrightarrow> blender_ok cf (h @ ys) b"
  using cached_as_mono [of cf h b _ _ b ys] by (auto simp: blender_ok_def intro: trans_less_add1)

lemma blender_reach_ok: "blender_reach cf h b \<Longrightarrow> blender_ok cf h b"
proof (induction rule: blender_reach.induct)
  case (reach_blender h)
  then show ?case by (simp add: blender_ok_def NewBlender_def)
next
  case (reach_alloc h b ys)
  then show ?case by (blast intro: blender_ok_alloc)
next
  case (reach_blend h b base overlay ov p h' b')
  with Blend_ok [of cf h b base overlay ov] show ?case by auto
qed

section \<open>Properties\<close>

text \<open>C17: the blender's cache is sound and stable: as long as fewer than \<open>2 ^ 31\<close> keys are handed out,
  \<open>Blend\<close> returns a pointer to the override or blend of just the two styles it was given, never one
  cached for others (the packed keys do not collide), leaves every older style as it was, and the
  same request returns the same pointer ever after, without a new style.\<close>

theorem Blend_sound:
  assumes "blender_reach cf h b" "base < length h" "overlay < length h" "next_key b + 3 \<le> 2 ^ 31"
    and "Blend cf base overlay ov h b = (p, h', b')"
  shows "p < length h' \<and> h' ! p = combine_styles cf ov (h ! base) (h ! overlay)
    \<and> (\<exists>ys. h' = h @ ys) \<and> (\<forall>zs. Blend cf base overlay ov (h' @ zs) b' = (p, h' @ zs, b'))"
proof -
  obtain ys kb ko where ok: "h' = h @ ys" "p < length h'" "h' ! p = combine_styles cf ov (h ! base) (h ! overlay)"
    "bl_keys b' base = Some kb" "bl_keys b' overlay = Some ko" "bl_styles b' (pack_key kb ko ov) = Some p"
    using Blend_ok [OF blender_reach_ok [OF assms(1)] assms(2-4), of ov] assms(5) by auto
  have "Blend cf base overlay ov (h' @ zs) b' = (p, h' @ zs, b')" for zs
    using ok(4-6) by (simp add: Blend_def blendKey_def blender_key_def)
  with ok show ?thesis by blast
qed

definition sample_colorful :: "(nat, nat) colorful" where
  "sample_colorful = \<lparr>cf_MakeColor = (\<lambda>c. (c, c \<noteq> 0)), cf_BlendLab = (\<lambda>a b. (a + b) div 2)\<rparr>"

definition sample_style :: "nat \<Rightarrow> (nat, unit) lstyle" where
  "sample_style c = \<lparr>ls_fg = Some (Color c), ls_bg = Some NoColor, ls_transform = None, ls_other = ()\<rparr>"

theorem Blend_sound_witness:
  "\<exists>p h' b'. Blend sample_colorful 0 1 False [sample_style 2, sample_style 4] NewBlender = (p, h', b')
     \<and> ls_fg (h' ! p) = Some (Color 3)"
proof -
  let ?h = "[sample_style 2, sample_style 4]"
  obtain p h' b' where b: "Blend sample_colorful 0 1 False ?h NewBlender = (p, h', b')"
    by (metis prod_cases3)
  have r: "blender_reach sample_colorful ?h NewBlender" by (rule reach_blender)
  have "next_key NewBlender + 3 \<le> 2 ^ 31" by (simp add: NewBlender_def)
  from Blend_sound [OF r _ _ this b]
  have "h' ! p = combine_styles sample_colorful False (sample_style 2) (sample_style 4)" by simp
  then have "ls_fg (h' ! p) = Some (Color 3)"
    by (simp add: combine_styles_def BlendStyles_def Blend_color_def sample_colorful_def sample_style_def Let_def)
  with b show ?thesis by blast
qed

end
