(* ===== verification/Printer.thy ===== *)
theory Printer
  imports Sources Colors
begin

text \<open>
  \<open>print.go\<close> and \<open>internal/ansi\<close>: rendering lines with gutters, annotations, overlays and word
  wrapping. Styles are pointers into the heap of theory Colors, so that the comparison of pointers
  in \<open>styleLineWithRanges\<close> is that of the code; heap and blender go in and out. Of \<open>lipgloss\<close> the
  code uses the rendering of a string in a style, the padding setter, the width of a string and the
  wrapping: the record \<open>terminal\<close> of parameters. \<open>None\<close> is a panic: a style getter that returns
  nil where the code renders with the result, a gutter that is nil, a negative count for
  \<open>strings.Repeat\<close>. A nil base style for a line is taken as a panic at once.
\<close>

section \<open>Escaping control characters\<close>

definition escape_rune :: "rune \<Rightarrow> rune" where
  "escape_rune r =
     (if r \<le> 0x1F then r + 0x2400
      else if r = 0x7F then 0x2421
      else if 0x80 \<le> r \<and> r \<le> 0x9F then 0xFFFD
      else r)"

definition Escape :: "string \<Rightarrow> string" where
  "Escape s = encode_runes (map escape_rune (runes s))"

section \<open>Configuration\<close>

record ('c, 'm, 'x) terminal =
  tm_colors :: "('c, 'm) colorful"
  tm_Render :: "('c, 'x) lstyle \<Rightarrow> string \<Rightarrow> string"
  tm_PaddingRight :: "int \<Rightarrow> ('c, 'x) lstyle \<Rightarrow> ('c, 'x) lstyle"
  tm_Width :: "string \<Rightarrow> int"
  tm_Wrap :: "string \<Rightarrow> int \<Rightarrow> string \<Rightarrow> string"

type_synonym style_getter = "style \<Rightarrow> nat option"

record gutter_context =
  gc_Styles :: style_getter
  gc_Index :: int
  gc_Number :: int
  gc_TotalLines :: int
  gc_Flag :: flag
  gc_Soft :: bool

record annotation_context =
  ac_Styles :: style_getter
  ac_Annotations :: "annotation list"
  ac_Position :: RelativePosition

text \<open>A gutter reads the styles of the heap.\<close>

type_synonym ('c, 'x) gutter = "('c, 'x) style_heap \<Rightarrow> gutter_context \<Rightarrow> string option"

record ('c, 'x) printer =
  pt_styles :: style_getter
  pt_style :: "('c, 'x) lstyle"
  pt_gutter :: "('c, 'x) gutter option"
  pt_annotation :: "annotation_context \<Rightarrow> string"
  pt_width :: int
  pt_hasCustomStyle :: bool
  pt_annotationsEnabled :: bool
  pt_wordWrap :: bool

type_synonym ('c, 'x) render_state = "('c, 'x) style_heap \<times> blender"

text \<open>A method call on a style pointer.\<close>

definition deref :: "('c, 'x) style_heap \<Rightarrow> nat option \<Rightarrow> ('c, 'x) lstyle option" where
  "deref h p = (case p of None \<Rightarrow> None | Some i \<Rightarrow> if i < length h then Some (h ! i) else None)"

definition render_in ::
  "('c, 'm, 'x) terminal \<Rightarrow> ('c, 'x) style_heap \<Rightarrow> nat option \<Rightarrow> string \<Rightarrow> string option" where
  "render_in tm h p s = map_option (\<lambda>st. tm_Render tm st s) (deref h p)"

definition go_Repeat_space :: "int \<Rightarrow> string option" where
  "go_Repeat_space n = (if n < 0 then None else Some (spaces (nat n)))"

section \<open>Gutters and annotations\<close>

definition DefaultAnnotation :: "annotation_context \<Rightarrow> string" where
  "DefaultAnnotation ctx =
     (if length (ac_Annotations ctx) = 0 then []
      else
        let padding = spaces (nat (max 0 (annotations_Col (ac_Annotations ctx))));
            combined = join ''; '' (Contents (ac_Annotations ctx))
        in if ac_Position ctx = Below then padding @ ''^ '' @ combined else padding @ combined)"

text \<open>\<open>lineNumStyle\<close> is the text style with the foreground of the comment style.\<close>

definition renderLineNumber :: "('c, 'm, 'x) terminal \<Rightarrow> ('c, 'x) gutter" where
  "renderLineNumber tm h ctx =
     Option.bind (deref h (gc_Styles ctx style_Text)) (\<lambda>text.
     Option.bind (deref h (gc_Styles ctx style_Comment)) (\<lambda>comment.
       let lineNumStyle = text\<lparr>ls_fg := ls_fg comment\<rparr> in
       Some (tm_Render tm lineNumStyle
         (if gc_Flag ctx = FlagAnnotation then ''     ''
          else if gc_Soft ctx then ''   - ''
          else itoa4 (gc_Number ctx) @ '' ''))))"

definition renderDiffMarker :: "('c, 'm, 'x) terminal \<Rightarrow> ('c, 'x) gutter" where
  "renderDiffMarker tm h ctx =
     (if gc_Soft ctx then
        (case gc_Flag ctx of
           FlagInserted \<Rightarrow> render_in tm h (gc_Styles ctx style_GenericInserted) '' ''
         | FlagDeleted \<Rightarrow> render_in tm h (gc_Styles ctx style_GenericDeleted) '' ''
         | _ \<Rightarrow> render_in tm h (gc_Styles ctx style_Text) '' '')
      else
        (case gc_Flag ctx of
           FlagInserted \<Rightarrow> render_in tm h (gc_Styles ctx style_GenericInserted) ''+''
         | FlagDeleted \<Rightarrow> render_in tm h (gc_Styles ctx style_GenericDeleted) ''-''
         | _ \<Rightarrow> render_in tm h (gc_Styles ctx style_Text) '' ''))"

definition DefaultGutter :: "('c, 'm, 'x) terminal \<Rightarrow> ('c, 'x) gutter" where
  "DefaultGutter tm h ctx =
     Option.bind (renderLineNumber tm h ctx) (\<lambda>a. map_option (\<lambda>b. a @ b) (renderDiffMarker tm h ctx))"

definition DiffGutter :: "('c, 'm, 'x) terminal \<Rightarrow> ('c, 'x) gutter" where
  "DiffGutter tm = renderDiffMarker tm"

definition LineNumberGutter :: "('c, 'm, 'x) terminal \<Rightarrow> ('c, 'x) gutter" where
  "LineNumberGutter tm = renderLineNumber tm"

definition NoGutter :: "('c, 'x) gutter" where
  "NoGutter h ctx = Some []"

section \<open>Construction\<close>

definition WithStyle :: "('c, 'x) lstyle \<Rightarrow> ('c, 'x) printer \<Rightarrow> ('c, 'x) printer" where
  "WithStyle s p = p\<lparr>pt_style := s, pt_hasCustomStyle := True\<rparr>"

definition WithStyles :: "style_getter \<Rightarrow> ('c, 'x) printer \<Rightarrow> ('c, 'x) printer" where
  "WithStyles s p = p\<lparr>pt_styles := s\<rparr>"

definition WithGutter :: "('c, 'x) gutter option \<Rightarrow> ('c, 'x) printer \<Rightarrow> ('c, 'x) printer" where
  "WithGutter fn p = p\<lparr>pt_gutter := fn\<rparr>"

definition WithAnnotationFunc :: "(annotation_context \<Rightarrow> string) \<Rightarrow> ('c, 'x) printer \<Rightarrow> ('c, 'x) printer" where
  "WithAnnotationFunc fn p = p\<lparr>pt_annotation := fn\<rparr>"

definition printer_SetWidth :: "int \<Rightarrow> ('c, 'x) printer \<Rightarrow> ('c, 'x) printer" where
  "printer_SetWidth w p = p\<lparr>pt_width := w\<rparr>"

definition SetAnnotations :: "bool \<Rightarrow> ('c, 'x) printer \<Rightarrow> ('c, 'x) printer" where
  "SetAnnotations enabled p = p\<lparr>pt_annotationsEnabled := enabled\<rparr>"

definition SetWordWrap :: "bool \<Rightarrow> ('c, 'x) printer \<Rightarrow> ('c, 'x) printer" where
  "SetWordWrap enabled p = p\<lparr>pt_wordWrap := enabled\<rparr>"

text \<open>\<open>theme\<close> is the getter of the default theme, \<open>zero\<close> the zero style of \<open>lipgloss\<close>.\<close>

definition NewPrinter ::
  "('c, 'm, 'x) terminal \<Rightarrow> style_getter \<Rightarrow> ('c, 'x) lstyle \<Rightarrow> ('c, 'x) style_heap
    \<Rightarrow> (('c, 'x) printer \<Rightarrow> ('c, 'x) printer) list \<Rightarrow> ('c, 'x) printer option" where
  "NewPrinter tm theme zero h opts =
     (let p = foldl (\<lambda>p opt. opt p) \<lparr>pt_styles = theme, pt_style = zero,
                pt_gutter = Some (DefaultGutter tm), pt_annotation = DefaultAnnotation, pt_width = 0,
                pt_hasCustomStyle = False, pt_annotationsEnabled = True, pt_wordWrap = True\<rparr> opts
      in if \<not> pt_hasCustomStyle p
         then map_option (\<lambda>st. p\<lparr>pt_style := tm_PaddingRight tm 1 st\<rparr>) (deref h (pt_styles p style_Text))
         else Some p)"

section \<open>Overlays\<close>

record overlay_with_style =
  os_style :: nat
  os_cols :: span

definition active_overlays :: "style_getter \<Rightarrow> span \<Rightarrow> overlay list \<Rightarrow> overlay_with_style list" where
  "active_overlays styles cols os = List.map_filter (\<lambda>o'.
     if span_Overlaps (ov_cols o') cols
     then map_option (\<lambda>st. \<lparr>os_style = st, os_cols = ov_cols o'\<rparr>) (styles (ov_kind o'))
     else None) os"

text \<open>\<open>slices.Sort\<close> and \<open>slices.Compact\<close>.\<close>

definition boundary_points :: "overlay_with_style list \<Rightarrow> span \<Rightarrow> int list" where
  "boundary_points active cols = [sstart cols, send cols] @ concat (map (\<lambda>ov.
     (if sstart (os_cols ov) > sstart cols \<and> sstart (os_cols ov) < send cols then [sstart (os_cols ov)] else [])
     @ (if send (os_cols ov) > sstart cols \<and> send (os_cols ov) < send cols then [send (os_cols ov)] else [])) active)"

definition computeStyleBoundaries :: "overlay_with_style list \<Rightarrow> span \<Rightarrow> int list" where
  "computeStyleBoundaries active cols = remdups_adj (sort (boundary_points active cols))"

definition style_step ::
  "('c, 'm) colorful \<Rightarrow> int \<Rightarrow> bool \<Rightarrow> nat \<times> bool \<times> ('c, 'x) render_state \<Rightarrow> overlay_with_style
    \<Rightarrow> nat \<times> bool \<times> ('c, 'x) render_state" where
  "style_step cf point alwaysBlend = (\<lambda>(result, firstRange, h, b) ov.
     if span_Contains (os_cols ov) point
     then let override = (\<not> alwaysBlend \<and> firstRange);
              (result', h', b') = Blend cf result (os_style ov) override h b
          in (result', False, h', b')
     else (result, firstRange, h, b))"

definition computeStyleForPoint ::
  "('c, 'm) colorful \<Rightarrow> int \<Rightarrow> overlay_with_style list \<Rightarrow> nat \<Rightarrow> bool \<Rightarrow> ('c, 'x) render_state
    \<Rightarrow> nat \<times> ('c, 'x) render_state" where
  "computeStyleForPoint cf point overlays baseStyle alwaysBlend st =
     (let (result, firstRange, st') = foldl (style_step cf point alwaysBlend) (baseStyle, True, st) overlays
      in (result, st'))"

text \<open>The text of the runes \<open>rs\<close> in a style.\<close>

definition flush :: "('c, 'm, 'x) terminal \<Rightarrow> ('c, 'x) style_heap \<Rightarrow> nat \<Rightarrow> rune list \<Rightarrow> string" where
  "flush tm h p rs = tm_Render tm (h ! p) (Escape (encode_runes rs))"

text \<open>The loop over the boundaries: \<open>points\<close> are those from the current one on.\<close>

fun span_loop ::
  "('c, 'm, 'x) terminal \<Rightarrow> rune list \<Rightarrow> span \<Rightarrow> overlay_with_style list \<Rightarrow> nat \<Rightarrow> bool
    \<Rightarrow> string \<Rightarrow> nat option \<Rightarrow> int \<Rightarrow> ('c, 'x) render_state \<Rightarrow> int list
    \<Rightarrow> string \<times> nat option \<times> int \<times> ('c, 'x) render_state" where
  "span_loop tm rs cols active base alwaysBlend sb currentStyle spanStart st (p # q # points) =
     (let boundaryStart = p - sstart cols; boundaryEnd = q - sstart cols in
      if boundaryStart < 0 \<or> boundaryEnd > int (length rs) \<or> boundaryStart \<ge> boundaryEnd
      then span_loop tm rs cols active base alwaysBlend sb currentStyle spanStart st (q # points)
      else
        let (spanStyle, st') = computeStyleForPoint (tm_colors tm) p active base alwaysBlend st in
        case currentStyle of
          None \<Rightarrow> span_loop tm rs cols active base alwaysBlend sb (Some spanStyle) boundaryStart st' (q # points)
        | Some cur \<Rightarrow>
            if cur \<noteq> spanStyle
            then span_loop tm rs cols active base alwaysBlend
                   (sb @ flush tm (fst st') cur
                     (take (nat (boundaryStart - spanStart)) (drop (nat spanStart) rs)))
                   (Some spanStyle) boundaryStart st' (q # points)
            else span_loop tm rs cols active base alwaysBlend sb currentStyle spanStart st' (q # points))"
| "span_loop tm rs cols active base alwaysBlend sb currentStyle spanStart st points =
     (sb, currentStyle, spanStart, st)"

definition styleLineWithRanges ::
  "('c, 'm, 'x) terminal \<Rightarrow> style_getter \<Rightarrow> string \<Rightarrow> int \<Rightarrow> nat option \<Rightarrow> bool \<Rightarrow> overlay list
    \<Rightarrow> ('c, 'x) render_state \<Rightarrow> (string \<times> ('c, 'x) render_state) option" where
  "styleLineWithRanges tm styles src col s alwaysBlend overlays st =
     (if src = [] then Some (src, st)
      else case s of None \<Rightarrow> None | Some base \<Rightarrow>
        if length overlays = 0 then map_option (\<lambda>x. (x, st)) (render_in tm (fst st) s (Escape src))
        else
          let cols = NewSpan col (col + int (rune_count src));
              active = active_overlays styles cols overlays
          in if length active = 0 then map_option (\<lambda>x. (x, st)) (render_in tm (fst st) s (Escape src))
             else
               let boundaries = computeStyleBoundaries active cols in
               if length boundaries < 2 then Some ([], st)
               else
                 let rs = runes src;
                     (sb, currentStyle, spanStart, st') =
                       span_loop tm rs cols active base alwaysBlend [] None 0 st boundaries
                 in Some (case currentStyle of
                      Some cur \<Rightarrow> if spanStart < int (length rs)
                                  then (sb @ flush tm (fst st') cur (drop (nat spanStart) rs), st')
                                  else (sb, st')
                    | None \<Rightarrow> (sb, st')))"

section \<open>Lines\<close>

definition contentWidth :: "('c, 'x) printer \<Rightarrow> int \<Rightarrow> int" where
  "contentWidth p gutterWidth =
     (if \<not> pt_wordWrap p \<or> pt_width p \<le> 0 then 0 else max 0 (pt_width p - gutterWidth))"

definition wrapContent :: "('c, 'm, 'x) terminal \<Rightarrow> ('c, 'x) printer \<Rightarrow> string \<Rightarrow> int \<Rightarrow> string list" where
  "wrapContent tm p content gutterWidth =
     (let cw = contentWidth p gutterWidth in
      if cw \<le> 0 then [content] else split_nl (tm_Wrap tm content cw '' /-''))"

definition leadingWhitespaceRunes :: "string \<Rightarrow> int \<Rightarrow> int" where
  "leadingWhitespaceRunes s maxBytes =
     (if maxBytes \<le> 0 \<or> maxBytes > int (length s) then 0
      else let prefix = take (nat maxBytes) s in
        if trim_left {SP, TAB} prefix \<noteq> [] then 0 else int (rune_count prefix))"

text \<open>
  The type of the token after \<open>tk\<close> is that of the next token of the line; for the last one it is
  \<open>nx tk\<close>, what the part's own \<open>Next\<close> pointer says.
\<close>

definition next_types :: "(token \<Rightarrow> token_type) \<Rightarrow> token list \<Rightarrow> token_type list" where
  "next_types nx tks = map tk_type (tl tks) @ (if tks = [] then [] else [nx (last tks)])"

definition render_token ::
  "('c, 'm, 'x) terminal \<Rightarrow> style_getter \<Rightarrow> overlay list \<Rightarrow> string \<times> int \<times> ('c, 'x) render_state
    \<Rightarrow> token \<times> token_type \<Rightarrow> (string \<times> int \<times> ('c, 'x) render_state) option" where
  "render_token tm styles overlays = (\<lambda>(sb, col, st) (tk, nextType).
     let tokenStyle = styles (TypeStyle tk nextType);
         valueOffset = ValueOffset tk;
         origin = trim_suffix (tk_origin tk) [LF];
         originRunes = runes origin;
         separatorRunes = leadingWhitespaceRunes origin valueOffset
     in Option.bind
          (if separatorRunes > 0 \<and> separatorRunes \<le> int (length originRunes)
           then map_option (\<lambda>(x, st'). (sb @ x, col + separatorRunes, drop (nat separatorRunes) originRunes, st'))
                  (styleLineWithRanges tm styles (encode_runes (take (nat separatorRunes) originRunes)) col
                     (styles style_Text) False overlays st)
           else Some (sb, col, originRunes, st))
          (\<lambda>(sb, col, originRunes, st).
            if length originRunes > 0
            then map_option (\<lambda>(x, st'). (sb @ x, col + int (length originRunes), st'))
                   (styleLineWithRanges tm styles (encode_runes originRunes) col tokenStyle False overlays st)
            else Some (sb, col, st)))"

definition renderTokenLine ::
  "('c, 'm, 'x) terminal \<Rightarrow> adder \<Rightarrow> (token \<Rightarrow> token_type) \<Rightarrow> style_getter \<Rightarrow> line
    \<Rightarrow> ('c, 'x) render_state \<Rightarrow> (string \<times> ('c, 'x) render_state) option" where
  "renderTokenLine tm add nx styles l st =
     (if line_IsEmpty l then Some ([], st)
      else let tks = line_Tokens add l in
        map_option (\<lambda>(sb, col, st'). (sb, st'))
          (foldM (render_token tm styles (l_overlays l)) ([], 0, st) (zip tks (next_types nx tks))))"

definition call_gutter ::
  "('c, 'x) printer \<Rightarrow> ('c, 'x) style_heap \<Rightarrow> gutter_context \<Rightarrow> string option" where
  "call_gutter p h ctx = (case pt_gutter p of None \<Rightarrow> None | Some g \<Rightarrow> g h ctx)"

text \<open>One wrapped piece of a line: the state is the text, the column and the rendering state.\<close>

definition write_piece ::
  "('c, 'm, 'x) terminal \<Rightarrow> ('c, 'x) printer \<Rightarrow> nat option \<Rightarrow> overlay list \<Rightarrow> gutter_context
    \<Rightarrow> string \<times> int \<times> ('c, 'x) render_state \<Rightarrow> nat \<times> string
    \<Rightarrow> (string \<times> int \<times> ('c, 'x) render_state) option" where
  "write_piece tm p contentStyle overlays gutterCtx = (\<lambda>(sb, col, st) (j, subLine).
     Option.bind (call_gutter p (fst st) (gutterCtx\<lparr>gc_Soft := j > 0\<rparr>)) (\<lambda>gutter.
       let sb' = (if j > 0 then sb @ [LF] else sb) @ gutter;
           col' = col + int (rune_count subLine)
       in case contentStyle of
            Some _ \<Rightarrow> map_option (\<lambda>(x, st'). (sb' @ x, col', st'))
              (styleLineWithRanges tm (pt_styles p) subLine col contentStyle True overlays st)
          | None \<Rightarrow> Some (sb' @ subLine, col', st)))"

definition writeLine ::
  "('c, 'm, 'x) terminal \<Rightarrow> ('c, 'x) printer \<Rightarrow> string \<Rightarrow> int \<Rightarrow> nat option \<Rightarrow> overlay list
    \<Rightarrow> gutter_context \<Rightarrow> int \<Rightarrow> ('c, 'x) render_state \<Rightarrow> (string \<times> ('c, 'x) render_state) option" where
  "writeLine tm p content col contentStyle overlays gutterCtx gutterWidth st =
     map_option (\<lambda>(sb, col, st'). (sb, st'))
       (foldM (write_piece tm p contentStyle overlays gutterCtx) ([], col, st)
          (enumerate 0 (wrapContent tm p content gutterWidth)))"

definition annotation_piece ::
  "('c, 'm, 'x) terminal \<Rightarrow> ('c, 'x) printer \<Rightarrow> ('c, 'x) style_heap \<Rightarrow> string \<Rightarrow> gutter_context
    \<Rightarrow> string \<Rightarrow> nat \<times> string \<Rightarrow> string option" where
  "annotation_piece tm p h continuationPadding gutterCtx sb = (\<lambda>(j, subLine).
     Option.bind (call_gutter p h (gutterCtx\<lparr>gc_Soft := j > 0\<rparr>)) (\<lambda>gutter.
     Option.bind (if j > 0 then render_in tm h (pt_styles p style_Comment) continuationPadding else Some []) (\<lambda>pad.
     map_option (\<lambda>x. (if j > 0 then sb @ [LF] else sb) @ gutter @ pad @ x)
       (render_in tm h (pt_styles p style_Comment) (Escape subLine)))))"

text \<open>What \<open>renderAnnotation\<close> writes.\<close>

definition renderAnnotation ::
  "('c, 'm, 'x) terminal \<Rightarrow> ('c, 'x) printer \<Rightarrow> ('c, 'x) style_heap \<Rightarrow> line \<Rightarrow> position \<Rightarrow> int \<Rightarrow> int
    \<Rightarrow> RelativePosition \<Rightarrow> int \<Rightarrow> string option" where
  "renderAnnotation tm p h ln pos lineNum totalLines relPos gutterWidth =
     (let anns = FilterPosition (l_annotations ln) relPos in
      if length anns = 0 then Some []
      else
        let content = pt_annotation p \<lparr>ac_Styles = pt_styles p, ac_Annotations = anns, ac_Position = relPos\<rparr> in
        if content = [] then Some []
        else
          let subLines = wrapContent tm p content gutterWidth;
              gutterCtx = \<lparr>gc_Styles = pt_styles p, gc_Index = pline pos, gc_Number = lineNum,
                gc_TotalLines = totalLines, gc_Flag = FlagAnnotation, gc_Soft = False\<rparr>
          in Option.bind (go_Repeat_space (annotations_Col anns)) (\<lambda>pad.
               foldM (annotation_piece tm p h (if relPos = Below then pad @ ''  '' else pad) gutterCtx)
                 [] (enumerate 0 subLines)))"

text \<open>
  One line of \<open>renderLinesInSpan\<close>; the state is the text, the number of rendered lines and the
  rendering state.
\<close>

definition render_line ::
  "('c, 'm, 'x) terminal \<Rightarrow> adder \<Rightarrow> (token \<Rightarrow> token_type) \<Rightarrow> ('c, 'x) printer \<Rightarrow> int \<Rightarrow> int
    \<Rightarrow> string \<times> nat \<times> ('c, 'x) render_state \<Rightarrow> position \<times> line
    \<Rightarrow> (string \<times> nat \<times> ('c, 'x) render_state) option" where
  "render_line tm add nx p totalLines gutterWidth = (\<lambda>(sb, renderedIdx, st) (pos, ln).
     let lineNum = line_Number ln;
         above = (pt_annotationsEnabled p \<and> FilterPosition (l_annotations ln) Above \<noteq> []);
         below = (pt_annotationsEnabled p \<and> FilterPosition (l_annotations ln) Below \<noteq> []);
         sb1 = (if renderedIdx > 0 then sb @ [LF] else sb);
         gutterCtx = \<lparr>gc_Styles = pt_styles p, gc_Index = pline pos, gc_Number = lineNum,
           gc_TotalLines = totalLines, gc_Flag = l_flag ln, gc_Soft = False\<rparr>
     in Option.bind (if above then map_option (\<lambda>a. sb1 @ a @ [LF])
                       (renderAnnotation tm p (fst st) ln pos lineNum totalLines Above gutterWidth)
                     else Some sb1) (\<lambda>sb2.
        Option.bind (case l_flag ln of
            FlagDeleted \<Rightarrow> Some (line_Content ln, pt_styles p style_GenericDeleted, st)
          | FlagInserted \<Rightarrow> Some (line_Content ln, pt_styles p style_GenericInserted, st)
          | _ \<Rightarrow> map_option (\<lambda>(c, st'). (c, None, st')) (renderTokenLine tm add nx (pt_styles p) ln st))
          (\<lambda>(content, contentStyle, st1).
        Option.bind (writeLine tm p content 0 contentStyle (l_overlays ln) gutterCtx gutterWidth st1)
          (\<lambda>(x, st2).
        map_option (\<lambda>b. (sb2 @ x @ b, renderedIdx + 1, st2))
          (if below then map_option (\<lambda>a. [LF] @ a)
             (renderAnnotation tm p (fst st2) ln pos lineNum totalLines Below gutterWidth)
           else Some [])))))"

definition renderLinesInSpan ::
  "('c, 'm, 'x) terminal \<Rightarrow> adder \<Rightarrow> (token \<Rightarrow> token_type) \<Rightarrow> ('c, 'x) printer \<Rightarrow> ('f, 'o) source
    \<Rightarrow> span \<Rightarrow> ('c, 'x) render_state \<Rightarrow> (string \<times> ('c, 'x) render_state) option" where
  "renderLinesInSpan tm add nx p t sp st =
     (if source_IsEmpty t then Some ([], st)
      else
        let totalLines = source_Len t in
        Option.bind (case pt_gutter p of None \<Rightarrow> Some 0
          | Some g \<Rightarrow> map_option (tm_Width tm) (g (fst st) \<lparr>gc_Styles = pt_styles p, gc_Index = 0,
              gc_Number = 0, gc_TotalLines = totalLines, gc_Flag = FlagDefault, gc_Soft = False\<rparr>))
          (\<lambda>gutterWidth. map_option (\<lambda>(sb, n, st'). (sb, st'))
             (foldM (render_line tm add nx p totalLines gutterWidth) ([], 0, st) (AllLines [sp] t))))"

definition print_span ::
  "('c, 'm, 'x) terminal \<Rightarrow> adder \<Rightarrow> (token \<Rightarrow> token_type) \<Rightarrow> ('c, 'x) printer \<Rightarrow> ('f, 'o) source
    \<Rightarrow> string \<times> ('c, 'x) render_state \<Rightarrow> nat \<times> span \<Rightarrow> (string \<times> ('c, 'x) render_state) option" where
  "print_span tm add nx p t = (\<lambda>(sb, st) (i, sp).
     map_option (\<lambda>(x, st'). ((if i > 0 then sb @ [LF] else sb) @ x, st'))
       (renderLinesInSpan tm add nx p t sp st))"

definition Print ::
  "('c, 'm, 'x) terminal \<Rightarrow> adder \<Rightarrow> (token \<Rightarrow> token_type) \<Rightarrow> ('c, 'x) printer \<Rightarrow> ('f, 'o) source
    \<Rightarrow> span list \<Rightarrow> ('c, 'x) render_state \<Rightarrow> (string \<times> ('c, 'x) render_state) option" where
  "Print tm add nx p t spans st =
     (if length spans = 0
      then map_option (\<lambda>(content, st'). (tm_Render tm (pt_style p) content, st'))
             (renderLinesInSpan tm add nx p t (NewSpan 0 (source_Len t)) st)
      else map_option (\<lambda>(content, st'). (tm_Render tm (pt_style p) content, st'))
             (foldM (print_span tm add nx p t) ([], st) (enumerate 0 spans)))"

end
