(* ===== verification/Printer_Facts.thy ===== *)
theory Printer_Facts
  imports Printer
begin

text \<open>
  What the printer shows: escaping leaves no control character and keeps the columns; a line with
  overlays is cut into pieces so that every rune gets the style of its column; the rows of the
  output are the lines of the spans behind their gutters.
\<close>

section \<open>Escaping\<close>

definition control :: "rune \<Rightarrow> bool" where
  "control r \<longleftrightarrow> r \<le> 0x1F \<or> 0x7F \<le> r \<and> r \<le> 0x9F"

lemma escape_rune_valid: "valid_rune r \<Longrightarrow> valid_rune (escape_rune r)"
  by (auto simp: escape_rune_def valid_rune_def)

lemma escape_rune_id [simp]: "\<not> control r \<Longrightarrow> escape_rune r = r"
  by (auto simp: escape_rune_def control_def)

lemma escape_rune_not_control [simp]: "\<not> control (escape_rune r)"
  by (auto simp: escape_rune_def control_def)

lemma runes_Escape: "runes (Escape s) = map escape_rune (runes s)"
  using runes_valid [of s] escape_rune_valid
  by (auto simp: Escape_def list_all_iff intro!: runes_encode_runes)

lemma encode_rune_ascii: "c \<in> set (encode_rune r) \<Longrightarrow> byte c < 0x80 \<Longrightarrow> valid_rune r \<Longrightarrow> r = byte c"
  by (auto simp: encode_rune_def valid_rune_def split: if_splits)

lemma LF_encode_runes: "list_all valid_rune rs \<Longrightarrow> 10 \<notin> set rs \<Longrightarrow> LF \<notin> set (encode_runes rs)"
proof (induction rs)
  case Nil
  then show ?case by simp
next
  case (Cons r rs)
  have "LF \<notin> set (encode_rune r)"
  proof
    assume "LF \<in> set (encode_rune r)"
    from encode_rune_ascii [OF this] Cons.prems have "r = 10" by simp
    with Cons.prems show False by simp
  qed
  with Cons show ?case by simp
qed

lemma Escape_no_LF: "LF \<notin> set (Escape s)"
proof -
  have "list_all valid_rune (map escape_rune (runes s))"
    using runes_valid [of s] escape_rune_valid by (auto simp: list_all_iff)
  moreover have "10 \<notin> set (map escape_rune (runes s))"
  proof
    assume "10 \<in> set (map escape_rune (runes s))"
    then obtain r where "escape_rune r = 10" by auto
    with escape_rune_not_control [of r] show False by (simp add: control_def)
  qed
  ultimately show ?thesis unfolding Escape_def by (rule LF_encode_runes)
qed

section \<open>Styles of columns\<close>

text \<open>The style of a column: the overlays that cover it, applied in order to the base style.\<close>

definition effective_step ::
  "('c, 'm) colorful \<Rightarrow> ('c, 'x) style_heap \<Rightarrow> int \<Rightarrow> bool \<Rightarrow> ('c, 'x) lstyle \<times> bool \<Rightarrow> overlay_with_style
    \<Rightarrow> ('c, 'x) lstyle \<times> bool" where
  "effective_step cf h point alwaysBlend = (\<lambda>(v, first) ov.
     if span_Contains (os_cols ov) point
     then (combine_styles cf (\<not> alwaysBlend \<and> first) v (h ! os_style ov), False) else (v, first))"

definition effective_style ::
  "('c, 'm) colorful \<Rightarrow> ('c, 'x) style_heap \<Rightarrow> overlay_with_style list \<Rightarrow> nat \<Rightarrow> bool \<Rightarrow> int \<Rightarrow> ('c, 'x) lstyle" where
  "effective_style cf h active base alwaysBlend point =
     fst (foldl (effective_step cf h point alwaysBlend) (h ! base, True) active)"

lemma style_steps:
  assumes "blender_ok cf h b" "p < length h" "\<forall>ov \<in> set ovs. os_style ov < length h"
    and "next_key b + 3 * length ovs \<le> 2 ^ 31"
  shows "\<exists>q first' ys b'. foldl (style_step cf point ab) (p, first, h, b) ovs = (q, first', h @ ys, b')
    \<and> blender_ok cf (h @ ys) b' \<and> q < length (h @ ys) \<and> next_key b' \<le> next_key b + 3 * length ovs
    \<and> foldl (effective_step cf h point ab) (h ! p, first) ovs = ((h @ ys) ! q, first')"
  using assms
proof (induction ovs arbitrary: p first h b)
  case Nil
  then show ?case by (intro exI [of _ p] exI [of _ first] exI [of _ "[]"] exI [of _ b]) simp
next
  case (Cons ov ovs)
  show ?case
  proof (cases "span_Contains (os_cols ov) point")
    case False
    from False have skip: "style_step cf point ab (p, first, h, b) ov = (p, first, h, b)"
      "effective_step cf h point ab (h ! p, first) ov = (h ! p, first)"
      by (simp_all add: style_step_def effective_step_def)
    have "\<forall>ov \<in> set ovs. os_style ov < length h" "next_key b + 3 * length ovs \<le> 2 ^ 31"
      using Cons.prems(3,4) by simp_all
    from Cons.IH [OF Cons.prems(1,2) this, of first] obtain q first' ys b' where ih:
      "foldl (style_step cf point ab) (p, first, h, b) ovs = (q, first', h @ ys, b')"
      "blender_ok cf (h @ ys) b'" "q < length (h @ ys)" "next_key b' \<le> next_key b + 3 * length ovs"
      "foldl (effective_step cf h point ab) (h ! p, first) ovs = ((h @ ys) ! q, first')" by blast
    show ?thesis
      unfolding foldl_Cons skip
      by (rule exI [of _ q], rule exI [of _ first'], rule exI [of _ ys], rule exI [of _ b'])
         (use ih in simp)
  next
    case True
    let ?o = "\<not> ab \<and> first"
    have "next_key b + 3 \<le> 2 ^ 31" using Cons.prems(4) by simp
    from Blend_ok [OF Cons.prems(1,2) _ this, of "os_style ov" ?o] Cons.prems(3)
    obtain q ys b1 where bl: "Blend cf p (os_style ov) ?o h b = (q, h @ ys, b1)" "blender_ok cf (h @ ys) b1"
      "q < length (h @ ys)" "(h @ ys) ! q = combine_styles cf ?o (h ! p) (h ! os_style ov)"
      "next_key b1 \<le> next_key b + 3" by auto
    have "\<forall>ov \<in> set ovs. os_style ov < length (h @ ys)" using Cons.prems(3) by auto
    moreover have "next_key b1 + 3 * length ovs \<le> 2 ^ 31" using Cons.prems(4) bl(5) by simp
    ultimately obtain q' first' zs b' where ih:
      "foldl (style_step cf point ab) (q, False, h @ ys, b1) ovs = (q', first', (h @ ys) @ zs, b')"
      "blender_ok cf ((h @ ys) @ zs) b'" "q' < length ((h @ ys) @ zs)" "next_key b' \<le> next_key b1 + 3 * length ovs"
      "foldl (effective_step cf (h @ ys) point ab) ((h @ ys) ! q, False) ovs = (((h @ ys) @ zs) ! q', first')"
      using Cons.IH [OF bl(2,3), of False] by blast
    have same: "foldl (effective_step cf (h @ ys) point ab) v ovs = foldl (effective_step cf h point ab) v ovs" for v
      using Cons.prems(3)
      by (intro foldl_cong) (auto simp: effective_step_def nth_append)
    show ?thesis
      using True bl ih same
      by (intro exI [of _ q'] exI [of _ first'] exI [of _ "ys @ zs"] exI [of _ b'])
         (simp add: style_step_def effective_step_def)
  qed
qed

lemma computeStyleForPoint_ok:
  assumes "blender_ok cf h b" "base < length h" "\<forall>ov \<in> set active. os_style ov < length h"
    and "next_key b + 3 * length active \<le> 2 ^ 31"
  shows "\<exists>q ys b'. computeStyleForPoint cf point active base ab (h, b) = (q, h @ ys, b')
    \<and> blender_ok cf (h @ ys) b' \<and> q < length (h @ ys) \<and> next_key b' \<le> next_key b + 3 * length active
    \<and> (h @ ys) ! q = effective_style cf h active base ab point"
  using style_steps [OF assms, of point ab True]
  by (force simp: computeStyleForPoint_def effective_style_def)

section \<open>Pieces of a line\<close>

text \<open>Between two neighbouring boundaries no overlay starts or ends.\<close>

definition quiet :: "overlay_with_style list \<Rightarrow> int \<Rightarrow> int \<Rightarrow> bool" where
  "quiet active p q \<longleftrightarrow> (\<forall>ov \<in> set active. \<forall>c. p \<le> c \<and> c < q
     \<longrightarrow> span_Contains (os_cols ov) c = span_Contains (os_cols ov) p)"

fun steady :: "overlay_with_style list \<Rightarrow> int list \<Rightarrow> bool" where
  "steady active (p # q # points) \<longleftrightarrow> p < q \<and> quiet active p q \<and> steady active (q # points)"
| "steady active points \<longleftrightarrow> True"

lemma steadyI:
  assumes "sorted_wrt (<) points"
    and "\<forall>ov \<in> set active. \<forall>x. (x = sstart (os_cols ov) \<or> x = send (os_cols ov)) \<and> hd points < x \<and> x < last points
      \<longrightarrow> x \<in> set points"
  shows "steady active points"
  using assms
proof (induction active points rule: steady.induct)
  case (1 active p q points)
  have pq: "p < q" "sorted_wrt (<) (q # points)" using 1 by auto
  have last: "q \<le> last (q # points)" using pq(2) last_in_set [of "q # points"] by force
  have const: "span_Contains (os_cols ov) c = span_Contains (os_cols ov) p"
    if "ov \<in> set active" "p \<le> c" "c < q" for ov c
  proof -
    have "\<not> (p < x \<and> x < q)" if x: "x = sstart (os_cols ov) \<or> x = send (os_cols ov)" for x
    proof
      assume "p < x \<and> x < q"
      have "hd (p # q # points) < x \<and> x < last (p # q # points)" using \<open>p < x \<and> x < q\<close> last by simp
      with 1(3) \<open>ov \<in> set active\<close> x have "x \<in> set (p # q # points)" by blast
      with \<open>p < x \<and> x < q\<close> 1(2) show False by force
    qed
    from this [of "sstart (os_cols ov)"] this [of "send (os_cols ov)"] that(2,3)
    show ?thesis by (auto simp: span_Contains_def)
  qed
  have "x \<in> set (q # points)"
    if "ov \<in> set active" "x = sstart (os_cols ov) \<or> x = send (os_cols ov)" "q < x" "x < last (q # points)" for ov x
  proof -
    have "hd (p # q # points) < x \<and> x < last (p # q # points)" using that(3,4) pq(1) by simp
    with 1(3) that(1,2) have "x \<in> set (p # q # points)" by blast
    with that(3) pq(1) show ?thesis by auto
  qed
  with 1(1) pq(2) have "steady active (q # points)" by simp
  moreover have "quiet active p q" unfolding quiet_def using const by blast
  ultimately show ?case using pq(1) by simp
qed auto

lemma effective_style_cong:
  "(\<And>ov. ov \<in> set active \<Longrightarrow> span_Contains (os_cols ov) c = span_Contains (os_cols ov) p)
    \<Longrightarrow> effective_style cf h active base ab c = effective_style cf h active base ab p"
  unfolding effective_style_def by (intro arg_cong [of _ _ fst] foldl_cong) (auto simp: effective_step_def)

lemma effective_style_quiet:
  "quiet active p q \<Longrightarrow> p \<le> c \<Longrightarrow> c < q
    \<Longrightarrow> effective_style cf h active base ab c = effective_style cf h active base ab p"
  unfolding quiet_def by (blast intro: effective_style_cong)

lemma effective_style_heap:
  "base < length h \<Longrightarrow> \<forall>ov \<in> set active. os_style ov < length h
    \<Longrightarrow> effective_style cf (h @ ys) active base ab = effective_style cf h active base ab"
  unfolding effective_style_def
  by (intro ext arg_cong [of _ _ fst] foldl_cong) (auto simp: effective_step_def nth_append)

text \<open>A line in pieces: a style and the runes shown in it.\<close>

definition pieces_text ::
  "('c, 'm, 'x) terminal \<Rightarrow> (('c, 'x) lstyle \<times> rune list) list \<Rightarrow> string" where
  "pieces_text tm segs = concat (map (\<lambda>(v, rs). tm_Render tm v (Escape (encode_runes rs))) segs)"

definition pieces_runes :: "('v \<times> rune list) list \<Rightarrow> rune list" where
  "pieces_runes segs = concat (map snd segs)"

definition pieces_styles :: "('v \<times> rune list) list \<Rightarrow> 'v list" where
  "pieces_styles segs = concat (map (\<lambda>(v, rs). replicate (length rs) v) segs)"

lemma pieces_simps [simp]:
  "pieces_text tm [] = []" "pieces_runes [] = []" "pieces_styles [] = []"
  "pieces_text tm ((v, xs) # segs) = tm_Render tm v (Escape (encode_runes xs)) @ pieces_text tm segs"
  "pieces_runes ((v, xs) # segs) = xs @ pieces_runes segs"
  "pieces_styles ((v, xs) # segs) = replicate (length xs) v @ pieces_styles segs"
  by (simp_all add: pieces_text_def pieces_runes_def pieces_styles_def)

text \<open>The tail of \<open>styleLineWithRanges\<close>: the last piece.\<close>

definition finish_line ::
  "('c, 'm, 'x) terminal \<Rightarrow> rune list \<Rightarrow> string \<times> nat option \<times> int \<times> ('c, 'x) render_state
    \<Rightarrow> string \<times> ('c, 'x) render_state" where
  "finish_line tm rs = (\<lambda>(sb, currentStyle, spanStart, st').
     case currentStyle of
       Some cur \<Rightarrow> if spanStart < int (length rs)
                   then (sb @ flush tm (fst st') cur (drop (nat spanStart) rs), st') else (sb, st')
     | None \<Rightarrow> (sb, st'))"

definition styled :: "('v \<times> rune list) list \<Rightarrow> rune list \<Rightarrow> (int \<Rightarrow> 'v) \<Rightarrow> int \<Rightarrow> nat \<Rightarrow> bool" where
  "styled segs rs eff col k \<longleftrightarrow> pieces_runes segs = drop k rs \<and> pieces_styles segs = map (\<lambda>i. eff (col + int i)) [k..<length rs]"

lemma span_loop_pieces:
  assumes "blender_ok cf h b" "cf = tm_colors tm" "base < length h" "\<forall>ov \<in> set active. os_style ov < length h"
    and "next_key b + 3 * length active * length ps \<le> 2 ^ 31"
    and "steady active (p # ps)" "last (p # ps) = sstart cols + int (length rs)"
    and "int k < p - sstart cols" "p - sstart cols \<le> int (length rs)" "cur < length h"
    and "\<forall>c. sstart cols + int k \<le> c \<and> c < p \<longrightarrow> effective_style cf h active base ab c = h ! cur"
  shows "\<exists>segs ys b'.
    finish_line tm rs (span_loop tm rs cols active base ab sb (Some cur) (int k) (h, b) (p # ps))
      = (sb @ pieces_text tm segs, h @ ys, b')
    \<and> styled segs rs (effective_style cf h active base ab) (sstart cols) k
    \<and> blender_ok cf (h @ ys) b' \<and> next_key b' \<le> next_key b + 3 * length active * length ps"
  using assms
proof (induction ps arbitrary: p k cur h b sb)
  case Nil
  let ?eff = "effective_style cf h active base ab"
  have k: "int k < int (length rs)" using Nil by simp
  have "map (\<lambda>i. ?eff (sstart cols + int i)) [k..<length rs] = map (\<lambda>_. h ! cur) [k..<length rs]"
    using Nil by (intro map_cong) auto
  then have "styled [(h ! cur, drop k rs)] rs ?eff (sstart cols) k"
    by (simp add: styled_def map_replicate_const)
  with k Nil show ?case
    by (intro exI [of _ "[(h ! cur, drop k rs)]"] exI [of _ "[]"] exI [of _ b])
       (simp add: finish_line_def flush_def)
next
  case (Cons q ps)
  let ?eff = "effective_style cf h active base ab"
  let ?col = "sstart cols"
  let ?m = "nat (p - ?col)"
  have m: "int ?m = p - ?col" "k < ?m" "?m \<le> length rs" using Cons.prems(8,9) by auto
  have pq: "p < q" "steady active (q # ps)" using Cons.prems(6) by simp_all
  have qle: "q \<le> ?col + int (length rs)"
  proof -
    have "steady active (y # ys) \<Longrightarrow> y \<le> last (y # ys)" for y ys
      by (induction ys arbitrary: y) fastforce+
    from this [OF pq(2)] Cons.prems(7) show ?thesis by simp
  qed
  have "next_key b + 3 * length active \<le> 2 ^ 31" using Cons.prems(5) by simp
  from computeStyleForPoint_ok [OF Cons.prems(1,3,4) this, of p ab] obtain s ys b1 where s:
    "computeStyleForPoint cf p active base ab (h, b) = (s, h @ ys, b1)" "blender_ok cf (h @ ys) b1"
    "s < length (h @ ys)" "next_key b1 \<le> next_key b + 3 * length active" "(h @ ys) ! s = ?eff p" by blast
  have at: "?eff c = (h @ ys) ! s" if "p \<le> c" "c < q" for c
  proof -
    have "quiet active p q" using Cons.prems(6) by simp
    then have "?eff c = ?eff p" using that by (rule effective_style_quiet)
    with s(5) show ?thesis by simp
  qed
  have heap: "effective_style cf (h @ ys) active base ab = ?eff"
    by (rule effective_style_heap [OF Cons.prems(3,4)])
  have old: "base < length (h @ ys)" "\<forall>ov \<in> set active. os_style ov < length (h @ ys)" using Cons.prems(3,4) by auto
  have budget: "next_key b1 + 3 * length active * length ps \<le> 2 ^ 31"
    "next_key b1 + 3 * length active * length ps \<le> next_key b + 3 * length active * length (q # ps)"
    using Cons.prems(5) s(4) by simp_all
  have lastq: "last (q # ps) = ?col + int (length rs)" using Cons.prems(7) by simp
  have skip: "\<not> (p - ?col < 0 \<or> q - ?col > int (length rs) \<or> p - ?col \<ge> q - ?col)"
    using m pq(1) qle by simp
  note IH = Cons.IH [OF s(2) Cons.prems(2) old budget(1) pq(2) lastq, unfolded heap]
  show ?case
  proof (cases "cur = s")
    case True
    have cur: "(h @ ys) ! cur = h ! cur" using Cons.prems(10) by (simp add: nth_append)
    have const: "\<forall>c. ?col + int k \<le> c \<and> c < q \<longrightarrow> ?eff c = (h @ ys) ! cur"
    proof (intro allI impI)
      fix c assume "?col + int k \<le> c \<and> c < q"
      with Cons.prems(11) at [of c] cur True show "?eff c = (h @ ys) ! cur" by (cases "c < p") auto
    qed
    have "int k < q - ?col" "q - ?col \<le> int (length rs)" using Cons.prems(8) pq(1) qle by simp_all
    from IH [OF this _ const, of sb] s(3) True obtain segs zs b' where r:
      "finish_line tm rs (span_loop tm rs cols active base ab sb (Some cur) (int k) (h @ ys, b1) (q # ps))
        = (sb @ pieces_text tm segs, (h @ ys) @ zs, b')"
      "styled segs rs ?eff ?col k" "blender_ok cf ((h @ ys) @ zs) b'"
      "next_key b' \<le> next_key b1 + 3 * length active * length ps" by blast
    have "span_loop tm rs cols active base ab sb (Some cur) (int k) (h, b) (p # q # ps)
      = span_loop tm rs cols active base ab sb (Some cur) (int k) (h @ ys, b1) (q # ps)"
      using skip s(1) True Cons.prems(2) by simp
    with r budget(2) show ?thesis
      by (intro exI [of _ segs] exI [of _ "ys @ zs"] exI [of _ b']) (auto intro: le_trans)
  next
    case False
    let ?piece = "take (?m - k) (drop k rs)"
    have const: "\<forall>c. ?col + int ?m \<le> c \<and> c < q \<longrightarrow> ?eff c = (h @ ys) ! s" using at m(1) by auto
    have cur: "(h @ ys) ! cur = h ! cur" using Cons.prems(10) by (simp add: nth_append)
    have "int ?m < q - ?col" "q - ?col \<le> int (length rs)" using m(1) pq(1) qle by simp_all
    from IH [OF this s(3) const, of "sb @ flush tm (h @ ys) cur ?piece"] obtain segs zs b' where r:
      "finish_line tm rs (span_loop tm rs cols active base ab (sb @ flush tm (h @ ys) cur ?piece) (Some s) (int ?m)
         (h @ ys, b1) (q # ps))
        = ((sb @ flush tm (h @ ys) cur ?piece) @ pieces_text tm segs, (h @ ys) @ zs, b')"
      "styled segs rs ?eff ?col ?m" "blender_ok cf ((h @ ys) @ zs) b'"
      "next_key b' \<le> next_key b1 + 3 * length active * length ps" by blast
    have "nat (p - ?col - int k) = ?m - k" using m by simp
    then have step: "span_loop tm rs cols active base ab sb (Some cur) (int k) (h, b) (p # q # ps)
      = span_loop tm rs cols active base ab (sb @ flush tm (h @ ys) cur ?piece) (Some s) (int ?m) (h @ ys, b1) (q # ps)"
      using skip s(1) False Cons.prems(2,8) by (simp add: Let_def)
    have "[k..<length rs] = [k..<?m] @ [?m..<length rs]"
      using m(2,3) upt_add_eq_append [of k ?m "length rs - ?m"] by simp
    moreover have "map (\<lambda>i. ?eff (?col + int i)) [k..<?m] = map (\<lambda>_. h ! cur) [k..<?m]"
      using Cons.prems(11) m by (intro map_cong) auto
    moreover have "?piece @ drop ?m rs = drop k rs"
      using append_take_drop_id [of "?m - k" "drop k rs"] m(2) by simp
    moreover have "length ?piece = ?m - k" using m by simp
    ultimately have "styled ((h ! cur, ?piece) # segs) rs ?eff ?col k"
      using r(2) by (simp add: styled_def map_replicate_const)
    with r step cur budget(2) show ?thesis
      by (intro exI [of _ "(h ! cur, ?piece) # segs"] exI [of _ "ys @ zs"] exI [of _ b'])
         (auto simp: flush_def intro: le_trans)
  qed
qed

section \<open>Boundaries\<close>

lemma sorted_wrt_less_remdups_adj: "sorted xs \<Longrightarrow> sorted_wrt (<) (remdups_adj (xs::int list))"
  by (induction xs rule: remdups_adj.induct) (auto simp: order_less_le)

lemma boundaries:
  assumes "sstart cols < send cols"
  shows "\<exists>q points. computeStyleBoundaries active cols = sstart cols # q # points
    \<and> last (q # points) = send cols \<and> steady active (sstart cols # q # points)
    \<and> length (q # points) \<le> 2 * length active + 1"
proof -
  let ?bs = "boundary_points active cols"
  let ?ps = "computeStyleBoundaries active cols"
  have set: "set ?ps = set ?bs" by (simp add: computeStyleBoundaries_def)
  have sorted: "sorted_wrt (<) ?ps" by (simp add: computeStyleBoundaries_def sorted_wrt_less_remdups_adj)
  have range: "sstart cols \<le> x \<and> x \<le> send cols" if "x \<in> set ?bs" for x
    using that assms by (auto simp: boundary_points_def split: if_splits)
  have ends: "sstart cols \<in> set ?bs" "send cols \<in> set ?bs" by (simp_all add: boundary_points_def)
  have mem: "sstart cols \<in> set ?ps" "send cols \<in> set ?ps" using set ends by simp_all
  then obtain p ps where ps: "?ps = p # ps" by (cases ?ps) auto
  with mem assms obtain q points where qs: "ps = q # points" by (cases ps) auto
  have p: "p = sstart cols"
    using sorted ps range [of p] set ends(1) by force
  have l: "last (q # points) = send cols"
  proof -
    have "x \<le> last xs" if "sorted_wrt (<) xs" "x \<in> set xs" for x and xs :: "int list"
      using that
    proof (induction xs)
      case (Cons y ys)
      then show ?case using last_in_set [of ys] by (cases "ys = []") (auto intro: less_imp_le)
    qed simp
    from this [OF sorted mem(2)] have "send cols \<le> last ?ps" .
    moreover have "?ps \<noteq> []" using ps by simp
    then have "last ?ps \<in> set ?bs" unfolding set [symmetric] by (rule last_in_set)
    with range have "last ?ps \<le> send cols" by blast
    ultimately show ?thesis using ps qs by simp
  qed
  have "steady active ?ps"
  proof (rule steadyI [OF sorted], intro ballI allI impI)
    fix ov x
    assume "ov \<in> set active" "(x = sstart (os_cols ov) \<or> x = send (os_cols ov)) \<and> hd ?ps < x \<and> x < last ?ps"
    moreover have "hd ?ps = sstart cols" "last ?ps = send cols" using ps qs p l by simp_all
    ultimately have "ov \<in> set active" "x = sstart (os_cols ov) \<or> x = send (os_cols ov)" "sstart cols < x" "x < send cols"
      by simp_all
    then have "x \<in> set ?bs" by (auto simp: boundary_points_def)
    with set show "x \<in> set ?ps" by simp
  qed
  moreover have "length ?ps \<le> 2 * length active + 2"
  proof -
    have "length ?bs \<le> 2 * length active + 2" by (induction active) (simp_all add: boundary_points_def)
    then show ?thesis
      using remdups_adj_length [of "sort ?bs"] by (simp add: computeStyleBoundaries_def)
  qed
  ultimately show ?thesis using ps qs p l by simp
qed

text \<open>The style of a column, said without pointers to combine: every overlay of the line that has a
  style and covers the column, in order.\<close>

definition column_style ::
  "('c, 'm) colorful \<Rightarrow> ('c, 'x) style_heap \<Rightarrow> style_getter \<Rightarrow> overlay list \<Rightarrow> nat \<Rightarrow> bool \<Rightarrow> int \<Rightarrow> ('c, 'x) lstyle" where
  "column_style cf h styles overlays base alwaysBlend c =
     fst (foldl (\<lambda>(v, first) st. (combine_styles cf (\<not> alwaysBlend \<and> first) v (h ! st), False)) (h ! base, True)
       (List.map_filter (\<lambda>o'. if span_Contains (ov_cols o') c then styles (ov_kind o') else None) overlays))"

lemma effective_column_style:
  assumes "span_Contains cols c"
  shows "effective_style cf h (active_overlays styles cols overlays) base ab c = column_style cf h styles overlays base ab c"
proof -
  have "foldl (effective_step cf h c ab) v (active_overlays styles cols overlays)
    = foldl (\<lambda>(v, first) st. (combine_styles cf (\<not> ab \<and> first) v (h ! st), False)) v
        (List.map_filter (\<lambda>o'. if span_Contains (ov_cols o') c then styles (ov_kind o') else None) overlays)" for v
  proof (induction overlays arbitrary: v)
    case (Cons o' overlays)
    have "span_Contains (ov_cols o') c \<Longrightarrow> span_Overlaps (ov_cols o') cols"
      using assms by (auto simp: span_Overlaps_def span_Contains_def)
    with Cons.IH show ?case
      by (cases "styles (ov_kind o')")
         (auto simp: active_overlays_def map_filter_simps effective_step_def split: prod.splits)
  qed (simp add: active_overlays_def map_filter_simps)
  then show ?thesis by (simp add: effective_style_def column_style_def)
qed

text \<open>An annotation at a negative column panics, even one that \<open>DefaultAnnotation\<close> clamps to column 0.\<close>

lemma renderAnnotation_negative_column:
  assumes "FilterPosition (l_annotations ln) relPos \<noteq> []" "annotations_Col (FilterPosition (l_annotations ln) relPos) < 0"
    and "pt_annotation p \<lparr>ac_Styles = pt_styles p, ac_Annotations = FilterPosition (l_annotations ln) relPos,
      ac_Position = relPos\<rparr> \<noteq> []"
  shows "renderAnnotation tm p h ln pos n k relPos gw = None"
  using assms by (simp add: renderAnnotation_def go_Repeat_space_def Let_def)

section \<open>Whole texts\<close>

lemma Escape_encode [simp]: "Escape (encode_runes (runes s)) = Escape s"
  by (simp add: Escape_def runes_encode_runes runes_valid)

lemma active_overlays_bounds:
  "(\<And>k st. styles k = Some st \<Longrightarrow> st < n) \<Longrightarrow> \<forall>ov \<in> set (active_overlays styles cols os). os_style ov < n"
  by (induction os) (auto simp: active_overlays_def map_filter_simps split: option.splits)

lemma length_active_overlays: "length (active_overlays styles cols os) \<le> length os"
  by (induction os) (auto simp: active_overlays_def map_filter_simps split: option.splits)

primrec columns :: "(int \<Rightarrow> 'a \<Rightarrow> 'b) \<Rightarrow> int \<Rightarrow> 'a list \<Rightarrow> 'b list" where
  "columns f c [] = []"
| "columns f c (x # xs) = f c x # columns f (c + 1) xs"

lemma columns_append [simp]: "columns f c (xs @ ys) = columns f c xs @ columns f (c + int (length xs)) ys"
  by (induction xs arbitrary: c) (simp_all add: algebra_simps)

lemma columns_replicate: "columns f c (replicate n x) = map (\<lambda>i. f (c + int i) x) [0..<n]"
  by (induction n arbitrary: c) (simp_all add: upt_conv_Cons map_Suc_upt [symmetric] algebra_simps del: upt_Suc)

lemma pieces_append [simp]:
  "pieces_text tm (xs @ ys) = pieces_text tm xs @ pieces_text tm ys"
  "pieces_runes (xs @ ys) = pieces_runes xs @ pieces_runes ys"
  "pieces_styles (xs @ ys) = pieces_styles xs @ pieces_styles ys"
  by (simp_all add: pieces_text_def pieces_runes_def pieces_styles_def)

lemma column_style_heap:
  assumes "base < length h" "\<And>k st. styles k = Some st \<Longrightarrow> st < length h"
  shows "column_style cf (h @ ys) styles overlays base ab c = column_style cf h styles overlays base ab c"
proof -
  have "st < length h"
    if "st \<in> set (List.map_filter (\<lambda>o'. if span_Contains (ov_cols o') c then styles (ov_kind o') else None) overlays)" for st
    using that assms(2) by (auto simp: map_filter_def split: if_splits)
  then show ?thesis
    unfolding column_style_def
    by (intro arg_cong [of _ _ fst] foldl_cong) (auto simp: nth_append assms(1))
qed

text \<open>The keys the blender may hand out for one piece of text.\<close>

definition style_cost :: "overlay list \<Rightarrow> nat" where
  "style_cost overlays = 3 * length overlays * (2 * length overlays + 1)"

definition getter_ok :: "style_getter \<Rightarrow> nat \<Rightarrow> bool" where
  "getter_ok styles n \<longleftrightarrow> (\<forall>k st. styles k = Some st \<longrightarrow> st < n)"

lemma getter_okD: "getter_ok styles n \<Longrightarrow> styles k = Some st \<Longrightarrow> st < n"
  by (auto simp: getter_ok_def)

lemma styleLine_pieces_active:
  assumes "blender_ok (tm_colors tm) h b" "base < length h" "getter_ok styles (length h)"
    and "next_key b + style_cost overlays \<le> 2 ^ 31"
    and "src \<noteq> []" "active_overlays styles (NewSpan col (col + int (rune_count src))) overlays \<noteq> []"
  shows "\<exists>segs ys b'. styleLineWithRanges tm styles src col (Some base) ab overlays (h, b) = Some (pieces_text tm segs, h @ ys, b')
    \<and> pieces_runes segs = runes src
    \<and> pieces_styles segs = columns (\<lambda>c s. column_style (tm_colors tm) h styles overlays s ab c) col (replicate (rune_count src) base)
    \<and> blender_ok (tm_colors tm) (h @ ys) b' \<and> next_key b' \<le> next_key b + style_cost overlays"
proof -
  let ?cf = "tm_colors tm"
  let ?n = "rune_count src"
  let ?cols = "NewSpan col (col + int ?n)"
  let ?active = "active_overlays styles ?cols overlays"
  let ?eff = "effective_style ?cf h ?active base ab"
  let ?style = "column_style ?cf h styles overlays base ab"
  have cols: "sstart ?cols = col" "send ?cols = col + int ?n" by simp_all
  have eff: "?eff (col + int i) = ?style (col + int i)" if "i < ?n" for i
    by (rule effective_column_style) (use that in \<open>simp add: span_Contains_iff\<close>)
  have n: "?n > 0" "?n = length (runes src)" using assms(5) by (simp_all add: rune_count_def [symmetric] zero_less_iff_neq_zero)
  let ?k = "length ?active"
  have k: "?k \<le> length overlays" by (rule length_active_overlays)
  have old: "\<forall>ov \<in> set ?active. os_style ov < length h" by (rule active_overlays_bounds) (rule getter_okD [OF assms(3)])
  obtain q points where bs: "computeStyleBoundaries ?active ?cols = col # q # points"
    "last (q # points) = col + int ?n" "steady ?active (col # q # points)" "length (q # points) \<le> 2 * ?k + 1"
    using boundaries [of ?cols ?active] n(1) by auto
  have "3 * ?k * (2 * ?k + 1) \<le> 3 * length overlays * (2 * length overlays + 1)"
    using k by (intro mult_le_mono) simp_all
  moreover have "3 * ?k + 3 * ?k * length points \<le> 3 * ?k * (2 * ?k + 1)"
    using mult_le_mono2 [OF bs(4), of "3 * ?k"] by (simp add: algebra_simps)
  ultimately have bounds: "3 * ?k + 3 * ?k * length points \<le> style_cost overlays"
    unfolding style_cost_def by linarith
  then have budget: "next_key b + (3 * ?k + 3 * ?k * length points) \<le> 2 ^ 31" using assms(4) by linarith
  then have "next_key b + 3 * ?k \<le> 2 ^ 31" by linarith
  from computeStyleForPoint_ok [OF assms(1,2) old this, of col ab] obtain s ys b1 where s:
    "computeStyleForPoint ?cf col ?active base ab (h, b) = (s, h @ ys, b1)" "blender_ok ?cf (h @ ys) b1"
    "s < length (h @ ys)" "next_key b1 \<le> next_key b + 3 * ?k" "(h @ ys) ! s = ?eff col" by blast
  have heap: "effective_style ?cf (h @ ys) ?active base ab = ?eff"
    by (rule effective_style_heap [OF assms(2) old])
  have steady: "col < q" "quiet ?active col q" "steady ?active (q # points)" using bs(3) by simp_all
  have qle: "q \<le> col + int ?n"
  proof -
    have "steady ?active (y # ys) \<Longrightarrow> y \<le> last (y # ys)" for y ys
      by (induction ys arbitrary: y) fastforce+
    from this [OF steady(3)] bs(2) show ?thesis by simp
  qed
  have const: "\<forall>c. sstart ?cols + int 0 \<le> c \<and> c < q \<longrightarrow> effective_style ?cf (h @ ys) ?active base ab c = (h @ ys) ! s"
    unfolding heap s(5) by (auto simp: cols intro: effective_style_quiet [OF steady(2)])
  have prems: "base < length (h @ ys)" "\<forall>ov \<in> set ?active. os_style ov < length (h @ ys)"
    "next_key b1 + 3 * ?k * length points \<le> 2 ^ 31" "int 0 < q - sstart ?cols" "q - sstart ?cols \<le> int (length (runes src))"
    "last (q # points) = sstart ?cols + int (length (runes src))"
    using assms(2) old budget s(4) steady(1) qle n(2) cols bs(2) by auto
  from span_loop_pieces [OF s(2) refl prems(1-3) steady(3) prems(6,4,5) s(3) const, of "[]"]
  obtain segs zs b' where r:
    "finish_line tm (runes src) (span_loop tm (runes src) ?cols ?active base ab [] (Some s) 0 (h @ ys, b1) (q # points))
      = (pieces_text tm segs, (h @ ys) @ zs, b')"
    "styled segs (runes src) ?eff col 0" "blender_ok ?cf ((h @ ys) @ zs) b'"
    "next_key b' \<le> next_key b1 + 3 * ?k * length points"
    unfolding heap cols by auto
  have "span_loop tm (runes src) ?cols ?active base ab [] None 0 (h, b) (col # q # points)
    = span_loop tm (runes src) ?cols ?active base ab [] (Some s) 0 (h @ ys, b1) (q # points)"
    using s(1) steady(1) qle n(2) by (simp add: cols Let_def)
  then have "styleLineWithRanges tm styles src col (Some base) ab overlays (h, b)
    = Some (finish_line tm (runes src) (span_loop tm (runes src) ?cols ?active base ab [] (Some s) 0 (h @ ys, b1) (q # points)))"
    using assms(5,6) bs(1)
    by (auto simp: styleLineWithRanges_def finish_line_def Let_def active_overlays_def map_filter_simps split: prod.splits option.splits)
  moreover have "map (\<lambda>i. ?eff (col + int i)) [0..<?n] = map (\<lambda>i. ?style (col + int i)) [0..<?n]"
    using eff by (intro map_cong) auto
  moreover have "next_key b' \<le> next_key b + style_cost overlays"
    using r(4) s(4) bounds by linarith
  ultimately show ?thesis
    using r n(2)
    by (intro exI [of _ segs] exI [of _ "ys @ zs"] exI [of _ b']) (simp add: styled_def columns_replicate)
qed

lemma styleLine_pieces:
  assumes "blender_ok (tm_colors tm) h b" "base < length h" "getter_ok styles (length h)"
    and "next_key b + style_cost overlays \<le> 2 ^ 31"
  shows "\<exists>segs ys b'. styleLineWithRanges tm styles src col (Some base) ab overlays (h, b) = Some (pieces_text tm segs, h @ ys, b')
    \<and> pieces_runes segs = runes src
    \<and> pieces_styles segs = columns (\<lambda>c s. column_style (tm_colors tm) h styles overlays s ab c) col (replicate (rune_count src) base)
    \<and> blender_ok (tm_colors tm) (h @ ys) b' \<and> next_key b' \<le> next_key b + style_cost overlays"
proof -
  let ?cf = "tm_colors tm"
  let ?n = "rune_count src"
  let ?cols = "NewSpan col (col + int ?n)"
  let ?active = "active_overlays styles ?cols overlays"
  let ?eff = "effective_style ?cf h ?active base ab"
  let ?style = "column_style ?cf h styles overlays base ab"
  have cols: "sstart ?cols = col" "send ?cols = col + int ?n" by simp_all
  have eff: "?eff (col + int i) = ?style (col + int i)" if "i < ?n" for i
    by (rule effective_column_style) (use that in \<open>simp add: span_Contains_iff\<close>)
  have n: "?n = length (runes src)" by (simp add: rune_count_def)
  consider "src = []" | "src \<noteq> []" "?active = []" | "src \<noteq> []" "?active \<noteq> []" by blast
  then show ?thesis
  proof cases
    case 1
    with assms(1) show ?thesis
      by (intro exI [of _ "[]"] exI [of _ b]) (simp add: styleLineWithRanges_def)
  next
    case 2
    have "styleLineWithRanges tm styles src col (Some base) ab overlays (h, b) = Some (tm_Render tm (h ! base) (Escape src), h, b)"
      using 2 assms(2) by (auto simp: styleLineWithRanges_def render_in_def deref_def)
    moreover have "?eff c = h ! base" for c by (simp add: 2 effective_style_def)
    then have "map (\<lambda>i. ?style (col + int i)) [0..<?n] = map (\<lambda>_. h ! base) [0..<?n]"
      using eff by (intro map_cong) auto
    ultimately show ?thesis
      using assms(1) n
      by (intro exI [of _ "[(h ! base, runes src)]"] exI [of _ "[]"] exI [of _ b])
         (simp add: map_replicate_const columns_replicate)
  next
    case 3
    then show ?thesis by (rule styleLine_pieces_active [OF assms])
  qed
qed

section \<open>Lines\<close>

text \<open>The heap of styles the printer started with, grown; \<open>n\<close> keys are left for what follows.\<close>

definition state_ok ::
  "('c, 'm, 'x) terminal \<Rightarrow> ('c, 'x) style_heap \<Rightarrow> ('c, 'x) render_state \<Rightarrow> nat \<Rightarrow> bool" where
  "state_ok tm h st n \<longleftrightarrow> (\<exists>ys. fst st = h @ ys) \<and> blender_ok (tm_colors tm) (fst st) (snd st)
     \<and> next_key (snd st) + n \<le> 2 ^ 31"

text \<open>The pieces show the runes \<open>rs\<close> from column \<open>col\<close> on, over the base styles \<open>bases\<close>.\<close>

definition shown ::
  "('c, 'm, 'x) terminal \<Rightarrow> ('c, 'x) style_heap \<Rightarrow> style_getter \<Rightarrow> overlay list \<Rightarrow> bool \<Rightarrow> int
    \<Rightarrow> (('c, 'x) lstyle \<times> rune list) list \<Rightarrow> rune list \<Rightarrow> nat list \<Rightarrow> bool" where
  "shown tm h styles overlays ab col segs rs bases \<longleftrightarrow> pieces_runes segs = rs
     \<and> pieces_styles segs = columns (\<lambda>c s. column_style (tm_colors tm) h styles overlays s ab c) col bases"

lemma shown_Nil [simp]: "shown tm h styles overlays ab col [] [] []"
  by (simp add: shown_def)

lemma shown_append:
  "shown tm h styles overlays ab col segs rs bases
    \<Longrightarrow> shown tm h styles overlays ab (col + int (length bases)) segs' rs' bases'
    \<Longrightarrow> shown tm h styles overlays ab col (segs @ segs') (rs @ rs') (bases @ bases')"
  by (simp add: shown_def)

lemma styled_text:
  assumes "state_ok tm h st (style_cost overlays + n)" "getter_ok styles (length h)" "base < length h"
  shows "\<exists>segs st'. styleLineWithRanges tm styles src col (Some base) ab overlays st = Some (pieces_text tm segs, st')
    \<and> shown tm h styles overlays ab col segs (runes src) (replicate (rune_count src) base) \<and> state_ok tm h st' n"
proof -
  obtain ys b where st: "st = (h @ ys, b)" "blender_ok (tm_colors tm) (h @ ys) b"
    "next_key b + (style_cost overlays + n) \<le> 2 ^ 31"
    using assms(1) by (cases st) (auto simp: state_ok_def)
  have old: "base < length (h @ ys)" "getter_ok styles (length (h @ ys))" "next_key b + style_cost overlays \<le> 2 ^ 31"
    using assms(2,3) st(3) by (auto simp: getter_ok_def intro: trans_less_add1)
  obtain segs zs b' where r:
    "styleLineWithRanges tm styles src col (Some base) ab overlays (h @ ys, b) = Some (pieces_text tm segs, (h @ ys) @ zs, b')"
    "pieces_runes segs = runes src"
    "pieces_styles segs = columns (\<lambda>c s. column_style (tm_colors tm) (h @ ys) styles overlays s ab c) col (replicate (rune_count src) base)"
    "blender_ok (tm_colors tm) ((h @ ys) @ zs) b'" "next_key b' \<le> next_key b + style_cost overlays"
    using styleLine_pieces [OF st(2) old] by blast
  have "column_style (tm_colors tm) (h @ ys) styles overlays base ab c = column_style (tm_colors tm) h styles overlays base ab c" for c
    by (rule column_style_heap [OF assms(3)]) (rule getter_okD [OF assms(2)])
  then have "shown tm h styles overlays ab col segs (runes src) (replicate (rune_count src) base)"
    using r(2,3) by (simp add: shown_def columns_replicate)
  moreover have "state_ok tm h (h @ ys @ zs, b') n"
    using r(4,5) st(3) by (simp add: state_ok_def)
  ultimately show ?thesis using r(1) st(1) by auto
qed

text \<open>The runes of a token on its line, and the style each has before any overlay: the white space in
  front of the value has that of text.\<close>

definition token_text :: "token \<Rightarrow> rune list" where
  "token_text tk = runes (trim_suffix (tk_origin tk) [LF])"

definition token_space :: "token \<Rightarrow> nat" where
  "token_space tk = (let n = leadingWhitespaceRunes (trim_suffix (tk_origin tk) [LF]) (ValueOffset tk) in
     if n > 0 \<and> n \<le> int (length (token_text tk)) then nat n else 0)"

definition token_bases :: "style_getter \<Rightarrow> token \<times> token_type \<Rightarrow> nat list" where
  "token_bases styles = (\<lambda>(tk, nextType). replicate (token_space tk) (the (styles style_Text))
     @ replicate (length (token_text tk) - token_space tk) (the (styles (TypeStyle tk nextType))))"

lemma token_space_le: "token_space tk \<le> length (token_text tk)"
  by (auto simp: token_space_def Let_def)

lemma length_token_bases: "length (token_bases styles (tk, nt)) = length (token_text tk)"
  using token_space_le [of tk] by (simp add: token_bases_def)

lemma runes_encode_part:
  "runes (encode_runes (take k (runes s))) = take k (runes s)" "runes (encode_runes (drop k (runes s))) = drop k (runes s)"
  using runes_valid [of s] by (intro runes_encode_runes, meson list_all_iff in_set_takeD in_set_dropD)+

definition token_tail ::
  "('c, 'm, 'x) terminal \<Rightarrow> style_getter \<Rightarrow> overlay list \<Rightarrow> style \<Rightarrow> rune list \<Rightarrow> string \<times> int \<times> ('c, 'x) render_state
    \<Rightarrow> (string \<times> int \<times> ('c, 'x) render_state) option" where
  "token_tail tm styles overlays kind rs = (\<lambda>(sb, col, st).
     if length rs > 0
     then map_option (\<lambda>(x, st'). (sb @ x, col + int (length rs), st'))
            (styleLineWithRanges tm styles (encode_runes rs) col (styles kind) False overlays st)
     else Some (sb, col, st))"

lemma render_token_eq:
  "render_token tm styles overlays (sb, col, st) (tk, nt) =
     Option.bind (token_tail tm styles overlays style_Text (take (token_space tk) (token_text tk)) (sb, col, st))
       (token_tail tm styles overlays (TypeStyle tk nt) (drop (token_space tk) (token_text tk)))"
proof -
  let ?n = "leadingWhitespaceRunes (trim_suffix (tk_origin tk) [LF]) (ValueOffset tk)"
  show ?thesis
  proof (cases "?n > 0 \<and> ?n \<le> int (length (token_text tk))")
    case True
    then have k: "?n = int (token_space tk)" by (simp add: token_space_def Let_def)
    with True have "0 < token_space tk" "token_space tk \<le> length (token_text tk)" by simp_all
    with k show ?thesis
      by (cases "styleLineWithRanges tm styles (encode_runes (take (token_space tk) (token_text tk))) col
            (styles style_Text) False overlays st")
         (auto simp: render_token_def token_tail_def token_text_def Let_def min_def)
  next
    case False
    then have "token_space tk = 0" by (auto simp: token_space_def Let_def)
    with False show ?thesis by (auto simp: render_token_def token_tail_def token_text_def Let_def)
  qed
qed

lemma token_tail_Some:
  "styleLineWithRanges tm styles (encode_runes rs) col (styles kind) False overlays st = Some (x, st')
    \<Longrightarrow> styles kind \<noteq> None \<Longrightarrow> token_tail tm styles overlays kind rs (sb, col, st) = Some (sb @ x, col + int (length rs), st')"
  by (cases rs) (auto simp: token_tail_def styleLineWithRanges_def)

lemma render_token_ok:
  assumes "state_ok tm h st (2 * style_cost overlays + n)" "getter_ok styles (length h)"
    and "styles style_Text \<noteq> None" "styles (TypeStyle tk nt) \<noteq> None"
  shows "\<exists>segs st'. render_token tm styles overlays (sb, col, st) (tk, nt)
      = Some (sb @ pieces_text tm segs, col + int (length (token_text tk)), st')
    \<and> shown tm h styles overlays False col segs (token_text tk) (token_bases styles (tk, nt)) \<and> state_ok tm h st' n"
proof -
  let ?s = "trim_suffix (tk_origin tk) [LF]"
  let ?rs = "runes ?s"
  let ?k = "token_space tk"
  obtain pl ts where styles: "styles style_Text = Some pl" "styles (TypeStyle tk nt) = Some ts"
    "pl < length h" "ts < length h" using assms(2-4) by (auto simp: getter_ok_def)
  have "state_ok tm h st (style_cost overlays + (style_cost overlays + n))" using assms(1) by (simp add: mult_2 add.assoc)
  from styled_text [OF this assms(2) styles(3), of "encode_runes (take ?k ?rs)" col False]
  obtain segs1 st1 where s1:
    "styleLineWithRanges tm styles (encode_runes (take ?k ?rs)) col (Some pl) False overlays st = Some (pieces_text tm segs1, st1)"
    "shown tm h styles overlays False col segs1 (take ?k ?rs) (replicate ?k pl)" "state_ok tm h st1 (style_cost overlays + n)"
    using token_space_le [of tk] by (auto simp: runes_encode_part rune_count_def token_text_def)
  from styled_text [OF s1(3) assms(2) styles(4), of "encode_runes (drop ?k ?rs)" "col + int ?k" False]
  obtain segs2 st2 where s2:
    "styleLineWithRanges tm styles (encode_runes (drop ?k ?rs)) (col + int ?k) (Some ts) False overlays st1
       = Some (pieces_text tm segs2, st2)"
    "shown tm h styles overlays False (col + int ?k) segs2 (drop ?k ?rs) (replicate (length ?rs - ?k) ts)" "state_ok tm h st2 n"
    by (auto simp: runes_encode_part rune_count_def)
  have "shown tm h styles overlays False col (segs1 @ segs2) (token_text tk) (token_bases styles (tk, nt))"
    using shown_append [OF s1(2), of segs2 "drop ?k ?rs" "replicate (length ?rs - ?k) ts"] s2(2) styles(1,2)
    by (simp add: token_bases_def token_text_def)
  moreover have "render_token tm styles overlays (sb, col, st) (tk, nt)
    = Some (sb @ pieces_text tm (segs1 @ segs2), col + int (length (token_text tk)), st2)"
    using s1(1) s2(1) styles token_space_le [of tk]
    by (simp add: render_token_eq token_tail_Some token_text_def)
  ultimately show ?thesis using s2(3) by blast
qed

lemma next_types_length: "tks \<noteq> [] \<Longrightarrow> length (next_types nx tks) = length tks"
  by (simp add: next_types_def)

text \<open>What a line shows: its runes, and their styles before any overlay.\<close>

definition line_text :: "adder \<Rightarrow> line \<Rightarrow> rune list" where
  "line_text add l = (if l_flag l = FlagDeleted \<or> l_flag l = FlagInserted then runes (line_Content l)
     else concat (map token_text (line_Tokens add l)))"

definition line_bases :: "adder \<Rightarrow> (token \<Rightarrow> token_type) \<Rightarrow> style_getter \<Rightarrow> line \<Rightarrow> nat list" where
  "line_bases add nx styles l =
     (if l_flag l = FlagDeleted then replicate (rune_count (line_Content l)) (the (styles style_GenericDeleted))
      else if l_flag l = FlagInserted then replicate (rune_count (line_Content l)) (the (styles style_GenericInserted))
      else concat (map (token_bases styles) (zip (line_Tokens add l) (next_types nx (line_Tokens add l)))))"

definition is_diff_line :: "line \<Rightarrow> bool" where
  "is_diff_line l \<longleftrightarrow> l_flag l = FlagDeleted \<or> l_flag l = FlagInserted"

definition line_cost :: "adder \<Rightarrow> line \<Rightarrow> nat" where
  "line_cost add l = (2 * length (line_Tokens add l) + 1) * style_cost (l_overlays l)"

text \<open>The getter has every style the printer asks for.\<close>

definition getter_complete :: "style_getter \<Rightarrow> bool" where
  "getter_complete styles \<longleftrightarrow> styles style_Text \<noteq> None \<and> styles style_GenericDeleted \<noteq> None
     \<and> styles style_GenericInserted \<noteq> None \<and> (\<forall>tk nt. styles (TypeStyle tk nt) \<noteq> None)"

lemma render_tokens_ok:
  assumes "getter_ok styles (length h)" "getter_complete styles"
    and "state_ok tm h st (2 * style_cost overlays * length tks + n)" "length nts = length tks"
  shows "\<exists>segs st' col'. foldM (render_token tm styles overlays) (sb, col, st) (zip tks nts) = Some (sb @ pieces_text tm segs, col', st')
    \<and> shown tm h styles overlays False col segs (concat (map token_text tks)) (concat (map (token_bases styles) (zip tks nts)))
    \<and> state_ok tm h st' n"
  using assms(3,4)
proof (induction tks arbitrary: nts sb col st)
  case Nil
  then show ?case by (intro exI [of _ "[]"] exI [of _ st] exI [of _ col]) simp
next
  case (Cons tk tks)
  obtain nt nts' where nts: "nts = nt # nts'" "length nts' = length tks" using Cons.prems(2) by (cases nts) auto
  have "state_ok tm h st (2 * style_cost overlays + (2 * style_cost overlays * length tks + n))"
    using Cons.prems(1) by (simp add: add.assoc)
  moreover have "styles style_Text \<noteq> None" "styles (TypeStyle tk nt) \<noteq> None"
    using assms(2) by (simp_all add: getter_complete_def)
  ultimately obtain segs1 st1 where s1:
    "render_token tm styles overlays (sb, col, st) (tk, nt) = Some (sb @ pieces_text tm segs1, col + int (length (token_text tk)), st1)"
    "shown tm h styles overlays False col segs1 (token_text tk) (token_bases styles (tk, nt))"
    "state_ok tm h st1 (2 * style_cost overlays * length tks + n)"
    using render_token_ok [OF _ assms(1)] by blast
  obtain segs2 st2 col2 where s2:
    "foldM (render_token tm styles overlays) (sb @ pieces_text tm segs1, col + int (length (token_text tk)), st1) (zip tks nts')
      = Some ((sb @ pieces_text tm segs1) @ pieces_text tm segs2, col2, st2)"
    "shown tm h styles overlays False (col + int (length (token_text tk))) segs2 (concat (map token_text tks))
      (concat (map (token_bases styles) (zip tks nts')))" "state_ok tm h st2 n"
    using Cons.IH [OF s1(3) nts(2)] by blast
  from s1(1) s2 shown_append [OF s1(2)] nts(1) show ?case
    by (intro exI [of _ "segs1 @ segs2"] exI [of _ st2] exI [of _ col2]) (simp add: length_token_bases)
qed

lemma line_Tokens_empty: "line_IsEmpty l \<Longrightarrow> line_Tokens add l = []"
  by (simp add: line_IsEmpty_def line_Tokens_def PartTokens_def)

lemma renderTokenLine_ok:
  assumes "getter_ok styles (length h)" "getter_complete styles" "\<not> is_diff_line l" "state_ok tm h st (line_cost add l + n)"
  shows "\<exists>segs st'. renderTokenLine tm add nx styles l st = Some (pieces_text tm segs, st')
    \<and> shown tm h styles (l_overlays l) False 0 segs (line_text add l) (line_bases add nx styles l) \<and> state_ok tm h st' n"
proof (cases "line_Tokens add l = []")
  case True
  then have "renderTokenLine tm add nx styles l st = Some ([], st)" by (simp add: renderTokenLine_def)
  moreover have "state_ok tm h st n" using assms(4) by (simp add: state_ok_def)
  ultimately show ?thesis
    using assms(3) True
    by (intro exI [of _ "[]"] exI [of _ st]) (simp add: line_text_def line_bases_def is_diff_line_def)
next
  case False
  have "state_ok tm h st (2 * style_cost (l_overlays l) * length (line_Tokens add l) + n)"
    using assms(4) by (simp add: line_cost_def state_ok_def algebra_simps)
  from render_tokens_ok [OF assms(1,2) this, of "next_types nx (line_Tokens add l)" "[]" 0] False
  obtain segs st' col' where r:
    "foldM (render_token tm styles (l_overlays l)) ([], 0, st) (zip (line_Tokens add l) (next_types nx (line_Tokens add l)))
      = Some (pieces_text tm segs, col', st')"
    "shown tm h styles (l_overlays l) False 0 segs (concat (map token_text (line_Tokens add l)))
      (concat (map (token_bases styles) (zip (line_Tokens add l) (next_types nx (line_Tokens add l)))))" "state_ok tm h st' n"
    by (auto simp: next_types_length)
  with assms(3) False line_Tokens_empty show ?thesis
    by (intro exI [of _ segs] exI [of _ st']) (auto simp: renderTokenLine_def line_text_def line_bases_def is_diff_line_def)
qed

section \<open>Rows\<close>

lemma state_ok_le: "state_ok tm h st n \<Longrightarrow> m \<le> n \<Longrightarrow> state_ok tm h st m"
  by (simp add: state_ok_def)

definition no_wrap :: "('c, 'x) printer \<Rightarrow> bool" where
  "no_wrap p \<longleftrightarrow> \<not> pt_wordWrap p \<or> pt_width p \<le> 0"

lemma no_wrap_content: "no_wrap p \<Longrightarrow> wrapContent tm p content gw = [content]"
  by (auto simp: no_wrap_def wrapContent_def contentWidth_def)

text \<open>Annotations do not show.\<close>

definition plain_line :: "('c, 'x) printer \<Rightarrow> line \<Rightarrow> bool" where
  "plain_line p l \<longleftrightarrow> \<not> pt_annotationsEnabled p \<or> l_annotations l = []"

text \<open>The gutter returns, whatever styles are added later.\<close>

definition gutter_ok :: "('c, 'x) printer \<Rightarrow> ('c, 'x) style_heap \<Rightarrow> (gutter_context \<Rightarrow> string) \<Rightarrow> bool" where
  "gutter_ok p h gut \<longleftrightarrow> (\<forall>ys ctx. gc_Styles ctx = pt_styles p \<longrightarrow> call_gutter p (h @ ys) ctx = Some (gut ctx))"

definition line_gutter :: "('c, 'x) printer \<Rightarrow> int \<Rightarrow> position \<Rightarrow> line \<Rightarrow> gutter_context" where
  "line_gutter p totalLines pos l = \<lparr>gc_Styles = pt_styles p, gc_Index = pline pos, gc_Number = line_Number l,
     gc_TotalLines = totalLines, gc_Flag = l_flag l, gc_Soft = False\<rparr>"

definition row_shows ::
  "('c, 'm, 'x) terminal \<Rightarrow> adder \<Rightarrow> (token \<Rightarrow> token_type) \<Rightarrow> ('c, 'x) printer \<Rightarrow> ('c, 'x) style_heap
    \<Rightarrow> (gutter_context \<Rightarrow> string) \<Rightarrow> int \<Rightarrow> position \<times> line \<Rightarrow> string \<Rightarrow> bool" where
  "row_shows tm add nx p h gut totalLines = (\<lambda>(pos, l) row. \<exists>segs.
     row = gut (line_gutter p totalLines pos l) @ pieces_text tm segs
     \<and> shown tm h (pt_styles p) (l_overlays l) (is_diff_line l) 0 segs (line_text add l) (line_bases add nx (pt_styles p) l))"

lemma writeLine_ok:
  assumes "no_wrap p" "gutter_ok p h gut" "getter_ok (pt_styles p) (length h)" "base < length h"
    and "state_ok tm h st (style_cost overlays + n)" "gc_Styles ctx = pt_styles p" "\<not> gc_Soft ctx"
  shows "\<exists>segs st'. writeLine tm p content 0 (Some base) overlays ctx gw st = Some (gut ctx @ pieces_text tm segs, st')
    \<and> shown tm h (pt_styles p) overlays True 0 segs (runes content) (replicate (rune_count content) base) \<and> state_ok tm h st' n"
proof -
  obtain ys where "fst st = h @ ys" using assms(5) by (auto simp: state_ok_def)
  moreover have "ctx\<lparr>gc_Soft := False\<rparr> = ctx" using assms(7) by (cases ctx) simp
  ultimately have gut: "call_gutter p (fst st) (ctx\<lparr>gc_Soft := False\<rparr>) = Some (gut ctx)"
    using assms(2,6) by (simp add: gutter_ok_def)
  obtain segs st' where "styleLineWithRanges tm (pt_styles p) content 0 (Some base) True overlays st = Some (pieces_text tm segs, st')"
    "shown tm h (pt_styles p) overlays True 0 segs (runes content) (replicate (rune_count content) base)" "state_ok tm h st' n"
    using styled_text [OF assms(5,3,4)] by blast
  moreover from this have "writeLine tm p content 0 (Some base) overlays ctx gw st = Some (gut ctx @ pieces_text tm segs, st')"
    using gut assms(1) by (simp add: writeLine_def no_wrap_content write_piece_def)
  ultimately show ?thesis by blast
qed

lemma writeLine_None_ok:
  assumes "no_wrap p" "gutter_ok p h gut" "state_ok tm h st n" "gc_Styles ctx = pt_styles p" "\<not> gc_Soft ctx"
  shows "writeLine tm p content 0 None overlays ctx gw st = Some (gut ctx @ content, st)"
proof -
  obtain ys where "fst st = h @ ys" using assms(3) by (auto simp: state_ok_def)
  moreover have "ctx\<lparr>gc_Soft := False\<rparr> = ctx" using assms(5) by (cases ctx) simp
  ultimately have "call_gutter p (fst st) (ctx\<lparr>gc_Soft := False\<rparr>) = Some (gut ctx)"
    using assms(2,4) by (simp add: gutter_ok_def)
  with assms(1) show ?thesis by (simp add: writeLine_def no_wrap_content write_piece_def)
qed

lemma render_line_ok:
  assumes "no_wrap p" "gutter_ok p h gut" "getter_ok (pt_styles p) (length h)" "getter_complete (pt_styles p)"
    and "plain_line p l" "state_ok tm h st (line_cost add l + n)"
  shows "\<exists>row st'. render_line tm add nx p totalLines gw (sb, i, st) (pos, l)
      = Some ((if i > 0 then sb @ [LF] else sb) @ row, i + 1, st')
    \<and> row_shows tm add nx p h gut totalLines (pos, l) row \<and> state_ok tm h st' n"
proof -
  let ?ctx = "line_gutter p totalLines pos l"
  have ctx: "gc_Styles ?ctx = pt_styles p" "\<not> gc_Soft ?ctx" by (simp_all add: line_gutter_def)
  have none: "\<not> (pt_annotationsEnabled p \<and> FilterPosition (l_annotations l) rel \<noteq> [])" for rel
    using assms(5) by (auto simp: plain_line_def FilterPosition_def)
  show ?thesis
  proof (cases "is_diff_line l")
    case False
    from renderTokenLine_ok [OF assms(3,4) False assms(6), of nx] obtain segs st' where r:
      "renderTokenLine tm add nx (pt_styles p) l st = Some (pieces_text tm segs, st')"
      "shown tm h (pt_styles p) (l_overlays l) False 0 segs (line_text add l) (line_bases add nx (pt_styles p) l)"
      "state_ok tm h st' n" by blast
    from r(1) writeLine_None_ok [OF assms(1,2) r(3) ctx] False
    have "render_line tm add nx p totalLines gw (sb, i, st) (pos, l)
      = Some ((if i > 0 then sb @ [LF] else sb) @ (gut ?ctx @ pieces_text tm segs), i + 1, st')"
      by (cases "l_flag l") (simp_all add: render_line_def none Let_def line_gutter_def is_diff_line_def)
    with r(2,3) False show ?thesis by (auto simp: row_shows_def)
  next
    case True
    obtain dels ins where bases: "pt_styles p style_GenericDeleted = Some dels" "pt_styles p style_GenericInserted = Some ins"
      using assms(4) by (auto simp: getter_complete_def)
    let ?base = "if l_flag l = FlagDeleted then dels else ins"
    have base: "?base < length h" using bases assms(3) by (auto simp: getter_ok_def)
    have "state_ok tm h st (style_cost (l_overlays l) + n)"
      using assms(6) by (rule state_ok_le) (simp add: line_cost_def)
    from writeLine_ok [OF assms(1,2,3) base this ctx] obtain segs st' where r:
      "writeLine tm p (line_Content l) 0 (Some ?base) (l_overlays l) ?ctx gw st = Some (gut ?ctx @ pieces_text tm segs, st')"
      "shown tm h (pt_styles p) (l_overlays l) True 0 segs (runes (line_Content l)) (replicate (rune_count (line_Content l)) ?base)"
      "state_ok tm h st' n" by blast
    have "render_line tm add nx p totalLines gw (sb, i, st) (pos, l)
      = Some ((if i > 0 then sb @ [LF] else sb) @ (gut ?ctx @ pieces_text tm segs), i + 1, st')"
      using r(1) True bases
      by (cases "l_flag l") (simp_all add: render_line_def none Let_def line_gutter_def is_diff_line_def)
    moreover have "row_shows tm add nx p h gut totalLines (pos, l) (gut ?ctx @ pieces_text tm segs)"
      using r(2) True bases by (auto simp: row_shows_def line_text_def line_bases_def is_diff_line_def)
    ultimately show ?thesis using r(3) by blast
  qed
qed

lemma join_snoc: "join sep (xs @ [x]) = (if xs = [] then x else join sep xs @ sep @ x)"
  by (induction sep xs rule: join.induct) auto

lemma render_lines_ok:
  assumes "no_wrap p" "gutter_ok p h gut" "getter_ok (pt_styles p) (length h)" "getter_complete (pt_styles p)"
    and "\<forall>(pos, l) \<in> set pls. plain_line p l"
    and "state_ok tm h st (sum_list (map (\<lambda>(_, l). line_cost add l) pls) + n)"
  shows "\<exists>rows' st'. foldM (render_line tm add nx p totalLines gw) (join [LF] rows, length rows, st) pls
      = Some (join [LF] (rows @ rows'), length (rows @ rows'), st')
    \<and> list_all2 (row_shows tm add nx p h gut totalLines) pls rows' \<and> state_ok tm h st' n"
  using assms(5,6)
proof (induction pls arbitrary: rows st)
  case Nil
  then show ?case by (intro exI [of _ "[]"] exI [of _ st]) simp
next
  case (Cons pl pls)
  obtain pos l where pl: "pl = (pos, l)" by (cases pl)
  have "state_ok tm h st (line_cost add l + (sum_list (map (\<lambda>(_, l). line_cost add l) pls) + n))"
    using Cons.prems(2) by (simp add: pl add.assoc)
  moreover have "plain_line p l" using Cons.prems(1) pl by simp
  ultimately obtain row st1 where r:
    "render_line tm add nx p totalLines gw (join [LF] rows, length rows, st) (pos, l)
      = Some ((if length rows > 0 then join [LF] rows @ [LF] else join [LF] rows) @ row, length rows + 1, st1)"
    "row_shows tm add nx p h gut totalLines (pos, l) row" "state_ok tm h st1 (sum_list (map (\<lambda>(_, l). line_cost add l) pls) + n)"
    using render_line_ok [OF assms(1-4)] by blast
  have later: "\<forall>(pos, l) \<in> set pls. plain_line p l" using Cons.prems(1) by simp
  obtain rows' st' where rs:
    "foldM (render_line tm add nx p totalLines gw) (join [LF] (rows @ [row]), length (rows @ [row]), st1) pls
      = Some (join [LF] ((rows @ [row]) @ rows'), length ((rows @ [row]) @ rows'), st')"
    "list_all2 (row_shows tm add nx p h gut totalLines) pls rows'" "state_ok tm h st' n"
    using Cons.IH [where rows = "rows @ [row]", OF later r(3)] by blast
  have "render_line tm add nx p totalLines gw (join [LF] rows, length rows, st) pl
    = Some (join [LF] (rows @ [row]), length (rows @ [row]), st1)"
    using r(1) by (cases "rows = []") (simp_all add: pl join_snoc)
  with rs r(2) pl show ?case by (intro exI [of _ "row # rows'"] exI [of _ st']) simp
qed

lemma lines_between_empty: "lines_between [] (max 0 a) (min 0 b) = []"
  by (simp add: lines_between_def)

lemma AllLines_single_empty: "source_IsEmpty t \<Longrightarrow> AllLines [sp] t = []"
  by (simp add: source_IsEmpty_def AllLines_def lines_between_empty)

lemma renderLinesInSpan_ok:
  assumes "no_wrap p" "gutter_ok p h gut" "getter_ok (pt_styles p) (length h)" "getter_complete (pt_styles p)"
    and "\<forall>(pos, l) \<in> set (AllLines [sp] t). plain_line p l"
    and "state_ok tm h st (sum_list (map (\<lambda>(_, l). line_cost add l) (AllLines [sp] t)) + n)"
  shows "\<exists>rows st'. renderLinesInSpan tm add nx p t sp st = Some (join [LF] rows, st')
    \<and> list_all2 (row_shows tm add nx p h gut (source_Len t)) (AllLines [sp] t) rows \<and> state_ok tm h st' n"
proof (cases "source_IsEmpty t")
  case True
  with assms(6) show ?thesis
    by (intro exI [of _ "[]"] exI [of _ st]) (simp add: renderLinesInSpan_def AllLines_single_empty)
next
  case False
  obtain ys where ys: "fst st = h @ ys" using assms(6) by (auto simp: state_ok_def)
  obtain g where g: "pt_gutter p = Some g"
    using assms(2) by (cases "pt_gutter p") (auto simp: gutter_ok_def call_gutter_def dest: spec [of _ "\<lparr>gc_Styles = pt_styles p,
      gc_Index = 0, gc_Number = 0, gc_TotalLines = 0, gc_Flag = FlagDefault, gc_Soft = False\<rparr>"])
  have "g (h @ ys) ctx = Some (gut ctx)" if "gc_Styles ctx = pt_styles p" for ctx
    using assms(2) that g by (simp add: gutter_ok_def call_gutter_def)
  with render_lines_ok [OF assms, where rows = "[]" and nx = nx and totalLines = "source_Len t"] False ys g
  show ?thesis by (fastforce simp: renderLinesInSpan_def Let_def)
qed

definition spans_cost :: "adder \<Rightarrow> ('f, 'o) source \<Rightarrow> span list \<Rightarrow> nat" where
  "spans_cost add t spans = sum_list (map (\<lambda>sp. sum_list (map (\<lambda>(_, l). line_cost add l) (AllLines [sp] t))) spans)"

lemma print_spans_ok:
  assumes "no_wrap p" "gutter_ok p h gut" "getter_ok (pt_styles p) (length h)" "getter_complete (pt_styles p)"
    and "\<forall>sp \<in> set spans. \<forall>(pos, l) \<in> set (AllLines [sp] t). plain_line p l"
    and "state_ok tm h st (spans_cost add t spans + n)"
  shows "\<exists>rowss st'. foldM (print_span tm add nx p t) (join [LF] parts, st) (enumerate (length parts) spans)
      = Some (join [LF] (parts @ map (join [LF]) rowss), st')
    \<and> list_all2 (\<lambda>sp. list_all2 (row_shows tm add nx p h gut (source_Len t)) (AllLines [sp] t)) spans rowss \<and> state_ok tm h st' n"
  using assms(5,6)
proof (induction spans arbitrary: parts st)
  case Nil
  then show ?case by (intro exI [of _ "[]"] exI [of _ st]) (simp add: spans_cost_def)
next
  case (Cons sp spans)
  have "state_ok tm h st (sum_list (map (\<lambda>(_, l). line_cost add l) (AllLines [sp] t)) + (spans_cost add t spans + n))"
    using Cons.prems(2) by (simp add: spans_cost_def add.assoc)
  moreover have "\<forall>(pos, l) \<in> set (AllLines [sp] t). plain_line p l" using Cons.prems(1) by simp
  ultimately obtain rows st1 where r: "renderLinesInSpan tm add nx p t sp st = Some (join [LF] rows, st1)"
    "list_all2 (row_shows tm add nx p h gut (source_Len t)) (AllLines [sp] t) rows"
    "state_ok tm h st1 (spans_cost add t spans + n)"
    using renderLinesInSpan_ok [OF assms(1-4)] by blast
  have "\<forall>sp \<in> set spans. \<forall>(pos, l) \<in> set (AllLines [sp] t). plain_line p l" using Cons.prems(1) by simp
  from Cons.IH [OF this r(3), of "parts @ [join [LF] rows]"] obtain rowss st' where rs:
    "foldM (print_span tm add nx p t) (join [LF] (parts @ [join [LF] rows]), st1) (enumerate (Suc (length parts)) spans)
      = Some (join [LF] ((parts @ [join [LF] rows]) @ map (join [LF]) rowss), st')"
    "list_all2 (\<lambda>sp. list_all2 (row_shows tm add nx p h gut (source_Len t)) (AllLines [sp] t)) spans rowss" "state_ok tm h st' n"
    by auto
  have "print_span tm add nx p t (join [LF] parts, st) (length parts, sp) = Some (join [LF] (parts @ [join [LF] rows]), st1)"
    using r(1) by (cases "parts = []") (simp_all add: print_span_def join_snoc)
  with rs r(2) show ?case by (intro exI [of _ "rows # rowss"] exI [of _ st']) simp
qed

text \<open>The spans \<open>Print\<close> shows.\<close>

definition shown_spans :: "('f, 'o) source \<Rightarrow> span list \<Rightarrow> span list" where
  "shown_spans t spans = (if spans = [] then [NewSpan 0 (source_Len t)] else spans)"

lemma Print_spans:
  "Print tm add nx p t spans st = map_option (\<lambda>(content, st'). (tm_Render tm (pt_style p) content, st'))
     (foldM (print_span tm add nx p t) ([], st) (enumerate 0 (shown_spans t spans)))"
  by (auto simp: Print_def shown_spans_def print_span_def map_option.compositionality comp_def option.case_eq_if
      split: option.splits)

section \<open>Properties\<close>

text \<open>Escaping makes every text safe for the terminal and keeps its columns: no control character is
  left, in particular no newline, every rune stays in its place and changes exactly if it was a control
  character, and escaping again changes nothing.\<close>

theorem Escape_safe:
  "list_all (\<lambda>r. \<not> control r) (runes (Escape s)) \<and> LF \<notin> set (Escape s) \<and> rune_count (Escape s) = rune_count s
    \<and> list_all2 (\<lambda>r r'. (r' \<noteq> r) = control r) (runes s) (runes (Escape s)) \<and> Escape (Escape s) = Escape s"
proof (intro conjI)
  show "list_all (\<lambda>r. \<not> control r) (runes (Escape s))" by (simp add: runes_Escape list_all_iff)
  show "LF \<notin> set (Escape s)" by (rule Escape_no_LF)
  show "rune_count (Escape s) = rune_count s" by (simp add: rune_count_def runes_Escape)
  have "(escape_rune r \<noteq> r) = control r" for r
    using escape_rune_not_control [of r] escape_rune_id [of r] by metis
  then show "list_all2 (\<lambda>r r'. (r' \<noteq> r) = control r) (runes s) (runes (Escape s))"
    by (simp add: runes_Escape list_all2_conv_all_nth)
  have "map escape_rune (runes (Escape s)) = map escape_rune (runes s)" by (simp add: runes_Escape)
  then show "Escape (Escape s) = Escape s"
    unfolding Escape_def [of "Escape s"] by (simp only:) (simp only: Escape_def)
qed

text \<open>C18: a text drawn over overlays loses nothing and is styled column by column: it comes out as
  pieces whose runes are those of the text, in order, and the style of each rune is the base style
  combined with the styles of exactly the overlays that cover its column, in their order (the first
  one overriding the base unless \<open>alwaysBlend\<close> is set). The blender stays sound and no style that
  existed changes.\<close>

theorem styleLineWithRanges_exact:
  assumes "blender_ok (tm_colors tm) h b" "base < length h" "getter_ok styles (length h)"
    and "next_key b + style_cost overlays \<le> 2 ^ 31"
  shows "\<exists>segs ys b'. styleLineWithRanges tm styles src col (Some base) ab overlays (h, b) = Some (pieces_text tm segs, h @ ys, b')
    \<and> pieces_runes segs = runes src
    \<and> pieces_styles segs = map (\<lambda>i. column_style (tm_colors tm) h styles overlays base ab (col + int i)) [0..<rune_count src]
    \<and> blender_ok (tm_colors tm) (h @ ys) b'"
  using styleLine_pieces [OF assms, of src col ab] by (auto simp: columns_replicate)

definition sample_terminal :: "(nat, nat, unit) terminal" where
  "sample_terminal = \<lparr>tm_colors = sample_colorful,
     tm_Render = (\<lambda>v s. ''<'' @ (case ls_fg v of Some (Color c) \<Rightarrow> itoa4 (int c) | _ \<Rightarrow> ''-'') @ ''>'' @ s),
     tm_PaddingRight = (\<lambda>n v. v), tm_Width = (\<lambda>s. int (length s)), tm_Wrap = (\<lambda>s n seps. s)\<rparr>"

definition sample_getter :: style_getter where
  "sample_getter k = Some (if k = style_GenericInserted then 1 else if k = style_GenericDeleted then 2 else 0)"

definition sample_styles :: "(nat, unit) style_heap" where
  "sample_styles = [sample_style 2, sample_style 4, sample_style 6]"

lemma sample_getter_ok: "getter_ok sample_getter (length sample_styles)" "getter_complete sample_getter"
  by (auto simp: getter_ok_def getter_complete_def sample_getter_def sample_styles_def)

lemma sample_blender_ok: "blender_ok (tm_colors sample_terminal) sample_styles NewBlender" "next_key NewBlender = 1"
  using blender_reach_ok [OF reach_blender] by (simp_all add: NewBlender_def)

text \<open>The witness: columns 1 and 2 of \<open>key\<close> carry the style of insertions.\<close>

theorem styleLineWithRanges_exact_witness:
  "\<exists>segs h' b'. styleLineWithRanges sample_terminal sample_getter ''key'' 0 (Some 0) False
      [\<lparr>ov_kind = style_GenericInserted, ov_cols = NewSpan 1 3\<rparr>] (sample_styles, NewBlender) = Some (pieces_text sample_terminal segs, h', b')
    \<and> map ls_fg (pieces_styles segs) = [Some (Color 2), Some (Color 4), Some (Color 4)]"
proof -
  let ?os = "[\<lparr>ov_kind = style_GenericInserted, ov_cols = NewSpan 1 3\<rparr>]"
  have "next_key NewBlender + style_cost ?os \<le> 2 ^ 31" by (simp add: sample_blender_ok style_cost_def)
  from styleLineWithRanges_exact [OF sample_blender_ok(1) _ sample_getter_ok(1) this, of 0 "''key''" 0 False]
  obtain segs h' b' where r:
    "styleLineWithRanges sample_terminal sample_getter ''key'' 0 (Some 0) False ?os (sample_styles, NewBlender)
      = Some (pieces_text sample_terminal segs, h', b')"
    "pieces_styles segs = map (\<lambda>i. column_style (tm_colors sample_terminal) sample_styles sample_getter ?os 0 False (0 + int i))
      [0..<rune_count ''key'']"
    by (auto simp: sample_styles_def)
  have "map ls_fg (map (\<lambda>i. column_style (tm_colors sample_terminal) sample_styles sample_getter ?os 0 False (0 + int i))
      [0..<rune_count ''key'']) = [Some (Color 2), Some (Color 4), Some (Color 4)]"
    by code_simp
  with r show ?thesis by metis
qed


definition sample_printer :: "(nat, unit) printer" where
  "sample_printer = \<lparr>pt_styles = sample_getter, pt_style = sample_style 9, pt_gutter = Some NoGutter,
     pt_annotation = DefaultAnnotation, pt_width = 0, pt_hasCustomStyle = True, pt_annotationsEnabled = True, pt_wordWrap = True\<rparr>"

definition sample_lines :: "(nat, nat) source" where
  "sample_lines = empty_source\<lparr>src_lines := [sample_line (sample_token 1 StringType ''a'') 1]\<rparr>"


end
