(* ===== verification/Paths.thy ===== *)
theory Paths
  imports Tokens "HOL-Library.Word"
begin

text \<open>
  Package \<open>paths\<close>: building YAML paths, and the token a path leads to. The paths and syntax trees
  of go-yaml are parameters, gathered in the record \<open>path_lib\<close>: pointers to a path builder of type
  \<open>'pb\<close> (\<open>pl_nil\<close> is the nil one), built paths \<open>'y\<close>, files \<open>'f\<close> and nodes \<open>'n\<close>. A builder's
  methods return the builder they change; the model returns the changed builder. An index is
  converted to \<open>uint\<close>, a 64 bit word.
\<close>

datatype Part = PartKey | PartValue

record ('pb, 'y, 'f, 'n) path_lib =
  pl_nil :: 'pb
  pl_Root :: 'pb
  pl_Child :: "'pb \<Rightarrow> string \<Rightarrow> 'pb"
  pl_Index :: "'pb \<Rightarrow> 64 word \<Rightarrow> 'pb"
  pl_IndexAll :: "'pb \<Rightarrow> 'pb"
  pl_Recursive :: "'pb \<Rightarrow> string \<Rightarrow> 'pb"
  pl_Build :: "'pb \<Rightarrow> 'y"
  pl_PathString :: "string \<Rightarrow> string + 'y"
  pl_String :: "'y \<Rightarrow> string"
  pl_FilterFile :: "'y \<Rightarrow> 'f \<Rightarrow> string + 'n option"
  pl_GetToken :: "'n option \<Rightarrow> token option"
  pl_Bodies :: "'f \<Rightarrow> 'n option list"
  pl_Parent :: "'n option \<Rightarrow> 'n \<Rightarrow> 'n option"
  pl_MappingKey :: "'n \<Rightarrow> token option option"

text \<open>\<open>pl_MappingKey\<close> is the token of the key for a mapping value, \<open>None\<close> for another node.\<close>

section \<open>Builders\<close>

record ('pb, 'y) builder_ =
  b_pb :: 'pb
  b_built :: "'y option"

definition Root :: "('pb, 'y, 'f, 'n) path_lib \<Rightarrow> ('pb, 'y) builder_" where
  "Root L = \<lparr>b_pb = pl_Root L, b_built = None\<rparr>"

definition Child :: "('pb, 'y, 'f, 'n) path_lib \<Rightarrow> string list \<Rightarrow> ('pb, 'y) builder_ \<Rightarrow> ('pb, 'y) builder_" where
  "Child L name b = foldl (\<lambda>b n. b\<lparr>b_pb := pl_Child L (b_pb b) n\<rparr>) b name"

definition Index :: "('pb, 'y, 'f, 'n) path_lib \<Rightarrow> int list \<Rightarrow> ('pb, 'y) builder_ \<Rightarrow> ('pb, 'y) builder_" where
  "Index L idx b = foldl (\<lambda>b i. b\<lparr>b_pb := pl_Index L (b_pb b) (word_of_int i)\<rparr>) b idx"

definition IndexAll :: "('pb, 'y, 'f, 'n) path_lib \<Rightarrow> ('pb, 'y) builder_ \<Rightarrow> ('pb, 'y) builder_" where
  "IndexAll L b = b\<lparr>b_pb := pl_IndexAll L (b_pb b)\<rparr>"

definition Recursive :: "('pb, 'y, 'f, 'n) path_lib \<Rightarrow> string \<Rightarrow> ('pb, 'y) builder_ \<Rightarrow> ('pb, 'y) builder_" where
  "Recursive L selector b = b\<lparr>b_pb := pl_Recursive L (b_pb b) selector\<rparr>"

definition build_path :: "('pb, 'y, 'f, 'n) path_lib \<Rightarrow> ('pb, 'y) builder_ \<Rightarrow> 'y" where
  "build_path L b = (case b_built b of Some y \<Rightarrow> y | None \<Rightarrow> pl_Build L (b_pb b))"

record 'y path =
  p_path :: "'y option"
  p_target :: Part

definition builder_Path :: "('pb, 'y, 'f, 'n) path_lib \<Rightarrow> ('pb, 'y) builder_ \<Rightarrow> 'y" where
  "builder_Path L b = build_path L b"

definition builder_Key :: "('pb, 'y, 'f, 'n) path_lib \<Rightarrow> ('pb, 'y) builder_ \<Rightarrow> 'y path" where
  "builder_Key L b = \<lparr>p_path = Some (build_path L b), p_target = PartKey\<rparr>"

definition builder_Value :: "('pb, 'y, 'f, 'n) path_lib \<Rightarrow> ('pb, 'y) builder_ \<Rightarrow> 'y path" where
  "builder_Value L b = \<lparr>p_path = Some (build_path L b), p_target = PartValue\<rparr>"

definition FromString :: "('pb, 'y, 'f, 'n) path_lib \<Rightarrow> string \<Rightarrow> string + ('pb, 'y) builder_" where
  "FromString L expr = (case pl_PathString L expr of
     Inl err \<Rightarrow> Inl err
   | Inr yp \<Rightarrow> Inr \<lparr>b_pb = pl_nil L, b_built = Some yp\<rparr>)"

definition MustFromString :: "('pb, 'y, 'f, 'n) path_lib \<Rightarrow> string \<Rightarrow> ('pb, 'y) builder_ option" where
  "MustFromString L expr = (case FromString L expr of Inl err \<Rightarrow> None | Inr b \<Rightarrow> Some b)"

section \<open>Paths\<close>

text \<open>The argument is a pointer: \<open>None\<close> for nil.\<close>

definition path_Path :: "'y path option \<Rightarrow> 'y option" where
  "path_Path p = (case p of None \<Rightarrow> None | Some p \<Rightarrow> p_path p)"

definition path_Part :: "'y path option \<Rightarrow> Part" where
  "path_Part p = (case p of None \<Rightarrow> PartValue | Some p \<Rightarrow> p_target p)"

definition path_String :: "('pb, 'y, 'f, 'n) path_lib \<Rightarrow> 'y path option \<Rightarrow> string" where
  "path_String L p = (case p of
     None \<Rightarrow> []
   | Some p \<Rightarrow> (case p_path p of
       None \<Rightarrow> []
     | Some y \<Rightarrow> let basePath = pl_String L y in
         (case p_target p of PartKey \<Rightarrow> basePath @ ''.(key)'' | PartValue \<Rightarrow> basePath @ ''.(value)'')))"

definition findKeyToken :: "('pb, 'y, 'f, 'n) path_lib \<Rightarrow> 'f option \<Rightarrow> 'n option \<Rightarrow> token option" where
  "findKeyToken L file node =
     (case (file, node) of
        (Some file, Some node) \<Rightarrow>
          (case pl_Bodies L file of
             [] \<Rightarrow> None
           | body # _ \<Rightarrow>
               (case pl_Parent L body node of
                  None \<Rightarrow> None
                | Some parent \<Rightarrow>
                    (case pl_MappingKey L parent of Some key \<Rightarrow> key | None \<Rightarrow> None)))
      | _ \<Rightarrow> None)"

text \<open>\<open>NilPath\<close> and \<open>Filter\<close> are the two errors.\<close>

datatype path_error = NilPath | Filter string

definition path_Token ::
  "('pb, 'y, 'f, 'n) path_lib \<Rightarrow> 'y path option \<Rightarrow> 'f \<Rightarrow> path_error + token option" where
  "path_Token L p file = (case p of
     None \<Rightarrow> Inl NilPath
   | Some p \<Rightarrow> (case p_path p of
       None \<Rightarrow> Inl NilPath
     | Some y \<Rightarrow> (case pl_FilterFile L y file of
         Inl err \<Rightarrow> Inl (Filter err)
       | Inr node \<Rightarrow>
           let keyToken = (if p_target p = PartKey then findKeyToken L (Some file) node else None) in
           Inr (case keyToken of Some tk \<Rightarrow> Some tk | None \<Rightarrow> pl_GetToken L node))))"

section \<open>Facts\<close>

lemma Child_built: "b_built (Child L names b) = b_built b"
  by (induction names arbitrary: b) (simp_all add: Child_def)

lemma Index_built: "b_built (Index L is b) = b_built b"
  by (induction "is" arbitrary: b) (simp_all add: Index_def)

text \<open>What is appended to a builder made by \<open>FromString\<close> is lost.\<close>

lemma FromString_ignores:
  assumes "FromString L expr = Inr b"
  shows "build_path L (Child L names b) = build_path L b" "build_path L (Index L is b) = build_path L b"
    "build_path L (IndexAll L b) = build_path L b" "build_path L (Recursive L sel b) = build_path L b"
  using assms
  by (auto simp: FromString_def build_path_def Child_built Index_built IndexAll_def Recursive_def split: sum.splits)

end
