(* ===== verification/Yaml_Error.thy ===== *)
theory Yaml_Error
  imports Sources Paths
begin

text \<open>
  \<open>error.go\<close> and the rest of \<open>source.go\<close>: errors with a position, parsing a source, and the rendering
  of an error over its source. The parser of go-yaml, the \<open>Prev\<close> and \<open>Next\<close> pointers of its
  tokens and the printer are parameters. A Go error is the tree that \<open>errors.As\<close> walks: a message,
  the \<open>*Error\<close> it is, if any, and what it unwraps to. Of a nested error the code reads only the
  message, the path and the token; these are the fields of \<open>error_core\<close>. Pointers to errors, and
  the source an error points to, are passed and returned as values. \<open>None\<close> is a panic, or a walk
  over a cyclic token list that does not end.
\<close>

section \<open>Sources from tokens\<close>

partial_function (option) first_token :: "(nat \<Rightarrow> token option) \<Rightarrow> token \<Rightarrow> token option" where
  "first_token prev tk = (case prev (tk_id tk) of None \<Rightarrow> Some tk | Some p \<Rightarrow> first_token prev p)"

partial_function (option) tokens_from :: "(nat \<Rightarrow> token option) \<Rightarrow> token list \<Rightarrow> token \<Rightarrow> token list option" where
  "tokens_from next tks tk = (case next (tk_id tk) of
     None \<Rightarrow> Some (tks @ [tk]) | Some n \<Rightarrow> tokens_from next (tks @ [tk]) n)"

definition NewSourceFromToken ::
  "(nat \<Rightarrow> token option) \<Rightarrow> (nat \<Rightarrow> token option) \<Rightarrow> token option \<Rightarrow> ('f, 'o) source_option list
    \<Rightarrow> ('f, 'o) source option" where
  "NewSourceFromToken prev next tk opts = (case tk of
     None \<Rightarrow> Some empty_source
   | Some tk \<Rightarrow>
       Option.bind (first_token prev tk) (\<lambda>tk0.
       Option.bind (tokens_from next [] tk0) (\<lambda>tks. NewSourceFromTokens tks opts)))"

section \<open>Errors\<close>

record 'y error_core =
  e_err :: "string option"
  e_path :: "'y path option"
  e_token :: "token option"

record ('f, 'o, 'y, 'p) yaml_error = "'y error_core" +
  e_printer :: "'p option"
  e_source :: "('f, 'o) source option"
  e_widthFunc :: "int option"
  e_errors :: "'y error_core option list"
  e_sourceLines :: int
  e_width :: int

text \<open>\<open>e_widthFunc\<close> is what the function returns when it is called.\<close>

type_synonym ('f, 'o, 'y, 'p) error_option = "('f, 'o, 'y, 'p) yaml_error \<Rightarrow> ('f, 'o, 'y, 'p) yaml_error"

definition SetOption ::
  "('f, 'o, 'y, 'p) error_option list \<Rightarrow> ('f, 'o, 'y, 'p) yaml_error \<Rightarrow> ('f, 'o, 'y, 'p) yaml_error" where
  "SetOption opts e = foldl (\<lambda>e opt. opt e) e opts"

definition NewErrorFrom ::
  "string option \<Rightarrow> ('f, 'o, 'y, 'p) error_option list \<Rightarrow> ('f, 'o, 'y, 'p) yaml_error" where
  "NewErrorFrom err opts = SetOption opts \<lparr>e_err = err, e_path = None, e_token = None, e_printer = None,
     e_source = None, e_widthFunc = None, e_errors = [], e_sourceLines = 2, e_width = 0\<rparr>"

definition NewError :: "string \<Rightarrow> ('f, 'o, 'y, 'p) error_option list \<Rightarrow> ('f, 'o, 'y, 'p) yaml_error" where
  "NewError msg opts = NewErrorFrom (Some msg) opts"

definition WithSourceLines :: "int \<Rightarrow> ('f, 'o, 'y, 'p) error_option" where
  "WithSourceLines n e = e\<lparr>e_sourceLines := n\<rparr>"

definition WithPath :: "'y path option \<Rightarrow> ('f, 'o, 'y, 'p) error_option" where
  "WithPath p e = e\<lparr>e_path := p\<rparr>"

definition WithErrorToken :: "token option \<Rightarrow> ('f, 'o, 'y, 'p) error_option" where
  "WithErrorToken tk e = e\<lparr>e_token := tk\<rparr>"

definition WithPrinter :: "'p option \<Rightarrow> ('f, 'o, 'y, 'p) error_option" where
  "WithPrinter p e = e\<lparr>e_printer := p\<rparr>"

definition WithSource :: "('f, 'o) source option \<Rightarrow> ('f, 'o, 'y, 'p) error_option" where
  "WithSource src e = e\<lparr>e_source := src\<rparr>"

definition WithWidthFunc :: "int option \<Rightarrow> ('f, 'o, 'y, 'p) error_option" where
  "WithWidthFunc fn e = e\<lparr>e_widthFunc := fn\<rparr>"

definition WithErrors :: "'y error_core option list \<Rightarrow> ('f, 'o, 'y, 'p) error_option" where
  "WithErrors errs e = e\<lparr>e_errors := e_errors e @ errs\<rparr>"

definition error_SetWidth :: "int \<Rightarrow> ('f, 'o, 'y, 'p) yaml_error \<Rightarrow> ('f, 'o, 'y, 'p) yaml_error" where
  "error_SetWidth width e = e\<lparr>e_width := width\<rparr>"

text \<open>The children of an error: its own error, by its message, and the nested ones.\<close>

definition error_Unwrap :: "('f, 'o, 'y, 'p) yaml_error \<Rightarrow> (string + 'y error_core) list" where
  "error_Unwrap e =
     (if e_err e = None \<and> length (e_errors e) = 0 then []
      else (case e_err e of None \<Rightarrow> [] | Some m \<Rightarrow> [Inl m]) @ map Inr (List.map_filter id (e_errors e)))"

definition error_Path :: "('pb, 'y, 'f, 'n) path_lib \<Rightarrow> ('f, 'o, 'y, 'p) yaml_error \<Rightarrow> string" where
  "error_Path L e = (case e_path e of None \<Rightarrow> [] | Some p \<Rightarrow> (case p_path p of None \<Rightarrow> [] | Some y \<Rightarrow> pl_String L y))"

section \<open>Parsing a source\<close>

datatype ('f, 'o, 'y, 'p) go_error =
  GoError string "('f, 'o, 'y, 'p) yaml_error option" "('f, 'o, 'y, 'p) go_error list"

text \<open>\<open>errors.As\<close> for \<open>*Error\<close>: the first in depth first order.\<close>

fun errors_As :: "('f, 'o, 'y, 'p) go_error \<Rightarrow> ('f, 'o, 'y, 'p) yaml_error option"
  and errors_As_any :: "('f, 'o, 'y, 'p) go_error list \<Rightarrow> ('f, 'o, 'y, 'p) yaml_error option" where
  "errors_As (GoError msg e wrapped) = (case e of Some e \<Rightarrow> Some e | None \<Rightarrow> errors_As_any wrapped)"
| "errors_As_any [] = None"
| "errors_As_any (w # ws) = (case errors_As w of Some e \<Rightarrow> Some e | None \<Rightarrow> errors_As_any ws)"

text \<open>What \<open>parser.Parse\<close> fails with: an error of go-yaml with a message and a token, or another one.\<close>

datatype parse_failure = YamlFailure string "token option" | OtherFailure string

definition source_parse ::
  "(token list \<Rightarrow> 'o list \<Rightarrow> parse_failure + 'f) \<Rightarrow> adder \<Rightarrow> ('f, 'o) source
    \<Rightarrow> ('f, 'o, 'y, 'p) go_error + 'f" where
  "source_parse parse add s = (case parse (source_Tokens add s) (src_parserOpts s) of
     Inr file \<Rightarrow> Inr file
   | Inl (YamlFailure msg tk) \<Rightarrow> Inl (GoError msg (Some (NewError msg [WithErrorToken tk])) [GoError msg None []])
   | Inl (OtherFailure msg) \<Rightarrow> Inl (GoError msg None []))"

definition source_File ::
  "(token list \<Rightarrow> 'o list \<Rightarrow> parse_failure + 'f) \<Rightarrow> adder \<Rightarrow> ('f, 'o) source
    \<Rightarrow> ('f, 'o, 'y, 'p) go_error + 'f" where
  "source_File parse add s = (case src_file s of Some file \<Rightarrow> Inr file | None \<Rightarrow> source_parse parse add s)"

text \<open>The options of the source are kept as values of type \<open>'o\<close>; \<open>error_opt\<close> reads one as an
  option of errors. The message of the error returned is not computed.\<close>

definition WrapError ::
  "('o \<Rightarrow> ('f, 'o, 'y, 'p) error_option) \<Rightarrow> ('f, 'o) source \<Rightarrow> ('f, 'o, 'y, 'p) go_error option
    \<Rightarrow> (('f, 'o, 'y, 'p) yaml_error + ('f, 'o, 'y, 'p) go_error) option" where
  "WrapError error_opt s err = (case err of
     None \<Rightarrow> None
   | Some err \<Rightarrow> (case errors_As err of
       Some yamlErr \<Rightarrow> Some (Inl (SetOption [WithSource (Some s)] (SetOption (map error_opt (src_errorOpts s)) yamlErr)))
     | None \<Rightarrow> Some (Inr err)))"

section \<open>Resolving positions\<close>

datatype resolve_error = NoSource | NoPathOrToken | TokenNotFound | ParseSource | PathToken path_error

definition resolveToken ::
  "('pb, 'y, 'f, 'n) path_lib \<Rightarrow> 'f option \<Rightarrow> token option \<Rightarrow> 'y path option \<Rightarrow> resolve_error + token option" where
  "resolveToken L file tk p = (case tk of
     Some tk \<Rightarrow> Inr (Some tk)
   | None \<Rightarrow> (case p of
       None \<Rightarrow> Inl NoPathOrToken
     | Some p \<Rightarrow> (case file of
         None \<Rightarrow> Inl NoSource
       | Some file \<Rightarrow> (case path_Token L (Some p) file of
           Inl err \<Rightarrow> Inl (PathToken err)
         | Inr resolved \<Rightarrow> Inr resolved))))"

definition getFile ::
  "(token list \<Rightarrow> 'o list \<Rightarrow> parse_failure + 'f) \<Rightarrow> adder \<Rightarrow> ('f, 'o, 'y, 'p) yaml_error \<Rightarrow> resolve_error + 'f" where
  "getFile parse add e = (case e_source e of
     None \<Rightarrow> Inl NoSource
   | Some s \<Rightarrow> (case (source_File parse add s :: ('f, 'o, 'y, 'p) go_error + 'f) of
       Inl _ \<Rightarrow> Inl ParseSource | Inr file \<Rightarrow> Inr file))"

definition resolveMainToken ::
  "('pb, 'y, 'f, 'n) path_lib \<Rightarrow> (token list \<Rightarrow> 'o list \<Rightarrow> parse_failure + 'f) \<Rightarrow> adder
    \<Rightarrow> ('f, 'o, 'y, 'p) yaml_error \<Rightarrow> resolve_error + token option" where
  "resolveMainToken L parse add e = (case e_token e of
     Some tk \<Rightarrow> Inr (Some tk)
   | None \<Rightarrow> (case e_path e of
       None \<Rightarrow> Inl NoPathOrToken
     | Some p \<Rightarrow> (case getFile parse add e of
         Inl err \<Rightarrow> Inl err
       | Inr file \<Rightarrow> resolveToken L (Some file) None (Some p))))"

definition hasResolvableNestedErrors :: "('f, 'o, 'y, 'p) yaml_error \<Rightarrow> bool" where
  "hasResolvableNestedErrors e \<longleftrightarrow> list_ex (\<lambda>n. case n of None \<Rightarrow> False
     | Some n \<Rightarrow> e_token n \<noteq> None \<or> e_path n \<noteq> None) (e_errors e)"

text \<open>The bullet of \<open>formatPlainError\<close> is U+2022.\<close>

definition formatPlainError :: "('f, 'o, 'y, 'p) yaml_error \<Rightarrow> string option" where
  "formatPlainError e = (case e_err e of
     None \<Rightarrow> None
   | Some msg \<Rightarrow>
       if length (e_errors e) = 0 then Some msg
       else Some (foldl (\<lambda>sb n. case n of
           Some n \<Rightarrow> (case e_err n of Some m \<Rightarrow> sb @ (LF # ''  '' @ encode_runes [0x2022, 0x20]) @ m | None \<Rightarrow> sb)
         | None \<Rightarrow> sb) msg (e_errors e)))"

record error_position =
  ep_message :: string
  ep_ranges :: "range list"
  ep_pos :: position

definition buildHunkSpans :: "int \<Rightarrow> int list \<Rightarrow> int \<Rightarrow> span list" where
  "buildHunkSpans sourceLines errorLines totalLines =
     (if length errorLines = 0 then []
      else Clamp (Expand (GroupIndices (sort errorLines) sourceLines) sourceLines) 0 totalLines)"

text \<open>The annotations by line. The map that the code returns is read in an unspecified order.\<close>

definition line_annotation :: "error_position list \<Rightarrow> annotation" where
  "line_annotation lineErrs =
     \<lparr>ann_content = join ''; '' (map ep_message lineErrs), ann_position = Below,
      ann_col = foldl (\<lambda>m r. if pcol (ep_pos r) < m then pcol (ep_pos r) else m) (pcol (ep_pos (hd lineErrs))) lineErrs\<rparr>"

definition prepareLineAnnotations :: "error_position list \<Rightarrow> int \<Rightarrow> annotation option" where
  "prepareLineAnnotations positions = (\<lambda>l.
     let lineErrs = filter (\<lambda>p. ep_message p \<noteq> [] \<and> pline (ep_pos p) = l) positions in
     if lineErrs = [] then None else Some (line_annotation lineErrs))"

definition resolveNestedError ::
  "('pb, 'y, 'f, 'n) path_lib \<Rightarrow> (token list \<Rightarrow> 'o list \<Rightarrow> parse_failure + 'f) \<Rightarrow> adder \<Rightarrow> ('f, 'o) source
    \<Rightarrow> 'y error_core \<Rightarrow> resolve_error + error_position" where
  "resolveNestedError L parse add t nested =
     (case (source_File parse add t :: ('f, 'o, 'y, unit) go_error + 'f) of
        Inl _ \<Rightarrow> Inl ParseSource
      | Inr file \<Rightarrow> (case resolveToken L (Some file) (e_token nested) (e_path nested) of
          Inl err \<Rightarrow> Inl err
        | Inr tk \<Rightarrow> (case Option.bind tk tk_pos of
            None \<Rightarrow> Inl TokenNotFound
          | Some tp \<Rightarrow>
              let pos = NewFromToken (Some tp) in
              if pline pos \<ge> source_Len t then Inl TokenNotFound
              else Inr \<lparr>ep_message = the (e_err nested), ep_ranges = [], ep_pos = pos\<rparr>)))"

definition main_position :: "('f, 'o) source \<Rightarrow> token option \<Rightarrow> error_position list" where
  "main_position t mainToken = (case mainToken of
     None \<Rightarrow> []
   | Some tk \<Rightarrow> (case tk_pos tk of
       None \<Rightarrow> []
     | Some tp \<Rightarrow> let pos = NewFromToken (Some tp) in
         if pline pos < source_Len t
         then [\<lparr>ep_message = [], ep_ranges = ContentPositionRangesFromToken t (Some (tk_id tk)), ep_pos = pos\<rparr>]
         else []))"

definition nested_position ::
  "('pb, 'y, 'f, 'n) path_lib \<Rightarrow> (token list \<Rightarrow> 'o list \<Rightarrow> parse_failure + 'f) \<Rightarrow> adder \<Rightarrow> ('f, 'o) source
    \<Rightarrow> 'y error_core option \<Rightarrow> error_position option" where
  "nested_position L parse add t nested = (case nested of
     None \<Rightarrow> None
   | Some nested \<Rightarrow>
       if e_err nested = None then None
       else (case resolveNestedError L parse add t nested of
           Inl _ \<Rightarrow> None
         | Inr r \<Rightarrow> Some (r\<lparr>ep_ranges := ContentPositionRanges t [ep_pos r]\<rparr>)))"

definition collectErrorPositions ::
  "('pb, 'y, 'f, 'n) path_lib \<Rightarrow> (token list \<Rightarrow> 'o list \<Rightarrow> parse_failure + 'f) \<Rightarrow> adder \<Rightarrow> ('f, 'o) source
    \<Rightarrow> 'y error_core option list \<Rightarrow> token option \<Rightarrow> error_position list" where
  "collectErrorPositions L parse add t errs mainToken =
     main_position t mainToken @ List.map_filter (nested_position L parse add t) errs"

section \<open>Rendering\<close>

record ('f, 'o, 'p) error_printer =
  pp_default :: 'p
  pp_SetWidth :: "int \<Rightarrow> 'p \<Rightarrow> 'p"
  pp_Print :: "'p \<Rightarrow> ('f, 'o) source \<Rightarrow> span list \<Rightarrow> string option"

definition getPrinter :: "('f, 'o, 'p) error_printer \<Rightarrow> ('f, 'o, 'y, 'p) yaml_error \<Rightarrow> 'p" where
  "getPrinter P e = (let width = (case e_widthFunc e of Some w \<Rightarrow> w | None \<Rightarrow> e_width e) in
     case e_printer e of Some p \<Rightarrow> pp_SetWidth P width p | None \<Rightarrow> pp_SetWidth P width (pp_default P))"

text \<open>\<open>t.Line(idx).AddAnnotation(a)\<close>.\<close>

definition annotate_line :: "('f, 'o) source \<Rightarrow> int \<times> annotation \<Rightarrow> ('f, 'o) source option" where
  "annotate_line t = (\<lambda>(idx, a). map_option (\<lambda>l. t\<lparr>src_lines := (src_lines t)[nat idx := line_AddAnnotation l [a]]\<rparr>)
     (source_Line t idx))"

text \<open>The line annotations are applied in the order of the list \<open>keys\<close>, which holds the keys of the map.\<close>

definition mark_errors ::
  "int \<Rightarrow> int list \<Rightarrow> error_position list \<Rightarrow> ('f, 'o) source \<Rightarrow> (('f, 'o) source \<times> span list) option" where
  "mark_errors sourceLines keys positions t =
     (let allRanges = concat (map ep_ranges positions) in
      Option.bind (source_AddOverlay style_GenericError allRanges t) (\<lambda>t1.
      Option.bind (foldM annotate_line t1 (List.map_filter (\<lambda>l. map_option (Pair l) (prepareLineAnnotations positions l)) keys)) (\<lambda>t2.
        let hunkSpans = buildHunkSpans sourceLines (LineIndices allRanges) (source_Len t2) in
        map_option (\<lambda>t3. (t3, hunkSpans))
          (foldM annotate_line t2 (map (\<lambda>sp. (sstart sp, \<lparr>ann_content = ''...'', ann_position = Above, ann_col = 0\<rparr>))
            (tl hunkSpans))))))"

text \<open>The text, and the source that \<open>e\<close> points to afterwards.\<close>

definition renderErrorSource ::
  "('pb, 'y, 'f, 'n) path_lib \<Rightarrow> (token list \<Rightarrow> 'o list \<Rightarrow> parse_failure + 'f) \<Rightarrow> adder
    \<Rightarrow> (nat \<Rightarrow> token option) \<Rightarrow> (nat \<Rightarrow> token option) \<Rightarrow> ('f, 'o, 'p) error_printer
    \<Rightarrow> (error_position list \<Rightarrow> int list) \<Rightarrow> ('f, 'o, 'y, 'p) yaml_error \<Rightarrow> token option
    \<Rightarrow> (string \<times> ('f, 'o) source option) option" where
  "renderErrorSource L parse add prev next P order e mainToken =
     Option.bind (case mainToken of Some tk \<Rightarrow> NewSourceFromToken prev next (Some tk) [] | None \<Rightarrow> e_source e) (\<lambda>t.
       let positions = collectErrorPositions L parse add t (e_errors e) mainToken in
       Option.bind (mark_errors (e_sourceLines e) (order positions) positions t) (\<lambda>(t', hunkSpans).
         map_option (\<lambda>out. (out, if mainToken = None then Some t' else e_source e))
           (pp_Print P (getPrinter P e) t' hunkSpans)))"

definition error_Error ::
  "('pb, 'y, 'f, 'n) path_lib \<Rightarrow> (token list \<Rightarrow> 'o list \<Rightarrow> parse_failure + 'f) \<Rightarrow> adder
    \<Rightarrow> (nat \<Rightarrow> token option) \<Rightarrow> (nat \<Rightarrow> token option) \<Rightarrow> ('f, 'o, 'p) error_printer
    \<Rightarrow> (error_position list \<Rightarrow> int list) \<Rightarrow> ('f, 'o, 'y, 'p) yaml_error
    \<Rightarrow> (string \<times> ('f, 'o) source option) option" where
  "error_Error L parse add prev next P order e = (case e_err e of
     None \<Rightarrow> Some ([], e_source e)
   | Some msg \<Rightarrow>
       let render = (\<lambda>mainToken.
         let header = (case mainToken of
               Some tk \<Rightarrow> ''['' @ position_String (NewFromToken (tk_pos tk)) @ ''] '' @ msg @ '':'' @ [LF]
             | None \<Rightarrow> msg @ '':'' @ [LF])
         in map_option (\<lambda>(out, s). (header @ [LF] @ out, s)) (renderErrorSource L parse add prev next P order e mainToken))
       in case resolveMainToken L parse add e of
            Inr mainToken \<Rightarrow> render mainToken
          | Inl _ \<Rightarrow>
              if e_source e = None \<or> \<not> hasResolvableNestedErrors e
              then let pathStr = error_Path L e in
                if pathStr \<noteq> [] then Some (''at '' @ pathStr @ '': '' @ msg, e_source e)
                else map_option (\<lambda>x. (x, e_source e)) (formatPlainError e)
              else render None)"

end
