(* ===== verification/Error_Facts.thy ===== *)
theory Error_Facts
  imports Yaml_Error
begin

text \<open>
  What an error shows: marking the positions of an error in a source puts the overlays on exactly
  their columns and the messages on exactly their lines, whatever the order in which the map of
  annotations is read, and the hunks cover exactly the context of the marked lines.
\<close>

section \<open>Annotating lines\<close>

lemma annotate_line_Some:
  "0 \<le> idx \<Longrightarrow> idx < source_Len t
    \<Longrightarrow> annotate_line t (idx, a) = Some (t\<lparr>src_lines := (src_lines t)[nat idx := line_AddAnnotation (src_lines t ! nat idx) [a]]\<rparr>)"
  by (simp add: annotate_line_def source_Line_def slice_get_def source_Len_def)

lemma annotate_lines:
  assumes "\<forall>(idx, a) \<in> set entries. 0 \<le> idx \<and> idx < source_Len t"
  shows "\<exists>t'. foldM annotate_line t entries = Some t' \<and> length (src_lines t') = length (src_lines t)
    \<and> t'\<lparr>src_lines := []\<rparr> = t\<lparr>src_lines := []\<rparr>
    \<and> (\<forall>i < length (src_lines t). src_lines t' ! i
        = line_AddAnnotation (src_lines t ! i) (map snd (filter (\<lambda>(idx, a). idx = int i) entries)))"
  using assms
proof (induction entries arbitrary: t)
  case Nil
  then show ?case by (simp add: line_AddAnnotation_def)
next
  case (Cons e entries)
  obtain idx a where e: "e = (idx, a)" by (cases e)
  let ?t = "t\<lparr>src_lines := (src_lines t)[nat idx := line_AddAnnotation (src_lines t ! nat idx) [a]]\<rparr>"
  have idx: "0 \<le> idx" "idx < source_Len t" using Cons.prems e by simp_all
  have len: "source_Len ?t = source_Len t" by (simp add: source_Len_def)
  with Cons.prems have "\<forall>(idx, a) \<in> set entries. 0 \<le> idx \<and> idx < source_Len ?t" by simp
  from Cons.IH [OF this] obtain t' where t': "foldM annotate_line ?t entries = Some t'"
    "length (src_lines t') = length (src_lines t)" "t'\<lparr>src_lines := []\<rparr> = t\<lparr>src_lines := []\<rparr>"
    "\<forall>i < length (src_lines t). src_lines t' ! i
       = line_AddAnnotation (src_lines ?t ! i) (map snd (filter (\<lambda>(idx, a). idx = int i) entries))"
    by auto
  have "src_lines t' ! i = line_AddAnnotation (src_lines t ! i) (map snd (filter (\<lambda>(idx, a). idx = int i) (e # entries)))"
    if "i < length (src_lines t)" for i
    using t'(4) that idx by (cases "idx = int i") (auto simp: e line_AddAnnotation_def nth_list_update)
  with t' e annotate_line_Some [OF idx] show ?case by auto
qed

lemma annotations_of [simp]:
  "l_annotations (line_AddAnnotation l xs) = l_annotations l @ xs" "l_overlays (line_AddAnnotation l xs) = l_overlays l"
  "(line_AddAnnotation l xs)\<lparr>l_annotations := [], l_overlays := []\<rparr> = l\<lparr>l_annotations := [], l_overlays := []\<rparr>"
  by (simp_all add: line_AddAnnotation_def)

lemma filter_distinct_keys:
  "distinct ks \<Longrightarrow> filter (\<lambda>(idx, a). idx = k) (List.map_filter (\<lambda>l. map_option (Pair l) (f l)) ks)
    = (if k \<in> set ks then case f k of None \<Rightarrow> [] | Some a \<Rightarrow> [(k, a)] else [])"
  by (induction ks) (auto simp: map_filter_simps split: option.split)

lemma filter_distinct_const:
  "distinct ks \<Longrightarrow> filter (\<lambda>(idx, a). idx = k) (map (\<lambda>x. (x, c)) ks) = (if k \<in> set ks then [(k, c)] else [])"
  by (induction ks) auto

section \<open>Ranges stay in the source\<close>

definition range_fits :: "('f, 'o) source \<Rightarrow> range \<Rightarrow> bool" where
  "range_fits t r \<longleftrightarrow> 0 \<le> pline (rstart r) \<and> pline (rend r) = pline (rstart r) \<and> pline (rstart r) < source_Len t"

lemma content_range_line: "r \<in> set (line_ranges_loop (content_range i) src col segs) \<Longrightarrow> pline (rstart r) = i \<and> pline (rend r) = i"
  by (induction "content_range i" src col segs rule: line_ranges_loop.induct)
     (auto simp: content_range_def Let_def split: if_splits)

lemma ContentRangesAt_line:
  assumes "r \<in> set (ContentPositionRangesAt ls pos)"
  shows "\<exists>i < length ls. pline (rstart r) = int i \<and> pline (rend r) = int i"
proof -
  obtain src i segs where "(i, segs) \<in> set (enumerate 0 (map l_segments ls))"
    "r \<in> set (line_ranges_loop (content_range (int i)) src 0 segs)"
    using assms by (auto simp: ContentPositionRangesAt_def ContentRangesAt_def split: if_splits option.splits)
  with content_range_line [of r "int i" src 0 segs] show ?thesis
    by (auto simp: in_set_enumerate_eq)
qed

lemma ContentPositionRanges_fit:
  assumes "r \<in> set (ContentPositionRanges t ps)"
  shows "range_fits t r"
proof -
  have "set (foldl (\<lambda>all pos. all @ ContentPositionRangesAt (src_lines t) pos) acc ps)
    = set acc \<union> (\<Union>pos \<in> set ps. set (ContentPositionRangesAt (src_lines t) pos))" for acc
    by (induction ps arbitrary: acc) auto
  with assms obtain pos where "r \<in> set (ContentPositionRangesAt (src_lines t) pos)"
    by (auto simp: ContentPositionRanges_def UniqueValues_def unique_loop_set)
  from ContentRangesAt_line [OF this] show ?thesis by (auto simp: range_fits_def source_Len_def)
qed

definition position_fits :: "('f, 'o) source \<Rightarrow> error_position \<Rightarrow> bool" where
  "position_fits t p \<longleftrightarrow> 0 \<le> pline (ep_pos p) \<and> pline (ep_pos p) < source_Len t
     \<and> (\<forall>r \<in> set (ep_ranges p). range_fits t r)"

lemma NewFromToken_nonneg: "0 \<le> pline (NewFromToken tp)"
  by (auto simp: NewFromToken_def split: option.split)

lemma resolveNestedError_fits:
  "resolveNestedError L parse add t nested = Inr r \<Longrightarrow> 0 \<le> pline (ep_pos r) \<and> pline (ep_pos r) < source_Len t"
  by (auto simp: resolveNestedError_def Let_def NewFromToken_nonneg split: sum.splits option.splits if_splits)

lemma main_position_fits: "p \<in> set (main_position t mainToken) \<Longrightarrow> position_fits t p"
  by (auto simp: main_position_def position_fits_def Let_def NewFromToken_nonneg
      ContentPositionRangesFromToken_def dest: ContentPositionRanges_fit split: option.splits if_splits)

lemma nested_position_fits:
  assumes "nested_position L parse add t nested = Some p"
  shows "position_fits t p"
proof -
  obtain n r where "nested = Some n" "resolveNestedError L parse add t n = Inr r"
    "p = r\<lparr>ep_ranges := ContentPositionRanges t [ep_pos r]\<rparr>"
    using assms by (auto simp: nested_position_def split: option.splits if_splits sum.splits)
  then show ?thesis
    using resolveNestedError_fits [of L parse add t n r] ContentPositionRanges_fit [of _ t]
    by (auto simp: position_fits_def)
qed

lemma in_map_filter: "y \<in> set (List.map_filter f xs) \<longleftrightarrow> (\<exists>x \<in> set xs. f x = Some y)"
  by (induction xs) (auto simp: map_filter_simps split: option.split)

lemma collectErrorPositions_fit:
  "p \<in> set (collectErrorPositions L parse add t errs mainToken) \<Longrightarrow> position_fits t p"
  by (auto simp: collectErrorPositions_def in_map_filter dest: main_position_fits nested_position_fits)

section \<open>Marking\<close>

definition ellipsis :: annotation where
  "ellipsis = \<lparr>ann_content = ''...'', ann_position = Above, ann_col = 0\<rparr>"

definition error_lines :: "error_position list \<Rightarrow> int set" where
  "error_lines positions = (\<Union>p \<in> set positions. (\<lambda>r. pline (rstart r)) ` set (ep_ranges p))"

lemma LineIndices_fit:
  assumes "\<forall>p \<in> set positions. position_fits t p"
  shows "set (LineIndices (concat (map ep_ranges positions))) = error_lines positions"
  using assms by (fastforce simp: LineIndices_def error_lines_def position_fits_def range_fits_def)

lemma same_text_nth:
  assumes "same_text a b" "i < length a"
  shows "(b ! i)\<lparr>l_overlays := []\<rparr> = (a ! i)\<lparr>l_overlays := []\<rparr>"
proof -
  have "length a = length b" using assms(1) unfolding same_text_def by (rule map_eq_imp_length_eq)
  with assms show ?thesis unfolding same_text_def by (metis nth_map)
qed

definition error_spans :: "int \<Rightarrow> error_position list \<Rightarrow> ('f, 'o) source \<Rightarrow> span list" where
  "error_spans sourceLines positions t =
     hunk_spans (sort (LineIndices (concat (map ep_ranges positions)))) sourceLines (source_Len t)"

text \<open>What marking makes of a source, with no order in it.\<close>

definition marked :: "int \<Rightarrow> error_position list \<Rightarrow> ('f, 'o) source \<Rightarrow> ('f, 'o) source \<Rightarrow> bool" where
  "marked sourceLines positions t t' \<longleftrightarrow> length (src_lines t') = length (src_lines t)
     \<and> t'\<lparr>src_lines := []\<rparr> = t\<lparr>src_lines := []\<rparr>
     \<and> (\<exists>ls. lines_AddOverlay style_GenericError (concat (map ep_ranges positions)) (src_lines t) = Some ls
          \<and> (\<forall>i < length (src_lines t). src_lines t' ! i = line_AddAnnotation (line_AddAnnotation (ls ! i)
               (case prepareLineAnnotations positions (int i) of None \<Rightarrow> [] | Some a \<Rightarrow> [a]))
               (if int i \<in> sstart ` set (tl (error_spans sourceLines positions t)) then [ellipsis] else [])))"

lemma mark_errors_marked:
  assumes fits: "\<forall>p \<in> set positions. position_fits t p" and "0 \<le> sourceLines" "distinct keys"
    and keys: "\<forall>l. prepareLineAnnotations positions l \<noteq> None \<longrightarrow> l \<in> set keys"
  shows "\<exists>t'. mark_errors sourceLines keys positions t = Some (t', error_spans sourceLines positions t)
    \<and> marked sourceLines positions t t'"
proof -
  let ?rs = "concat (map ep_ranges positions)"
  let ?is = "sort (LineIndices ?rs)"
  define spans where "spans = hunk_spans ?is sourceLines (source_Len t)"
  have rs: "\<forall>r \<in> set ?rs. 0 \<le> pline (rstart r) \<and> pline (rstart r) \<le> pline (rend r) \<and> pline (rend r) < int (length (src_lines t))"
    using fits by (auto simp: position_fits_def range_fits_def source_Len_def)
  obtain ls where ls: "lines_AddOverlay style_GenericError ?rs (src_lines t) = Some ls"
    using lines_AddOverlay_total [OF rs] by blast
  define t1 where "t1 = t\<lparr>src_lines := ls\<rparr>"
  have st: "same_text (src_lines t) ls" by (rule lines_AddOverlay_text [OF ls])
  then have len: "length ls = length (src_lines t)" unfolding same_text_def by (metis length_map)
  have same: "l_annotations (ls ! i) = l_annotations (src_lines t ! i)
    \<and> (ls ! i)\<lparr>l_annotations := [], l_overlays := []\<rparr> = (src_lines t ! i)\<lparr>l_annotations := [], l_overlays := []\<rparr>"
    if "i < length (src_lines t)" for i
    using same_text_nth [OF st that] by (cases "ls ! i"; cases "src_lines t ! i") simp
  let ?anns = "List.map_filter (\<lambda>l. map_option (Pair l) (prepareLineAnnotations positions l)) keys"
  have "\<forall>(idx, a) \<in> set ?anns. 0 \<le> idx \<and> idx < source_Len t1"
    using fits len
    by (auto simp: in_map_filter prepareLineAnnotations_def Let_def filter_empty_conv position_fits_def t1_def source_Len_def
        split: if_splits)
  from annotate_lines [OF this] obtain t2 where t2: "foldM annotate_line t1 ?anns = Some t2"
    "length (src_lines t2) = length ls" "t2\<lparr>src_lines := []\<rparr> = t1\<lparr>src_lines := []\<rparr>"
    "\<forall>i < length ls. src_lines t2 ! i = line_AddAnnotation (ls ! i) (map snd (filter (\<lambda>(idx, a). idx = int i) ?anns))"
    by (auto simp: t1_def)
  have bounds: "0 \<le> sstart sp \<and> sstart sp < source_Len t" if "sp \<in> set spans" for sp
  proof -
    have "\<forall>i \<in> set ?is. 0 \<le> i \<and> i < source_Len t"
      using fits LineIndices_fit [OF fits] by (auto simp: error_lines_def position_fits_def range_fits_def)
    from hunk_spans_bounds [OF assms(2) _ this] that show ?thesis by (fastforce simp: spans_def)
  qed
  have "distinct (map sstart spans)"
  proof -
    have "sorted_wrt (\<lambda>s t. send s < sstart t) spans" unfolding spans_def by (rule hunk_spans_gap [OF assms(2)]) simp
    moreover have "sstart sp < send sp" if "sp \<in> set spans" for sp
    proof -
      have "\<forall>i \<in> set ?is. 0 \<le> i \<and> i < source_Len t"
        using fits LineIndices_fit [OF fits] by (auto simp: error_lines_def position_fits_def range_fits_def)
      from hunk_spans_bounds [OF assms(2) _ this] that show ?thesis by (fastforce simp: spans_def)
    qed
    ultimately show ?thesis by (induction spans) force+
  qed
  then have starts: "distinct (map sstart (tl spans))" by (cases spans) auto
  let ?dots = "map (\<lambda>x. (x, ellipsis)) (map sstart (tl spans))"
  have "\<forall>(idx, a) \<in> set ?dots. 0 \<le> idx \<and> idx < source_Len t2"
    using bounds t2(2) len by (cases spans) (auto simp: source_Len_def)
  from annotate_lines [OF this] obtain t3 where t3: "foldM annotate_line t2 ?dots = Some t3"
    "length (src_lines t3) = length (src_lines t2)" "t3\<lparr>src_lines := []\<rparr> = t2\<lparr>src_lines := []\<rparr>"
    "\<forall>i < length (src_lines t2). src_lines t3 ! i
       = line_AddAnnotation (src_lines t2 ! i) (map snd (filter (\<lambda>(idx, a). idx = int i) ?dots))" by blast
  have dots: "?dots = map (\<lambda>sp. (sstart sp, \<lparr>ann_content = ''...'', ann_position = Above, ann_col = 0\<rparr>)) (tl spans)"
    by (simp add: ellipsis_def)
  have "buildHunkSpans sourceLines (LineIndices ?rs) (source_Len t2) = spans"
    using t2(2) len by (simp add: buildHunkSpans_def spans_def hunk_spans_def source_Len_def
        GroupIndices_def Expand_def Clamp_def)
  then have mark: "mark_errors sourceLines keys positions t = Some (t3, spans)"
    using ls t2(1) t3(1) [unfolded dots] by (simp add: mark_errors_def source_AddOverlay_def t1_def [symmetric])
  have line: "src_lines t3 ! i = line_AddAnnotation (line_AddAnnotation (ls ! i)
      (case prepareLineAnnotations positions (int i) of None \<Rightarrow> [] | Some a \<Rightarrow> [a]))
      (if int i \<in> sstart ` set (tl spans) then [ellipsis] else [])" if "i < length (src_lines t)" for i
    using that t2(2,4) t3(4) len keys
    by (auto simp: filter_distinct_keys [OF assms(3)] filter_distinct_const [OF starts] simp del: map_map split: option.split)
  have "t3\<lparr>src_lines := []\<rparr> = t\<lparr>src_lines := []\<rparr>" using t2(3) t3(3) by (simp add: t1_def)
  moreover have "length (src_lines t3) = length (src_lines t)" using t2(2) t3(2) len by simp
  ultimately have "marked sourceLines positions t t3"
    using line ls unfolding marked_def error_spans_def spans_def [symmetric] by blast
  with mark show ?thesis unfolding error_spans_def spans_def [symmetric] by blast
qed

lemma marked_unique: "marked sl ps t a \<Longrightarrow> marked sl ps t b \<Longrightarrow> a = b"
proof -
  assume a: "marked sl ps t a" and b: "marked sl ps t b"
  have "src_lines a = src_lines b"
    using a b by (intro nth_equalityI) (auto simp: marked_def)
  moreover have "a\<lparr>src_lines := []\<rparr> = b\<lparr>src_lines := []\<rparr>" using a b by (simp add: marked_def)
  ultimately show "a = b" by (cases a; cases b) simp
qed

lemma marked_line:
  assumes "marked sl ps t t'" "i < length (src_lines t)"
  shows "l_annotations (src_lines t' ! i) = l_annotations (src_lines t ! i)
      @ (case prepareLineAnnotations ps (int i) of None \<Rightarrow> [] | Some a \<Rightarrow> [a])
      @ (if int i \<in> sstart ` set (tl (error_spans sl ps t)) then [ellipsis] else [])
    \<and> (src_lines t' ! i)\<lparr>l_annotations := [], l_overlays := []\<rparr> = (src_lines t ! i)\<lparr>l_annotations := [], l_overlays := []\<rparr>"
proof -
  obtain ls where ls: "lines_AddOverlay style_GenericError (concat (map ep_ranges ps)) (src_lines t) = Some ls"
    "src_lines t' ! i = line_AddAnnotation (line_AddAnnotation (ls ! i)
       (case prepareLineAnnotations ps (int i) of None \<Rightarrow> [] | Some a \<Rightarrow> [a]))
       (if int i \<in> sstart ` set (tl (error_spans sl ps t)) then [ellipsis] else [])"
    using assms by (auto simp: marked_def)
  have "l_annotations (ls ! i) = l_annotations (src_lines t ! i)
    \<and> (ls ! i)\<lparr>l_annotations := [], l_overlays := []\<rparr> = (src_lines t ! i)\<lparr>l_annotations := [], l_overlays := []\<rparr>"
    using same_text_nth [OF lines_AddOverlay_text [OF ls(1)] assms(2)]
    by (cases "ls ! i"; cases "src_lines t ! i") simp
  then show ?thesis by (simp add: ls(2))
qed

lemma marked_overlaid:
  assumes "marked sl ps t t'" "\<forall>p \<in> set ps. position_fits t p" "0 \<le> i" "i < source_Len t" "0 \<le> c" "c < maxCol"
  shows "overlaid (src_lines t') k i c \<longleftrightarrow> overlaid (src_lines t) k i c \<or> k = style_GenericError
      \<and> (\<exists>p \<in> set ps. \<exists>r \<in> set (ep_ranges p). range_Contains r (New i c))"
proof -
  let ?rs = "concat (map ep_ranges ps)"
  have n: "nat i < length (src_lines t)" using assms(3,4) by (simp add: source_Len_def)
  then obtain ls where ls: "lines_AddOverlay style_GenericError ?rs (src_lines t) = Some ls"
    "l_overlays (src_lines t' ! nat i) = l_overlays (ls ! nat i)"
    using assms(1) by (auto simp: marked_def)
  have "\<forall>r \<in> set ?rs. pline (rstart r) \<le> pline (rend r)"
    using assms(2) by (auto simp: position_fits_def range_fits_def)
  from lines_AddOverlay_exact [OF ls(1) assms(3) _ assms(5,6) this, of k] assms(4) ls(2)
  show ?thesis by (auto simp: overlaid_def source_Len_def)
qed

lemma error_spans_cover:
  assumes "\<forall>p \<in> set ps. position_fits t p" "0 \<le> sl"
  shows "(\<exists>sp \<in> set (error_spans sl ps t). span_Contains sp i)
    \<longleftrightarrow> 0 \<le> i \<and> i < source_Len t \<and> (\<exists>k \<in> error_lines ps. \<bar>k - i\<bar> \<le> sl)"
  using hunk_spans_Contains [OF assms(2), of "sort (LineIndices (concat (map ep_ranges ps)))" "source_Len t" i]
  by (simp add: LineIndices_fit [OF assms(1)] error_spans_def)

section \<open>Token chains\<close>

definition chained :: "(nat \<Rightarrow> token option) \<Rightarrow> (nat \<Rightarrow> token option) \<Rightarrow> token list \<Rightarrow> bool" where
  "chained prev next tks \<longleftrightarrow> (\<forall>i < length tks.
     prev (tk_id (tks ! i)) = (if i = 0 then None else Some (tks ! (i - 1)))
     \<and> next (tk_id (tks ! i)) = (if Suc i < length tks then Some (tks ! Suc i) else None))"

lemma first_token_chained:
  "chained prev next tks \<Longrightarrow> i < length tks \<Longrightarrow> first_token prev (tks ! i) = Some (tks ! 0)"
proof (induction i)
  case 0
  then show ?case by (subst first_token.simps) (simp add: chained_def)
next
  case (Suc i)
  then show ?case by (subst first_token.simps) (simp add: chained_def)
qed

lemma tokens_from_chained:
  "chained prev next tks \<Longrightarrow> i < length tks \<Longrightarrow> tokens_from next acc (tks ! i) = Some (acc @ drop i tks)"
proof (induction "length tks - i" arbitrary: i acc)
  case 0
  then show ?case by simp
next
  case (Suc n)
  have d: "drop i tks = tks ! i # drop (Suc i) tks" using Suc.prems(2) by (rule Cons_nth_drop_Suc [symmetric])
  show ?case
  proof (cases "Suc i < length tks")
    case True
    then have "tokens_from next (acc @ [tks ! i]) (tks ! Suc i) = Some ((acc @ [tks ! i]) @ drop (Suc i) tks)"
      using Suc by (intro Suc.hyps) simp_all
    moreover have "tokens_from next acc (tks ! i) = tokens_from next (acc @ [tks ! i]) (tks ! Suc i)"
      using Suc.prems True by (subst tokens_from.simps) (simp add: chained_def)
    ultimately show ?thesis by (simp add: d)
  next
    case False
    then show ?thesis using Suc.prems by (subst tokens_from.simps) (simp add: chained_def d)
  qed
qed

section \<open>Properties\<close>


definition sample_position :: "int \<Rightarrow> string \<Rightarrow> error_position" where
  "sample_position l msg = \<lparr>ep_message = msg, ep_ranges = [NewRange (New l 0) (New l 1)], ep_pos = New l 0\<rparr>"

definition sample_doc :: "(nat, nat) source" where
  "sample_doc = empty_source\<lparr>src_lines := [empty_line, empty_line, empty_line]\<rparr>"


text \<open>C38: a source made from any token of a stream is that of the whole stream: from every token of a
  list that is linked in both directions, \<open>NewSourceFromToken\<close> finds the first token and collects
  them all, in order.\<close>

theorem NewSourceFromToken_exact:
  assumes "chained prev next tks" "tk \<in> set tks"
  shows "NewSourceFromToken prev next (Some tk) opts = NewSourceFromTokens tks opts"
proof -
  obtain i where i: "i < length tks" "tk = tks ! i" using assms(2) by (auto simp: in_set_conv_nth)
  from i have "0 < length tks" by linarith
  from first_token_chained [OF assms(1) i(1)] tokens_from_chained [OF assms(1) this, of "[]"] i(2)
  show ?thesis by (simp add: NewSourceFromToken_def)
qed

theorem NewSourceFromToken_exact_witness:
  "NewSourceFromToken (\<lambda>i. if i = 2 then Some (sample_token 1 StringType ''a'') else None)
     (\<lambda>i. if i = 1 then Some (sample_token 2 StringType ''b'') else None) (Some (sample_token 2 StringType ''b'')) []
   = (NewSourceFromTokens [sample_token 1 StringType ''a'', sample_token 2 StringType ''b''] [] :: (nat, nat) source option)"
  by (rule NewSourceFromToken_exact) (auto simp: chained_def sample_token_def less_Suc_eq)

lemma foldl_appends:
  assumes "\<And>s x. \<exists>post. f s x = s @ post"
  shows "\<exists>post. foldl f s xs = s @ post"
proof (induction xs arbitrary: s)
  case (Cons x xs)
  from assms obtain p where "f s x = s @ p" by blast
  with Cons.IH [of "s @ p"] show ?case by auto
qed simp

lemma error_text:
  assumes "\<forall>p s spans. pp_Print P p s spans \<noteq> None" "0 \<le> e_sourceLines e"
    and "\<forall>ps. distinct (order ps) \<and> (\<forall>p \<in> set ps. ep_message p \<noteq> [] \<longrightarrow> pline (ep_pos p) \<in> set (order ps))"
    and "\<forall>tk. (NewSourceFromToken prev next (Some tk) [] :: ('f, 'o) source option) \<noteq> None"
    and "e_err (e :: ('f, 'o, 'y, 'p) yaml_error) = Some msg"
  shows "\<exists>out s. error_Error L parse add prev next P order e = Some (out, s) \<and> (\<exists>pre post. out = pre @ msg @ post)
    \<and> (\<forall>tk. e_token e = Some tk \<longrightarrow> s = e_source e
         \<and> (\<exists>shown. out = ''['' @ position_String (NewFromToken (tk_pos tk)) @ ''] '' @ msg @ '':'' @ [LF, LF] @ shown))"
proof -
  have mark: "\<exists>t' spans. mark_errors (e_sourceLines e) (order ps) ps t = Some (t', spans)"
    if "\<forall>p \<in> set ps. position_fits t p" for ps and t :: "('f, 'o) source"
  proof -
    have "\<forall>l. prepareLineAnnotations ps l \<noteq> None \<longrightarrow> l \<in> set (order ps)"
      using assms(3) by (auto simp: prepareLineAnnotations_def Let_def filter_empty_conv)
    with mark_errors_marked [OF that assms(2)] assms(3) show ?thesis by blast
  qed
  have render: "\<exists>out s. renderErrorSource L parse add prev next P order e mainToken = Some (out, s)
      \<and> (mainToken \<noteq> None \<longrightarrow> s = e_source e)"
    if src: "mainToken \<noteq> None \<or> e_source e \<noteq> None" for mainToken
  proof -
    obtain t where t: "(case mainToken of Some tk \<Rightarrow> NewSourceFromToken prev next (Some tk) [] | None \<Rightarrow> e_source e) = Some t"
      using src assms(4) by (cases mainToken) auto
    let ?ps = "collectErrorPositions L parse add t (e_errors e) mainToken"
    obtain t' spans where m: "mark_errors (e_sourceLines e) (order ?ps) ?ps t = Some (t', spans)"
      using mark [of ?ps t] collectErrorPositions_fit by blast
    obtain out where "pp_Print P (getPrinter P e) t' spans = Some out" using assms(1) by blast
    with t m show ?thesis by (simp add: renderErrorSource_def Let_def)
  qed
  have close: ?thesis
    if "error_Error L parse add prev next P order e = Some (pre @ msg @ post, s)" "e_token e = None" for pre post s
    using that by auto
  show ?thesis
  proof (cases "resolveMainToken L parse add e")
    case (Inr mainToken)
    have src: "mainToken \<noteq> None \<or> e_source e \<noteq> None"
      using Inr by (auto simp: resolveMainToken_def getFile_def split: option.splits sum.splits)
    from render [OF this] obtain out s where r: "renderErrorSource L parse add prev next P order e mainToken = Some (out, s)"
      "mainToken \<noteq> None \<longrightarrow> s = e_source e" by blast
    have tok: "e_token e = Some tk \<Longrightarrow> mainToken = Some tk" for tk using Inr by (simp add: resolveMainToken_def)
    show ?thesis
    proof (cases mainToken)
      case None
      with Inr r(1) assms(5) have "error_Error L parse add prev next P order e = Some ([] @ msg @ ('':'' @ [LF] @ [LF] @ out), s)"
        by (simp add: error_Error_def Let_def)
      moreover have "e_token e = None" using tok None by (cases "e_token e") auto
      ultimately show ?thesis by (rule close)
    next
      case (Some tk)
      define front where "front = ''['' @ position_String (NewFromToken (tk_pos tk)) @ ''] ''"
      define shown where "shown = front @ msg @ '':'' @ [LF, LF] @ out"
      from Some Inr r assms(5) have run: "error_Error L parse add prev next P order e = Some (shown, e_source e)"
        by (simp add: error_Error_def front_def shown_def Let_def)
      have "\<exists>out. shown = ''['' @ position_String (NewFromToken (tk_pos tk')) @ ''] '' @ msg @ '':'' @ [LF, LF] @ out"
        if "e_token e = Some tk'" for tk'
        using tok [OF that] Some by (intro exI [of _ out]) (simp add: shown_def front_def)
      moreover have "\<exists>pre post. shown = pre @ msg @ post" by (intro exI) (rule shown_def)
      ultimately show ?thesis using run by blast
    qed
  next
    case (Inl err)
    then have tok: "e_token e = None" by (cases "e_token e") (auto simp: resolveMainToken_def)
    show ?thesis
    proof (cases "e_source e = None \<or> \<not> hasResolvableNestedErrors e")
      case True
      have plain: "\<exists>post. formatPlainError e = Some (msg @ post)"
      proof (cases "e_errors e")
        case (Cons n ns)
        then show ?thesis unfolding formatPlainError_def using assms(5)
          by (simp only: option.simps option.inject list.size add_Suc_right Suc_not_Zero nat.simps if_False)
             (rule foldl_appends; simp split: option.split)
      qed (simp add: formatPlainError_def assms(5))
      show ?thesis
      proof (cases "error_Path L e = []")
        case True
        with plain Inl assms(5) tok \<open>e_source e = None \<or> \<not> hasResolvableNestedErrors e\<close>
        obtain post where "error_Error L parse add prev next P order e = Some ([] @ msg @ post, e_source e)"
          by (auto simp: error_Error_def Let_def)
        from close [OF this tok] show ?thesis .
      next
        case False
        then have "error_Error L parse add prev next P order e = Some ((''at '' @ error_Path L e @ '': '') @ msg @ [], e_source e)"
          using Inl assms(5) True by (simp add: error_Error_def Let_def)
        from close [OF this tok] show ?thesis .
      qed
    next
      case False
      from False have "(None :: token option) \<noteq> None \<or> e_source e \<noteq> None" by simp
      from render [OF this] obtain out s where r: "renderErrorSource L parse add prev next P order e None = Some (out, s)"
        by (elim exE conjE) (rule that)
      with False Inl assms(5) have "error_Error L parse add prev next P order e = Some ([] @ msg @ ('':'' @ [LF] @ [LF] @ out), s)"
        by (auto simp: error_Error_def Let_def)
      from close [OF this tok] show ?thesis .
    qed
  qed
qed


text \<open>Paths that are strings over the empty file, and a printer that prints nothing.\<close>

definition sample_paths :: "(string, string, nat, nat) path_lib" where
  "sample_paths = \<lparr>pl_nil = [], pl_Root = ''$'', pl_Child = (\<lambda>p n. p @ ''.'' @ n), pl_Index = (\<lambda>p _. p),
     pl_IndexAll = (\<lambda>p. p), pl_Recursive = (\<lambda>p n. p @ ''..'' @ n), pl_Build = (\<lambda>p. p), pl_PathString = Inr,
     pl_String = (\<lambda>p. p), pl_FilterFile = (\<lambda>_ _. Inr None), pl_GetToken = (\<lambda>_. None), pl_Bodies = (\<lambda>_. []),
     pl_Parent = (\<lambda>_ _. None), pl_MappingKey = (\<lambda>_. None)\<rparr>"

definition silent_printer :: "(nat, nat, nat) error_printer" where
  "silent_printer = \<lparr>pp_default = 80, pp_SetWidth = (\<lambda>_ p. p), pp_Print = (\<lambda>_ _ _. Some [])\<rparr>"

lemma single_token_source:
  "\<forall>tk. (NewSourceFromToken (\<lambda>_. None) (\<lambda>_. None) (Some tk) [] :: ('f, 'o) source option) \<noteq> None"
proof
  fix tk
  obtain k ls where "NewLines [tk] = Some ls" using NewLines_built_any by blast
  then show "(NewSourceFromToken (\<lambda>_. None) (\<lambda>_. None) (Some tk) [] :: ('f, 'o) source option) \<noteq> None"
    by (simp add: NewSourceFromToken_def NewSourceFromTokens_def first_token.simps tokens_from.simps)
qed


end
