(* ===== verification/Documents.thy ===== *)
theory Documents
  imports Error_Facts
begin

text \<open>
  \<open>decode.go\<close> and \<open>lexers/lexers.go\<close>: the documents of a source, decoding and validating one of
  them, and splitting a string into documents while it is scanned. The syntax trees and the decoder
  of go-yaml, and its scanner, are parameters: \<open>yaml_lib\<close> reads trees, \<open>yaml_decoder\<close> decodes a
  body into a value without type or into a typed target. \<open>fmt.Sprintf\<close> of a scalar is \<open>yl_Sprint\<close>.
  A target is a value of type \<open>'t\<close>; which of the interfaces \<open>SchemaValidator\<close> and \<open>Validator\<close> its
  type implements is the record \<open>target_hooks\<close>. Methods return the error, \<open>None\<close> for nil, and the
  target they leave.
\<close>

section \<open>Decoders\<close>

record ('f, 'd, 'n, 'y, 'v) yaml_lib =
  yl_Docs :: "'f \<Rightarrow> 'd list"
  yl_Body :: "'d \<Rightarrow> 'n option"
  yl_IsDirective :: "'n \<Rightarrow> bool"
  yl_FilterNode :: "'y \<Rightarrow> 'n option \<Rightarrow> string + 'n option"
  yl_Scalar :: "'n \<Rightarrow> 'v option option"
  yl_Sprint :: "'v \<Rightarrow> string"
  yl_NodeString :: "'n \<Rightarrow> string"

record ('f, 'o) decoder =
  dec_source :: "('f, 'o) source"
  dec_file :: 'f

definition NewDecoder ::
  "(token list \<Rightarrow> 'o list \<Rightarrow> parse_failure + 'f) \<Rightarrow> adder \<Rightarrow> ('f, 'o) source
    \<Rightarrow> ('f, 'o, 'y, 'p) go_error + ('f, 'o) decoder" where
  "NewDecoder parse add s = (case source_File parse add s of
     Inl err \<Rightarrow> Inl err | Inr f \<Rightarrow> Inr \<lparr>dec_source = s, dec_file = f\<rparr>)"

definition source_Decoder ::
  "(token list \<Rightarrow> 'o list \<Rightarrow> parse_failure + 'f) \<Rightarrow> adder \<Rightarrow> ('f, 'o) source
    \<Rightarrow> ('f, 'o, 'y, 'p) go_error + ('f, 'o) decoder" where
  "source_Decoder parse add s = NewDecoder parse add s"

definition decoder_Len :: "('f, 'd, 'n, 'y, 'v) yaml_lib \<Rightarrow> ('f, 'o) decoder \<Rightarrow> int" where
  "decoder_Len Y d = int (length (yl_Docs Y (dec_file d)))"

text \<open>\<open>dd_id\<close> is the address of the decoder; nil tokens are the empty list.\<close>

record ('d, 'o) document_decoder =
  dd_id :: nat
  dd_doc :: 'd
  dd_filePath :: string
  dd_tokens :: "token list"
  dd_decodeOpts :: "'o list"
  dd_index :: nat

definition NewDocumentDecoder :: "nat \<Rightarrow> 'd \<Rightarrow> ('d, 'o) document_decoder" where
  "NewDocumentDecoder ptr doc =
     \<lparr>dd_id = ptr, dd_doc = doc, dd_filePath = [], dd_tokens = [], dd_decodeOpts = [], dd_index = 0\<rparr>"

text \<open>The loop of \<open>Documents\<close>: \<open>pulled\<close> is what \<open>nextTokens\<close> has left to give.\<close>

fun documents_loop ::
  "(nat \<Rightarrow> 'd \<Rightarrow> token list \<Rightarrow> ('d, 'o) document_decoder) \<Rightarrow> nat \<Rightarrow> 'd list \<Rightarrow> (nat \<times> token list) list
    \<Rightarrow> (nat \<times> ('d, 'o) document_decoder) list" where
  "documents_loop mk i [] pulled = []"
| "documents_loop mk i (doc # docs) [] = (i, mk i doc []) # documents_loop mk (Suc i) docs []"
| "documents_loop mk i (doc # docs) (p # ps) = (i, mk i doc (snd p)) # documents_loop mk (Suc i) docs ps"

text \<open>All the pairs the iterator yields; the decoders are allocated from address \<open>ptr\<close> on.\<close>

definition decoder_Documents ::
  "('f, 'd, 'n, 'y, 'v) yaml_lib \<Rightarrow> adder \<Rightarrow> nat \<Rightarrow> ('f, 'o) decoder
    \<Rightarrow> (nat \<times> ('d, 'o) document_decoder) list" where
  "decoder_Documents Y add ptr d =
     (let filePath = src_path (dec_source d);
          srcTokens = source_Tokens add (dec_source d);
          mk = (\<lambda>i doc tks. \<lparr>dd_id = ptr + i, dd_doc = doc, dd_filePath = filePath, dd_tokens = tks,
                  dd_decodeOpts = src_decodeOpts (dec_source d), dd_index = i\<rparr>)
      in documents_loop mk 0 (yl_Docs Y (dec_file d))
           (if srcTokens = [] then [] else SplitDocuments add False srcTokens))"

section \<open>One document\<close>

text \<open>A nil path is \<open>None\<close>. The result is the string and whether a value was found.\<close>

definition GetValue ::
  "('f, 'd, 'n, 'y, 'v) yaml_lib \<Rightarrow> ('d, 'o) document_decoder \<Rightarrow> 'y option \<Rightarrow> string \<times> bool" where
  "GetValue Y dd p = (case p of
     None \<Rightarrow> ([], False)
   | Some p \<Rightarrow>
       if (case yl_Body Y (dd_doc dd) of Some b \<Rightarrow> yl_IsDirective Y b | None \<Rightarrow> False) then ([], False)
       else (case yl_FilterNode Y p (yl_Body Y (dd_doc dd)) of
           Inl err \<Rightarrow> ([], False)
         | Inr None \<Rightarrow> ([], False)
         | Inr (Some node) \<Rightarrow> (case yl_Scalar Y node of
             Some None \<Rightarrow> ([], True)
           | Some (Some v) \<Rightarrow> (yl_Sprint Y v, True)
           | None \<Rightarrow> (yl_NodeString Y node, True))))"

text \<open>What the decoder of go-yaml fails with: one of its errors, with a message and a token, or an
  error it passes on (from a method of the target, or of the context).\<close>

datatype 'e decode_failure = DecodeYaml string "token option" | DecodeOther 'e

record ('o, 'x, 'n, 'a, 't, 'e) yaml_decoder =
  yd_Any :: "'o list \<Rightarrow> 'x \<Rightarrow> 'n option \<Rightarrow> 'e decode_failure + 'a"
  yd_Into :: "'o list \<Rightarrow> 'x \<Rightarrow> 'n option \<Rightarrow> 't \<Rightarrow> 'e decode_failure option \<times> 't"
  yd_Background :: 'x

definition convert_failure ::
  "('f, 'o, 'y, 'p) go_error decode_failure \<Rightarrow> ('f, 'o, 'y, 'p) go_error" where
  "convert_failure x = (case x of
     DecodeYaml msg tk \<Rightarrow> GoError msg (Some (NewError msg [WithErrorToken tk])) [GoError msg None []]
   | DecodeOther err \<Rightarrow> err)"

definition decodeNode_any ::
  "('f, 'd, 'n, 'y, 'v) yaml_lib \<Rightarrow> ('o, 'x, 'n, 'a, 't, ('f, 'o, 'z, 'p) go_error) yaml_decoder
    \<Rightarrow> ('d, 'o) document_decoder \<Rightarrow> 'x \<Rightarrow> ('f, 'o, 'z, 'p) go_error + 'a" where
  "decodeNode_any Y D dd ctx = (case yd_Any D (dd_decodeOpts dd) ctx (yl_Body Y (dd_doc dd)) of
     Inl x \<Rightarrow> Inl (convert_failure x) | Inr a \<Rightarrow> Inr a)"

definition decodeNode ::
  "('f, 'd, 'n, 'y, 'v) yaml_lib \<Rightarrow> ('o, 'x, 'n, 'a, 't, ('f, 'o, 'z, 'p) go_error) yaml_decoder
    \<Rightarrow> ('d, 'o) document_decoder \<Rightarrow> 'x \<Rightarrow> 't \<Rightarrow> ('f, 'o, 'z, 'p) go_error option \<times> 't" where
  "decodeNode Y D dd ctx v = (case yd_Into D (dd_decodeOpts dd) ctx (yl_Body Y (dd_doc dd)) v of
     (err, v') \<Rightarrow> (map_option convert_failure err, v'))"

text \<open>A schema validator may have state, \<open>'s\<close>.\<close>

definition ValidateSchemaContext ::
  "('f, 'd, 'n, 'y, 'v) yaml_lib \<Rightarrow> ('o, 'x, 'n, 'a, 't, ('f, 'o, 'z, 'p) go_error) yaml_decoder
    \<Rightarrow> ('d, 'o) document_decoder \<Rightarrow> 'x \<Rightarrow> ('a \<Rightarrow> 's \<Rightarrow> ('f, 'o, 'z, 'p) go_error option \<times> 's) \<Rightarrow> 's
    \<Rightarrow> ('f, 'o, 'z, 'p) go_error option \<times> 's" where
  "ValidateSchemaContext Y D dd ctx sv s = (case decodeNode_any Y D dd ctx of
     Inl err \<Rightarrow> (Some err, s) | Inr untypedData \<Rightarrow> sv untypedData s)"

definition document_ValidateSchema ::
  "('f, 'd, 'n, 'y, 'v) yaml_lib \<Rightarrow> ('o, 'x, 'n, 'a, 't, ('f, 'o, 'z, 'p) go_error) yaml_decoder
    \<Rightarrow> ('d, 'o) document_decoder \<Rightarrow> ('a \<Rightarrow> 's \<Rightarrow> ('f, 'o, 'z, 'p) go_error option \<times> 's) \<Rightarrow> 's
    \<Rightarrow> ('f, 'o, 'z, 'p) go_error option \<times> 's" where
  "document_ValidateSchema Y D dd sv s = ValidateSchemaContext Y D dd (yd_Background D) sv s"

definition DecodeContext ::
  "('f, 'd, 'n, 'y, 'v) yaml_lib \<Rightarrow> ('o, 'x, 'n, 'a, 't, ('f, 'o, 'z, 'p) go_error) yaml_decoder
    \<Rightarrow> ('d, 'o) document_decoder \<Rightarrow> 'x \<Rightarrow> 't \<Rightarrow> ('f, 'o, 'z, 'p) go_error option \<times> 't" where
  "DecodeContext Y D dd ctx v = decodeNode Y D dd ctx v"

definition Decode ::
  "('f, 'd, 'n, 'y, 'v) yaml_lib \<Rightarrow> ('o, 'x, 'n, 'a, 't, ('f, 'o, 'z, 'p) go_error) yaml_decoder
    \<Rightarrow> ('d, 'o) document_decoder \<Rightarrow> 't \<Rightarrow> ('f, 'o, 'z, 'p) go_error option \<times> 't" where
  "Decode Y D dd v = DecodeContext Y D dd (yd_Background D) v"

record ('a, 't, 'e) target_hooks =
  th_ValidateSchema :: "('a \<Rightarrow> 't \<Rightarrow> 'e option \<times> 't) option"
  th_Validate :: "('t \<Rightarrow> 'e option \<times> 't) option"

definition UnmarshalContext ::
  "('f, 'd, 'n, 'y, 'v) yaml_lib \<Rightarrow> ('o, 'x, 'n, 'a, 't, ('f, 'o, 'z, 'p) go_error) yaml_decoder
    \<Rightarrow> ('a, 't, ('f, 'o, 'z, 'p) go_error) target_hooks \<Rightarrow> ('d, 'o) document_decoder \<Rightarrow> 'x \<Rightarrow> 't
    \<Rightarrow> ('f, 'o, 'z, 'p) go_error option \<times> 't" where
  "UnmarshalContext Y D H dd ctx v =
     (case (case th_ValidateSchema H of Some sv \<Rightarrow> ValidateSchemaContext Y D dd ctx sv v | None \<Rightarrow> (None, v)) of
        (Some err, v1) \<Rightarrow> (Some err, v1)
      | (None, v1) \<Rightarrow> (case DecodeContext Y D dd ctx v1 of
          (Some err, v2) \<Rightarrow> (Some err, v2)
        | (None, v2) \<Rightarrow> (case th_Validate H of Some validate \<Rightarrow> validate v2 | None \<Rightarrow> (None, v2))))"

definition Unmarshal ::
  "('f, 'd, 'n, 'y, 'v) yaml_lib \<Rightarrow> ('o, 'x, 'n, 'a, 't, ('f, 'o, 'z, 'p) go_error) yaml_decoder
    \<Rightarrow> ('a, 't, ('f, 'o, 'z, 'p) go_error) target_hooks \<Rightarrow> ('d, 'o) document_decoder \<Rightarrow> 't
    \<Rightarrow> ('f, 'o, 'z, 'p) go_error option \<times> 't" where
  "Unmarshal Y D H dd v = UnmarshalContext Y D H dd (yd_Background D) v"

section \<open>Splitting while scanning\<close>

text \<open>\<open>scan\<close> gives the tokens of one call of \<open>Scan\<close>, whether it reported \<open>io.EOF\<close>, and the scanner
  after it. The configuration is the flag \<open>resetPositions\<close>.\<close>

definition WithResetPositions :: "bool \<Rightarrow> bool" where
  "WithResetPositions cfg = True"

definition yieldDoc :: "adder \<Rightarrow> bool \<Rightarrow> nat \<Rightarrow> token list \<Rightarrow> nat \<times> token list" where
  "yieldDoc add reset docIdx doc = (docIdx, if reset then CloneWithResetPositions add doc else doc)"

definition tokenize_step ::
  "adder \<Rightarrow> bool \<Rightarrow> (nat \<times> token list) list \<times> nat \<times> token list \<Rightarrow> token
    \<Rightarrow> (nat \<times> token list) list \<times> nat \<times> token list" where
  "tokenize_step add reset = (\<lambda>(out, docIdx, current) tk.
     if tk_type tk = DocumentHeaderType \<and> length current > 0
     then (out @ [yieldDoc add reset docIdx current], Suc docIdx, add [] tk)
     else (out, docIdx, add current tk))"

partial_function (option) tokenize_loop ::
  "adder \<Rightarrow> ('s \<Rightarrow> token list \<times> bool \<times> 's) \<Rightarrow> bool \<Rightarrow> (nat \<times> token list) list \<times> nat \<times> token list \<Rightarrow> 's
    \<Rightarrow> (nat \<times> token list) list option" where
  "tokenize_loop add scan reset st s = (case scan s of (subTokens, eof, s') \<Rightarrow>
     if eof then (case st of (out, docIdx, current) \<Rightarrow>
       Some (if length current > 0 then out @ [yieldDoc add reset docIdx current] else out))
     else tokenize_loop add scan reset (foldl (tokenize_step add reset) st subTokens) s')"

definition TokenizeDocuments ::
  "adder \<Rightarrow> ('s \<Rightarrow> token list \<times> bool \<times> 's) \<Rightarrow> (string \<Rightarrow> 's) \<Rightarrow> string \<Rightarrow> (bool \<Rightarrow> bool) list
    \<Rightarrow> (nat \<times> token list) list option" where
  "TokenizeDocuments add scan init src opts =
     tokenize_loop add scan (foldl (\<lambda>cfg opt. opt cfg) False opts) ([], 0, []) (init src)"

end
