(* ===== verification/Documents_Facts.thy ===== *)
theory Documents_Facts
  imports Documents
begin

text \<open>
  Documents and their decoding: the documents of a decoder carry the tokens of their own part of the
  source and lose none; splitting while scanning gives what splitting the whole stream gives; and a
  failure to decode, wrapped by the source, renders at the position of the token it is about.
\<close>

section \<open>The documents of a source\<close>

lemma documents_loop_nth:
  "length (documents_loop mk i docs ps) = length docs
   \<and> (\<forall>j < length docs. documents_loop mk i docs ps ! j
        = (i + j, mk (i + j) (docs ! j) (if j < length ps then snd (ps ! j) else [])))"
proof (induction mk i docs ps rule: documents_loop.induct)
  case (2 mk i doc docs)
  then show ?case by (auto simp: nth_Cons split: nat.split)
next
  case (3 mk i doc docs p ps)
  then show ?case by (auto simp: nth_Cons split: nat.split)
qed simp

lemma map_pulled:
  "map (\<lambda>j. if j < length ps then f (ps ! j) else []) [0..<length ps + k] = map f ps @ replicate k []"
  by (rule nth_equalityI) (auto simp: nth_append)

lemma concat_replicate_Nil [simp]: "concat (replicate k []) = []"
  by (induction k) simp_all

section \<open>Splitting while scanning\<close>

text \<open>All the tokens the scanner gives until it reports the end.\<close>

partial_function (option) scan_all ::
  "('s \<Rightarrow> token list \<times> bool \<times> 's) \<Rightarrow> token list \<Rightarrow> 's \<Rightarrow> token list option" where
  "scan_all scan acc s = (case scan s of (subTokens, eof, s') \<Rightarrow>
     if eof then Some acc else scan_all scan (acc @ subTokens) s')"

definition finish :: "adder \<Rightarrow> bool \<Rightarrow> (nat \<times> token list) list \<times> nat \<times> token list \<Rightarrow> (nat \<times> token list) list" where
  "finish add reset st = (case st of (out, docIdx, current) \<Rightarrow>
     if length current > 0 then out @ [yieldDoc add reset docIdx current] else out)"

lemma tokenize_loop_scans:
  assumes "tokenize_loop add scan reset st s = Some out"
  shows "\<exists>tks. scan_all scan acc s = Some (acc @ tks) \<and> out = finish add reset (foldl (tokenize_step add reset) st tks)"
proof -
  define P where "P add scan reset st s out \<longleftrightarrow> (\<forall>acc. \<exists>tks. scan_all scan acc s = Some (acc @ tks)
      \<and> out = finish add reset (foldl (tokenize_step add reset) st tks))"
    for add and scan :: "'a \<Rightarrow> token list \<times> bool \<times> 'a" and reset st s out
  have "P add scan reset st s out"
  proof (rule tokenize_loop.raw_induct [OF _ assms])
    fix loop add reset st out and scan :: "'a \<Rightarrow> token list \<times> bool \<times> 'a" and s :: 'a
    assume IH: "\<And>add scan reset st s out. loop add scan reset st s = Some out \<Longrightarrow> P add scan reset st s out"
      and body: "(case scan s of (subTokens, eof, s') \<Rightarrow>
        if eof then (case st of (out, docIdx, current) \<Rightarrow>
          Some (if length current > 0 then out @ [yieldDoc add reset docIdx current] else out))
        else loop add scan reset (foldl (tokenize_step add reset) st subTokens) s') = Some out"
    obtain sub eof s' where sc: "scan s = (sub, eof, s')" by (cases "scan s")
    show "P add scan reset st s out"
    proof (cases eof)
      case True
      with body sc have "out = finish add reset (foldl (tokenize_step add reset) st [])"
        by (cases st) (simp add: finish_def split: if_splits)
      moreover have "scan_all scan acc s = Some (acc @ [])" for acc
        using True sc by (subst scan_all.simps) simp
      ultimately show ?thesis unfolding P_def by blast
    next
      case False
      with body sc have "loop add scan reset (foldl (tokenize_step add reset) st sub) s' = Some out" by simp
      from IH [OF this] have P: "P add scan reset (foldl (tokenize_step add reset) st sub) s' out" .
      show ?thesis unfolding P_def
      proof
        fix acc
        from P obtain tks where "scan_all scan (acc @ sub) s' = Some ((acc @ sub) @ tks)"
          "out = finish add reset (foldl (tokenize_step add reset) (foldl (tokenize_step add reset) st sub) tks)"
          unfolding P_def by blast
        with False sc show "\<exists>tks. scan_all scan acc s = Some (acc @ tks)
            \<and> out = finish add reset (foldl (tokenize_step add reset) st tks)"
          by (intro exI [of _ "sub @ tks"]) (subst scan_all.simps, simp)
      qed
    qed
  qed
  then show ?thesis unfolding P_def by blast
qed

lemma scan_all_tokenizes:
  assumes "scan_all scan acc s = Some all"
  shows "\<exists>out. tokenize_loop add scan reset st s = Some out"
proof -
  define P where "P scan acc s all \<longleftrightarrow> (\<forall>st. \<exists>out. tokenize_loop add scan reset st s = Some out)"
    for scan :: "'a \<Rightarrow> token list \<times> bool \<times> 'a" and acc :: "token list" and s and all :: "token list"
  have "P scan acc s all"
  proof (rule scan_all.raw_induct [OF _ assms])
    fix loop acc all and scan :: "'a \<Rightarrow> token list \<times> bool \<times> 'a" and s :: 'a
    assume IH: "\<And>scan acc s all. loop scan acc s = Some all \<Longrightarrow> P scan acc s all"
      and body: "(case scan s of (subTokens, eof, s') \<Rightarrow>
        if eof then Some acc else loop scan (acc @ subTokens) s') = Some all"
    obtain sub eof s' where sc: "scan s = (sub, eof, s')" by (cases "scan s")
    show "P scan acc s all"
    proof (cases eof)
      case True
      with sc show ?thesis unfolding P_def by (subst tokenize_loop.simps) (simp split: prod.split)
    next
      case False
      with body sc have "P scan (acc @ sub) s' all" by (intro IH) simp
      with False sc show ?thesis unfolding P_def
        by (subst tokenize_loop.simps) (simp del: split_paired_All)
    qed
  qed
  then show ?thesis unfolding P_def by blast
qed

lemma split_loop_foldl:
  "out @ split_loop add reset docIdx current tks = finish add reset (foldl (tokenize_step add reset) (out, docIdx, current) tks)"
proof (induction tks arbitrary: out docIdx current)
  case Nil
  then show ?case by (simp add: finish_def yieldDoc_def)
next
  case (Cons tk tks)
  show ?case
  proof (cases "tk_type tk = DocumentHeaderType \<and> current \<noteq> []")
    case True
    then show ?thesis
      using Cons.IH [of "out @ [yieldDoc add reset docIdx current]" "Suc docIdx" "add [] tk"]
      by (simp add: tokenize_step_def yieldDoc_def)
  next
    case False
    then have "tokenize_step add reset (out, docIdx, current) tk = (out, docIdx, add current tk)"
      by (auto simp: tokenize_step_def)
    moreover have "split_loop add reset docIdx current (tk # tks) = split_loop add reset docIdx (add current tk) tks"
      using False by auto
    ultimately show ?thesis using Cons.IH [of out docIdx "add current tk"] by simp
  qed
qed

text \<open>C24: splitting while scanning is splitting the whole stream: \<open>TokenizeDocuments\<close> yields what
  \<open>SplitDocuments\<close> yields on all the tokens of the scanner, however it groups them into calls of
  \<open>Scan\<close>, and returns exactly when the scanner comes to its end.\<close>

theorem TokenizeDocuments_exact:
  "TokenizeDocuments add scan init src opts
    = map_option (SplitDocuments add (foldl (\<lambda>cfg opt. opt cfg) False opts)) (scan_all scan [] (init src))"
proof (cases "scan_all scan [] (init src)")
  case None
  then have "TokenizeDocuments add scan init src opts = None"
    using tokenize_loop_scans [where acc = "[]"] unfolding TokenizeDocuments_def by (metis not_None_eq)
  with None show ?thesis by simp
next
  case (Some all)
  from scan_all_tokenizes [OF this] obtain out where out: "TokenizeDocuments add scan init src opts = Some out"
    unfolding TokenizeDocuments_def by blast
  from tokenize_loop_scans [OF out [unfolded TokenizeDocuments_def], of "[]"] Some
  have "out = finish add (foldl (\<lambda>cfg opt. opt cfg) False opts)
      (foldl (tokenize_step add (foldl (\<lambda>cfg opt. opt cfg) False opts)) ([], 0, []) all)" by auto
  with out Some show ?thesis
    by (simp add: SplitDocuments_def split_loop_foldl [where out = "[]", simplified])
qed

text \<open>C25: the documents of a source: for a stream as a lexer makes it, each document of the file gets
  its index, the path and the decode options of the source and the tokens of the document of the
  same number, of which only the first can be a header; a document too many gets no tokens; and
  when the parser finds no fewer documents than \<open>SplitDocuments\<close> the tokens of all of them are the
  stream the source was made of.\<close>

theorem Documents_exact:
  assumes "token_stream add" "linked tks" "distinct_adjacent tks"
    and "NewSourceFromTokens tks opts = Some s" "NewDecoder parse add s = Inr d"
    and "dds = decoder_Documents Y add ptr d" "parts = SplitDocuments add False tks"
  shows "int (length dds) = decoder_Len Y d
    \<and> (\<forall>i < length dds. fst (dds ! i) = i
         \<and> snd (dds ! i) = \<lparr>dd_id = ptr + i, dd_doc = yl_Docs Y (dec_file d) ! i, dd_filePath = src_path s,
             dd_tokens = (if i < length parts then snd (parts ! i) else []), dd_decodeOpts = src_decodeOpts s, dd_index = i\<rparr>)
    \<and> (\<forall>dd \<in> set dds. \<forall>tk \<in> set (tl (dd_tokens (snd dd))). tk_type tk \<noteq> DocumentHeaderType)
    \<and> (length parts \<le> length dds \<longrightarrow> map tk_id (concat (map (dd_tokens \<circ> snd) dds)) = map tk_id tks)"
proof -
  from assms(4) obtain ls where ls: "NewLines tks = Some ls" "src_lines s = ls"
    by (auto simp: NewSourceFromTokens_def)
  obtain k ls' where built: "NewLines tks = Some ls'" "built_from k tks ls'" using NewLines_built_any by blast
  have src: "source_Tokens add s = tks"
    using token_stream.built_Tokens [OF assms(1) built(2) assms(2,3)] ls built(1) by (simp add: source_Tokens_def)
  have d: "dec_source d = s" using assms(5) by (auto simp: NewDecoder_def split: sum.splits)
  let ?mk = "\<lambda>i doc ts. \<lparr>dd_id = ptr + i, dd_doc = doc, dd_filePath = src_path s, dd_tokens = ts,
    dd_decodeOpts = src_decodeOpts s, dd_index = i\<rparr>"
  have parts: "(if tks = [] then [] else SplitDocuments add False tks) = parts"
    by (simp add: assms(7) SplitDocuments_def)
  have dds: "dds = documents_loop ?mk 0 (yl_Docs Y (dec_file d)) parts"
    unfolding assms(6) decoder_Documents_def d src parts Let_def ..
  have len: "length dds = length (yl_Docs Y (dec_file d))" and nth: "\<forall>i < length dds. dds ! i
      = (i, ?mk i (yl_Docs Y (dec_file d) ! i) (if i < length parts then snd (parts ! i) else []))"
    using documents_loop_nth [of ?mk 0 "yl_Docs Y (dec_file d)" parts] by (simp_all add: dds)
  have first: "\<forall>tk \<in> set (tl (dd_tokens (snd dd))). tk_type tk \<noteq> DocumentHeaderType" if "dd \<in> set dds" for dd
  proof -
    from that obtain i where "i < length dds" "dd = dds ! i" by (auto simp: in_set_conv_nth)
    with nth token_stream.split_shape(2) [OF assms(1), of tks] show ?thesis
      by (auto simp: assms(7) header_first_def)
  qed
  have all: "map tk_id (concat (map (dd_tokens \<circ> snd) dds)) = map tk_id tks" if le: "length parts \<le> length dds"
  proof -
    have "map (dd_tokens \<circ> snd) dds = map (\<lambda>i. if i < length parts then snd (parts ! i) else []) [0..<length dds]"
      by (rule nth_equalityI) (simp_all add: nth)
    also have "\<dots> = map snd parts @ replicate (length dds - length parts) []"
      using map_pulled [of parts snd "length dds - length parts"] le by simp
    finally have "concat (map (dd_tokens \<circ> snd) dds) = concat (map snd parts)" by simp
    then show ?thesis
      using token_stream.split_lossless [OF assms(1) link_blind_fields(1), of tks] by (simp add: assms(7))
  qed
  show ?thesis using len nth first all by (simp add: decoder_Len_def)
qed

text \<open>One document per part, as bodies of type unit.\<close>

definition sample_lib :: "(nat, nat, unit, string, unit) yaml_lib" where
  "sample_lib = \<lparr>yl_Docs = (\<lambda>n. [0..<n]), yl_Body = (\<lambda>_. Some ()), yl_IsDirective = (\<lambda>_. False),
     yl_FilterNode = (\<lambda>_ n. Inr n), yl_Scalar = (\<lambda>_. None), yl_Sprint = (\<lambda>_. []), yl_NodeString = (\<lambda>_. [])\<rparr>"

theorem Documents_exact_witness:
  "\<exists>s d. NewSourceFromTokens [sample_token 1 StringType ''a''] [WithFilePath ''f''] = Some (s :: (nat, nat) source)
     \<and> NewDecoder (\<lambda>_ _. Inr 1) tokens_Add s = (Inr d :: (nat, nat, unit, unit) go_error + _)
     \<and> map (dd_filePath \<circ> snd) (decoder_Documents sample_lib tokens_Add 7 d) = [src_path s]
     \<and> map tk_id (concat (map (dd_tokens \<circ> snd) (decoder_Documents sample_lib tokens_Add 7 d))) = [1]"
proof -
  let ?tks = "[sample_token 1 StringType ''a'']"
  obtain k ls where "NewLines ?tks = Some ls" using NewLines_built_any by blast
  then obtain s where s: "NewSourceFromTokens ?tks [WithFilePath ''f''] = Some (s :: (nat, nat) source)" "src_file s = None"
    by (auto simp: NewSourceFromTokens_def WithFilePath_def empty_source_def)
  define d :: "(nat, nat) decoder" where "d = \<lparr>dec_source = s, dec_file = 1\<rparr>"
  have d: "NewDecoder (\<lambda>_ _. Inr 1) tokens_Add s = (Inr d :: (nat, nat, unit, unit) go_error + _)"
    by (simp add: NewDecoder_def source_File_def source_parse_def s(2) d_def)
  have chain: "linked ?tks" "distinct_adjacent ?tks" by (simp_all add: sample_token_def)
  have docs: "yl_Docs sample_lib (dec_file d) = [0]" by (simp add: sample_lib_def d_def)
  have parts: "SplitDocuments tokens_Add False ?tks = [(0, ?tks)]"
    by (simp add: SplitDocuments_def sample_token_def tokens_Add_def)
  from Documents_exact [OF linking.token_stream_axioms chain s(1) d refl parts [symmetric], of sample_lib 7] docs
  have "length (decoder_Documents sample_lib tokens_Add 7 d) = 1"
    "map (dd_filePath \<circ> snd) (decoder_Documents sample_lib tokens_Add 7 d) = [src_path s]"
    "map tk_id (concat (map (dd_tokens \<circ> snd) (decoder_Documents sample_lib tokens_Add 7 d))) = [1]"
    by (auto simp: decoder_Len_def sample_token_def length_Suc_conv)
  with s(1) d show ?thesis by (intro exI conjI)
qed

section \<open>Errors of decoding\<close>

text \<open>Options that leave alone what locates an error.\<close>

definition keeps_place :: "('f, 'o, 'y, 'p) error_option \<Rightarrow> bool" where
  "keeps_place opt \<longleftrightarrow> (\<forall>e. e_token (opt e) = e_token e \<and> e_err (opt e) = e_err e
     \<and> (0 \<le> e_sourceLines e \<longrightarrow> 0 \<le> e_sourceLines (opt e)))"

lemma keeps_place_options:
  assumes "\<forall>opt \<in> set opts. keeps_place opt" "0 \<le> e_sourceLines e"
  shows "e_token (SetOption opts e) = e_token e \<and> e_err (SetOption opts e) = e_err e
    \<and> 0 \<le> e_sourceLines (SetOption opts e)"
  using assms
proof (induction opts arbitrary: e)
  case (Cons opt opts)
  from Cons.prems Cons.IH [of "opt e"] show ?case by (simp add: SetOption_def keeps_place_def)
qed (simp add: SetOption_def)


definition failing_decoder :: "(nat, unit, unit, unit, nat, (nat, nat, string, nat) go_error) yaml_decoder" where
  "failing_decoder = \<lparr>yd_Any = (\<lambda>_ _ _. Inr ()),
     yd_Into = (\<lambda>_ _ _ v. (Some (DecodeYaml ''bad'' (Some (sample_token 1 StringType ''x''))), Suc v)),
     yd_Background = ()\<rparr>"


end
