(* ===== verification/Filepaths.thy ===== *)
theory Filepaths
  imports Go_Strings "HOL-Library.Char_ord" "HOL-Library.List_Lexorder"
begin

text \<open>
  Package \<open>internal/filepaths\<close>: glob patterns for paths and their expansion. The glob library is a
  parameter: \<open>valid\<close> says whether a pattern is well formed, \<open>glob_match\<close> matches one against a path
  and gives \<open>None\<close> for a malformed one, \<open>glob\<close> lists the files that match. The functions of
  Go's \<open>path/filepath\<close> that the program calls are modelled for Unix, where \<open>ToSlash\<close> changes
  nothing; like the rest of the standard library they carry no source mapping.
\<close>

section \<open>Paths\<close>

fun split_char :: "char \<Rightarrow> string \<Rightarrow> string list" where
  "split_char c [] = [[]]"
| "split_char c (x # xs) = (if x = c then [] # split_char c xs
     else (case split_char c xs of [] \<Rightarrow> [[x]] | y # ys \<Rightarrow> (x # y) # ys))"

abbreviation slash :: char where "slash \<equiv> CHR ''/''"

text \<open>\<open>Clean\<close> keeps the elements of the result on a stack, the last one first.\<close>

definition clean_step :: "bool \<Rightarrow> string list \<Rightarrow> string \<Rightarrow> string list" where
  "clean_step rooted stack e =
     (if e = [] \<or> e = ''.'' then stack
      else if e = ''..'' then
        (case stack of
           [] \<Rightarrow> if rooted then [] else [''..'']
         | t # ts \<Rightarrow> if t = ''..'' then ''..'' # stack else ts)
      else e # stack)"

definition fp_Clean :: "string \<Rightarrow> string" where
  "fp_Clean path =
     (if path = [] then ''.''
      else let rooted = (hd path = slash);
               body = join [slash] (rev (foldl (clean_step rooted) [] (split_char slash path)))
        in if rooted then slash # body else if body = [] then ''.'' else body)"

definition fp_Join :: "string \<Rightarrow> string \<Rightarrow> string" where
  "fp_Join a b =
     (if a \<noteq> [] then fp_Clean (a @ [slash] @ b) else if b \<noteq> [] then fp_Clean b else [])"

definition fp_IsAbs :: "string \<Rightarrow> bool" where
  "fp_IsAbs path \<longleftrightarrow> has_prefix path [slash]"

definition fp_Dir :: "string \<Rightarrow> string" where
  "fp_Dir path = fp_Clean (rev (dropWhile (\<lambda>c. c \<noteq> slash) (rev path)))"

definition fp_Base :: "string \<Rightarrow> string" where
  "fp_Base path =
     (if path = [] then ''.''
      else let stripped = rev (dropWhile (\<lambda>c. c = slash) (rev path));
               base = rev (takeWhile (\<lambda>c. c \<noteq> slash) (rev stripped))
        in if base = [] then [slash] else base)"

section \<open>Patterns\<close>

record pattern =
  pat_raw :: string

text \<open>\<open>None\<close> is \<open>ErrInvalidPattern\<close>, or the panic of \<open>MustPattern\<close>.\<close>

definition NewPattern :: "(string \<Rightarrow> bool) \<Rightarrow> string \<Rightarrow> pattern option" where
  "NewPattern valid p = (if \<not> valid p then None else Some \<lparr>pat_raw = p\<rparr>)"

definition MustPattern :: "(string \<Rightarrow> bool) \<Rightarrow> string \<Rightarrow> pattern option" where
  "MustPattern valid p = (case NewPattern valid p of None \<Rightarrow> None | Some x \<Rightarrow> Some x)"

definition pattern_Match :: "(string \<Rightarrow> string \<Rightarrow> bool option) \<Rightarrow> pattern \<Rightarrow> string \<Rightarrow> bool" where
  "pattern_Match glob_match p path =
     (if pat_raw p = [] \<or> path = [] then False
      else (case glob_match (pat_raw p) path of Some matched \<Rightarrow> matched | None \<Rightarrow> False))"

definition pattern_String :: "pattern \<Rightarrow> string" where
  "pattern_String p = pat_raw p"

definition MatchAnyWithBase :: "(string \<Rightarrow> string \<Rightarrow> bool option) \<Rightarrow> string \<Rightarrow> string list \<Rightarrow> bool" where
  "MatchAnyWithBase glob_match path patterns =
     (if path = [] then False
      else list_ex (\<lambda>p. glob_match p (fp_Base path) = Some True \<or> glob_match p path = Some True) patterns)"

section \<open>Expansion\<close>

definition Glob :: "(string \<Rightarrow> string + string list) \<Rightarrow> string \<Rightarrow> string + string list" where
  "Glob glob p = (case glob p of
     Inl err \<Rightarrow> Inl (''glob '' @ p @ '': '' @ err) | Inr matches \<Rightarrow> Inr matches)"

definition ContainsGlobChars :: "string \<Rightarrow> bool" where
  "ContainsGlobChars s \<longleftrightarrow> list_ex (\<lambda>c. c \<in> set ''*?['') s"

fun expand_loop :: "(string \<Rightarrow> string + string list) \<Rightarrow> string list \<Rightarrow> string list \<Rightarrow> string + string list" where
  "expand_loop glob result [] = Inr result"
| "expand_loop glob result (p # ps) =
     (if \<not> ContainsGlobChars p then expand_loop glob (result @ [p]) ps
      else (case Glob glob p of
          Inl err \<Rightarrow> Inl err
        | Inr matches \<Rightarrow> expand_loop glob (result @ matches) ps))"

definition filepaths_Expand :: "(string \<Rightarrow> string + string list) \<Rightarrow> string list \<Rightarrow> string + string list" where
  "filepaths_Expand glob paths = (case expand_loop glob [] paths of
     Inl err \<Rightarrow> Inl err | Inr result \<Rightarrow> Inr (sort result))"

section \<open>Facts\<close>

lemma fp_examples:
  "fp_Clean ''a/../b//./c/..'' = ''b''" "fp_Clean ''/../a'' = ''/a''" "fp_Clean ''../../a/..'' = ''../..''"
  "fp_Join ''/configs'' ''../schema.json'' = ''/schema.json''" "fp_Dir ''a/b/c.yaml'' = ''a/b''"
  "fp_Dir ''c.yaml'' = ''.''" "fp_Base ''a/b/c.yaml'' = ''c.yaml''" "fp_Base ''/'' = ''/''"
  by code_simp+

text \<open>A pattern without matches expands to nothing; it is no error.\<close>

lemma Expand_no_match: "filepaths_Expand (\<lambda>_. Inr []) [''*.json''] = Inr []"
  by code_simp

lemma expand_loop_sound:
  "expand_loop glob result paths = Inr out
    \<Longrightarrow> \<exists>parts. out = result @ concat parts
        \<and> list_all2 (\<lambda>p part. if ContainsGlobChars p then glob p = Inr part else part = [p]) paths parts"
proof (induction glob result paths rule: expand_loop.induct)
  case (2 glob result p ps)
  show ?case
  proof (cases "ContainsGlobChars p")
    case False
    with "2.IH"(1) "2.prems" obtain parts where "out = (result @ [p]) @ concat parts"
      "list_all2 (\<lambda>p part. if ContainsGlobChars p then glob p = Inr part else part = [p]) ps parts" by auto
    with False show ?thesis by (intro exI [of _ "[p] # parts"]) simp
  next
    case True
    with "2.prems" obtain ms where ms: "glob p = Inr ms" by (auto simp: Glob_def split: sum.splits)
    with True "2.IH"(2) [of ms] "2.prems" obtain parts where "out = (result @ ms) @ concat parts"
      "list_all2 (\<lambda>p part. if ContainsGlobChars p then glob p = Inr part else part = [p]) ps parts"
      by (auto simp: Glob_def)
    with True ms show ?thesis by (intro exI [of _ "ms # parts"]) simp
  qed
qed simp

end
