(* ===== verification/Schemas.thy ===== *)
theory Schemas
  imports Documents Filepaths
begin

text \<open>
  Package \<open>schema\<close> with \<open>matcher\<close> and \<open>loader\<close>: schema directives in comments, validators that turn
  the failures of the JSON schema library into errors with paths, matchers that choose documents and
  loaders that fetch schemas. The JSON schema library is the parameter \<open>js_Validate\<close>. Files, the
  network and the clock are a world of type \<open>'w\<close> behind the record \<open>environment\<close>; whatever may
  touch it takes the world and returns the one it leaves. A client is never nil. \<open>None\<close> as the
  result of a matcher, a loader or a constructor is a panic.
\<close>

section \<open>Directives\<close>

record directive =
  dir_Position :: "token_position option"
  dir_Schema :: string

text \<open>The expression \<open>yaml-language-server:\s*\$schema=(.+)\<close> at one place: white space is skipped
  greedily, which cannot fail later since a dollar is none, and the group runs to the end of the line.\<close>

definition regexp_space :: "char set" where
  "regexp_space = {TAB, LF, CHR 0x0C, CR, SP}"

definition regexp_head :: string where
  "regexp_head = ''yaml-language-server:''"

definition regexp_assign :: string where
  "regexp_assign = ''$schema=''"

definition schemaDirective_at :: "string \<Rightarrow> string option" where
  "schemaDirective_at s =
     (if has_prefix s regexp_head then
        let rest = dropWhile (\<lambda>c. c \<in> regexp_space) (drop (length regexp_head) s) in
        if has_prefix rest regexp_assign then
          let ref = takeWhile (\<lambda>c. c \<noteq> LF) (drop (length regexp_assign) rest) in
          if ref = [] then None else Some ref
        else None
      else None)"

text \<open>\<open>FindStringSubmatch\<close>: the leftmost match.\<close>

fun schemaDirectiveRE :: "string \<Rightarrow> string option" where
  "schemaDirectiveRE [] = None"
| "schemaDirectiveRE (c # s) = (case schemaDirective_at (c # s) of
     Some ref \<Rightarrow> Some ref | None \<Rightarrow> schemaDirectiveRE s)"

definition ParseDirective :: "string \<Rightarrow> directive option" where
  "ParseDirective comment = (case schemaDirectiveRE comment of
     None \<Rightarrow> None | Some ref \<Rightarrow> Some \<lparr>dir_Position = None, dir_Schema = ref\<rparr>)"

fun ParseDocumentDirective :: "token list \<Rightarrow> directive option" where
  "ParseDocumentDirective [] = None"
| "ParseDocumentDirective (tk # tks) =
     (if tk_type tk = DocumentHeaderType then ParseDocumentDirective tks
      else if tk_type tk = CommentType then
        (case ParseDirective (tk_value tk) of
           Some d \<Rightarrow> Some (d\<lparr>dir_Position := tk_pos tk\<rparr>)
         | None \<Rightarrow> ParseDocumentDirective tks)
      else None)"

definition ParseDocumentDirectives :: "adder \<Rightarrow> token list \<Rightarrow> nat \<rightharpoonup> directive" where
  "ParseDocumentDirectives add tks =
     foldl (\<lambda>directives (docIdx, docTokens). case ParseDocumentDirective docTokens of
         Some d \<Rightarrow> directives(docIdx \<mapsto> d) | None \<Rightarrow> directives)
       Map.empty (SplitDocuments add False tks)"

section \<open>Validators\<close>

datatype segment_ref = IndexSegment int | KeySegment string

record leaf =
  leaf_Message :: string
  leaf_Segments :: "segment_ref list"
  leaf_TargetsKey :: bool

record validation_error =
  ve_Message :: string
  ve_Leaves :: "leaf list"

datatype validation_outcome = Conforms | Violates validation_error | ValidateFailed string

definition buildTargetPath ::
  "('pb, 'y, 'f, 'n) path_lib \<Rightarrow> segment_ref list \<Rightarrow> bool \<Rightarrow> 'y path" where
  "buildTargetPath L segments targetsKey =
     (let builder = foldl (\<lambda>b seg. case seg of IndexSegment i \<Rightarrow> Index L [i] b | KeySegment k \<Rightarrow> Child L [k] b)
            (Root L) segments
      in if targetsKey then builder_Key L builder else builder_Value L builder)"

definition leaf_cause :: "('pb, 'y, 'f, 'n) path_lib \<Rightarrow> leaf \<Rightarrow> ('f, 'o, 'y, 'p) yaml_error" where
  "leaf_cause L leaf =
     NewError (leaf_Message leaf) [WithPath (Some (buildTargetPath L (leaf_Segments leaf) (leaf_TargetsKey leaf)))]"

definition newValidationError ::
  "('pb, 'y, 'f, 'n) path_lib \<Rightarrow> validation_error \<Rightarrow> ('f, 'o, 'y, 'p) yaml_error" where
  "newValidationError L ve =
     (let leaves = ve_Leaves ve;
          mainMsg = (case leaves of
              [] \<Rightarrow> ve_Message ve
            | [l] \<Rightarrow> leaf_Message l
            | _ \<Rightarrow> ''validation failed at '' @ itoa (int (length leaves)) @ '' locations'');
          causes = map (\<lambda>l. Some (error_core.truncate (leaf_cause L l :: ('f, 'o, 'y, 'p) yaml_error))) leaves
      in NewError mainMsg [WithErrors causes])"

text \<open>A validator is one that \<open>NewValidator\<close> makes of a compiled schema, or another implementation
  of the interface, called through \<open>custom\<close>.\<close>

datatype ('j, 'u) schema_validator = Compiled 'j | CustomValidator 'u

definition NewValidator :: "'j \<Rightarrow> ('j, 'u) schema_validator" where
  "NewValidator v = Compiled v"

definition ErrValidate :: string where
  "ErrValidate = ''validate schema''"

definition validator_ValidateSchema ::
  "('pb, 'y, 'f, 'n) path_lib \<Rightarrow> ('j \<Rightarrow> 'a \<Rightarrow> validation_outcome) \<Rightarrow> 'j \<Rightarrow> 'a
    \<Rightarrow> ('f, 'o, 'y, 'p) go_error option" where
  "validator_ValidateSchema L js_Validate schema data = (case js_Validate schema data of
     Conforms \<Rightarrow> None
   | Violates ve \<Rightarrow> (let e = newValidationError L ve in Some (GoError (the (e_err e)) (Some e) []))
   | ValidateFailed msg \<Rightarrow> Some (GoError (ErrValidate @ '': '' @ msg) None [GoError ErrValidate None [], GoError msg None []]))"

definition ValidateSchema ::
  "('pb, 'y, 'f, 'n) path_lib \<Rightarrow> ('j \<Rightarrow> 'a \<Rightarrow> validation_outcome)
    \<Rightarrow> ('u \<Rightarrow> 'a \<Rightarrow> ('f, 'o, 'y, 'p) go_error option) \<Rightarrow> ('j, 'u) schema_validator \<Rightarrow> 'a
    \<Rightarrow> ('f, 'o, 'y, 'p) go_error option" where
  "ValidateSchema L js_Validate custom v data = (case v of
     Compiled schema \<Rightarrow> validator_ValidateSchema L js_Validate schema data
   | CustomValidator u \<Rightarrow> custom u data)"

section \<open>Matchers\<close>

text \<open>A matcher takes the context, the document and the world. A nil matcher is \<open>None\<close>.\<close>

type_synonym ('x, 'd, 'o, 'w) matcher = "'x \<Rightarrow> ('d, 'o) document_decoder \<Rightarrow> 'w \<Rightarrow> (bool \<times> 'w) option"

definition matcher_Func :: "('x, 'd, 'o, 'w) matcher \<Rightarrow> ('x, 'd, 'o, 'w) matcher" where
  "matcher_Func f = (\<lambda>ctx doc. f ctx doc)"

definition Always :: "('x, 'd, 'o, 'w) matcher" where
  "Always = matcher_Func (\<lambda>_ _ w. Some (True, w))"

fun all_Match :: "('x, 'd, 'o, 'w) matcher list \<Rightarrow> ('x, 'd, 'o, 'w) matcher" where
  "all_Match [] ctx doc w = Some (True, w)"
| "all_Match (m # ms) ctx doc w = (case m ctx doc w of
     None \<Rightarrow> None
   | Some (matched, w') \<Rightarrow> if \<not> matched then Some (False, w') else all_Match ms ctx doc w')"

fun any_Match :: "('x, 'd, 'o, 'w) matcher list \<Rightarrow> ('x, 'd, 'o, 'w) matcher" where
  "any_Match [] ctx doc w = Some (False, w)"
| "any_Match (m # ms) ctx doc w = (case m ctx doc w of
     None \<Rightarrow> None
   | Some (matched, w') \<Rightarrow> if matched then Some (True, w') else any_Match ms ctx doc w')"

definition All_matchers :: "('x, 'd, 'o, 'w) matcher option list \<Rightarrow> ('x, 'd, 'o, 'w) matcher option" where
  "All_matchers matchers = (if None \<in> set matchers then None else Some (all_Match (map the matchers)))"

definition Any_matchers :: "('x, 'd, 'o, 'w) matcher option list \<Rightarrow> ('x, 'd, 'o, 'w) matcher option" where
  "Any_matchers matchers = (if None \<in> set matchers then None else Some (any_Match (map the matchers)))"

definition content_Match ::
  "('f, 'd, 'n, 'y, 'v) yaml_lib \<Rightarrow> 'y \<Rightarrow> string \<Rightarrow> ('x, 'd, 'o, 'w) matcher" where
  "content_Match Y path value ctx doc w =
     (case GetValue Y doc (Some path) of (v, found) \<Rightarrow> Some (found \<and> v = value, w))"

definition Content ::
  "('f, 'd, 'n, 'y, 'v) yaml_lib \<Rightarrow> 'y option \<Rightarrow> string \<Rightarrow> ('x, 'd, 'o, 'w) matcher option" where
  "Content Y path value = (case path of None \<Rightarrow> None | Some p \<Rightarrow> Some (content_Match Y p value))"

definition exists_Match :: "('f, 'd, 'n, 'y, 'v) yaml_lib \<Rightarrow> 'y \<Rightarrow> ('x, 'd, 'o, 'w) matcher" where
  "exists_Match Y path ctx doc w =
     (case GetValue Y doc (Some path) of (v, found) \<Rightarrow> Some (found \<and> v \<noteq> [], w))"

definition Exists :: "('f, 'd, 'n, 'y, 'v) yaml_lib \<Rightarrow> 'y option \<Rightarrow> ('x, 'd, 'o, 'w) matcher option" where
  "Exists Y path = (case path of None \<Rightarrow> None | Some p \<Rightarrow> Some (exists_Match Y p))"

definition filePath_Match :: "(string \<Rightarrow> string \<Rightarrow> bool option) \<Rightarrow> pattern \<Rightarrow> ('x, 'd, 'o, 'w) matcher" where
  "filePath_Match glob_match p ctx doc w =
     (if dd_filePath doc = [] then Some (False, w) else Some (pattern_Match glob_match p (dd_filePath doc), w))"

definition FilePath :: "(string \<Rightarrow> string \<Rightarrow> bool option) \<Rightarrow> pattern \<Rightarrow> ('x, 'd, 'o, 'w) matcher" where
  "FilePath glob_match p = filePath_Match glob_match p"

section \<open>Loaders\<close>

text \<open>A response has a status and a body: its bytes, then, possibly, an error of reading on.\<close>

datatype http_outcome =
  BadRequest string | FetchFailed string | Response int string "string option"

record ('c, 'x, 'w) environment =
  ev_ReadFile :: "string \<Rightarrow> 'w \<Rightarrow> (string + string) \<times> 'w"
  ev_Get :: "'c \<Rightarrow> 'x \<Rightarrow> string \<Rightarrow> 'w \<Rightarrow> http_outcome \<times> 'w"
  ev_DefaultClient :: 'c
  ev_Now :: "'w \<Rightarrow> int \<times> 'w"
  ev_Done :: "'x \<Rightarrow> 'w \<Rightarrow> bool"
  ev_WithTimeout :: "'x \<Rightarrow> int \<Rightarrow> 'x"

datatype load_error =
  ReadFile string string | CreateRequest string string | Fetch string string | Status string int
| ReadResponse string string | TooLarge string
| NoDirective | NoFilePath | NoCatalogMatch string

record 'v load_result =
  res_Validator :: "'v option"
  res_URL :: string
  res_Data :: string

definition NewResult :: "string \<Rightarrow> string \<Rightarrow> 'v load_result option" where
  "NewResult url data = (if length data = 0 then None
     else Some \<lparr>res_Validator = None, res_URL = url, res_Data = data\<rparr>)"

definition NewResultWithValidator :: "string \<Rightarrow> 'v option \<Rightarrow> 'v load_result option" where
  "NewResultWithValidator url v = (case v of None \<Rightarrow> None
     | Some v \<Rightarrow> Some \<lparr>res_Validator = Some v, res_URL = url, res_Data = []\<rparr>)"

text \<open>The document may be nil.\<close>

type_synonym ('x, 'd, 'o, 'v, 'w) loader =
  "'x \<Rightarrow> ('d, 'o) document_decoder option \<Rightarrow> 'w \<Rightarrow> ((load_error + 'v load_result) \<times> 'w) option"

definition loader_Func :: "('x, 'd, 'o, 'v, 'w) loader \<Rightarrow> ('x, 'd, 'o, 'v, 'w) loader" where
  "loader_Func f = (\<lambda>ctx doc. f ctx doc)"

definition Embedded :: "string \<Rightarrow> string \<Rightarrow> ('x, 'd, 'o, 'v, 'w) loader" where
  "Embedded schemaURL data = loader_Func (\<lambda>_ _ w. map_option (\<lambda>r. (Inr r, w)) (NewResult schemaURL data))"

definition Validator_loader :: "string \<Rightarrow> 'v option \<Rightarrow> ('x, 'd, 'o, 'v, 'w) loader" where
  "Validator_loader schemaURL v = loader_Func (\<lambda>_ _ w. map_option (\<lambda>r. (Inr r, w)) (NewResultWithValidator schemaURL v))"

definition File_loader :: "('c, 'x, 'w) environment \<Rightarrow> string \<Rightarrow> ('x, 'd, 'o, 'v, 'w) loader" where
  "File_loader E path = loader_Func (\<lambda>_ _ w. case ev_ReadFile E path w of
     (Inl err, w') \<Rightarrow> Some (Inl (ReadFile path err), w')
   | (Inr data, w') \<Rightarrow> map_option (\<lambda>r. (Inr r, w')) (NewResult path data))"

definition maxSchemaSize :: nat where
  "maxSchemaSize = 10 * 1024 * 1024"

type_synonym 'c http_option = "'c \<Rightarrow> 'c"

definition loader_WithHTTPClient :: "'c \<Rightarrow> 'c http_option" where
  "loader_WithHTTPClient client cfg = client"

text \<open>\<open>io.ReadAll(io.LimitReader(body, n))\<close>: an error behind the limit is not seen.\<close>

definition read_limited :: "nat \<Rightarrow> string \<Rightarrow> string option \<Rightarrow> string + string" where
  "read_limited n body err =
     (if length body < n then (case err of Some e \<Rightarrow> Inl e | None \<Rightarrow> Inr body) else Inr (take n body))"

definition URL_loader ::
  "('c, 'x, 'w) environment \<Rightarrow> string \<Rightarrow> 'c http_option list \<Rightarrow> ('x, 'd, 'o, 'v, 'w) loader" where
  "URL_loader E schemaURL opts =
     (let client = foldl (\<lambda>cfg opt. opt cfg) (ev_DefaultClient E) opts in
      loader_Func (\<lambda>ctx _ w. case ev_Get E client ctx schemaURL w of
        (BadRequest err, w') \<Rightarrow> Some (Inl (CreateRequest schemaURL err), w')
      | (FetchFailed err, w') \<Rightarrow> Some (Inl (Fetch schemaURL err), w')
      | (Response status body err, w') \<Rightarrow>
          if status \<noteq> 200 then Some (Inl (Status schemaURL status), w')
          else (case read_limited (maxSchemaSize + 1) body err of
              Inl err \<Rightarrow> Some (Inl (ReadResponse schemaURL err), w')
            | Inr data \<Rightarrow>
                if length data > maxSchemaSize then Some (Inl (TooLarge schemaURL), w')
                else map_option (\<lambda>r. (Inr r, w')) (NewResult schemaURL data))))"

definition isHTTPURL :: "string \<Rightarrow> bool" where
  "isHTTPURL ref \<longleftrightarrow> has_prefix ref ''http://'' \<or> has_prefix ref ''https://''"

definition Ref_loader ::
  "('c, 'x, 'w) environment \<Rightarrow> string \<Rightarrow> string \<Rightarrow> 'c http_option list \<Rightarrow> ('x, 'd, 'o, 'v, 'w) loader" where
  "Ref_loader E baseDir schemaRef opts =
     (if isHTTPURL schemaRef then URL_loader E schemaRef opts
      else let path = (if \<not> fp_IsAbs schemaRef then fp_Join baseDir schemaRef else schemaRef)
        in File_loader E path)"

end
