(* ===== verification/Registry.thy ===== *)
theory Registry
  imports Schemas
begin

text \<open>
  Package \<open>schema/registry\<close> with \<open>schemastore\<close>: the registry of schemas and its cache, directives as a
  match loader, and the SchemaStore catalog. The interface \<open>MatchLoader\<close> is a pair of operations on
  objects of type \<open>'m\<close> over the world, in which the objects keep their state; \<open>Cache\<close> is a pair
  of operations on a cache of type \<open>'k\<close>. Compiling a schema is the parameter \<open>compile\<close>. Of the
  contexts the code only asks whether they are done and sets timeouts. Locks are left out: the calls
  of the model are sequential. Times are nanoseconds since the zero time, durations nanoseconds.
\<close>

section \<open>The cache\<close>

record ('k, 'v) cache_ops =
  cache_Get :: "'k \<Rightarrow> string \<Rightarrow> 'v option \<times> 'k"
  cache_Set :: "'k \<Rightarrow> string \<Rightarrow> 'v \<Rightarrow> 'k"

type_synonym 'v map_cache = "string \<rightharpoonup> 'v"

definition newMapCache :: "'v map_cache" where
  "newMapCache = Map.empty"

definition mapCache_Get :: "'v map_cache \<Rightarrow> string \<Rightarrow> 'v option \<times> 'v map_cache" where
  "mapCache_Get c url = (c url, c)"

definition mapCache_Set :: "'v map_cache \<Rightarrow> string \<Rightarrow> 'v \<Rightarrow> 'v map_cache" where
  "mapCache_Set c url v = c(url \<mapsto> v)"

definition mapCache :: "('v map_cache, 'v) cache_ops" where
  "mapCache = \<lparr>cache_Get = mapCache_Get, cache_Set = mapCache_Set\<rparr>"

section \<open>The registry\<close>

record ('m, 'x, 'd, 'o, 'v, 'w) match_loaders =
  ml_Match :: "'m \<Rightarrow> ('x, 'd, 'o, 'w) matcher"
  ml_Load :: "'m \<Rightarrow> ('x, 'd, 'o, 'v, 'w) loader"

record ('k, 'm, 'j) registry =
  rg_cache :: 'k
  rg_matchLoaders :: "'m list"
  rg_validatorOpts :: "'j list"

type_synonym ('k, 'm, 'j) registry_option = "('k, 'm, 'j) registry \<Rightarrow> ('k, 'm, 'j) registry"

definition WithCache :: "'k \<Rightarrow> ('k, 'm, 'j) registry_option" where
  "WithCache c r = r\<lparr>rg_cache := c\<rparr>"

definition WithValidateOptions :: "'j list \<Rightarrow> ('k, 'm, 'j) registry_option" where
  "WithValidateOptions opts r = r\<lparr>rg_validatorOpts := opts\<rparr>"

text \<open>\<open>New\<close> starts with the cache of the given implementation, by default \<open>newMapCache\<close>.\<close>

definition New_registry :: "'k \<Rightarrow> ('k, 'm, 'j) registry_option list \<Rightarrow> ('k, 'm, 'j) registry" where
  "New_registry cache0 opts =
     foldl (\<lambda>r opt. opt r) \<lparr>rg_cache = cache0, rg_matchLoaders = [], rg_validatorOpts = []\<rparr> opts"

definition Register :: "'m \<Rightarrow> ('k, 'm, 'j) registry \<Rightarrow> ('k, 'm, 'j) registry" where
  "Register ml r = r\<lparr>rg_matchLoaders := rg_matchLoaders r @ [ml]\<rparr>"

datatype lookup_error = NoMatch string | Load load_error | Compile string string

definition build_validator ::
  "('x \<Rightarrow> string \<Rightarrow> 'j list \<Rightarrow> string + 's) \<Rightarrow> 'x \<Rightarrow> 'j list \<Rightarrow> ('s, 'u) schema_validator load_result
    \<Rightarrow> lookup_error + ('s, 'u) schema_validator" where
  "build_validator compile ctx opts result = (case res_Validator result of
     Some v \<Rightarrow> Inr v
   | None \<Rightarrow> (case compile ctx (res_Data result) opts of
       Inl err \<Rightarrow> Inl (Compile (res_URL result) err)
     | Inr compiled \<Rightarrow> Inr (NewValidator compiled)))"

definition loadValidator ::
  "('m, 'x, 'd, 'o, ('s, 'u) schema_validator, 'w) match_loaders \<Rightarrow> ('k, ('s, 'u) schema_validator) cache_ops
    \<Rightarrow> ('x \<Rightarrow> string \<Rightarrow> 'j list \<Rightarrow> string + 's) \<Rightarrow> 'x \<Rightarrow> ('d, 'o) document_decoder \<Rightarrow> 'm
    \<Rightarrow> ('k, 'm, 'j) registry \<times> 'w
    \<Rightarrow> ((lookup_error + ('s, 'u) schema_validator) \<times> ('k, 'm, 'j) registry \<times> 'w) option" where
  "loadValidator M C compile ctx doc ml = (\<lambda>(r, w). case ml_Load M ml ctx (Some doc) w of
     None \<Rightarrow> None
   | Some (Inl err, w') \<Rightarrow> Some (Inl (Load err), r, w')
   | Some (Inr result, w') \<Rightarrow> (case cache_Get C (rg_cache r) (res_URL result) of
       (Some v, k) \<Rightarrow> Some (Inr v, r\<lparr>rg_cache := k\<rparr>, w')
     | (None, k) \<Rightarrow> (case build_validator compile ctx (rg_validatorOpts r) result of
         Inl err \<Rightarrow> Some (Inl err, r\<lparr>rg_cache := k\<rparr>, w')
       | Inr v \<Rightarrow> Some (Inr v,
           (if res_URL result \<noteq> [] then r\<lparr>rg_cache := cache_Set C k (res_URL result) v\<rparr> else r\<lparr>rg_cache := k\<rparr>), w'))))"

fun lookup_loop ::
  "('m, 'x, 'd, 'o, ('s, 'u) schema_validator, 'w) match_loaders \<Rightarrow> ('k, ('s, 'u) schema_validator) cache_ops
    \<Rightarrow> ('x \<Rightarrow> string \<Rightarrow> 'j list \<Rightarrow> string + 's) \<Rightarrow> 'x \<Rightarrow> ('d, 'o) document_decoder \<Rightarrow> 'm list
    \<Rightarrow> ('k, 'm, 'j) registry \<times> 'w
    \<Rightarrow> ((lookup_error + ('s, 'u) schema_validator) \<times> ('k, 'm, 'j) registry \<times> 'w) option" where
  "lookup_loop M C compile ctx doc [] (r, w) = Some (Inl (NoMatch (dd_filePath doc)), r, w)"
| "lookup_loop M C compile ctx doc (ml # mls) (r, w) = (case ml_Match M ml ctx doc w of
     None \<Rightarrow> None
   | Some (matched, w') \<Rightarrow> if \<not> matched then lookup_loop M C compile ctx doc mls (r, w')
                     else loadValidator M C compile ctx doc ml (r, w'))"

definition Lookup ::
  "('m, 'x, 'd, 'o, ('s, 'u) schema_validator, 'w) match_loaders \<Rightarrow> ('k, ('s, 'u) schema_validator) cache_ops
    \<Rightarrow> ('x \<Rightarrow> string \<Rightarrow> 'j list \<Rightarrow> string + 's) \<Rightarrow> 'x \<Rightarrow> ('d, 'o) document_decoder
    \<Rightarrow> ('k, 'm, 'j) registry \<times> 'w
    \<Rightarrow> ((lookup_error + ('s, 'u) schema_validator) \<times> ('k, 'm, 'j) registry \<times> 'w) option" where
  "Lookup M C compile ctx doc = (\<lambda>(r, w). lookup_loop M C compile ctx doc (rg_matchLoaders r) (r, w))"

text \<open>\<open>validate\<close> is the dispatch of \<open>ValidateSchema\<close>. The error is that of the lookup, or that of the
  document.\<close>

definition ValidateDocument ::
  "('f, 'd, 'n, 'y, 'z) yaml_lib \<Rightarrow> ('o, 'x, 'n, 'a, 't, ('f, 'o, 'q, 'p) go_error) yaml_decoder
    \<Rightarrow> (('s, 'u) schema_validator \<Rightarrow> 'a \<Rightarrow> ('f, 'o, 'q, 'p) go_error option)
    \<Rightarrow> ('m, 'x, 'd, 'o, ('s, 'u) schema_validator, 'w) match_loaders \<Rightarrow> ('k, ('s, 'u) schema_validator) cache_ops
    \<Rightarrow> ('x \<Rightarrow> string \<Rightarrow> 'j list \<Rightarrow> string + 's) \<Rightarrow> 'x \<Rightarrow> ('d, 'o) document_decoder
    \<Rightarrow> ('k, 'm, 'j) registry \<times> 'w
    \<Rightarrow> ((lookup_error + ('f, 'o, 'q, 'p) go_error) option \<times> ('k, 'm, 'j) registry \<times> 'w) option" where
  "ValidateDocument Y D validate M C compile ctx doc st = (case Lookup M C compile ctx doc st of
     None \<Rightarrow> None
   | Some (Inl err, st') \<Rightarrow> Some (Some (Inl err), st')
   | Some (Inr v, st') \<Rightarrow>
       (case ValidateSchemaContext Y D doc ctx (\<lambda>a s. (validate v a, s)) () of
          (Some err, _) \<Rightarrow> Some (Some (Inr err), st') | (None, _) \<Rightarrow> Some (None, st')))"

section \<open>Separate matchers and loaders\<close>

record ('x, 'd, 'o, 'v, 'w) match_loader_wrapper =
  wr_matcher :: "('x, 'd, 'o, 'w) matcher"
  wr_loader :: "('x, 'd, 'o, 'v, 'w) loader"

definition wrapper_Match :: "('x, 'd, 'o, 'v, 'w) match_loader_wrapper \<Rightarrow> ('x, 'd, 'o, 'w) matcher" where
  "wrapper_Match wr ctx doc w = wr_matcher wr ctx doc w"

definition wrapper_Load :: "('x, 'd, 'o, 'v, 'w) match_loader_wrapper \<Rightarrow> ('x, 'd, 'o, 'v, 'w) loader" where
  "wrapper_Load wr ctx doc w = wr_loader wr ctx doc w"

text \<open>\<open>wrap\<close> makes the object of the wrapper.\<close>

definition RegisterFunc ::
  "(('x, 'd, 'o, 'v, 'w) match_loader_wrapper \<Rightarrow> 'm) \<Rightarrow> ('x, 'd, 'o, 'w) matcher \<Rightarrow> ('x, 'd, 'o, 'v, 'w) loader
    \<Rightarrow> ('k, 'm, 'j) registry \<Rightarrow> ('k, 'm, 'j) registry" where
  "RegisterFunc wrap m l r = Register (wrap \<lparr>wr_matcher = m, wr_loader = l\<rparr>) r"

section \<open>Directives\<close>

record 'c directive_loader =
  dl_cachedDoc :: "nat option"
  dl_cachedDirective :: "directive option"
  dl_opts :: "'c http_option list"

definition Directive_loader :: "'c http_option list \<Rightarrow> 'c directive_loader" where
  "Directive_loader opts = \<lparr>dl_cachedDoc = None, dl_cachedDirective = None, dl_opts = opts\<rparr>"

definition parseAndCache ::
  "('d, 'o) document_decoder \<Rightarrow> 'c directive_loader \<Rightarrow> directive option \<times> 'c directive_loader" where
  "parseAndCache doc m =
     (if dl_cachedDoc m = Some (dd_id doc) then (dl_cachedDirective m, m)
      else if dd_tokens doc = [] then (None, m\<lparr>dl_cachedDoc := Some (dd_id doc), dl_cachedDirective := None\<rparr>)
      else let d = ParseDocumentDirective (dd_tokens doc)
        in (d, m\<lparr>dl_cachedDoc := Some (dd_id doc), dl_cachedDirective := d\<rparr>))"

definition directive_Match :: "('d, 'o) document_decoder \<Rightarrow> 'c directive_loader \<Rightarrow> bool \<times> 'c directive_loader" where
  "directive_Match doc m = (case parseAndCache doc m of (d, m') \<Rightarrow> (d \<noteq> None, m'))"

definition directive_Load ::
  "('c, 'x, 'w) environment \<Rightarrow> 'x \<Rightarrow> ('d, 'o) document_decoder \<Rightarrow> 'c directive_loader \<times> 'w
    \<Rightarrow> ((load_error + 'v load_result) \<times> 'c directive_loader \<times> 'w) option" where
  "directive_Load E ctx doc = (\<lambda>(m, w). case parseAndCache doc m of
     (None, m') \<Rightarrow> Some (Inl NoDirective, m', w)
   | (Some d, m') \<Rightarrow>
       let filePath = dd_filePath doc in
       if filePath = [] then Some (Inl NoFilePath, m', w)
       else map_option (\<lambda>(res, w'). (res, m', w'))
              (Ref_loader E (fp_Dir filePath) (dir_Schema d) (dl_opts m') ctx (Some doc) w))"

end
