(* ===== verification/Schemastore.thy ===== *)
theory Schemastore
  imports Registry
begin

text \<open>
  Package \<open>schemastore\<close>: the catalog of SchemaStore, fetched when it is older than its time to
  live, and the match loader over it. Parsing the catalog (\<open>encoding/json\<close>) is the parameter
  \<open>parse_catalog\<close>.
\<close>

section \<open>The store\<close>

record catalog_entry =
  ce_Name :: string
  ce_Description :: string
  ce_URL :: string
  ce_FileMatch :: "string list"

record catalog =
  cat_Schemas :: "catalog_entry list"

record 'c schema_store =
  st_lastFetch :: int
  st_client :: 'c
  st_filter :: "(catalog_entry \<Rightarrow> bool) option"
  st_catalogURL :: string
  st_entries :: "catalog_entry list"
  st_cacheTTL :: int
  st_refreshTimeout :: int

type_synonym 'c store_option = "'c schema_store \<Rightarrow> 'c schema_store"

definition WithCatalogURL :: "string \<Rightarrow> 'c store_option" where
  "WithCatalogURL url s = s\<lparr>st_catalogURL := url\<rparr>"

definition store_WithHTTPClient :: "'c \<Rightarrow> 'c store_option" where
  "store_WithHTTPClient client s = s\<lparr>st_client := client\<rparr>"

definition WithCacheTTL :: "int \<Rightarrow> 'c store_option" where
  "WithCacheTTL ttl s = s\<lparr>st_cacheTTL := ttl\<rparr>"

definition WithRefreshTimeout :: "int \<Rightarrow> 'c store_option" where
  "WithRefreshTimeout timeout s = s\<lparr>st_refreshTimeout := timeout\<rparr>"

definition WithFilter :: "(catalog_entry \<Rightarrow> bool) option \<Rightarrow> 'c store_option" where
  "WithFilter fn s = s\<lparr>st_filter := fn\<rparr>"

definition defaultCatalogURL :: string where
  "defaultCatalogURL = ''https://www.schemastore.org/api/json/catalog.json''"

definition defaultCacheTTL :: int where
  "defaultCacheTTL = 1 * 3600000000000"

definition defaultRefreshTimeout :: int where
  "defaultRefreshTimeout = 10 * 1000000000"

section \<open>The catalog\<close>

text \<open>\<open>strings.ToLower\<close> on the ASCII bytes of the pattern. Of the other runes only the Kelvin sign and
  the capital I with a dot have an ASCII letter, k or i, as lower case, and no suffix has these.\<close>

definition to_lower_byte :: "char \<Rightarrow> char" where
  "to_lower_byte c = (if 65 \<le> byte c \<and> byte c \<le> 90 then chr (byte c + 32) else c)"

definition filterSupportedPatterns :: "string list \<Rightarrow> string list" where
  "filterSupportedPatterns patterns = filter (\<lambda>p. let lower = map to_lower_byte p in
     has_suffix lower ''.yaml'' \<or> has_suffix lower ''.yml'' \<or> has_suffix lower ''.json'') patterns"

definition entry_step :: "(catalog_entry \<Rightarrow> bool) option \<Rightarrow> catalog_entry list \<Rightarrow> catalog_entry \<Rightarrow> catalog_entry list" where
  "entry_step filt entries entry =
     (if ce_URL entry = [] then entries
      else if length (ce_FileMatch entry) = 0 then entries
      else if (case filt of Some f \<Rightarrow> \<not> f entry | None \<Rightarrow> False) then entries
      else let supportedPatterns = filterSupportedPatterns (ce_FileMatch entry) in
        if length supportedPatterns = 0 then entries
        else entries @ [entry\<lparr>ce_FileMatch := supportedPatterns\<rparr>])"

definition filterAndNormalizeEntries :: "'c schema_store \<Rightarrow> catalog_entry list \<Rightarrow> catalog_entry list" where
  "filterAndNormalizeEntries s schemas = foldl (entry_step (st_filter s)) [] schemas"

datatype catalog_error = CatalogLoad load_error | CatalogParse string string

text \<open>The results are \<open>None\<close> when the loader panics; else the error, the store and the world.\<close>

definition fetchCatalogLocked ::
  "('c, 'x, 'w) environment \<Rightarrow> (string \<Rightarrow> string + catalog) \<Rightarrow> 'x \<Rightarrow> 'c schema_store \<times> 'w
    \<Rightarrow> (catalog_error option \<times> 'c schema_store \<times> 'w) option" where
  "fetchCatalogLocked E parse_catalog ctx = (\<lambda>(s, w).
     case (URL_loader E (st_catalogURL s) [loader_WithHTTPClient (st_client s)] ::
             ('x, unit, unit, unit, 'w) loader) ctx None w of
       None \<Rightarrow> None
     | Some (Inl err, w') \<Rightarrow> Some (Some (CatalogLoad err), s, w')
     | Some (Inr result, w') \<Rightarrow> (case parse_catalog (res_Data result) of
         Inl err \<Rightarrow> Some (Some (CatalogParse (st_catalogURL s) err), s, w')
       | Inr cat \<Rightarrow> (case ev_Now E w' of (now, w'') \<Rightarrow>
           Some (None, s\<lparr>st_entries := filterAndNormalizeEntries s (cat_Schemas cat), st_lastFetch := now\<rparr>, w''))))"

text \<open>\<open>time.Since\<close> saturates at the widest durations.\<close>

definition time_Since :: "int \<Rightarrow> int \<Rightarrow> int" where
  "time_Since now t = max (- (2 ^ 63)) (min (2 ^ 63 - 1) (now - t))"

definition catalog_fresh :: "('c, 'x, 'w) environment \<Rightarrow> 'c schema_store \<Rightarrow> 'w \<Rightarrow> bool \<times> 'w" where
  "catalog_fresh E s w =
     (if st_cacheTTL s > 0
      then (case ev_Now E w of (now, w') \<Rightarrow> (time_Since now (st_lastFetch s) < st_cacheTTL s, w'))
      else (False, w))"

definition ensureCatalog ::
  "('c, 'x, 'w) environment \<Rightarrow> (string \<Rightarrow> string + catalog) \<Rightarrow> 'x \<Rightarrow> 'c schema_store \<times> 'w
    \<Rightarrow> (catalog_error option \<times> 'c schema_store \<times> 'w) option" where
  "ensureCatalog E parse_catalog ctx = (\<lambda>(s, w). case catalog_fresh E s w of
     (True, w') \<Rightarrow> Some (None, s, w')
   | (False, w') \<Rightarrow> (case catalog_fresh E s w' of
       (True, w'') \<Rightarrow> Some (None, s, w'')
     | (False, w'') \<Rightarrow> fetchCatalogLocked E parse_catalog ctx (s, w'')))"

definition New_store ::
  "('c, 'x, 'w) environment \<Rightarrow> (string \<Rightarrow> string + catalog) \<Rightarrow> 'x \<Rightarrow> 'c store_option list \<Rightarrow> 'w
    \<Rightarrow> ((catalog_error + 'c schema_store) \<times> 'w) option" where
  "New_store E parse_catalog ctx opts w =
     (let store = foldl (\<lambda>s opt. opt s) \<lparr>st_lastFetch = 0, st_client = ev_DefaultClient E, st_filter = None,
            st_catalogURL = defaultCatalogURL, st_entries = [], st_cacheTTL = defaultCacheTTL,
            st_refreshTimeout = defaultRefreshTimeout\<rparr> opts
      in case ensureCatalog E parse_catalog ctx (store, w) of
           None \<Rightarrow> None
         | Some (Some err, s, w') \<Rightarrow> Some (Inl err, w')
         | Some (None, s, w') \<Rightarrow> Some (Inr s, w'))"

section \<open>Lookups\<close>

fun find_entry :: "(string \<Rightarrow> string \<Rightarrow> bool option) \<Rightarrow> string \<Rightarrow> catalog_entry list \<Rightarrow> catalog_entry option" where
  "find_entry glob_match filePath [] = None"
| "find_entry glob_match filePath (entry # entries) =
     (if MatchAnyWithBase glob_match filePath (ce_FileMatch entry) then Some entry
      else find_entry glob_match filePath entries)"

definition FindMatch ::
  "('c, 'x, 'w) environment \<Rightarrow> (string \<Rightarrow> string + catalog) \<Rightarrow> (string \<Rightarrow> string \<Rightarrow> bool option) \<Rightarrow> 'x \<Rightarrow> string
    \<Rightarrow> 'c schema_store \<times> 'w \<Rightarrow> (catalog_entry option \<times> 'c schema_store \<times> 'w) option" where
  "FindMatch E parse_catalog glob_match ctx filePath = (\<lambda>(s, w).
     if filePath = [] then Some (None, s, w)
     else (case (if ev_Done E ctx w then Some (None, s, w)
                 else ensureCatalog E parse_catalog (ev_WithTimeout E ctx (st_refreshTimeout s)) (s, w)) of
         None \<Rightarrow> None
       | Some (_, s', w') \<Rightarrow> Some (find_entry glob_match filePath (st_entries s'), s', w')))"

definition store_Match ::
  "('c, 'x, 'w) environment \<Rightarrow> (string \<Rightarrow> string + catalog) \<Rightarrow> (string \<Rightarrow> string \<Rightarrow> bool option) \<Rightarrow> 'x
    \<Rightarrow> ('d, 'o) document_decoder \<Rightarrow> 'c schema_store \<times> 'w \<Rightarrow> (bool \<times> 'c schema_store \<times> 'w) option" where
  "store_Match E parse_catalog glob_match ctx doc st =
     map_option (\<lambda>(entry, st'). (entry \<noteq> None, st')) (FindMatch E parse_catalog glob_match ctx (dd_filePath doc) st)"

definition store_Load ::
  "('c, 'x, 'w) environment \<Rightarrow> (string \<Rightarrow> string + catalog) \<Rightarrow> (string \<Rightarrow> string \<Rightarrow> bool option) \<Rightarrow> 'x
    \<Rightarrow> ('d, 'o) document_decoder \<Rightarrow> 'c schema_store \<times> 'w
    \<Rightarrow> ((load_error + 'v load_result) \<times> 'c schema_store \<times> 'w) option" where
  "store_Load E parse_catalog glob_match ctx doc st =
     (case FindMatch E parse_catalog glob_match ctx (dd_filePath doc) st of
        None \<Rightarrow> None
      | Some (None, st') \<Rightarrow> Some (Inl (NoCatalogMatch (dd_filePath doc)), st')
      | Some (Some entry, s', w') \<Rightarrow>
          map_option (\<lambda>(res, w''). (res, s', w''))
            (URL_loader E (ce_URL entry) [loader_WithHTTPClient (st_client s')] ctx (Some doc) w'))"

end
