(* ===== verification/Schema_Facts.thy ===== *)
theory Schema_Facts
  imports Schemastore
begin

text \<open>
  The facts on schemas: where a comment has a directive, and which directive a document has.
\<close>

section \<open>Directives\<close>

text \<open>A directive with reference \<open>ref\<close> that starts at byte \<open>n\<close> of a comment.\<close>

definition directive_form :: "string \<Rightarrow> nat \<Rightarrow> string \<Rightarrow> bool" where
  "directive_form s n ref \<longleftrightarrow> (\<exists>pre ws post. s = pre @ regexp_head @ ws @ regexp_assign @ ref @ post
     \<and> length pre = n \<and> set ws \<subseteq> regexp_space \<and> ref \<noteq> [] \<and> LF \<notin> set ref \<and> (post = [] \<or> hd post = LF))"

lemma has_prefixE: "has_prefix s p \<Longrightarrow> s = p @ drop (length p) s"
  unfolding has_prefix_def by (metis append_take_drop_id)

lemma schemaDirective_at_iff: "schemaDirective_at s = Some ref \<longleftrightarrow> directive_form s 0 ref"
proof
  assume at: "schemaDirective_at s = Some ref"
  define rest where "rest = dropWhile (\<lambda>c. c \<in> regexp_space) (drop (length regexp_head) s)"
  define ws where "ws = takeWhile (\<lambda>c. c \<in> regexp_space) (drop (length regexp_head) s)"
  from at have p: "has_prefix s regexp_head" "has_prefix rest regexp_assign"
    "ref = takeWhile (\<lambda>c. c \<noteq> LF) (drop (length regexp_assign) rest)" "ref \<noteq> []"
    by (auto simp: schemaDirective_at_def rest_def Let_def split: if_splits)
  define post where "post = dropWhile (\<lambda>c. c \<noteq> LF) (drop (length regexp_assign) rest)"
  note e = has_prefixE [OF p(1)] takeWhile_dropWhile_id [of "\<lambda>c. c \<in> regexp_space" "drop (length regexp_head) s", folded ws_def rest_def, symmetric]
    has_prefixE [OF p(2)] takeWhile_dropWhile_id [of "\<lambda>c. c \<noteq> LF" "drop (length regexp_assign) rest", folded p(3) post_def, symmetric]
  have "s = [] @ regexp_head @ ws @ regexp_assign @ ref @ post"
    by (subst e(1), subst e(2), subst e(3), subst e(4)) simp
  moreover have "set ws \<subseteq> regexp_space" by (auto simp: ws_def dest: set_takeWhileD)
  moreover have "LF \<notin> set ref" by (auto simp: p(3) dest: set_takeWhileD)
  moreover have "post = [] \<or> hd post = LF"
    using hd_dropWhile [of "\<lambda>c. c \<noteq> LF" "drop (length regexp_assign) rest"] by (auto simp: post_def)
  ultimately show "directive_form s 0 ref" unfolding directive_form_def using p(4) by (metis list.size(3))
next
  assume "directive_form s 0 ref"
  then obtain ws post where s: "s = regexp_head @ ws @ regexp_assign @ ref @ post"
    "set ws \<subseteq> regexp_space" "ref \<noteq> []" "LF \<notin> set ref" "post = [] \<or> hd post = LF"
    by (auto simp: directive_form_def)
  have "CHR ''$'' \<notin> regexp_space" by (simp add: regexp_space_def TAB_def LF_def CR_def SP_def)
  with s(2) have "dropWhile (\<lambda>c. c \<in> regexp_space) (ws @ regexp_assign @ ref @ post) = regexp_assign @ ref @ post"
    by (subst dropWhile_append2) (auto simp: regexp_assign_def)
  moreover have "takeWhile (\<lambda>c. c \<noteq> LF) (ref @ post) = ref"
    using s(4,5) by (cases post) (auto simp: takeWhile_tail)
  ultimately show "schemaDirective_at s = Some ref"
    using s(3) by (simp add: schemaDirective_at_def s(1) has_prefix_def Let_def)
qed

lemma directive_form_Cons: "directive_form (c # s) (Suc n) ref \<longleftrightarrow> directive_form s n ref"
proof
  assume "directive_form (c # s) (Suc n) ref"
  then obtain pre ws post where f: "c # s = pre @ regexp_head @ ws @ regexp_assign @ ref @ post" "length pre = Suc n"
    "set ws \<subseteq> regexp_space" "ref \<noteq> []" "LF \<notin> set ref" "post = [] \<or> hd post = LF"
    unfolding directive_form_def by blast
  then obtain pre' where "pre = c # pre'" by (cases pre) auto
  with f show "directive_form s n ref" unfolding directive_form_def by - (rule exI [of _ pre'], rule exI [of _ ws], rule exI [of _ post], auto)
next
  assume "directive_form s n ref"
  then obtain pre ws post where f: "s = pre @ regexp_head @ ws @ regexp_assign @ ref @ post" "length pre = n"
    "set ws \<subseteq> regexp_space" "ref \<noteq> []" "LF \<notin> set ref" "post = [] \<or> hd post = LF"
    unfolding directive_form_def by blast
  then show "directive_form (c # s) (Suc n) ref" unfolding directive_form_def by - (rule exI [of _ "c # pre"], rule exI [of _ ws], rule exI [of _ post], auto)
qed

lemma directive_form_Nil [simp]: "\<not> directive_form [] n ref"
  by (auto simp: directive_form_def)

text \<open>The first directive of a comment.\<close>

definition first_directive :: "string \<Rightarrow> string \<Rightarrow> bool" where
  "first_directive s ref \<longleftrightarrow> (\<exists>n. directive_form s n ref \<and> (\<forall>m < n. \<forall>r. \<not> directive_form s m r))"

lemma schemaDirectiveRE_iff: "schemaDirectiveRE s = Some ref \<longleftrightarrow> first_directive s ref"
proof (induction s)
  case Nil
  then show ?case by (simp add: first_directive_def)
next
  case (Cons c s)
  show ?case
  proof (cases "schemaDirective_at (c # s)")
    case None
    then have none: "\<not> directive_form (c # s) 0 r" for r by (simp add: schemaDirective_at_iff [symmetric])
    have "first_directive (c # s) ref \<longleftrightarrow> first_directive s ref"
    proof
      assume "first_directive (c # s) ref"
      then obtain n where n: "directive_form (c # s) n ref" "\<forall>m < n. \<forall>r. \<not> directive_form (c # s) m r"
        unfolding first_directive_def by blast
      then obtain k where "n = Suc k" using none by (cases n) auto
      with n show "first_directive s ref" unfolding first_directive_def
        by (metis Suc_less_eq directive_form_Cons)
    next
      assume "first_directive s ref"
      then obtain n where n: "directive_form s n ref" "\<forall>m < n. \<forall>r. \<not> directive_form s m r"
        unfolding first_directive_def by blast
      have "\<not> directive_form (c # s) m r" if "m < Suc n" for m r
        using that none n(2) by (cases m) (auto simp: directive_form_Cons)
      with n(1) show "first_directive (c # s) ref" unfolding first_directive_def
        by (metis directive_form_Cons)
    qed
    with Cons.IH None show ?thesis by simp
  next
    case (Some r)
    then have r: "directive_form (c # s) 0 r" by (simp add: schemaDirective_at_iff)
    have "first_directive (c # s) ref \<longleftrightarrow> directive_form (c # s) 0 ref"
      unfolding first_directive_def using r by (metis gr_zeroI not_less_zero)
    with Some show ?thesis by (simp add: schemaDirective_at_iff [symmetric])
  qed
qed

lemma first_directive_unique: "first_directive s r \<Longrightarrow> first_directive s r' \<Longrightarrow> r = r'"
  by (simp add: schemaDirectiveRE_iff [symmetric])

text \<open>A token that may stand before the directive of a document.\<close>

definition passes :: "token \<Rightarrow> bool" where
  "passes tk \<longleftrightarrow> tk_type tk = DocumentHeaderType
     \<or> (tk_type tk = CommentType \<and> (\<forall>ref. \<not> first_directive (tk_value tk) ref))"

lemma ParseDirective_iff:
  "ParseDirective s = Some d \<longleftrightarrow> (\<exists>ref. first_directive s ref \<and> d = \<lparr>dir_Position = None, dir_Schema = ref\<rparr>)"
  "ParseDirective s = None \<longleftrightarrow> (\<forall>ref. \<not> first_directive s ref)"
  by (auto simp: ParseDirective_def schemaDirectiveRE_iff [symmetric] split: option.splits)

lemma ParseDocumentDirective_passes: "passes tk \<Longrightarrow> ParseDocumentDirective (tk # tks) = ParseDocumentDirective tks"
  by (auto simp: passes_def ParseDirective_iff(2) [symmetric])

definition directive_found :: "token list \<Rightarrow> directive \<Rightarrow> bool" where
  "directive_found tks d \<longleftrightarrow> (\<exists>pre tk post ref. tks = pre @ tk # post \<and> list_all passes pre
     \<and> tk_type tk = CommentType \<and> first_directive (tk_value tk) ref \<and> d = \<lparr>dir_Position = tk_pos tk, dir_Schema = ref\<rparr>)"

lemma directive_found_Cons:
  "directive_found (tk # tks) d \<longleftrightarrow> (passes tk \<and> directive_found tks d)
    \<or> (tk_type tk = CommentType \<and> (\<exists>ref. first_directive (tk_value tk) ref \<and> d = \<lparr>dir_Position = tk_pos tk, dir_Schema = ref\<rparr>))"
  (is "?l \<longleftrightarrow> ?r")
proof
  assume ?l
  then obtain pre t post ref where f: "tk # tks = pre @ t # post" "list_all passes pre" "tk_type t = CommentType"
    "first_directive (tk_value t) ref" "d = \<lparr>dir_Position = tk_pos t, dir_Schema = ref\<rparr>"
    unfolding directive_found_def by blast
  then show ?r by (cases pre) (auto simp: directive_found_def)
next
  assume ?r
  then consider "passes tk" "directive_found tks d" | ref where "tk_type tk = CommentType" "first_directive (tk_value tk) ref"
    "d = \<lparr>dir_Position = tk_pos tk, dir_Schema = ref\<rparr>" by blast
  then show ?l
  proof cases
    case 1
    then obtain pre t post ref where "tks = pre @ t # post" "list_all passes pre" "tk_type t = CommentType"
      "first_directive (tk_value t) ref" "d = \<lparr>dir_Position = tk_pos t, dir_Schema = ref\<rparr>"
      unfolding directive_found_def by blast
    with 1(1) show ?thesis unfolding directive_found_def
      by - (rule exI [of _ "tk # pre"], rule exI [of _ t], rule exI [of _ post], rule exI [of _ ref], simp)
  next
    case 2
    then show ?thesis unfolding directive_found_def by - (rule exI [of _ "[]"], rule exI [of _ tk], rule exI [of _ tks], rule exI [of _ ref], simp)
  qed
qed

lemma ParseDocumentDirective_found: "ParseDocumentDirective tks = Some d \<longleftrightarrow> directive_found tks d"
proof (induction tks)
  case Nil
  then show ?case by (simp add: directive_found_def)
next
  case (Cons tk tks)
  show ?case
  proof (cases "passes tk")
    case True
    with Cons.IH ParseDocumentDirective_passes [OF True] show ?thesis
      by (auto simp: directive_found_Cons passes_def)
  next
    case False
    then show ?thesis
      by (auto simp: passes_def directive_found_Cons ParseDirective_iff split: option.splits)
         (metis first_directive_unique)
  qed
qed

text \<open>C27: the directive of a document is the first one of the first comment that holds one, provided
  only document headers and comments without one come before: the reference runs from behind
  \<open>$schema=\<close> to the end of its line and is not empty, and the position is that of the comment.\<close>

theorem ParseDocumentDirective_exact:
  "ParseDocumentDirective tks = Some d
    \<longleftrightarrow> (\<exists>pre tk post ref. tks = pre @ tk # post \<and> list_all passes pre \<and> tk_type tk = CommentType
          \<and> first_directive (tk_value tk) ref \<and> d = \<lparr>dir_Position = tk_pos tk, dir_Schema = ref\<rparr>)"
  using ParseDocumentDirective_found [of tks d] unfolding directive_found_def .

end
