(* ===== verification/Registry_Facts.thy ===== *)
theory Registry_Facts
  imports Schemastore
begin

text \<open>
  The caches are transparent: with any cache that only gives back what was put in, a registry finds
  what it would find if it loaded and compiled every time, and the match loader for directives finds
  what it would find if it parsed every time. The catalog: what the store can answer, in every state
  it can reach.
\<close>

section \<open>The interface of caches\<close>

text \<open>A cache may forget, it may not invent: what \<open>Get\<close> gives was there before.\<close>

locale validator_cache =
  fixes C :: "('k, 'v) cache_ops"
  assumes get_keeps: "fst (cache_Get C (snd (cache_Get C k u)) u') = Some v \<Longrightarrow> fst (cache_Get C k u') = Some v"
    and set_keeps: "fst (cache_Get C (cache_Set C k u v) u') = Some v'
      \<Longrightarrow> (u' = u \<and> v' = v) \<or> fst (cache_Get C k u') = Some v'"

text \<open>Every value in the cache is the one that belongs to its URL.\<close>

definition cache_sound :: "('k, 'v) cache_ops \<Rightarrow> (string \<Rightarrow> 'v) \<Rightarrow> 'k \<Rightarrow> bool" where
  "cache_sound C vof k \<longleftrightarrow> (\<forall>u v. fst (cache_Get C k u) = Some v \<longrightarrow> u \<noteq> [] \<and> v = vof u)"

context validator_cache begin

lemma sound_get: "cache_sound C vof k \<Longrightarrow> cache_sound C vof (snd (cache_Get C k u))"
  unfolding cache_sound_def using get_keeps by blast

lemma sound_set: "cache_sound C vof k \<Longrightarrow> u \<noteq> [] \<Longrightarrow> cache_sound C vof (cache_Set C k u (vof u))"
  unfolding cache_sound_def using set_keeps by blast

end

interpretation mc: validator_cache mapCache
  by unfold_locales (auto simp: mapCache_def mapCache_Get_def mapCache_Set_def split: if_splits)

lemma mapCache_empty: "fst (cache_Get mapCache newMapCache u) = None"
  by (simp add: mapCache_def mapCache_Get_def newMapCache_def)

section \<open>Lookups without a cache\<close>

definition load_uncached ::
  "('m, 'x, 'd, 'o, ('s, 'u) schema_validator, 'w) match_loaders
    \<Rightarrow> ('x \<Rightarrow> string \<Rightarrow> 'j list \<Rightarrow> string + 's) \<Rightarrow> 'j list \<Rightarrow> 'x \<Rightarrow> ('d, 'o) document_decoder \<Rightarrow> 'm \<Rightarrow> 'w
    \<Rightarrow> ((lookup_error + ('s, 'u) schema_validator) \<times> 'w) option" where
  "load_uncached M compile opts ctx doc ml w = (case ml_Load M ml ctx (Some doc) w of
     None \<Rightarrow> None
   | Some (Inl err, w') \<Rightarrow> Some (Inl (Load err), w')
   | Some (Inr result, w') \<Rightarrow> Some (build_validator compile ctx opts result, w'))"

fun lookup_uncached ::
  "('m, 'x, 'd, 'o, ('s, 'u) schema_validator, 'w) match_loaders
    \<Rightarrow> ('x \<Rightarrow> string \<Rightarrow> 'j list \<Rightarrow> string + 's) \<Rightarrow> 'j list \<Rightarrow> 'x \<Rightarrow> ('d, 'o) document_decoder \<Rightarrow> 'm list \<Rightarrow> 'w
    \<Rightarrow> ((lookup_error + ('s, 'u) schema_validator) \<times> 'w) option" where
  "lookup_uncached M compile opts ctx doc [] w = Some (Inl (NoMatch (dd_filePath doc)), w)"
| "lookup_uncached M compile opts ctx doc (ml # mls) w = (case ml_Match M ml ctx doc w of
     None \<Rightarrow> None
   | Some (matched, w') \<Rightarrow> if matched then load_uncached M compile opts ctx doc ml w'
                          else lookup_uncached M compile opts ctx doc mls w')"

text \<open>A sequence of lookups, with the registry that each of them leaves.\<close>

fun lookups ::
  "('m, 'x, 'd, 'o, ('s, 'u) schema_validator, 'w) match_loaders \<Rightarrow> ('k, ('s, 'u) schema_validator) cache_ops
    \<Rightarrow> ('x \<Rightarrow> string \<Rightarrow> 'j list \<Rightarrow> string + 's) \<Rightarrow> ('x \<times> ('d, 'o) document_decoder) list
    \<Rightarrow> ('k, 'm, 'j) registry \<times> 'w \<Rightarrow> ((lookup_error + ('s, 'u) schema_validator) list \<times> 'w) option" where
  "lookups M C compile [] (r, w) = Some ([], w)"
| "lookups M C compile ((ctx, doc) # reqs) (r, w) = (case Lookup M C compile ctx doc (r, w) of
     None \<Rightarrow> None
   | Some (res, r', w') \<Rightarrow> map_option (\<lambda>(rs, w''). (res # rs, w'')) (lookups M C compile reqs (r', w')))"

fun lookups_uncached ::
  "('m, 'x, 'd, 'o, ('s, 'u) schema_validator, 'w) match_loaders
    \<Rightarrow> ('x \<Rightarrow> string \<Rightarrow> 'j list \<Rightarrow> string + 's) \<Rightarrow> 'j list \<Rightarrow> 'm list
    \<Rightarrow> ('x \<times> ('d, 'o) document_decoder) list \<Rightarrow> 'w
    \<Rightarrow> ((lookup_error + ('s, 'u) schema_validator) list \<times> 'w) option" where
  "lookups_uncached M compile opts mls [] w = Some ([], w)"
| "lookups_uncached M compile opts mls ((ctx, doc) # reqs) w = (case lookup_uncached M compile opts ctx doc mls w of
     None \<Rightarrow> None
   | Some (res, w') \<Rightarrow> map_option (\<lambda>(rs, w''). (res # rs, w'')) (lookups_uncached M compile opts mls reqs w'))"

text \<open>A URL identifies its schema: whatever a loader gives under it makes the same validator.\<close>

definition url_identifies ::
  "('m, 'x, 'd, 'o, ('s, 'u) schema_validator, 'w) match_loaders
    \<Rightarrow> ('x \<Rightarrow> string \<Rightarrow> 'j list \<Rightarrow> string + 's) \<Rightarrow> 'j list \<Rightarrow> (string \<Rightarrow> ('s, 'u) schema_validator) \<Rightarrow> bool" where
  "url_identifies M compile opts vof \<longleftrightarrow> (\<forall>ml ctx doc w result w'. ml_Load M ml ctx (Some doc) w = Some (Inr result, w')
     \<longrightarrow> res_URL result \<noteq> [] \<longrightarrow> build_validator compile ctx opts result = Inr (vof (res_URL result)))"

definition registry_sound ::
  "('k, ('s, 'u) schema_validator) cache_ops \<Rightarrow> (string \<Rightarrow> ('s, 'u) schema_validator) \<Rightarrow> 'm list \<Rightarrow> 'j list
    \<Rightarrow> ('k, 'm, 'j) registry \<Rightarrow> bool" where
  "registry_sound C vof mls opts r \<longleftrightarrow> cache_sound C vof (rg_cache r) \<and> rg_matchLoaders r = mls \<and> rg_validatorOpts r = opts"

definition agrees ::
  "(('k, 'm, 'j) registry \<Rightarrow> bool) \<Rightarrow> ('r \<times> ('k, 'm, 'j) registry \<times> 'w) option \<Rightarrow> ('r \<times> 'w) option \<Rightarrow> bool" where
  "agrees good x y \<longleftrightarrow> (case x of None \<Rightarrow> y = None | Some (res, r, w) \<Rightarrow> y = Some (res, w) \<and> good r)"

text \<open>The cache of a registry holds validators of schemas.\<close>

locale registry_cache = validator_cache C for C :: "('k, ('s, 'u) schema_validator) cache_ops"
begin

lemma loadValidator_agrees:
  assumes "url_identifies M compile opts vof" "registry_sound C vof mls opts r"
  shows "agrees (registry_sound C vof mls opts) (loadValidator M C compile ctx doc ml (r, w))
    (load_uncached M compile opts ctx doc ml w)"
proof (cases "ml_Load M ml ctx (Some doc) w")
  case None
  then show ?thesis by (simp add: agrees_def loadValidator_def load_uncached_def)
next
  case (Some x)
  obtain res w' where x: "x = (res, w')" by (cases x)
  show ?thesis
  proof (cases res)
    case (Inl err)
    with Some x assms(2) show ?thesis by (simp add: agrees_def loadValidator_def load_uncached_def)
  next
    case (Inr result)
    with Some x have load: "ml_Load M ml ctx (Some doc) w = Some (Inr result, w')" by simp
    with assms(1) have same: "res_URL result \<noteq> [] \<Longrightarrow> build_validator compile ctx opts result = Inr (vof (res_URL result))"
      unfolding url_identifies_def by blast
    obtain hit k where get: "cache_Get C (rg_cache r) (res_URL result) = (hit, k)"
      by (cases "cache_Get C (rg_cache r) (res_URL result)")
    from assms(2) have r: "cache_sound C vof (rg_cache r)" "rg_matchLoaders r = mls" "rg_validatorOpts r = opts"
      by (simp_all add: registry_sound_def)
    have k: "cache_sound C vof k" using sound_get [OF r(1), of "res_URL result"] get by simp
    show ?thesis
    proof (cases hit)
      case (Some v)
      with get r(1) have "res_URL result \<noteq> []" "v = vof (res_URL result)" by (simp_all add: cache_sound_def)
      with same load get Some r k show ?thesis
        by (simp add: agrees_def loadValidator_def load_uncached_def registry_sound_def)
    next
      case None
      then show ?thesis
        using load get r k same sound_set [OF k, of "res_URL result"]
        by (cases "build_validator compile ctx opts result")
           (auto simp: agrees_def loadValidator_def load_uncached_def registry_sound_def)
    qed
  qed
qed

lemma lookup_loop_agrees:
  assumes "url_identifies M compile opts vof" "registry_sound C vof mls' opts r"
  shows "agrees (registry_sound C vof mls' opts) (lookup_loop M C compile ctx doc mls (r, w))
    (lookup_uncached M compile opts ctx doc mls w)"
proof (induction mls arbitrary: w)
  case Nil
  then show ?case using assms(2) by (simp add: agrees_def)
next
  case (Cons ml mls)
  show ?case
  proof (cases "ml_Match M ml ctx doc w")
    case None
    then show ?thesis by (simp add: agrees_def)
  next
    case (Some x)
    with Cons.IH loadValidator_agrees [OF assms] show ?thesis by (cases x) simp
  qed
qed

lemma lookups_agree:
  assumes "url_identifies M compile opts vof" "registry_sound C vof mls opts r"
  shows "lookups M C compile reqs (r, w) = lookups_uncached M compile opts mls reqs w"
  using assms(2)
proof (induction reqs arbitrary: r w)
  case (Cons req reqs)
  obtain ctx doc where req: "req = (ctx, doc)" by (cases req)
  have "Lookup M C compile ctx doc (r, w) = lookup_loop M C compile ctx doc mls (r, w)"
    using Cons.prems by (simp add: Lookup_def registry_sound_def)
  moreover note lookup_loop_agrees [OF assms(1) Cons.prems, of ctx doc mls w]
  ultimately show ?case
    by (cases "lookup_loop M C compile ctx doc mls (r, w)") (auto simp: req agrees_def Cons.IH)
qed simp

end

interpretation rc: registry_cache mapCache ..


text \<open>A registry with one loader over an embedded schema, for every document; compiling is reading the
  text.\<close>

definition sample_loaders :: "(unit, unit, unit, unit, (string, unit) schema_validator, unit) match_loaders" where
  "sample_loaders = \<lparr>ml_Match = (\<lambda>_. Always), ml_Load = (\<lambda>_. Embedded ''k8s.json'' ''{}'')\<rparr>"

definition sample_registry :: "((string, unit) schema_validator map_cache, unit, unit) registry" where
  "sample_registry = Register () (New_registry newMapCache [])"


section \<open>Directives without a cache\<close>

datatype 'x directive_request = CallMatch | CallLoad 'x

datatype 'v directive_answer = Matched bool | Loaded "load_error + 'v load_result"

fun directive_call ::
  "('c, 'x, 'w) environment \<Rightarrow> 'x directive_request \<times> ('d, 'o) document_decoder \<Rightarrow> 'c directive_loader \<times> 'w
    \<Rightarrow> ('v directive_answer \<times> 'c directive_loader \<times> 'w) option" where
  "directive_call E (CallMatch, doc) (m, w) = (case directive_Match doc m of (b, m') \<Rightarrow> Some (Matched b, m', w))"
| "directive_call E (CallLoad ctx, doc) (m, w) = map_option (\<lambda>(r, st). (Loaded r, st)) (directive_Load E ctx doc (m, w))"

fun directive_call_uncached ::
  "('c, 'x, 'w) environment \<Rightarrow> 'c http_option list \<Rightarrow> 'x directive_request \<times> ('d, 'o) document_decoder \<Rightarrow> 'w
    \<Rightarrow> ('v directive_answer \<times> 'w) option" where
  "directive_call_uncached E opts (CallMatch, doc) w = Some (Matched (ParseDocumentDirective (dd_tokens doc) \<noteq> None), w)"
| "directive_call_uncached E opts (CallLoad ctx, doc) w = (case ParseDocumentDirective (dd_tokens doc) of
     None \<Rightarrow> Some (Loaded (Inl NoDirective), w)
   | Some d \<Rightarrow> if dd_filePath doc = [] then Some (Loaded (Inl NoFilePath), w)
       else map_option (\<lambda>(r, w'). (Loaded r, w'))
         (Ref_loader E (fp_Dir (dd_filePath doc)) (dir_Schema d) opts ctx (Some doc) w))"

definition directive_sound :: "('d, 'o) document_decoder set \<Rightarrow> 'c http_option list \<Rightarrow> 'c directive_loader \<Rightarrow> bool" where
  "directive_sound docs opts m \<longleftrightarrow> dl_opts m = opts
     \<and> (\<forall>doc \<in> docs. dl_cachedDoc m = Some (dd_id doc) \<longrightarrow> dl_cachedDirective m = ParseDocumentDirective (dd_tokens doc))"

text \<open>An address belongs to one document.\<close>

definition addressed :: "('d, 'o) document_decoder set \<Rightarrow> bool" where
  "addressed docs \<longleftrightarrow> (\<forall>d \<in> docs. \<forall>d' \<in> docs. dd_id d = dd_id d' \<longrightarrow> d = d')"

lemma parseAndCache_sound:
  assumes "addressed docs" "directive_sound docs opts m" "doc \<in> docs"
  shows "\<exists>m'. parseAndCache doc m = (ParseDocumentDirective (dd_tokens doc), m') \<and> directive_sound docs opts m'"
proof -
  have same: "d = doc" if "d \<in> docs" "dd_id doc = dd_id d" for d
    using assms(1,3) that unfolding addressed_def by metis
  show ?thesis
  proof (cases "dl_cachedDoc m = Some (dd_id doc)")
    case True
    with assms(2,3) show ?thesis by (auto simp: parseAndCache_def directive_sound_def)
  next
    case False
    with assms(2) same show ?thesis by (auto simp: parseAndCache_def directive_sound_def Let_def)
  qed
qed

lemma directive_call_sound:
  assumes "addressed docs" "directive_sound docs opts m" "snd call \<in> docs" "directive_call E call (m, w) = x"
  shows "directive_call_uncached E opts call w = map_option (\<lambda>(r, m', w'). (r, w')) x
    \<and> (case x of None \<Rightarrow> True | Some (r, m', w') \<Rightarrow> directive_sound docs opts m')"
proof -
  obtain c doc where call: "call = (c, doc)" by (cases call)
  with assms(3) parseAndCache_sound [OF assms(1,2)] obtain m' where
    m': "parseAndCache doc m = (ParseDocumentDirective (dd_tokens doc), m')" "directive_sound docs opts m'" by fastforce
  then have opts: "dl_opts m' = opts" by (simp add: directive_sound_def)
  show ?thesis
    using m' opts assms(4) [symmetric] by (cases c)
      (auto simp: call directive_Match_def directive_Load_def Let_def option.map_comp comp_def case_prod_beta split: option.split)
qed

fun directive_calls ::
  "('c, 'x, 'w) environment \<Rightarrow> ('x directive_request \<times> ('d, 'o) document_decoder) list \<Rightarrow> 'c directive_loader \<times> 'w
    \<Rightarrow> ('v directive_answer list \<times> 'w) option" where
  "directive_calls E [] (m, w) = Some ([], w)"
| "directive_calls E (call # calls) st = (case directive_call E call st of
     None \<Rightarrow> None | Some (r, st') \<Rightarrow> map_option (\<lambda>(rs, w). (r # rs, w)) (directive_calls E calls st'))"

fun directive_calls_uncached ::
  "('c, 'x, 'w) environment \<Rightarrow> 'c http_option list \<Rightarrow> ('x directive_request \<times> ('d, 'o) document_decoder) list \<Rightarrow> 'w
    \<Rightarrow> ('v directive_answer list \<times> 'w) option" where
  "directive_calls_uncached E opts [] w = Some ([], w)"
| "directive_calls_uncached E opts (call # calls) w = (case directive_call_uncached E opts call w of
     None \<Rightarrow> None | Some (r, w') \<Rightarrow> map_option (\<lambda>(rs, w). (r # rs, w)) (directive_calls_uncached E opts calls w'))"

lemma directive_calls_sound:
  assumes "addressed docs" "directive_sound docs opts m" "\<forall>call \<in> set calls. snd call \<in> docs"
  shows "directive_calls E calls (m, w) = (directive_calls_uncached E opts calls w :: ('v directive_answer list \<times> 'w) option)"
  using assms(2,3)
proof (induction calls arbitrary: m w)
  case (Cons call calls)
  from Cons.prems have "snd call \<in> docs" by simp
  define x :: "('v directive_answer \<times> _ \<times> _) option" where "x = directive_call E call (m, w)"
  note step = directive_call_sound [OF assms(1) Cons.prems(1) \<open>snd call \<in> docs\<close> x_def [symmetric]]
  show ?case
  proof (cases x)
    case None
    with step x_def show ?thesis by simp
  next
    case (Some y)
    then obtain r m' w' where x: "x = Some (r, m', w')" by (metis prod_cases3)
    with step have "directive_sound docs opts m'" by simp
    with Cons have "directive_calls E calls (m', w') = (directive_calls_uncached E opts calls w' :: ('v directive_answer list \<times> 'w) option)" by simp
    with x step x_def [symmetric] show ?thesis by simp
  qed
qed simp

text \<open>C29: the match loader for directives is the same as one that parses every time: whatever the order of
  the calls of \<open>Match\<close> and \<open>Load\<close>, on however many documents, each answers from the tokens of its own
  document, relative references are resolved against the directory of its own file, and no answer is
  one for another document.\<close>

theorem directive_cache_transparent:
  assumes "addressed (snd ` set calls)"
  shows "directive_calls E calls (Directive_loader opts, w) = directive_calls_uncached E opts calls w"
  by (rule directive_calls_sound [OF assms]) (auto simp: directive_sound_def Directive_loader_def)

definition sample_environment :: "(unit, unit, nat) environment" where
  "sample_environment = \<lparr>ev_ReadFile = (\<lambda>p w. (Inr p, Suc w)), ev_Get = (\<lambda>_ _ url w. (Response 200 url None, Suc w)),
     ev_DefaultClient = (), ev_Now = (\<lambda>w. (int w, Suc w)), ev_Done = (\<lambda>_ _. False), ev_WithTimeout = (\<lambda>_ _. ())\<rparr>"

definition directive_document :: "nat \<Rightarrow> string \<Rightarrow> (unit, unit) document_decoder" where
  "directive_document ptr ref = \<lparr>dd_id = ptr, dd_doc = (), dd_filePath = ''a/b.yaml'',
     dd_tokens = [sample_token 1 CommentType (''yaml-language-server: $schema='' @ ref)], dd_decodeOpts = [], dd_index = 0\<rparr>"

theorem directive_cache_transparent_witness:
  "directive_calls sample_environment [(CallMatch, directive_document 1 ''x.json''), (CallLoad (), directive_document 1 ''x.json''),
       (CallLoad (), directive_document 2 ''y.json'')] (Directive_loader [], 0)
    = Some ([Matched True, Loaded (Inr \<lparr>res_Validator = None, res_URL = ''a/x.json'', res_Data = ''a/x.json''\<rparr>),
         Loaded (Inr \<lparr>res_Validator = None, res_URL = ''a/y.json'', res_Data = ''a/y.json'' :: string\<rparr>) :: unit directive_answer], 2)"
proof -
  let ?calls = "[(CallMatch, directive_document 1 ''x.json''), (CallLoad (), directive_document 1 ''x.json''),
       (CallLoad (), directive_document 2 ''y.json'')]"
  have "addressed (snd ` set ?calls)" by (simp add: addressed_def directive_document_def)
  from directive_cache_transparent [OF this, of sample_environment "[]" 0]
  have "directive_calls sample_environment ?calls (Directive_loader [], 0)
    = (directive_calls_uncached sample_environment [] ?calls 0 :: (unit directive_answer list \<times> nat) option)" .
  also have "\<dots> = Some ([Matched True, Loaded (Inr \<lparr>res_Validator = None, res_URL = ''a/x.json'', res_Data = ''a/x.json''\<rparr>),
         Loaded (Inr \<lparr>res_Validator = None, res_URL = ''a/y.json'', res_Data = ''a/y.json'' :: string\<rparr>)], 2)"
    by code_simp
  finally show ?thesis .
qed

section \<open>The catalog\<close>

definition accepts :: "(catalog_entry \<Rightarrow> bool) option \<Rightarrow> catalog_entry \<Rightarrow> bool" where
  "accepts filt e \<longleftrightarrow> (case filt of Some f \<Rightarrow> f e | None \<Rightarrow> True)"

text \<open>An entry as the store keeps it: that of some catalog entry the filter accepts, cut down to the
  patterns for YAML and JSON files, of which there is one.\<close>

definition kept_entry :: "(catalog_entry \<Rightarrow> bool) option \<Rightarrow> catalog_entry \<Rightarrow> catalog_entry \<Rightarrow> bool" where
  "kept_entry filt orig e \<longleftrightarrow> ce_URL orig \<noteq> [] \<and> accepts filt orig
     \<and> filterSupportedPatterns (ce_FileMatch orig) \<noteq> [] \<and> e = orig\<lparr>ce_FileMatch := filterSupportedPatterns (ce_FileMatch orig)\<rparr>"

lemma entry_step_keeps:
  "set (foldl (entry_step filt) acc schemas) = set acc \<union> {e. \<exists>orig \<in> set schemas. kept_entry filt orig e}"
proof (induction schemas arbitrary: acc)
  case (Cons entry schemas)
  have "ce_FileMatch entry = [] \<Longrightarrow> filterSupportedPatterns (ce_FileMatch entry) = []" by (simp add: filterSupportedPatterns_def)
  then have "set (entry_step filt acc entry) = set acc \<union> {e. kept_entry filt entry e}"
    by (auto simp: entry_step_def kept_entry_def accepts_def Let_def split: option.splits)
  then show ?case by (auto simp: Cons.IH)
qed simp

definition store_ok :: "'c schema_store \<Rightarrow> bool" where
  "store_ok s \<longleftrightarrow> (\<forall>e \<in> set (st_entries s). \<exists>orig. kept_entry (st_filter s) orig e)"

definition refreshed :: "'c schema_store \<Rightarrow> 'c schema_store \<Rightarrow> bool" where
  "refreshed s s' \<longleftrightarrow> s' = s
     \<or> (\<exists>(cat :: catalog) now. s' = s\<lparr>st_entries := filterAndNormalizeEntries s (cat_Schemas cat), st_lastFetch := now\<rparr>)"

lemma refreshed_refl [simp]: "refreshed s s"
  by (simp add: refreshed_def)

lemma refreshedI:
  "refreshed s (s\<lparr>st_entries := filterAndNormalizeEntries s (cat_Schemas (cat :: catalog)), st_lastFetch := now\<rparr>)"
  unfolding refreshed_def by blast

lemma refreshed_ok: "store_ok s \<Longrightarrow> refreshed s s' \<Longrightarrow> store_ok s'"
  by (auto simp: store_ok_def refreshed_def filterAndNormalizeEntries_def entry_step_keeps)

lemma fetchCatalog_refreshes: "fetchCatalogLocked E parse_catalog ctx (s, w) = Some (err, s', w') \<Longrightarrow> refreshed s s'"
  by (auto simp: fetchCatalogLocked_def intro: refreshedI split: option.splits sum.splits prod.splits)

lemma ensureCatalog_refreshes: "ensureCatalog E parse_catalog ctx (s, w) = Some (err, s', w') \<Longrightarrow> refreshed s s'"
  using fetchCatalog_refreshes
  by (fastforce simp: ensureCatalog_def split: prod.splits bool.splits)

lemma find_entry_cases:
  "case find_entry glob_match path entries of
     None \<Rightarrow> \<forall>e \<in> set entries. \<not> MatchAnyWithBase glob_match path (ce_FileMatch e)
   | Some e \<Rightarrow> \<exists>pre post. entries = pre @ e # post \<and> MatchAnyWithBase glob_match path (ce_FileMatch e)
       \<and> (\<forall>e' \<in> set pre. \<not> MatchAnyWithBase glob_match path (ce_FileMatch e'))"
proof (induction entries)
  case (Cons entry entries)
  show ?case
  proof (cases "MatchAnyWithBase glob_match path (ce_FileMatch entry)")
    case True
    then show ?thesis by (auto intro: exI [of _ "[]"])
  next
    case False
    show ?thesis
    proof (cases "find_entry glob_match path entries")
      case None
      with Cons.IH False show ?thesis by simp
    next
      case (Some e)
      with Cons.IH obtain pre post where "entries = pre @ e # post" "MatchAnyWithBase glob_match path (ce_FileMatch e)"
        "\<forall>e' \<in> set pre. \<not> MatchAnyWithBase glob_match path (ce_FileMatch e')" by auto
      with False have "entry # entries = (entry # pre) @ e # post \<and> MatchAnyWithBase glob_match path (ce_FileMatch e)
        \<and> (\<forall>e' \<in> set (entry # pre). \<not> MatchAnyWithBase glob_match path (ce_FileMatch e'))" by simp
      moreover have "find_entry glob_match path (entry # entries) = Some e" using Some False by simp
      ultimately show ?thesis by (simp only: option.case) blast
    qed
  qed
qed simp

lemma FindMatch_refreshes:
  "FindMatch E parse_catalog glob_match ctx path (s, w) = Some (r, s', w')
    \<Longrightarrow> refreshed s s' \<and> r = (if path = [] then None else find_entry glob_match path (st_entries s'))"
  by (auto simp: FindMatch_def split: if_splits option.splits dest: ensureCatalog_refreshes)

definition standard_option :: "'c store_option \<Rightarrow> bool" where
  "standard_option opt \<longleftrightarrow> (\<exists>url. opt = WithCatalogURL url) \<or> (\<exists>c. opt = store_WithHTTPClient c)
     \<or> (\<exists>n. opt = WithCacheTTL n) \<or> (\<exists>n. opt = WithRefreshTimeout n) \<or> (\<exists>f. opt = WithFilter f)"

lemma standard_options_entries:
  "\<forall>opt \<in> set opts. standard_option opt \<Longrightarrow> st_entries (foldl (\<lambda>s opt. opt s) s opts) = st_entries s"
proof (induction opts arbitrary: s)
  case (Cons opt opts)
  then have "st_entries (opt s) = st_entries s"
    by (auto simp: standard_option_def WithCatalogURL_def store_WithHTTPClient_def WithCacheTTL_def WithRefreshTimeout_def WithFilter_def)
  with Cons show ?case by simp
qed simp

text \<open>The states a store can be in; the world may change at any time.\<close>

inductive store_reach ::
  "('c, 'x, 'w) environment \<Rightarrow> (string \<Rightarrow> string + catalog) \<Rightarrow> (string \<Rightarrow> string \<Rightarrow> bool option) \<Rightarrow> 'c schema_store \<Rightarrow> bool"
  for E parse_catalog glob_match where
  new: "New_store E parse_catalog ctx opts w = Some (Inr s, w') \<Longrightarrow> \<forall>opt \<in> set opts. standard_option opt
      \<Longrightarrow> store_reach E parse_catalog glob_match s"
| find: "store_reach E parse_catalog glob_match s
      \<Longrightarrow> FindMatch E parse_catalog glob_match ctx path (s, w) = Some (r, s', w') \<Longrightarrow> store_reach E parse_catalog glob_match s'"

lemma store_reach_ok: "store_reach E parse_catalog glob_match s \<Longrightarrow> store_ok s"
proof (induction rule: store_reach.induct)
  case (new ctx opts w s w')
  let ?s0 = "foldl (\<lambda>s opt. opt s) \<lparr>st_lastFetch = 0, st_client = ev_DefaultClient E, st_filter = None,
      st_catalogURL = defaultCatalogURL, st_entries = [], st_cacheTTL = defaultCacheTTL, st_refreshTimeout = defaultRefreshTimeout\<rparr> opts"
  have "store_ok ?s0" using standard_options_entries [OF new(2)] by (simp add: store_ok_def)
  moreover have "refreshed ?s0 s"
    using new(1) by (auto simp: New_store_def Let_def split: option.splits prod.splits dest!: ensureCatalog_refreshes)
  ultimately show ?case by (rule refreshed_ok)
next
  case (find s ctx path w r s' w')
  from find.IH FindMatch_refreshes [OF find.hyps(2)] show ?case by (blast intro: refreshed_ok)
qed

text \<open>\<open>Match\<close> and \<open>Load\<close> change the store as \<open>FindMatch\<close> does.\<close>

lemma store_Match_reach:
  "store_Match E parse_catalog glob_match ctx doc (s, w) = Some (b, s', w') \<Longrightarrow> store_reach E parse_catalog glob_match s
    \<Longrightarrow> store_reach E parse_catalog glob_match s'"
  by (auto simp: store_Match_def intro: store_reach.find)

lemma store_Load_reach:
  "store_Load E parse_catalog glob_match ctx doc (s, w) = Some (res, s', w') \<Longrightarrow> store_reach E parse_catalog glob_match s
    \<Longrightarrow> store_reach E parse_catalog glob_match s'"
  by (auto simp: store_Load_def split: option.splits intro: store_reach.find)


definition sample_catalog :: catalog where
  "sample_catalog = \<lparr>cat_Schemas = [\<lparr>ce_Name = ''ci'', ce_Description = [], ce_URL = ''u'', ce_FileMatch = [''ci.yaml'', ''ci.toml'']\<rparr>]\<rparr>"

definition sample_store :: "unit schema_store" where
  "sample_store = \<lparr>st_lastFetch = 103, st_client = (), st_filter = None, st_catalogURL = defaultCatalogURL,
     st_entries = [\<lparr>ce_Name = ''ci'', ce_Description = [], ce_URL = ''u'', ce_FileMatch = [''ci.yaml'']\<rparr>],
     st_cacheTTL = 5, st_refreshTimeout = defaultRefreshTimeout\<rparr>"

lemma sample_store_new:
  "New_store sample_environment (\<lambda>_. Inr sample_catalog) () [WithCacheTTL 5] 100 = Some (Inr sample_store, 104)"
proof -
  have "filterSupportedPatterns [''ci.yaml'', ''ci.toml''] = [''ci.yaml'']" by code_simp
  then show ?thesis
    by (simp add: New_store_def ensureCatalog_def catalog_fresh_def time_Since_def fetchCatalogLocked_def URL_loader_def
      loader_Func_def loader_WithHTTPClient_def read_limited_def NewResult_def maxSchemaSize_def WithCacheTTL_def
      sample_environment_def sample_catalog_def sample_store_def defaultCatalogURL_def filterAndNormalizeEntries_def entry_step_def)
qed

lemma sample_store_find:
  "FindMatch sample_environment (\<lambda>_. Inr sample_catalog) (\<lambda>p x. Some (p = x)) () ''a/ci.yaml'' (sample_store, 104)
    = Some (Some \<lparr>ce_Name = ''ci'', ce_Description = [], ce_URL = ''u'', ce_FileMatch = [''ci.yaml'']\<rparr>, sample_store, 105)"
proof -
  have "fp_Base ''a/ci.yaml'' = ''ci.yaml''" by code_simp
  then show ?thesis
    by (simp add: FindMatch_def ensureCatalog_def catalog_fresh_def time_Since_def MatchAnyWithBase_def
      sample_environment_def sample_store_def)
qed


text \<open>An empty catalog is answered with a panic, whatever the store holds.\<close>

lemma empty_catalog_panics:
  assumes "st_cacheTTL s \<le> 0" "\<not> ev_Done E ctx w" "path \<noteq> []"
    and "ev_Get E (st_client s) (ev_WithTimeout E ctx (st_refreshTimeout s)) (st_catalogURL s) w = (Response 200 [] None, w')"
  shows "FindMatch E parse_catalog glob_match ctx path (s, w) = None"
  using assms by (simp add: FindMatch_def ensureCatalog_def catalog_fresh_def fetchCatalogLocked_def URL_loader_def
    loader_Func_def loader_WithHTTPClient_def read_limited_def NewResult_def maxSchemaSize_def)

section \<open>Responses\<close>

text \<open>C31: a schema fetched over HTTP is the whole body of a good response: \<open>URL\<close> returns one exactly when the
  status is 200 and the body was read to its end and has at most ten megabytes; a longer body, even
  by one byte, is an error and never a shortened schema, and an error of reading is reported unless
  the limit was passed before it. Only an empty body makes it panic.\<close>

theorem URL_loader_exact:
  assumes "ev_Get E (foldl (\<lambda>cfg opt. opt cfg) (ev_DefaultClient E) opts) ctx url w = (Response status body err, w')"
  shows "URL_loader E url opts ctx doc w =
    (if status \<noteq> 200 then Some (Inl (Status url status), w')
     else if length body > 10485760 then Some (Inl (TooLarge url), w')
     else case err of Some e \<Rightarrow> Some (Inl (ReadResponse url e), w')
       | None \<Rightarrow> if body = [] then None
           else Some (Inr \<lparr>res_Validator = None, res_URL = url, res_Data = body\<rparr>, w'))"
  using assms by (auto simp: URL_loader_def loader_Func_def read_limited_def NewResult_def maxSchemaSize_def
    Let_def split: option.split)

theorem URL_loader_exact_witness:
  "URL_loader sample_environment ''u'' [] () (None :: (unit, unit) document_decoder option) 7
    = Some (Inr \<lparr>res_Validator = None, res_URL = ''u'', res_Data = ''u''\<rparr> :: load_error + unit load_result, 8)"
proof -
  have "ev_Get sample_environment (foldl (\<lambda>cfg opt. opt cfg) (ev_DefaultClient sample_environment) []) () ''u'' 7
    = (Response 200 ''u'' None, 8)" by (simp add: sample_environment_def)
  from URL_loader_exact [OF this] show ?thesis by simp
qed

end
