(* ===== verification/Lipgloss.thy ===== *)
theory Lipgloss
  imports Styles
begin

text \<open>
  What the themes use of lipgloss, as a record of parameters: the empty style, the setters of a style
  and the constructors of colours. \<open>lg_Lighten\<close> and \<open>lg_Darken\<close> take hundredths, 15 for 0.15. The
  named colours of charmtone are the type \<open>charmtone\<close>.
\<close>

datatype charmtone =
  Smoke | Pepper | Oyster | Cherry | Toast | Julep | Spinach | Butter | Sriracha
| Malibu | Cumin | Bengal | Mauve | Zest | Iron | Salt | Charcoal

record ('c, 's) lipgloss =
  lg_NewStyle :: 's
  lg_Foreground :: "'s \<Rightarrow> 'c \<Rightarrow> 's"
  lg_Background :: "'s \<Rightarrow> 'c \<Rightarrow> 's"
  lg_Bold :: "'s \<Rightarrow> bool \<Rightarrow> 's"
  lg_Italic :: "'s \<Rightarrow> bool \<Rightarrow> 's"
  lg_Underline :: "'s \<Rightarrow> bool \<Rightarrow> 's"
  lg_Color :: "string \<Rightarrow> 'c"
  lg_Lighten :: "'c \<Rightarrow> nat \<Rightarrow> 'c"
  lg_Darken :: "'c \<Rightarrow> nat \<Rightarrow> 'c"
  lg_Charmtone :: "charmtone \<Rightarrow> 'c"

text \<open>
  A lipgloss that only records the calls, for the concrete inputs: a colour is the call that made it, a
  style what was set on it.
\<close>

datatype call_color =
  Hex string
| Lighter call_color nat
| Darker call_color nat
| Tone charmtone

record call_style =
  cs_foreground :: "call_color option"
  cs_background :: "call_color option"
  cs_bold :: bool
  cs_italic :: bool
  cs_underline :: bool

definition recording :: "(call_color, call_style) lipgloss" where
  "recording = \<lparr>lg_NewStyle = \<lparr>cs_foreground = None, cs_background = None, cs_bold = False, cs_italic = False, cs_underline = False\<rparr>,
     lg_Foreground = (\<lambda>s c. s\<lparr>cs_foreground := Some c\<rparr>), lg_Background = (\<lambda>s c. s\<lparr>cs_background := Some c\<rparr>),
     lg_Bold = (\<lambda>s b. s\<lparr>cs_bold := b\<rparr>), lg_Italic = (\<lambda>s b. s\<lparr>cs_italic := b\<rparr>), lg_Underline = (\<lambda>s b. s\<lparr>cs_underline := b\<rparr>),
     lg_Color = Hex, lg_Lighten = Lighter, lg_Darken = Darker, lg_Charmtone = Tone\<rparr>"

end
