(* ===== verification/Themes_1.thy ===== *)
theory Themes_1
  imports Lipgloss
begin

text \<open>
  Package \<open>style/theme\<close>: the built-in themes from \<open>Abap\<close> to \<open>DoomOne\<close>, each the function of its file.
\<close>

definition Abap :: "('c, 's) lipgloss \<Rightarrow> 's styles" where
  "Abap G = (let base = lg_Background G (lg_Foreground G (lg_NewStyle G) (lg_Color G ''#000000'')) (lg_Color G ''#ffffff'') in NewStyles base
    [Set_option style_Comment (lg_Italic G (lg_Foreground G base (lg_Color G ''#888888'')) True),
     Set_option style_LiteralNumber (lg_Foreground G base (lg_Color G ''#33aaff'')),
     Set_option style_LiteralString (lg_Foreground G base (lg_Color G ''#55aa22'')),
     Set_option style_Name (lg_Foreground G base (lg_Color G ''#000000'')),
     Set_option style_GenericError (lg_Foreground G base (lg_Color G ''#ff0000'')),
     Set_option style_NameTag (lg_Foreground G base (lg_Color G ''#0000ff'')),
     Set_option style_Punctuation (lg_Foreground G base (lg_Color G ''#0000ff'')),
     Set_option style_GenericHeading (lg_Bold G (lg_Background G (lg_Foreground G (lg_NewStyle G) (lg_Color G ''#ffffff'')) (lg_Color G ''#0000ff'')) True),
     Set_option style_GenericHeadingAccent (lg_Foreground G (lg_Background G base (lg_Darken G (lg_Color G ''#ffffff'') 30)) (lg_Darken G (lg_Color G ''#000000'') 15)),
     Set_option style_GenericHeadingSubtle (lg_Background G base (lg_Darken G (lg_Color G ''#ffffff'') 15)),
     Set_option style_TextAccentDim (lg_Foreground G base (lg_Darken G (lg_Color G ''#0000ff'') 15)),
     Set_option style_TextAccent (lg_Foreground G base (lg_Color G ''#0000ff'')),
     Set_option style_TextSubtleDim (lg_Foreground G base (lg_Lighten G (lg_Color G ''#000000'') 15)),
     Set_option style_TextSubtle (lg_Foreground G base (lg_Color G ''#000000'')),
     Set_option style_GenericHighlightDim (lg_Background G (lg_NewStyle G) (lg_Darken G (lg_Color G ''#ffffff'') 15)),
     Set_option style_GenericHighlight (lg_Background G (lg_NewStyle G) (lg_Darken G (lg_Color G ''#ffffff'') 30)),
     Set_option style_GenericHeadingOK (lg_Bold G (lg_Background G (lg_Foreground G (lg_NewStyle G) (lg_Color G ''#ffffff'')) (lg_Color G ''#22863a'')) True),
     Set_option style_GenericHeadingWarn (lg_Bold G (lg_Background G (lg_Foreground G (lg_NewStyle G) (lg_Color G ''#ffffff'')) (lg_Color G ''#b07d2b'')) True),
     Set_option style_GenericHeadingError (lg_Bold G (lg_Background G (lg_Foreground G (lg_NewStyle G) (lg_Color G ''#ffffff'')) (lg_Color G ''#cb2431'')) True),
     Set_option style_TextOK (lg_Foreground G base (lg_Color G ''#22863a'')),
     Set_option style_TextWarn (lg_Foreground G base (lg_Color G ''#b07d2b'')),
     Set_option style_TextError (lg_Foreground G base (lg_Color G ''#cb2431''))])"

definition Algol :: "('c, 's) lipgloss \<Rightarrow> 's styles" where
  "Algol G = (let base = lg_Background G (lg_Foreground G (lg_NewStyle G) (lg_Color G ''#000000'')) (lg_Color G ''#ffffff'') in NewStyles base
    [Set_option style_Comment (lg_Italic G (lg_Foreground G base (lg_Color G ''#888888'')) True),
     Set_option style_LiteralString (lg_Italic G (lg_Foreground G base (lg_Color G ''#666666'')) True),
     Set_option style_NameDecorator (lg_Bold G (lg_Foreground G base (lg_Color G ''#888888'')) True),
     Set_option style_NameTag (lg_Underline G (lg_Bold G base True) True),
     Set_option style_Name (lg_Italic G (lg_Bold G base True) True),
     Set_option style_PunctuationHeading (lg_Italic G (lg_Bold G (lg_Foreground G base (lg_Color G ''#666666'')) True) True),
     Set_option style_Punctuation (lg_Bold G base True),
     Set_option style_GenericHeading (lg_Bold G (lg_Background G (lg_Foreground G (lg_NewStyle G) (lg_Color G ''#ffffff'')) (lg_Color G ''#000000'')) True),
     Set_option style_GenericHeadingAccent (lg_Foreground G (lg_Background G base (lg_Darken G (lg_Color G ''#ffffff'') 30)) (lg_Darken G (lg_Color G ''#000000'') 15)),
     Set_option style_GenericHeadingSubtle (lg_Background G base (lg_Darken G (lg_Color G ''#ffffff'') 15)),
     Set_option style_TextAccentDim (lg_Foreground G base (lg_Darken G (lg_Color G ''#000000'') 15)),
     Set_option style_TextAccent (lg_Foreground G base (lg_Color G ''#000000'')),
     Set_option style_TextSubtleDim (lg_Foreground G base (lg_Lighten G (lg_Color G ''#000000'') 15)),
     Set_option style_TextSubtle (lg_Foreground G base (lg_Color G ''#000000'')),
     Set_option style_GenericHighlightDim (lg_Background G (lg_NewStyle G) (lg_Darken G (lg_Color G ''#ffffff'') 15)),
     Set_option style_GenericHighlight (lg_Background G (lg_NewStyle G) (lg_Darken G (lg_Color G ''#ffffff'') 30)),
     Set_option style_GenericHeadingOK (lg_Bold G (lg_Background G (lg_Foreground G (lg_NewStyle G) (lg_Color G ''#ffffff'')) (lg_Color G ''#22863a'')) True),
     Set_option style_GenericHeadingWarn (lg_Bold G (lg_Background G (lg_Foreground G (lg_NewStyle G) (lg_Color G ''#ffffff'')) (lg_Color G ''#b07d2b'')) True),
     Set_option style_GenericHeadingError (lg_Bold G (lg_Background G (lg_Foreground G (lg_NewStyle G) (lg_Color G ''#ffffff'')) (lg_Color G ''#cb2431'')) True),
     Set_option style_TextOK (lg_Foreground G base (lg_Color G ''#22863a'')),
     Set_option style_TextWarn (lg_Foreground G base (lg_Color G ''#b07d2b'')),
     Set_option style_TextError (lg_Foreground G base (lg_Color G ''#cb2431''))])"

definition AlgolNu :: "('c, 's) lipgloss \<Rightarrow> 's styles" where
  "AlgolNu G = (let base = lg_Background G (lg_Foreground G (lg_NewStyle G) (lg_Color G ''#000000'')) (lg_Color G ''#ffffff'') in NewStyles base
    [Set_option style_Comment (lg_Italic G (lg_Foreground G base (lg_Color G ''#888888'')) True),
     Set_option style_LiteralString (lg_Italic G (lg_Foreground G base (lg_Color G ''#666666'')) True),
     Set_option style_NameDecorator (lg_Bold G (lg_Foreground G base (lg_Color G ''#888888'')) True),
     Set_option style_NameTag (lg_Bold G base True),
     Set_option style_Name (lg_Italic G (lg_Bold G base True) True),
     Set_option style_PunctuationHeading (lg_Italic G (lg_Bold G (lg_Foreground G base (lg_Color G ''#666666'')) True) True),
     Set_option style_Punctuation (lg_Bold G base True),
     Set_option style_GenericHeading (lg_Bold G (lg_Background G (lg_Foreground G (lg_NewStyle G) (lg_Color G ''#ffffff'')) (lg_Color G ''#000000'')) True),
     Set_option style_GenericHeadingAccent (lg_Foreground G (lg_Background G base (lg_Darken G (lg_Color G ''#ffffff'') 30)) (lg_Darken G (lg_Color G ''#000000'') 15)),
     Set_option style_GenericHeadingSubtle (lg_Background G base (lg_Darken G (lg_Color G ''#ffffff'') 15)),
     Set_option style_TextAccentDim (lg_Foreground G base (lg_Darken G (lg_Color G ''#000000'') 15)),
     Set_option style_TextAccent (lg_Foreground G base (lg_Color G ''#000000'')),
     Set_option style_TextSubtleDim (lg_Foreground G base (lg_Lighten G (lg_Color G ''#000000'') 15)),
     Set_option style_TextSubtle (lg_Foreground G base (lg_Color G ''#000000'')),
     Set_option style_GenericHighlightDim (lg_Background G (lg_NewStyle G) (lg_Darken G (lg_Color G ''#ffffff'') 15)),
     Set_option style_GenericHighlight (lg_Background G (lg_NewStyle G) (lg_Darken G (lg_Color G ''#ffffff'') 30)),
     Set_option style_GenericHeadingOK (lg_Bold G (lg_Background G (lg_Foreground G (lg_NewStyle G) (lg_Color G ''#ffffff'')) (lg_Color G ''#22863a'')) True),
     Set_option style_GenericHeadingWarn (lg_Bold G (lg_Background G (lg_Foreground G (lg_NewStyle G) (lg_Color G ''#ffffff'')) (lg_Color G ''#b07d2b'')) True),
     Set_option style_GenericHeadingError (lg_Bold G (lg_Background G (lg_Foreground G (lg_NewStyle G) (lg_Color G ''#ffffff'')) (lg_Color G ''#cb2431'')) True),
     Set_option style_TextOK (lg_Foreground G base (lg_Color G ''#22863a'')),
     Set_option style_TextWarn (lg_Foreground G base (lg_Color G ''#b07d2b'')),
     Set_option style_TextError (lg_Foreground G base (lg_Color G ''#cb2431''))])"

definition Arduino :: "('c, 's) lipgloss \<Rightarrow> 's styles" where
  "Arduino G = (let base = lg_Background G (lg_Foreground G (lg_NewStyle G) (lg_Color G ''#000000'')) (lg_Color G ''#ffffff'') in NewStyles base
    [Set_option style_Comment (lg_Foreground G base (lg_Color G ''#95a5a6'')),
     Set_option style_LiteralNumber (lg_Foreground G base (lg_Color G ''#8a7b52'')),
     Set_option style_LiteralString (lg_Foreground G base (lg_Color G ''#7f8c8d'')),
     Set_option style_Name (lg_Foreground G base (lg_Color G ''#434f54'')),
     Set_option style_NameDecorator (lg_Foreground G base (lg_Color G ''#728e00'')),
     Set_option style_GenericError (lg_Foreground G base (lg_Color G ''#a61717'')),
     Set_option style_NameTag (lg_Foreground G base (lg_Color G ''#728e00'')),
     Set_option style_LiteralBoolean (lg_Foreground G base (lg_Color G ''#00979d'')),
     Set_option style_Punctuation (lg_Foreground G base (lg_Color G ''#728e00'')),
     Set_option style_GenericHeading (lg_Bold G (lg_Background G (lg_Foreground G (lg_NewStyle G) (lg_Color G ''#ffffff'')) (lg_Color G ''#728e00'')) True),
     Set_option style_GenericHeadingAccent (lg_Foreground G (lg_Background G base (lg_Darken G (lg_Color G ''#ffffff'') 30)) (lg_Darken G (lg_Color G ''#000000'') 15)),
     Set_option style_GenericHeadingSubtle (lg_Background G base (lg_Darken G (lg_Color G ''#ffffff'') 15)),
     Set_option style_TextAccentDim (lg_Foreground G base (lg_Darken G (lg_Color G ''#728e00'') 15)),
     Set_option style_TextAccent (lg_Foreground G base (lg_Color G ''#728e00'')),
     Set_option style_TextSubtleDim (lg_Foreground G base (lg_Lighten G (lg_Color G ''#000000'') 15)),
     Set_option style_TextSubtle (lg_Foreground G base (lg_Color G ''#000000'')),
     Set_option style_GenericHighlightDim (lg_Background G (lg_NewStyle G) (lg_Darken G (lg_Color G ''#ffffff'') 15)),
     Set_option style_GenericHighlight (lg_Background G (lg_NewStyle G) (lg_Darken G (lg_Color G ''#ffffff'') 30)),
     Set_option style_GenericHeadingOK (lg_Bold G (lg_Background G (lg_Foreground G (lg_NewStyle G) (lg_Color G ''#ffffff'')) (lg_Color G ''#22863a'')) True),
     Set_option style_GenericHeadingWarn (lg_Bold G (lg_Background G (lg_Foreground G (lg_NewStyle G) (lg_Color G ''#ffffff'')) (lg_Color G ''#d08700'')) True),
     Set_option style_GenericHeadingError (lg_Bold G (lg_Background G (lg_Foreground G (lg_NewStyle G) (lg_Color G ''#ffffff'')) (lg_Color G ''#cb2431'')) True),
     Set_option style_TextOK (lg_Foreground G base (lg_Color G ''#22863a'')),
     Set_option style_TextWarn (lg_Foreground G base (lg_Color G ''#d08700'')),
     Set_option style_TextError (lg_Foreground G base (lg_Color G ''#cb2431''))])"

definition Ashen :: "('c, 's) lipgloss \<Rightarrow> 's styles" where
  "Ashen G = (let base = lg_Background G (lg_Foreground G (lg_NewStyle G) (lg_Color G ''#b4b4b4'')) (lg_Color G ''#121212'') in NewStyles base
    [Set_option style_Comment (lg_Italic G (lg_Foreground G base (lg_Color G ''#737373'')) True),
     Set_option style_Generic (lg_Foreground G base (lg_Color G ''#b4b4b4'')),
     Set_option style_GenericDeleted (lg_Foreground G base (lg_Color G ''#C53030'')),
     Set_option style_GenericError (lg_Foreground G base (lg_Color G ''#C53030'')),
     Set_option style_GenericInserted (lg_Bold G (lg_Foreground G base (lg_Color G ''#b4b4b4'')) True),
     Set_option style_LiteralNumber (lg_Foreground G base (lg_Color G ''#4A8B8B'')),
     Set_option style_LiteralNumberBin (lg_Foreground G base (lg_Color G ''#4A8B8B'')),
     Set_option style_LiteralNumberFloat (lg_Foreground G base (lg_Color G ''#4A8B8B'')),
     Set_option style_LiteralNumberHex (lg_Foreground G base (lg_Color G ''#4A8B8B'')),
     Set_option style_LiteralNumberInteger (lg_Foreground G base (lg_Color G ''#4A8B8B'')),
     Set_option style_LiteralNumberOct (lg_Foreground G base (lg_Color G ''#4A8B8B'')),
     Set_option style_LiteralString (lg_Foreground G base (lg_Color G ''#DF6464'')),
     Set_option style_LiteralStringDouble (lg_Foreground G base (lg_Color G ''#DF6464'')),
     Set_option style_LiteralStringSingle (lg_Foreground G base (lg_Color G ''#DF6464'')),
     Set_option style_Name (lg_Foreground G base (lg_Color G ''#b4b4b4'')),
     Set_option style_NameDecorator (lg_Italic G (lg_Bold G (lg_Foreground G base (lg_Color G ''#b4b4b4'')) True) True),
     Set_option style_NameTag (lg_Italic G (lg_Foreground G base (lg_Color G ''#D87C4A'')) True),
     Set_option style_Punctuation (lg_Foreground G base (lg_Color G ''#d5d5d5'')),
     Set_option style_LiteralBoolean (lg_Foreground G base (lg_Color G ''#4A8B8B'')),
     Set_option style_PunctuationHeading (lg_Bold G (lg_Foreground G base (lg_Color G ''#D87C4A'')) True),
     Set_option style_GenericHeading (lg_Bold G (lg_Background G (lg_Foreground G (lg_NewStyle G) (lg_Color G ''#121212'')) (lg_Color G ''#D87C4A'')) True),
     Set_option style_GenericHeadingAccent (lg_Foreground G (lg_Background G base (lg_Lighten G (lg_Color G ''#121212'') 30)) (lg_Lighten G (lg_Color G ''#b4b4b4'') 15)),
     Set_option style_GenericHeadingSubtle (lg_Background G base (lg_Lighten G (lg_Color G ''#121212'') 15)),
     Set_option style_TextAccentDim (lg_Foreground G base (lg_Lighten G (lg_Color G ''#D87C4A'') 15)),
     Set_option style_TextAccent (lg_Foreground G base (lg_Color G ''#D87C4A'')),
     Set_option style_TextSubtleDim (lg_Foreground G base (lg_Darken G (lg_Color G ''#b4b4b4'') 15)),
     Set_option style_TextSubtle (lg_Foreground G base (lg_Color G ''#b4b4b4'')),
     Set_option style_GenericHighlightDim (lg_Background G (lg_NewStyle G) (lg_Lighten G (lg_Color G ''#121212'') 15)),
     Set_option style_GenericHighlight (lg_Background G (lg_NewStyle G) (lg_Lighten G (lg_Color G ''#121212'') 30)),
     Set_option style_GenericHeadingOK (lg_Bold G (lg_Background G (lg_Foreground G (lg_NewStyle G) (lg_Color G ''#121212'')) (lg_Color G ''#b4b4b4'')) True),
     Set_option style_GenericHeadingWarn (lg_Bold G (lg_Background G (lg_Foreground G (lg_NewStyle G) (lg_Color G ''#121212'')) (lg_Color G ''#e8b57e'')) True),
     Set_option style_GenericHeadingError (lg_Bold G (lg_Background G (lg_Foreground G (lg_NewStyle G) (lg_Color G ''#121212'')) (lg_Color G ''#C53030'')) True),
     Set_option style_TextOK (lg_Foreground G base (lg_Color G ''#b4b4b4'')),
     Set_option style_TextWarn (lg_Foreground G base (lg_Color G ''#e8b57e'')),
     Set_option style_TextError (lg_Foreground G base (lg_Color G ''#C53030''))])"

definition AuraThemeDark :: "('c, 's) lipgloss \<Rightarrow> 's styles" where
  "AuraThemeDark G = (let base = lg_Background G (lg_Foreground G (lg_NewStyle G) (lg_Color G ''#edecee'')) (lg_Color G ''#15141b'') in NewStyles base
    [Set_option style_Comment (lg_Italic G (lg_Foreground G base (lg_Color G ''#6d6d6d'')) True),
     Set_option style_Generic (lg_Foreground G base (lg_Color G ''#edecee'')),
     Set_option style_GenericDeleted (lg_Background G (lg_Foreground G base (lg_Color G ''#ff6767'')) (lg_Color G ''#15141b'')),
     Set_option style_GenericError (lg_Foreground G base (lg_Color G ''#ff6767'')),
     Set_option style_GenericInserted (lg_Background G (lg_Foreground G base (lg_Color G ''#61ffca'')) (lg_Color G ''#15141b'')),
     Set_option style_LiteralNumber (lg_Foreground G base (lg_Color G ''#61ffca'')),
     Set_option style_LiteralNumberBin (lg_Foreground G base (lg_Color G ''#61ffca'')),
     Set_option style_LiteralNumberFloat (lg_Foreground G base (lg_Color G ''#61ffca'')),
     Set_option style_LiteralNumberHex (lg_Foreground G base (lg_Color G ''#61ffca'')),
     Set_option style_LiteralNumberInteger (lg_Foreground G base (lg_Color G ''#61ffca'')),
     Set_option style_LiteralNumberOct (lg_Foreground G base (lg_Color G ''#61ffca'')),
     Set_option style_LiteralString (lg_Foreground G base (lg_Color G ''#61ffca'')),
     Set_option style_LiteralStringDouble (lg_Foreground G base (lg_Color G ''#61ffca'')),
     Set_option style_LiteralStringSingle (lg_Foreground G base (lg_Color G ''#61ffca'')),
     Set_option style_Name (lg_Foreground G base (lg_Color G ''#edecee'')),
     Set_option style_NameDecorator (lg_Foreground G base (lg_Color G ''#f694ff'')),
     Set_option style_NameTag (lg_Foreground G base (lg_Color G ''#a277ff'')),
     Set_option style_Punctuation (lg_Foreground G base (lg_Color G ''#f694ff'')),
     Set_option style_CommentPreproc (lg_Italic G (lg_Foreground G base (lg_Color G ''#6d6d6d'')) True),
     Set_option style_LiteralBoolean (lg_Foreground G base (lg_Color G ''#61ffca'')),
     Set_option style_PunctuationHeading (lg_Foreground G base (lg_Color G ''#edecee'')),
     Set_option style_GenericHeading (lg_Bold G (lg_Background G (lg_Foreground G (lg_NewStyle G) (lg_Color G ''#15141b'')) (lg_Color G ''#a277ff'')) True),
     Set_option style_GenericHeadingAccent (lg_Foreground G (lg_Background G base (lg_Lighten G (lg_Color G ''#15141b'') 30)) (lg_Lighten G (lg_Color G ''#edecee'') 15)),
     Set_option style_GenericHeadingSubtle (lg_Background G base (lg_Lighten G (lg_Color G ''#15141b'') 15)),
     Set_option style_TextAccentDim (lg_Foreground G base (lg_Lighten G (lg_Color G ''#a277ff'') 15)),
     Set_option style_TextAccent (lg_Foreground G base (lg_Color G ''#a277ff'')),
     Set_option style_TextSubtleDim (lg_Foreground G base (lg_Darken G (lg_Color G ''#edecee'') 15)),
     Set_option style_TextSubtle (lg_Foreground G base (lg_Color G ''#edecee'')),
     Set_option style_GenericHighlightDim (lg_Background G (lg_NewStyle G) (lg_Lighten G (lg_Color G ''#15141b'') 15)),
     Set_option style_GenericHighlight (lg_Background G (lg_NewStyle G) (lg_Lighten G (lg_Color G ''#15141b'') 30)),
     Set_option style_GenericHeadingOK (lg_Bold G (lg_Background G (lg_Foreground G (lg_NewStyle G) (lg_Color G ''#15141b'')) (lg_Color G ''#61ffca'')) True),
     Set_option style_GenericHeadingWarn (lg_Bold G (lg_Background G (lg_Foreground G (lg_NewStyle G) (lg_Color G ''#15141b'')) (lg_Color G ''#ffca85'')) True),
     Set_option style_GenericHeadingError (lg_Bold G (lg_Background G (lg_Foreground G (lg_NewStyle G) (lg_Color G ''#15141b'')) (lg_Color G ''#ff6767'')) True),
     Set_option style_TextOK (lg_Foreground G base (lg_Color G ''#61ffca'')),
     Set_option style_TextWarn (lg_Foreground G base (lg_Color G ''#ffca85'')),
     Set_option style_TextError (lg_Foreground G base (lg_Color G ''#ff6767''))])"

definition AuraThemeDarkSoft :: "('c, 's) lipgloss \<Rightarrow> 's styles" where
  "AuraThemeDarkSoft G = (let base = lg_Background G (lg_Foreground G (lg_NewStyle G) (lg_Color G ''#bdbdbd'')) (lg_Color G ''#15141b'') in NewStyles base
    [Set_option style_Comment (lg_Italic G (lg_Foreground G base (lg_Color G ''#6d6d6d'')) True),
     Set_option style_Generic (lg_Foreground G base (lg_Color G ''#bdbdbd'')),
     Set_option style_GenericDeleted (lg_Background G (lg_Foreground G base (lg_Color G ''#c55858'')) (lg_Color G ''#15141b'')),
     Set_option style_GenericError (lg_Foreground G base (lg_Color G ''#c55858'')),
     Set_option style_GenericInserted (lg_Background G (lg_Foreground G base (lg_Color G ''#54c59f'')) (lg_Color G ''#15141b'')),
     Set_option style_LiteralNumber (lg_Foreground G base (lg_Color G ''#54c59f'')),
     Set_option style_LiteralNumberBin (lg_Foreground G base (lg_Color G ''#54c59f'')),
     Set_option style_LiteralNumberFloat (lg_Foreground G base (lg_Color G ''#54c59f'')),
     Set_option style_LiteralNumberHex (lg_Foreground G base (lg_Color G ''#54c59f'')),
     Set_option style_LiteralNumberInteger (lg_Foreground G base (lg_Color G ''#54c59f'')),
     Set_option style_LiteralNumberOct (lg_Foreground G base (lg_Color G ''#54c59f'')),
     Set_option style_LiteralString (lg_Foreground G base (lg_Color G ''#54c59f'')),
     Set_option style_LiteralStringDouble (lg_Foreground G base (lg_Color G ''#54c59f'')),
     Set_option style_LiteralStringSingle (lg_Foreground G base (lg_Color G ''#54c59f'')),
     Set_option style_Name (lg_Foreground G base (lg_Color G ''#bdbdbd'')),
     Set_option style_NameDecorator (lg_Foreground G base (lg_Color G ''#c17ac8'')),
     Set_option style_NameTag (lg_Foreground G base (lg_Color G ''#8464c6'')),
     Set_option style_Punctuation (lg_Foreground G base (lg_Color G ''#c17ac8'')),
     Set_option style_CommentPreproc (lg_Italic G (lg_Foreground G base (lg_Color G ''#6d6d6d'')) True),
     Set_option style_LiteralBoolean (lg_Foreground G base (lg_Color G ''#54c59f'')),
     Set_option style_PunctuationHeading (lg_Foreground G base (lg_Color G ''#bdbdbd'')),
     Set_option style_GenericHeading (lg_Bold G (lg_Background G (lg_Foreground G (lg_NewStyle G) (lg_Color G ''#15141b'')) (lg_Color G ''#8464c6'')) True),
     Set_option style_GenericHeadingAccent (lg_Foreground G (lg_Background G base (lg_Lighten G (lg_Color G ''#15141b'') 30)) (lg_Lighten G (lg_Color G ''#bdbdbd'') 15)),
     Set_option style_GenericHeadingSubtle (lg_Background G base (lg_Lighten G (lg_Color G ''#15141b'') 15)),
     Set_option style_TextAccentDim (lg_Foreground G base (lg_Lighten G (lg_Color G ''#8464c6'') 15)),
     Set_option style_TextAccent (lg_Foreground G base (lg_Color G ''#8464c6'')),
     Set_option style_TextSubtleDim (lg_Foreground G base (lg_Darken G (lg_Color G ''#bdbdbd'') 15)),
     Set_option style_TextSubtle (lg_Foreground G base (lg_Color G ''#bdbdbd'')),
     Set_option style_GenericHighlightDim (lg_Background G (lg_NewStyle G) (lg_Lighten G (lg_Color G ''#15141b'') 15)),
     Set_option style_GenericHighlight (lg_Background G (lg_NewStyle G) (lg_Lighten G (lg_Color G ''#15141b'') 30)),
     Set_option style_GenericHeadingOK (lg_Bold G (lg_Background G (lg_Foreground G (lg_NewStyle G) (lg_Color G ''#15141b'')) (lg_Color G ''#54c59f'')) True),
     Set_option style_GenericHeadingWarn (lg_Bold G (lg_Background G (lg_Foreground G (lg_NewStyle G) (lg_Color G ''#15141b'')) (lg_Color G ''#ffca85'')) True),
     Set_option style_GenericHeadingError (lg_Bold G (lg_Background G (lg_Foreground G (lg_NewStyle G) (lg_Color G ''#15141b'')) (lg_Color G ''#c55858'')) True),
     Set_option style_TextOK (lg_Foreground G base (lg_Color G ''#54c59f'')),
     Set_option style_TextWarn (lg_Foreground G base (lg_Color G ''#ffca85'')),
     Set_option style_TextError (lg_Foreground G base (lg_Color G ''#c55858''))])"

definition Autumn :: "('c, 's) lipgloss \<Rightarrow> 's styles" where
  "Autumn G = (let base = lg_Background G (lg_Foreground G (lg_NewStyle G) (lg_Color G ''#000000'')) (lg_Color G ''#ffffff'') in NewStyles base
    [Set_option style_Comment (lg_Italic G (lg_Foreground G base (lg_Color G ''#aaaaaa'')) True),
     Set_option style_GenericDeleted (lg_Foreground G base (lg_Color G ''#aa0000'')),
     Set_option style_GenericError (lg_Foreground G base (lg_Color G ''#aa0000'')),
     Set_option style_GenericInserted (lg_Foreground G base (lg_Color G ''#00aa00'')),
     Set_option style_LiteralNumber (lg_Foreground G base (lg_Color G ''#009999'')),
     Set_option style_LiteralString (lg_Foreground G base (lg_Color G ''#aa5500'')),
     Set_option style_NameDecorator (lg_Foreground G base (lg_Color G ''#888888'')),
     Set_option style_NameTag (lg_Bold G (lg_Foreground G base (lg_Color G ''#1e90ff'')) True),
     Set_option style_Generic (lg_Italic G base True),
     Set_option style_Name (lg_Foreground G base (lg_Color G ''#00aaaa'')),
     Set_option style_PunctuationHeading (lg_Underline G (lg_Foreground G base (lg_Color G ''#00aaaa'')) True),
     Set_option style_Punctuation (lg_Foreground G base (lg_Color G ''#0000aa'')),
     Set_option style_GenericHeading (lg_Bold G (lg_Background G (lg_Foreground G (lg_NewStyle G) (lg_Color G ''#ffffff'')) (lg_Color G ''#1e90ff'')) True),
     Set_option style_GenericHeadingAccent (lg_Foreground G (lg_Background G base (lg_Darken G (lg_Color G ''#ffffff'') 30)) (lg_Darken G (lg_Color G ''#000000'') 15)),
     Set_option style_GenericHeadingSubtle (lg_Background G base (lg_Darken G (lg_Color G ''#ffffff'') 15)),
     Set_option style_TextAccentDim (lg_Foreground G base (lg_Darken G (lg_Color G ''#1e90ff'') 15)),
     Set_option style_TextAccent (lg_Foreground G base (lg_Color G ''#1e90ff'')),
     Set_option style_TextSubtleDim (lg_Foreground G base (lg_Lighten G (lg_Color G ''#000000'') 15)),
     Set_option style_TextSubtle (lg_Foreground G base (lg_Color G ''#000000'')),
     Set_option style_GenericHighlightDim (lg_Background G (lg_NewStyle G) (lg_Darken G (lg_Color G ''#ffffff'') 15)),
     Set_option style_GenericHighlight (lg_Background G (lg_NewStyle G) (lg_Darken G (lg_Color G ''#ffffff'') 30)),
     Set_option style_GenericHeadingOK (lg_Bold G (lg_Background G (lg_Foreground G (lg_NewStyle G) (lg_Color G ''#ffffff'')) (lg_Color G ''#00aa00'')) True),
     Set_option style_GenericHeadingWarn (lg_Bold G (lg_Background G (lg_Foreground G (lg_NewStyle G) (lg_Color G ''#ffffff'')) (lg_Color G ''#aa5500'')) True),
     Set_option style_GenericHeadingError (lg_Bold G (lg_Background G (lg_Foreground G (lg_NewStyle G) (lg_Color G ''#ffffff'')) (lg_Color G ''#aa0000'')) True),
     Set_option style_TextOK (lg_Foreground G base (lg_Color G ''#00aa00'')),
     Set_option style_TextWarn (lg_Foreground G base (lg_Color G ''#aa5500'')),
     Set_option style_TextError (lg_Foreground G base (lg_Color G ''#aa0000''))])"

definition Average :: "('c, 's) lipgloss \<Rightarrow> 's styles" where
  "Average G = (let base = lg_Background G (lg_Foreground G (lg_NewStyle G) (lg_Color G ''#757575'')) (lg_Color G ''#000000'') in NewStyles base
    [Set_option style_Comment (lg_Foreground G base (lg_Color G ''#757575'')),
     Set_option style_Generic (lg_Foreground G base (lg_Color G ''#757575'')),
     Set_option style_GenericDeleted (lg_Foreground G base (lg_Color G ''#ec0000'')),
     Set_option style_GenericError (lg_Foreground G base (lg_Color G ''#ec0000'')),
     Set_option style_GenericInserted (lg_Bold G (lg_Foreground G base (lg_Color G ''#757575'')) True),
     Set_option style_LiteralNumber (lg_Foreground G base (lg_Color G ''#008900'')),
     Set_option style_LiteralNumberBin (lg_Foreground G base (lg_Color G ''#008900'')),
     Set_option style_LiteralNumberFloat (lg_Foreground G base (lg_Color G ''#008900'')),
     Set_option style_LiteralNumberHex (lg_Foreground G base (lg_Color G ''#008900'')),
     Set_option style_LiteralNumberInteger (lg_Foreground G base (lg_Color G ''#008900'')),
     Set_option style_LiteralNumberOct (lg_Foreground G base (lg_Color G ''#008900'')),
     Set_option style_LiteralString (lg_Foreground G base (lg_Color G ''#008900'')),
     Set_option style_LiteralStringDouble (lg_Foreground G base (lg_Color G ''#008900'')),
     Set_option style_LiteralStringSingle (lg_Foreground G base (lg_Color G ''#008900'')),
     Set_option style_Name (lg_Foreground G base (lg_Color G ''#757575'')),
     Set_option style_NameDecorator (lg_Foreground G base (lg_Color G ''#008900'')),
     Set_option style_NameTag (lg_Foreground G base (lg_Color G ''#ec0000'')),
     Set_option style_Punctuation (lg_Foreground G base (lg_Color G ''#757575'')),
     Set_option style_LiteralBoolean (lg_Foreground G base (lg_Color G ''#ec0000'')),
     Set_option style_PunctuationHeading (lg_Foreground G base (lg_Color G ''#757575'')),
     Set_option style_GenericHeading (lg_Bold G (lg_Background G (lg_Foreground G (lg_NewStyle G) (lg_Color G ''#000000'')) (lg_Color G ''#ec0000'')) True),
     Set_option style_GenericHeadingAccent (lg_Foreground G (lg_Background G base (lg_Lighten G (lg_Color G ''#000000'') 30)) (lg_Lighten G (lg_Color G ''#757575'') 15)),
     Set_option style_GenericHeadingSubtle (lg_Background G base (lg_Lighten G (lg_Color G ''#000000'') 15)),
     Set_option style_TextAccentDim (lg_Foreground G base (lg_Lighten G (lg_Color G ''#ec0000'') 15)),
     Set_option style_TextAccent (lg_Foreground G base (lg_Color G ''#ec0000'')),
     Set_option style_TextSubtleDim (lg_Foreground G base (lg_Darken G (lg_Color G ''#757575'') 15)),
     Set_option style_TextSubtle (lg_Foreground G base (lg_Color G ''#757575'')),
     Set_option style_GenericHighlightDim (lg_Background G (lg_NewStyle G) (lg_Lighten G (lg_Color G ''#000000'') 15)),
     Set_option style_GenericHighlight (lg_Background G (lg_NewStyle G) (lg_Lighten G (lg_Color G ''#000000'') 30)),
     Set_option style_GenericHeadingOK (lg_Bold G (lg_Background G (lg_Foreground G (lg_NewStyle G) (lg_Color G ''#000000'')) (lg_Color G ''#5faf5f'')) True),
     Set_option style_GenericHeadingWarn (lg_Bold G (lg_Background G (lg_Foreground G (lg_NewStyle G) (lg_Color G ''#000000'')) (lg_Color G ''#e5c07b'')) True),
     Set_option style_GenericHeadingError (lg_Bold G (lg_Background G (lg_Foreground G (lg_NewStyle G) (lg_Color G ''#000000'')) (lg_Color G ''#ec0000'')) True),
     Set_option style_TextOK (lg_Foreground G base (lg_Color G ''#5faf5f'')),
     Set_option style_TextWarn (lg_Foreground G base (lg_Color G ''#e5c07b'')),
     Set_option style_TextError (lg_Foreground G base (lg_Color G ''#ec0000''))])"

definition Base16Snazzy :: "('c, 's) lipgloss \<Rightarrow> 's styles" where
  "Base16Snazzy G = (let base = lg_Background G (lg_Foreground G (lg_NewStyle G) (lg_Color G ''#e2e4e5'')) (lg_Color G ''#282a36'') in NewStyles base
    [Set_option style_Comment (lg_Foreground G base (lg_Color G ''#78787e'')),
     Set_option style_Generic (lg_Foreground G base (lg_Color G ''#e2e4e5'')),
     Set_option style_GenericDeleted (lg_Foreground G base (lg_Color G ''#ff5c57'')),
     Set_option style_GenericError (lg_Foreground G base (lg_Color G ''#ff5c57'')),
     Set_option style_GenericInserted (lg_Bold G (lg_Foreground G base (lg_Color G ''#e2e4e5'')) True),
     Set_option style_LiteralNumber (lg_Foreground G base (lg_Color G ''#ff9f43'')),
     Set_option style_LiteralNumberBin (lg_Foreground G base (lg_Color G ''#ff9f43'')),
     Set_option style_LiteralNumberFloat (lg_Foreground G base (lg_Color G ''#ff9f43'')),
     Set_option style_LiteralNumberHex (lg_Foreground G base (lg_Color G ''#ff9f43'')),
     Set_option style_LiteralNumberInteger (lg_Foreground G base (lg_Color G ''#ff9f43'')),
     Set_option style_LiteralNumberOct (lg_Foreground G base (lg_Color G ''#ff9f43'')),
     Set_option style_LiteralString (lg_Foreground G base (lg_Color G ''#5af78e'')),
     Set_option style_LiteralStringDouble (lg_Foreground G base (lg_Color G ''#5af78e'')),
     Set_option style_LiteralStringSingle (lg_Foreground G base (lg_Color G ''#5af78e'')),
     Set_option style_Name (lg_Foreground G base (lg_Color G ''#e2e4e5'')),
     Set_option style_NameDecorator (lg_Foreground G base (lg_Color G ''#ff9f43'')),
     Set_option style_NameTag (lg_Foreground G base (lg_Color G ''#ff6ac1'')),
     Set_option style_Punctuation (lg_Foreground G base (lg_Color G ''#e2e4e5'')),
     Set_option style_LiteralBoolean (lg_Foreground G base (lg_Color G ''#ff6ac1'')),
     Set_option style_PunctuationHeading (lg_Foreground G base (lg_Color G ''#e2e4e5'')),
     Set_option style_GenericHeading (lg_Bold G (lg_Background G (lg_Foreground G (lg_NewStyle G) (lg_Color G ''#282a36'')) (lg_Color G ''#ff6ac1'')) True),
     Set_option style_GenericHeadingAccent (lg_Foreground G (lg_Background G base (lg_Lighten G (lg_Color G ''#282a36'') 30)) (lg_Lighten G (lg_Color G ''#e2e4e5'') 15)),
     Set_option style_GenericHeadingSubtle (lg_Background G base (lg_Lighten G (lg_Color G ''#282a36'') 15)),
     Set_option style_TextAccentDim (lg_Foreground G base (lg_Lighten G (lg_Color G ''#ff6ac1'') 15)),
     Set_option style_TextAccent (lg_Foreground G base (lg_Color G ''#ff6ac1'')),
     Set_option style_TextSubtleDim (lg_Foreground G base (lg_Darken G (lg_Color G ''#e2e4e5'') 15)),
     Set_option style_TextSubtle (lg_Foreground G base (lg_Color G ''#e2e4e5'')),
     Set_option style_GenericHighlightDim (lg_Background G (lg_NewStyle G) (lg_Lighten G (lg_Color G ''#282a36'') 15)),
     Set_option style_GenericHighlight (lg_Background G (lg_NewStyle G) (lg_Lighten G (lg_Color G ''#282a36'') 30)),
     Set_option style_GenericHeadingOK (lg_Bold G (lg_Background G (lg_Foreground G (lg_NewStyle G) (lg_Color G ''#282a36'')) (lg_Color G ''#5af78e'')) True),
     Set_option style_GenericHeadingWarn (lg_Bold G (lg_Background G (lg_Foreground G (lg_NewStyle G) (lg_Color G ''#282a36'')) (lg_Color G ''#f3f99d'')) True),
     Set_option style_GenericHeadingError (lg_Bold G (lg_Background G (lg_Foreground G (lg_NewStyle G) (lg_Color G ''#282a36'')) (lg_Color G ''#ff5c57'')) True),
     Set_option style_TextOK (lg_Foreground G base (lg_Color G ''#5af78e'')),
     Set_option style_TextWarn (lg_Foreground G base (lg_Color G ''#f3f99d'')),
     Set_option style_TextError (lg_Foreground G base (lg_Color G ''#ff5c57''))])"

definition Borland :: "('c, 's) lipgloss \<Rightarrow> 's styles" where
  "Borland G = (let base = lg_Background G (lg_Foreground G (lg_NewStyle G) (lg_Color G ''#000000'')) (lg_Color G ''#ffffff'') in NewStyles base
    [Set_option style_Comment (lg_Italic G (lg_Foreground G base (lg_Color G ''#008800'')) True),
     Set_option style_GenericDeleted (lg_Background G (lg_Foreground G base (lg_Color G ''#000000'')) (lg_Color G ''#ffdddd'')),
     Set_option style_GenericError (lg_Foreground G base (lg_Color G ''#aa0000'')),
     Set_option style_GenericInserted (lg_Background G (lg_Foreground G base (lg_Color G ''#000000'')) (lg_Color G ''#ddffdd'')),
     Set_option style_LiteralNumber (lg_Foreground G base (lg_Color G ''#0000ff'')),
     Set_option style_LiteralString (lg_Foreground G base (lg_Color G ''#0000ff'')),
     Set_option style_NameTag (lg_Bold G (lg_Foreground G base (lg_Color G ''#000080'')) True),
     Set_option style_NameDecorator (lg_Foreground G base (lg_Color G ''#008080'')),
     Set_option style_Generic (lg_Italic G base True),
     Set_option style_Punctuation (lg_Bold G base True),
     Set_option style_GenericHeading (lg_Bold G (lg_Background G (lg_Foreground G (lg_NewStyle G) (lg_Color G ''#ffffff'')) (lg_Color G ''#000080'')) True),
     Set_option style_GenericHeadingAccent (lg_Foreground G (lg_Background G base (lg_Darken G (lg_Color G ''#ffffff'') 30)) (lg_Darken G (lg_Color G ''#000000'') 15)),
     Set_option style_GenericHeadingSubtle (lg_Background G base (lg_Darken G (lg_Color G ''#ffffff'') 15)),
     Set_option style_TextAccentDim (lg_Foreground G base (lg_Darken G (lg_Color G ''#000080'') 15)),
     Set_option style_TextAccent (lg_Foreground G base (lg_Color G ''#000080'')),
     Set_option style_TextSubtleDim (lg_Foreground G base (lg_Lighten G (lg_Color G ''#000000'') 15)),
     Set_option style_TextSubtle (lg_Foreground G base (lg_Color G ''#000000'')),
     Set_option style_GenericHighlightDim (lg_Background G (lg_NewStyle G) (lg_Darken G (lg_Color G ''#ffffff'') 15)),
     Set_option style_GenericHighlight (lg_Background G (lg_NewStyle G) (lg_Darken G (lg_Color G ''#ffffff'') 30)),
     Set_option style_GenericHeadingOK (lg_Bold G (lg_Background G (lg_Foreground G (lg_NewStyle G) (lg_Color G ''#ffffff'')) (lg_Color G ''#22863a'')) True),
     Set_option style_GenericHeadingWarn (lg_Bold G (lg_Background G (lg_Foreground G (lg_NewStyle G) (lg_Color G ''#ffffff'')) (lg_Color G ''#d08700'')) True),
     Set_option style_GenericHeadingError (lg_Bold G (lg_Background G (lg_Foreground G (lg_NewStyle G) (lg_Color G ''#ffffff'')) (lg_Color G ''#cb2431'')) True),
     Set_option style_TextOK (lg_Foreground G base (lg_Color G ''#22863a'')),
     Set_option style_TextWarn (lg_Foreground G base (lg_Color G ''#d08700'')),
     Set_option style_TextError (lg_Foreground G base (lg_Color G ''#cb2431''))])"

definition Bw :: "('c, 's) lipgloss \<Rightarrow> 's styles" where
  "Bw G = (let base = lg_Background G (lg_Foreground G (lg_NewStyle G) (lg_Color G ''#000000'')) (lg_Color G ''#ffffff'') in NewStyles base
    [Set_option style_Comment (lg_Italic G base True),
     Set_option style_LiteralString (lg_Italic G base True),
     Set_option style_NameTag (lg_Bold G base True),
     Set_option style_Generic (lg_Italic G base True),
     Set_option style_Name (lg_Bold G base True),
     Set_option style_PunctuationHeading (lg_Bold G base True),
     Set_option style_Punctuation (lg_Bold G base True),
     Set_option style_GenericHeading (lg_Bold G (lg_Background G (lg_Foreground G (lg_NewStyle G) (lg_Color G ''#ffffff'')) (lg_Color G ''#000000'')) True),
     Set_option style_GenericHeadingAccent (lg_Foreground G (lg_Background G base (lg_Darken G (lg_Color G ''#ffffff'') 30)) (lg_Darken G (lg_Color G ''#000000'') 15)),
     Set_option style_GenericHeadingSubtle (lg_Background G base (lg_Darken G (lg_Color G ''#ffffff'') 15)),
     Set_option style_TextAccentDim (lg_Foreground G base (lg_Darken G (lg_Color G ''#000000'') 15)),
     Set_option style_TextAccent (lg_Foreground G base (lg_Color G ''#000000'')),
     Set_option style_TextSubtleDim (lg_Foreground G base (lg_Lighten G (lg_Color G ''#000000'') 15)),
     Set_option style_TextSubtle (lg_Foreground G base (lg_Color G ''#000000'')),
     Set_option style_GenericHighlightDim (lg_Background G (lg_NewStyle G) (lg_Darken G (lg_Color G ''#ffffff'') 15)),
     Set_option style_GenericHighlight (lg_Background G (lg_NewStyle G) (lg_Darken G (lg_Color G ''#ffffff'') 30)),
     Set_option style_GenericHeadingOK (lg_Bold G (lg_Background G (lg_Foreground G (lg_NewStyle G) (lg_Color G ''#ffffff'')) (lg_Color G ''#22863a'')) True),
     Set_option style_GenericHeadingWarn (lg_Bold G (lg_Background G (lg_Foreground G (lg_NewStyle G) (lg_Color G ''#ffffff'')) (lg_Color G ''#b07d2b'')) True),
     Set_option style_GenericHeadingError (lg_Bold G (lg_Background G (lg_Foreground G (lg_NewStyle G) (lg_Color G ''#ffffff'')) (lg_Color G ''#cb2431'')) True),
     Set_option style_TextOK (lg_Foreground G base (lg_Color G ''#22863a'')),
     Set_option style_TextWarn (lg_Foreground G base (lg_Color G ''#b07d2b'')),
     Set_option style_TextError (lg_Foreground G base (lg_Color G ''#cb2431''))])"

definition CatppuccinFrappe :: "('c, 's) lipgloss \<Rightarrow> 's styles" where
  "CatppuccinFrappe G = (let base = lg_Background G (lg_Foreground G (lg_NewStyle G) (lg_Color G ''#c6d0f5'')) (lg_Color G ''#303446'') in NewStyles base
    [Set_option style_Comment (lg_Italic G (lg_Foreground G base (lg_Color G ''#737994'')) True),
     Set_option style_Generic (lg_Foreground G base (lg_Color G ''#c6d0f5'')),
     Set_option style_GenericDeleted (lg_Background G (lg_Foreground G base (lg_Color G ''#e78284'')) (lg_Color G ''#414559'')),
     Set_option style_GenericError (lg_Foreground G base (lg_Color G ''#e78284'')),
     Set_option style_GenericInserted (lg_Background G (lg_Foreground G base (lg_Color G ''#a6d189'')) (lg_Color G ''#414559'')),
     Set_option style_LiteralNumber (lg_Foreground G base (lg_Color G ''#ef9f76'')),
     Set_option style_LiteralNumberBin (lg_Foreground G base (lg_Color G ''#ef9f76'')),
     Set_option style_LiteralNumberFloat (lg_Foreground G base (lg_Color G ''#ef9f76'')),
     Set_option style_LiteralNumberHex (lg_Foreground G base (lg_Color G ''#ef9f76'')),
     Set_option style_LiteralNumberInteger (lg_Foreground G base (lg_Color G ''#ef9f76'')),
     Set_option style_LiteralNumberOct (lg_Foreground G base (lg_Color G ''#ef9f76'')),
     Set_option style_LiteralString (lg_Foreground G base (lg_Color G ''#a6d189'')),
     Set_option style_LiteralStringDouble (lg_Foreground G base (lg_Color G ''#a6d189'')),
     Set_option style_LiteralStringSingle (lg_Foreground G base (lg_Color G ''#a6d189'')),
     Set_option style_Name (lg_Foreground G base (lg_Color G ''#c6d0f5'')),
     Set_option style_NameDecorator (lg_Bold G (lg_Foreground G base (lg_Color G ''#8caaee'')) True),
     Set_option style_NameTag (lg_Foreground G base (lg_Color G ''#ca9ee6'')),
     Set_option style_CommentPreproc (lg_Bold G (lg_Foreground G base (lg_Color G ''#737994'')) True),
     Set_option style_LiteralBoolean (lg_Foreground G base (lg_Color G ''#ef9f76'')),
     Set_option style_PunctuationHeading (lg_Foreground G base (lg_Color G ''#ef9f76'')),
     Set_option style_Punctuation (lg_Bold G (lg_Foreground G base (lg_Color G ''#99d1db'')) True),
     Set_option style_GenericHeading (lg_Bold G (lg_Background G (lg_Foreground G (lg_NewStyle G) (lg_Color G ''#303446'')) (lg_Color G ''#ca9ee6'')) True),
     Set_option style_GenericHeadingAccent (lg_Foreground G (lg_Background G base (lg_Lighten G (lg_Color G ''#303446'') 30)) (lg_Lighten G (lg_Color G ''#c6d0f5'') 15)),
     Set_option style_GenericHeadingSubtle (lg_Background G base (lg_Lighten G (lg_Color G ''#303446'') 15)),
     Set_option style_TextAccentDim (lg_Foreground G base (lg_Lighten G (lg_Color G ''#ca9ee6'') 15)),
     Set_option style_TextAccent (lg_Foreground G base (lg_Color G ''#ca9ee6'')),
     Set_option style_TextSubtleDim (lg_Foreground G base (lg_Darken G (lg_Color G ''#c6d0f5'') 15)),
     Set_option style_TextSubtle (lg_Foreground G base (lg_Color G ''#c6d0f5'')),
     Set_option style_GenericHighlightDim (lg_Background G (lg_NewStyle G) (lg_Lighten G (lg_Color G ''#303446'') 15)),
     Set_option style_GenericHighlight (lg_Background G (lg_NewStyle G) (lg_Lighten G (lg_Color G ''#303446'') 30)),
     Set_option style_GenericHeadingOK (lg_Bold G (lg_Background G (lg_Foreground G (lg_NewStyle G) (lg_Color G ''#303446'')) (lg_Color G ''#a6d189'')) True),
     Set_option style_GenericHeadingWarn (lg_Bold G (lg_Background G (lg_Foreground G (lg_NewStyle G) (lg_Color G ''#303446'')) (lg_Color G ''#e5c890'')) True),
     Set_option style_GenericHeadingError (lg_Bold G (lg_Background G (lg_Foreground G (lg_NewStyle G) (lg_Color G ''#303446'')) (lg_Color G ''#e78284'')) True),
     Set_option style_TextOK (lg_Foreground G base (lg_Color G ''#a6d189'')),
     Set_option style_TextWarn (lg_Foreground G base (lg_Color G ''#e5c890'')),
     Set_option style_TextError (lg_Foreground G base (lg_Color G ''#e78284''))])"

definition CatppuccinLatte :: "('c, 's) lipgloss \<Rightarrow> 's styles" where
  "CatppuccinLatte G = (let base = lg_Background G (lg_Foreground G (lg_NewStyle G) (lg_Color G ''#4c4f69'')) (lg_Color G ''#eff1f5'') in NewStyles base
    [Set_option style_Comment (lg_Italic G (lg_Foreground G base (lg_Color G ''#9ca0b0'')) True),
     Set_option style_Generic (lg_Foreground G base (lg_Color G ''#4c4f69'')),
     Set_option style_GenericDeleted (lg_Background G (lg_Foreground G base (lg_Color G ''#d20f39'')) (lg_Color G ''#ccd0da'')),
     Set_option style_GenericError (lg_Foreground G base (lg_Color G ''#d20f39'')),
     Set_option style_GenericInserted (lg_Background G (lg_Foreground G base (lg_Color G ''#40a02b'')) (lg_Color G ''#ccd0da'')),
     Set_option style_LiteralNumber (lg_Foreground G base (lg_Color G ''#fe640b'')),
     Set_option style_LiteralNumberBin (lg_Foreground G base (lg_Color G ''#fe640b'')),
     Set_option style_LiteralNumberFloat (lg_Foreground G base (lg_Color G ''#fe640b'')),
     Set_option style_LiteralNumberHex (lg_Foreground G base (lg_Color G ''#fe640b'')),
     Set_option style_LiteralNumberInteger (lg_Foreground G base (lg_Color G ''#fe640b'')),
     Set_option style_LiteralNumberOct (lg_Foreground G base (lg_Color G ''#fe640b'')),
     Set_option style_LiteralString (lg_Foreground G base (lg_Color G ''#40a02b'')),
     Set_option style_LiteralStringDouble (lg_Foreground G base (lg_Color G ''#40a02b'')),
     Set_option style_LiteralStringSingle (lg_Foreground G base (lg_Color G ''#40a02b'')),
     Set_option style_Name (lg_Foreground G base (lg_Color G ''#4c4f69'')),
     Set_option style_NameDecorator (lg_Bold G (lg_Foreground G base (lg_Color G ''#1e66f5'')) True),
     Set_option style_NameTag (lg_Foreground G base (lg_Color G ''#8839ef'')),
     Set_option style_CommentPreproc (lg_Bold G (lg_Foreground G base (lg_Color G ''#9ca0b0'')) True),
     Set_option style_LiteralBoolean (lg_Foreground G base (lg_Color G ''#fe640b'')),
     Set_option style_PunctuationHeading (lg_Foreground G base (lg_Color G ''#fe640b'')),
     Set_option style_Punctuation (lg_Bold G (lg_Foreground G base (lg_Color G ''#04a5e5'')) True),
     Set_option style_GenericHeading (lg_Bold G (lg_Background G (lg_Foreground G (lg_NewStyle G) (lg_Color G ''#eff1f5'')) (lg_Color G ''#8839ef'')) True),
     Set_option style_GenericHeadingAccent (lg_Foreground G (lg_Background G base (lg_Darken G (lg_Color G ''#eff1f5'') 30)) (lg_Darken G (lg_Color G ''#4c4f69'') 15)),
     Set_option style_GenericHeadingSubtle (lg_Background G base (lg_Darken G (lg_Color G ''#eff1f5'') 15)),
     Set_option style_TextAccentDim (lg_Foreground G base (lg_Darken G (lg_Color G ''#8839ef'') 15)),
     Set_option style_TextAccent (lg_Foreground G base (lg_Color G ''#8839ef'')),
     Set_option style_TextSubtleDim (lg_Foreground G base (lg_Lighten G (lg_Color G ''#4c4f69'') 15)),
     Set_option style_TextSubtle (lg_Foreground G base (lg_Color G ''#4c4f69'')),
     Set_option style_GenericHighlightDim (lg_Background G (lg_NewStyle G) (lg_Darken G (lg_Color G ''#eff1f5'') 15)),
     Set_option style_GenericHighlight (lg_Background G (lg_NewStyle G) (lg_Darken G (lg_Color G ''#eff1f5'') 30)),
     Set_option style_GenericHeadingOK (lg_Bold G (lg_Background G (lg_Foreground G (lg_NewStyle G) (lg_Color G ''#eff1f5'')) (lg_Color G ''#40a02b'')) True),
     Set_option style_GenericHeadingWarn (lg_Bold G (lg_Background G (lg_Foreground G (lg_NewStyle G) (lg_Color G ''#eff1f5'')) (lg_Color G ''#df8e1d'')) True),
     Set_option style_GenericHeadingError (lg_Bold G (lg_Background G (lg_Foreground G (lg_NewStyle G) (lg_Color G ''#eff1f5'')) (lg_Color G ''#d20f39'')) True),
     Set_option style_TextOK (lg_Foreground G base (lg_Color G ''#40a02b'')),
     Set_option style_TextWarn (lg_Foreground G base (lg_Color G ''#df8e1d'')),
     Set_option style_TextError (lg_Foreground G base (lg_Color G ''#d20f39''))])"

definition CatppuccinMacchiato :: "('c, 's) lipgloss \<Rightarrow> 's styles" where
  "CatppuccinMacchiato G = (let base = lg_Background G (lg_Foreground G (lg_NewStyle G) (lg_Color G ''#cad3f5'')) (lg_Color G ''#24273a'') in NewStyles base
    [Set_option style_Comment (lg_Italic G (lg_Foreground G base (lg_Color G ''#6e738d'')) True),
     Set_option style_Generic (lg_Foreground G base (lg_Color G ''#cad3f5'')),
     Set_option style_GenericDeleted (lg_Background G (lg_Foreground G base (lg_Color G ''#ed8796'')) (lg_Color G ''#363a4f'')),
     Set_option style_GenericError (lg_Foreground G base (lg_Color G ''#ed8796'')),
     Set_option style_GenericInserted (lg_Background G (lg_Foreground G base (lg_Color G ''#a6da95'')) (lg_Color G ''#363a4f'')),
     Set_option style_LiteralNumber (lg_Foreground G base (lg_Color G ''#f5a97f'')),
     Set_option style_LiteralNumberBin (lg_Foreground G base (lg_Color G ''#f5a97f'')),
     Set_option style_LiteralNumberFloat (lg_Foreground G base (lg_Color G ''#f5a97f'')),
     Set_option style_LiteralNumberHex (lg_Foreground G base (lg_Color G ''#f5a97f'')),
     Set_option style_LiteralNumberInteger (lg_Foreground G base (lg_Color G ''#f5a97f'')),
     Set_option style_LiteralNumberOct (lg_Foreground G base (lg_Color G ''#f5a97f'')),
     Set_option style_LiteralString (lg_Foreground G base (lg_Color G ''#a6da95'')),
     Set_option style_LiteralStringDouble (lg_Foreground G base (lg_Color G ''#a6da95'')),
     Set_option style_LiteralStringSingle (lg_Foreground G base (lg_Color G ''#a6da95'')),
     Set_option style_Name (lg_Foreground G base (lg_Color G ''#cad3f5'')),
     Set_option style_NameDecorator (lg_Bold G (lg_Foreground G base (lg_Color G ''#8aadf4'')) True),
     Set_option style_NameTag (lg_Foreground G base (lg_Color G ''#c6a0f6'')),
     Set_option style_CommentPreproc (lg_Bold G (lg_Foreground G base (lg_Color G ''#6e738d'')) True),
     Set_option style_LiteralBoolean (lg_Foreground G base (lg_Color G ''#f5a97f'')),
     Set_option style_PunctuationHeading (lg_Foreground G base (lg_Color G ''#f5a97f'')),
     Set_option style_Punctuation (lg_Bold G (lg_Foreground G base (lg_Color G ''#91d7e3'')) True),
     Set_option style_GenericHeading (lg_Bold G (lg_Background G (lg_Foreground G (lg_NewStyle G) (lg_Color G ''#24273a'')) (lg_Color G ''#c6a0f6'')) True),
     Set_option style_GenericHeadingAccent (lg_Foreground G (lg_Background G base (lg_Lighten G (lg_Color G ''#24273a'') 30)) (lg_Lighten G (lg_Color G ''#cad3f5'') 15)),
     Set_option style_GenericHeadingSubtle (lg_Background G base (lg_Lighten G (lg_Color G ''#24273a'') 15)),
     Set_option style_TextAccentDim (lg_Foreground G base (lg_Lighten G (lg_Color G ''#c6a0f6'') 15)),
     Set_option style_TextAccent (lg_Foreground G base (lg_Color G ''#c6a0f6'')),
     Set_option style_TextSubtleDim (lg_Foreground G base (lg_Darken G (lg_Color G ''#cad3f5'') 15)),
     Set_option style_TextSubtle (lg_Foreground G base (lg_Color G ''#cad3f5'')),
     Set_option style_GenericHighlightDim (lg_Background G (lg_NewStyle G) (lg_Lighten G (lg_Color G ''#24273a'') 15)),
     Set_option style_GenericHighlight (lg_Background G (lg_NewStyle G) (lg_Lighten G (lg_Color G ''#24273a'') 30)),
     Set_option style_GenericHeadingOK (lg_Bold G (lg_Background G (lg_Foreground G (lg_NewStyle G) (lg_Color G ''#24273a'')) (lg_Color G ''#a6da95'')) True),
     Set_option style_GenericHeadingWarn (lg_Bold G (lg_Background G (lg_Foreground G (lg_NewStyle G) (lg_Color G ''#24273a'')) (lg_Color G ''#eed49f'')) True),
     Set_option style_GenericHeadingError (lg_Bold G (lg_Background G (lg_Foreground G (lg_NewStyle G) (lg_Color G ''#24273a'')) (lg_Color G ''#ed8796'')) True),
     Set_option style_TextOK (lg_Foreground G base (lg_Color G ''#a6da95'')),
     Set_option style_TextWarn (lg_Foreground G base (lg_Color G ''#eed49f'')),
     Set_option style_TextError (lg_Foreground G base (lg_Color G ''#ed8796''))])"

definition CatppuccinMocha :: "('c, 's) lipgloss \<Rightarrow> 's styles" where
  "CatppuccinMocha G = (let base = lg_Background G (lg_Foreground G (lg_NewStyle G) (lg_Color G ''#cdd6f4'')) (lg_Color G ''#1e1e2e'') in NewStyles base
    [Set_option style_Comment (lg_Italic G (lg_Foreground G base (lg_Color G ''#6c7086'')) True),
     Set_option style_Generic (lg_Foreground G base (lg_Color G ''#cdd6f4'')),
     Set_option style_GenericDeleted (lg_Background G (lg_Foreground G base (lg_Color G ''#f38ba8'')) (lg_Color G ''#313244'')),
     Set_option style_GenericError (lg_Foreground G base (lg_Color G ''#f38ba8'')),
     Set_option style_GenericInserted (lg_Background G (lg_Foreground G base (lg_Color G ''#a6e3a1'')) (lg_Color G ''#313244'')),
     Set_option style_LiteralNumber (lg_Foreground G base (lg_Color G ''#fab387'')),
     Set_option style_LiteralNumberBin (lg_Foreground G base (lg_Color G ''#fab387'')),
     Set_option style_LiteralNumberFloat (lg_Foreground G base (lg_Color G ''#fab387'')),
     Set_option style_LiteralNumberHex (lg_Foreground G base (lg_Color G ''#fab387'')),
     Set_option style_LiteralNumberInteger (lg_Foreground G base (lg_Color G ''#fab387'')),
     Set_option style_LiteralNumberOct (lg_Foreground G base (lg_Color G ''#fab387'')),
     Set_option style_LiteralString (lg_Foreground G base (lg_Color G ''#a6e3a1'')),
     Set_option style_LiteralStringDouble (lg_Foreground G base (lg_Color G ''#a6e3a1'')),
     Set_option style_LiteralStringSingle (lg_Foreground G base (lg_Color G ''#a6e3a1'')),
     Set_option style_Name (lg_Foreground G base (lg_Color G ''#cdd6f4'')),
     Set_option style_NameDecorator (lg_Bold G (lg_Foreground G base (lg_Color G ''#89b4fa'')) True),
     Set_option style_NameTag (lg_Foreground G base (lg_Color G ''#cba6f7'')),
     Set_option style_CommentPreproc (lg_Bold G (lg_Foreground G base (lg_Color G ''#6c7086'')) True),
     Set_option style_LiteralBoolean (lg_Foreground G base (lg_Color G ''#fab387'')),
     Set_option style_PunctuationHeading (lg_Foreground G base (lg_Color G ''#fab387'')),
     Set_option style_Punctuation (lg_Bold G (lg_Foreground G base (lg_Color G ''#89dceb'')) True),
     Set_option style_GenericHeading (lg_Bold G (lg_Background G (lg_Foreground G (lg_NewStyle G) (lg_Color G ''#1e1e2e'')) (lg_Color G ''#cba6f7'')) True),
     Set_option style_GenericHeadingAccent (lg_Foreground G (lg_Background G base (lg_Lighten G (lg_Color G ''#1e1e2e'') 30)) (lg_Lighten G (lg_Color G ''#cdd6f4'') 15)),
     Set_option style_GenericHeadingSubtle (lg_Background G base (lg_Lighten G (lg_Color G ''#1e1e2e'') 15)),
     Set_option style_TextAccentDim (lg_Foreground G base (lg_Lighten G (lg_Color G ''#cba6f7'') 15)),
     Set_option style_TextAccent (lg_Foreground G base (lg_Color G ''#cba6f7'')),
     Set_option style_TextSubtleDim (lg_Foreground G base (lg_Darken G (lg_Color G ''#cdd6f4'') 15)),
     Set_option style_TextSubtle (lg_Foreground G base (lg_Color G ''#cdd6f4'')),
     Set_option style_GenericHighlightDim (lg_Background G (lg_NewStyle G) (lg_Lighten G (lg_Color G ''#1e1e2e'') 15)),
     Set_option style_GenericHighlight (lg_Background G (lg_NewStyle G) (lg_Lighten G (lg_Color G ''#1e1e2e'') 30)),
     Set_option style_GenericHeadingOK (lg_Bold G (lg_Background G (lg_Foreground G (lg_NewStyle G) (lg_Color G ''#1e1e2e'')) (lg_Color G ''#a6e3a1'')) True),
     Set_option style_GenericHeadingWarn (lg_Bold G (lg_Background G (lg_Foreground G (lg_NewStyle G) (lg_Color G ''#1e1e2e'')) (lg_Color G ''#f9e2af'')) True),
     Set_option style_GenericHeadingError (lg_Bold G (lg_Background G (lg_Foreground G (lg_NewStyle G) (lg_Color G ''#1e1e2e'')) (lg_Color G ''#f38ba8'')) True),
     Set_option style_TextOK (lg_Foreground G base (lg_Color G ''#a6e3a1'')),
     Set_option style_TextWarn (lg_Foreground G base (lg_Color G ''#f9e2af'')),
     Set_option style_TextError (lg_Foreground G base (lg_Color G ''#f38ba8''))])"

definition Charm :: "('c, 's) lipgloss \<Rightarrow> 's styles" where
  "Charm G = (let base = lg_Background G (lg_Foreground G (lg_NewStyle G) (lg_Charmtone G Smoke)) (lg_Charmtone G Pepper) in NewStyles base
    [Set_option style_Comment (lg_Foreground G base (lg_Charmtone G Oyster)),
     Set_option style_CommentPreproc (lg_Foreground G base (lg_Charmtone G Smoke)),
     Set_option style_GenericDeleted (lg_Background G (lg_Foreground G base (lg_Charmtone G Cherry)) (lg_Charmtone G Toast)),
     Set_option style_GenericInserted (lg_Background G (lg_Foreground G base (lg_Charmtone G Julep)) (lg_Charmtone G Spinach)),
     Set_option style_GenericError (lg_Background G (lg_Foreground G base (lg_Charmtone G Butter)) (lg_Charmtone G Sriracha)),
     Set_option style_LiteralBoolean (lg_Foreground G base (lg_Charmtone G Malibu)),
     Set_option style_LiteralNull (lg_Foreground G base (lg_Charmtone G Malibu)),
     Set_option style_LiteralNumber (lg_Foreground G base (lg_Charmtone G Julep)),
     Set_option style_LiteralString (lg_Foreground G base (lg_Charmtone G Cumin)),
     Set_option style_NameAlias (lg_Foreground G base (lg_Charmtone G Bengal)),
     Set_option style_NameAnchor (lg_Foreground G base (lg_Charmtone G Bengal)),
     Set_option style_NameTag (lg_Foreground G base (lg_Charmtone G Mauve)),
     Set_option style_Punctuation (lg_Foreground G base (lg_Charmtone G Zest)),
     Set_option style_PunctuationHeading (lg_Foreground G base (lg_Charmtone G Smoke)),
     Set_option style_GenericHeading (lg_Bold G (lg_Background G (lg_Foreground G base (lg_Charmtone G Pepper)) (lg_Charmtone G Mauve)) True),
     Set_option style_GenericHeadingAccent (lg_Foreground G (lg_Background G base (lg_Charmtone G Iron)) (lg_Charmtone G Salt)),
     Set_option style_GenericHeadingSubtle (lg_Background G base (lg_Charmtone G Charcoal)),
     Set_option style_TextAccentDim (lg_Foreground G base (lg_Lighten G (lg_Charmtone G Mauve) 15)),
     Set_option style_TextAccent (lg_Foreground G base (lg_Charmtone G Mauve)),
     Set_option style_TextSubtleDim (lg_Foreground G base (lg_Charmtone G Iron)),
     Set_option style_TextSubtle (lg_Foreground G base (lg_Charmtone G Oyster)),
     Set_option style_GenericHighlightDim (lg_Background G (lg_NewStyle G) (lg_Charmtone G Iron)),
     Set_option style_GenericHighlight (lg_Background G (lg_NewStyle G) (lg_Charmtone G Smoke)),
     Set_option style_GenericHeadingOK (lg_Bold G (lg_Background G (lg_Foreground G (lg_NewStyle G) (lg_Charmtone G Pepper)) (lg_Charmtone G Julep)) True),
     Set_option style_GenericHeadingWarn (lg_Bold G (lg_Background G (lg_Foreground G (lg_NewStyle G) (lg_Charmtone G Pepper)) (lg_Charmtone G Cumin)) True),
     Set_option style_GenericHeadingError (lg_Bold G (lg_Background G (lg_Foreground G (lg_NewStyle G) (lg_Charmtone G Pepper)) (lg_Charmtone G Cherry)) True),
     Set_option style_TextOK (lg_Foreground G base (lg_Charmtone G Julep)),
     Set_option style_TextWarn (lg_Foreground G base (lg_Charmtone G Cumin)),
     Set_option style_TextError (lg_Foreground G base (lg_Charmtone G Cherry))])"

definition Colorful :: "('c, 's) lipgloss \<Rightarrow> 's styles" where
  "Colorful G = (let base = lg_Background G (lg_Foreground G (lg_NewStyle G) (lg_Color G ''#000000'')) (lg_Color G ''#ffffff'') in NewStyles base
    [Set_option style_Comment (lg_Foreground G base (lg_Color G ''#888888'')),
     Set_option style_GenericDeleted (lg_Foreground G base (lg_Color G ''#a00000'')),
     Set_option style_GenericError (lg_Foreground G base (lg_Color G ''#ff0000'')),
     Set_option style_GenericInserted (lg_Foreground G base (lg_Color G ''#00a000'')),
     Set_option style_LiteralNumber (lg_Bold G (lg_Foreground G base (lg_Color G ''#6600ee'')) True),
     Set_option style_LiteralNumberFloat (lg_Bold G (lg_Foreground G base (lg_Color G ''#6600ee'')) True),
     Set_option style_LiteralNumberHex (lg_Bold G (lg_Foreground G base (lg_Color G ''#005588'')) True),
     Set_option style_LiteralNumberInteger (lg_Bold G (lg_Foreground G base (lg_Color G ''#0000dd'')) True),
     Set_option style_LiteralNumberOct (lg_Bold G (lg_Foreground G base (lg_Color G ''#4400ee'')) True),
     Set_option style_LiteralString (lg_Background G base (lg_Color G ''#fff0f0'')),
     Set_option style_NameDecorator (lg_Bold G (lg_Foreground G base (lg_Color G ''#555555'')) True),
     Set_option style_NameTag (lg_Foreground G base (lg_Color G ''#007700'')),
     Set_option style_Generic (lg_Italic G base True),
     Set_option style_Name (lg_Foreground G base (lg_Color G ''#007020'')),
     Set_option style_PunctuationHeading (lg_Bold G (lg_Foreground G base (lg_Color G ''#0e84b5'')) True),
     Set_option style_Punctuation (lg_Foreground G base (lg_Color G ''#333333'')),
     Set_option style_GenericHeading (lg_Bold G (lg_Background G (lg_Foreground G (lg_NewStyle G) (lg_Color G ''#ffffff'')) (lg_Color G ''#007700'')) True),
     Set_option style_GenericHeadingAccent (lg_Foreground G (lg_Background G base (lg_Darken G (lg_Color G ''#ffffff'') 30)) (lg_Darken G (lg_Color G ''#000000'') 15)),
     Set_option style_GenericHeadingSubtle (lg_Background G base (lg_Darken G (lg_Color G ''#ffffff'') 15)),
     Set_option style_TextAccentDim (lg_Foreground G base (lg_Darken G (lg_Color G ''#007700'') 15)),
     Set_option style_TextAccent (lg_Foreground G base (lg_Color G ''#007700'')),
     Set_option style_TextSubtleDim (lg_Foreground G base (lg_Lighten G (lg_Color G ''#000000'') 15)),
     Set_option style_TextSubtle (lg_Foreground G base (lg_Color G ''#000000'')),
     Set_option style_GenericHighlightDim (lg_Background G (lg_NewStyle G) (lg_Darken G (lg_Color G ''#ffffff'') 15)),
     Set_option style_GenericHighlight (lg_Background G (lg_NewStyle G) (lg_Darken G (lg_Color G ''#ffffff'') 30)),
     Set_option style_GenericHeadingOK (lg_Bold G (lg_Background G (lg_Foreground G (lg_NewStyle G) (lg_Color G ''#ffffff'')) (lg_Color G ''#00a000'')) True),
     Set_option style_GenericHeadingWarn (lg_Bold G (lg_Background G (lg_Foreground G (lg_NewStyle G) (lg_Color G ''#ffffff'')) (lg_Color G ''#b07d2b'')) True),
     Set_option style_GenericHeadingError (lg_Bold G (lg_Background G (lg_Foreground G (lg_NewStyle G) (lg_Color G ''#ffffff'')) (lg_Color G ''#a00000'')) True),
     Set_option style_TextOK (lg_Foreground G base (lg_Color G ''#00a000'')),
     Set_option style_TextWarn (lg_Foreground G base (lg_Color G ''#b07d2b'')),
     Set_option style_TextError (lg_Foreground G base (lg_Color G ''#a00000''))])"

definition DoomOne :: "('c, 's) lipgloss \<Rightarrow> 's styles" where
  "DoomOne G = (let base = lg_Background G (lg_Foreground G (lg_NewStyle G) (lg_Color G ''#b0c4de'')) (lg_Color G ''#282c34'') in NewStyles base
    [Set_option style_Comment (lg_Italic G (lg_Foreground G base (lg_Color G ''#8a93a5'')) True),
     Set_option style_Generic (lg_Foreground G base (lg_Color G ''#b0c4de'')),
     Set_option style_GenericInserted (lg_Foreground G base (lg_Color G ''#a6e22e'')),
     Set_option style_LiteralNumber (lg_Foreground G base (lg_Color G ''#d19a66'')),
     Set_option style_LiteralString (lg_Foreground G base (lg_Color G ''#98c379'')),
     Set_option style_LiteralStringDouble (lg_Foreground G base (lg_Color G ''#63c381'')),
     Set_option style_LiteralStringSingle (lg_Foreground G base (lg_Color G ''#98c379'')),
     Set_option style_Name (lg_Foreground G base (lg_Color G ''#c1abea'')),
     Set_option style_NameDecorator (lg_Foreground G base (lg_Color G ''#e5c07b'')),
     Set_option style_NameTag (lg_Foreground G base (lg_Color G ''#e06c75'')),
     Set_option style_Punctuation (lg_Foreground G base (lg_Color G ''#b0c4de'')),
     Set_option style_GenericError (lg_Foreground G base (lg_Color G ''#b0c4de'')),
     Set_option style_LiteralBoolean (lg_Bold G (lg_Foreground G base (lg_Color G ''#b756ff'')) True),
     Set_option style_PunctuationHeading (lg_Foreground G base (lg_Color G ''#76a9f9'')),
     Set_option style_GenericHeading (lg_Bold G (lg_Background G (lg_Foreground G (lg_NewStyle G) (lg_Color G ''#282c34'')) (lg_Color G ''#e06c75'')) True),
     Set_option style_GenericHeadingAccent (lg_Foreground G (lg_Background G base (lg_Lighten G (lg_Color G ''#282c34'') 30)) (lg_Lighten G (lg_Color G ''#b0c4de'') 15)),
     Set_option style_GenericHeadingSubtle (lg_Background G base (lg_Lighten G (lg_Color G ''#282c34'') 15)),
     Set_option style_TextAccentDim (lg_Foreground G base (lg_Lighten G (lg_Color G ''#e06c75'') 15)),
     Set_option style_TextAccent (lg_Foreground G base (lg_Color G ''#e06c75'')),
     Set_option style_TextSubtleDim (lg_Foreground G base (lg_Darken G (lg_Color G ''#b0c4de'') 15)),
     Set_option style_TextSubtle (lg_Foreground G base (lg_Color G ''#b0c4de'')),
     Set_option style_GenericHighlightDim (lg_Background G (lg_NewStyle G) (lg_Lighten G (lg_Color G ''#282c34'') 15)),
     Set_option style_GenericHighlight (lg_Background G (lg_NewStyle G) (lg_Lighten G (lg_Color G ''#282c34'') 30)),
     Set_option style_GenericHeadingOK (lg_Bold G (lg_Background G (lg_Foreground G (lg_NewStyle G) (lg_Color G ''#282c34'')) (lg_Color G ''#a6e22e'')) True),
     Set_option style_GenericHeadingWarn (lg_Bold G (lg_Background G (lg_Foreground G (lg_NewStyle G) (lg_Color G ''#282c34'')) (lg_Color G ''#ecbe7b'')) True),
     Set_option style_GenericHeadingError (lg_Bold G (lg_Background G (lg_Foreground G (lg_NewStyle G) (lg_Color G ''#282c34'')) (lg_Color G ''#ff5555'')) True),
     Set_option style_TextOK (lg_Foreground G base (lg_Color G ''#a6e22e'')),
     Set_option style_TextWarn (lg_Foreground G base (lg_Color G ''#ecbe7b'')),
     Set_option style_TextError (lg_Foreground G base (lg_Color G ''#ff5555''))])"

text \<open>Every theme here is a call of \<open>NewStyles\<close>.\<close>

lemmas themes_1_defs = Abap_def
  Algol_def
  AlgolNu_def
  Arduino_def
  Ashen_def
  AuraThemeDark_def
  AuraThemeDarkSoft_def
  Autumn_def
  Average_def
  Base16Snazzy_def
  Borland_def
  Bw_def
  CatppuccinFrappe_def
  CatppuccinLatte_def
  CatppuccinMacchiato_def
  CatppuccinMocha_def
  Charm_def
  Colorful_def
  DoomOne_def

end
