(* ===== verification/Themes_2.thy ===== *)
theory Themes_2
  imports Lipgloss
begin

text \<open>
  Package \<open>style/theme\<close>: the built-in themes from \<open>DoomOne2\<close> to \<open>ModusOperandi\<close>, each the function of its file.
\<close>

definition DoomOne2 :: "('c, 's) lipgloss \<Rightarrow> 's styles" where
  "DoomOne2 G = (let base = lg_Background G (lg_Foreground G (lg_NewStyle G) (lg_Color G ''#b0c4de'')) (lg_Color G ''#282c34'') in NewStyles base
    [Set_option style_Comment (lg_Italic G (lg_Foreground G base (lg_Color G ''#8a93a5'')) True),
     Set_option style_Generic (lg_Foreground G base (lg_Color G ''#b0c4de'')),
     Set_option style_GenericDeleted (lg_Foreground G base (lg_Color G ''#b0c4de'')),
     Set_option style_GenericInserted (lg_Foreground G base (lg_Color G ''#a6e22e'')),
     Set_option style_LiteralNumber (lg_Foreground G base (lg_Color G ''#d19a66'')),
     Set_option style_LiteralNumberBin (lg_Foreground G base (lg_Color G ''#d19a66'')),
     Set_option style_LiteralNumberFloat (lg_Foreground G base (lg_Color G ''#d19a66'')),
     Set_option style_LiteralNumberHex (lg_Foreground G base (lg_Color G ''#d19a66'')),
     Set_option style_LiteralNumberInteger (lg_Foreground G base (lg_Color G ''#d19a66'')),
     Set_option style_LiteralNumberOct (lg_Foreground G base (lg_Color G ''#d19a66'')),
     Set_option style_LiteralString (lg_Foreground G base (lg_Color G ''#98c379'')),
     Set_option style_LiteralStringDouble (lg_Foreground G base (lg_Color G ''#63c381'')),
     Set_option style_LiteralStringSingle (lg_Foreground G base (lg_Color G ''#98c379'')),
     Set_option style_Name (lg_Foreground G base (lg_Color G ''#aa89ea'')),
     Set_option style_NameDecorator (lg_Foreground G base (lg_Color G ''#e5c07b'')),
     Set_option style_NameTag (lg_Foreground G base (lg_Color G ''#76a9f9'')),
     Set_option style_Punctuation (lg_Foreground G base (lg_Color G ''#abb2bf'')),
     Set_option style_GenericError (lg_Foreground G base (lg_Color G ''#b0c4de'')),
     Set_option style_LiteralBoolean (lg_Foreground G base (lg_Color G ''#e5c07b'')),
     Set_option style_PunctuationHeading (lg_Foreground G base (lg_Color G ''#ca72ff'')),
     Set_option style_GenericHeading (lg_Bold G (lg_Background G (lg_Foreground G (lg_NewStyle G) (lg_Color G ''#282c34'')) (lg_Color G ''#76a9f9'')) True),
     Set_option style_GenericHeadingAccent (lg_Foreground G (lg_Background G base (lg_Lighten G (lg_Color G ''#282c34'') 30)) (lg_Lighten G (lg_Color G ''#b0c4de'') 15)),
     Set_option style_GenericHeadingSubtle (lg_Background G base (lg_Lighten G (lg_Color G ''#282c34'') 15)),
     Set_option style_TextAccentDim (lg_Foreground G base (lg_Lighten G (lg_Color G ''#76a9f9'') 15)),
     Set_option style_TextAccent (lg_Foreground G base (lg_Color G ''#76a9f9'')),
     Set_option style_TextSubtleDim (lg_Foreground G base (lg_Darken G (lg_Color G ''#b0c4de'') 15)),
     Set_option style_TextSubtle (lg_Foreground G base (lg_Color G ''#b0c4de'')),
     Set_option style_GenericHighlightDim (lg_Background G (lg_NewStyle G) (lg_Lighten G (lg_Color G ''#282c34'') 15)),
     Set_option style_GenericHighlight (lg_Background G (lg_NewStyle G) (lg_Lighten G (lg_Color G ''#282c34'') 30)),
     Set_option style_GenericHeadingOK (lg_Bold G (lg_Background G (lg_Foreground G (lg_NewStyle G) (lg_Color G ''#282c34'')) (lg_Color G ''#a6e22e'')) True),
     Set_option style_GenericHeadingWarn (lg_Bold G (lg_Background G (lg_Foreground G (lg_NewStyle G) (lg_Color G ''#282c34'')) (lg_Color G ''#ecbe7b'')) True),
     Set_option style_GenericHeadingError (lg_Bold G (lg_Background G (lg_Foreground G (lg_NewStyle G) (lg_Color G ''#282c34'')) (lg_Color G ''#ff6c6b'')) True),
     Set_option style_TextOK (lg_Foreground G base (lg_Color G ''#a6e22e'')),
     Set_option style_TextWarn (lg_Foreground G base (lg_Color G ''#ecbe7b'')),
     Set_option style_TextError (lg_Foreground G base (lg_Color G ''#ff6c6b''))])"

definition Dracula :: "('c, 's) lipgloss \<Rightarrow> 's styles" where
  "Dracula G = (let base = lg_Background G (lg_Foreground G (lg_NewStyle G) (lg_Color G ''#f8f8f2'')) (lg_Color G ''#282a36'') in NewStyles base
    [Set_option style_Comment (lg_Foreground G base (lg_Color G ''#6272a4'')),
     Set_option style_Generic (lg_Foreground G base (lg_Color G ''#f8f8f2'')),
     Set_option style_GenericDeleted (lg_Foreground G base (lg_Color G ''#ff5555'')),
     Set_option style_GenericError (lg_Foreground G base (lg_Color G ''#f8f8f2'')),
     Set_option style_GenericInserted (lg_Bold G (lg_Foreground G base (lg_Color G ''#50fa7b'')) True),
     Set_option style_LiteralNumber (lg_Foreground G base (lg_Color G ''#bd93f9'')),
     Set_option style_LiteralNumberBin (lg_Foreground G base (lg_Color G ''#bd93f9'')),
     Set_option style_LiteralNumberFloat (lg_Foreground G base (lg_Color G ''#bd93f9'')),
     Set_option style_LiteralNumberHex (lg_Foreground G base (lg_Color G ''#bd93f9'')),
     Set_option style_LiteralNumberInteger (lg_Foreground G base (lg_Color G ''#bd93f9'')),
     Set_option style_LiteralNumberOct (lg_Foreground G base (lg_Color G ''#bd93f9'')),
     Set_option style_LiteralString (lg_Foreground G base (lg_Color G ''#f1fa8c'')),
     Set_option style_LiteralStringDouble (lg_Foreground G base (lg_Color G ''#f1fa8c'')),
     Set_option style_LiteralStringSingle (lg_Foreground G base (lg_Color G ''#f1fa8c'')),
     Set_option style_Name (lg_Foreground G base (lg_Color G ''#f8f8f2'')),
     Set_option style_NameDecorator (lg_Foreground G base (lg_Color G ''#f8f8f2'')),
     Set_option style_NameTag (lg_Foreground G base (lg_Color G ''#ff79c6'')),
     Set_option style_Punctuation (lg_Foreground G base (lg_Color G ''#f8f8f2'')),
     Set_option style_LiteralBoolean (lg_Foreground G base (lg_Color G ''#ff79c6'')),
     Set_option style_PunctuationHeading (lg_Foreground G base (lg_Color G ''#f8f8f2'')),
     Set_option style_GenericHeading (lg_Bold G (lg_Background G (lg_Foreground G (lg_NewStyle G) (lg_Color G ''#282a36'')) (lg_Color G ''#ff79c6'')) True),
     Set_option style_GenericHeadingAccent (lg_Foreground G (lg_Background G base (lg_Lighten G (lg_Color G ''#282a36'') 30)) (lg_Lighten G (lg_Color G ''#f8f8f2'') 15)),
     Set_option style_GenericHeadingSubtle (lg_Background G base (lg_Lighten G (lg_Color G ''#282a36'') 15)),
     Set_option style_TextAccentDim (lg_Foreground G base (lg_Lighten G (lg_Color G ''#ff79c6'') 15)),
     Set_option style_TextAccent (lg_Foreground G base (lg_Color G ''#ff79c6'')),
     Set_option style_TextSubtleDim (lg_Foreground G base (lg_Darken G (lg_Color G ''#f8f8f2'') 15)),
     Set_option style_TextSubtle (lg_Foreground G base (lg_Color G ''#f8f8f2'')),
     Set_option style_GenericHighlightDim (lg_Background G (lg_NewStyle G) (lg_Lighten G (lg_Color G ''#282a36'') 15)),
     Set_option style_GenericHighlight (lg_Background G (lg_NewStyle G) (lg_Lighten G (lg_Color G ''#282a36'') 30)),
     Set_option style_GenericHeadingOK (lg_Bold G (lg_Background G (lg_Foreground G (lg_NewStyle G) (lg_Color G ''#282a36'')) (lg_Color G ''#50fa7b'')) True),
     Set_option style_GenericHeadingWarn (lg_Bold G (lg_Background G (lg_Foreground G (lg_NewStyle G) (lg_Color G ''#282a36'')) (lg_Color G ''#f1fa8c'')) True),
     Set_option style_GenericHeadingError (lg_Bold G (lg_Background G (lg_Foreground G (lg_NewStyle G) (lg_Color G ''#282a36'')) (lg_Color G ''#ff5555'')) True),
     Set_option style_TextOK (lg_Foreground G base (lg_Color G ''#50fa7b'')),
     Set_option style_TextWarn (lg_Foreground G base (lg_Color G ''#f1fa8c'')),
     Set_option style_TextError (lg_Foreground G base (lg_Color G ''#ff5555''))])"

definition Emacs :: "('c, 's) lipgloss \<Rightarrow> 's styles" where
  "Emacs G = (let base = lg_Background G (lg_Foreground G (lg_NewStyle G) (lg_Color G ''#000000'')) (lg_Color G ''#f8f8f8'') in NewStyles base
    [Set_option style_Comment (lg_Italic G (lg_Foreground G base (lg_Color G ''#008800'')) True),
     Set_option style_GenericDeleted (lg_Foreground G base (lg_Color G ''#a00000'')),
     Set_option style_GenericError (lg_Foreground G base (lg_Color G ''#ff0000'')),
     Set_option style_GenericInserted (lg_Foreground G base (lg_Color G ''#00a000'')),
     Set_option style_LiteralNumber (lg_Foreground G base (lg_Color G ''#666666'')),
     Set_option style_LiteralString (lg_Foreground G base (lg_Color G ''#bb4444'')),
     Set_option style_NameDecorator (lg_Foreground G base (lg_Color G ''#aa22ff'')),
     Set_option style_NameTag (lg_Bold G (lg_Foreground G base (lg_Color G ''#008000'')) True),
     Set_option style_Generic (lg_Italic G base True),
     Set_option style_Name (lg_Foreground G base (lg_Color G ''#aa22ff'')),
     Set_option style_PunctuationHeading (lg_Bold G (lg_Foreground G base (lg_Color G ''#0000ff'')) True),
     Set_option style_Punctuation (lg_Foreground G base (lg_Color G ''#666666'')),
     Set_option style_GenericHeading (lg_Bold G (lg_Background G (lg_Foreground G (lg_NewStyle G) (lg_Color G ''#f8f8f8'')) (lg_Color G ''#008000'')) True),
     Set_option style_GenericHeadingAccent (lg_Foreground G (lg_Background G base (lg_Darken G (lg_Color G ''#f8f8f8'') 30)) (lg_Darken G (lg_Color G ''#000000'') 15)),
     Set_option style_GenericHeadingSubtle (lg_Background G base (lg_Darken G (lg_Color G ''#f8f8f8'') 15)),
     Set_option style_TextAccentDim (lg_Foreground G base (lg_Darken G (lg_Color G ''#008000'') 15)),
     Set_option style_TextAccent (lg_Foreground G base (lg_Color G ''#008000'')),
     Set_option style_TextSubtleDim (lg_Foreground G base (lg_Lighten G (lg_Color G ''#000000'') 15)),
     Set_option style_TextSubtle (lg_Foreground G base (lg_Color G ''#000000'')),
     Set_option style_GenericHighlightDim (lg_Background G (lg_NewStyle G) (lg_Darken G (lg_Color G ''#f8f8f8'') 15)),
     Set_option style_GenericHighlight (lg_Background G (lg_NewStyle G) (lg_Darken G (lg_Color G ''#f8f8f8'') 30)),
     Set_option style_GenericHeadingOK (lg_Bold G (lg_Background G (lg_Foreground G (lg_NewStyle G) (lg_Color G ''#f8f8f8'')) (lg_Color G ''#00a000'')) True),
     Set_option style_GenericHeadingWarn (lg_Bold G (lg_Background G (lg_Foreground G (lg_NewStyle G) (lg_Color G ''#f8f8f8'')) (lg_Color G ''#b07d2b'')) True),
     Set_option style_GenericHeadingError (lg_Bold G (lg_Background G (lg_Foreground G (lg_NewStyle G) (lg_Color G ''#f8f8f8'')) (lg_Color G ''#a00000'')) True),
     Set_option style_TextOK (lg_Foreground G base (lg_Color G ''#00a000'')),
     Set_option style_TextWarn (lg_Foreground G base (lg_Color G ''#b07d2b'')),
     Set_option style_TextError (lg_Foreground G base (lg_Color G ''#a00000''))])"

definition Evergarden :: "('c, 's) lipgloss \<Rightarrow> 's styles" where
  "Evergarden G = (let base = lg_Background G (lg_Foreground G (lg_NewStyle G) (lg_Color G ''#D6CBB4'')) (lg_Color G ''#252B2E'') in NewStyles base
    [Set_option style_Comment (lg_Italic G (lg_Foreground G base (lg_Color G ''#859289'')) True),
     Set_option style_Generic (lg_Foreground G base (lg_Color G ''#D6CBB4'')),
     Set_option style_GenericDeleted (lg_Background G (lg_Foreground G base (lg_Color G ''#252B2E'')) (lg_Color G ''#E67E80'')),
     Set_option style_GenericError (lg_Bold G (lg_Background G base (lg_Color G ''#E67E80'')) True),
     Set_option style_GenericInserted (lg_Background G (lg_Foreground G base (lg_Color G ''#252B2E'')) (lg_Color G ''#B2C98F'')),
     Set_option style_LiteralNumber (lg_Foreground G base (lg_Color G ''#D699B6'')),
     Set_option style_LiteralNumberFloat (lg_Foreground G base (lg_Color G ''#D699B6'')),
     Set_option style_LiteralString (lg_Foreground G base (lg_Color G ''#B2C98F'')),
     Set_option style_Name (lg_Foreground G base (lg_Color G ''#D6CBB4'')),
     Set_option style_NameTag (lg_Foreground G base (lg_Color G ''#7a8478'')),
     Set_option style_NameDecorator (lg_Foreground G base (lg_Color G ''#E67E80'')),
     Set_option style_Punctuation (lg_Foreground G base (lg_Color G ''#7a8478'')),
     Set_option style_GenericHeading (lg_Bold G (lg_Background G (lg_Foreground G (lg_NewStyle G) (lg_Color G ''#252B2E'')) (lg_Color G ''#7a8478'')) True),
     Set_option style_GenericHeadingAccent (lg_Foreground G (lg_Background G base (lg_Lighten G (lg_Color G ''#252B2E'') 30)) (lg_Lighten G (lg_Color G ''#D6CBB4'') 15)),
     Set_option style_GenericHeadingSubtle (lg_Background G base (lg_Lighten G (lg_Color G ''#252B2E'') 15)),
     Set_option style_TextAccentDim (lg_Foreground G base (lg_Lighten G (lg_Color G ''#7a8478'') 15)),
     Set_option style_TextAccent (lg_Foreground G base (lg_Color G ''#7a8478'')),
     Set_option style_TextSubtleDim (lg_Foreground G base (lg_Darken G (lg_Color G ''#D6CBB4'') 15)),
     Set_option style_TextSubtle (lg_Foreground G base (lg_Color G ''#D6CBB4'')),
     Set_option style_GenericHighlightDim (lg_Background G (lg_NewStyle G) (lg_Lighten G (lg_Color G ''#252B2E'') 15)),
     Set_option style_GenericHighlight (lg_Background G (lg_NewStyle G) (lg_Lighten G (lg_Color G ''#252B2E'') 30)),
     Set_option style_GenericHeadingOK (lg_Bold G (lg_Background G (lg_Foreground G (lg_NewStyle G) (lg_Color G ''#252B2E'')) (lg_Color G ''#B2C98F'')) True),
     Set_option style_GenericHeadingWarn (lg_Bold G (lg_Background G (lg_Foreground G (lg_NewStyle G) (lg_Color G ''#252B2E'')) (lg_Color G ''#e6b99d'')) True),
     Set_option style_GenericHeadingError (lg_Bold G (lg_Background G (lg_Foreground G (lg_NewStyle G) (lg_Color G ''#252B2E'')) (lg_Color G ''#E67E80'')) True),
     Set_option style_TextOK (lg_Foreground G base (lg_Color G ''#B2C98F'')),
     Set_option style_TextWarn (lg_Foreground G base (lg_Color G ''#e6b99d'')),
     Set_option style_TextError (lg_Foreground G base (lg_Color G ''#E67E80''))])"

definition Friendly :: "('c, 's) lipgloss \<Rightarrow> 's styles" where
  "Friendly G = (let base = lg_Background G (lg_Foreground G (lg_NewStyle G) (lg_Color G ''#000000'')) (lg_Color G ''#f0f0f0'') in NewStyles base
    [Set_option style_Comment (lg_Italic G (lg_Foreground G base (lg_Color G ''#60a0b0'')) True),
     Set_option style_GenericDeleted (lg_Foreground G base (lg_Color G ''#a00000'')),
     Set_option style_GenericError (lg_Foreground G base (lg_Color G ''#ff0000'')),
     Set_option style_GenericInserted (lg_Foreground G base (lg_Color G ''#00a000'')),
     Set_option style_LiteralNumber (lg_Foreground G base (lg_Color G ''#40a070'')),
     Set_option style_LiteralString (lg_Foreground G base (lg_Color G ''#4070a0'')),
     Set_option style_NameDecorator (lg_Bold G (lg_Foreground G base (lg_Color G ''#555555'')) True),
     Set_option style_NameTag (lg_Bold G (lg_Foreground G base (lg_Color G ''#062873'')) True),
     Set_option style_Generic (lg_Italic G base True),
     Set_option style_Name (lg_Foreground G base (lg_Color G ''#007020'')),
     Set_option style_PunctuationHeading (lg_Bold G (lg_Foreground G base (lg_Color G ''#0e84b5'')) True),
     Set_option style_Punctuation (lg_Foreground G base (lg_Color G ''#666666'')),
     Set_option style_GenericHeading (lg_Bold G (lg_Background G (lg_Foreground G (lg_NewStyle G) (lg_Color G ''#f0f0f0'')) (lg_Color G ''#062873'')) True),
     Set_option style_GenericHeadingAccent (lg_Foreground G (lg_Background G base (lg_Darken G (lg_Color G ''#f0f0f0'') 30)) (lg_Darken G (lg_Color G ''#000000'') 15)),
     Set_option style_GenericHeadingSubtle (lg_Background G base (lg_Darken G (lg_Color G ''#f0f0f0'') 15)),
     Set_option style_TextAccentDim (lg_Foreground G base (lg_Darken G (lg_Color G ''#062873'') 15)),
     Set_option style_TextAccent (lg_Foreground G base (lg_Color G ''#062873'')),
     Set_option style_TextSubtleDim (lg_Foreground G base (lg_Lighten G (lg_Color G ''#000000'') 15)),
     Set_option style_TextSubtle (lg_Foreground G base (lg_Color G ''#000000'')),
     Set_option style_GenericHighlightDim (lg_Background G (lg_NewStyle G) (lg_Darken G (lg_Color G ''#f0f0f0'') 15)),
     Set_option style_GenericHighlight (lg_Background G (lg_NewStyle G) (lg_Darken G (lg_Color G ''#f0f0f0'') 30)),
     Set_option style_GenericHeadingOK (lg_Bold G (lg_Background G (lg_Foreground G (lg_NewStyle G) (lg_Color G ''#f0f0f0'')) (lg_Color G ''#00a000'')) True),
     Set_option style_GenericHeadingWarn (lg_Bold G (lg_Background G (lg_Foreground G (lg_NewStyle G) (lg_Color G ''#f0f0f0'')) (lg_Color G ''#b07d2b'')) True),
     Set_option style_GenericHeadingError (lg_Bold G (lg_Background G (lg_Foreground G (lg_NewStyle G) (lg_Color G ''#f0f0f0'')) (lg_Color G ''#a00000'')) True),
     Set_option style_TextOK (lg_Foreground G base (lg_Color G ''#00a000'')),
     Set_option style_TextWarn (lg_Foreground G base (lg_Color G ''#b07d2b'')),
     Set_option style_TextError (lg_Foreground G base (lg_Color G ''#a00000''))])"

definition Fruity :: "('c, 's) lipgloss \<Rightarrow> 's styles" where
  "Fruity G = (let base = lg_Background G (lg_Foreground G (lg_NewStyle G) (lg_Color G ''#ffffff'')) (lg_Color G ''#111111'') in NewStyles base
    [Set_option style_Comment (lg_Italic G (lg_Background G (lg_Foreground G base (lg_Color G ''#008800'')) (lg_Color G ''#0f140f'')) True),
     Set_option style_LiteralNumber (lg_Bold G (lg_Foreground G base (lg_Color G ''#0086f7'')) True),
     Set_option style_LiteralString (lg_Foreground G base (lg_Color G ''#0086d2'')),
     Set_option style_NameTag (lg_Bold G (lg_Foreground G base (lg_Color G ''#fb660a'')) True),
     Set_option style_NameDecorator (lg_Bold G (lg_Foreground G base (lg_Color G ''#ff0007'')) True),
     Set_option style_Generic (lg_Bold G (lg_Foreground G base (lg_Color G ''#ffffff'')) True),
     Set_option style_Name (lg_Foreground G base (lg_Color G ''#0086d2'')),
     Set_option style_GenericHeading (lg_Bold G (lg_Background G (lg_Foreground G (lg_NewStyle G) (lg_Color G ''#111111'')) (lg_Color G ''#fb660a'')) True),
     Set_option style_GenericHeadingAccent (lg_Foreground G (lg_Background G base (lg_Lighten G (lg_Color G ''#111111'') 30)) (lg_Lighten G (lg_Color G ''#ffffff'') 15)),
     Set_option style_GenericHeadingSubtle (lg_Background G base (lg_Lighten G (lg_Color G ''#111111'') 15)),
     Set_option style_TextAccentDim (lg_Foreground G base (lg_Lighten G (lg_Color G ''#fb660a'') 15)),
     Set_option style_TextAccent (lg_Foreground G base (lg_Color G ''#fb660a'')),
     Set_option style_TextSubtleDim (lg_Foreground G base (lg_Darken G (lg_Color G ''#ffffff'') 15)),
     Set_option style_TextSubtle (lg_Foreground G base (lg_Color G ''#ffffff'')),
     Set_option style_GenericHighlightDim (lg_Background G (lg_NewStyle G) (lg_Lighten G (lg_Color G ''#111111'') 15)),
     Set_option style_GenericHighlight (lg_Background G (lg_NewStyle G) (lg_Lighten G (lg_Color G ''#111111'') 30)),
     Set_option style_GenericHeadingOK (lg_Bold G (lg_Background G (lg_Foreground G (lg_NewStyle G) (lg_Color G ''#111111'')) (lg_Color G ''#00ff00'')) True),
     Set_option style_GenericHeadingWarn (lg_Bold G (lg_Background G (lg_Foreground G (lg_NewStyle G) (lg_Color G ''#111111'')) (lg_Color G ''#ffb86c'')) True),
     Set_option style_GenericHeadingError (lg_Bold G (lg_Background G (lg_Foreground G (lg_NewStyle G) (lg_Color G ''#111111'')) (lg_Color G ''#ff0000'')) True),
     Set_option style_TextOK (lg_Foreground G base (lg_Color G ''#00ff00'')),
     Set_option style_TextWarn (lg_Foreground G base (lg_Color G ''#ffb86c'')),
     Set_option style_TextError (lg_Foreground G base (lg_Color G ''#ff0000''))])"

definition Github :: "('c, 's) lipgloss \<Rightarrow> 's styles" where
  "Github G = (let base = lg_Background G (lg_Foreground G (lg_NewStyle G) (lg_Color G ''#1f2328'')) (lg_Color G ''#f7f7f7'') in NewStyles base
    [Set_option style_Comment (lg_Foreground G base (lg_Color G ''#57606a'')),
     Set_option style_CommentPreproc (lg_Foreground G base (lg_Color G ''#57606a'')),
     Set_option style_GenericDeleted (lg_Background G (lg_Foreground G base (lg_Color G ''#82071e'')) (lg_Color G ''#ffebe9'')),
     Set_option style_GenericInserted (lg_Background G (lg_Foreground G base (lg_Color G ''#116329'')) (lg_Color G ''#dafbe1'')),
     Set_option style_LiteralNumber (lg_Foreground G base (lg_Color G ''#0550ae'')),
     Set_option style_LiteralString (lg_Foreground G base (lg_Color G ''#0a3069'')),
     Set_option style_NameDecorator (lg_Foreground G base (lg_Color G ''#0550ae'')),
     Set_option style_NameTag (lg_Foreground G base (lg_Color G ''#0550ae'')),
     Set_option style_Punctuation (lg_Foreground G base (lg_Color G ''#1f2328'')),
     Set_option style_GenericHeading (lg_Bold G (lg_Background G (lg_Foreground G (lg_NewStyle G) (lg_Color G ''#f7f7f7'')) (lg_Color G ''#0550ae'')) True),
     Set_option style_GenericHeadingAccent (lg_Foreground G (lg_Background G base (lg_Darken G (lg_Color G ''#f7f7f7'') 30)) (lg_Darken G (lg_Color G ''#1f2328'') 15)),
     Set_option style_GenericHeadingSubtle (lg_Background G base (lg_Darken G (lg_Color G ''#f7f7f7'') 15)),
     Set_option style_TextAccentDim (lg_Foreground G base (lg_Darken G (lg_Color G ''#0550ae'') 15)),
     Set_option style_TextAccent (lg_Foreground G base (lg_Color G ''#0550ae'')),
     Set_option style_TextSubtleDim (lg_Foreground G base (lg_Lighten G (lg_Color G ''#1f2328'') 15)),
     Set_option style_TextSubtle (lg_Foreground G base (lg_Color G ''#1f2328'')),
     Set_option style_GenericHighlightDim (lg_Background G (lg_NewStyle G) (lg_Darken G (lg_Color G ''#f7f7f7'') 15)),
     Set_option style_GenericHighlight (lg_Background G (lg_NewStyle G) (lg_Darken G (lg_Color G ''#f7f7f7'') 30)),
     Set_option style_GenericHeadingOK (lg_Bold G (lg_Background G (lg_Foreground G (lg_NewStyle G) (lg_Color G ''#f7f7f7'')) (lg_Color G ''#116329'')) True),
     Set_option style_GenericHeadingWarn (lg_Bold G (lg_Background G (lg_Foreground G (lg_NewStyle G) (lg_Color G ''#f7f7f7'')) (lg_Color G ''#d08700'')) True),
     Set_option style_GenericHeadingError (lg_Bold G (lg_Background G (lg_Foreground G (lg_NewStyle G) (lg_Color G ''#f7f7f7'')) (lg_Color G ''#82071e'')) True),
     Set_option style_TextOK (lg_Foreground G base (lg_Color G ''#116329'')),
     Set_option style_TextWarn (lg_Foreground G base (lg_Color G ''#d08700'')),
     Set_option style_TextError (lg_Foreground G base (lg_Color G ''#82071e''))])"

definition GithubDark :: "('c, 's) lipgloss \<Rightarrow> 's styles" where
  "GithubDark G = (let base = lg_Background G (lg_Foreground G (lg_NewStyle G) (lg_Color G ''#e6edf3'')) (lg_Color G ''#0d1117'') in NewStyles base
    [Set_option style_Comment (lg_Italic G (lg_Foreground G base (lg_Color G ''#8b949e'')) True),
     Set_option style_Generic (lg_Foreground G base (lg_Color G ''#e6edf3'')),
     Set_option style_GenericDeleted (lg_Background G (lg_Foreground G base (lg_Color G ''#ffa198'')) (lg_Color G ''#490202'')),
     Set_option style_GenericError (lg_Foreground G base (lg_Color G ''#ffa198'')),
     Set_option style_GenericInserted (lg_Background G (lg_Foreground G base (lg_Color G ''#56d364'')) (lg_Color G ''#0f5323'')),
     Set_option style_Name (lg_Foreground G base (lg_Color G ''#e6edf3'')),
     Set_option style_NameDecorator (lg_Bold G (lg_Foreground G base (lg_Color G ''#d2a8ff'')) True),
     Set_option style_NameTag (lg_Foreground G base (lg_Color G ''#7ee787'')),
     Set_option style_LiteralBoolean (lg_Foreground G base (lg_Color G ''#79c0ff'')),
     Set_option style_LiteralString (lg_Foreground G base (lg_Color G ''#a5d6ff'')),
     Set_option style_PunctuationHeading (lg_Foreground G base (lg_Color G ''#ff7b72'')),
     Set_option style_Punctuation (lg_Bold G (lg_Foreground G base (lg_Color G ''#ff7b72'')) True),
     Set_option style_GenericHeading (lg_Bold G (lg_Background G (lg_Foreground G (lg_NewStyle G) (lg_Color G ''#0d1117'')) (lg_Color G ''#7ee787'')) True),
     Set_option style_GenericHeadingAccent (lg_Foreground G (lg_Background G base (lg_Lighten G (lg_Color G ''#0d1117'') 30)) (lg_Lighten G (lg_Color G ''#e6edf3'') 15)),
     Set_option style_GenericHeadingSubtle (lg_Background G base (lg_Lighten G (lg_Color G ''#0d1117'') 15)),
     Set_option style_TextAccentDim (lg_Foreground G base (lg_Lighten G (lg_Color G ''#7ee787'') 15)),
     Set_option style_TextAccent (lg_Foreground G base (lg_Color G ''#7ee787'')),
     Set_option style_TextSubtleDim (lg_Foreground G base (lg_Darken G (lg_Color G ''#e6edf3'') 15)),
     Set_option style_TextSubtle (lg_Foreground G base (lg_Color G ''#e6edf3'')),
     Set_option style_GenericHighlightDim (lg_Background G (lg_NewStyle G) (lg_Lighten G (lg_Color G ''#0d1117'') 15)),
     Set_option style_GenericHighlight (lg_Background G (lg_NewStyle G) (lg_Lighten G (lg_Color G ''#0d1117'') 30)),
     Set_option style_GenericHeadingOK (lg_Bold G (lg_Background G (lg_Foreground G (lg_NewStyle G) (lg_Color G ''#0d1117'')) (lg_Color G ''#56d364'')) True),
     Set_option style_GenericHeadingWarn (lg_Bold G (lg_Background G (lg_Foreground G (lg_NewStyle G) (lg_Color G ''#0d1117'')) (lg_Color G ''#d29922'')) True),
     Set_option style_GenericHeadingError (lg_Bold G (lg_Background G (lg_Foreground G (lg_NewStyle G) (lg_Color G ''#0d1117'')) (lg_Color G ''#ffa198'')) True),
     Set_option style_TextOK (lg_Foreground G base (lg_Color G ''#56d364'')),
     Set_option style_TextWarn (lg_Foreground G base (lg_Color G ''#d29922'')),
     Set_option style_TextError (lg_Foreground G base (lg_Color G ''#ffa198''))])"

definition Gruvbox :: "('c, 's) lipgloss \<Rightarrow> 's styles" where
  "Gruvbox G = (let base = lg_Background G (lg_Foreground G (lg_NewStyle G) (lg_Color G ''#ebdbb2'')) (lg_Color G ''#282828'') in NewStyles base
    [Set_option style_Comment (lg_Italic G (lg_Foreground G base (lg_Color G ''#928374'')) True),
     Set_option style_Generic (lg_Foreground G base (lg_Color G ''#ebdbb2'')),
     Set_option style_GenericDeleted (lg_Background G (lg_Foreground G base (lg_Color G ''#282828'')) (lg_Color G ''#fb4934'')),
     Set_option style_GenericError (lg_Bold G (lg_Background G base (lg_Color G ''#fb4934'')) True),
     Set_option style_GenericInserted (lg_Background G (lg_Foreground G base (lg_Color G ''#282828'')) (lg_Color G ''#b8bb26'')),
     Set_option style_LiteralNumber (lg_Foreground G base (lg_Color G ''#d3869b'')),
     Set_option style_LiteralNumberFloat (lg_Foreground G base (lg_Color G ''#d3869b'')),
     Set_option style_LiteralString (lg_Foreground G base (lg_Color G ''#b8bb26'')),
     Set_option style_Name (lg_Foreground G base (lg_Color G ''#ebdbb2'')),
     Set_option style_NameTag (lg_Foreground G base (lg_Color G ''#fb4934'')),
     Set_option style_NameDecorator (lg_Foreground G base (lg_Color G ''#8ec07c'')),
     Set_option style_Punctuation (lg_Foreground G base (lg_Color G ''#fe8019'')),
     Set_option style_GenericHeading (lg_Bold G (lg_Background G (lg_Foreground G (lg_NewStyle G) (lg_Color G ''#282828'')) (lg_Color G ''#fb4934'')) True),
     Set_option style_GenericHeadingAccent (lg_Foreground G (lg_Background G base (lg_Lighten G (lg_Color G ''#282828'') 30)) (lg_Lighten G (lg_Color G ''#ebdbb2'') 15)),
     Set_option style_GenericHeadingSubtle (lg_Background G base (lg_Lighten G (lg_Color G ''#282828'') 15)),
     Set_option style_TextAccentDim (lg_Foreground G base (lg_Lighten G (lg_Color G ''#fb4934'') 15)),
     Set_option style_TextAccent (lg_Foreground G base (lg_Color G ''#fb4934'')),
     Set_option style_TextSubtleDim (lg_Foreground G base (lg_Darken G (lg_Color G ''#ebdbb2'') 15)),
     Set_option style_TextSubtle (lg_Foreground G base (lg_Color G ''#ebdbb2'')),
     Set_option style_GenericHighlightDim (lg_Background G (lg_NewStyle G) (lg_Lighten G (lg_Color G ''#282828'') 15)),
     Set_option style_GenericHighlight (lg_Background G (lg_NewStyle G) (lg_Lighten G (lg_Color G ''#282828'') 30)),
     Set_option style_GenericHeadingOK (lg_Bold G (lg_Background G (lg_Foreground G (lg_NewStyle G) (lg_Color G ''#282828'')) (lg_Color G ''#b8bb26'')) True),
     Set_option style_GenericHeadingWarn (lg_Bold G (lg_Background G (lg_Foreground G (lg_NewStyle G) (lg_Color G ''#282828'')) (lg_Color G ''#fabd2f'')) True),
     Set_option style_GenericHeadingError (lg_Bold G (lg_Background G (lg_Foreground G (lg_NewStyle G) (lg_Color G ''#282828'')) (lg_Color G ''#fb4934'')) True),
     Set_option style_TextOK (lg_Foreground G base (lg_Color G ''#b8bb26'')),
     Set_option style_TextWarn (lg_Foreground G base (lg_Color G ''#fabd2f'')),
     Set_option style_TextError (lg_Foreground G base (lg_Color G ''#fb4934''))])"

definition GruvboxLight :: "('c, 's) lipgloss \<Rightarrow> 's styles" where
  "GruvboxLight G = (let base = lg_Background G (lg_Foreground G (lg_NewStyle G) (lg_Color G ''#3c3836'')) (lg_Color G ''#fbf1c7'') in NewStyles base
    [Set_option style_Comment (lg_Italic G (lg_Foreground G base (lg_Color G ''#928374'')) True),
     Set_option style_Generic (lg_Foreground G base (lg_Color G ''#3c3836'')),
     Set_option style_GenericDeleted (lg_Background G (lg_Foreground G base (lg_Color G ''#282828'')) (lg_Color G ''#9d0006'')),
     Set_option style_GenericError (lg_Bold G (lg_Background G base (lg_Color G ''#9d0006'')) True),
     Set_option style_GenericInserted (lg_Background G (lg_Foreground G base (lg_Color G ''#282828'')) (lg_Color G ''#79740e'')),
     Set_option style_LiteralNumber (lg_Foreground G base (lg_Color G ''#8f3f71'')),
     Set_option style_LiteralNumberFloat (lg_Foreground G base (lg_Color G ''#8f3f71'')),
     Set_option style_LiteralString (lg_Foreground G base (lg_Color G ''#79740e'')),
     Set_option style_Name (lg_Foreground G base (lg_Color G ''#3c3836'')),
     Set_option style_NameTag (lg_Foreground G base (lg_Color G ''#9d0006'')),
     Set_option style_NameDecorator (lg_Foreground G base (lg_Color G ''#427b58'')),
     Set_option style_Punctuation (lg_Foreground G base (lg_Color G ''#af3a03'')),
     Set_option style_GenericHeading (lg_Bold G (lg_Background G (lg_Foreground G (lg_NewStyle G) (lg_Color G ''#fbf1c7'')) (lg_Color G ''#9d0006'')) True),
     Set_option style_GenericHeadingAccent (lg_Foreground G (lg_Background G base (lg_Darken G (lg_Color G ''#fbf1c7'') 30)) (lg_Darken G (lg_Color G ''#3c3836'') 15)),
     Set_option style_GenericHeadingSubtle (lg_Background G base (lg_Darken G (lg_Color G ''#fbf1c7'') 15)),
     Set_option style_TextAccentDim (lg_Foreground G base (lg_Darken G (lg_Color G ''#9d0006'') 15)),
     Set_option style_TextAccent (lg_Foreground G base (lg_Color G ''#9d0006'')),
     Set_option style_TextSubtleDim (lg_Foreground G base (lg_Lighten G (lg_Color G ''#3c3836'') 15)),
     Set_option style_TextSubtle (lg_Foreground G base (lg_Color G ''#3c3836'')),
     Set_option style_GenericHighlightDim (lg_Background G (lg_NewStyle G) (lg_Darken G (lg_Color G ''#fbf1c7'') 15)),
     Set_option style_GenericHighlight (lg_Background G (lg_NewStyle G) (lg_Darken G (lg_Color G ''#fbf1c7'') 30)),
     Set_option style_GenericHeadingOK (lg_Bold G (lg_Background G (lg_Foreground G (lg_NewStyle G) (lg_Color G ''#fbf1c7'')) (lg_Color G ''#79740e'')) True),
     Set_option style_GenericHeadingWarn (lg_Bold G (lg_Background G (lg_Foreground G (lg_NewStyle G) (lg_Color G ''#fbf1c7'')) (lg_Color G ''#b57614'')) True),
     Set_option style_GenericHeadingError (lg_Bold G (lg_Background G (lg_Foreground G (lg_NewStyle G) (lg_Color G ''#fbf1c7'')) (lg_Color G ''#9d0006'')) True),
     Set_option style_TextOK (lg_Foreground G base (lg_Color G ''#79740e'')),
     Set_option style_TextWarn (lg_Foreground G base (lg_Color G ''#b57614'')),
     Set_option style_TextError (lg_Foreground G base (lg_Color G ''#9d0006''))])"

definition HrHighContrast :: "('c, 's) lipgloss \<Rightarrow> 's styles" where
  "HrHighContrast G = (let base = lg_Background G (lg_Foreground G (lg_NewStyle G) (lg_Color G ''#d5d500'')) (lg_Color G ''#000000'') in NewStyles base
    [Set_option style_Comment (lg_Foreground G base (lg_Color G ''#5a8349'')),
     Set_option style_LiteralNumber (lg_Foreground G base (lg_Color G ''#ffffff'')),
     Set_option style_LiteralString (lg_Foreground G base (lg_Color G ''#a87662'')),
     Set_option style_Name (lg_Foreground G base (lg_Color G ''#ffffff'')),
     Set_option style_NameTag (lg_Foreground G base (lg_Color G ''#467faf'')),
     Set_option style_LiteralBoolean (lg_Foreground G base (lg_Color G ''#467faf'')),
     Set_option style_Punctuation (lg_Foreground G base (lg_Color G ''#e4e400'')),
     Set_option style_GenericHeading (lg_Bold G (lg_Background G (lg_Foreground G (lg_NewStyle G) (lg_Color G ''#000000'')) (lg_Color G ''#467faf'')) True),
     Set_option style_GenericHeadingAccent (lg_Foreground G (lg_Background G base (lg_Lighten G (lg_Color G ''#000000'') 30)) (lg_Lighten G (lg_Color G ''#d5d500'') 15)),
     Set_option style_GenericHeadingSubtle (lg_Background G base (lg_Lighten G (lg_Color G ''#000000'') 15)),
     Set_option style_TextAccentDim (lg_Foreground G base (lg_Lighten G (lg_Color G ''#467faf'') 15)),
     Set_option style_TextAccent (lg_Foreground G base (lg_Color G ''#467faf'')),
     Set_option style_TextSubtleDim (lg_Foreground G base (lg_Darken G (lg_Color G ''#d5d500'') 15)),
     Set_option style_TextSubtle (lg_Foreground G base (lg_Color G ''#d5d500'')),
     Set_option style_GenericHighlightDim (lg_Background G (lg_NewStyle G) (lg_Lighten G (lg_Color G ''#000000'') 15)),
     Set_option style_GenericHighlight (lg_Background G (lg_NewStyle G) (lg_Lighten G (lg_Color G ''#000000'') 30)),
     Set_option style_GenericHeadingOK (lg_Bold G (lg_Background G (lg_Foreground G (lg_NewStyle G) (lg_Color G ''#000000'')) (lg_Color G ''#00ff00'')) True),
     Set_option style_GenericHeadingWarn (lg_Bold G (lg_Background G (lg_Foreground G (lg_NewStyle G) (lg_Color G ''#000000'')) (lg_Color G ''#e5c07b'')) True),
     Set_option style_GenericHeadingError (lg_Bold G (lg_Background G (lg_Foreground G (lg_NewStyle G) (lg_Color G ''#000000'')) (lg_Color G ''#ff0000'')) True),
     Set_option style_TextOK (lg_Foreground G base (lg_Color G ''#00ff00'')),
     Set_option style_TextWarn (lg_Foreground G base (lg_Color G ''#e5c07b'')),
     Set_option style_TextError (lg_Foreground G base (lg_Color G ''#ff0000''))])"

definition Hrdark :: "('c, 's) lipgloss \<Rightarrow> 's styles" where
  "Hrdark G = (let base = lg_Background G (lg_Foreground G (lg_NewStyle G) (lg_Color G ''#ffffff'')) (lg_Color G ''#1d2432'') in NewStyles base
    [Set_option style_Comment (lg_Italic G (lg_Foreground G base (lg_Color G ''#828b96'')) True),
     Set_option style_Name (lg_Foreground G base (lg_Color G ''#58a1dd'')),
     Set_option style_NameTag (lg_Foreground G base (lg_Color G ''#ff636f'')),
     Set_option style_LiteralString (lg_Foreground G base (lg_Color G ''#a6be9d'')),
     Set_option style_Punctuation (lg_Foreground G base (lg_Color G ''#ff636f'')),
     Set_option style_GenericHeading (lg_Bold G (lg_Background G (lg_Foreground G (lg_NewStyle G) (lg_Color G ''#1d2432'')) (lg_Color G ''#ff636f'')) True),
     Set_option style_GenericHeadingAccent (lg_Foreground G (lg_Background G base (lg_Lighten G (lg_Color G ''#1d2432'') 30)) (lg_Lighten G (lg_Color G ''#ffffff'') 15)),
     Set_option style_GenericHeadingSubtle (lg_Background G base (lg_Lighten G (lg_Color G ''#1d2432'') 15)),
     Set_option style_TextAccentDim (lg_Foreground G base (lg_Lighten G (lg_Color G ''#ff636f'') 15)),
     Set_option style_TextAccent (lg_Foreground G base (lg_Color G ''#ff636f'')),
     Set_option style_TextSubtleDim (lg_Foreground G base (lg_Darken G (lg_Color G ''#ffffff'') 15)),
     Set_option style_TextSubtle (lg_Foreground G base (lg_Color G ''#ffffff'')),
     Set_option style_GenericHighlightDim (lg_Background G (lg_NewStyle G) (lg_Lighten G (lg_Color G ''#1d2432'') 15)),
     Set_option style_GenericHighlight (lg_Background G (lg_NewStyle G) (lg_Lighten G (lg_Color G ''#1d2432'') 30)),
     Set_option style_GenericHeadingOK (lg_Bold G (lg_Background G (lg_Foreground G (lg_NewStyle G) (lg_Color G ''#1d2432'')) (lg_Color G ''#00ff00'')) True),
     Set_option style_GenericHeadingWarn (lg_Bold G (lg_Background G (lg_Foreground G (lg_NewStyle G) (lg_Color G ''#1d2432'')) (lg_Color G ''#e5c07b'')) True),
     Set_option style_GenericHeadingError (lg_Bold G (lg_Background G (lg_Foreground G (lg_NewStyle G) (lg_Color G ''#1d2432'')) (lg_Color G ''#ff0000'')) True),
     Set_option style_TextOK (lg_Foreground G base (lg_Color G ''#00ff00'')),
     Set_option style_TextWarn (lg_Foreground G base (lg_Color G ''#e5c07b'')),
     Set_option style_TextError (lg_Foreground G base (lg_Color G ''#ff0000''))])"

definition Igor :: "('c, 's) lipgloss \<Rightarrow> 's styles" where
  "Igor G = (let base = lg_Background G (lg_Foreground G (lg_NewStyle G) (lg_Color G ''#000000'')) (lg_Color G ''#ffffff'') in NewStyles base
    [Set_option style_Comment (lg_Italic G (lg_Foreground G base (lg_Color G ''#ff0000'')) True),
     Set_option style_LiteralString (lg_Foreground G base (lg_Color G ''#009c00'')),
     Set_option style_NameDecorator (lg_Foreground G base (lg_Color G ''#cc00a3'')),
     Set_option style_NameTag (lg_Foreground G base (lg_Color G ''#0000ff'')),
     Set_option style_Name (lg_Foreground G base (lg_Color G ''#007575'')),
     Set_option style_GenericHeading (lg_Bold G (lg_Background G (lg_Foreground G (lg_NewStyle G) (lg_Color G ''#ffffff'')) (lg_Color G ''#0000ff'')) True),
     Set_option style_GenericHeadingAccent (lg_Foreground G (lg_Background G base (lg_Darken G (lg_Color G ''#ffffff'') 30)) (lg_Darken G (lg_Color G ''#000000'') 15)),
     Set_option style_GenericHeadingSubtle (lg_Background G base (lg_Darken G (lg_Color G ''#ffffff'') 15)),
     Set_option style_TextAccentDim (lg_Foreground G base (lg_Darken G (lg_Color G ''#0000ff'') 15)),
     Set_option style_TextAccent (lg_Foreground G base (lg_Color G ''#0000ff'')),
     Set_option style_TextSubtleDim (lg_Foreground G base (lg_Lighten G (lg_Color G ''#000000'') 15)),
     Set_option style_TextSubtle (lg_Foreground G base (lg_Color G ''#000000'')),
     Set_option style_GenericHighlightDim (lg_Background G (lg_NewStyle G) (lg_Darken G (lg_Color G ''#ffffff'') 15)),
     Set_option style_GenericHighlight (lg_Background G (lg_NewStyle G) (lg_Darken G (lg_Color G ''#ffffff'') 30)),
     Set_option style_GenericHeadingOK (lg_Bold G (lg_Background G (lg_Foreground G (lg_NewStyle G) (lg_Color G ''#ffffff'')) (lg_Color G ''#22863a'')) True),
     Set_option style_GenericHeadingWarn (lg_Bold G (lg_Background G (lg_Foreground G (lg_NewStyle G) (lg_Color G ''#ffffff'')) (lg_Color G ''#d08700'')) True),
     Set_option style_GenericHeadingError (lg_Bold G (lg_Background G (lg_Foreground G (lg_NewStyle G) (lg_Color G ''#ffffff'')) (lg_Color G ''#cb2431'')) True),
     Set_option style_TextOK (lg_Foreground G base (lg_Color G ''#22863a'')),
     Set_option style_TextWarn (lg_Foreground G base (lg_Color G ''#d08700'')),
     Set_option style_TextError (lg_Foreground G base (lg_Color G ''#cb2431''))])"

definition KanagawaDragon :: "('c, 's) lipgloss \<Rightarrow> 's styles" where
  "KanagawaDragon G = (let base = lg_Background G (lg_Foreground G (lg_NewStyle G) (lg_Color G ''#c5c9c5'')) (lg_Color G ''#181616'') in NewStyles base
    [Set_option style_Comment (lg_Italic G (lg_Foreground G base (lg_Color G ''#737c73'')) True),
     Set_option style_CommentPreproc (lg_Italic G (lg_Foreground G base (lg_Color G ''#c4746e'')) True),
     Set_option style_GenericDeleted (lg_Background G (lg_Foreground G base (lg_Color G ''#c34043'')) (lg_Color G ''#43242b'')),
     Set_option style_GenericError (lg_Foreground G base (lg_Color G ''#e82424'')),
     Set_option style_GenericInserted (lg_Background G (lg_Foreground G base (lg_Color G ''#76946a'')) (lg_Color G ''#2b3328'')),
     Set_option style_LiteralNumber (lg_Foreground G base (lg_Color G ''#a292a3'')),
     Set_option style_LiteralString (lg_Foreground G base (lg_Color G ''#8a9a7b'')),
     Set_option style_NameDecorator (lg_Bold G (lg_Foreground G base (lg_Color G ''#b6927b'')) True),
     Set_option style_NameTag (lg_Foreground G base (lg_Color G ''#8ba4b0'')),
     Set_option style_Punctuation (lg_Foreground G base (lg_Color G ''#c5c9c5'')),
     Set_option style_GenericHeading (lg_Bold G (lg_Background G (lg_Foreground G (lg_NewStyle G) (lg_Color G ''#181616'')) (lg_Color G ''#8ba4b0'')) True),
     Set_option style_GenericHeadingAccent (lg_Foreground G (lg_Background G base (lg_Lighten G (lg_Color G ''#181616'') 30)) (lg_Lighten G (lg_Color G ''#c5c9c5'') 15)),
     Set_option style_GenericHeadingSubtle (lg_Background G base (lg_Lighten G (lg_Color G ''#181616'') 15)),
     Set_option style_TextAccentDim (lg_Foreground G base (lg_Lighten G (lg_Color G ''#8ba4b0'') 15)),
     Set_option style_TextAccent (lg_Foreground G base (lg_Color G ''#8ba4b0'')),
     Set_option style_TextSubtleDim (lg_Foreground G base (lg_Darken G (lg_Color G ''#c5c9c5'') 15)),
     Set_option style_TextSubtle (lg_Foreground G base (lg_Color G ''#c5c9c5'')),
     Set_option style_GenericHighlightDim (lg_Background G (lg_NewStyle G) (lg_Lighten G (lg_Color G ''#181616'') 15)),
     Set_option style_GenericHighlight (lg_Background G (lg_NewStyle G) (lg_Lighten G (lg_Color G ''#181616'') 30)),
     Set_option style_GenericHeadingOK (lg_Bold G (lg_Background G (lg_Foreground G (lg_NewStyle G) (lg_Color G ''#181616'')) (lg_Color G ''#76946a'')) True),
     Set_option style_GenericHeadingWarn (lg_Bold G (lg_Background G (lg_Foreground G (lg_NewStyle G) (lg_Color G ''#181616'')) (lg_Color G ''#e6c384'')) True),
     Set_option style_GenericHeadingError (lg_Bold G (lg_Background G (lg_Foreground G (lg_NewStyle G) (lg_Color G ''#181616'')) (lg_Color G ''#c34043'')) True),
     Set_option style_TextOK (lg_Foreground G base (lg_Color G ''#76946a'')),
     Set_option style_TextWarn (lg_Foreground G base (lg_Color G ''#e6c384'')),
     Set_option style_TextError (lg_Foreground G base (lg_Color G ''#c34043''))])"

definition KanagawaLotus :: "('c, 's) lipgloss \<Rightarrow> 's styles" where
  "KanagawaLotus G = (let base = lg_Background G (lg_Foreground G (lg_NewStyle G) (lg_Color G ''#545464'')) (lg_Color G ''#f2ecbc'') in NewStyles base
    [Set_option style_Comment (lg_Italic G (lg_Foreground G base (lg_Color G ''#8a8980'')) True),
     Set_option style_CommentPreproc (lg_Italic G (lg_Foreground G base (lg_Color G ''#c84053'')) True),
     Set_option style_GenericDeleted (lg_Background G (lg_Foreground G base (lg_Color G ''#d7474b'')) (lg_Color G ''#d9a594'')),
     Set_option style_GenericError (lg_Foreground G base (lg_Color G ''#e82424'')),
     Set_option style_GenericInserted (lg_Background G (lg_Foreground G base (lg_Color G ''#6e915f'')) (lg_Color G ''#b7d0ae'')),
     Set_option style_LiteralNumber (lg_Foreground G base (lg_Color G ''#b35b79'')),
     Set_option style_LiteralString (lg_Foreground G base (lg_Color G ''#6f894e'')),
     Set_option style_NameDecorator (lg_Bold G (lg_Foreground G base (lg_Color G ''#cc6d00'')) True),
     Set_option style_NameTag (lg_Foreground G base (lg_Color G ''#4d699b'')),
     Set_option style_Punctuation (lg_Foreground G base (lg_Color G ''#545464'')),
     Set_option style_GenericHeading (lg_Bold G (lg_Background G (lg_Foreground G (lg_NewStyle G) (lg_Color G ''#f2ecbc'')) (lg_Color G ''#4d699b'')) True),
     Set_option style_GenericHeadingAccent (lg_Foreground G (lg_Background G base (lg_Darken G (lg_Color G ''#f2ecbc'') 30)) (lg_Darken G (lg_Color G ''#545464'') 15)),
     Set_option style_GenericHeadingSubtle (lg_Background G base (lg_Darken G (lg_Color G ''#f2ecbc'') 15)),
     Set_option style_TextAccentDim (lg_Foreground G base (lg_Darken G (lg_Color G ''#4d699b'') 15)),
     Set_option style_TextAccent (lg_Foreground G base (lg_Color G ''#4d699b'')),
     Set_option style_TextSubtleDim (lg_Foreground G base (lg_Lighten G (lg_Color G ''#545464'') 15)),
     Set_option style_TextSubtle (lg_Foreground G base (lg_Color G ''#545464'')),
     Set_option style_GenericHighlightDim (lg_Background G (lg_NewStyle G) (lg_Darken G (lg_Color G ''#f2ecbc'') 15)),
     Set_option style_GenericHighlight (lg_Background G (lg_NewStyle G) (lg_Darken G (lg_Color G ''#f2ecbc'') 30)),
     Set_option style_GenericHeadingOK (lg_Bold G (lg_Background G (lg_Foreground G (lg_NewStyle G) (lg_Color G ''#f2ecbc'')) (lg_Color G ''#6e915f'')) True),
     Set_option style_GenericHeadingWarn (lg_Bold G (lg_Background G (lg_Foreground G (lg_NewStyle G) (lg_Color G ''#f2ecbc'')) (lg_Color G ''#cc6d00'')) True),
     Set_option style_GenericHeadingError (lg_Bold G (lg_Background G (lg_Foreground G (lg_NewStyle G) (lg_Color G ''#f2ecbc'')) (lg_Color G ''#d7474b'')) True),
     Set_option style_TextOK (lg_Foreground G base (lg_Color G ''#6e915f'')),
     Set_option style_TextWarn (lg_Foreground G base (lg_Color G ''#cc6d00'')),
     Set_option style_TextError (lg_Foreground G base (lg_Color G ''#d7474b''))])"

definition KanagawaWave :: "('c, 's) lipgloss \<Rightarrow> 's styles" where
  "KanagawaWave G = (let base = lg_Background G (lg_Foreground G (lg_NewStyle G) (lg_Color G ''#dcd7ba'')) (lg_Color G ''#1f1f28'') in NewStyles base
    [Set_option style_Comment (lg_Italic G (lg_Foreground G base (lg_Color G ''#727169'')) True),
     Set_option style_CommentPreproc (lg_Italic G (lg_Foreground G base (lg_Color G ''#e46876'')) True),
     Set_option style_GenericDeleted (lg_Background G (lg_Foreground G base (lg_Color G ''#c34043'')) (lg_Color G ''#43242b'')),
     Set_option style_GenericError (lg_Foreground G base (lg_Color G ''#e82424'')),
     Set_option style_GenericInserted (lg_Background G (lg_Foreground G base (lg_Color G ''#76946a'')) (lg_Color G ''#2b3328'')),
     Set_option style_LiteralNumber (lg_Foreground G base (lg_Color G ''#d27e99'')),
     Set_option style_LiteralString (lg_Foreground G base (lg_Color G ''#98bb6c'')),
     Set_option style_NameDecorator (lg_Bold G (lg_Foreground G base (lg_Color G ''#ffa066'')) True),
     Set_option style_NameTag (lg_Foreground G base (lg_Color G ''#7e9cd8'')),
     Set_option style_Punctuation (lg_Foreground G base (lg_Color G ''#dcd7ba'')),
     Set_option style_GenericHeading (lg_Bold G (lg_Background G (lg_Foreground G (lg_NewStyle G) (lg_Color G ''#1f1f28'')) (lg_Color G ''#7e9cd8'')) True),
     Set_option style_GenericHeadingAccent (lg_Foreground G (lg_Background G base (lg_Lighten G (lg_Color G ''#1f1f28'') 30)) (lg_Lighten G (lg_Color G ''#dcd7ba'') 15)),
     Set_option style_GenericHeadingSubtle (lg_Background G base (lg_Lighten G (lg_Color G ''#1f1f28'') 15)),
     Set_option style_TextAccentDim (lg_Foreground G base (lg_Lighten G (lg_Color G ''#7e9cd8'') 15)),
     Set_option style_TextAccent (lg_Foreground G base (lg_Color G ''#7e9cd8'')),
     Set_option style_TextSubtleDim (lg_Foreground G base (lg_Darken G (lg_Color G ''#dcd7ba'') 15)),
     Set_option style_TextSubtle (lg_Foreground G base (lg_Color G ''#dcd7ba'')),
     Set_option style_GenericHighlightDim (lg_Background G (lg_NewStyle G) (lg_Lighten G (lg_Color G ''#1f1f28'') 15)),
     Set_option style_GenericHighlight (lg_Background G (lg_NewStyle G) (lg_Lighten G (lg_Color G ''#1f1f28'') 30)),
     Set_option style_GenericHeadingOK (lg_Bold G (lg_Background G (lg_Foreground G (lg_NewStyle G) (lg_Color G ''#1f1f28'')) (lg_Color G ''#76946a'')) True),
     Set_option style_GenericHeadingWarn (lg_Bold G (lg_Background G (lg_Foreground G (lg_NewStyle G) (lg_Color G ''#1f1f28'')) (lg_Color G ''#e6c384'')) True),
     Set_option style_GenericHeadingError (lg_Bold G (lg_Background G (lg_Foreground G (lg_NewStyle G) (lg_Color G ''#1f1f28'')) (lg_Color G ''#c34043'')) True),
     Set_option style_TextOK (lg_Foreground G base (lg_Color G ''#76946a'')),
     Set_option style_TextWarn (lg_Foreground G base (lg_Color G ''#e6c384'')),
     Set_option style_TextError (lg_Foreground G base (lg_Color G ''#c34043''))])"

definition Lovelace :: "('c, 's) lipgloss \<Rightarrow> 's styles" where
  "Lovelace G = (let base = lg_Background G (lg_Foreground G (lg_NewStyle G) (lg_Color G ''#000000'')) (lg_Color G ''#ffffff'') in NewStyles base
    [Set_option style_Comment (lg_Italic G (lg_Foreground G base (lg_Color G ''#888888'')) True),
     Set_option style_GenericDeleted (lg_Foreground G base (lg_Color G ''#c02828'')),
     Set_option style_GenericError (lg_Foreground G base (lg_Color G ''#c02828'')),
     Set_option style_GenericInserted (lg_Foreground G base (lg_Color G ''#388038'')),
     Set_option style_LiteralNumber (lg_Foreground G base (lg_Color G ''#444444'')),
     Set_option style_LiteralString (lg_Foreground G base (lg_Color G ''#b83838'')),
     Set_option style_NameDecorator (lg_Foreground G base (lg_Color G ''#287088'')),
     Set_option style_NameTag (lg_Foreground G base (lg_Color G ''#2838b0'')),
     Set_option style_Punctuation (lg_Foreground G base (lg_Color G ''#888888'')),
     Set_option style_Generic (lg_Italic G base True),
     Set_option style_LiteralBoolean (lg_Italic G (lg_Foreground G base (lg_Color G ''#444444'')) True),
     Set_option style_Name (lg_Foreground G base (lg_Color G ''#388038'')),
     Set_option style_PunctuationHeading (lg_Foreground G base (lg_Color G ''#289870'')),
     Set_option style_GenericHeading (lg_Bold G (lg_Background G (lg_Foreground G (lg_NewStyle G) (lg_Color G ''#ffffff'')) (lg_Color G ''#2838b0'')) True),
     Set_option style_GenericHeadingAccent (lg_Foreground G (lg_Background G base (lg_Darken G (lg_Color G ''#ffffff'') 30)) (lg_Darken G (lg_Color G ''#000000'') 15)),
     Set_option style_GenericHeadingSubtle (lg_Background G base (lg_Darken G (lg_Color G ''#ffffff'') 15)),
     Set_option style_TextAccentDim (lg_Foreground G base (lg_Darken G (lg_Color G ''#2838b0'') 15)),
     Set_option style_TextAccent (lg_Foreground G base (lg_Color G ''#2838b0'')),
     Set_option style_TextSubtleDim (lg_Foreground G base (lg_Lighten G (lg_Color G ''#000000'') 15)),
     Set_option style_TextSubtle (lg_Foreground G base (lg_Color G ''#000000'')),
     Set_option style_GenericHighlightDim (lg_Background G (lg_NewStyle G) (lg_Darken G (lg_Color G ''#ffffff'') 15)),
     Set_option style_GenericHighlight (lg_Background G (lg_NewStyle G) (lg_Darken G (lg_Color G ''#ffffff'') 30)),
     Set_option style_GenericHeadingOK (lg_Bold G (lg_Background G (lg_Foreground G (lg_NewStyle G) (lg_Color G ''#ffffff'')) (lg_Color G ''#388038'')) True),
     Set_option style_GenericHeadingWarn (lg_Bold G (lg_Background G (lg_Foreground G (lg_NewStyle G) (lg_Color G ''#ffffff'')) (lg_Color G ''#b07d2b'')) True),
     Set_option style_GenericHeadingError (lg_Bold G (lg_Background G (lg_Foreground G (lg_NewStyle G) (lg_Color G ''#ffffff'')) (lg_Color G ''#c02828'')) True),
     Set_option style_TextOK (lg_Foreground G base (lg_Color G ''#388038'')),
     Set_option style_TextWarn (lg_Foreground G base (lg_Color G ''#b07d2b'')),
     Set_option style_TextError (lg_Foreground G base (lg_Color G ''#c02828''))])"

definition Manni :: "('c, 's) lipgloss \<Rightarrow> 's styles" where
  "Manni G = (let base = lg_Background G (lg_Foreground G (lg_NewStyle G) (lg_Color G ''#000000'')) (lg_Color G ''#f0f3f3'') in NewStyles base
    [Set_option style_Comment (lg_Italic G (lg_Foreground G base (lg_Color G ''#0099ff'')) True),
     Set_option style_GenericDeleted (lg_Background G base (lg_Color G ''#ffcccc'')),
     Set_option style_GenericError (lg_Foreground G base (lg_Color G ''#ff0000'')),
     Set_option style_GenericInserted (lg_Background G base (lg_Color G ''#ccffcc'')),
     Set_option style_LiteralNumber (lg_Foreground G base (lg_Color G ''#ff6600'')),
     Set_option style_LiteralString (lg_Foreground G base (lg_Color G ''#cc3300'')),
     Set_option style_NameDecorator (lg_Foreground G base (lg_Color G ''#9999ff'')),
     Set_option style_NameTag (lg_Bold G (lg_Foreground G base (lg_Color G ''#330099'')) True),
     Set_option style_Generic (lg_Italic G base True),
     Set_option style_Name (lg_Foreground G base (lg_Color G ''#336666'')),
     Set_option style_PunctuationHeading (lg_Bold G (lg_Foreground G base (lg_Color G ''#00ccff'')) True),
     Set_option style_Punctuation (lg_Foreground G base (lg_Color G ''#555555'')),
     Set_option style_GenericHeading (lg_Bold G (lg_Background G (lg_Foreground G (lg_NewStyle G) (lg_Color G ''#f0f3f3'')) (lg_Color G ''#330099'')) True),
     Set_option style_GenericHeadingAccent (lg_Foreground G (lg_Background G base (lg_Darken G (lg_Color G ''#f0f3f3'') 30)) (lg_Darken G (lg_Color G ''#000000'') 15)),
     Set_option style_GenericHeadingSubtle (lg_Background G base (lg_Darken G (lg_Color G ''#f0f3f3'') 15)),
     Set_option style_TextAccentDim (lg_Foreground G base (lg_Darken G (lg_Color G ''#330099'') 15)),
     Set_option style_TextAccent (lg_Foreground G base (lg_Color G ''#330099'')),
     Set_option style_TextSubtleDim (lg_Foreground G base (lg_Lighten G (lg_Color G ''#000000'') 15)),
     Set_option style_TextSubtle (lg_Foreground G base (lg_Color G ''#000000'')),
     Set_option style_GenericHighlightDim (lg_Background G (lg_NewStyle G) (lg_Darken G (lg_Color G ''#f0f3f3'') 15)),
     Set_option style_GenericHighlight (lg_Background G (lg_NewStyle G) (lg_Darken G (lg_Color G ''#f0f3f3'') 30)),
     Set_option style_GenericHeadingOK (lg_Bold G (lg_Background G (lg_Foreground G (lg_NewStyle G) (lg_Color G ''#f0f3f3'')) (lg_Color G ''#22863a'')) True),
     Set_option style_GenericHeadingWarn (lg_Bold G (lg_Background G (lg_Foreground G (lg_NewStyle G) (lg_Color G ''#f0f3f3'')) (lg_Color G ''#b07d2b'')) True),
     Set_option style_GenericHeadingError (lg_Bold G (lg_Background G (lg_Foreground G (lg_NewStyle G) (lg_Color G ''#f0f3f3'')) (lg_Color G ''#cb2431'')) True),
     Set_option style_TextOK (lg_Foreground G base (lg_Color G ''#22863a'')),
     Set_option style_TextWarn (lg_Foreground G base (lg_Color G ''#b07d2b'')),
     Set_option style_TextError (lg_Foreground G base (lg_Color G ''#cb2431''))])"

definition ModusOperandi :: "('c, 's) lipgloss \<Rightarrow> 's styles" where
  "ModusOperandi G = (let base = lg_Background G (lg_Foreground G (lg_NewStyle G) (lg_Color G ''#000000'')) (lg_Color G ''#ffffff'') in NewStyles base
    [Set_option style_Comment (lg_Foreground G base (lg_Color G ''#505050'')),
     Set_option style_LiteralString (lg_Foreground G base (lg_Color G ''#2544bb'')),
     Set_option style_NameTag (lg_Foreground G base (lg_Color G ''#5317ac'')),
     Set_option style_LiteralBoolean (lg_Foreground G base (lg_Color G ''#0000c0'')),
     Set_option style_Name (lg_Foreground G base (lg_Color G ''#8f0075'')),
     Set_option style_Punctuation (lg_Foreground G base (lg_Color G ''#00538b'')),
     Set_option style_GenericHeading (lg_Bold G (lg_Background G (lg_Foreground G (lg_NewStyle G) (lg_Color G ''#ffffff'')) (lg_Color G ''#5317ac'')) True),
     Set_option style_GenericHeadingAccent (lg_Foreground G (lg_Background G base (lg_Darken G (lg_Color G ''#ffffff'') 30)) (lg_Darken G (lg_Color G ''#000000'') 15)),
     Set_option style_GenericHeadingSubtle (lg_Background G base (lg_Darken G (lg_Color G ''#ffffff'') 15)),
     Set_option style_TextAccentDim (lg_Foreground G base (lg_Darken G (lg_Color G ''#5317ac'') 15)),
     Set_option style_TextAccent (lg_Foreground G base (lg_Color G ''#5317ac'')),
     Set_option style_TextSubtleDim (lg_Foreground G base (lg_Lighten G (lg_Color G ''#000000'') 15)),
     Set_option style_TextSubtle (lg_Foreground G base (lg_Color G ''#000000'')),
     Set_option style_GenericHighlightDim (lg_Background G (lg_NewStyle G) (lg_Darken G (lg_Color G ''#ffffff'') 15)),
     Set_option style_GenericHighlight (lg_Background G (lg_NewStyle G) (lg_Darken G (lg_Color G ''#ffffff'') 30)),
     Set_option style_GenericHeadingOK (lg_Bold G (lg_Background G (lg_Foreground G (lg_NewStyle G) (lg_Color G ''#ffffff'')) (lg_Color G ''#006800'')) True),
     Set_option style_GenericHeadingWarn (lg_Bold G (lg_Background G (lg_Foreground G (lg_NewStyle G) (lg_Color G ''#ffffff'')) (lg_Color G ''#c65614'')) True),
     Set_option style_GenericHeadingError (lg_Bold G (lg_Background G (lg_Foreground G (lg_NewStyle G) (lg_Color G ''#ffffff'')) (lg_Color G ''#a60000'')) True),
     Set_option style_TextOK (lg_Foreground G base (lg_Color G ''#006800'')),
     Set_option style_TextWarn (lg_Foreground G base (lg_Color G ''#c65614'')),
     Set_option style_TextError (lg_Foreground G base (lg_Color G ''#a60000''))])"

text \<open>Every theme here is a call of \<open>NewStyles\<close>.\<close>

lemmas themes_2_defs = DoomOne2_def
  Dracula_def
  Emacs_def
  Evergarden_def
  Friendly_def
  Fruity_def
  Github_def
  GithubDark_def
  Gruvbox_def
  GruvboxLight_def
  HrHighContrast_def
  Hrdark_def
  Igor_def
  KanagawaDragon_def
  KanagawaLotus_def
  KanagawaWave_def
  Lovelace_def
  Manni_def
  ModusOperandi_def

end
