(* ===== verification/Themes_3.thy ===== *)
theory Themes_3
  imports Lipgloss
begin

text \<open>
  Package \<open>style/theme\<close>: the built-in themes from \<open>ModusVivendi\<close> to \<open>Rpgle\<close>, each the function of its file.
\<close>

definition ModusVivendi :: "('c, 's) lipgloss \<Rightarrow> 's styles" where
  "ModusVivendi G = (let base = lg_Background G (lg_Foreground G (lg_NewStyle G) (lg_Color G ''#ffffff'')) (lg_Color G ''#000000'') in NewStyles base
    [Set_option style_Comment (lg_Foreground G base (lg_Color G ''#a8a8a8'')),
     Set_option style_LiteralString (lg_Foreground G base (lg_Color G ''#79a8ff'')),
     Set_option style_NameTag (lg_Foreground G base (lg_Color G ''#b6a0ff'')),
     Set_option style_LiteralBoolean (lg_Foreground G base (lg_Color G ''#00bcff'')),
     Set_option style_Name (lg_Foreground G base (lg_Color G ''#f78fe7'')),
     Set_option style_Punctuation (lg_Foreground G base (lg_Color G ''#00d3d0'')),
     Set_option style_GenericHeading (lg_Bold G (lg_Background G (lg_Foreground G (lg_NewStyle G) (lg_Color G ''#000000'')) (lg_Color G ''#b6a0ff'')) True),
     Set_option style_GenericHeadingAccent (lg_Foreground G (lg_Background G base (lg_Lighten G (lg_Color G ''#000000'') 30)) (lg_Lighten G (lg_Color G ''#ffffff'') 15)),
     Set_option style_GenericHeadingSubtle (lg_Background G base (lg_Lighten G (lg_Color G ''#000000'') 15)),
     Set_option style_TextAccentDim (lg_Foreground G base (lg_Lighten G (lg_Color G ''#b6a0ff'') 15)),
     Set_option style_TextAccent (lg_Foreground G base (lg_Color G ''#b6a0ff'')),
     Set_option style_TextSubtleDim (lg_Foreground G base (lg_Darken G (lg_Color G ''#ffffff'') 15)),
     Set_option style_TextSubtle (lg_Foreground G base (lg_Color G ''#ffffff'')),
     Set_option style_GenericHighlightDim (lg_Background G (lg_NewStyle G) (lg_Lighten G (lg_Color G ''#000000'') 15)),
     Set_option style_GenericHighlight (lg_Background G (lg_NewStyle G) (lg_Lighten G (lg_Color G ''#000000'') 30)),
     Set_option style_GenericHeadingOK (lg_Bold G (lg_Background G (lg_Foreground G (lg_NewStyle G) (lg_Color G ''#000000'')) (lg_Color G ''#44bc44'')) True),
     Set_option style_GenericHeadingWarn (lg_Bold G (lg_Background G (lg_Foreground G (lg_NewStyle G) (lg_Color G ''#000000'')) (lg_Color G ''#d0bc00'')) True),
     Set_option style_GenericHeadingError (lg_Bold G (lg_Background G (lg_Foreground G (lg_NewStyle G) (lg_Color G ''#000000'')) (lg_Color G ''#ff5f59'')) True),
     Set_option style_TextOK (lg_Foreground G base (lg_Color G ''#44bc44'')),
     Set_option style_TextWarn (lg_Foreground G base (lg_Color G ''#d0bc00'')),
     Set_option style_TextError (lg_Foreground G base (lg_Color G ''#ff5f59''))])"

definition Monokai :: "('c, 's) lipgloss \<Rightarrow> 's styles" where
  "Monokai G = (let base = lg_Background G (lg_Foreground G (lg_NewStyle G) (lg_Color G ''#f8f8f2'')) (lg_Color G ''#272822'') in NewStyles base
    [Set_option style_Comment (lg_Foreground G base (lg_Color G ''#75715e'')),
     Set_option style_GenericDeleted (lg_Foreground G base (lg_Color G ''#f92672'')),
     Set_option style_GenericInserted (lg_Foreground G base (lg_Color G ''#a6e22e'')),
     Set_option style_LiteralNumber (lg_Foreground G base (lg_Color G ''#ae81ff'')),
     Set_option style_LiteralString (lg_Foreground G base (lg_Color G ''#e6db74'')),
     Set_option style_Name (lg_Foreground G base (lg_Color G ''#f8f8f2'')),
     Set_option style_NameDecorator (lg_Foreground G base (lg_Color G ''#a6e22e'')),
     Set_option style_NameTag (lg_Foreground G base (lg_Color G ''#f92672'')),
     Set_option style_Punctuation (lg_Foreground G base (lg_Color G ''#f8f8f2'')),
     Set_option style_GenericError (lg_Background G (lg_Foreground G base (lg_Color G ''#960050'')) (lg_Color G ''#1e0010'')),
     Set_option style_Generic (lg_Italic G base True),
     Set_option style_GenericHeading (lg_Bold G (lg_Background G (lg_Foreground G (lg_NewStyle G) (lg_Color G ''#272822'')) (lg_Color G ''#f92672'')) True),
     Set_option style_GenericHeadingAccent (lg_Foreground G (lg_Background G base (lg_Lighten G (lg_Color G ''#272822'') 30)) (lg_Lighten G (lg_Color G ''#f8f8f2'') 15)),
     Set_option style_GenericHeadingSubtle (lg_Background G base (lg_Lighten G (lg_Color G ''#272822'') 15)),
     Set_option style_TextAccentDim (lg_Foreground G base (lg_Lighten G (lg_Color G ''#f92672'') 15)),
     Set_option style_TextAccent (lg_Foreground G base (lg_Color G ''#f92672'')),
     Set_option style_TextSubtleDim (lg_Foreground G base (lg_Darken G (lg_Color G ''#f8f8f2'') 15)),
     Set_option style_TextSubtle (lg_Foreground G base (lg_Color G ''#f8f8f2'')),
     Set_option style_GenericHighlightDim (lg_Background G (lg_NewStyle G) (lg_Lighten G (lg_Color G ''#272822'') 15)),
     Set_option style_GenericHighlight (lg_Background G (lg_NewStyle G) (lg_Lighten G (lg_Color G ''#272822'') 30)),
     Set_option style_GenericHeadingOK (lg_Bold G (lg_Background G (lg_Foreground G (lg_NewStyle G) (lg_Color G ''#272822'')) (lg_Color G ''#a6e22e'')) True),
     Set_option style_GenericHeadingWarn (lg_Bold G (lg_Background G (lg_Foreground G (lg_NewStyle G) (lg_Color G ''#272822'')) (lg_Color G ''#e6db74'')) True),
     Set_option style_GenericHeadingError (lg_Bold G (lg_Background G (lg_Foreground G (lg_NewStyle G) (lg_Color G ''#272822'')) (lg_Color G ''#f92672'')) True),
     Set_option style_TextOK (lg_Foreground G base (lg_Color G ''#a6e22e'')),
     Set_option style_TextWarn (lg_Foreground G base (lg_Color G ''#e6db74'')),
     Set_option style_TextError (lg_Foreground G base (lg_Color G ''#f92672''))])"

definition Monokailight :: "('c, 's) lipgloss \<Rightarrow> 's styles" where
  "Monokailight G = (let base = lg_Background G (lg_Foreground G (lg_NewStyle G) (lg_Color G ''#272822'')) (lg_Color G ''#fafafa'') in NewStyles base
    [Set_option style_Comment (lg_Foreground G base (lg_Color G ''#75715e'')),
     Set_option style_LiteralNumber (lg_Foreground G base (lg_Color G ''#ae81ff'')),
     Set_option style_LiteralString (lg_Foreground G base (lg_Color G ''#d88200'')),
     Set_option style_Name (lg_Foreground G base (lg_Color G ''#111111'')),
     Set_option style_NameDecorator (lg_Foreground G base (lg_Color G ''#75af00'')),
     Set_option style_NameTag (lg_Foreground G base (lg_Color G ''#f92672'')),
     Set_option style_Punctuation (lg_Foreground G base (lg_Color G ''#111111'')),
     Set_option style_GenericError (lg_Background G (lg_Foreground G base (lg_Color G ''#960050'')) (lg_Color G ''#1e0010'')),
     Set_option style_Generic (lg_Italic G base True),
     Set_option style_GenericHeading (lg_Bold G (lg_Background G (lg_Foreground G (lg_NewStyle G) (lg_Color G ''#fafafa'')) (lg_Color G ''#f92672'')) True),
     Set_option style_GenericHeadingAccent (lg_Foreground G (lg_Background G base (lg_Darken G (lg_Color G ''#fafafa'') 30)) (lg_Darken G (lg_Color G ''#272822'') 15)),
     Set_option style_GenericHeadingSubtle (lg_Background G base (lg_Darken G (lg_Color G ''#fafafa'') 15)),
     Set_option style_TextAccentDim (lg_Foreground G base (lg_Darken G (lg_Color G ''#f92672'') 15)),
     Set_option style_TextAccent (lg_Foreground G base (lg_Color G ''#f92672'')),
     Set_option style_TextSubtleDim (lg_Foreground G base (lg_Lighten G (lg_Color G ''#272822'') 15)),
     Set_option style_TextSubtle (lg_Foreground G base (lg_Color G ''#272822'')),
     Set_option style_GenericHighlightDim (lg_Background G (lg_NewStyle G) (lg_Darken G (lg_Color G ''#fafafa'') 15)),
     Set_option style_GenericHighlight (lg_Background G (lg_NewStyle G) (lg_Darken G (lg_Color G ''#fafafa'') 30)),
     Set_option style_GenericHeadingOK (lg_Bold G (lg_Background G (lg_Foreground G (lg_NewStyle G) (lg_Color G ''#fafafa'')) (lg_Color G ''#22863a'')) True),
     Set_option style_GenericHeadingWarn (lg_Bold G (lg_Background G (lg_Foreground G (lg_NewStyle G) (lg_Color G ''#fafafa'')) (lg_Color G ''#b07d2b'')) True),
     Set_option style_GenericHeadingError (lg_Bold G (lg_Background G (lg_Foreground G (lg_NewStyle G) (lg_Color G ''#fafafa'')) (lg_Color G ''#cb2431'')) True),
     Set_option style_TextOK (lg_Foreground G base (lg_Color G ''#22863a'')),
     Set_option style_TextWarn (lg_Foreground G base (lg_Color G ''#b07d2b'')),
     Set_option style_TextError (lg_Foreground G base (lg_Color G ''#cb2431''))])"

definition Murphy :: "('c, 's) lipgloss \<Rightarrow> 's styles" where
  "Murphy G = (let base = lg_Background G (lg_Foreground G (lg_NewStyle G) (lg_Color G ''#000000'')) (lg_Color G ''#ffffff'') in NewStyles base
    [Set_option style_Comment (lg_Italic G (lg_Foreground G base (lg_Color G ''#666666'')) True),
     Set_option style_GenericDeleted (lg_Foreground G base (lg_Color G ''#a00000'')),
     Set_option style_GenericError (lg_Foreground G base (lg_Color G ''#ff0000'')),
     Set_option style_GenericInserted (lg_Foreground G base (lg_Color G ''#00a000'')),
     Set_option style_LiteralNumber (lg_Bold G (lg_Foreground G base (lg_Color G ''#6600ee'')) True),
     Set_option style_LiteralNumberFloat (lg_Bold G (lg_Foreground G base (lg_Color G ''#6600ee'')) True),
     Set_option style_LiteralNumberHex (lg_Bold G (lg_Foreground G base (lg_Color G ''#005588'')) True),
     Set_option style_LiteralNumberInteger (lg_Bold G (lg_Foreground G base (lg_Color G ''#6666ff'')) True),
     Set_option style_LiteralNumberOct (lg_Bold G (lg_Foreground G base (lg_Color G ''#4400ee'')) True),
     Set_option style_LiteralString (lg_Background G base (lg_Color G ''#e0e0ff'')),
     Set_option style_NameDecorator (lg_Bold G (lg_Foreground G base (lg_Color G ''#555555'')) True),
     Set_option style_NameTag (lg_Foreground G base (lg_Color G ''#007700'')),
     Set_option style_Generic (lg_Italic G base True),
     Set_option style_Name (lg_Foreground G base (lg_Color G ''#007722'')),
     Set_option style_PunctuationHeading (lg_Bold G (lg_Foreground G base (lg_Color G ''#0e84b5'')) True),
     Set_option style_Punctuation (lg_Foreground G base (lg_Color G ''#333333'')),
     Set_option style_GenericHeading (lg_Bold G (lg_Background G (lg_Foreground G (lg_NewStyle G) (lg_Color G ''#ffffff'')) (lg_Color G ''#007700'')) True),
     Set_option style_GenericHeadingAccent (lg_Foreground G (lg_Background G base (lg_Darken G (lg_Color G ''#ffffff'') 30)) (lg_Darken G (lg_Color G ''#000000'') 15)),
     Set_option style_GenericHeadingSubtle (lg_Background G base (lg_Darken G (lg_Color G ''#ffffff'') 15)),
     Set_option style_TextAccentDim (lg_Foreground G base (lg_Darken G (lg_Color G ''#007700'') 15)),
     Set_option style_TextAccent (lg_Foreground G base (lg_Color G ''#007700'')),
     Set_option style_TextSubtleDim (lg_Foreground G base (lg_Lighten G (lg_Color G ''#000000'') 15)),
     Set_option style_TextSubtle (lg_Foreground G base (lg_Color G ''#000000'')),
     Set_option style_GenericHighlightDim (lg_Background G (lg_NewStyle G) (lg_Darken G (lg_Color G ''#ffffff'') 15)),
     Set_option style_GenericHighlight (lg_Background G (lg_NewStyle G) (lg_Darken G (lg_Color G ''#ffffff'') 30)),
     Set_option style_GenericHeadingOK (lg_Bold G (lg_Background G (lg_Foreground G (lg_NewStyle G) (lg_Color G ''#ffffff'')) (lg_Color G ''#00a000'')) True),
     Set_option style_GenericHeadingWarn (lg_Bold G (lg_Background G (lg_Foreground G (lg_NewStyle G) (lg_Color G ''#ffffff'')) (lg_Color G ''#d08700'')) True),
     Set_option style_GenericHeadingError (lg_Bold G (lg_Background G (lg_Foreground G (lg_NewStyle G) (lg_Color G ''#ffffff'')) (lg_Color G ''#a00000'')) True),
     Set_option style_TextOK (lg_Foreground G base (lg_Color G ''#00a000'')),
     Set_option style_TextWarn (lg_Foreground G base (lg_Color G ''#d08700'')),
     Set_option style_TextError (lg_Foreground G base (lg_Color G ''#a00000''))])"

definition Native :: "('c, 's) lipgloss \<Rightarrow> 's styles" where
  "Native G = (let base = lg_Background G (lg_Foreground G (lg_NewStyle G) (lg_Color G ''#d0d0d0'')) (lg_Color G ''#202020'') in NewStyles base
    [Set_option style_Comment (lg_Italic G (lg_Foreground G base (lg_Color G ''#999999'')) True),
     Set_option style_GenericDeleted (lg_Foreground G base (lg_Color G ''#d22323'')),
     Set_option style_GenericError (lg_Foreground G base (lg_Color G ''#d22323'')),
     Set_option style_GenericInserted (lg_Foreground G base (lg_Color G ''#589819'')),
     Set_option style_LiteralNumber (lg_Foreground G base (lg_Color G ''#3677a9'')),
     Set_option style_LiteralString (lg_Foreground G base (lg_Color G ''#ed9d13'')),
     Set_option style_NameDecorator (lg_Foreground G base (lg_Color G ''#ffa500'')),
     Set_option style_NameTag (lg_Bold G (lg_Foreground G base (lg_Color G ''#6ab825'')) True),
     Set_option style_Generic (lg_Italic G base True),
     Set_option style_Name (lg_Foreground G base (lg_Color G ''#24909d'')),
     Set_option style_PunctuationHeading (lg_Foreground G base (lg_Color G ''#447fcf'')),
     Set_option style_Punctuation (lg_Bold G (lg_Foreground G base (lg_Color G ''#6ab825'')) True),
     Set_option style_GenericHeading (lg_Bold G (lg_Background G (lg_Foreground G (lg_NewStyle G) (lg_Color G ''#202020'')) (lg_Color G ''#6ab825'')) True),
     Set_option style_GenericHeadingAccent (lg_Foreground G (lg_Background G base (lg_Lighten G (lg_Color G ''#202020'') 30)) (lg_Lighten G (lg_Color G ''#d0d0d0'') 15)),
     Set_option style_GenericHeadingSubtle (lg_Background G base (lg_Lighten G (lg_Color G ''#202020'') 15)),
     Set_option style_TextAccentDim (lg_Foreground G base (lg_Lighten G (lg_Color G ''#6ab825'') 15)),
     Set_option style_TextAccent (lg_Foreground G base (lg_Color G ''#6ab825'')),
     Set_option style_TextSubtleDim (lg_Foreground G base (lg_Darken G (lg_Color G ''#d0d0d0'') 15)),
     Set_option style_TextSubtle (lg_Foreground G base (lg_Color G ''#d0d0d0'')),
     Set_option style_GenericHighlightDim (lg_Background G (lg_NewStyle G) (lg_Lighten G (lg_Color G ''#202020'') 15)),
     Set_option style_GenericHighlight (lg_Background G (lg_NewStyle G) (lg_Lighten G (lg_Color G ''#202020'') 30)),
     Set_option style_GenericHeadingOK (lg_Bold G (lg_Background G (lg_Foreground G (lg_NewStyle G) (lg_Color G ''#202020'')) (lg_Color G ''#589819'')) True),
     Set_option style_GenericHeadingWarn (lg_Bold G (lg_Background G (lg_Foreground G (lg_NewStyle G) (lg_Color G ''#202020'')) (lg_Color G ''#ffb86c'')) True),
     Set_option style_GenericHeadingError (lg_Bold G (lg_Background G (lg_Foreground G (lg_NewStyle G) (lg_Color G ''#202020'')) (lg_Color G ''#d22323'')) True),
     Set_option style_TextOK (lg_Foreground G base (lg_Color G ''#589819'')),
     Set_option style_TextWarn (lg_Foreground G base (lg_Color G ''#ffb86c'')),
     Set_option style_TextError (lg_Foreground G base (lg_Color G ''#d22323''))])"

definition Nord :: "('c, 's) lipgloss \<Rightarrow> 's styles" where
  "Nord G = (let base = lg_Background G (lg_Foreground G (lg_NewStyle G) (lg_Color G ''#d8dee9'')) (lg_Color G ''#2e3440'') in NewStyles base
    [Set_option style_Comment (lg_Italic G (lg_Foreground G base (lg_Color G ''#616e87'')) True),
     Set_option style_GenericDeleted (lg_Foreground G base (lg_Color G ''#bf616a'')),
     Set_option style_GenericError (lg_Foreground G base (lg_Color G ''#bf616a'')),
     Set_option style_GenericInserted (lg_Foreground G base (lg_Color G ''#a3be8c'')),
     Set_option style_LiteralNumber (lg_Foreground G base (lg_Color G ''#b48ead'')),
     Set_option style_LiteralString (lg_Foreground G base (lg_Color G ''#a3be8c'')),
     Set_option style_Name (lg_Foreground G base (lg_Color G ''#d8dee9'')),
     Set_option style_NameDecorator (lg_Foreground G base (lg_Color G ''#d08770'')),
     Set_option style_NameTag (lg_Foreground G base (lg_Color G ''#81a1c1'')),
     Set_option style_Punctuation (lg_Foreground G base (lg_Color G ''#eceff4'')),
     Set_option style_Generic (lg_Italic G base True),
     Set_option style_PunctuationHeading (lg_Foreground G base (lg_Color G ''#8fbcbb'')),
     Set_option style_GenericHeading (lg_Bold G (lg_Background G (lg_Foreground G (lg_NewStyle G) (lg_Color G ''#2e3440'')) (lg_Color G ''#81a1c1'')) True),
     Set_option style_GenericHeadingAccent (lg_Foreground G (lg_Background G base (lg_Lighten G (lg_Color G ''#2e3440'') 30)) (lg_Lighten G (lg_Color G ''#d8dee9'') 15)),
     Set_option style_GenericHeadingSubtle (lg_Background G base (lg_Lighten G (lg_Color G ''#2e3440'') 15)),
     Set_option style_TextAccentDim (lg_Foreground G base (lg_Lighten G (lg_Color G ''#81a1c1'') 15)),
     Set_option style_TextAccent (lg_Foreground G base (lg_Color G ''#81a1c1'')),
     Set_option style_TextSubtleDim (lg_Foreground G base (lg_Darken G (lg_Color G ''#d8dee9'') 15)),
     Set_option style_TextSubtle (lg_Foreground G base (lg_Color G ''#d8dee9'')),
     Set_option style_GenericHighlightDim (lg_Background G (lg_NewStyle G) (lg_Lighten G (lg_Color G ''#2e3440'') 15)),
     Set_option style_GenericHighlight (lg_Background G (lg_NewStyle G) (lg_Lighten G (lg_Color G ''#2e3440'') 30)),
     Set_option style_GenericHeadingOK (lg_Bold G (lg_Background G (lg_Foreground G (lg_NewStyle G) (lg_Color G ''#2e3440'')) (lg_Color G ''#a3be8c'')) True),
     Set_option style_GenericHeadingWarn (lg_Bold G (lg_Background G (lg_Foreground G (lg_NewStyle G) (lg_Color G ''#2e3440'')) (lg_Color G ''#ebcb8b'')) True),
     Set_option style_GenericHeadingError (lg_Bold G (lg_Background G (lg_Foreground G (lg_NewStyle G) (lg_Color G ''#2e3440'')) (lg_Color G ''#bf616a'')) True),
     Set_option style_TextOK (lg_Foreground G base (lg_Color G ''#a3be8c'')),
     Set_option style_TextWarn (lg_Foreground G base (lg_Color G ''#ebcb8b'')),
     Set_option style_TextError (lg_Foreground G base (lg_Color G ''#bf616a''))])"

definition Nordic :: "('c, 's) lipgloss \<Rightarrow> 's styles" where
  "Nordic G = (let base = lg_Background G (lg_Foreground G (lg_NewStyle G) (lg_Color G ''#BBC3D4'')) (lg_Color G ''#242933'') in NewStyles base
    [Set_option style_Comment (lg_Italic G (lg_Foreground G base (lg_Color G ''#4C566A'')) True),
     Set_option style_GenericDeleted (lg_Foreground G base (lg_Color G ''#C5727A'')),
     Set_option style_GenericError (lg_Foreground G base (lg_Color G ''#C5727A'')),
     Set_option style_GenericInserted (lg_Foreground G base (lg_Color G ''#A3BE8C'')),
     Set_option style_LiteralNumber (lg_Foreground G base (lg_Color G ''#B48EAD'')),
     Set_option style_LiteralString (lg_Foreground G base (lg_Color G ''#A3BE8C'')),
     Set_option style_Name (lg_Foreground G base (lg_Color G ''#BBC3D4'')),
     Set_option style_NameDecorator (lg_Foreground G base (lg_Color G ''#D08770'')),
     Set_option style_NameTag (lg_Foreground G base (lg_Color G ''#5E81AC'')),
     Set_option style_Punctuation (lg_Foreground G base (lg_Color G ''#ECEFF4'')),
     Set_option style_Generic (lg_Italic G base True),
     Set_option style_PunctuationHeading (lg_Foreground G base (lg_Color G ''#8FBCBB'')),
     Set_option style_GenericHeading (lg_Bold G (lg_Background G (lg_Foreground G (lg_NewStyle G) (lg_Color G ''#242933'')) (lg_Color G ''#5E81AC'')) True),
     Set_option style_GenericHeadingAccent (lg_Foreground G (lg_Background G base (lg_Lighten G (lg_Color G ''#242933'') 30)) (lg_Lighten G (lg_Color G ''#BBC3D4'') 15)),
     Set_option style_GenericHeadingSubtle (lg_Background G base (lg_Lighten G (lg_Color G ''#242933'') 15)),
     Set_option style_TextAccentDim (lg_Foreground G base (lg_Lighten G (lg_Color G ''#5E81AC'') 15)),
     Set_option style_TextAccent (lg_Foreground G base (lg_Color G ''#5E81AC'')),
     Set_option style_TextSubtleDim (lg_Foreground G base (lg_Darken G (lg_Color G ''#BBC3D4'') 15)),
     Set_option style_TextSubtle (lg_Foreground G base (lg_Color G ''#BBC3D4'')),
     Set_option style_GenericHighlightDim (lg_Background G (lg_NewStyle G) (lg_Lighten G (lg_Color G ''#242933'') 15)),
     Set_option style_GenericHighlight (lg_Background G (lg_NewStyle G) (lg_Lighten G (lg_Color G ''#242933'') 30)),
     Set_option style_GenericHeadingOK (lg_Bold G (lg_Background G (lg_Foreground G (lg_NewStyle G) (lg_Color G ''#242933'')) (lg_Color G ''#A3BE8C'')) True),
     Set_option style_GenericHeadingWarn (lg_Bold G (lg_Background G (lg_Foreground G (lg_NewStyle G) (lg_Color G ''#242933'')) (lg_Color G ''#ebcb8b'')) True),
     Set_option style_GenericHeadingError (lg_Bold G (lg_Background G (lg_Foreground G (lg_NewStyle G) (lg_Color G ''#242933'')) (lg_Color G ''#C5727A'')) True),
     Set_option style_TextOK (lg_Foreground G base (lg_Color G ''#A3BE8C'')),
     Set_option style_TextWarn (lg_Foreground G base (lg_Color G ''#ebcb8b'')),
     Set_option style_TextError (lg_Foreground G base (lg_Color G ''#C5727A''))])"

definition Onedark :: "('c, 's) lipgloss \<Rightarrow> 's styles" where
  "Onedark G = (let base = lg_Background G (lg_Foreground G (lg_NewStyle G) (lg_Color G ''#ABB2BF'')) (lg_Color G ''#282C34'') in NewStyles base
    [Set_option style_Comment (lg_Foreground G base (lg_Color G ''#7F848E'')),
     Set_option style_GenericDeleted (lg_Foreground G base (lg_Color G ''#E06C75'')),
     Set_option style_GenericInserted (lg_Bold G (lg_Foreground G base (lg_Color G ''#98C379'')) True),
     Set_option style_LiteralNumber (lg_Foreground G base (lg_Color G ''#D19A66'')),
     Set_option style_LiteralString (lg_Foreground G base (lg_Color G ''#98C379'')),
     Set_option style_Name (lg_Foreground G base (lg_Color G ''#E06C75'')),
     Set_option style_NameDecorator (lg_Foreground G base (lg_Color G ''#61AFEF'')),
     Set_option style_NameTag (lg_Foreground G base (lg_Color G ''#E06C75'')),
     Set_option style_Punctuation (lg_Foreground G base (lg_Color G ''#ABB2BF'')),
     Set_option style_LiteralBoolean (lg_Foreground G base (lg_Color G ''#E5C07B'')),
     Set_option style_GenericHeading (lg_Bold G (lg_Background G (lg_Foreground G (lg_NewStyle G) (lg_Color G ''#282C34'')) (lg_Color G ''#E06C75'')) True),
     Set_option style_GenericHeadingAccent (lg_Foreground G (lg_Background G base (lg_Lighten G (lg_Color G ''#282C34'') 30)) (lg_Lighten G (lg_Color G ''#ABB2BF'') 15)),
     Set_option style_GenericHeadingSubtle (lg_Background G base (lg_Lighten G (lg_Color G ''#282C34'') 15)),
     Set_option style_TextAccentDim (lg_Foreground G base (lg_Lighten G (lg_Color G ''#E06C75'') 15)),
     Set_option style_TextAccent (lg_Foreground G base (lg_Color G ''#E06C75'')),
     Set_option style_TextSubtleDim (lg_Foreground G base (lg_Darken G (lg_Color G ''#ABB2BF'') 15)),
     Set_option style_TextSubtle (lg_Foreground G base (lg_Color G ''#ABB2BF'')),
     Set_option style_GenericHighlightDim (lg_Background G (lg_NewStyle G) (lg_Lighten G (lg_Color G ''#282C34'') 15)),
     Set_option style_GenericHighlight (lg_Background G (lg_NewStyle G) (lg_Lighten G (lg_Color G ''#282C34'') 30)),
     Set_option style_GenericHeadingOK (lg_Bold G (lg_Background G (lg_Foreground G (lg_NewStyle G) (lg_Color G ''#282C34'')) (lg_Color G ''#98C379'')) True),
     Set_option style_GenericHeadingWarn (lg_Bold G (lg_Background G (lg_Foreground G (lg_NewStyle G) (lg_Color G ''#282C34'')) (lg_Color G ''#e5c07b'')) True),
     Set_option style_GenericHeadingError (lg_Bold G (lg_Background G (lg_Foreground G (lg_NewStyle G) (lg_Color G ''#282C34'')) (lg_Color G ''#E06C75'')) True),
     Set_option style_TextOK (lg_Foreground G base (lg_Color G ''#98C379'')),
     Set_option style_TextWarn (lg_Foreground G base (lg_Color G ''#e5c07b'')),
     Set_option style_TextError (lg_Foreground G base (lg_Color G ''#E06C75''))])"

definition Onesenterprise :: "('c, 's) lipgloss \<Rightarrow> 's styles" where
  "Onesenterprise G = (let base = lg_Foreground G (lg_NewStyle G) (lg_Color G ''#000000'') in NewStyles base
    [Set_option style_Comment (lg_Foreground G base (lg_Color G ''#008000'')),
     Set_option style_LiteralString (lg_Foreground G base (lg_Color G ''#000000'')),
     Set_option style_Name (lg_Foreground G base (lg_Color G ''#0000ff'')),
     Set_option style_Punctuation (lg_Foreground G base (lg_Color G ''#ff0000'')),
     Set_option style_NameDecorator (lg_Foreground G base (lg_Color G ''#963200'')),
     Set_option style_NameTag (lg_Foreground G base (lg_Color G ''#ff0000'')),
     Set_option style_GenericHeading (lg_Bold G (lg_Background G (lg_NewStyle G) (lg_Color G ''#ff0000'')) True),
     Set_option style_GenericHeadingAccent (lg_Foreground G (lg_Background G base (lg_Darken G (lg_Color G ''#ffffff'') 30)) (lg_Darken G (lg_Color G ''#000000'') 15)),
     Set_option style_GenericHeadingSubtle (lg_Background G base (lg_Darken G (lg_Color G ''#ffffff'') 15)),
     Set_option style_TextAccentDim (lg_Foreground G base (lg_Darken G (lg_Color G ''#ff0000'') 15)),
     Set_option style_TextAccent (lg_Foreground G base (lg_Color G ''#ff0000'')),
     Set_option style_TextSubtleDim (lg_Foreground G base (lg_Lighten G (lg_Color G ''#000000'') 15)),
     Set_option style_TextSubtle (lg_Foreground G base (lg_Color G ''#000000'')),
     Set_option style_GenericHighlightDim (lg_Background G (lg_NewStyle G) (lg_Darken G (lg_Color G ''#ffffff'') 15)),
     Set_option style_GenericHighlight (lg_Background G (lg_NewStyle G) (lg_Darken G (lg_Color G ''#ffffff'') 30)),
     Set_option style_GenericHeadingOK (lg_Bold G (lg_Background G (lg_Foreground G (lg_NewStyle G) (lg_Color G ''#ffffff'')) (lg_Color G ''#22863a'')) True),
     Set_option style_GenericHeadingWarn (lg_Bold G (lg_Background G (lg_Foreground G (lg_NewStyle G) (lg_Color G ''#ffffff'')) (lg_Color G ''#986801'')) True),
     Set_option style_GenericHeadingError (lg_Bold G (lg_Background G (lg_Foreground G (lg_NewStyle G) (lg_Color G ''#ffffff'')) (lg_Color G ''#cb2431'')) True),
     Set_option style_TextOK (lg_Foreground G base (lg_Color G ''#22863a'')),
     Set_option style_TextWarn (lg_Foreground G base (lg_Color G ''#986801'')),
     Set_option style_TextError (lg_Foreground G base (lg_Color G ''#cb2431''))])"

definition ParaisoDark :: "('c, 's) lipgloss \<Rightarrow> 's styles" where
  "ParaisoDark G = (let base = lg_Background G (lg_Foreground G (lg_NewStyle G) (lg_Color G ''#e7e9db'')) (lg_Color G ''#2f1e2e'') in NewStyles base
    [Set_option style_Comment (lg_Foreground G base (lg_Color G ''#776e71'')),
     Set_option style_GenericDeleted (lg_Foreground G base (lg_Color G ''#ef6155'')),
     Set_option style_GenericInserted (lg_Foreground G base (lg_Color G ''#48b685'')),
     Set_option style_LiteralNumber (lg_Foreground G base (lg_Color G ''#f99b15'')),
     Set_option style_LiteralString (lg_Foreground G base (lg_Color G ''#48b685'')),
     Set_option style_Name (lg_Foreground G base (lg_Color G ''#e7e9db'')),
     Set_option style_NameDecorator (lg_Foreground G base (lg_Color G ''#5bc4bf'')),
     Set_option style_NameTag (lg_Foreground G base (lg_Color G ''#5bc4bf'')),
     Set_option style_Punctuation (lg_Foreground G base (lg_Color G ''#e7e9db'')),
     Set_option style_GenericError (lg_Foreground G base (lg_Color G ''#ef6155'')),
     Set_option style_Generic (lg_Italic G base True),
     Set_option style_PunctuationHeading (lg_Foreground G base (lg_Color G ''#fec418'')),
     Set_option style_GenericHeading (lg_Bold G (lg_Background G (lg_Foreground G (lg_NewStyle G) (lg_Color G ''#2f1e2e'')) (lg_Color G ''#5bc4bf'')) True),
     Set_option style_GenericHeadingAccent (lg_Foreground G (lg_Background G base (lg_Lighten G (lg_Color G ''#2f1e2e'') 30)) (lg_Lighten G (lg_Color G ''#e7e9db'') 15)),
     Set_option style_GenericHeadingSubtle (lg_Background G base (lg_Lighten G (lg_Color G ''#2f1e2e'') 15)),
     Set_option style_TextAccentDim (lg_Foreground G base (lg_Lighten G (lg_Color G ''#5bc4bf'') 15)),
     Set_option style_TextAccent (lg_Foreground G base (lg_Color G ''#5bc4bf'')),
     Set_option style_TextSubtleDim (lg_Foreground G base (lg_Darken G (lg_Color G ''#e7e9db'') 15)),
     Set_option style_TextSubtle (lg_Foreground G base (lg_Color G ''#e7e9db'')),
     Set_option style_GenericHighlightDim (lg_Background G (lg_NewStyle G) (lg_Lighten G (lg_Color G ''#2f1e2e'') 15)),
     Set_option style_GenericHighlight (lg_Background G (lg_NewStyle G) (lg_Lighten G (lg_Color G ''#2f1e2e'') 30)),
     Set_option style_GenericHeadingOK (lg_Bold G (lg_Background G (lg_Foreground G (lg_NewStyle G) (lg_Color G ''#2f1e2e'')) (lg_Color G ''#48b685'')) True),
     Set_option style_GenericHeadingWarn (lg_Bold G (lg_Background G (lg_Foreground G (lg_NewStyle G) (lg_Color G ''#2f1e2e'')) (lg_Color G ''#f99b15'')) True),
     Set_option style_GenericHeadingError (lg_Bold G (lg_Background G (lg_Foreground G (lg_NewStyle G) (lg_Color G ''#2f1e2e'')) (lg_Color G ''#ef6155'')) True),
     Set_option style_TextOK (lg_Foreground G base (lg_Color G ''#48b685'')),
     Set_option style_TextWarn (lg_Foreground G base (lg_Color G ''#f99b15'')),
     Set_option style_TextError (lg_Foreground G base (lg_Color G ''#ef6155''))])"

definition ParaisoLight :: "('c, 's) lipgloss \<Rightarrow> 's styles" where
  "ParaisoLight G = (let base = lg_Background G (lg_Foreground G (lg_NewStyle G) (lg_Color G ''#2f1e2e'')) (lg_Color G ''#e7e9db'') in NewStyles base
    [Set_option style_Comment (lg_Foreground G base (lg_Color G ''#8d8687'')),
     Set_option style_GenericDeleted (lg_Foreground G base (lg_Color G ''#ef6155'')),
     Set_option style_GenericInserted (lg_Foreground G base (lg_Color G ''#48b685'')),
     Set_option style_LiteralNumber (lg_Foreground G base (lg_Color G ''#f99b15'')),
     Set_option style_LiteralString (lg_Foreground G base (lg_Color G ''#48b685'')),
     Set_option style_Name (lg_Foreground G base (lg_Color G ''#2f1e2e'')),
     Set_option style_NameDecorator (lg_Foreground G base (lg_Color G ''#5bc4bf'')),
     Set_option style_NameTag (lg_Foreground G base (lg_Color G ''#5bc4bf'')),
     Set_option style_Punctuation (lg_Foreground G base (lg_Color G ''#2f1e2e'')),
     Set_option style_GenericError (lg_Foreground G base (lg_Color G ''#ef6155'')),
     Set_option style_Generic (lg_Italic G base True),
     Set_option style_PunctuationHeading (lg_Foreground G base (lg_Color G ''#fec418'')),
     Set_option style_GenericHeading (lg_Bold G (lg_Background G (lg_Foreground G (lg_NewStyle G) (lg_Color G ''#e7e9db'')) (lg_Color G ''#5bc4bf'')) True),
     Set_option style_GenericHeadingAccent (lg_Foreground G (lg_Background G base (lg_Darken G (lg_Color G ''#e7e9db'') 30)) (lg_Darken G (lg_Color G ''#2f1e2e'') 15)),
     Set_option style_GenericHeadingSubtle (lg_Background G base (lg_Darken G (lg_Color G ''#e7e9db'') 15)),
     Set_option style_TextAccentDim (lg_Foreground G base (lg_Darken G (lg_Color G ''#5bc4bf'') 15)),
     Set_option style_TextAccent (lg_Foreground G base (lg_Color G ''#5bc4bf'')),
     Set_option style_TextSubtleDim (lg_Foreground G base (lg_Lighten G (lg_Color G ''#2f1e2e'') 15)),
     Set_option style_TextSubtle (lg_Foreground G base (lg_Color G ''#2f1e2e'')),
     Set_option style_GenericHighlightDim (lg_Background G (lg_NewStyle G) (lg_Darken G (lg_Color G ''#e7e9db'') 15)),
     Set_option style_GenericHighlight (lg_Background G (lg_NewStyle G) (lg_Darken G (lg_Color G ''#e7e9db'') 30)),
     Set_option style_GenericHeadingOK (lg_Bold G (lg_Background G (lg_Foreground G (lg_NewStyle G) (lg_Color G ''#e7e9db'')) (lg_Color G ''#48b685'')) True),
     Set_option style_GenericHeadingWarn (lg_Bold G (lg_Background G (lg_Foreground G (lg_NewStyle G) (lg_Color G ''#e7e9db'')) (lg_Color G ''#f99b15'')) True),
     Set_option style_GenericHeadingError (lg_Bold G (lg_Background G (lg_Foreground G (lg_NewStyle G) (lg_Color G ''#e7e9db'')) (lg_Color G ''#ef6155'')) True),
     Set_option style_TextOK (lg_Foreground G base (lg_Color G ''#48b685'')),
     Set_option style_TextWarn (lg_Foreground G base (lg_Color G ''#f99b15'')),
     Set_option style_TextError (lg_Foreground G base (lg_Color G ''#ef6155''))])"

definition Pastie :: "('c, 's) lipgloss \<Rightarrow> 's styles" where
  "Pastie G = (let base = lg_Background G (lg_Foreground G (lg_NewStyle G) (lg_Color G ''#000000'')) (lg_Color G ''#ffffff'') in NewStyles base
    [Set_option style_Comment (lg_Foreground G base (lg_Color G ''#888888'')),
     Set_option style_GenericDeleted (lg_Background G (lg_Foreground G base (lg_Color G ''#000000'')) (lg_Color G ''#ffdddd'')),
     Set_option style_GenericError (lg_Foreground G base (lg_Color G ''#aa0000'')),
     Set_option style_GenericInserted (lg_Background G (lg_Foreground G base (lg_Color G ''#000000'')) (lg_Color G ''#ddffdd'')),
     Set_option style_LiteralNumber (lg_Bold G (lg_Foreground G base (lg_Color G ''#0000dd'')) True),
     Set_option style_LiteralString (lg_Background G (lg_Foreground G base (lg_Color G ''#dd2200'')) (lg_Color G ''#fff0f0'')),
     Set_option style_NameDecorator (lg_Foreground G base (lg_Color G ''#555555'')),
     Set_option style_NameTag (lg_Bold G (lg_Foreground G base (lg_Color G ''#bb0066'')) True),
     Set_option style_Generic (lg_Italic G base True),
     Set_option style_Name (lg_Foreground G base (lg_Color G ''#003388'')),
     Set_option style_PunctuationHeading (lg_Bold G (lg_Foreground G base (lg_Color G ''#bb0066'')) True),
     Set_option style_Punctuation (lg_Foreground G base (lg_Color G ''#008800'')),
     Set_option style_GenericHeading (lg_Bold G (lg_Background G (lg_Foreground G (lg_NewStyle G) (lg_Color G ''#ffffff'')) (lg_Color G ''#bb0066'')) True),
     Set_option style_GenericHeadingAccent (lg_Foreground G (lg_Background G base (lg_Darken G (lg_Color G ''#ffffff'') 30)) (lg_Darken G (lg_Color G ''#000000'') 15)),
     Set_option style_GenericHeadingSubtle (lg_Background G base (lg_Darken G (lg_Color G ''#ffffff'') 15)),
     Set_option style_TextAccentDim (lg_Foreground G base (lg_Darken G (lg_Color G ''#bb0066'') 15)),
     Set_option style_TextAccent (lg_Foreground G base (lg_Color G ''#bb0066'')),
     Set_option style_TextSubtleDim (lg_Foreground G base (lg_Lighten G (lg_Color G ''#000000'') 15)),
     Set_option style_TextSubtle (lg_Foreground G base (lg_Color G ''#000000'')),
     Set_option style_GenericHighlightDim (lg_Background G (lg_NewStyle G) (lg_Darken G (lg_Color G ''#ffffff'') 15)),
     Set_option style_GenericHighlight (lg_Background G (lg_NewStyle G) (lg_Darken G (lg_Color G ''#ffffff'') 30)),
     Set_option style_GenericHeadingOK (lg_Bold G (lg_Background G (lg_Foreground G (lg_NewStyle G) (lg_Color G ''#ffffff'')) (lg_Color G ''#22863a'')) True),
     Set_option style_GenericHeadingWarn (lg_Bold G (lg_Background G (lg_Foreground G (lg_NewStyle G) (lg_Color G ''#ffffff'')) (lg_Color G ''#d08700'')) True),
     Set_option style_GenericHeadingError (lg_Bold G (lg_Background G (lg_Foreground G (lg_NewStyle G) (lg_Color G ''#ffffff'')) (lg_Color G ''#cb2431'')) True),
     Set_option style_TextOK (lg_Foreground G base (lg_Color G ''#22863a'')),
     Set_option style_TextWarn (lg_Foreground G base (lg_Color G ''#d08700'')),
     Set_option style_TextError (lg_Foreground G base (lg_Color G ''#cb2431''))])"

definition Perldoc :: "('c, 's) lipgloss \<Rightarrow> 's styles" where
  "Perldoc G = (let base = lg_Background G (lg_Foreground G (lg_NewStyle G) (lg_Color G ''#000000'')) (lg_Color G ''#eeeedd'') in NewStyles base
    [Set_option style_Comment (lg_Foreground G base (lg_Color G ''#228b22'')),
     Set_option style_GenericDeleted (lg_Foreground G base (lg_Color G ''#aa0000'')),
     Set_option style_GenericError (lg_Foreground G base (lg_Color G ''#aa0000'')),
     Set_option style_GenericInserted (lg_Foreground G base (lg_Color G ''#00aa00'')),
     Set_option style_LiteralNumber (lg_Foreground G base (lg_Color G ''#b452cd'')),
     Set_option style_LiteralString (lg_Foreground G base (lg_Color G ''#cd5555'')),
     Set_option style_NameDecorator (lg_Foreground G base (lg_Color G ''#707a7c'')),
     Set_option style_NameTag (lg_Bold G (lg_Foreground G base (lg_Color G ''#8b008b'')) True),
     Set_option style_Generic (lg_Italic G base True),
     Set_option style_Name (lg_Foreground G base (lg_Color G ''#658b00'')),
     Set_option style_PunctuationHeading (lg_Underline G (lg_Foreground G base (lg_Color G ''#008b45'')) True),
     Set_option style_Punctuation (lg_Foreground G base (lg_Color G ''#8b008b'')),
     Set_option style_GenericHeading (lg_Bold G (lg_Background G (lg_Foreground G (lg_NewStyle G) (lg_Color G ''#eeeedd'')) (lg_Color G ''#8b008b'')) True),
     Set_option style_GenericHeadingAccent (lg_Foreground G (lg_Background G base (lg_Darken G (lg_Color G ''#eeeedd'') 30)) (lg_Darken G (lg_Color G ''#000000'') 15)),
     Set_option style_GenericHeadingSubtle (lg_Background G base (lg_Darken G (lg_Color G ''#eeeedd'') 15)),
     Set_option style_TextAccentDim (lg_Foreground G base (lg_Darken G (lg_Color G ''#8b008b'') 15)),
     Set_option style_TextAccent (lg_Foreground G base (lg_Color G ''#8b008b'')),
     Set_option style_TextSubtleDim (lg_Foreground G base (lg_Lighten G (lg_Color G ''#000000'') 15)),
     Set_option style_TextSubtle (lg_Foreground G base (lg_Color G ''#000000'')),
     Set_option style_GenericHighlightDim (lg_Background G (lg_NewStyle G) (lg_Darken G (lg_Color G ''#eeeedd'') 15)),
     Set_option style_GenericHighlight (lg_Background G (lg_NewStyle G) (lg_Darken G (lg_Color G ''#eeeedd'') 30)),
     Set_option style_GenericHeadingOK (lg_Bold G (lg_Background G (lg_Foreground G (lg_NewStyle G) (lg_Color G ''#eeeedd'')) (lg_Color G ''#00aa00'')) True),
     Set_option style_GenericHeadingWarn (lg_Bold G (lg_Background G (lg_Foreground G (lg_NewStyle G) (lg_Color G ''#eeeedd'')) (lg_Color G ''#b07d2b'')) True),
     Set_option style_GenericHeadingError (lg_Bold G (lg_Background G (lg_Foreground G (lg_NewStyle G) (lg_Color G ''#eeeedd'')) (lg_Color G ''#aa0000'')) True),
     Set_option style_TextOK (lg_Foreground G base (lg_Color G ''#00aa00'')),
     Set_option style_TextWarn (lg_Foreground G base (lg_Color G ''#b07d2b'')),
     Set_option style_TextError (lg_Foreground G base (lg_Color G ''#aa0000''))])"

definition Pygments :: "('c, 's) lipgloss \<Rightarrow> 's styles" where
  "Pygments G = (let base = lg_NewStyle G in NewStyles base
    [Set_option style_Comment (lg_Italic G (lg_Foreground G base (lg_Color G ''#408080'')) True),
     Set_option style_GenericDeleted (lg_Foreground G base (lg_Color G ''#a00000'')),
     Set_option style_GenericError (lg_Foreground G base (lg_Color G ''#ff0000'')),
     Set_option style_GenericInserted (lg_Foreground G base (lg_Color G ''#00a000'')),
     Set_option style_LiteralNumber (lg_Foreground G base (lg_Color G ''#666666'')),
     Set_option style_LiteralString (lg_Foreground G base (lg_Color G ''#ba2121'')),
     Set_option style_NameDecorator (lg_Foreground G base (lg_Color G ''#aa22ff'')),
     Set_option style_NameTag (lg_Bold G (lg_Foreground G base (lg_Color G ''#008000'')) True),
     Set_option style_Generic (lg_Italic G base True),
     Set_option style_Name (lg_Foreground G base (lg_Color G ''#008000'')),
     Set_option style_PunctuationHeading (lg_Bold G (lg_Foreground G base (lg_Color G ''#0000ff'')) True),
     Set_option style_Punctuation (lg_Foreground G base (lg_Color G ''#666666'')),
     Set_option style_GenericHeading (lg_Bold G (lg_Background G (lg_NewStyle G) (lg_Color G ''#008000'')) True),
     Set_option style_GenericHeadingAccent (lg_Foreground G (lg_Background G base (lg_Darken G (lg_Color G ''#ffffff'') 30)) (lg_Darken G (lg_Color G ''#000000'') 15)),
     Set_option style_GenericHeadingSubtle (lg_Background G base (lg_Darken G (lg_Color G ''#ffffff'') 15)),
     Set_option style_TextAccentDim (lg_Foreground G base (lg_Darken G (lg_Color G ''#008000'') 15)),
     Set_option style_TextAccent (lg_Foreground G base (lg_Color G ''#008000'')),
     Set_option style_TextSubtleDim (lg_Foreground G base (lg_Lighten G (lg_Color G ''#000000'') 15)),
     Set_option style_TextSubtle (lg_Foreground G base (lg_Color G ''#000000'')),
     Set_option style_GenericHighlightDim (lg_Background G (lg_NewStyle G) (lg_Darken G (lg_Color G ''#ffffff'') 15)),
     Set_option style_GenericHighlight (lg_Background G (lg_NewStyle G) (lg_Darken G (lg_Color G ''#ffffff'') 30)),
     Set_option style_GenericHeadingOK (lg_Bold G (lg_Background G (lg_Foreground G (lg_NewStyle G) (lg_Color G ''#ffffff'')) (lg_Color G ''#00a000'')) True),
     Set_option style_GenericHeadingWarn (lg_Bold G (lg_Background G (lg_Foreground G (lg_NewStyle G) (lg_Color G ''#ffffff'')) (lg_Color G ''#b07d2b'')) True),
     Set_option style_GenericHeadingError (lg_Bold G (lg_Background G (lg_Foreground G (lg_NewStyle G) (lg_Color G ''#ffffff'')) (lg_Color G ''#a00000'')) True),
     Set_option style_TextOK (lg_Foreground G base (lg_Color G ''#00a000'')),
     Set_option style_TextWarn (lg_Foreground G base (lg_Color G ''#b07d2b'')),
     Set_option style_TextError (lg_Foreground G base (lg_Color G ''#a00000''))])"

definition RainbowDash :: "('c, 's) lipgloss \<Rightarrow> 's styles" where
  "RainbowDash G = (let base = lg_Background G (lg_Foreground G (lg_NewStyle G) (lg_Color G ''#4d4d4d'')) (lg_Color G ''#ffffff'') in NewStyles base
    [Set_option style_Comment (lg_Italic G (lg_Foreground G base (lg_Color G ''#0080ff'')) True),
     Set_option style_GenericDeleted (lg_Background G base (lg_Color G ''#ffcccc'')),
     Set_option style_GenericError (lg_Foreground G base (lg_Color G ''#ff0000'')),
     Set_option style_GenericInserted (lg_Background G base (lg_Color G ''#ccffcc'')),
     Set_option style_LiteralNumber (lg_Bold G (lg_Foreground G base (lg_Color G ''#5918bb'')) True),
     Set_option style_LiteralString (lg_Foreground G base (lg_Color G ''#00cc66'')),
     Set_option style_NameDecorator (lg_Bold G (lg_Foreground G base (lg_Color G ''#ff8000'')) True),
     Set_option style_NameTag (lg_Bold G (lg_Foreground G base (lg_Color G ''#2c5dcd'')) True),
     Set_option style_Generic (lg_Italic G base True),
     Set_option style_Name (lg_Bold G (lg_Foreground G base (lg_Color G ''#5918bb'')) True),
     Set_option style_Punctuation (lg_Foreground G base (lg_Color G ''#2c5dcd'')),
     Set_option style_GenericHeading (lg_Bold G (lg_Background G (lg_Foreground G (lg_NewStyle G) (lg_Color G ''#ffffff'')) (lg_Color G ''#2c5dcd'')) True),
     Set_option style_GenericHeadingAccent (lg_Foreground G (lg_Background G base (lg_Darken G (lg_Color G ''#ffffff'') 30)) (lg_Darken G (lg_Color G ''#4d4d4d'') 15)),
     Set_option style_GenericHeadingSubtle (lg_Background G base (lg_Darken G (lg_Color G ''#ffffff'') 15)),
     Set_option style_TextAccentDim (lg_Foreground G base (lg_Darken G (lg_Color G ''#2c5dcd'') 15)),
     Set_option style_TextAccent (lg_Foreground G base (lg_Color G ''#2c5dcd'')),
     Set_option style_TextSubtleDim (lg_Foreground G base (lg_Lighten G (lg_Color G ''#4d4d4d'') 15)),
     Set_option style_TextSubtle (lg_Foreground G base (lg_Color G ''#4d4d4d'')),
     Set_option style_GenericHighlightDim (lg_Background G (lg_NewStyle G) (lg_Darken G (lg_Color G ''#ffffff'') 15)),
     Set_option style_GenericHighlight (lg_Background G (lg_NewStyle G) (lg_Darken G (lg_Color G ''#ffffff'') 30)),
     Set_option style_GenericHeadingOK (lg_Bold G (lg_Background G (lg_Foreground G (lg_NewStyle G) (lg_Color G ''#ffffff'')) (lg_Color G ''#22863a'')) True),
     Set_option style_GenericHeadingWarn (lg_Bold G (lg_Background G (lg_Foreground G (lg_NewStyle G) (lg_Color G ''#ffffff'')) (lg_Color G ''#d08700'')) True),
     Set_option style_GenericHeadingError (lg_Bold G (lg_Background G (lg_Foreground G (lg_NewStyle G) (lg_Color G ''#ffffff'')) (lg_Color G ''#cb2431'')) True),
     Set_option style_TextOK (lg_Foreground G base (lg_Color G ''#22863a'')),
     Set_option style_TextWarn (lg_Foreground G base (lg_Color G ''#d08700'')),
     Set_option style_TextError (lg_Foreground G base (lg_Color G ''#cb2431''))])"

definition RosePine :: "('c, 's) lipgloss \<Rightarrow> 's styles" where
  "RosePine G = (let base = lg_Background G (lg_Foreground G (lg_NewStyle G) (lg_Color G ''#e0def4'')) (lg_Color G ''#191724'') in NewStyles base
    [Set_option style_Comment (lg_Foreground G base (lg_Color G ''#6e6a86'')),
     Set_option style_GenericDeleted (lg_Foreground G base (lg_Color G ''#eb6f92'')),
     Set_option style_GenericInserted (lg_Foreground G base (lg_Color G ''#9ccfd8'')),
     Set_option style_LiteralNumber (lg_Foreground G base (lg_Color G ''#f6c177'')),
     Set_option style_LiteralString (lg_Foreground G base (lg_Color G ''#f6c177'')),
     Set_option style_Name (lg_Foreground G base (lg_Color G ''#ebbcba'')),
     Set_option style_NameDecorator (lg_Foreground G base (lg_Color G ''#908caa'')),
     Set_option style_NameTag (lg_Foreground G base (lg_Color G ''#ebbcba'')),
     Set_option style_Punctuation (lg_Foreground G base (lg_Color G ''#908caa'')),
     Set_option style_GenericError (lg_Foreground G base (lg_Color G ''#eb6f92'')),
     Set_option style_Generic (lg_Italic G base True),
     Set_option style_GenericHeading (lg_Bold G (lg_Background G (lg_Foreground G (lg_NewStyle G) (lg_Color G ''#191724'')) (lg_Color G ''#ebbcba'')) True),
     Set_option style_GenericHeadingAccent (lg_Foreground G (lg_Background G base (lg_Lighten G (lg_Color G ''#191724'') 30)) (lg_Lighten G (lg_Color G ''#e0def4'') 15)),
     Set_option style_GenericHeadingSubtle (lg_Background G base (lg_Lighten G (lg_Color G ''#191724'') 15)),
     Set_option style_TextAccentDim (lg_Foreground G base (lg_Lighten G (lg_Color G ''#ebbcba'') 15)),
     Set_option style_TextAccent (lg_Foreground G base (lg_Color G ''#ebbcba'')),
     Set_option style_TextSubtleDim (lg_Foreground G base (lg_Darken G (lg_Color G ''#e0def4'') 15)),
     Set_option style_TextSubtle (lg_Foreground G base (lg_Color G ''#e0def4'')),
     Set_option style_GenericHighlightDim (lg_Background G (lg_NewStyle G) (lg_Lighten G (lg_Color G ''#191724'') 15)),
     Set_option style_GenericHighlight (lg_Background G (lg_NewStyle G) (lg_Lighten G (lg_Color G ''#191724'') 30)),
     Set_option style_GenericHeadingOK (lg_Bold G (lg_Background G (lg_Foreground G (lg_NewStyle G) (lg_Color G ''#191724'')) (lg_Color G ''#9ccfd8'')) True),
     Set_option style_GenericHeadingWarn (lg_Bold G (lg_Background G (lg_Foreground G (lg_NewStyle G) (lg_Color G ''#191724'')) (lg_Color G ''#f6c177'')) True),
     Set_option style_GenericHeadingError (lg_Bold G (lg_Background G (lg_Foreground G (lg_NewStyle G) (lg_Color G ''#191724'')) (lg_Color G ''#eb6f92'')) True),
     Set_option style_TextOK (lg_Foreground G base (lg_Color G ''#9ccfd8'')),
     Set_option style_TextWarn (lg_Foreground G base (lg_Color G ''#f6c177'')),
     Set_option style_TextError (lg_Foreground G base (lg_Color G ''#eb6f92''))])"

definition RosePineDawn :: "('c, 's) lipgloss \<Rightarrow> 's styles" where
  "RosePineDawn G = (let base = lg_Background G (lg_Foreground G (lg_NewStyle G) (lg_Color G ''#575279'')) (lg_Color G ''#faf4ed'') in NewStyles base
    [Set_option style_Comment (lg_Foreground G base (lg_Color G ''#9893a5'')),
     Set_option style_GenericDeleted (lg_Foreground G base (lg_Color G ''#b4637a'')),
     Set_option style_GenericInserted (lg_Foreground G base (lg_Color G ''#56949f'')),
     Set_option style_LiteralNumber (lg_Foreground G base (lg_Color G ''#ea9d34'')),
     Set_option style_LiteralString (lg_Foreground G base (lg_Color G ''#ea9d34'')),
     Set_option style_Name (lg_Foreground G base (lg_Color G ''#d7827e'')),
     Set_option style_NameDecorator (lg_Foreground G base (lg_Color G ''#797593'')),
     Set_option style_NameTag (lg_Foreground G base (lg_Color G ''#d7827e'')),
     Set_option style_Punctuation (lg_Foreground G base (lg_Color G ''#797593'')),
     Set_option style_GenericError (lg_Foreground G base (lg_Color G ''#b4637a'')),
     Set_option style_Generic (lg_Italic G base True),
     Set_option style_GenericHeading (lg_Bold G (lg_Background G (lg_Foreground G (lg_NewStyle G) (lg_Color G ''#faf4ed'')) (lg_Color G ''#d7827e'')) True),
     Set_option style_GenericHeadingAccent (lg_Foreground G (lg_Background G base (lg_Darken G (lg_Color G ''#faf4ed'') 30)) (lg_Darken G (lg_Color G ''#575279'') 15)),
     Set_option style_GenericHeadingSubtle (lg_Background G base (lg_Darken G (lg_Color G ''#faf4ed'') 15)),
     Set_option style_TextAccentDim (lg_Foreground G base (lg_Darken G (lg_Color G ''#d7827e'') 15)),
     Set_option style_TextAccent (lg_Foreground G base (lg_Color G ''#d7827e'')),
     Set_option style_TextSubtleDim (lg_Foreground G base (lg_Lighten G (lg_Color G ''#575279'') 15)),
     Set_option style_TextSubtle (lg_Foreground G base (lg_Color G ''#575279'')),
     Set_option style_GenericHighlightDim (lg_Background G (lg_NewStyle G) (lg_Darken G (lg_Color G ''#faf4ed'') 15)),
     Set_option style_GenericHighlight (lg_Background G (lg_NewStyle G) (lg_Darken G (lg_Color G ''#faf4ed'') 30)),
     Set_option style_GenericHeadingOK (lg_Bold G (lg_Background G (lg_Foreground G (lg_NewStyle G) (lg_Color G ''#faf4ed'')) (lg_Color G ''#56949f'')) True),
     Set_option style_GenericHeadingWarn (lg_Bold G (lg_Background G (lg_Foreground G (lg_NewStyle G) (lg_Color G ''#faf4ed'')) (lg_Color G ''#ea9d34'')) True),
     Set_option style_GenericHeadingError (lg_Bold G (lg_Background G (lg_Foreground G (lg_NewStyle G) (lg_Color G ''#faf4ed'')) (lg_Color G ''#b4637a'')) True),
     Set_option style_TextOK (lg_Foreground G base (lg_Color G ''#56949f'')),
     Set_option style_TextWarn (lg_Foreground G base (lg_Color G ''#ea9d34'')),
     Set_option style_TextError (lg_Foreground G base (lg_Color G ''#b4637a''))])"

definition RosePineMoon :: "('c, 's) lipgloss \<Rightarrow> 's styles" where
  "RosePineMoon G = (let base = lg_Background G (lg_Foreground G (lg_NewStyle G) (lg_Color G ''#e0def4'')) (lg_Color G ''#232136'') in NewStyles base
    [Set_option style_Comment (lg_Foreground G base (lg_Color G ''#6e6a86'')),
     Set_option style_GenericDeleted (lg_Foreground G base (lg_Color G ''#eb6f92'')),
     Set_option style_GenericInserted (lg_Foreground G base (lg_Color G ''#9ccfd8'')),
     Set_option style_LiteralNumber (lg_Foreground G base (lg_Color G ''#f6c177'')),
     Set_option style_LiteralString (lg_Foreground G base (lg_Color G ''#f6c177'')),
     Set_option style_Name (lg_Foreground G base (lg_Color G ''#ea9a97'')),
     Set_option style_NameDecorator (lg_Foreground G base (lg_Color G ''#908caa'')),
     Set_option style_NameTag (lg_Foreground G base (lg_Color G ''#ea9a97'')),
     Set_option style_Punctuation (lg_Foreground G base (lg_Color G ''#908caa'')),
     Set_option style_GenericError (lg_Foreground G base (lg_Color G ''#eb6f92'')),
     Set_option style_Generic (lg_Italic G base True),
     Set_option style_GenericHeading (lg_Bold G (lg_Background G (lg_Foreground G (lg_NewStyle G) (lg_Color G ''#232136'')) (lg_Color G ''#ea9a97'')) True),
     Set_option style_GenericHeadingAccent (lg_Foreground G (lg_Background G base (lg_Lighten G (lg_Color G ''#232136'') 30)) (lg_Lighten G (lg_Color G ''#e0def4'') 15)),
     Set_option style_GenericHeadingSubtle (lg_Background G base (lg_Lighten G (lg_Color G ''#232136'') 15)),
     Set_option style_TextAccentDim (lg_Foreground G base (lg_Lighten G (lg_Color G ''#ea9a97'') 15)),
     Set_option style_TextAccent (lg_Foreground G base (lg_Color G ''#ea9a97'')),
     Set_option style_TextSubtleDim (lg_Foreground G base (lg_Darken G (lg_Color G ''#e0def4'') 15)),
     Set_option style_TextSubtle (lg_Foreground G base (lg_Color G ''#e0def4'')),
     Set_option style_GenericHighlightDim (lg_Background G (lg_NewStyle G) (lg_Lighten G (lg_Color G ''#232136'') 15)),
     Set_option style_GenericHighlight (lg_Background G (lg_NewStyle G) (lg_Lighten G (lg_Color G ''#232136'') 30)),
     Set_option style_GenericHeadingOK (lg_Bold G (lg_Background G (lg_Foreground G (lg_NewStyle G) (lg_Color G ''#232136'')) (lg_Color G ''#9ccfd8'')) True),
     Set_option style_GenericHeadingWarn (lg_Bold G (lg_Background G (lg_Foreground G (lg_NewStyle G) (lg_Color G ''#232136'')) (lg_Color G ''#f6c177'')) True),
     Set_option style_GenericHeadingError (lg_Bold G (lg_Background G (lg_Foreground G (lg_NewStyle G) (lg_Color G ''#232136'')) (lg_Color G ''#eb6f92'')) True),
     Set_option style_TextOK (lg_Foreground G base (lg_Color G ''#9ccfd8'')),
     Set_option style_TextWarn (lg_Foreground G base (lg_Color G ''#f6c177'')),
     Set_option style_TextError (lg_Foreground G base (lg_Color G ''#eb6f92''))])"

definition Rpgle :: "('c, 's) lipgloss \<Rightarrow> 's styles" where
  "Rpgle G = (let base = lg_Background G (lg_Foreground G (lg_NewStyle G) (lg_Color G ''#272822'')) (lg_Color G ''#fafafa'') in NewStyles base
    [Set_option style_Comment (lg_Foreground G base (lg_Color G ''#75715e'')),
     Set_option style_LiteralNumber (lg_Foreground G base (lg_Color G ''#ae81ff'')),
     Set_option style_LiteralString (lg_Foreground G base (lg_Color G ''#d88200'')),
     Set_option style_Name (lg_Foreground G base (lg_Color G ''#111111'')),
     Set_option style_NameDecorator (lg_Foreground G base (lg_Color G ''#75af00'')),
     Set_option style_NameTag (lg_Foreground G base (lg_Color G ''#f92672'')),
     Set_option style_Punctuation (lg_Foreground G base (lg_Color G ''#ff0000'')),
     Set_option style_GenericError (lg_Background G (lg_Foreground G base (lg_Color G ''#960050'')) (lg_Color G ''#1e0010'')),
     Set_option style_Generic (lg_Italic G base True),
     Set_option style_GenericHeading (lg_Bold G (lg_Background G (lg_Foreground G (lg_NewStyle G) (lg_Color G ''#fafafa'')) (lg_Color G ''#f92672'')) True),
     Set_option style_GenericHeadingAccent (lg_Foreground G (lg_Background G base (lg_Darken G (lg_Color G ''#fafafa'') 30)) (lg_Darken G (lg_Color G ''#272822'') 15)),
     Set_option style_GenericHeadingSubtle (lg_Background G base (lg_Darken G (lg_Color G ''#fafafa'') 15)),
     Set_option style_TextAccentDim (lg_Foreground G base (lg_Darken G (lg_Color G ''#f92672'') 15)),
     Set_option style_TextAccent (lg_Foreground G base (lg_Color G ''#f92672'')),
     Set_option style_TextSubtleDim (lg_Foreground G base (lg_Lighten G (lg_Color G ''#272822'') 15)),
     Set_option style_TextSubtle (lg_Foreground G base (lg_Color G ''#272822'')),
     Set_option style_GenericHighlightDim (lg_Background G (lg_NewStyle G) (lg_Darken G (lg_Color G ''#fafafa'') 15)),
     Set_option style_GenericHighlight (lg_Background G (lg_NewStyle G) (lg_Darken G (lg_Color G ''#fafafa'') 30)),
     Set_option style_GenericHeadingOK (lg_Bold G (lg_Background G (lg_Foreground G (lg_NewStyle G) (lg_Color G ''#fafafa'')) (lg_Color G ''#22863a'')) True),
     Set_option style_GenericHeadingWarn (lg_Bold G (lg_Background G (lg_Foreground G (lg_NewStyle G) (lg_Color G ''#fafafa'')) (lg_Color G ''#d08700'')) True),
     Set_option style_GenericHeadingError (lg_Bold G (lg_Background G (lg_Foreground G (lg_NewStyle G) (lg_Color G ''#fafafa'')) (lg_Color G ''#cb2431'')) True),
     Set_option style_TextOK (lg_Foreground G base (lg_Color G ''#22863a'')),
     Set_option style_TextWarn (lg_Foreground G base (lg_Color G ''#d08700'')),
     Set_option style_TextError (lg_Foreground G base (lg_Color G ''#cb2431''))])"

text \<open>Every theme here is a call of \<open>NewStyles\<close>.\<close>

lemmas themes_3_defs = ModusVivendi_def
  Monokai_def
  Monokailight_def
  Murphy_def
  Native_def
  Nord_def
  Nordic_def
  Onedark_def
  Onesenterprise_def
  ParaisoDark_def
  ParaisoLight_def
  Pastie_def
  Perldoc_def
  Pygments_def
  RainbowDash_def
  RosePine_def
  RosePineDawn_def
  RosePineMoon_def
  Rpgle_def

end
