(* ===== verification/Themes_4.thy ===== *)
theory Themes_4
  imports Lipgloss
begin

text \<open>
  Package \<open>style/theme\<close>: the built-in themes from \<open>Rrt\<close> to \<open>XcodeDark\<close>, each the function of its file.
\<close>

definition Rrt :: "('c, 's) lipgloss \<Rightarrow> 's styles" where
  "Rrt G = (let base = lg_Background G (lg_Foreground G (lg_NewStyle G) (lg_Color G ''#f8f8f2'')) (lg_Color G ''#000000'') in NewStyles base
    [Set_option style_Comment (lg_Foreground G base (lg_Color G ''#00ff00'')),
     Set_option style_GenericDeleted (lg_Foreground G base (lg_Color G ''#f00'')),
     Set_option style_GenericInserted (lg_Foreground G base (lg_Color G ''#0f0'')),
     Set_option style_LiteralNumber (lg_Foreground G base (lg_Color G ''#ff6600'')),
     Set_option style_LiteralString (lg_Foreground G base (lg_Color G ''#87ceeb'')),
     Set_option style_NameDecorator (lg_Foreground G base (lg_Color G ''#e5e5e5'')),
     Set_option style_Generic (lg_Italic G base True),
     Set_option style_NameTag (lg_Foreground G base (lg_Color G ''#ff0000'')),
     Set_option style_Name (lg_Foreground G base (lg_Color G ''#7fffd4'')),
     Set_option style_GenericHeading (lg_Bold G (lg_Background G (lg_Foreground G (lg_NewStyle G) (lg_Color G ''#000000'')) (lg_Color G ''#ff0000'')) True),
     Set_option style_GenericHeadingAccent (lg_Foreground G (lg_Background G base (lg_Lighten G (lg_Color G ''#000000'') 30)) (lg_Lighten G (lg_Color G ''#f8f8f2'') 15)),
     Set_option style_GenericHeadingSubtle (lg_Background G base (lg_Lighten G (lg_Color G ''#000000'') 15)),
     Set_option style_TextAccentDim (lg_Foreground G base (lg_Lighten G (lg_Color G ''#ff0000'') 15)),
     Set_option style_TextAccent (lg_Foreground G base (lg_Color G ''#ff0000'')),
     Set_option style_TextSubtleDim (lg_Foreground G base (lg_Darken G (lg_Color G ''#f8f8f2'') 15)),
     Set_option style_TextSubtle (lg_Foreground G base (lg_Color G ''#f8f8f2'')),
     Set_option style_GenericHighlightDim (lg_Background G (lg_NewStyle G) (lg_Lighten G (lg_Color G ''#000000'') 15)),
     Set_option style_GenericHighlight (lg_Background G (lg_NewStyle G) (lg_Lighten G (lg_Color G ''#000000'') 30)),
     Set_option style_GenericHeadingOK (lg_Bold G (lg_Background G (lg_Foreground G (lg_NewStyle G) (lg_Color G ''#000000'')) (lg_Color G ''#00ff00'')) True),
     Set_option style_GenericHeadingWarn (lg_Bold G (lg_Background G (lg_Foreground G (lg_NewStyle G) (lg_Color G ''#000000'')) (lg_Color G ''#ffb86c'')) True),
     Set_option style_GenericHeadingError (lg_Bold G (lg_Background G (lg_Foreground G (lg_NewStyle G) (lg_Color G ''#000000'')) (lg_Color G ''#ff0000'')) True),
     Set_option style_TextOK (lg_Foreground G base (lg_Color G ''#00ff00'')),
     Set_option style_TextWarn (lg_Foreground G base (lg_Color G ''#ffb86c'')),
     Set_option style_TextError (lg_Foreground G base (lg_Color G ''#ff0000''))])"

definition SolarizedDark :: "('c, 's) lipgloss \<Rightarrow> 's styles" where
  "SolarizedDark G = (let base = lg_Background G (lg_Foreground G (lg_NewStyle G) (lg_Color G ''#93a1a1'')) (lg_Color G ''#002b36'') in NewStyles base
    [Set_option style_Comment (lg_Foreground G base (lg_Color G ''#586e75'')),
     Set_option style_GenericDeleted (lg_Foreground G base (lg_Color G ''#dc322f'')),
     Set_option style_GenericError (lg_Bold G (lg_Foreground G base (lg_Color G ''#dc322f'')) True),
     Set_option style_GenericInserted (lg_Foreground G base (lg_Color G ''#719e07'')),
     Set_option style_LiteralNumber (lg_Foreground G base (lg_Color G ''#2aa198'')),
     Set_option style_LiteralString (lg_Foreground G base (lg_Color G ''#2aa198'')),
     Set_option style_NameDecorator (lg_Foreground G base (lg_Color G ''#268bd2'')),
     Set_option style_NameTag (lg_Foreground G base (lg_Color G ''#268bd2'')),
     Set_option style_Generic (lg_Italic G base True),
     Set_option style_LiteralBoolean (lg_Foreground G base (lg_Color G ''#cb4b16'')),
     Set_option style_Name (lg_Foreground G base (lg_Color G ''#b58900'')),
     Set_option style_Punctuation (lg_Foreground G base (lg_Color G ''#719e07'')),
     Set_option style_GenericHeading (lg_Bold G (lg_Background G (lg_Foreground G (lg_NewStyle G) (lg_Color G ''#002b36'')) (lg_Color G ''#268bd2'')) True),
     Set_option style_GenericHeadingAccent (lg_Foreground G (lg_Background G base (lg_Lighten G (lg_Color G ''#002b36'') 30)) (lg_Lighten G (lg_Color G ''#93a1a1'') 15)),
     Set_option style_GenericHeadingSubtle (lg_Background G base (lg_Lighten G (lg_Color G ''#002b36'') 15)),
     Set_option style_TextAccentDim (lg_Foreground G base (lg_Lighten G (lg_Color G ''#268bd2'') 15)),
     Set_option style_TextAccent (lg_Foreground G base (lg_Color G ''#268bd2'')),
     Set_option style_TextSubtleDim (lg_Foreground G base (lg_Darken G (lg_Color G ''#93a1a1'') 15)),
     Set_option style_TextSubtle (lg_Foreground G base (lg_Color G ''#93a1a1'')),
     Set_option style_GenericHighlightDim (lg_Background G (lg_NewStyle G) (lg_Lighten G (lg_Color G ''#002b36'') 15)),
     Set_option style_GenericHighlight (lg_Background G (lg_NewStyle G) (lg_Lighten G (lg_Color G ''#002b36'') 30)),
     Set_option style_GenericHeadingOK (lg_Bold G (lg_Background G (lg_Foreground G (lg_NewStyle G) (lg_Color G ''#002b36'')) (lg_Color G ''#719e07'')) True),
     Set_option style_GenericHeadingWarn (lg_Bold G (lg_Background G (lg_Foreground G (lg_NewStyle G) (lg_Color G ''#002b36'')) (lg_Color G ''#b58900'')) True),
     Set_option style_GenericHeadingError (lg_Bold G (lg_Background G (lg_Foreground G (lg_NewStyle G) (lg_Color G ''#002b36'')) (lg_Color G ''#dc322f'')) True),
     Set_option style_TextOK (lg_Foreground G base (lg_Color G ''#719e07'')),
     Set_option style_TextWarn (lg_Foreground G base (lg_Color G ''#b58900'')),
     Set_option style_TextError (lg_Foreground G base (lg_Color G ''#dc322f''))])"

definition SolarizedDark256 :: "('c, 's) lipgloss \<Rightarrow> 's styles" where
  "SolarizedDark256 G = (let base = lg_Background G (lg_Foreground G (lg_NewStyle G) (lg_Color G ''#8a8a8a'')) (lg_Color G ''#1c1c1c'') in NewStyles base
    [Set_option style_Comment (lg_Foreground G base (lg_Color G ''#4e4e4e'')),
     Set_option style_GenericDeleted (lg_Foreground G base (lg_Color G ''#af0000'')),
     Set_option style_GenericError (lg_Bold G (lg_Foreground G base (lg_Color G ''#af0000'')) True),
     Set_option style_GenericInserted (lg_Foreground G base (lg_Color G ''#5f8700'')),
     Set_option style_LiteralNumber (lg_Foreground G base (lg_Color G ''#00afaf'')),
     Set_option style_LiteralString (lg_Foreground G base (lg_Color G ''#00afaf'')),
     Set_option style_NameDecorator (lg_Foreground G base (lg_Color G ''#0087ff'')),
     Set_option style_NameTag (lg_Foreground G base (lg_Color G ''#0087ff'')),
     Set_option style_Generic (lg_Italic G base True),
     Set_option style_LiteralBoolean (lg_Foreground G base (lg_Color G ''#d75f00'')),
     Set_option style_Name (lg_Foreground G base (lg_Color G ''#0087ff'')),
     Set_option style_Punctuation (lg_Foreground G base (lg_Color G ''#8a8a8a'')),
     Set_option style_GenericHeading (lg_Bold G (lg_Background G (lg_Foreground G (lg_NewStyle G) (lg_Color G ''#1c1c1c'')) (lg_Color G ''#0087ff'')) True),
     Set_option style_GenericHeadingAccent (lg_Foreground G (lg_Background G base (lg_Lighten G (lg_Color G ''#1c1c1c'') 30)) (lg_Lighten G (lg_Color G ''#8a8a8a'') 15)),
     Set_option style_GenericHeadingSubtle (lg_Background G base (lg_Lighten G (lg_Color G ''#1c1c1c'') 15)),
     Set_option style_TextAccentDim (lg_Foreground G base (lg_Lighten G (lg_Color G ''#0087ff'') 15)),
     Set_option style_TextAccent (lg_Foreground G base (lg_Color G ''#0087ff'')),
     Set_option style_TextSubtleDim (lg_Foreground G base (lg_Darken G (lg_Color G ''#8a8a8a'') 15)),
     Set_option style_TextSubtle (lg_Foreground G base (lg_Color G ''#8a8a8a'')),
     Set_option style_GenericHighlightDim (lg_Background G (lg_NewStyle G) (lg_Lighten G (lg_Color G ''#1c1c1c'') 15)),
     Set_option style_GenericHighlight (lg_Background G (lg_NewStyle G) (lg_Lighten G (lg_Color G ''#1c1c1c'') 30)),
     Set_option style_GenericHeadingOK (lg_Bold G (lg_Background G (lg_Foreground G (lg_NewStyle G) (lg_Color G ''#1c1c1c'')) (lg_Color G ''#5f8700'')) True),
     Set_option style_GenericHeadingWarn (lg_Bold G (lg_Background G (lg_Foreground G (lg_NewStyle G) (lg_Color G ''#1c1c1c'')) (lg_Color G ''#af8700'')) True),
     Set_option style_GenericHeadingError (lg_Bold G (lg_Background G (lg_Foreground G (lg_NewStyle G) (lg_Color G ''#1c1c1c'')) (lg_Color G ''#af0000'')) True),
     Set_option style_TextOK (lg_Foreground G base (lg_Color G ''#5f8700'')),
     Set_option style_TextWarn (lg_Foreground G base (lg_Color G ''#af8700'')),
     Set_option style_TextError (lg_Foreground G base (lg_Color G ''#af0000''))])"

definition SolarizedLight :: "('c, 's) lipgloss \<Rightarrow> 's styles" where
  "SolarizedLight G = (let base = lg_Background G (lg_Foreground G (lg_NewStyle G) (lg_Color G ''#586e75'')) (lg_Color G ''#eee8d5'') in NewStyles base
    [Set_option style_Comment (lg_Italic G (lg_Foreground G base (lg_Color G ''#93a1a1'')) True),
     Set_option style_Generic (lg_Foreground G base (lg_Color G ''#d33682'')),
     Set_option style_LiteralNumber (lg_Bold G base True),
     Set_option style_Name (lg_Foreground G base (lg_Color G ''#268bd2'')),
     Set_option style_NameTag (lg_Bold G base True),
     Set_option style_LiteralBoolean (lg_Bold G base True),
     Set_option style_LiteralString (lg_Foreground G base (lg_Color G ''#2aa198'')),
     Set_option style_Punctuation (lg_Foreground G base (lg_Color G ''#859900'')),
     Set_option style_GenericHeading (lg_Bold G (lg_Background G (lg_Foreground G (lg_NewStyle G) (lg_Color G ''#eee8d5'')) (lg_Color G ''#586e75'')) True),
     Set_option style_GenericHeadingAccent (lg_Foreground G (lg_Background G base (lg_Darken G (lg_Color G ''#eee8d5'') 30)) (lg_Darken G (lg_Color G ''#586e75'') 15)),
     Set_option style_GenericHeadingSubtle (lg_Background G base (lg_Darken G (lg_Color G ''#eee8d5'') 15)),
     Set_option style_TextAccentDim (lg_Foreground G base (lg_Darken G (lg_Color G ''#586e75'') 15)),
     Set_option style_TextAccent (lg_Foreground G base (lg_Color G ''#586e75'')),
     Set_option style_TextSubtleDim (lg_Foreground G base (lg_Lighten G (lg_Color G ''#586e75'') 15)),
     Set_option style_TextSubtle (lg_Foreground G base (lg_Color G ''#586e75'')),
     Set_option style_GenericHighlightDim (lg_Background G (lg_NewStyle G) (lg_Darken G (lg_Color G ''#eee8d5'') 15)),
     Set_option style_GenericHighlight (lg_Background G (lg_NewStyle G) (lg_Darken G (lg_Color G ''#eee8d5'') 30)),
     Set_option style_GenericHeadingOK (lg_Bold G (lg_Background G (lg_Foreground G (lg_NewStyle G) (lg_Color G ''#eee8d5'')) (lg_Color G ''#719e07'')) True),
     Set_option style_GenericHeadingWarn (lg_Bold G (lg_Background G (lg_Foreground G (lg_NewStyle G) (lg_Color G ''#eee8d5'')) (lg_Color G ''#b58900'')) True),
     Set_option style_GenericHeadingError (lg_Bold G (lg_Background G (lg_Foreground G (lg_NewStyle G) (lg_Color G ''#eee8d5'')) (lg_Color G ''#dc322f'')) True),
     Set_option style_TextOK (lg_Foreground G base (lg_Color G ''#719e07'')),
     Set_option style_TextWarn (lg_Foreground G base (lg_Color G ''#b58900'')),
     Set_option style_TextError (lg_Foreground G base (lg_Color G ''#dc322f''))])"

definition Swapoff :: "('c, 's) lipgloss \<Rightarrow> 's styles" where
  "Swapoff G = (let base = lg_Background G (lg_Foreground G (lg_NewStyle G) (lg_Color G ''#e5e5e5'')) (lg_Color G ''#000000'') in NewStyles base
    [Set_option style_Comment (lg_Foreground G base (lg_Color G ''#007f7f'')),
     Set_option style_LiteralNumber (lg_Bold G (lg_Foreground G base (lg_Color G ''#ffff00'')) True),
     Set_option style_LiteralString (lg_Bold G (lg_Foreground G base (lg_Color G ''#00ffff'')) True),
     Set_option style_NameTag (lg_Bold G base True),
     Set_option style_NameDecorator (lg_Bold G (lg_Foreground G base (lg_Color G ''#00ff00'')) True),
     Set_option style_GenericError (lg_Foreground G base (lg_Color G ''#ff0000'')),
     Set_option style_Generic (lg_Bold G base True),
     Set_option style_Name (lg_Bold G (lg_Foreground G base (lg_Color G ''#ffffff'')) True),
     Set_option style_GenericHeading (lg_Bold G (lg_Background G (lg_Foreground G (lg_NewStyle G) (lg_Color G ''#000000'')) (lg_Color G ''#e5e5e5'')) True),
     Set_option style_GenericHeadingAccent (lg_Foreground G (lg_Background G base (lg_Lighten G (lg_Color G ''#000000'') 30)) (lg_Lighten G (lg_Color G ''#e5e5e5'') 15)),
     Set_option style_GenericHeadingSubtle (lg_Background G base (lg_Lighten G (lg_Color G ''#000000'') 15)),
     Set_option style_TextAccentDim (lg_Foreground G base (lg_Lighten G (lg_Color G ''#e5e5e5'') 15)),
     Set_option style_TextAccent (lg_Foreground G base (lg_Color G ''#e5e5e5'')),
     Set_option style_TextSubtleDim (lg_Foreground G base (lg_Darken G (lg_Color G ''#e5e5e5'') 15)),
     Set_option style_TextSubtle (lg_Foreground G base (lg_Color G ''#e5e5e5'')),
     Set_option style_GenericHighlightDim (lg_Background G (lg_NewStyle G) (lg_Lighten G (lg_Color G ''#000000'') 15)),
     Set_option style_GenericHighlight (lg_Background G (lg_NewStyle G) (lg_Lighten G (lg_Color G ''#000000'') 30)),
     Set_option style_GenericHeadingOK (lg_Bold G (lg_Background G (lg_Foreground G (lg_NewStyle G) (lg_Color G ''#000000'')) (lg_Color G ''#00ff00'')) True),
     Set_option style_GenericHeadingWarn (lg_Bold G (lg_Background G (lg_Foreground G (lg_NewStyle G) (lg_Color G ''#000000'')) (lg_Color G ''#ffb86c'')) True),
     Set_option style_GenericHeadingError (lg_Bold G (lg_Background G (lg_Foreground G (lg_NewStyle G) (lg_Color G ''#000000'')) (lg_Color G ''#ff0000'')) True),
     Set_option style_TextOK (lg_Foreground G base (lg_Color G ''#00ff00'')),
     Set_option style_TextWarn (lg_Foreground G base (lg_Color G ''#ffb86c'')),
     Set_option style_TextError (lg_Foreground G base (lg_Color G ''#ff0000''))])"

definition Tango :: "('c, 's) lipgloss \<Rightarrow> 's styles" where
  "Tango G = (let base = lg_Background G (lg_Foreground G (lg_NewStyle G) (lg_Color G ''#000000'')) (lg_Color G ''#f8f8f8'') in NewStyles base
    [Set_option style_Comment (lg_Italic G (lg_Foreground G base (lg_Color G ''#8f5902'')) True),
     Set_option style_Generic (lg_Foreground G base (lg_Color G ''#000000'')),
     Set_option style_GenericDeleted (lg_Foreground G base (lg_Color G ''#a40000'')),
     Set_option style_GenericError (lg_Foreground G base (lg_Color G ''#ef2929'')),
     Set_option style_GenericInserted (lg_Foreground G base (lg_Color G ''#00a000'')),
     Set_option style_LiteralNumber (lg_Bold G (lg_Foreground G base (lg_Color G ''#0000cf'')) True),
     Set_option style_LiteralNumberFloat (lg_Bold G (lg_Foreground G base (lg_Color G ''#0000cf'')) True),
     Set_option style_LiteralNumberHex (lg_Bold G (lg_Foreground G base (lg_Color G ''#0000cf'')) True),
     Set_option style_LiteralNumberInteger (lg_Bold G (lg_Foreground G base (lg_Color G ''#0000cf'')) True),
     Set_option style_LiteralNumberOct (lg_Bold G (lg_Foreground G base (lg_Color G ''#0000cf'')) True),
     Set_option style_LiteralString (lg_Foreground G base (lg_Color G ''#4e9a06'')),
     Set_option style_LiteralStringDouble (lg_Foreground G base (lg_Color G ''#4e9a06'')),
     Set_option style_LiteralStringSingle (lg_Foreground G base (lg_Color G ''#4e9a06'')),
     Set_option style_Name (lg_Foreground G base (lg_Color G ''#000000'')),
     Set_option style_NameDecorator (lg_Bold G (lg_Foreground G base (lg_Color G ''#5c35cc'')) True),
     Set_option style_NameTag (lg_Bold G (lg_Foreground G base (lg_Color G ''#204a87'')) True),
     Set_option style_Punctuation (lg_Bold G (lg_Foreground G base (lg_Color G ''#000000'')) True),
     Set_option style_LiteralBoolean (lg_Bold G (lg_Foreground G base (lg_Color G ''#204a87'')) True),
     Set_option style_PunctuationHeading (lg_Foreground G base (lg_Color G ''#000000'')),
     Set_option style_GenericHeading (lg_Bold G (lg_Background G (lg_Foreground G (lg_NewStyle G) (lg_Color G ''#f8f8f8'')) (lg_Color G ''#204a87'')) True),
     Set_option style_GenericHeadingAccent (lg_Foreground G (lg_Background G base (lg_Darken G (lg_Color G ''#f8f8f8'') 30)) (lg_Darken G (lg_Color G ''#000000'') 15)),
     Set_option style_GenericHeadingSubtle (lg_Background G base (lg_Darken G (lg_Color G ''#f8f8f8'') 15)),
     Set_option style_TextAccentDim (lg_Foreground G base (lg_Darken G (lg_Color G ''#204a87'') 15)),
     Set_option style_TextAccent (lg_Foreground G base (lg_Color G ''#204a87'')),
     Set_option style_TextSubtleDim (lg_Foreground G base (lg_Lighten G (lg_Color G ''#000000'') 15)),
     Set_option style_TextSubtle (lg_Foreground G base (lg_Color G ''#000000'')),
     Set_option style_GenericHighlightDim (lg_Background G (lg_NewStyle G) (lg_Darken G (lg_Color G ''#f8f8f8'') 15)),
     Set_option style_GenericHighlight (lg_Background G (lg_NewStyle G) (lg_Darken G (lg_Color G ''#f8f8f8'') 30)),
     Set_option style_GenericHeadingOK (lg_Bold G (lg_Background G (lg_Foreground G (lg_NewStyle G) (lg_Color G ''#f8f8f8'')) (lg_Color G ''#00a000'')) True),
     Set_option style_GenericHeadingWarn (lg_Bold G (lg_Background G (lg_Foreground G (lg_NewStyle G) (lg_Color G ''#f8f8f8'')) (lg_Color G ''#c4a000'')) True),
     Set_option style_GenericHeadingError (lg_Bold G (lg_Background G (lg_Foreground G (lg_NewStyle G) (lg_Color G ''#f8f8f8'')) (lg_Color G ''#a40000'')) True),
     Set_option style_TextOK (lg_Foreground G base (lg_Color G ''#00a000'')),
     Set_option style_TextWarn (lg_Foreground G base (lg_Color G ''#c4a000'')),
     Set_option style_TextError (lg_Foreground G base (lg_Color G ''#a40000''))])"

definition TokyonightDay :: "('c, 's) lipgloss \<Rightarrow> 's styles" where
  "TokyonightDay G = (let base = lg_Background G (lg_Foreground G (lg_NewStyle G) (lg_Color G ''#3760bf'')) (lg_Color G ''#e1e2e7'') in NewStyles base
    [Set_option style_Comment (lg_Italic G (lg_Foreground G base (lg_Color G ''#a1a6c5'')) True),
     Set_option style_Generic (lg_Foreground G base (lg_Color G ''#3760bf'')),
     Set_option style_GenericDeleted (lg_Background G (lg_Foreground G base (lg_Color G ''#c64343'')) (lg_Color G ''#e9e9ed'')),
     Set_option style_GenericError (lg_Foreground G base (lg_Color G ''#c64343'')),
     Set_option style_GenericInserted (lg_Background G (lg_Foreground G base (lg_Color G ''#587539'')) (lg_Color G ''#e9e9ed'')),
     Set_option style_LiteralNumber (lg_Foreground G base (lg_Color G ''#8c6c3e'')),
     Set_option style_LiteralNumberBin (lg_Foreground G base (lg_Color G ''#8c6c3e'')),
     Set_option style_LiteralNumberFloat (lg_Foreground G base (lg_Color G ''#8c6c3e'')),
     Set_option style_LiteralNumberHex (lg_Foreground G base (lg_Color G ''#8c6c3e'')),
     Set_option style_LiteralNumberInteger (lg_Foreground G base (lg_Color G ''#8c6c3e'')),
     Set_option style_LiteralNumberOct (lg_Foreground G base (lg_Color G ''#8c6c3e'')),
     Set_option style_LiteralString (lg_Foreground G base (lg_Color G ''#587539'')),
     Set_option style_LiteralStringDouble (lg_Foreground G base (lg_Color G ''#587539'')),
     Set_option style_LiteralStringSingle (lg_Foreground G base (lg_Color G ''#587539'')),
     Set_option style_Name (lg_Foreground G base (lg_Color G ''#3760bf'')),
     Set_option style_NameDecorator (lg_Bold G (lg_Foreground G base (lg_Color G ''#2e7de9'')) True),
     Set_option style_NameTag (lg_Foreground G base (lg_Color G ''#9854f1'')),
     Set_option style_CommentPreproc (lg_Bold G (lg_Foreground G base (lg_Color G ''#a1a6c5'')) True),
     Set_option style_LiteralBoolean (lg_Foreground G base (lg_Color G ''#8c6c3e'')),
     Set_option style_PunctuationHeading (lg_Foreground G base (lg_Color G ''#8c6c3e'')),
     Set_option style_Punctuation (lg_Bold G (lg_Foreground G base (lg_Color G ''#587539'')) True),
     Set_option style_GenericHeading (lg_Bold G (lg_Background G (lg_Foreground G (lg_NewStyle G) (lg_Color G ''#e1e2e7'')) (lg_Color G ''#9854f1'')) True),
     Set_option style_GenericHeadingAccent (lg_Foreground G (lg_Background G base (lg_Darken G (lg_Color G ''#e1e2e7'') 30)) (lg_Darken G (lg_Color G ''#3760bf'') 15)),
     Set_option style_GenericHeadingSubtle (lg_Background G base (lg_Darken G (lg_Color G ''#e1e2e7'') 15)),
     Set_option style_TextAccentDim (lg_Foreground G base (lg_Darken G (lg_Color G ''#9854f1'') 15)),
     Set_option style_TextAccent (lg_Foreground G base (lg_Color G ''#9854f1'')),
     Set_option style_TextSubtleDim (lg_Foreground G base (lg_Lighten G (lg_Color G ''#3760bf'') 15)),
     Set_option style_TextSubtle (lg_Foreground G base (lg_Color G ''#3760bf'')),
     Set_option style_GenericHighlightDim (lg_Background G (lg_NewStyle G) (lg_Darken G (lg_Color G ''#e1e2e7'') 15)),
     Set_option style_GenericHighlight (lg_Background G (lg_NewStyle G) (lg_Darken G (lg_Color G ''#e1e2e7'') 30)),
     Set_option style_GenericHeadingOK (lg_Bold G (lg_Background G (lg_Foreground G (lg_NewStyle G) (lg_Color G ''#e1e2e7'')) (lg_Color G ''#587539'')) True),
     Set_option style_GenericHeadingWarn (lg_Bold G (lg_Background G (lg_Foreground G (lg_NewStyle G) (lg_Color G ''#e1e2e7'')) (lg_Color G ''#965027'')) True),
     Set_option style_GenericHeadingError (lg_Bold G (lg_Background G (lg_Foreground G (lg_NewStyle G) (lg_Color G ''#e1e2e7'')) (lg_Color G ''#c64343'')) True),
     Set_option style_TextOK (lg_Foreground G base (lg_Color G ''#587539'')),
     Set_option style_TextWarn (lg_Foreground G base (lg_Color G ''#965027'')),
     Set_option style_TextError (lg_Foreground G base (lg_Color G ''#c64343''))])"

definition TokyonightMoon :: "('c, 's) lipgloss \<Rightarrow> 's styles" where
  "TokyonightMoon G = (let base = lg_Background G (lg_Foreground G (lg_NewStyle G) (lg_Color G ''#c8d3f5'')) (lg_Color G ''#222436'') in NewStyles base
    [Set_option style_Comment (lg_Italic G (lg_Foreground G base (lg_Color G ''#444a73'')) True),
     Set_option style_Generic (lg_Foreground G base (lg_Color G ''#c8d3f5'')),
     Set_option style_GenericDeleted (lg_Background G (lg_Foreground G base (lg_Color G ''#c53b53'')) (lg_Color G ''#1b1d2b'')),
     Set_option style_GenericError (lg_Foreground G base (lg_Color G ''#c53b53'')),
     Set_option style_GenericInserted (lg_Background G (lg_Foreground G base (lg_Color G ''#c3e88d'')) (lg_Color G ''#1b1d2b'')),
     Set_option style_LiteralNumber (lg_Foreground G base (lg_Color G ''#ffc777'')),
     Set_option style_LiteralNumberBin (lg_Foreground G base (lg_Color G ''#ffc777'')),
     Set_option style_LiteralNumberFloat (lg_Foreground G base (lg_Color G ''#ffc777'')),
     Set_option style_LiteralNumberHex (lg_Foreground G base (lg_Color G ''#ffc777'')),
     Set_option style_LiteralNumberInteger (lg_Foreground G base (lg_Color G ''#ffc777'')),
     Set_option style_LiteralNumberOct (lg_Foreground G base (lg_Color G ''#ffc777'')),
     Set_option style_LiteralString (lg_Foreground G base (lg_Color G ''#c3e88d'')),
     Set_option style_LiteralStringDouble (lg_Foreground G base (lg_Color G ''#c3e88d'')),
     Set_option style_LiteralStringSingle (lg_Foreground G base (lg_Color G ''#c3e88d'')),
     Set_option style_Name (lg_Foreground G base (lg_Color G ''#c8d3f5'')),
     Set_option style_NameDecorator (lg_Bold G (lg_Foreground G base (lg_Color G ''#82aaff'')) True),
     Set_option style_NameTag (lg_Foreground G base (lg_Color G ''#c099ff'')),
     Set_option style_CommentPreproc (lg_Bold G (lg_Foreground G base (lg_Color G ''#444a73'')) True),
     Set_option style_LiteralBoolean (lg_Foreground G base (lg_Color G ''#ffc777'')),
     Set_option style_PunctuationHeading (lg_Foreground G base (lg_Color G ''#ffc777'')),
     Set_option style_Punctuation (lg_Bold G (lg_Foreground G base (lg_Color G ''#c3e88d'')) True),
     Set_option style_GenericHeading (lg_Bold G (lg_Background G (lg_Foreground G (lg_NewStyle G) (lg_Color G ''#222436'')) (lg_Color G ''#c099ff'')) True),
     Set_option style_GenericHeadingAccent (lg_Foreground G (lg_Background G base (lg_Lighten G (lg_Color G ''#222436'') 30)) (lg_Lighten G (lg_Color G ''#c8d3f5'') 15)),
     Set_option style_GenericHeadingSubtle (lg_Background G base (lg_Lighten G (lg_Color G ''#222436'') 15)),
     Set_option style_TextAccentDim (lg_Foreground G base (lg_Lighten G (lg_Color G ''#c099ff'') 15)),
     Set_option style_TextAccent (lg_Foreground G base (lg_Color G ''#c099ff'')),
     Set_option style_TextSubtleDim (lg_Foreground G base (lg_Darken G (lg_Color G ''#c8d3f5'') 15)),
     Set_option style_TextSubtle (lg_Foreground G base (lg_Color G ''#c8d3f5'')),
     Set_option style_GenericHighlightDim (lg_Background G (lg_NewStyle G) (lg_Lighten G (lg_Color G ''#222436'') 15)),
     Set_option style_GenericHighlight (lg_Background G (lg_NewStyle G) (lg_Lighten G (lg_Color G ''#222436'') 30)),
     Set_option style_GenericHeadingOK (lg_Bold G (lg_Background G (lg_Foreground G (lg_NewStyle G) (lg_Color G ''#222436'')) (lg_Color G ''#c3e88d'')) True),
     Set_option style_GenericHeadingWarn (lg_Bold G (lg_Background G (lg_Foreground G (lg_NewStyle G) (lg_Color G ''#222436'')) (lg_Color G ''#ff9e64'')) True),
     Set_option style_GenericHeadingError (lg_Bold G (lg_Background G (lg_Foreground G (lg_NewStyle G) (lg_Color G ''#222436'')) (lg_Color G ''#c53b53'')) True),
     Set_option style_TextOK (lg_Foreground G base (lg_Color G ''#c3e88d'')),
     Set_option style_TextWarn (lg_Foreground G base (lg_Color G ''#ff9e64'')),
     Set_option style_TextError (lg_Foreground G base (lg_Color G ''#c53b53''))])"

definition TokyonightNight :: "('c, 's) lipgloss \<Rightarrow> 's styles" where
  "TokyonightNight G = (let base = lg_Background G (lg_Foreground G (lg_NewStyle G) (lg_Color G ''#c0caf5'')) (lg_Color G ''#1a1b26'') in NewStyles base
    [Set_option style_Comment (lg_Italic G (lg_Foreground G base (lg_Color G ''#414868'')) True),
     Set_option style_Generic (lg_Foreground G base (lg_Color G ''#c0caf5'')),
     Set_option style_GenericDeleted (lg_Background G (lg_Foreground G base (lg_Color G ''#db4b4b'')) (lg_Color G ''#15161e'')),
     Set_option style_GenericError (lg_Foreground G base (lg_Color G ''#db4b4b'')),
     Set_option style_GenericInserted (lg_Background G (lg_Foreground G base (lg_Color G ''#9ece6a'')) (lg_Color G ''#15161e'')),
     Set_option style_LiteralNumber (lg_Foreground G base (lg_Color G ''#e0af68'')),
     Set_option style_LiteralNumberBin (lg_Foreground G base (lg_Color G ''#e0af68'')),
     Set_option style_LiteralNumberFloat (lg_Foreground G base (lg_Color G ''#e0af68'')),
     Set_option style_LiteralNumberHex (lg_Foreground G base (lg_Color G ''#e0af68'')),
     Set_option style_LiteralNumberInteger (lg_Foreground G base (lg_Color G ''#e0af68'')),
     Set_option style_LiteralNumberOct (lg_Foreground G base (lg_Color G ''#e0af68'')),
     Set_option style_LiteralString (lg_Foreground G base (lg_Color G ''#9ece6a'')),
     Set_option style_LiteralStringDouble (lg_Foreground G base (lg_Color G ''#9ece6a'')),
     Set_option style_LiteralStringSingle (lg_Foreground G base (lg_Color G ''#9ece6a'')),
     Set_option style_Name (lg_Foreground G base (lg_Color G ''#c0caf5'')),
     Set_option style_NameDecorator (lg_Bold G (lg_Foreground G base (lg_Color G ''#7aa2f7'')) True),
     Set_option style_NameTag (lg_Foreground G base (lg_Color G ''#bb9af7'')),
     Set_option style_CommentPreproc (lg_Bold G (lg_Foreground G base (lg_Color G ''#414868'')) True),
     Set_option style_LiteralBoolean (lg_Foreground G base (lg_Color G ''#e0af68'')),
     Set_option style_PunctuationHeading (lg_Foreground G base (lg_Color G ''#e0af68'')),
     Set_option style_Punctuation (lg_Bold G (lg_Foreground G base (lg_Color G ''#9ece6a'')) True),
     Set_option style_GenericHeading (lg_Bold G (lg_Background G (lg_Foreground G (lg_NewStyle G) (lg_Color G ''#1a1b26'')) (lg_Color G ''#bb9af7'')) True),
     Set_option style_GenericHeadingAccent (lg_Foreground G (lg_Background G base (lg_Lighten G (lg_Color G ''#1a1b26'') 30)) (lg_Lighten G (lg_Color G ''#c0caf5'') 15)),
     Set_option style_GenericHeadingSubtle (lg_Background G base (lg_Lighten G (lg_Color G ''#1a1b26'') 15)),
     Set_option style_TextAccentDim (lg_Foreground G base (lg_Lighten G (lg_Color G ''#bb9af7'') 15)),
     Set_option style_TextAccent (lg_Foreground G base (lg_Color G ''#bb9af7'')),
     Set_option style_TextSubtleDim (lg_Foreground G base (lg_Darken G (lg_Color G ''#c0caf5'') 15)),
     Set_option style_TextSubtle (lg_Foreground G base (lg_Color G ''#c0caf5'')),
     Set_option style_GenericHighlightDim (lg_Background G (lg_NewStyle G) (lg_Lighten G (lg_Color G ''#1a1b26'') 15)),
     Set_option style_GenericHighlight (lg_Background G (lg_NewStyle G) (lg_Lighten G (lg_Color G ''#1a1b26'') 30)),
     Set_option style_GenericHeadingOK (lg_Bold G (lg_Background G (lg_Foreground G (lg_NewStyle G) (lg_Color G ''#1a1b26'')) (lg_Color G ''#9ece6a'')) True),
     Set_option style_GenericHeadingWarn (lg_Bold G (lg_Background G (lg_Foreground G (lg_NewStyle G) (lg_Color G ''#1a1b26'')) (lg_Color G ''#e0af68'')) True),
     Set_option style_GenericHeadingError (lg_Bold G (lg_Background G (lg_Foreground G (lg_NewStyle G) (lg_Color G ''#1a1b26'')) (lg_Color G ''#db4b4b'')) True),
     Set_option style_TextOK (lg_Foreground G base (lg_Color G ''#9ece6a'')),
     Set_option style_TextWarn (lg_Foreground G base (lg_Color G ''#e0af68'')),
     Set_option style_TextError (lg_Foreground G base (lg_Color G ''#db4b4b''))])"

definition TokyonightStorm :: "('c, 's) lipgloss \<Rightarrow> 's styles" where
  "TokyonightStorm G = (let base = lg_Background G (lg_Foreground G (lg_NewStyle G) (lg_Color G ''#c0caf5'')) (lg_Color G ''#1a1b26'') in NewStyles base
    [Set_option style_Comment (lg_Italic G (lg_Foreground G base (lg_Color G ''#414868'')) True),
     Set_option style_Generic (lg_Foreground G base (lg_Color G ''#c0caf5'')),
     Set_option style_GenericDeleted (lg_Background G (lg_Foreground G base (lg_Color G ''#db4b4b'')) (lg_Color G ''#15161e'')),
     Set_option style_GenericError (lg_Foreground G base (lg_Color G ''#db4b4b'')),
     Set_option style_GenericInserted (lg_Background G (lg_Foreground G base (lg_Color G ''#9ece6a'')) (lg_Color G ''#15161e'')),
     Set_option style_LiteralNumber (lg_Foreground G base (lg_Color G ''#e0af68'')),
     Set_option style_LiteralNumberBin (lg_Foreground G base (lg_Color G ''#e0af68'')),
     Set_option style_LiteralNumberFloat (lg_Foreground G base (lg_Color G ''#e0af68'')),
     Set_option style_LiteralNumberHex (lg_Foreground G base (lg_Color G ''#e0af68'')),
     Set_option style_LiteralNumberInteger (lg_Foreground G base (lg_Color G ''#e0af68'')),
     Set_option style_LiteralNumberOct (lg_Foreground G base (lg_Color G ''#e0af68'')),
     Set_option style_LiteralString (lg_Foreground G base (lg_Color G ''#9ece6a'')),
     Set_option style_LiteralStringDouble (lg_Foreground G base (lg_Color G ''#9ece6a'')),
     Set_option style_LiteralStringSingle (lg_Foreground G base (lg_Color G ''#9ece6a'')),
     Set_option style_Name (lg_Foreground G base (lg_Color G ''#c0caf5'')),
     Set_option style_NameDecorator (lg_Bold G (lg_Foreground G base (lg_Color G ''#7aa2f7'')) True),
     Set_option style_NameTag (lg_Foreground G base (lg_Color G ''#bb9af7'')),
     Set_option style_CommentPreproc (lg_Bold G (lg_Foreground G base (lg_Color G ''#414868'')) True),
     Set_option style_LiteralBoolean (lg_Foreground G base (lg_Color G ''#e0af68'')),
     Set_option style_PunctuationHeading (lg_Foreground G base (lg_Color G ''#e0af68'')),
     Set_option style_Punctuation (lg_Bold G (lg_Foreground G base (lg_Color G ''#9ece6a'')) True),
     Set_option style_GenericHeading (lg_Bold G (lg_Background G (lg_Foreground G (lg_NewStyle G) (lg_Color G ''#1a1b26'')) (lg_Color G ''#bb9af7'')) True),
     Set_option style_GenericHeadingAccent (lg_Foreground G (lg_Background G base (lg_Lighten G (lg_Color G ''#1a1b26'') 30)) (lg_Lighten G (lg_Color G ''#c0caf5'') 15)),
     Set_option style_GenericHeadingSubtle (lg_Background G base (lg_Lighten G (lg_Color G ''#1a1b26'') 15)),
     Set_option style_TextAccentDim (lg_Foreground G base (lg_Lighten G (lg_Color G ''#bb9af7'') 15)),
     Set_option style_TextAccent (lg_Foreground G base (lg_Color G ''#bb9af7'')),
     Set_option style_TextSubtleDim (lg_Foreground G base (lg_Darken G (lg_Color G ''#c0caf5'') 15)),
     Set_option style_TextSubtle (lg_Foreground G base (lg_Color G ''#c0caf5'')),
     Set_option style_GenericHighlightDim (lg_Background G (lg_NewStyle G) (lg_Lighten G (lg_Color G ''#1a1b26'') 15)),
     Set_option style_GenericHighlight (lg_Background G (lg_NewStyle G) (lg_Lighten G (lg_Color G ''#1a1b26'') 30)),
     Set_option style_GenericHeadingOK (lg_Bold G (lg_Background G (lg_Foreground G (lg_NewStyle G) (lg_Color G ''#24283b'')) (lg_Color G ''#9ece6a'')) True),
     Set_option style_GenericHeadingWarn (lg_Bold G (lg_Background G (lg_Foreground G (lg_NewStyle G) (lg_Color G ''#24283b'')) (lg_Color G ''#e0af68'')) True),
     Set_option style_GenericHeadingError (lg_Bold G (lg_Background G (lg_Foreground G (lg_NewStyle G) (lg_Color G ''#24283b'')) (lg_Color G ''#db4b4b'')) True),
     Set_option style_TextOK (lg_Foreground G base (lg_Color G ''#9ece6a'')),
     Set_option style_TextWarn (lg_Foreground G base (lg_Color G ''#e0af68'')),
     Set_option style_TextError (lg_Foreground G base (lg_Color G ''#db4b4b''))])"

definition Trac :: "('c, 's) lipgloss \<Rightarrow> 's styles" where
  "Trac G = (let base = lg_Background G (lg_Foreground G (lg_NewStyle G) (lg_Color G ''#000000'')) (lg_Color G ''#ffffff'') in NewStyles base
    [Set_option style_Comment (lg_Italic G (lg_Foreground G base (lg_Color G ''#999988'')) True),
     Set_option style_GenericDeleted (lg_Background G (lg_Foreground G base (lg_Color G ''#000000'')) (lg_Color G ''#ffdddd'')),
     Set_option style_GenericError (lg_Foreground G base (lg_Color G ''#aa0000'')),
     Set_option style_GenericInserted (lg_Background G (lg_Foreground G base (lg_Color G ''#000000'')) (lg_Color G ''#ddffdd'')),
     Set_option style_LiteralNumber (lg_Foreground G base (lg_Color G ''#009999'')),
     Set_option style_LiteralString (lg_Foreground G base (lg_Color G ''#bb8844'')),
     Set_option style_NameTag (lg_Foreground G base (lg_Color G ''#000080'')),
     Set_option style_NameDecorator (lg_Bold G (lg_Foreground G base (lg_Color G ''#999999'')) True),
     Set_option style_Generic (lg_Italic G base True),
     Set_option style_Name (lg_Foreground G base (lg_Color G ''#999999'')),
     Set_option style_PunctuationHeading (lg_Foreground G base (lg_Color G ''#555555'')),
     Set_option style_Punctuation (lg_Bold G base True),
     Set_option style_GenericHeading (lg_Bold G (lg_Background G (lg_Foreground G (lg_NewStyle G) (lg_Color G ''#ffffff'')) (lg_Color G ''#000080'')) True),
     Set_option style_GenericHeadingAccent (lg_Foreground G (lg_Background G base (lg_Darken G (lg_Color G ''#ffffff'') 30)) (lg_Darken G (lg_Color G ''#000000'') 15)),
     Set_option style_GenericHeadingSubtle (lg_Background G base (lg_Darken G (lg_Color G ''#ffffff'') 15)),
     Set_option style_TextAccentDim (lg_Foreground G base (lg_Darken G (lg_Color G ''#000080'') 15)),
     Set_option style_TextAccent (lg_Foreground G base (lg_Color G ''#000080'')),
     Set_option style_TextSubtleDim (lg_Foreground G base (lg_Lighten G (lg_Color G ''#000000'') 15)),
     Set_option style_TextSubtle (lg_Foreground G base (lg_Color G ''#000000'')),
     Set_option style_GenericHighlightDim (lg_Background G (lg_NewStyle G) (lg_Darken G (lg_Color G ''#ffffff'') 15)),
     Set_option style_GenericHighlight (lg_Background G (lg_NewStyle G) (lg_Darken G (lg_Color G ''#ffffff'') 30)),
     Set_option style_GenericHeadingOK (lg_Bold G (lg_Background G (lg_Foreground G (lg_NewStyle G) (lg_Color G ''#ffffff'')) (lg_Color G ''#22863a'')) True),
     Set_option style_GenericHeadingWarn (lg_Bold G (lg_Background G (lg_Foreground G (lg_NewStyle G) (lg_Color G ''#ffffff'')) (lg_Color G ''#b07d2b'')) True),
     Set_option style_GenericHeadingError (lg_Bold G (lg_Background G (lg_Foreground G (lg_NewStyle G) (lg_Color G ''#ffffff'')) (lg_Color G ''#cb2431'')) True),
     Set_option style_TextOK (lg_Foreground G base (lg_Color G ''#22863a'')),
     Set_option style_TextWarn (lg_Foreground G base (lg_Color G ''#b07d2b'')),
     Set_option style_TextError (lg_Foreground G base (lg_Color G ''#cb2431''))])"

definition Vim :: "('c, 's) lipgloss \<Rightarrow> 's styles" where
  "Vim G = (let base = lg_Background G (lg_Foreground G (lg_NewStyle G) (lg_Color G ''#cccccc'')) (lg_Color G ''#000000'') in NewStyles base
    [Set_option style_Comment (lg_Foreground G base (lg_Color G ''#000080'')),
     Set_option style_GenericDeleted (lg_Foreground G base (lg_Color G ''#cd0000'')),
     Set_option style_GenericError (lg_Foreground G base (lg_Color G ''#ff0000'')),
     Set_option style_GenericInserted (lg_Foreground G base (lg_Color G ''#00cd00'')),
     Set_option style_LiteralNumber (lg_Foreground G base (lg_Color G ''#cd00cd'')),
     Set_option style_LiteralString (lg_Foreground G base (lg_Color G ''#cd0000'')),
     Set_option style_Generic (lg_Italic G base True),
     Set_option style_NameTag (lg_Foreground G base (lg_Color G ''#cdcd00'')),
     Set_option style_Name (lg_Foreground G base (lg_Color G ''#cd00cd'')),
     Set_option style_Punctuation (lg_Foreground G base (lg_Color G ''#3399cc'')),
     Set_option style_GenericHeading (lg_Bold G (lg_Background G (lg_Foreground G (lg_NewStyle G) (lg_Color G ''#000000'')) (lg_Color G ''#cdcd00'')) True),
     Set_option style_GenericHeadingAccent (lg_Foreground G (lg_Background G base (lg_Lighten G (lg_Color G ''#000000'') 30)) (lg_Lighten G (lg_Color G ''#cccccc'') 15)),
     Set_option style_GenericHeadingSubtle (lg_Background G base (lg_Lighten G (lg_Color G ''#000000'') 15)),
     Set_option style_TextAccentDim (lg_Foreground G base (lg_Lighten G (lg_Color G ''#cdcd00'') 15)),
     Set_option style_TextAccent (lg_Foreground G base (lg_Color G ''#cdcd00'')),
     Set_option style_TextSubtleDim (lg_Foreground G base (lg_Darken G (lg_Color G ''#cccccc'') 15)),
     Set_option style_TextSubtle (lg_Foreground G base (lg_Color G ''#cccccc'')),
     Set_option style_GenericHighlightDim (lg_Background G (lg_NewStyle G) (lg_Lighten G (lg_Color G ''#000000'') 15)),
     Set_option style_GenericHighlight (lg_Background G (lg_NewStyle G) (lg_Lighten G (lg_Color G ''#000000'') 30)),
     Set_option style_GenericHeadingOK (lg_Bold G (lg_Background G (lg_Foreground G (lg_NewStyle G) (lg_Color G ''#000000'')) (lg_Color G ''#00cd00'')) True),
     Set_option style_GenericHeadingWarn (lg_Bold G (lg_Background G (lg_Foreground G (lg_NewStyle G) (lg_Color G ''#000000'')) (lg_Color G ''#cdcd00'')) True),
     Set_option style_GenericHeadingError (lg_Bold G (lg_Background G (lg_Foreground G (lg_NewStyle G) (lg_Color G ''#000000'')) (lg_Color G ''#cd0000'')) True),
     Set_option style_TextOK (lg_Foreground G base (lg_Color G ''#00cd00'')),
     Set_option style_TextWarn (lg_Foreground G base (lg_Color G ''#cdcd00'')),
     Set_option style_TextError (lg_Foreground G base (lg_Color G ''#cd0000''))])"

definition Vs :: "('c, 's) lipgloss \<Rightarrow> 's styles" where
  "Vs G = (let base = lg_Background G (lg_Foreground G (lg_NewStyle G) (lg_Color G ''#000000'')) (lg_Color G ''#ffffff'') in NewStyles base
    [Set_option style_Comment (lg_Foreground G base (lg_Color G ''#008000'')),
     Set_option style_LiteralString (lg_Foreground G base (lg_Color G ''#a31515'')),
     Set_option style_NameDecorator (lg_Foreground G base (lg_Color G ''#0000ff'')),
     Set_option style_Generic (lg_Italic G base True),
     Set_option style_NameTag (lg_Foreground G base (lg_Color G ''#0000ff'')),
     Set_option style_Name (lg_Foreground G base (lg_Color G ''#2b91af'')),
     Set_option style_Punctuation (lg_Foreground G base (lg_Color G ''#0000ff'')),
     Set_option style_GenericHeading (lg_Bold G (lg_Background G (lg_Foreground G (lg_NewStyle G) (lg_Color G ''#ffffff'')) (lg_Color G ''#0000ff'')) True),
     Set_option style_GenericHeadingAccent (lg_Foreground G (lg_Background G base (lg_Darken G (lg_Color G ''#ffffff'') 30)) (lg_Darken G (lg_Color G ''#000000'') 15)),
     Set_option style_GenericHeadingSubtle (lg_Background G base (lg_Darken G (lg_Color G ''#ffffff'') 15)),
     Set_option style_TextAccentDim (lg_Foreground G base (lg_Darken G (lg_Color G ''#0000ff'') 15)),
     Set_option style_TextAccent (lg_Foreground G base (lg_Color G ''#0000ff'')),
     Set_option style_TextSubtleDim (lg_Foreground G base (lg_Lighten G (lg_Color G ''#000000'') 15)),
     Set_option style_TextSubtle (lg_Foreground G base (lg_Color G ''#000000'')),
     Set_option style_GenericHighlightDim (lg_Background G (lg_NewStyle G) (lg_Darken G (lg_Color G ''#ffffff'') 15)),
     Set_option style_GenericHighlight (lg_Background G (lg_NewStyle G) (lg_Darken G (lg_Color G ''#ffffff'') 30)),
     Set_option style_GenericHeadingOK (lg_Bold G (lg_Background G (lg_Foreground G (lg_NewStyle G) (lg_Color G ''#ffffff'')) (lg_Color G ''#22863a'')) True),
     Set_option style_GenericHeadingWarn (lg_Bold G (lg_Background G (lg_Foreground G (lg_NewStyle G) (lg_Color G ''#ffffff'')) (lg_Color G ''#d08700'')) True),
     Set_option style_GenericHeadingError (lg_Bold G (lg_Background G (lg_Foreground G (lg_NewStyle G) (lg_Color G ''#ffffff'')) (lg_Color G ''#cb2431'')) True),
     Set_option style_TextOK (lg_Foreground G base (lg_Color G ''#22863a'')),
     Set_option style_TextWarn (lg_Foreground G base (lg_Color G ''#d08700'')),
     Set_option style_TextError (lg_Foreground G base (lg_Color G ''#cb2431''))])"

definition Vulcan :: "('c, 's) lipgloss \<Rightarrow> 's styles" where
  "Vulcan G = (let base = lg_Background G (lg_Foreground G (lg_NewStyle G) (lg_Color G ''#c9c9c9'')) (lg_Color G ''#282c34'') in NewStyles base
    [Set_option style_Comment (lg_Foreground G base (lg_Color G ''#3e4460'')),
     Set_option style_Generic (lg_Foreground G base (lg_Color G ''#c9c9c9'')),
     Set_option style_GenericDeleted (lg_Foreground G base (lg_Color G ''#cf5967'')),
     Set_option style_GenericError (lg_Bold G (lg_Foreground G base (lg_Color G ''#cf5967'')) True),
     Set_option style_GenericInserted (lg_Foreground G base (lg_Color G ''#ecbe7b'')),
     Set_option style_LiteralNumber (lg_Foreground G base (lg_Color G ''#56b6c2'')),
     Set_option style_LiteralNumberBin (lg_Foreground G base (lg_Color G ''#57c7ff'')),
     Set_option style_LiteralNumberFloat (lg_Foreground G base (lg_Color G ''#56b6c2'')),
     Set_option style_LiteralNumberHex (lg_Foreground G base (lg_Color G ''#57c7ff'')),
     Set_option style_LiteralNumberInteger (lg_Foreground G base (lg_Color G ''#56b6c2'')),
     Set_option style_LiteralNumberOct (lg_Foreground G base (lg_Color G ''#57c7ff'')),
     Set_option style_LiteralString (lg_Foreground G base (lg_Color G ''#82cc6a'')),
     Set_option style_LiteralStringDouble (lg_Foreground G base (lg_Color G ''#82cc6a'')),
     Set_option style_LiteralStringSingle (lg_Foreground G base (lg_Color G ''#82cc6a'')),
     Set_option style_Name (lg_Foreground G base (lg_Color G ''#c9c9c9'')),
     Set_option style_NameDecorator (lg_Foreground G base (lg_Color G ''#ecbe7b'')),
     Set_option style_NameTag (lg_Foreground G base (lg_Color G ''#bc74c4'')),
     Set_option style_Punctuation (lg_Foreground G base (lg_Color G ''#56b6c2'')),
     Set_option style_LiteralBoolean (lg_Background G (lg_Foreground G base (lg_Color G ''#cf5967'')) (lg_Color G ''#43454f'')),
     Set_option style_PunctuationHeading (lg_Foreground G base (lg_Color G ''#c9c9c9'')),
     Set_option style_GenericHeading (lg_Bold G (lg_Background G (lg_Foreground G (lg_NewStyle G) (lg_Color G ''#282c34'')) (lg_Color G ''#bc74c4'')) True),
     Set_option style_GenericHeadingAccent (lg_Foreground G (lg_Background G base (lg_Lighten G (lg_Color G ''#282c34'') 30)) (lg_Lighten G (lg_Color G ''#c9c9c9'') 15)),
     Set_option style_GenericHeadingSubtle (lg_Background G base (lg_Lighten G (lg_Color G ''#282c34'') 15)),
     Set_option style_TextAccentDim (lg_Foreground G base (lg_Lighten G (lg_Color G ''#bc74c4'') 15)),
     Set_option style_TextAccent (lg_Foreground G base (lg_Color G ''#bc74c4'')),
     Set_option style_TextSubtleDim (lg_Foreground G base (lg_Darken G (lg_Color G ''#c9c9c9'') 15)),
     Set_option style_TextSubtle (lg_Foreground G base (lg_Color G ''#c9c9c9'')),
     Set_option style_GenericHighlightDim (lg_Background G (lg_NewStyle G) (lg_Lighten G (lg_Color G ''#282c34'') 15)),
     Set_option style_GenericHighlight (lg_Background G (lg_NewStyle G) (lg_Lighten G (lg_Color G ''#282c34'') 30)),
     Set_option style_GenericHeadingOK (lg_Bold G (lg_Background G (lg_Foreground G (lg_NewStyle G) (lg_Color G ''#282c34'')) (lg_Color G ''#ecbe7b'')) True),
     Set_option style_GenericHeadingWarn (lg_Bold G (lg_Background G (lg_Foreground G (lg_NewStyle G) (lg_Color G ''#282c34'')) (lg_Color G ''#ffb86c'')) True),
     Set_option style_GenericHeadingError (lg_Bold G (lg_Background G (lg_Foreground G (lg_NewStyle G) (lg_Color G ''#282c34'')) (lg_Color G ''#cf5967'')) True),
     Set_option style_TextOK (lg_Foreground G base (lg_Color G ''#ecbe7b'')),
     Set_option style_TextWarn (lg_Foreground G base (lg_Color G ''#ffb86c'')),
     Set_option style_TextError (lg_Foreground G base (lg_Color G ''#cf5967''))])"

definition Witchhazel :: "('c, 's) lipgloss \<Rightarrow> 's styles" where
  "Witchhazel G = (let base = lg_Background G (lg_Foreground G (lg_NewStyle G) (lg_Color G ''#f8f8f2'')) (lg_Color G ''#433e56'') in NewStyles base
    [Set_option style_Comment (lg_Foreground G base (lg_Color G ''#b0bec5'')),
     Set_option style_GenericDeleted (lg_Foreground G base (lg_Color G ''#f92672'')),
     Set_option style_GenericInserted (lg_Foreground G base (lg_Color G ''#a6e22e'')),
     Set_option style_LiteralNumber (lg_Foreground G base (lg_Color G ''#c5a3ff'')),
     Set_option style_LiteralString (lg_Foreground G base (lg_Color G ''#1bc5e0'')),
     Set_option style_Name (lg_Foreground G base (lg_Color G ''#f8f8f2'')),
     Set_option style_NameDecorator (lg_Foreground G base (lg_Color G ''#ceb1ff'')),
     Set_option style_NameTag (lg_Foreground G base (lg_Color G ''#ffb8d1'')),
     Set_option style_Punctuation (lg_Foreground G base (lg_Color G ''#f8f8f2'')),
     Set_option style_GenericError (lg_Background G (lg_Foreground G base (lg_Color G ''#960050'')) (lg_Color G ''#1e0010'')),
     Set_option style_Generic (lg_Italic G base True),
     Set_option style_GenericHeading (lg_Bold G (lg_Background G (lg_Foreground G (lg_NewStyle G) (lg_Color G ''#433e56'')) (lg_Color G ''#ffb8d1'')) True),
     Set_option style_GenericHeadingAccent (lg_Foreground G (lg_Background G base (lg_Lighten G (lg_Color G ''#433e56'') 30)) (lg_Lighten G (lg_Color G ''#f8f8f2'') 15)),
     Set_option style_GenericHeadingSubtle (lg_Background G base (lg_Lighten G (lg_Color G ''#433e56'') 15)),
     Set_option style_TextAccentDim (lg_Foreground G base (lg_Lighten G (lg_Color G ''#ffb8d1'') 15)),
     Set_option style_TextAccent (lg_Foreground G base (lg_Color G ''#ffb8d1'')),
     Set_option style_TextSubtleDim (lg_Foreground G base (lg_Darken G (lg_Color G ''#f8f8f2'') 15)),
     Set_option style_TextSubtle (lg_Foreground G base (lg_Color G ''#f8f8f2'')),
     Set_option style_GenericHighlightDim (lg_Background G (lg_NewStyle G) (lg_Lighten G (lg_Color G ''#433e56'') 15)),
     Set_option style_GenericHighlight (lg_Background G (lg_NewStyle G) (lg_Lighten G (lg_Color G ''#433e56'') 30)),
     Set_option style_GenericHeadingOK (lg_Bold G (lg_Background G (lg_Foreground G (lg_NewStyle G) (lg_Color G ''#433e56'')) (lg_Color G ''#a6e22e'')) True),
     Set_option style_GenericHeadingWarn (lg_Bold G (lg_Background G (lg_Foreground G (lg_NewStyle G) (lg_Color G ''#433e56'')) (lg_Color G ''#fff352'')) True),
     Set_option style_GenericHeadingError (lg_Bold G (lg_Background G (lg_Foreground G (lg_NewStyle G) (lg_Color G ''#433e56'')) (lg_Color G ''#f92672'')) True),
     Set_option style_TextOK (lg_Foreground G base (lg_Color G ''#a6e22e'')),
     Set_option style_TextWarn (lg_Foreground G base (lg_Color G ''#fff352'')),
     Set_option style_TextError (lg_Foreground G base (lg_Color G ''#f92672''))])"

definition Xcode :: "('c, 's) lipgloss \<Rightarrow> 's styles" where
  "Xcode G = (let base = lg_Background G (lg_Foreground G (lg_NewStyle G) (lg_Color G ''#000000'')) (lg_Color G ''#ffffff'') in NewStyles base
    [Set_option style_Comment (lg_Foreground G base (lg_Color G ''#177500'')),
     Set_option style_LiteralNumber (lg_Foreground G base (lg_Color G ''#1c01ce'')),
     Set_option style_LiteralString (lg_Foreground G base (lg_Color G ''#c41a16'')),
     Set_option style_Name (lg_Foreground G base (lg_Color G ''#000000'')),
     Set_option style_NameDecorator (lg_Foreground G base (lg_Color G ''#000000'')),
     Set_option style_NameTag (lg_Foreground G base (lg_Color G ''#000000'')),
     Set_option style_GenericError (lg_Foreground G base (lg_Color G ''#000000'')),
     Set_option style_Punctuation (lg_Foreground G base (lg_Color G ''#000000'')),
     Set_option style_GenericHeading (lg_Bold G (lg_Background G (lg_Foreground G (lg_NewStyle G) (lg_Color G ''#ffffff'')) (lg_Color G ''#000000'')) True),
     Set_option style_GenericHeadingAccent (lg_Foreground G (lg_Background G base (lg_Darken G (lg_Color G ''#ffffff'') 30)) (lg_Darken G (lg_Color G ''#000000'') 15)),
     Set_option style_GenericHeadingSubtle (lg_Background G base (lg_Darken G (lg_Color G ''#ffffff'') 15)),
     Set_option style_TextAccentDim (lg_Foreground G base (lg_Darken G (lg_Color G ''#000000'') 15)),
     Set_option style_TextAccent (lg_Foreground G base (lg_Color G ''#000000'')),
     Set_option style_TextSubtleDim (lg_Foreground G base (lg_Lighten G (lg_Color G ''#000000'') 15)),
     Set_option style_TextSubtle (lg_Foreground G base (lg_Color G ''#000000'')),
     Set_option style_GenericHighlightDim (lg_Background G (lg_NewStyle G) (lg_Darken G (lg_Color G ''#ffffff'') 15)),
     Set_option style_GenericHighlight (lg_Background G (lg_NewStyle G) (lg_Darken G (lg_Color G ''#ffffff'') 30)),
     Set_option style_GenericHeadingOK (lg_Bold G (lg_Background G (lg_Foreground G (lg_NewStyle G) (lg_Color G ''#ffffff'')) (lg_Color G ''#22863a'')) True),
     Set_option style_GenericHeadingWarn (lg_Bold G (lg_Background G (lg_Foreground G (lg_NewStyle G) (lg_Color G ''#ffffff'')) (lg_Color G ''#d08700'')) True),
     Set_option style_GenericHeadingError (lg_Bold G (lg_Background G (lg_Foreground G (lg_NewStyle G) (lg_Color G ''#ffffff'')) (lg_Color G ''#cb2431'')) True),
     Set_option style_TextOK (lg_Foreground G base (lg_Color G ''#22863a'')),
     Set_option style_TextWarn (lg_Foreground G base (lg_Color G ''#d08700'')),
     Set_option style_TextError (lg_Foreground G base (lg_Color G ''#cb2431''))])"

definition XcodeDark :: "('c, 's) lipgloss \<Rightarrow> 's styles" where
  "XcodeDark G = (let base = lg_Background G (lg_Foreground G (lg_NewStyle G) (lg_Color G ''#ffffff'')) (lg_Color G ''#1f1f24'') in NewStyles base
    [Set_option style_Comment (lg_Foreground G base (lg_Color G ''#6c7986'')),
     Set_option style_LiteralNumber (lg_Foreground G base (lg_Color G ''#d0bf69'')),
     Set_option style_LiteralNumberBin (lg_Foreground G base (lg_Color G ''#d0bf69'')),
     Set_option style_LiteralNumberFloat (lg_Foreground G base (lg_Color G ''#d0bf69'')),
     Set_option style_LiteralNumberHex (lg_Foreground G base (lg_Color G ''#d0bf69'')),
     Set_option style_LiteralNumberInteger (lg_Foreground G base (lg_Color G ''#d0bf69'')),
     Set_option style_LiteralNumberOct (lg_Foreground G base (lg_Color G ''#d0bf69'')),
     Set_option style_LiteralString (lg_Foreground G base (lg_Color G ''#fc6a5d'')),
     Set_option style_Name (lg_Foreground G base (lg_Color G ''#ffffff'')),
     Set_option style_Punctuation (lg_Foreground G base (lg_Color G ''#ffffff'')),
     Set_option style_NameDecorator (lg_Foreground G base (lg_Color G ''#fd8f3f'')),
     Set_option style_GenericError (lg_Foreground G base (lg_Color G ''#960050'')),
     Set_option style_NameTag (lg_Foreground G base (lg_Color G ''#fc5fa3'')),
     Set_option style_LiteralBoolean (lg_Foreground G base (lg_Color G ''#fc5fa3'')),
     Set_option style_GenericHeading (lg_Bold G (lg_Background G (lg_Foreground G (lg_NewStyle G) (lg_Color G ''#1f1f24'')) (lg_Color G ''#fc5fa3'')) True),
     Set_option style_GenericHeadingAccent (lg_Foreground G (lg_Background G base (lg_Lighten G (lg_Color G ''#1f1f24'') 30)) (lg_Lighten G (lg_Color G ''#ffffff'') 15)),
     Set_option style_GenericHeadingSubtle (lg_Background G base (lg_Lighten G (lg_Color G ''#1f1f24'') 15)),
     Set_option style_TextAccentDim (lg_Foreground G base (lg_Lighten G (lg_Color G ''#fc5fa3'') 15)),
     Set_option style_TextAccent (lg_Foreground G base (lg_Color G ''#fc5fa3'')),
     Set_option style_TextSubtleDim (lg_Foreground G base (lg_Darken G (lg_Color G ''#ffffff'') 15)),
     Set_option style_TextSubtle (lg_Foreground G base (lg_Color G ''#ffffff'')),
     Set_option style_GenericHighlightDim (lg_Background G (lg_NewStyle G) (lg_Lighten G (lg_Color G ''#1f1f24'') 15)),
     Set_option style_GenericHighlight (lg_Background G (lg_NewStyle G) (lg_Lighten G (lg_Color G ''#1f1f24'') 30)),
     Set_option style_GenericHeadingOK (lg_Bold G (lg_Background G (lg_Foreground G (lg_NewStyle G) (lg_Color G ''#1f1f24'')) (lg_Color G ''#4eb400'')) True),
     Set_option style_GenericHeadingWarn (lg_Bold G (lg_Background G (lg_Foreground G (lg_NewStyle G) (lg_Color G ''#1f1f24'')) (lg_Color G ''#d0a946'')) True),
     Set_option style_GenericHeadingError (lg_Bold G (lg_Background G (lg_Foreground G (lg_NewStyle G) (lg_Color G ''#1f1f24'')) (lg_Color G ''#ff0000'')) True),
     Set_option style_TextOK (lg_Foreground G base (lg_Color G ''#4eb400'')),
     Set_option style_TextWarn (lg_Foreground G base (lg_Color G ''#d0a946'')),
     Set_option style_TextError (lg_Foreground G base (lg_Color G ''#ff0000''))])"

text \<open>Every theme here is a call of \<open>NewStyles\<close>.\<close>

lemmas themes_4_defs = Rrt_def
  SolarizedDark_def
  SolarizedDark256_def
  SolarizedLight_def
  Swapoff_def
  Tango_def
  TokyonightDay_def
  TokyonightMoon_def
  TokyonightNight_def
  TokyonightStorm_def
  Trac_def
  Vim_def
  Vs_def
  Vulcan_def
  Witchhazel_def
  Xcode_def
  XcodeDark_def

end
