(* ===== verification/Themes.thy ===== *)
theory Themes
  imports Themes_1 Themes_2 Themes_3 Themes_4
begin

text \<open>
  Package \<open>style/theme\<close>, the registry of themes (\<open>theme.go\<close>): the table of the built-in themes, the map of
  the registered ones, \<open>Register\<close>, \<open>List\<close> and \<open>Styles\<close>. The lock around the map is left out: the calls are
  sequential. A Go map is read in no particular order, so \<open>List_themes\<close> gets the order of the keys as an
  argument. A theme's function is a value or \<open>None\<close>, the nil function, whose call panics.
\<close>

section \<open>Themes\<close>

datatype mode = Light | Dark

record 's theme =
  th_Styles :: "(unit \<Rightarrow> 's styles) option"
  th_Name :: string
  th_Mode :: mode

abbreviation builtin_theme :: "'s styles \<Rightarrow> string \<Rightarrow> mode \<Rightarrow> 's theme" where
  "builtin_theme f n m \<equiv> \<lparr>th_Styles = Some (\<lambda>_. f), th_Name = n, th_Mode = m\<rparr>"

definition themes :: "('c, 's) lipgloss \<Rightarrow> 's theme list" where
  "themes G =
    [builtin_theme (Abap G) ''abap'' Light,
     builtin_theme (Algol G) ''algol'' Light,
     builtin_theme (AlgolNu G) ''algol-nu'' Light,
     builtin_theme (Arduino G) ''arduino'' Light,
     builtin_theme (Ashen G) ''ashen'' Dark,
     builtin_theme (AuraThemeDark G) ''aura-theme-dark'' Dark,
     builtin_theme (AuraThemeDarkSoft G) ''aura-theme-dark-soft'' Dark,
     builtin_theme (Autumn G) ''autumn'' Light,
     builtin_theme (Average G) ''average'' Dark,
     builtin_theme (Base16Snazzy G) ''base16-snazzy'' Dark,
     builtin_theme (Borland G) ''borland'' Light,
     builtin_theme (Bw G) ''bw'' Light,
     builtin_theme (CatppuccinFrappe G) ''catppuccin-frappe'' Dark,
     builtin_theme (CatppuccinLatte G) ''catppuccin-latte'' Light,
     builtin_theme (CatppuccinMacchiato G) ''catppuccin-macchiato'' Dark,
     builtin_theme (CatppuccinMocha G) ''catppuccin-mocha'' Dark,
     builtin_theme (Charm G) ''charm'' Dark,
     builtin_theme (Colorful G) ''colorful'' Light,
     builtin_theme (DoomOne G) ''doom-one'' Dark,
     builtin_theme (DoomOne2 G) ''doom-one2'' Dark,
     builtin_theme (Dracula G) ''dracula'' Dark,
     builtin_theme (Emacs G) ''emacs'' Light,
     builtin_theme (Evergarden G) ''evergarden'' Dark,
     builtin_theme (Friendly G) ''friendly'' Light,
     builtin_theme (Fruity G) ''fruity'' Dark,
     builtin_theme (Github G) ''github'' Light,
     builtin_theme (GithubDark G) ''github-dark'' Dark,
     builtin_theme (Gruvbox G) ''gruvbox'' Dark,
     builtin_theme (GruvboxLight G) ''gruvbox-light'' Light,
     builtin_theme (HrHighContrast G) ''hr-high-contrast'' Dark,
     builtin_theme (Hrdark G) ''hrdark'' Dark,
     builtin_theme (Igor G) ''igor'' Light,
     builtin_theme (KanagawaDragon G) ''kanagawa-dragon'' Dark,
     builtin_theme (KanagawaLotus G) ''kanagawa-lotus'' Light,
     builtin_theme (KanagawaWave G) ''kanagawa-wave'' Dark,
     builtin_theme (Lovelace G) ''lovelace'' Light,
     builtin_theme (Manni G) ''manni'' Light,
     builtin_theme (ModusOperandi G) ''modus-operandi'' Light,
     builtin_theme (ModusVivendi G) ''modus-vivendi'' Dark,
     builtin_theme (Monokai G) ''monokai'' Dark,
     builtin_theme (Monokailight G) ''monokailight'' Light,
     builtin_theme (Murphy G) ''murphy'' Light,
     builtin_theme (Native G) ''native'' Dark,
     builtin_theme (Nord G) ''nord'' Dark,
     builtin_theme (Nordic G) ''nordic'' Dark,
     builtin_theme (Onedark G) ''onedark'' Dark,
     builtin_theme (Onesenterprise G) ''onesenterprise'' Light,
     builtin_theme (ParaisoDark G) ''paraiso-dark'' Dark,
     builtin_theme (ParaisoLight G) ''paraiso-light'' Light,
     builtin_theme (Pastie G) ''pastie'' Light,
     builtin_theme (Perldoc G) ''perldoc'' Light,
     builtin_theme (Pygments G) ''pygments'' Light,
     builtin_theme (RainbowDash G) ''rainbow-dash'' Light,
     builtin_theme (RosePine G) ''rose-pine'' Dark,
     builtin_theme (RosePineDawn G) ''rose-pine-dawn'' Light,
     builtin_theme (RosePineMoon G) ''rose-pine-moon'' Dark,
     builtin_theme (Rpgle G) ''rpgle'' Light,
     builtin_theme (Rrt G) ''rrt'' Dark,
     builtin_theme (SolarizedDark G) ''solarized-dark'' Dark,
     builtin_theme (SolarizedDark256 G) ''solarized-dark256'' Dark,
     builtin_theme (SolarizedLight G) ''solarized-light'' Light,
     builtin_theme (Swapoff G) ''swapoff'' Dark,
     builtin_theme (Tango G) ''tango'' Light,
     builtin_theme (TokyonightDay G) ''tokyonight-day'' Light,
     builtin_theme (TokyonightMoon G) ''tokyonight-moon'' Dark,
     builtin_theme (TokyonightNight G) ''tokyonight-night'' Dark,
     builtin_theme (TokyonightStorm G) ''tokyonight-storm'' Dark,
     builtin_theme (Trac G) ''trac'' Light,
     builtin_theme (Vim G) ''vim'' Dark,
     builtin_theme (Vs G) ''vs'' Light,
     builtin_theme (Vulcan G) ''vulcan'' Dark,
     builtin_theme (Witchhazel G) ''witchhazel'' Dark,
     builtin_theme (Xcode G) ''xcode'' Light,
     builtin_theme (XcodeDark G) ''xcode-dark'' Dark]"

text \<open>The custom themes, by name.\<close>

type_synonym 's customThemes = "string \<rightharpoonup> 's theme"

definition Register_theme :: "string \<Rightarrow> (unit \<Rightarrow> 's styles) option \<Rightarrow> mode \<Rightarrow> 's customThemes \<Rightarrow> 's customThemes" where
  "Register_theme name fn mode customThemes = customThemes(name \<mapsto> \<lparr>th_Styles = fn, th_Name = name, th_Mode = mode\<rparr>)"

definition List_themes :: "('c, 's) lipgloss \<Rightarrow> 's customThemes \<Rightarrow> string list \<Rightarrow> mode \<Rightarrow> string list" where
  "List_themes G customThemes keys m =
     map th_Name (filter (\<lambda>t. th_Mode t = m) (themes G)) @
     map th_Name (filter (\<lambda>t. th_Mode t = m) (map (the \<circ> customThemes) keys))"

text \<open>The result of \<open>Styles\<close> is \<open>None\<close> when the theme's function is nil and its call panics.\<close>

definition Styles_theme :: "('c, 's) lipgloss \<Rightarrow> 's customThemes \<Rightarrow> string \<Rightarrow> ('s styles \<times> bool) option" where
  "Styles_theme G customThemes name =
     (let call = (\<lambda>t. map_option (\<lambda>f. (f (), True)) (th_Styles t)) in
      case customThemes name of
        Some t \<Rightarrow> call t
      | None \<Rightarrow> (case List.find (\<lambda>t. th_Name t = name) (themes G) of
                   Some t \<Rightarrow> call t
                 | None \<Rightarrow> Some (Map.empty, False)))"

section \<open>Facts\<close>

text \<open>An option that only sets predefined categories leaves every other key alone.\<close>

definition sets_predefined :: "('s styles \<Rightarrow> 's styles) \<Rightarrow> bool" where
  "sets_predefined opt \<longleftrightarrow> (\<forall>m st. st \<notin> set predefined_styles \<longrightarrow> opt m st = m st)"

lemma sets_predefined_members:
  "list_all (\<lambda>c. sets_predefined (Set_option c s)) predefined_styles"
  by (auto simp: list_all_iff sets_predefined_def Set_option_def)

lemmas sets_predefined_options [simp] =
  sets_predefined_members [unfolded predefined_styles_def list.pred_inject]

lemma sets_predefined_foldl:
  "list_all sets_predefined opts \<Longrightarrow> st \<notin> set predefined_styles \<Longrightarrow> foldl (\<lambda>m opt. opt m) m opts st = m st"
  by (induction opts arbitrary: m) (auto simp: sets_predefined_def)

lemma style_Text_predefined: "style_Text \<in> set predefined_styles"
  by (simp add: predefined_styles_def)

lemma predefined_has_parent: "c \<in> set predefined_styles \<longleftrightarrow> c = style_Text \<or> styleParent c \<noteq> None"
proof
  have "list_all (\<lambda>c. c = style_Text \<or> styleParent c \<noteq> None) predefined_styles"
    by code_simp
  then show "c \<in> set predefined_styles \<Longrightarrow> c = style_Text \<or> styleParent c \<noteq> None"
    unfolding list_all_iff by blast
  show "c = style_Text \<or> styleParent c \<noteq> None \<Longrightarrow> c \<in> set predefined_styles"
    using styleParent_predefined [of c] style_Text_predefined by blast
qed

text \<open>A style set made of such options is total on the categories and has no other key.\<close>

lemma NewStyles_dom:
  assumes "list_all sets_predefined opts"
  shows "dom (NewStyles base opts) = set predefined_styles"
proof (rule set_eqI)
  fix c
  show "c \<in> dom (NewStyles base opts) \<longleftrightarrow> c \<in> set predefined_styles"
  proof (cases "c = style_Text \<or> styleParent c \<noteq> None")
    case True
    then show ?thesis using predefined_has_parent [of c] by (auto simp: NewStyles_predefined domIff)
  next
    case False
    then show ?thesis using predefined_has_parent [of c] sets_predefined_foldl [OF assms, of c]
      by (auto simp: NewStyles_custom domIff)
  qed
qed

text \<open>An option that does not set \<open>Text\<close>; under such options \<open>Text\<close> is the base style.\<close>

definition keeps_text :: "('s styles \<Rightarrow> 's styles) \<Rightarrow> bool" where
  "keeps_text opt \<longleftrightarrow> (\<forall>m. opt m style_Text = m style_Text)"

lemma keeps_text_members:
  "list_all (\<lambda>c. keeps_text (Set_option c s)) (tl predefined_styles)"
proof -
  have "list_all (\<lambda>c. c \<noteq> style_Text) (tl predefined_styles)"
    by code_simp
  then show ?thesis
    unfolding list_all_iff keeps_text_def Set_option_def by (metis fun_upd_other)
qed

lemmas keeps_text_options =
  keeps_text_members [unfolded predefined_styles_def list.sel list.pred_inject]

lemma keeps_text_foldl:
  "list_all keeps_text opts \<Longrightarrow> foldl (\<lambda>m opt. opt m) m opts style_Text = m style_Text"
  by (induction opts arbitrary: m) (auto simp: keeps_text_def)

lemma NewStyles_text: "list_all keeps_text opts \<Longrightarrow> NewStyles base opts style_Text = Some base"
  by (subst NewStyles_predefined) (auto simp: resolve.simps keeps_text_foldl)

text \<open>A theme whose function gives a style to every category and to nothing else.\<close>

definition theme_complete :: "'s theme \<Rightarrow> bool" where
  "theme_complete t \<longleftrightarrow> (case th_Styles t of None \<Rightarrow> False | Some f \<Rightarrow> dom (f ()) = set predefined_styles)"

lemma theme_complete_builtin [simp]:
  "theme_complete (builtin_theme f n m) \<longleftrightarrow> dom f = set predefined_styles"
  by (simp add: theme_complete_def)

lemma themes_complete: "list_all theme_complete (themes G)"
  unfolding themes_def themes_1_defs themes_2_defs themes_3_defs themes_4_defs Let_def
  by (simp only: list.pred_inject sets_predefined_options simp_thms NewStyles_dom theme_complete_builtin)

text \<open>The brightness of a colour written \<open>#rrggbb\<close>, in thousandths.\<close>

definition hex_digit :: "char \<Rightarrow> nat" where
  "hex_digit c = (let n = of_char c :: nat in if n < 58 then n - 48 else if n < 71 then n - 55 else n - 87)"

fun luminance :: "string \<Rightarrow> nat option" where
  "luminance [h, r1, r2, g1, g2, b1, b2] =
     Some (299 * (16 * hex_digit r1 + hex_digit r2) + 587 * (16 * hex_digit g1 + hex_digit g2) + 114 * (16 * hex_digit b1 + hex_digit b2))"
| "luminance _ = None"

text \<open>Whether the background of a style is darker than its text, when both are set to such a colour.\<close>

definition dark_background :: "call_style \<Rightarrow> bool option" where
  "dark_background s =
     (case (cs_foreground s, cs_background s) of
        (Some (Hex f), Some (Hex b)) \<Rightarrow>
          (case (luminance f, luminance b) of (Some x, Some y) \<Rightarrow> Some (y < x) | _ \<Rightarrow> None)
      | _ \<Rightarrow> None)"

definition theme_dark :: "call_style theme \<Rightarrow> bool option" where
  "theme_dark t =
     (case th_Styles t of None \<Rightarrow> None
      | Some f \<Rightarrow> (case f () style_Text of None \<Rightarrow> None | Some s \<Rightarrow> dark_background s))"

lemma theme_dark_builtin:
  "theme_dark (builtin_theme f n m) = (case f style_Text of None \<Rightarrow> None | Some s \<Rightarrow> dark_background s)"
  by (simp add: theme_dark_def)

lemma hex_digit_values:
  "hex_digit CHR ''0'' = 0"
  "hex_digit CHR ''1'' = 1"
  "hex_digit CHR ''2'' = 2"
  "hex_digit CHR ''3'' = 3"
  "hex_digit CHR ''4'' = 4"
  "hex_digit CHR ''5'' = 5"
  "hex_digit CHR ''6'' = 6"
  "hex_digit CHR ''7'' = 7"
  "hex_digit CHR ''8'' = 8"
  "hex_digit CHR ''9'' = 9"
  "hex_digit CHR ''a'' = 10"
  "hex_digit CHR ''b'' = 11"
  "hex_digit CHR ''c'' = 12"
  "hex_digit CHR ''d'' = 13"
  "hex_digit CHR ''e'' = 14"
  "hex_digit CHR ''f'' = 15"
  "hex_digit CHR ''A'' = 10"
  "hex_digit CHR ''B'' = 11"
  "hex_digit CHR ''C'' = 12"
  "hex_digit CHR ''D'' = 13"
  "hex_digit CHR ''E'' = 14"
  "hex_digit CHR ''F'' = 15"
  by (simp_all add: hex_digit_def)

lemma dark_background_recording:
  "dark_background (lg_Background recording (lg_Foreground recording (lg_NewStyle recording) (lg_Color recording f)) (lg_Color recording b)) =
     (case luminance f of None \<Rightarrow> None | Some x \<Rightarrow> (case luminance b of None \<Rightarrow> None | Some y \<Rightarrow> Some (y < x)))"
  by (simp add: dark_background_def recording_def split: option.split)

lemmas theme_modes_simps =
  list.pred_inject keeps_text_options simp_thms NewStyles_text theme_dark_builtin option.case theme.simps
  dark_background_recording luminance.simps hex_digit_values

text \<open>Three themes have no such pair: one uses charmtone colours, one has no background, one neither colour.\<close>

lemma theme_modes_right:
  "list_all (\<lambda>t. theme_dark t = (if th_Name t \<in> {''charm'', ''onesenterprise'', ''pygments''} then None
     else Some (th_Mode t = Dark))) (themes recording)"
  unfolding themes_def themes_1_defs themes_2_defs themes_3_defs themes_4_defs Let_def
  by (simp only: theme_modes_simps) (simp add: dark_background_def recording_def)

text \<open>The names are apart.\<close>

lemma theme_names_distinct: "distinct (map th_Name (themes G))"
  unfolding themes_def by simp

section \<open>What the registry gives\<close>

text \<open>The map after a sequence of registrations.\<close>

definition register_all :: "(string \<times> (unit \<Rightarrow> 's styles) option \<times> mode) list \<Rightarrow> 's customThemes" where
  "register_all regs = foldl (\<lambda>C (name, fn, mode). Register_theme name fn mode C) Map.empty regs"

lemma register_all_snoc [simp]:
  "register_all (regs @ [(n, f, m)]) = Register_theme n f m (register_all regs)"
  by (simp add: register_all_def)

lemma register_all_lookup:
  "register_all regs name =
     map_option (\<lambda>(f, m). \<lparr>th_Styles = f, th_Name = name, th_Mode = m\<rparr>) (map_of (rev regs) name)"
proof (induction regs rule: rev_induct)
  case Nil
  then show ?case by (simp add: register_all_def)
next
  case (snoc r regs)
  then show ?case by (cases r) (simp add: Register_theme_def)
qed

lemma find_theme_name:
  "distinct (map th_Name ts) \<Longrightarrow> t \<in> set ts \<Longrightarrow> List.find (\<lambda>t'. th_Name t' = th_Name t) ts = Some t"
  by (induction ts) (auto split: if_splits)

lemma find_theme_None: "List.find (\<lambda>t. th_Name t = name) ts = None \<longleftrightarrow> name \<notin> th_Name ` set ts"
  by (auto simp: find_None_iff)

lemma builtin_Some: "t \<in> set (themes G) \<Longrightarrow> th_Styles t \<noteq> None"
  using themes_complete [of G] by (auto simp: list_all_iff theme_complete_def split: option.splits)

lemma set_List_themes:
  assumes "set keys = dom (register_all regs)"
  shows "set (List_themes G (register_all regs) keys m) =
     {th_Name t |t. t \<in> set (themes G) \<and> th_Mode t = m} \<union> {n. \<exists>f. map_of (rev regs) n = Some (f, m)}"
proof -
  have *: "n \<in> th_Name ` {t \<in> (the \<circ> register_all regs) ` set keys. th_Mode t = m} \<longleftrightarrow> (\<exists>f. map_of (rev regs) n = Some (f, m))" for n
    unfolding assms by (force simp: register_all_lookup image_iff domIff)
  show ?thesis
    unfolding List_themes_def set_append set_map set_filter using * by auto
qed

lemma Styles_theme_found:
  "(\<exists>s. Styles_theme G (register_all regs) name = Some (s, False)) \<longleftrightarrow>
     name \<notin> th_Name ` set (themes G) \<and> map_of (rev regs) name = None"
  using find_theme_None [of name "themes G"] find_theme_name [OF theme_names_distinct, of _ G]
  by (auto simp: Styles_theme_def register_all_lookup Let_def split: option.splits)


text \<open>
  C33: after any registrations, \<open>Styles\<close> calls the function registered last under the name, or else that of the
  built-in theme of the name, and \<open>List\<close> returns the names of the built-in themes of the mode and of the custom
  themes registered last with it, in whatever order the map is read; so \<open>Styles\<close> finds exactly the names that
  \<open>List\<close> returns for one of the modes. A built-in theme that was replaced stays listed under its old mode.
\<close>

theorem theme_registry_exact:
  assumes "set keys = dom (register_all regs)"
  shows "(\<forall>name f m. map_of (rev regs) name = Some (f, m) \<longrightarrow>
       Styles_theme G (register_all regs) name = map_option (\<lambda>f. (f (), True)) f)
   \<and> (\<forall>t \<in> set (themes G). map_of (rev regs) (th_Name t) = None \<longrightarrow>
       Styles_theme G (register_all regs) (th_Name t) = map_option (\<lambda>f. (f (), True)) (th_Styles t))
   \<and> (\<forall>m. set (List_themes G (register_all regs) keys m) =
       {th_Name t |t. t \<in> set (themes G) \<and> th_Mode t = m} \<union> {n. \<exists>f. map_of (rev regs) n = Some (f, m)})
   \<and> (\<forall>name. (\<exists>m. name \<in> set (List_themes G (register_all regs) keys m)) \<longleftrightarrow>
       (\<forall>s. Styles_theme G (register_all regs) name \<noteq> Some (s, False)))"
proof (intro conjI allI ballI impI)
  show "Styles_theme G (register_all regs) name = map_option (\<lambda>f. (f (), True)) f"
    if "map_of (rev regs) name = Some (f, m)" for name f m
    using that by (simp add: Styles_theme_def register_all_lookup)
  show "Styles_theme G (register_all regs) (th_Name t) = map_option (\<lambda>f. (f (), True)) (th_Styles t)"
    if "t \<in> set (themes G)" "map_of (rev regs) (th_Name t) = None" for t
    using that find_theme_name [OF theme_names_distinct that(1)]
    by (simp add: Styles_theme_def register_all_lookup)
  show "set (List_themes G (register_all regs) keys m) =
       {th_Name t |t. t \<in> set (themes G) \<and> th_Mode t = m} \<union> {n. \<exists>f. map_of (rev regs) n = Some (f, m)}" for m
    by (rule set_List_themes [OF assms])
  show "(\<exists>m. name \<in> set (List_themes G (register_all regs) keys m)) \<longleftrightarrow>
       (\<forall>s. Styles_theme G (register_all regs) name \<noteq> Some (s, False))" for name
    using Styles_theme_found [of G regs name] by (auto simp: set_List_themes [OF assms] image_iff)
qed

theorem theme_registry_exact_witness:
  "set (List_themes recording (register_all [(''vim'', None, Light)]) [''vim''] Dark) \<supseteq> {''vim'', ''nord''}
   \<and> Styles_theme recording (register_all [(''vim'', None, Light)]) ''vim'' = None"
proof -
  have keys: "set [''vim''] = dom (register_all [(''vim'', None, Light)] :: call_style customThemes)"
    by (simp add: register_all_def Register_theme_def)
  note * = theme_registry_exact [OF keys, of recording]
  have listed: "th_Name t \<in> set (List_themes recording (register_all [(''vim'', None, Light)]) [''vim''] Dark)"
    if "t \<in> set (themes recording)" "th_Mode t = Dark" for t
    using * [THEN conjunct2, THEN conjunct2, THEN conjunct1, THEN spec, of Dark] that by blast
  have "builtin_theme (Vim recording) ''vim'' Dark \<in> set (themes recording)"
    "builtin_theme (Nord recording) ''nord'' Dark \<in> set (themes recording)"
    unfolding themes_def by (simp_all only: list.set insert_iff simp_thms)
  from this [THEN listed] show ?thesis
    using * [THEN conjunct1, THEN spec, THEN spec, THEN spec, of "''vim''" None Light]
    by (simp only: theme.simps rev.simps append.simps map_of.simps option.map fst_conv snd_conv fun_upd_same simp_thms
        insert_subset empty_subsetI)
qed

end
