(* ===== verification/Style_Strings.thy ===== *)
theory Style_Strings
  imports Go_Strings Lipgloss
begin

text \<open>
  Package \<open>style\<close>, style strings (\<open>strings.go\<close>): \<open>Parse\<close>, \<open>MustParse\<close> and \<open>Encode\<close>. What they use of lipgloss is
  the record \<open>lipgloss_read\<close>: the setters, the getters and the colours; its documented behaviour, that a getter
  gives back what was set and a hexadecimal colour has the channels it names, is the locale \<open>lipgloss_styles\<close>.
\<close>

section \<open>Words of a string\<close>

text \<open>The runes of a string, each with its bytes.\<close>

function rune_chunks :: "string \<Rightarrow> (rune \<times> string) list" where
  "rune_chunks s = (if s = [] then []
     else (fst (decode_rune s), take (snd (decode_rune s)) s) # rune_chunks (drop (snd (decode_rune s)) s))"
  by pat_completeness auto
termination
proof (relation "measure length")
  fix s :: string assume "s \<noteq> []"
  then show "(drop (snd (decode_rune s)) s, s) \<in> measure length"
    using decode_rune_width [of s] by (cases s) auto
qed auto

declare rune_chunks.simps [simp del]

text \<open>\<open>unicode.IsSpace\<close>.\<close>

definition IsSpace :: "rune \<Rightarrow> bool" where
  "IsSpace r \<longleftrightarrow> r \<in> {9, 10, 11, 12, 13, 32, 0x85, 0xA0, 0x1680, 0x2028, 0x2029, 0x202F, 0x205F, 0x3000}
     \<or> 0x2000 \<le> r \<and> r \<le> 0x200A"

text \<open>\<open>strings.TrimSpace\<close> and \<open>strings.FieldsSeq\<close>.\<close>

definition TrimSpace :: "string \<Rightarrow> string" where
  "TrimSpace s =
     (let cut = dropWhile (\<lambda>(r, c). IsSpace r) in concat (map snd (rev (cut (rev (cut (rune_chunks s)))))))"

fun fields_from :: "string \<Rightarrow> (rune \<times> string) list \<Rightarrow> string list" where
  "fields_from word [] = (if word = [] then [] else [word])"
| "fields_from word ((r, c) # cs) =
     (if IsSpace r then (if word = [] then [] else [word]) @ fields_from [] cs
      else fields_from (word @ c) cs)"

definition Fields :: "string \<Rightarrow> string list" where
  "Fields s = fields_from [] (rune_chunks s)"

text \<open>
  \<open>strings.ToLower\<close>, as far as its comparisons with ASCII words tell: two runes beyond ASCII have an ASCII
  lower case, every other such rune is left as it is.
\<close>

definition lower_rune :: "rune \<Rightarrow> rune" where
  "lower_rune r = (if 65 \<le> r \<and> r \<le> 90 then r + 32 else if r = 0x130 then 0x69 else if r = 0x212A then 0x6B else r)"

definition ToLower :: "string \<Rightarrow> string" where
  "ToLower s = encode_runes (map lower_rune (runes s))"

section \<open>Colours\<close>

definition isHexDigit :: "rune \<Rightarrow> bool" where
  "isHexDigit c \<longleftrightarrow> 48 \<le> c \<and> c \<le> 57 \<or> 97 \<le> c \<and> c \<le> 102 \<or> 65 \<le> c \<and> c \<le> 70"

definition isValidColor :: "string \<Rightarrow> bool" where
  "isValidColor s =
     (if \<not> has_prefix s ''#'' then False
      else let hex = drop 1 s in
        if length hex \<noteq> 3 \<and> length hex \<noteq> 6 then False else list_all isHexDigit (runes hex))"

record ('c, 's) lipgloss_read = "('c, 's) lipgloss" +
  lg_GetBold :: "'s \<Rightarrow> bool"
  lg_GetItalic :: "'s \<Rightarrow> bool"
  lg_GetUnderline :: "'s \<Rightarrow> bool"
  lg_GetForeground :: "'s \<Rightarrow> 'c option"
  lg_GetBackground :: "'s \<Rightarrow> 'c option"
  lg_NoColor :: "'c \<Rightarrow> bool"
  lg_RGBA :: "'c \<Rightarrow> nat \<times> nat \<times> nat \<times> nat"

text \<open>
  A getter's \<open>None\<close> is the nil interface. The channels of a colour are 32 bit numbers, only shifted to the right and
  printed here, and so kept as natural numbers.
\<close>

definition isColorSet :: "('c, 's) lipgloss_read \<Rightarrow> 'c \<Rightarrow> bool" where
  "isColorSet L c \<longleftrightarrow> \<not> lg_NoColor L c"

text \<open>The verb \<open>%02x\<close>.\<close>

definition hex_char :: "nat \<Rightarrow> char" where
  "hex_char d = chr (if d < 10 then 48 + d else 87 + d)"

fun hex_digits :: "nat \<Rightarrow> string" where
  "hex_digits n = (if n < 16 then [hex_char n] else hex_digits (n div 16) @ [hex_char (n mod 16)])"

declare hex_digits.simps [simp del]

definition hex02 :: "nat \<Rightarrow> string" where
  "hex02 n = (if n < 16 then CHR ''0'' # hex_digits n else hex_digits n)"

definition colorToHex :: "('c, 's) lipgloss_read \<Rightarrow> 'c \<Rightarrow> string" where
  "colorToHex L c =
     (if \<not> isColorSet L c then []
      else let (r, g, b, a) = lg_RGBA L c in
        if a = 0 then []
        else let r8 = r div 2 ^ 8; g8 = g div 2 ^ 8; b8 = b div 2 ^ 8 in
          ''#'' @ hex02 r8 @ hex02 g8 @ hex02 b8)"

section \<open>Parse and Encode\<close>

datatype style_error = ErrInvalidColor string | ErrUnknownKeyword string

definition applyToken :: "('c, 's) lipgloss_read \<Rightarrow> 's \<Rightarrow> string \<Rightarrow> style_error + 's" where
  "applyToken L style token =
     (let lower = ToLower token in
      if has_prefix lower ''bg:'' then
        (let colorStr = drop 3 token in
         if \<not> isValidColor colorStr then Inl (ErrInvalidColor colorStr)
         else Inr (lg_Background L style (lg_Color L colorStr)))
      else if has_prefix lower ''border:'' then Inr style
      else if lower = ''bold'' then Inr (lg_Bold L style True)
      else if lower = ''nobold'' then Inr (lg_Bold L style False)
      else if lower = ''italic'' then Inr (lg_Italic L style True)
      else if lower = ''noitalic'' then Inr (lg_Italic L style False)
      else if lower = ''underline'' then Inr (lg_Underline L style True)
      else if lower = ''nounderline'' then Inr (lg_Underline L style False)
      else if lower = ''noinherit'' then Inr style
      else if \<not> isValidColor token then Inl (ErrUnknownKeyword token)
      else Inr (lg_Foreground L style (lg_Color L token)))"

fun applyTokens :: "('c, 's) lipgloss_read \<Rightarrow> 's \<Rightarrow> string list \<Rightarrow> style_error + 's" where
  "applyTokens L style [] = Inr style"
| "applyTokens L style (token # tokens) =
     (case applyToken L style token of
        Inl err \<Rightarrow> Inl err
      | Inr style' \<Rightarrow> applyTokens L style' tokens)"

definition Parse_style :: "('c, 's) lipgloss_read \<Rightarrow> string \<Rightarrow> style_error + 's" where
  "Parse_style L s =
     (let style = lg_NewStyle L; s' = TrimSpace s in
      if s' = [] then Inr style else applyTokens L style (Fields s'))"

text \<open>A panic is \<open>None\<close>.\<close>

definition MustParse :: "('c, 's) lipgloss_read \<Rightarrow> string \<Rightarrow> 's option" where
  "MustParse L s = (case Parse_style L s of Inl err \<Rightarrow> None | Inr style \<Rightarrow> Some style)"

text \<open>The part of a colour: nothing for the nil interface and for a colour without hexadecimal form.\<close>

definition color_part :: "('c, 's) lipgloss_read \<Rightarrow> string \<Rightarrow> 'c option \<Rightarrow> string list" where
  "color_part L pre c =
     (case c of None \<Rightarrow> []
      | Some c \<Rightarrow> (let hex = colorToHex L c in if hex \<noteq> [] then [pre @ hex] else []))"

definition Encode :: "('c, 's) lipgloss_read \<Rightarrow> 's \<Rightarrow> string" where
  "Encode L style =
     join '' ''
       ((if lg_GetBold L style then [''bold''] else []) @
        (if lg_GetItalic L style then [''italic''] else []) @
        (if lg_GetUnderline L style then [''underline''] else []) @
        color_part L [] (lg_GetForeground L style) @
        color_part L ''bg:'' (lg_GetBackground L style))"

section \<open>What lipgloss documents\<close>

text \<open>The channels of a valid colour: each of 16 bits, opaque.\<close>

definition hex_value :: "char \<Rightarrow> nat" where
  "hex_value c = (let n = byte c in if n < 58 then n - 48 else if n < 71 then n - 55 else if n < 103 then n - 87 else 0)"

fun hex_rgba :: "string \<Rightarrow> nat \<times> nat \<times> nat \<times> nat" where
  "hex_rgba [h, r, g, b] = (4369 * hex_value r, 4369 * hex_value g, 4369 * hex_value b, 0xFFFF)"
| "hex_rgba [h, r1, r2, g1, g2, b1, b2] =
     (257 * (16 * hex_value r1 + hex_value r2), 257 * (16 * hex_value g1 + hex_value g2),
      257 * (16 * hex_value b1 + hex_value b2), 0xFFFF)"
| "hex_rgba _ = (0, 0, 0, 0)"

text \<open>What can be read of a style.\<close>

definition style_view :: "('c, 's) lipgloss_read \<Rightarrow> 's \<Rightarrow> bool \<times> bool \<times> bool \<times> 'c option \<times> 'c option" where
  "style_view L s = (lg_GetBold L s, lg_GetItalic L s, lg_GetUnderline L s, lg_GetForeground L s, lg_GetBackground L s)"

text \<open>
  A new style has nothing set; a setter changes what its getter reads and nothing else; the colour of a valid string
  is set and has its channels; the channels of a colour are of 16 bits.
\<close>

definition unset_color :: "('c, 's) lipgloss_read \<Rightarrow> 'c option \<Rightarrow> bool" where
  "unset_color L c \<longleftrightarrow> (case c of None \<Rightarrow> True | Some c \<Rightarrow> lg_NoColor L c)"

definition lipgloss_laws :: "('c, 's) lipgloss_read \<Rightarrow> bool" where
  "lipgloss_laws L \<longleftrightarrow>
     (\<exists>fg bg. style_view L (lg_NewStyle L) = (False, False, False, fg, bg) \<and> unset_color L fg \<and> unset_color L bg)
   \<and> (\<forall>s b x i u fg bg. style_view L s = (x, i, u, fg, bg) \<longrightarrow>
        style_view L (lg_Bold L s b) = (b, i, u, fg, bg)
      \<and> style_view L (lg_Italic L s b) = (x, b, u, fg, bg)
      \<and> style_view L (lg_Underline L s b) = (x, i, b, fg, bg))
   \<and> (\<forall>s h x i u fg bg. isValidColor h \<longrightarrow> style_view L s = (x, i, u, fg, bg) \<longrightarrow>
        style_view L (lg_Foreground L s (lg_Color L h)) = (x, i, u, Some (lg_Color L h), bg)
      \<and> style_view L (lg_Background L s (lg_Color L h)) = (x, i, u, fg, Some (lg_Color L h)))
   \<and> (\<forall>h. isValidColor h \<longrightarrow> \<not> lg_NoColor L (lg_Color L h) \<and> lg_RGBA L (lg_Color L h) = hex_rgba h)
   \<and> (\<forall>c r g b a. lg_RGBA L c = (r, g, b, a) \<longrightarrow> r < 2 ^ 16 \<and> g < 2 ^ 16 \<and> b < 2 ^ 16)"

lemma laws_new:
  "lipgloss_laws L \<Longrightarrow>
     \<exists>fg bg. style_view L (lg_NewStyle L) = (False, False, False, fg, bg) \<and> unset_color L fg \<and> unset_color L bg"
  by (simp add: lipgloss_laws_def)

lemma laws_modifiers:
  assumes "lipgloss_laws L" "style_view L s = (x, i, u, fg, bg)"
  shows "style_view L (lg_Bold L s b) = (b, i, u, fg, bg)"
    "style_view L (lg_Italic L s b) = (x, b, u, fg, bg)"
    "style_view L (lg_Underline L s b) = (x, i, b, fg, bg)"
  using assms by (simp_all add: lipgloss_laws_def)

lemma laws_colors:
  assumes "lipgloss_laws L" "isValidColor h" "style_view L s = (x, i, u, fg, bg)"
  shows "style_view L (lg_Foreground L s (lg_Color L h)) = (x, i, u, Some (lg_Color L h), bg)"
    "style_view L (lg_Background L s (lg_Color L h)) = (x, i, u, fg, Some (lg_Color L h))"
  using assms by (simp_all add: lipgloss_laws_def)

lemma laws_Color:
  assumes "lipgloss_laws L" "isValidColor h"
  shows "\<not> lg_NoColor L (lg_Color L h)" "lg_RGBA L (lg_Color L h) = hex_rgba h"
  using assms by (simp_all add: lipgloss_laws_def)

lemma laws_RGBA:
  assumes "lipgloss_laws L" "lg_RGBA L c = (r, g, b, a)"
  shows "r < 65536" "g < 65536" "b < 65536"
proof -
  have "r < 2 ^ 16 \<and> g < 2 ^ 16 \<and> b < 2 ^ 16" using assms unfolding lipgloss_laws_def by blast
  then show "r < 65536" "g < 65536" "b < 65536" by simp_all
qed

section \<open>Words\<close>

lemma rune_chunks_ascii: "ascii s \<Longrightarrow> rune_chunks s = map (\<lambda>c. (byte c, [c])) s"
proof (induction s)
  case Nil
  then show ?case by (simp add: rune_chunks.simps)
next
  case (Cons c s)
  then have "decode_rune (c # s) = (byte c, 1)" by (simp add: ascii_def decode_rune.simps)
  with Cons show ?case by (simp add: rune_chunks.simps [of "c # s"] ascii_def)
qed

text \<open>A word of ASCII characters without white space.\<close>

definition plain_word :: "string \<Rightarrow> bool" where
  "plain_word w \<longleftrightarrow> w \<noteq> [] \<and> list_all (\<lambda>c. byte c < 0x80 \<and> \<not> IsSpace (byte c)) w"

lemma plain_word_ascii: "plain_word w \<Longrightarrow> ascii w"
  by (auto simp: plain_word_def ascii_def list_all_iff)

lemma fields_from_word:
  "list_all (\<lambda>c. \<not> IsSpace (byte c)) w \<Longrightarrow>
     fields_from v (map (\<lambda>c. (byte c, [c])) w @ cs) = fields_from (v @ w) cs"
  by (induction w arbitrary: v) auto

lemma ascii_join: "list_all plain_word ws \<Longrightarrow> ascii (join '' '' ws)"
  by (induction "'' ''" ws rule: join.induct)
    (auto simp: plain_word_def ascii_def list_all_iff byte_def)

lemma fields_from_join:
  "list_all plain_word ws \<Longrightarrow> fields_from [] (map (\<lambda>c. (byte c, [c])) (join '' '' ws)) = ws"
proof (induction "'' ''" ws rule: join.induct)
  case (2 x)
  then show ?case using fields_from_word [of x "[]" "[]"] by (auto simp: plain_word_def list_all_iff)
next
  case (3 x y xs)
  have "list_all (\<lambda>c. \<not> IsSpace (byte c)) x" using 3 by (auto simp: plain_word_def list_all_iff)
  moreover have "IsSpace (byte CHR '' '')" by (simp add: IsSpace_def byte_def)
  ultimately show ?case using 3 by (simp add: fields_from_word plain_word_def)
qed simp

lemma Fields_join: "list_all plain_word ws \<Longrightarrow> Fields (join '' '' ws) = ws"
  by (simp add: Fields_def rune_chunks_ascii ascii_join fields_from_join)

lemma join_ends:
  assumes "list_all plain_word ws" "ws \<noteq> []"
  shows "join '' '' ws \<noteq> [] \<and> \<not> IsSpace (byte (hd (join '' '' ws))) \<and> \<not> IsSpace (byte (last (join '' '' ws)))"
  using assms
proof (induction "'' ''" ws rule: join.induct)
  case (2 x)
  then show ?case by (auto simp: plain_word_def list_all_iff)
next
  case (3 x y xs)
  then show ?case by (auto simp: plain_word_def list_all_iff hd_append)
qed simp

lemma TrimSpace_join: "list_all plain_word ws \<Longrightarrow> TrimSpace (join '' '' ws) = join '' '' ws"
proof (cases "ws = []")
  case True
  then show ?thesis by (simp add: TrimSpace_def rune_chunks.simps)
next
  case False
  assume ws: "list_all plain_word ws"
  let ?s = "join '' '' ws" and ?f = "\<lambda>c. (byte c, [c])" and ?cut = "dropWhile (\<lambda>(r, c). IsSpace r)"
  have ends: "?s \<noteq> []" "\<not> IsSpace (byte (hd ?s))" "\<not> IsSpace (byte (last ?s))" using join_ends [OF ws False] by auto
  have cut: "?cut (map ?f t) = map ?f t" if "t \<noteq> []" "\<not> IsSpace (byte (hd t))" for t
    using that by (cases t) auto
  have "?cut (rev (?cut (map ?f ?s))) = rev (map ?f ?s)"
    using ends cut [of ?s] cut [of "rev ?s"] by (simp add: hd_rev rev_map)
  then show ?thesis
    by (simp add: TrimSpace_def rune_chunks_ascii [OF ascii_join [OF ws]] o_def)
qed

section \<open>Tokens\<close>

lemma ToLower_Cons:
  "byte c < 0x80 \<Longrightarrow> ToLower (c # s) = chr (lower_rune (byte c)) # ToLower s"
  by (auto simp: ToLower_def runes_ascii_Cons lower_rune_def encode_rune_def)

lemma ToLower_Nil [simp]: "ToLower [] = []"
  by (simp add: ToLower_def)

lemma byte_word_chars:
  "byte CHR ''a'' = 97" "byte CHR ''b'' = 98" "byte CHR ''d'' = 100" "byte CHR ''e'' = 101"
  "byte CHR ''i'' = 105" "byte CHR ''l'' = 108" "byte CHR ''n'' = 110" "byte CHR ''o'' = 111"
  "byte CHR ''r'' = 114" "byte CHR ''t'' = 116" "byte CHR ''u'' = 117" "byte CHR ''g'' = 103"
  "byte CHR '':'' = 58" "byte CHR ''#'' = 35" "byte CHR ''h'' = 104" "byte CHR ''c'' = 99" "byte CHR ''0'' = 48" "byte CHR ''f'' = 102"
  by (simp_all add: byte_def)

lemma chr_word_chars:
  "chr 97 = CHR ''a''" "chr 98 = CHR ''b''" "chr 100 = CHR ''d''" "chr 101 = CHR ''e''"
  "chr 105 = CHR ''i''" "chr 108 = CHR ''l''" "chr 110 = CHR ''n''" "chr 111 = CHR ''o''"
  "chr 114 = CHR ''r''" "chr 116 = CHR ''t''" "chr 117 = CHR ''u''" "chr 103 = CHR ''g''"
  "chr 58 = CHR '':''" "chr 35 = CHR ''#''" "chr 104 = CHR ''h''" "chr 99 = CHR ''c''" "chr 48 = CHR ''0''" "chr 102 = CHR ''f''"
  by (simp_all only: byte_word_chars [symmetric] chr_byte)

lemma lower_rune_low: "r < 65 \<or> 90 < r \<and> r < 128 \<Longrightarrow> lower_rune r = r"
  by (auto simp: lower_rune_def)

lemmas token_simps = ToLower_Cons byte_word_chars lower_rune_low chr_word_chars

lemma applyToken_modifiers:
  "applyToken L s ''bold'' = Inr (lg_Bold L s True)"
  "applyToken L s ''italic'' = Inr (lg_Italic L s True)"
  "applyToken L s ''underline'' = Inr (lg_Underline L s True)"
  by (simp_all add: applyToken_def token_simps)

lemma applyToken_foreground:
  "isValidColor h \<Longrightarrow> applyToken L s h = Inr (lg_Foreground L s (lg_Color L h))"
  by (cases h) (auto simp: applyToken_def isValidColor_def token_simps)

lemma applyToken_background:
  "isValidColor h \<Longrightarrow> applyToken L s (''bg:'' @ h) = Inr (lg_Background L s (lg_Color L h))"
  by (simp add: applyToken_def token_simps)

section \<open>Hexadecimal digits\<close>

lemma hex_char_byte: "d < 16 \<Longrightarrow> byte (hex_char d) = (if d < 10 then 48 + d else 87 + d)"
  by (simp add: hex_char_def)

lemma hex_char_ok:
  assumes "d < 16"
  shows "byte (hex_char d) < 0x80 \<and> isHexDigit (byte (hex_char d)) \<and> \<not> IsSpace (byte (hex_char d)) \<and> hex_value (hex_char d) = d"
  using assms by (auto simp: hex_char_byte isHexDigit_def hex_value_def IsSpace_def Let_def)

lemma hex02_byte: "n < 256 \<Longrightarrow> hex02 n = [hex_char (n div 16), hex_char (n mod 16)]"
  by (auto simp: hex02_def hex_digits.simps [of n] hex_digits.simps [of "n div 16"] hex_char_def chr_word_chars)

lemma colorToHex_valid:
  assumes L: "lipgloss_laws L" and h: "colorToHex L c \<noteq> []"
  shows "isValidColor (colorToHex L c) \<and> plain_word (colorToHex L c)
    \<and> colorToHex L (lg_Color L (colorToHex L c)) = colorToHex L c"
proof -
  obtain r g b a where rgba: "lg_RGBA L c = (r, g, b, a)" by (metis prod_cases4)
  define r8 g8 b8 where "r8 = r div 256" and "g8 = g div 256" and "b8 = b div 256"
  have small: "r8 < 256" "g8 < 256" "b8 < 256"
    using laws_RGBA [OF L rgba] by (auto simp: r8_def g8_def b8_def)
  let ?d = "\<lambda>n. [hex_char (n div 16), hex_char (n mod 16)]"
  have e: "colorToHex L c = ''#'' @ ?d r8 @ ?d g8 @ ?d b8"
    using h small by (auto simp: colorToHex_def rgba r8_def g8_def b8_def hex02_byte Let_def split: if_splits)
  have digits: "n div 16 < 16 \<and> n mod 16 < 16" if "n < 256" for n :: nat
    using that by auto
  note ok = hex_char_ok [OF digits [OF small(1), THEN conjunct1]] hex_char_ok [OF digits [OF small(1), THEN conjunct2]]
    hex_char_ok [OF digits [OF small(2), THEN conjunct1]] hex_char_ok [OF digits [OF small(2), THEN conjunct2]]
    hex_char_ok [OF digits [OF small(3), THEN conjunct1]] hex_char_ok [OF digits [OF small(3), THEN conjunct2]]
  have valid: "isValidColor (colorToHex L c)"
    using ok by (simp add: e isValidColor_def runes_ascii_Cons)
  moreover have "plain_word (colorToHex L c)"
    using ok by (simp add: e plain_word_def byte_word_chars IsSpace_def)
  moreover have shift: "257 * n div 256 = n" if "n < 256" for n :: nat
    using that by simp
  have "hex_rgba (colorToHex L c) = (257 * r8, 257 * g8, 257 * b8, 0xFFFF)"
    using ok by (simp add: e)
  then have "colorToHex L (lg_Color L (colorToHex L c)) = ''#'' @ ?d r8 @ ?d g8 @ ?d b8"
    using laws_Color [OF L valid] small shift
    unfolding colorToHex_def [of L "lg_Color L (colorToHex L c)"]
    by (simp add: isColorSet_def hex02_byte)
  ultimately show ?thesis using e by metis
qed

section \<open>The round trip\<close>

lemma color_part_words:
  assumes "lipgloss_laws L" "pre = [] \<or> pre = ''bg:''"
  shows "list_all plain_word (color_part L pre c)"
  using assms colorToHex_valid [OF assms(1)]
  by (auto simp: color_part_def Let_def plain_word_def byte_word_chars IsSpace_def split: option.split)

text \<open>Applying the words that stand for the colours of a style sets colours with the same words.\<close>

lemma applyTokens_append:
  "applyTokens L s (xs @ ys) = (case applyTokens L s xs of Inl err \<Rightarrow> Inl err | Inr s' \<Rightarrow> applyTokens L s' ys)"
  by (induction xs arbitrary: s) (auto split: sum.split)

lemma color_part_unset: "unset_color L c \<Longrightarrow> color_part L pre c = []"
  by (auto simp: unset_color_def color_part_def colorToHex_def isColorSet_def split: option.splits)

lemma applyTokens_foreground:
  assumes L: "lipgloss_laws L" and v: "style_view L s = (x, i, u, fg, bg)" and "unset_color L fg"
  shows "\<exists>s' fg'. applyTokens L s (color_part L [] c) = Inr s' \<and> style_view L s' = (x, i, u, fg', bg)
     \<and> color_part L [] fg' = color_part L [] c"
proof (cases "color_part L [] c = []")
  case True
  then show ?thesis using v color_part_unset [OF assms(3)] by auto
next
  case False
  then obtain d where c: "c = Some d" and h: "colorToHex L d \<noteq> []" "color_part L [] c = [colorToHex L d]"
    by (cases c) (auto simp: color_part_def Let_def split: if_splits)
  note valid = colorToHex_valid [OF L h(1)]
  show ?thesis
    using laws_colors(1) [OF L _ v, of "colorToHex L d"] valid h
    by (auto simp: applyToken_foreground color_part_def)
qed

lemma applyTokens_background:
  assumes L: "lipgloss_laws L" and v: "style_view L s = (x, i, u, fg, bg)" and "unset_color L bg"
  shows "\<exists>s' bg'. applyTokens L s (color_part L ''bg:'' c) = Inr s' \<and> style_view L s' = (x, i, u, fg, bg')
     \<and> color_part L ''bg:'' bg' = color_part L ''bg:'' c"
proof (cases "color_part L ''bg:'' c = []")
  case True
  then show ?thesis using v color_part_unset [OF assms(3)] by auto
next
  case False
  then obtain d where c: "c = Some d" and h: "colorToHex L d \<noteq> []" "color_part L ''bg:'' c = [''bg:'' @ colorToHex L d]"
    by (cases c) (auto simp: color_part_def Let_def split: if_splits)
  note valid = colorToHex_valid [OF L h(1)]
  have "applyToken L s (''bg:'' @ colorToHex L d) = Inr (lg_Background L s (lg_Color L (colorToHex L d)))"
    by (rule applyToken_background) (use valid in blast)
  then show ?thesis
    using laws_colors(2) [OF L _ v, of "colorToHex L d"] valid h
    by (auto simp: color_part_def)
qed

definition modifier_words :: "bool \<Rightarrow> bool \<Rightarrow> bool \<Rightarrow> string list" where
  "modifier_words x i u =
     (if x then [''bold''] else []) @ (if i then [''italic''] else []) @ (if u then [''underline''] else [])"

lemma modifier_words_plain: "list_all plain_word (modifier_words x i u)"
  by (simp add: modifier_words_def plain_word_def byte_word_chars IsSpace_def)

lemma applyTokens_modifiers:
  assumes L: "lipgloss_laws L" and v: "style_view L s = (False, False, False, fg, bg)"
  shows "\<exists>s'. applyTokens L s (modifier_words x i u) = Inr s' \<and> style_view L s' = (x, i, u, fg, bg)"
proof -
  let ?s1 = "if x then lg_Bold L s True else s"
  let ?s2 = "if i then lg_Italic L ?s1 True else ?s1"
  let ?s3 = "if u then lg_Underline L ?s2 True else ?s2"
  have v1: "style_view L ?s1 = (x, False, False, fg, bg)"
    using v laws_modifiers(1) [OF L v] by auto
  have v2: "style_view L ?s2 = (x, i, False, fg, bg)"
    using v1 laws_modifiers(2) [OF L v1] by auto
  have v3: "style_view L ?s3 = (x, i, u, fg, bg)"
    using v2 laws_modifiers(3) [OF L v2] by auto
  have "applyTokens L s (modifier_words x i u) = Inr ?s3"
    by (simp add: modifier_words_def applyToken_modifiers)
  then show ?thesis using v3 by blast
qed

lemma Encode_view:
  "style_view L s = (x, i, u, fg, bg) \<Longrightarrow>
     Encode L s = join '' '' (modifier_words x i u @ color_part L [] fg @ color_part L ''bg:'' bg)"
  by (simp add: Encode_def style_view_def modifier_words_def)

lemma Encode_parsed:
  assumes L: "lipgloss_laws L" and v: "style_view L st = (x, i, u, fg, bg)"
  shows "\<exists>st' fg' bg'. Parse_style L (Encode L st) = Inr st' \<and> style_view L st' = (x, i, u, fg', bg')
     \<and> color_part L [] fg' = color_part L [] fg \<and> color_part L ''bg:'' bg' = color_part L ''bg:'' bg"
proof -
  let ?m = "modifier_words x i u" and ?f = "color_part L [] fg" and ?b = "color_part L ''bg:'' bg"
  let ?ws = "?m @ ?f @ ?b"
  have plain: "list_all plain_word ?ws"
    using modifier_words_plain color_part_words [OF L] by simp
  obtain fg0 bg0 where new: "style_view L (lg_NewStyle L) = (False, False, False, fg0, bg0)"
    and unset: "unset_color L fg0" "unset_color L bg0" using laws_new [OF L] by blast
  obtain s1 where s1: "applyTokens L (lg_NewStyle L) ?m = Inr s1" "style_view L s1 = (x, i, u, fg0, bg0)"
    using applyTokens_modifiers [OF L new] by blast
  obtain s2 fg' where s2: "applyTokens L s1 ?f = Inr s2" "style_view L s2 = (x, i, u, fg', bg0)"
    "color_part L [] fg' = ?f"
    using applyTokens_foreground [OF L s1(2) unset(1), of fg] by blast
  obtain s3 bg' where s3: "applyTokens L s2 ?b = Inr s3" "style_view L s3 = (x, i, u, fg', bg')"
    "color_part L ''bg:'' bg' = ?b"
    using applyTokens_background [OF L s2(2) unset(2), of bg] by blast
  have "applyTokens L (lg_NewStyle L) ?ws = Inr s3"
    using s1(1) s2(1) s3(1) by (simp add: applyTokens_append)
  then have "Parse_style L (Encode L st) = Inr s3"
    unfolding Encode_view [OF v] Parse_style_def TrimSpace_join [OF plain] Fields_join [OF plain] Let_def
    by (cases "?ws = []") (use join_ends [OF plain] in simp_all)
  then show ?thesis using s3 s2 by blast
qed

section \<open>The meaning of Parse\<close>

definition valid_token :: "string \<Rightarrow> bool" where
  "valid_token t \<longleftrightarrow>
     (if has_prefix (ToLower t) ''bg:'' then isValidColor (drop 3 t)
      else has_prefix (ToLower t) ''border:'' \<or> isValidColor t
        \<or> ToLower t \<in> {''bold'', ''nobold'', ''italic'', ''noitalic'', ''underline'', ''nounderline'', ''noinherit''})"

definition token_error :: "string \<Rightarrow> style_error" where
  "token_error t = (if has_prefix (ToLower t) ''bg:'' then ErrInvalidColor (drop 3 t) else ErrUnknownKeyword t)"

text \<open>The last of the tokens with a property, read by a function.\<close>

definition last_setting :: "'a \<Rightarrow> (string \<Rightarrow> bool) \<Rightarrow> (string \<Rightarrow> 'a) \<Rightarrow> string list \<Rightarrow> 'a" where
  "last_setting d P f ts = (case rev (filter P ts) of [] \<Rightarrow> d | t # _ \<Rightarrow> f t)"

lemma last_setting_simps [simp]:
  "last_setting d P f [] = d"
  by (simp add: last_setting_def)

lemma last_setting_Cons [simp]:
  "last_setting d P f (t # ts) = last_setting (if P t then f t else d) P f ts"
  by (auto simp: last_setting_def split: list.split)

abbreviation bg_token :: "string \<Rightarrow> bool" where
  "bg_token t \<equiv> has_prefix (ToLower t) ''bg:''"

abbreviation bold_token :: "string \<Rightarrow> bool" where
  "bold_token t \<equiv> ToLower t \<in> {''bold'', ''nobold''}"

abbreviation italic_token :: "string \<Rightarrow> bool" where
  "italic_token t \<equiv> ToLower t \<in> {''italic'', ''noitalic''}"

abbreviation underline_token :: "string \<Rightarrow> bool" where
  "underline_token t \<equiv> ToLower t \<in> {''underline'', ''nounderline''}"

definition parsed_view ::
  "('c, 's) lipgloss_read \<Rightarrow> bool \<times> bool \<times> bool \<times> 'c option \<times> 'c option \<Rightarrow> string list \<Rightarrow>
     bool \<times> bool \<times> bool \<times> 'c option \<times> 'c option" where
  "parsed_view L v ts = (case v of (x, i, u, fg, bg) \<Rightarrow>
     (last_setting x bold_token (\<lambda>t. ToLower t = ''bold'') ts,
      last_setting i italic_token (\<lambda>t. ToLower t = ''italic'') ts,
      last_setting u underline_token (\<lambda>t. ToLower t = ''underline'') ts,
      last_setting fg isValidColor (\<lambda>t. Some (lg_Color L t)) ts,
      last_setting bg bg_token (\<lambda>t. Some (lg_Color L (drop 3 t))) ts))"

text \<open>A colour starts with a byte that no keyword has.\<close>

lemma valid_color_lower: "isValidColor t \<Longrightarrow> \<exists>u. ToLower t = CHR ''#'' # u"
proof -
  assume "isValidColor t"
  then obtain w where "t = CHR ''#'' # w" by (auto simp: isValidColor_def has_prefix_iff split: if_splits)
  then show ?thesis by (simp add: token_simps)
qed

lemma applyToken_invalid: "\<not> valid_token t \<Longrightarrow> applyToken L s t = Inl (token_error t)"
  by (auto simp: applyToken_def valid_token_def token_error_def Let_def split: if_splits)

lemma applyToken_valid:
  assumes L: "lipgloss_laws L" and v: "style_view L s = v" and t: "valid_token t"
  shows "\<exists>s'. applyToken L s t = Inr s' \<and> style_view L s' = parsed_view L v [t]"
proof -
  obtain x i u fg bg where v': "style_view L s = (x, i, u, fg, bg)" by (cases "style_view L s") auto
  show ?thesis
  proof (cases "isValidColor t")
    case True
    then obtain w where "ToLower t = CHR ''#'' # w" using valid_color_lower by blast
    then show ?thesis
      using True laws_colors(1) [OF L True v'] v v'
      by (auto simp: applyToken_def parsed_view_def Let_def)
  next
    case False
    then show ?thesis
      using t v v' laws_modifiers [OF L v'] laws_colors(2) [OF L _ v', of "drop 3 t"]
      by (auto simp: applyToken_def valid_token_def parsed_view_def Let_def split: if_splits)
  qed
qed

lemma parsed_view_Cons: "parsed_view L (parsed_view L v [t]) ts = parsed_view L v (t # ts)"
  by (cases v) (simp add: parsed_view_def)

lemma parsed_view_Nil [simp]: "parsed_view L v [] = v"
  by (cases v) (simp add: parsed_view_def)

lemma applyTokens_exact:
  assumes L: "lipgloss_laws L"
  shows "case List.find (\<lambda>t. \<not> valid_token t) ts of
      Some t \<Rightarrow> applyTokens L s ts = Inl (token_error t)
    | None \<Rightarrow> \<exists>st. applyTokens L s ts = Inr st \<and> style_view L st = parsed_view L (style_view L s) ts"
proof (induction ts arbitrary: s)
  case (Cons t ts)
  show ?case
  proof (cases "valid_token t")
    case True
    then obtain s' where s': "applyToken L s t = Inr s'" "style_view L s' = parsed_view L (style_view L s) [t]"
      using applyToken_valid [OF L refl True, of s] by blast
    then show ?thesis using True Cons [of s'] by (simp add: parsed_view_Cons split: option.splits)
  next
    case False
    then show ?thesis by (simp add: applyToken_invalid)
  qed
qed simp

lemma Fields_Nil [simp]: "Fields [] = []"
  by (simp add: Fields_def rune_chunks.simps)

section \<open>A lipgloss to run it on\<close>

text \<open>The recording lipgloss with its getters; only a colour made from a valid string has channels.\<close>

definition recording_RGBA :: "call_color \<Rightarrow> nat \<times> nat \<times> nat \<times> nat" where
  "recording_RGBA c = (case c of Hex h \<Rightarrow> hex_rgba h | _ \<Rightarrow> (0, 0, 0, 0))"

definition recording_read :: "(call_color, call_style) lipgloss_read" where
  "recording_read = lipgloss.extend recording
     \<lparr>lg_GetBold = cs_bold, lg_GetItalic = cs_italic, lg_GetUnderline = cs_underline,
      lg_GetForeground = cs_foreground, lg_GetBackground = cs_background,
      lg_NoColor = (\<lambda>_. False), lg_RGBA = recording_RGBA\<rparr>"

lemma hex_value_digits: "hex_value CHR ''F'' = 15" "hex_value CHR ''a'' = 10" "hex_value CHR ''0'' = 0"
  by (simp_all add: hex_value_def byte_def)

lemma hex_value_less: "hex_value c < 16"
  by (auto simp: hex_value_def Let_def)

lemma hex_rgba_less: "hex_rgba h = (r, g, b, a) \<Longrightarrow> r < 65536 \<and> g < 65536 \<and> b < 65536"
proof (induction h rule: hex_rgba.induct)
  case (1 h x y z)
  then show ?case using hex_value_less [of x] hex_value_less [of y] hex_value_less [of z] by auto
next
  case (2 h r1 r2 g1 g2 b1 b2)
  then show ?case
    using hex_value_less [of r1] hex_value_less [of r2] hex_value_less [of g1] hex_value_less [of g2]
      hex_value_less [of b1] hex_value_less [of b2] by auto
qed auto

lemma recording_laws: "lipgloss_laws recording_read"
  unfolding lipgloss_laws_def
proof (intro conjI)
  show "\<forall>c r g b a. lg_RGBA recording_read c = (r, g, b, a) \<longrightarrow> r < 2 ^ 16 \<and> g < 2 ^ 16 \<and> b < 2 ^ 16"
    using hex_rgba_less by (fastforce simp: recording_read_def lipgloss.defs recording_RGBA_def split: call_color.splits)
qed (auto simp: recording_read_def recording_def lipgloss.defs style_view_def unset_color_def recording_RGBA_def)

section \<open>What style strings mean\<close>

text \<open>
  C34: \<open>Parse\<close> succeeds exactly when every word of the string is a modifier, a colour, \<open>bg:\<close> with a colour, or one of
  the words ignored for compatibility, else it fails with the error of the first word that is none; on success each
  modifier and colour is what the last word about it says, and unset when there is none; \<open>MustParse\<close> panics exactly
  when \<open>Parse\<close> fails.
\<close>

theorem Parse_exact:
  assumes "lipgloss_laws L"
  shows "(case List.find (\<lambda>t. \<not> valid_token t) (Fields (TrimSpace s)) of
      Some t \<Rightarrow> Parse_style L s = Inl (token_error t) \<and> MustParse L s = None
    | None \<Rightarrow> \<exists>st. Parse_style L s = Inr st \<and> MustParse L s = Some st
        \<and> style_view L st = parsed_view L (style_view L (lg_NewStyle L)) (Fields (TrimSpace s)))"
proof -
  have "Parse_style L s = applyTokens L (lg_NewStyle L) (Fields (TrimSpace s))"
    by (simp add: Parse_style_def Let_def)
  then show ?thesis
    using applyTokens_exact [OF assms, of "lg_NewStyle L" "Fields (TrimSpace s)"]
    by (auto simp: MustParse_def split: option.splits)
qed

theorem Parse_exact_witness:
  "Parse_style recording_read ''bold blue'' = Inl (ErrUnknownKeyword ''blue'')"
proof -
  have words: "list_all plain_word [''bold'', ''blue'']"
    by (simp add: plain_word_def byte_word_chars IsSpace_def)
  have "valid_token ''bold'' \<and> \<not> valid_token ''blue'' \<and> token_error ''blue'' = ErrUnknownKeyword ''blue''"
    by (simp add: valid_token_def token_error_def isValidColor_def token_simps)
  then show ?thesis
    using Parse_exact [OF recording_laws, of "join '' '' [''bold'', ''blue'']"]
    unfolding TrimSpace_join [OF words] Fields_join [OF words] by simp
qed

text \<open>
  C35: what \<open>Encode\<close> writes, \<open>Parse\<close> reads back: the parse succeeds and gives a style with the same modifiers and the
  same colours, up to the eight bits per channel that are written, so that it encodes to the same string again.
\<close>

theorem Encode_roundtrip:
  assumes "lipgloss_laws L"
  shows "\<exists>st'. Parse_style L (Encode L st) = Inr st' \<and> Encode L st' = Encode L st
     \<and> lg_GetBold L st' = lg_GetBold L st \<and> lg_GetItalic L st' = lg_GetItalic L st
     \<and> lg_GetUnderline L st' = lg_GetUnderline L st
     \<and> color_part L [] (lg_GetForeground L st') = color_part L [] (lg_GetForeground L st)
     \<and> color_part L [] (lg_GetBackground L st') = color_part L [] (lg_GetBackground L st)"
proof -
  have bg: "color_part L [] c = color_part L [] d" if "color_part L ''bg:'' c = color_part L ''bg:'' d" for c d
    using that by (auto simp: color_part_def Let_def split: option.splits if_splits)
  obtain st' fg' bg' where *: "Parse_style L (Encode L st) = Inr st'"
    "style_view L st' = (lg_GetBold L st, lg_GetItalic L st, lg_GetUnderline L st, fg', bg')"
    "color_part L [] fg' = color_part L [] (lg_GetForeground L st)"
    "color_part L ''bg:'' bg' = color_part L ''bg:'' (lg_GetBackground L st)"
    using Encode_parsed [OF assms style_view_def, of st] by blast
  have "Encode L st' = Encode L st"
    by (simp only: Encode_view [OF *(2)] Encode_view [OF style_view_def, of L st] *(3,4))
  moreover have "lg_GetForeground L st' = fg'" "lg_GetBackground L st' = bg'" "lg_GetBold L st' = lg_GetBold L st"
    "lg_GetItalic L st' = lg_GetItalic L st" "lg_GetUnderline L st' = lg_GetUnderline L st"
    using *(2) by (simp_all add: style_view_def)
  ultimately show ?thesis using *(1,3) bg [OF *(4)] by blast
qed

theorem Encode_roundtrip_witness:
  "Encode recording_read \<lparr>cs_foreground = Some (Hex ''#Fa0''), cs_background = Some (Tone Salt), cs_bold = True,
     cs_italic = False, cs_underline = True\<rparr> = ''bold underline #ffaa00''
   \<and> (\<exists>st. Parse_style recording_read ''bold underline #ffaa00'' = Inr st \<and> lg_GetBold recording_read st
        \<and> \<not> lg_GetItalic recording_read st)"
proof -
  let ?st = "\<lparr>cs_foreground = Some (Hex ''#Fa0''), cs_background = Some (Tone Salt), cs_bold = True,
     cs_italic = False, cs_underline = True\<rparr>"
  have e: "Encode recording_read ?st = ''bold underline #ffaa00''"
    by (simp add: Encode_def color_part_def colorToHex_def isColorSet_def recording_read_def recording_def lipgloss.defs
        recording_RGBA_def hex_value_digits hex02_byte hex_char_def chr_word_chars)
  have "lg_GetBold recording_read ?st" "\<not> lg_GetItalic recording_read ?st"
    by (simp_all add: recording_read_def lipgloss.defs)
  moreover obtain st' where "Parse_style recording_read (Encode recording_read ?st) = Inr st'"
    "lg_GetBold recording_read st' = lg_GetBold recording_read ?st"
    "lg_GetItalic recording_read st' = lg_GetItalic recording_read ?st"
    using Encode_roundtrip [OF recording_laws, of ?st] by blast
  ultimately show ?thesis unfolding e by blast
qed

end
