(* ===== verification/Nyaml.thy ===== *)
theory Nyaml
  imports Viewport_View Printer Themes Style_Strings Filepaths "HOL-Library.Char_ord" "HOL-Library.List_Lexorder"
begin

text \<open>
  The viewer of the program \<open>nyaml\<close> (\<open>cmd/nyaml/model.go\<close>): its model on top of that of the viewport, the messages,
  the search input, the theme picker and the view. What runs it, \<open>bubbletea\<close>, calls \<open>Update\<close> with a message and
  \<open>View\<close> in turn. A key message is of type \<open>'k\<close>; \<open>key.Matches\<close> and its text are parameters. \<open>None\<close> is a panic.
\<close>

section \<open>Key bindings of the viewport\<close>

text \<open>\<open>DefaultKeyMap\<close>: a binding is the list of keys given to \<open>key.WithKeys\<close>.\<close>

definition DefaultKeyMap :: "string list keymap" where
  "DefaultKeyMap = \<lparr>
     km_Up = [''up'', ''k''],
     km_Down = [''down'', ''j''],
     km_PageUp = [''pgup'', ''b''],
     km_PageDown = [''pgdown'', ''space'', ''f''],
     km_HalfPageUp = [''u'', ''ctrl+u''],
     km_HalfPageDown = [''d'', ''ctrl+d''],
     km_Left = [''left'', ''h''],
     km_Right = [''right'', ''l''],
     km_NextRevision = [''tab''],
     km_PrevRevision = [''shift+tab''],
     km_ToggleDiffMode = [''m''],
     km_ToggleViewMode = [''v''],
     km_ToggleWordWrap = [''w'']\<rparr>"

section \<open>Model\<close>

text \<open>
  What the model calls outside the repository: key matching, the lexer, the terminal and what it needs of lipgloss.
  \<open>theme.Styles\<close> makes a new style set at each call; \<open>ny_pointers\<close> are the pointers it holds, into the heap
  \<open>ny_heap\<close>. \<open>ny_default\<close> and \<open>ny_zero\<close> are the default theme and the zero style of \<open>NewPrinter\<close>.
\<close>

record ('k, 'g, 's, 'c, 'm, 'x) nyaml_env =
  ny_search :: searcher
  ny_Matches :: "'k \<Rightarrow> string list \<Rightarrow> bool"
  ny_Text :: "'k \<Rightarrow> string"
  ny_tokenize :: "string \<Rightarrow> token list"
  ny_lipgloss :: "('g, 's) lipgloss"
  ny_terminal :: "('c, 'm, 'x) terminal"
  ny_pointers :: "'s styles \<Rightarrow> style_getter"
  ny_heap :: "('c, 'x) style_heap"
  ny_default :: style_getter
  ny_zero :: "('c, 'x) lstyle"

record file_entry =
  fe_path :: string
  fe_content :: string

record model_options =
  mo_search :: string
  mo_files :: "file_entry list"
  mo_lineNumbers :: bool

text \<open>The viewport's printer is a pointer; its settings are in the viewport, the rest of it is \<open>ny_printer\<close>.\<close>

record ('f, 'o, 'c, 'x) nyaml =
  ny_searchInput :: string
  ny_currentTheme :: string
  ny_previousTheme :: string
  ny_themeList :: "string list"
  ny_viewport :: "('f, 'o, string list) model"
  ny_printer :: "('c, 'x) printer"
  ny_width :: int
  ny_height :: int
  ny_themeIndex :: int
  ny_lineNumbers :: bool
  ny_searching :: bool
  ny_themePicking :: bool

definition slice_index :: "string list \<Rightarrow> string \<Rightarrow> int" where
  "slice_index xs x = (case find_index (\<lambda>y. y = x) xs of None \<Rightarrow> -1 | Some i \<Rightarrow> int i)"

definition print_settings_of :: "('c, 'x) printer \<Rightarrow> print_settings" where
  "print_settings_of p = \<lparr>pr_width = pt_width p, pr_wordWrap = pt_wordWrap p\<rparr>"

text \<open>\<open>theme.Styles\<close>; nyaml registers no theme.\<close>

definition theme_Styles :: "('k, 'g, 's, 'c, 'm, 'x) nyaml_env \<Rightarrow> string \<Rightarrow> ('s styles \<times> bool) option" where
  "theme_Styles E name = Styles_theme (ny_lipgloss E) Map.empty name"

definition buildPrinterOpts ::
  "('k, 'g, 's, 'c, 'm, 'x) nyaml_env \<Rightarrow> bool \<Rightarrow> string \<Rightarrow> (('c, 'x) printer \<Rightarrow> ('c, 'x) printer) list option" where
  "buildPrinterOpts E lineNumbers themeName =
     map_option (\<lambda>(styles, ok).
       (if \<not> lineNumbers then [WithGutter (Some (DiffGutter (ny_terminal E)))] else []) @
       (if ok then [WithStyles (ny_pointers E styles)] else []))
     (theme_Styles E themeName)"

definition theme_printer ::
  "('k, 'g, 's, 'c, 'm, 'x) nyaml_env \<Rightarrow> bool \<Rightarrow> string \<Rightarrow> ('c, 'x) printer option" where
  "theme_printer E lineNumbers name =
     Option.bind (buildPrinterOpts E lineNumbers name) (NewPrinter (ny_terminal E) (ny_default E) (ny_zero E) (ny_heap E))"

definition applySearch ::
  "('k, 'g, 's, 'c, 'm, 'x) nyaml_env \<Rightarrow> string \<Rightarrow> ('f, 'o, 'c, 'x) nyaml \<Rightarrow> ('f, 'o, 'c, 'x) nyaml option" where
  "applySearch E term' m =
     map_option (\<lambda>vp. m\<lparr>ny_viewport := vp\<rparr>) (SetSearchTerm (ny_search E) term' (ny_viewport m))"

definition applyTheme ::
  "('k, 'g, 's, 'c, 'm, 'x) nyaml_env \<Rightarrow> string \<Rightarrow> ('f, 'o, 'c, 'x) nyaml \<Rightarrow> ('f, 'o, 'c, 'x) nyaml option" where
  "applyTheme E name m0 = do {
     let m = m0\<lparr>ny_currentTheme := name\<rparr>;
     printer \<leftarrow> theme_printer E (ny_lineNumbers m) name;
     vp \<leftarrow> SetPrinter (ny_search E) (print_settings_of printer) (ny_viewport m);
     Some (m\<lparr>ny_printer := printer, ny_viewport := vp\<rparr>) }"

definition add_file ::
  "('k, 'g, 's, 'c, 'm, 'x) nyaml_env \<Rightarrow> ('f, 'o, 'c, 'x) nyaml \<Rightarrow> file_entry \<Rightarrow> ('f, 'o, 'c, 'x) nyaml option" where
  "add_file E m f = do {
     source \<leftarrow> NewSourceFromString (ny_tokenize E) (fe_content f) [WithName (fp_Base (fe_path f))];
     vp \<leftarrow> AddRevision (ny_search E) source (ny_viewport m);
     Some (m\<lparr>ny_viewport := vp\<rparr>) }"

definition theme_list :: "('k, 'g, 's, 'c, 'm, 'x) nyaml_env \<Rightarrow> string list" where
  "theme_list E = sort (List_themes (ny_lipgloss E) Map.empty [] Dark)"

text \<open>\<open>yamlviewport.New\<close> makes no printer of its own, since an option sets one.\<close>

definition newModel ::
  "('k, 'g, 's, 'c, 'm, 'x) nyaml_env \<Rightarrow> model_options \<Rightarrow> ('f, 'o, 'c, 'x) nyaml option" where
  "newModel E opts = do {
     let themeList = theme_list E;
     let defaultTheme = ''charm'';
     printer \<leftarrow> theme_printer E (mo_lineNumbers opts) defaultTheme;
     let settings = print_settings_of printer;
     let vp = New_model DefaultKeyMap settings [view_WithPrinter settings];
     let themeIndex = max 0 (slice_index themeList defaultTheme);
     let m = \<lparr>ny_searchInput = [], ny_currentTheme = defaultTheme, ny_previousTheme = [], ny_themeList = themeList,
       ny_viewport = vp, ny_printer = printer, ny_width = 0, ny_height = 0, ny_themeIndex = themeIndex,
       ny_lineNumbers = mo_lineNumbers opts, ny_searching = False, ny_themePicking = False\<rparr>;
     m1 \<leftarrow> foldM (add_file E) m (mo_files opts);
     (if mo_search opts \<noteq> [] then applySearch E (mo_search opts) m1 else Some m1) }"

section \<open>Messages\<close>

definition updateSearchInput ::
  "('k, 'g, 's, 'c, 'm, 'x) nyaml_env \<Rightarrow> 'k \<Rightarrow> ('f, 'o, 'c, 'x) nyaml \<Rightarrow> ('f, 'o, 'c, 'x) nyaml option" where
  "updateSearchInput E k m =
     (if ny_Matches E k [''enter''] then applySearch E (ny_searchInput m) (m\<lparr>ny_searching := False\<rparr>)
      else if ny_Matches E k [''esc''] then Some (m\<lparr>ny_searching := False, ny_searchInput := []\<rparr>)
      else if ny_Matches E k [''backspace''] then
        Some (if ny_searchInput m \<noteq> [] then m\<lparr>ny_searchInput := take (length (ny_searchInput m) - 1) (ny_searchInput m)\<rparr> else m)
      else Some (if ny_Text E k \<noteq> [] then m\<lparr>ny_searchInput := ny_searchInput m @ ny_Text E k\<rparr> else m))"

text \<open>Moving the selection of the theme picker, with its preview.\<close>

definition select_theme ::
  "('k, 'g, 's, 'c, 'm, 'x) nyaml_env \<Rightarrow> int \<Rightarrow> ('f, 'o, 'c, 'x) nyaml \<Rightarrow> ('f, 'o, 'c, 'x) nyaml option" where
  "select_theme E i m =
     Option.bind (slice_get (ny_themeList m) i) (\<lambda>name. applyTheme E name (m\<lparr>ny_themeIndex := i\<rparr>))"

definition updateThemeInput ::
  "('k, 'g, 's, 'c, 'm, 'x) nyaml_env \<Rightarrow> 'k \<Rightarrow> ('f, 'o, 'c, 'x) nyaml \<Rightarrow> ('f, 'o, 'c, 'x) nyaml option" where
  "updateThemeInput E k m =
     (if ny_Matches E k [''enter''] then Some (m\<lparr>ny_themePicking := False\<rparr>)
      else if ny_Matches E k [''esc''] then
        map_option (\<lambda>m'. m'\<lparr>ny_themeIndex := slice_index (ny_themeList m') (ny_previousTheme m')\<rparr>)
          (applyTheme E (ny_previousTheme m) (m\<lparr>ny_themePicking := False\<rparr>))
      else if ny_Matches E k [''j'', ''down''] then
        (if ny_themeIndex m < int (length (ny_themeList m)) - 1 then select_theme E (ny_themeIndex m + 1) m else Some m)
      else if ny_Matches E k [''k'', ''up''] then
        (if ny_themeIndex m > 0 then select_theme E (ny_themeIndex m - 1) m else Some m)
      else Some m)"

datatype 'k tea_msg = WindowSizeMsg int int | TeaMsg "'k msg"

datatype tea_cmd = NoCmd | Quit

text \<open>What the viewport gets of a message.\<close>

fun viewport_msg :: "'k tea_msg \<Rightarrow> 'k msg" where
  "viewport_msg (WindowSizeMsg w h) = OtherMsg"
| "viewport_msg (TeaMsg msg) = msg"

text \<open>The keys of the model itself: the action on them, and the keys of the two that quit.\<close>

definition own_key ::
  "('k, 'g, 's, 'c, 'm, 'x) nyaml_env \<Rightarrow> 'k \<Rightarrow> ('f, 'o, 'c, 'x) nyaml \<Rightarrow> ('f, 'o, 'c, 'x) nyaml option" where
  "own_key E k m =
     (let vp = ny_viewport m in
      if ny_Matches E k [''t''] then Some (m\<lparr>ny_themePicking := True, ny_previousTheme := ny_currentTheme m\<rparr>)
      else if ny_Matches E k [''/''] then Some (m\<lparr>ny_searching := True, ny_searchInput := []\<rparr>)
      else if ny_Matches E k [''n''] then map_option (\<lambda>vp. m\<lparr>ny_viewport := vp\<rparr>) (SearchNext vp)
      else if ny_Matches E k [''N''] then map_option (\<lambda>vp. m\<lparr>ny_viewport := vp\<rparr>) (SearchPrevious vp)
      else if ny_Matches E k [''esc''] then map_option (\<lambda>vp. m\<lparr>ny_viewport := vp\<rparr>) (ClearSearch (ny_search E) vp)
      else if ny_Matches E k [''g''] then Some (m\<lparr>ny_viewport := GotoTop vp\<rparr>)
      else if ny_Matches E k [''G''] then Some (m\<lparr>ny_viewport := GotoBottom vp\<rparr>)
      else Some m)"

text \<open>\<open>Update\<close>. The viewport returns no command.\<close>

definition nyaml_Update ::
  "('k, 'g, 's, 'c, 'm, 'x) nyaml_env \<Rightarrow> 'k tea_msg \<Rightarrow> ('f, 'o, 'c, 'x) nyaml \<Rightarrow> (('f, 'o, 'c, 'x) nyaml \<times> tea_cmd) option" where
  "nyaml_Update E msg m =
     (let forward = (\<lambda>m. map_option (\<lambda>vp. (m\<lparr>ny_viewport := vp\<rparr>, NoCmd))
        (Update (ny_search E) (ny_Matches E) DefaultKeyMap (viewport_msg msg) (ny_viewport m))) in
      case msg of
        WindowSizeMsg w h \<Rightarrow> do {
          vp \<leftarrow> SetWidth (ny_search E) w (ny_viewport m);
          forward (m\<lparr>ny_width := w, ny_height := h, ny_viewport := SetHeight (h - 2) vp\<rparr>) }
      | TeaMsg (KeyPressMsg k) \<Rightarrow>
          if ny_themePicking m then map_option (\<lambda>m'. (m', NoCmd)) (updateThemeInput E k m)
          else if ny_searching m then map_option (\<lambda>m'. (m', NoCmd)) (updateSearchInput E k m)
          else if ny_Matches E k [''q'', ''ctrl+c''] then Some (m, Quit)
          else Option.bind (own_key E k m) forward
      | _ \<Rightarrow> forward m)"

end
