(* ===== verification/Nyaml_View.thy ===== *)
theory Nyaml_View
  imports Nyaml
begin

text \<open>
  The view of \<open>nyaml\<close> (\<open>cmd/nyaml/model.go\<close>): the title line, the text line, the theme overlay and \<open>View\<close>. What
  lipgloss renders, measures and places is the record \<open>painter\<close>; \<open>pa_screen\<close> is the terminal of the viewport with a
  printer. \<open>pa_percent\<close> is the floating point value \<open>p * 100\<close>, truncated, of a scroll position \<open>p\<close> given as a fraction.
\<close>

record ('f, 'o, 'c, 'x, 't, 'g, 's) painter =
  pa_style :: "('g, 's) lipgloss_read"
  pa_screen :: "('c, 'x) printer \<Rightarrow> ('f, 'o, 't) screen"
  pa_percent :: "int \<times> int \<Rightarrow> int"
  pa_SetForeground :: "'s \<Rightarrow> 'g option \<Rightarrow> 's"
  pa_SetBackground :: "'s \<Rightarrow> 'g option \<Rightarrow> 's"
  pa_Inline :: "'s \<Rightarrow> 's"
  pa_Render :: "'s \<Rightarrow> string \<Rightarrow> string"
  pa_Width :: "string \<Rightarrow> int"
  pa_Height :: "string \<Rightarrow> int"
  pa_PlaceRight :: "int \<Rightarrow> string \<Rightarrow> string"
  pa_SetWidth :: "'s \<Rightarrow> int \<Rightarrow> 's"
  pa_SetHeight :: "'s \<Rightarrow> int \<Rightarrow> 's"
  pa_Border :: "'s \<Rightarrow> 'g option \<Rightarrow> 'g option \<Rightarrow> 's"
  pa_Padding :: "'s \<Rightarrow> int \<Rightarrow> int \<Rightarrow> 's"
  pa_JoinVertical :: "string list \<Rightarrow> string"
  pa_Compose :: "string \<Rightarrow> string \<Rightarrow> int \<Rightarrow> int \<Rightarrow> string"

section \<open>The title line\<close>

text \<open>The powerline glyph U+E0B0.\<close>

definition powerline_glyph :: string where
  "powerline_glyph = [CHR 0xEE, CHR 0x82, CHR 0xB0]"

definition powerlineSep :: "('f, 'o, 'c, 'x, 't, 'g, 's) painter \<Rightarrow> 's \<Rightarrow> 's \<Rightarrow> string" where
  "powerlineSep P from to =
     pa_Render P
       (pa_SetBackground P
         (pa_SetForeground P (lg_NewStyle (pa_style P)) (lg_GetBackground (pa_style P) from))
         (lg_GetBackground (pa_style P) to))
       powerline_glyph"

record title_segment =
  ts_text :: string
  ts_styleKey :: style

definition revisionInfo :: "('f, 'o, 'b) model \<Rightarrow> string" where
  "revisionInfo vp =
     (if RevisionCount vp > 1 then
        let idx = RevisionIndex vp; count = RevisionCount vp in
        if IsShowingDiff vp then
          let modeIndicator = (if m_diffMode vp = DiffModeOrigin then '' origin'' else []) in
          ''diff '' @ itoa idx @ ''/'' @ itoa count @ modeIndicator
        else if m_diffMode vp = DiffModeNone \<and> idx > 0 \<and> idx < count then
          ''rev '' @ itoa (idx + 1) @ ''/'' @ itoa count @ '' none''
        else if IsAtLatestRevision vp then ''rev '' @ itoa count @ ''/'' @ itoa count
        else ''rev '' @ itoa (idx + 1) @ ''/'' @ itoa count
      else [])"

definition title_segments ::
  "('f, 'o, 'c, 'x, 't, 'g, 's) painter \<Rightarrow> ('f, 'o, 'c, 'x) nyaml \<Rightarrow> int \<times> int \<Rightarrow> title_segment list" where
  "title_segments P m = (\<lambda>(added, removed).
     let vp = ny_viewport m;
         revInfo = revisionInfo vp;
         titleText = (if revInfo \<noteq> [] then '' '' @ revInfo @ '' ['' @ itoa (m_yOffset vp + 1) @ ''] ''
           else '' ['' @ itoa (m_yOffset vp + 1) @ ''] '');
         linesText = '' '' @ itoa (lineCount vp) @ '' lines '';
         segments = [
           \<lparr>ts_text = '' nyaml '', ts_styleKey = style_GenericHeading\<rparr>,
           \<lparr>ts_text = '' +'' @ itoa added @ '' '', ts_styleKey = style_GenericHeadingOK\<rparr>,
           \<lparr>ts_text = '' -'' @ itoa removed @ '' '', ts_styleKey = style_GenericHeadingError\<rparr>,
           \<lparr>ts_text = linesText, ts_styleKey = style_GenericHeadingWarn\<rparr>,
           \<lparr>ts_text = titleText, ts_styleKey = style_GenericHeadingAccent\<rparr>];
         usedWidth = sum_list (map (\<lambda>seg. pa_Width P (ts_text seg) + 1) segments);
         subtitleLeft = '' '' @ ny_currentTheme m @ '' '';
         subtitleRight = (if length (m_searchMatches vp) > 0
           then itoa (m_searchIndex vp + 1) @ ''/'' @ itoa (int (length (m_searchMatches vp))) @ '' matches ''
           else itoa (pa_percent P (ScrollPercent vp)) @ ''% '');
         subtitleContent = subtitleLeft @
           pa_PlaceRight P (max 0 (ny_width m - usedWidth - pa_Width P subtitleLeft)) subtitleRight
     in segments @ [\<lparr>ts_text = subtitleContent, ts_styleKey = style_GenericHeadingSubtle\<rparr>])"

text \<open>Rendering the segments, each followed by the separator to the next, the last by that to the text.\<close>

fun render_segments :: "('f, 'o, 'c, 'x, 't, 'g, 's) painter \<Rightarrow> (style \<Rightarrow> 's) \<Rightarrow> title_segment list \<Rightarrow> string" where
  "render_segments P sty [] = []"
| "render_segments P sty (seg # segs) =
     pa_Render P (pa_Inline P (sty (ts_styleKey seg))) (ts_text seg) @
     (case segs of [] \<Rightarrow> [] | next # _ \<Rightarrow> powerlineSep P (sty (ts_styleKey seg)) (sty (ts_styleKey next))) @
     render_segments P sty segs"

text \<open>\<open>styles, _ := theme.Styles(name)\<close> and its look-ups.\<close>

definition style_lookup ::
  "('k, 'g, 's, 'c, 'm, 'x) nyaml_env \<Rightarrow> ('f, 'o, 'c, 'x, 't, 'g, 's) painter \<Rightarrow> string \<Rightarrow> (style \<Rightarrow> 's) option" where
  "style_lookup E P name =
     map_option (\<lambda>(styles, _). styles_Style (lg_NewStyle (pa_style P)) styles) (theme_Styles E name)"

definition titleLine ::
  "('k, 'g, 's, 'c, 'm, 'x) nyaml_env \<Rightarrow> ('f, 'o, 'c, 'x, 't, 'g, 's) painter \<Rightarrow> ('f, 'o, 'c, 'x) nyaml \<Rightarrow> string option" where
  "titleLine E P m = do {
     sty \<leftarrow> style_lookup E P (ny_currentTheme m);
     stats \<leftarrow> DiffStats (ny_viewport m);
     let segments = title_segments P m stats;
     Some (render_segments P sty segments @
       powerlineSep P (sty (ts_styleKey (last segments))) (sty style_Text)) }"

section \<open>The text line\<close>

definition diffModeLabel :: "('f, 'o, 'c, 'x) nyaml \<Rightarrow> string" where
  "diffModeLabel m = (case m_diffMode (ny_viewport m) of
     DiffModeAdjacent \<Rightarrow> ''adjacent'' | DiffModeOrigin \<Rightarrow> ''origin'' | _ \<Rightarrow> ''no diff'')"

definition viewModeLabel :: "('f, 'o, 'c, 'x) nyaml \<Rightarrow> string" where
  "viewModeLabel m = (case m_viewMode (ny_viewport m) of
     ViewModeHunks \<Rightarrow> ''hunks'' | ViewModeSideBySide \<Rightarrow> ''side-by-side'' | _ \<Rightarrow> ''full'')"

text \<open>\<open>VisibleLineCount\<close> of the viewport.\<close>

definition VisibleLineCount :: "('f, 'o, 't) screen \<Rightarrow> ('f, 'o, 'b) model \<Rightarrow> int option" where
  "VisibleLineCount sc vp = map_option (\<lambda>ls. int (length ls)) (visibleLines sc vp [])"

text \<open>The dot between the swatches is U+00B7.\<close>

definition swatch_separator :: string where
  "swatch_separator = [CHR '' '', CHR 0xC2, CHR 0xB7, CHR '' '']"

definition search_label :: "('f, 'o, 'b) model \<Rightarrow> string" where
  "search_label vp =
     (if length (m_searchMatches vp) > 0
      then itoa (m_searchIndex vp + 1) @ ''/'' @ itoa (int (length (m_searchMatches vp)))
      else if m_searchTerm vp \<noteq> [] then ''0/0'' else ''/'')"

definition pad_to_width ::
  "('f, 'o, 'c, 'x, 't, 'g, 's) painter \<Rightarrow> 's \<Rightarrow> int \<Rightarrow> string \<Rightarrow> string" where
  "pad_to_width P textStyle width content =
     content @ pa_Render P textStyle (spaces (nat (max 0 (width - pa_Width P content))))"

definition textLine ::
  "('k, 'g, 's, 'c, 'm, 'x) nyaml_env \<Rightarrow> ('f, 'o, 'c, 'x, 't, 'g, 's) painter \<Rightarrow> ('f, 'o, 'c, 'x) nyaml \<Rightarrow> string option" where
  "textLine E P m = do {
     sty \<leftarrow> style_lookup E P (ny_currentTheme m);
     let textStyle = pa_Inline P (sty style_Text);
     let vp = ny_viewport m;
     (if ny_searching m then
        let searchContent = pa_Render P (pa_Inline P (sty style_TextAccentDim)) (''/'' @ ny_searchInput m)
        in Some (pad_to_width P textStyle (ny_width m) searchContent)
      else do {
        name \<leftarrow> RevisionName vp;
        visible \<leftarrow> VisibleLineCount (pa_screen P (ny_printer m)) vp;
        let swatches = [
          (name, style_TextAccentDim),
          (search_label vp, style_TextAccent),
          (diffModeLabel m, style_TextOK),
          (viewModeLabel m, style_TextWarn),
          (if m_WrapEnabled vp then ''wrap'' else ''no wrap'', style_TextError),
          (itoa visible @ ''/'' @ itoa (lineCount vp), style_TextSubtleDim),
          (''col '' @ itoa (m_xOffset vp), style_TextSubtle)];
        let sep = pa_Render P (pa_Inline P (sty style_TextSubtleDim)) swatch_separator;
        let rendered = map (\<lambda>(label, key). pa_Render P (pa_Inline P (sty key)) ('' '' @ label @ '' '')) swatches;
        Some (pad_to_width P textStyle (ny_width m) (join sep rendered)) }) }"

section \<open>The theme overlay\<close>

text \<open>Go's division by a positive number truncates.\<close>

definition go_quot :: "int \<Rightarrow> int \<Rightarrow> int" where
  "go_quot a b = (if a < 0 then - ((- a) div b) else a div b)"

text \<open>Height of the overlay and number of its rows: an odd number, so that a row is in the middle.\<close>

definition overlay_size :: "int \<Rightarrow> int \<Rightarrow> int \<times> int \<times> int" where
  "overlay_size width height =
     (let overlayWidth = max 30 (go_quot width 4);
          overlayHeight = max 10 (go_quot height 4);
          visibleItems = overlayHeight - 4
      in if visibleItems mod 2 = 0 then (overlayWidth, overlayHeight + 1, visibleItems + 1)
         else (overlayWidth, overlayHeight, visibleItems))"

definition scroll_offset :: "int \<Rightarrow> int \<Rightarrow> int \<Rightarrow> int" where
  "scroll_offset len visibleItems themeIndex =
     (let maxScroll = max 0 (len - visibleItems) in min maxScroll (max 0 (themeIndex - half visibleItems)))"

definition overlay_name :: "int \<Rightarrow> string \<Rightarrow> string" where
  "overlay_name overlayWidth name =
     (let maxNameLen = overlayWidth - 6 in
      if int (length name) > maxNameLen then take (nat (maxNameLen - 1)) name @ ''~'' else name)"

text \<open>The rows of the list: the loop from the scroll offset, as many as are visible.\<close>

definition overlay_items :: "string list \<Rightarrow> int \<Rightarrow> int \<Rightarrow> int \<Rightarrow> string list" where
  "overlay_items themeList themeIndex width height =
     (let (overlayWidth, _, visibleItems) = overlay_size width height;
          from = scroll_offset (int (length themeList)) visibleItems themeIndex
      in map (\<lambda>(i, name). (if int i = themeIndex then ''> '' else ''  '') @ overlay_name overlayWidth name)
           (take (nat visibleItems) (drop (nat from) (enumerate 0 themeList))))"

definition renderThemeOverlay ::
  "('k, 'g, 's, 'c, 'm, 'x) nyaml_env \<Rightarrow> ('f, 'o, 'c, 'x, 't, 'g, 's) painter \<Rightarrow> ('f, 'o, 'c, 'x) nyaml \<Rightarrow> string option" where
  "renderThemeOverlay E P m = map_option (\<lambda>sty.
     let (overlayWidth, overlayHeight, _) = overlay_size (ny_width m) (ny_height m);
         baseStyle = sty style_Text; titleStyle = sty style_GenericHeading; dimStyle = sty style_TextSubtleDim;
         content = join [LF] (overlay_items (ny_themeList m) (ny_themeIndex m) (ny_width m) (ny_height m));
         overlayStyle = pa_Padding P
           (pa_Border P (pa_SetHeight P (pa_SetWidth P baseStyle overlayWidth) overlayHeight)
             (lg_GetForeground (pa_style P) titleStyle) (lg_GetBackground (pa_style P) baseStyle)) 0 1;
         contentWidth = overlayWidth - 4;
         header = pa_Render P (pa_SetWidth P titleStyle contentWidth) ''Select Theme'';
         footer = pa_Render P (pa_SetWidth P dimStyle contentWidth) (''enter select '' @ [CHR 0xC2, CHR 0xB7] @ '' esc cancel'')
     in pa_Render P overlayStyle (pa_JoinVertical P [header, content, footer]))
   (style_lookup E P (ny_currentTheme m))"

section \<open>View\<close>

definition statusBar ::
  "('k, 'g, 's, 'c, 'm, 'x) nyaml_env \<Rightarrow> ('f, 'o, 'c, 'x, 't, 'g, 's) painter \<Rightarrow> ('f, 'o, 'c, 'x) nyaml \<Rightarrow> string option" where
  "statusBar E P m = do { a \<leftarrow> titleLine E P m; b \<leftarrow> textLine E P m; Some (a @ [LF] @ b) }"

text \<open>\<open>View\<close> has a copy of the model, which shares the printer: its settings come out with the text.\<close>

definition nyaml_View ::
  "('k, 'g, 's, 'c, 'm, 'x) nyaml_env \<Rightarrow> ('f, 'o, 'c, 'x, 't, 'g, 's) painter \<Rightarrow> ('f, 'o, 'c, 'x) nyaml
    \<Rightarrow> (string \<times> print_settings) option" where
  "nyaml_View E P m = do {
     (content, settings) \<leftarrow> View (pa_screen P (ny_printer m)) (ny_viewport m);
     let m' = m\<lparr>ny_viewport := (ny_viewport m)\<lparr>m_printer := settings\<rparr>\<rparr>;
     bar \<leftarrow> statusBar E P m';
     let base = pa_JoinVertical P [content, bar];
     (if ny_themePicking m' then do {
        overlay \<leftarrow> renderThemeOverlay E P m';
        let overlayX = go_quot (ny_width m' - pa_Width P overlay) 2;
        let overlayY = go_quot (ny_height m' - pa_Height P overlay) 2;
        Some (pa_Compose P base overlay overlayX overlayY, settings) }
      else Some (base, settings)) }"

end
