(* ===== verification/Nyaml_Facts.thy ===== *)
theory Nyaml_Facts
  imports Nyaml_View Printer_Facts
begin

text \<open>
  What the viewer keeps: the invariant of its viewport, the key map, and a theme picker whose selection is the theme
  shown. Every message is handled without a panic, and every key does one thing.
\<close>

section \<open>The key map stays\<close>

lemma getDiffResult_keymap: "getDiffResult m = Some (d, m') \<Longrightarrow> m_KeyMap m' = m_KeyMap m"
  by (auto simp: getDiffResult_def Option.bind_eq_Some_conv split: option.splits)

lemma set_left_keymap [simp]: "m_KeyMap (set_left s m) = m_KeyMap m"
  by (simp add: set_left_def split: option.split pane.split)

lemma search_state_keymap:
  "updateSearchState search ls m = Some m' \<Longrightarrow> m_KeyMap m' = m_KeyMap m"
  "updateSideBySideSearchState search ls rs m = Some m' \<Longrightarrow> m_KeyMap m' = m_KeyMap m"
  by (auto simp: updateSearchState_def updateSideBySideSearchState_def clear_matches_def adjustSearchIndex_def
      Option.bind_eq_Some_conv split: if_splits)

lemma overlays_keymap:
  "applySearchOverlays m = Some m' \<Longrightarrow> m_KeyMap m' = m_KeyMap m"
  "applySideBySideOverlays m = Some m' \<Longrightarrow> m_KeyMap m' = m_KeyMap m"
  by (auto simp: applySearchOverlays_def applySideBySideOverlays_def Option.bind_eq_Some_conv
      split: if_splits option.splits)

lemma rerender_keymap: "rerender search m = Some m' \<Longrightarrow> m_KeyMap m' = m_KeyMap m"
  by (auto simp: rerender_def getDisplayLines_def Let_def case_prod_unfold Option.bind_eq_Some_conv
      dest!: getDiffResult_keymap search_state_keymap overlays_keymap split: if_splits option.splits)

lemma scroll_keymap [simp]:
  "m_KeyMap (SetYOffset n m) = m_KeyMap m" "m_KeyMap (SetXOffset n m) = m_KeyMap m"
  "m_KeyMap (ScrollDown n m) = m_KeyMap m" "m_KeyMap (ScrollUp n m) = m_KeyMap m"
  "m_KeyMap (PageDown m) = m_KeyMap m" "m_KeyMap (PageUp m) = m_KeyMap m"
  "m_KeyMap (HalfPageDown m) = m_KeyMap m" "m_KeyMap (HalfPageUp m) = m_KeyMap m"
  "m_KeyMap (ScrollLeft n m) = m_KeyMap m" "m_KeyMap (ScrollRight n m) = m_KeyMap m"
  "m_KeyMap (GotoTop m) = m_KeyMap m" "m_KeyMap (GotoBottom m) = m_KeyMap m"
  "m_KeyMap (scrollToCurrentMatch m) = m_KeyMap m" "m_KeyMap (SetHeight n m) = m_KeyMap m"
  "m_KeyMap (updatePrinterWidth m) = m_KeyMap m"
  by (simp_all add: SetYOffset_def SetXOffset_def ScrollDown_def ScrollUp_def PageDown_def PageUp_def HalfPageDown_def
      HalfPageUp_def ScrollLeft_def ScrollRight_def GotoTop_def GotoBottom_def scrollToCurrentMatch_def SetHeight_def
      updatePrinterWidth_def)

lemma operations_keymap:
  "SetWidth search w m = Some m' \<Longrightarrow> m_KeyMap m' = m_KeyMap m"
  "SetPrinter search p m = Some m' \<Longrightarrow> m_KeyMap m' = m_KeyMap m"
  "AddRevision search s m = Some m' \<Longrightarrow> m_KeyMap m' = m_KeyMap m"
  "seekRevision search n m = Some m' \<Longrightarrow> m_KeyMap m' = m_KeyMap m"
  "ToggleDiffMode search m = Some m' \<Longrightarrow> m_KeyMap m' = m_KeyMap m"
  "ToggleViewMode search m = Some m' \<Longrightarrow> m_KeyMap m' = m_KeyMap m"
  "ToggleWordWrap search m = Some m' \<Longrightarrow> m_KeyMap m' = m_KeyMap m"
  "SetSearchTerm search t m = Some m' \<Longrightarrow> m_KeyMap m' = m_KeyMap m"
  "ClearSearch search m = Some m' \<Longrightarrow> m_KeyMap m' = m_KeyMap m"
  "navigateSearch n m = Some m' \<Longrightarrow> m_KeyMap m' = m_KeyMap m"
  by (auto simp: SetWidth_def SetPrinter_def AddRevision_def seekRevision_def ToggleDiffMode_def ToggleViewMode_def
      ToggleWordWrap_def SetSearchTerm_def ClearSearch_def navigateSearch_def Let_def Option.bind_eq_Some_conv
      dest!: rerender_keymap overlays_keymap split: if_splits option.splits)

lemma Update_keymap: "Update search mt km msg m = Some m' \<Longrightarrow> m_initialized m \<Longrightarrow> m_KeyMap m' = m_KeyMap m"
  by (auto simp: Update_def key_action_def wheel_action_def NextRevision_def PrevRevision_def Let_def
      dest: operations_keymap split: msg.splits if_splits wheel.splits)

section \<open>Themes of the picker\<close>

lemma theme_list_names: "set (theme_list E) = {th_Name t |t. t \<in> set (themes (ny_lipgloss E)) \<and> th_Mode t = Dark}"
  by (auto simp: theme_list_def List_themes_def)

lemma charm_in_theme_list: "''charm'' \<in> set (theme_list E)"
proof -
  have "builtin_theme (Charm (ny_lipgloss E)) ''charm'' Dark \<in> set (themes (ny_lipgloss E))"
    unfolding themes_def by (simp_all only: list.set insert_iff simp_thms)
  then show ?thesis unfolding theme_list_names by (force simp only: mem_Collect_eq theme.select_convs)
qed

lemma theme_Styles_listed:
  assumes "name \<in> set (theme_list E)"
  shows "\<exists>styles. theme_Styles E name = Some (styles, True) \<and> dom styles = set predefined_styles"
proof -
  obtain t where t: "t \<in> set (themes (ny_lipgloss E))" "th_Name t = name"
    using assms unfolding theme_list_names by blast
  then obtain f where f: "th_Styles t = Some f" "dom (f ()) = set predefined_styles"
    using themes_complete [of "ny_lipgloss E"] by (auto simp: list_all_iff theme_complete_def split: option.splits)
  have "List.find (\<lambda>t'. th_Name t' = name) (themes (ny_lipgloss E)) = Some t"
    using find_theme_name [OF theme_names_distinct t(1)] t(2) by simp
  with f show ?thesis by (simp add: theme_Styles_def Styles_theme_def)
qed

lemma slice_index_nth:
  assumes "x \<in> set xs"
  shows "0 \<le> slice_index xs x \<and> slice_index xs x < int (length xs) \<and> xs ! nat (slice_index xs x) = x"
proof -
  obtain i where "find_index (\<lambda>y. y = x) xs = Some i"
    using assms find_index_None [of "\<lambda>y. y = x" xs] by (cases "find_index (\<lambda>y. y = x) xs") auto
  then show ?thesis using find_index_Some [of "\<lambda>y. y = x" xs i] by (auto simp: slice_index_def)
qed

text \<open>The styles a theme makes are in the heap, and searching is that of the finder.\<close>

definition env_ok :: "adder \<Rightarrow> (string \<Rightarrow> string) \<Rightarrow> ('k, 'g, 's, 'c, 'm, 'x) nyaml_env \<Rightarrow> bool" where
  "env_ok add nrm E \<longleftrightarrow> ny_search E = finder_search add nrm
     \<and> (\<forall>styles. styles style_Text \<noteq> None \<longrightarrow> deref (ny_heap E) (ny_pointers E styles style_Text) \<noteq> None)"

lemma theme_printer_listed:
  assumes "env_ok add nrm E" "name \<in> set (theme_list E)"
  shows "\<exists>p. theme_printer E lineNumbers name = Some p \<and> pt_wordWrap p"
proof -
  obtain styles where st: "theme_Styles E name = Some (styles, True)" "dom styles = set predefined_styles"
    using theme_Styles_listed [OF assms(2)] by blast
  then have "style_Text \<in> dom styles" using style_Text_predefined by simp
  then obtain ls where "deref (ny_heap E) (ny_pointers E styles style_Text) = Some ls"
    using assms(1) by (auto simp: env_ok_def)
  then show ?thesis
    by (simp add: theme_printer_def buildPrinterOpts_def st(1) NewPrinter_def WithGutter_def WithStyles_def Let_def)
qed

section \<open>The invariant\<close>

definition nyaml_inv ::
  "(string \<Rightarrow> string) \<Rightarrow> ('k, 'g, 's, 'c, 'm, 'x) nyaml_env \<Rightarrow> ('f, 'o, 'c, 'x) nyaml \<Rightarrow> bool" where
  "nyaml_inv nrm E m \<longleftrightarrow> vinv (searchable nrm) (ny_search E) (ny_viewport m)
     \<and> m_KeyMap (ny_viewport m) = DefaultKeyMap
     \<and> ny_themeList m = theme_list E
     \<and> 0 \<le> ny_themeIndex m \<and> ny_themeIndex m < int (length (ny_themeList m))
     \<and> ny_themeList m ! nat (ny_themeIndex m) = ny_currentTheme m
     \<and> (ny_themePicking m \<longrightarrow> ny_previousTheme m \<in> set (ny_themeList m))
     \<and> \<not> (ny_searching m \<and> ny_themePicking m)"

text \<open>A step of the viewport that keeps its part of the invariant keeps the whole.\<close>

definition vp_safe :: "(string \<Rightarrow> string) \<Rightarrow> ('k, 'g, 's, 'c, 'm, 'x) nyaml_env \<Rightarrow> ('f, 'o, string list) model option \<Rightarrow> bool" where
  "vp_safe nrm E r \<longleftrightarrow> (\<exists>vp. r = Some vp \<and> vinv (searchable nrm) (ny_search E) vp \<and> m_KeyMap vp = DefaultKeyMap)"

lemma nyaml_inv_viewport:
  "nyaml_inv nrm E m \<Longrightarrow> vinv (searchable nrm) (ny_search E) vp \<Longrightarrow> m_KeyMap vp = DefaultKeyMap \<Longrightarrow>
     nyaml_inv nrm E (m\<lparr>ny_viewport := vp\<rparr>)"
  unfolding nyaml_inv_def by auto

lemma performs:
  assumes "env_ok add nrm E" "nyaml_inv nrm E m" "command_ok (searchable nrm) c"
    and "perform (ny_search E) mt km c (ny_viewport m) = r"
    and "\<And>vp. r = Some vp \<Longrightarrow> m_KeyMap vp = m_KeyMap (ny_viewport m)"
  shows "vp_safe nrm E r"
  using library_finder.perform_safe [of nrm add "ny_viewport m" c mt km] assms
  by (auto simp: env_ok_def nyaml_inv_def safe_result_def vp_safe_def)

lemma viewport_safe:
  assumes "env_ok add nrm E" "nyaml_inv nrm E m"
  shows "vp_safe nrm E (SetWidth (ny_search E) w (ny_viewport m))"
    "vp_safe nrm E (SetPrinter (ny_search E) p (ny_viewport m))"
    "vp_safe nrm E (AddRevision (ny_search E) s (ny_viewport m))"
    "vp_safe nrm E (ClearSearch (ny_search E) (ny_viewport m))"
    "vp_safe nrm E (SearchNext (ny_viewport m))" "vp_safe nrm E (SearchPrevious (ny_viewport m))"
    "vp_safe nrm E (Some (GotoTop (ny_viewport m)))" "vp_safe nrm E (Some (GotoBottom (ny_viewport m)))"
    "vp_safe nrm E (Some (SetHeight h (ny_viewport m)))"
    "t = [] \<or> searchable nrm t \<Longrightarrow> vp_safe nrm E (SetSearchTerm (ny_search E) t (ny_viewport m))"
    "vp_safe nrm E (Update (ny_search E) (ny_Matches E) DefaultKeyMap msg (ny_viewport m))"
proof -
  note p = performs [OF assms]
  show "vp_safe nrm E (SetWidth (ny_search E) w (ny_viewport m))"
    by (rule p [of "CSetWidth w"]) (simp_all add: operations_keymap)
  show "vp_safe nrm E (SetPrinter (ny_search E) p (ny_viewport m))"
    by (rule p [of "CSetPrinter p"]) (simp_all add: operations_keymap)
  show "vp_safe nrm E (AddRevision (ny_search E) s (ny_viewport m))"
    by (rule p [of "CAddRevision s"]) (simp_all add: operations_keymap)
  show "vp_safe nrm E (ClearSearch (ny_search E) (ny_viewport m))"
    by (rule p [of CClearSearch]) (simp_all add: operations_keymap)
  show "vp_safe nrm E (SearchNext (ny_viewport m))"
    by (rule p [of CSearchNext]) (simp_all add: SearchNext_def operations_keymap)
  show "vp_safe nrm E (SearchPrevious (ny_viewport m))"
    by (rule p [of CSearchPrevious]) (simp_all add: SearchPrevious_def operations_keymap)
  show "vp_safe nrm E (Some (GotoTop (ny_viewport m)))"
    by (rule p [of CGotoTop]) auto
  show "vp_safe nrm E (Some (GotoBottom (ny_viewport m)))"
    by (rule p [of CGotoBottom]) auto
  show "vp_safe nrm E (Some (SetHeight h (ny_viewport m)))"
    by (rule p [of "CSetHeight h"]) auto
  show "vp_safe nrm E (SetSearchTerm (ny_search E) t (ny_viewport m))" if "t = [] \<or> searchable nrm t"
    by (rule p [of "CSetSearchTerm t"]) (use that in \<open>simp_all add: operations_keymap\<close>)
  have "m_initialized (ny_viewport m)"
    using assms(2) by (simp add: nyaml_inv_def vinv_def settled_def)
  then show "vp_safe nrm E (Update (ny_search E) (ny_Matches E) DefaultKeyMap msg (ny_viewport m))"
    by - (rule p [of "CUpdate msg" "ny_Matches E" DefaultKeyMap], simp_all add: Update_keymap)
qed

text \<open>The result of a handler: it is there and keeps the invariant.\<close>

definition ny_safe :: "(string \<Rightarrow> string) \<Rightarrow> ('k, 'g, 's, 'c, 'm, 'x) nyaml_env \<Rightarrow> ('f, 'o, 'c, 'x) nyaml option \<Rightarrow> bool" where
  "ny_safe nrm E r \<longleftrightarrow> (\<exists>m'. r = Some m' \<and> nyaml_inv nrm E m')"

lemma ny_safe_Some [simp]: "ny_safe nrm E (Some m) \<longleftrightarrow> nyaml_inv nrm E m"
  by (simp add: ny_safe_def)

lemma ny_safe_viewport:
  "vp_safe nrm E r \<Longrightarrow> nyaml_inv nrm E m \<Longrightarrow> ny_safe nrm E (map_option (\<lambda>vp. m\<lparr>ny_viewport := vp\<rparr>) r)"
  by (auto simp: vp_safe_def ny_safe_def nyaml_inv_viewport)

lemma nyaml_inv_input:
  assumes "nyaml_inv nrm E m"
  shows "nyaml_inv nrm E (m\<lparr>ny_searchInput := s\<rparr>)" "nyaml_inv nrm E (m\<lparr>ny_searching := False\<rparr>)"
    "nyaml_inv nrm E (m\<lparr>ny_themePicking := False\<rparr>)" "nyaml_inv nrm E (m\<lparr>ny_width := w, ny_height := h\<rparr>)"
    "\<not> ny_themePicking m \<Longrightarrow> nyaml_inv nrm E (m\<lparr>ny_searching := True\<rparr>)"
    "\<not> ny_searching m \<Longrightarrow> nyaml_inv nrm E (m\<lparr>ny_themePicking := True, ny_previousTheme := ny_currentTheme m\<rparr>)"
proof -
  have "ny_currentTheme m \<in> set (ny_themeList m)"
    using assms unfolding nyaml_inv_def by (metis nat_less_iff nth_mem)
  then show "\<not> ny_searching m \<Longrightarrow> nyaml_inv nrm E (m\<lparr>ny_themePicking := True, ny_previousTheme := ny_currentTheme m\<rparr>)"
    using assms unfolding nyaml_inv_def by auto
qed (use assms in \<open>auto simp: nyaml_inv_def\<close>)

text \<open>Showing a theme of the list keeps all but the selection; the printer wraps lines whatever the viewport does.\<close>

lemma applyTheme_listed:
  assumes "env_ok add nrm E" "nyaml_inv nrm E m" "name \<in> set (theme_list E)"
  shows "\<exists>p vp. applyTheme E name m = Some (m\<lparr>ny_currentTheme := name, ny_printer := p, ny_viewport := vp\<rparr>)
     \<and> vinv (searchable nrm) (ny_search E) vp \<and> m_KeyMap vp = DefaultKeyMap
     \<and> theme_printer E (ny_lineNumbers m) name = Some p
     \<and> SetPrinter (ny_search E) (print_settings_of p) (ny_viewport m) = Some vp"
proof -
  obtain p where p: "theme_printer E (ny_lineNumbers m) name = Some p"
    using theme_printer_listed [OF assms(1,3)] by blast
  obtain vp where "SetPrinter (ny_search E) (print_settings_of p) (ny_viewport m) = Some vp"
    "vinv (searchable nrm) (ny_search E) vp" "m_KeyMap vp = DefaultKeyMap"
    using viewport_safe(2) [OF assms(1,2), of "print_settings_of p"] unfolding vp_safe_def by blast
  with p show ?thesis by (simp add: applyTheme_def)
qed

lemma applyTheme_at:
  assumes "env_ok add nrm E" "nyaml_inv nrm E m"
    and "0 \<le> i" "i < int (length (ny_themeList m))" "ny_themeList m ! nat i = name"
  shows "ny_safe nrm E (map_option (\<lambda>m'. m'\<lparr>ny_themeIndex := i\<rparr>) (applyTheme E name m))"
proof -
  have list: "ny_themeList m = theme_list E" using assms(2) by (simp add: nyaml_inv_def)
  then have "name \<in> set (theme_list E)" using assms(3-5) by auto
  from applyTheme_listed [OF assms(1,2) this] show ?thesis
    using assms(2-5) list by (auto simp: nyaml_inv_def)
qed

lemma select_theme_safe:
  assumes "env_ok add nrm E" "nyaml_inv nrm E m" "0 \<le> i" "i < int (length (ny_themeList m))"
  shows "ny_safe nrm E (select_theme E i m)"
proof -
  have "applyTheme E n (m\<lparr>ny_themeIndex := i\<rparr>) = map_option (\<lambda>m'. m'\<lparr>ny_themeIndex := i\<rparr>) (applyTheme E n m)" for n
    by (auto simp: applyTheme_def split: Option.bind_splits)
  then show ?thesis
    using applyTheme_at [OF assms refl] assms(3,4) slice_get_of_nat [of "nat i" "ny_themeList m"]
    by (simp add: select_theme_def nat_less_iff)
qed

lemma updateThemeInput_safe:
  assumes "env_ok add nrm E" "nyaml_inv nrm E m" "ny_themePicking m"
  shows "ny_safe nrm E (updateThemeInput E k m)"
proof -
  let ?m = "m\<lparr>ny_themePicking := False\<rparr>"
  have prev: "ny_previousTheme m \<in> set (ny_themeList m)" using assms(2,3) unfolding nyaml_inv_def by blast
  note inv = nyaml_inv_input(3) [OF assms(2)]
  have "ny_themeList m = theme_list E" using assms(2) by (simp add: nyaml_inv_def)
  with prev obtain p vp where a: "applyTheme E (ny_previousTheme m) ?m =
      Some (?m\<lparr>ny_currentTheme := ny_previousTheme m, ny_printer := p, ny_viewport := vp\<rparr>)"
    using applyTheme_listed [OF assms(1) inv, of "ny_previousTheme m"] by auto
  have "ny_safe nrm E (map_option (\<lambda>m'. m'\<lparr>ny_themeIndex := slice_index (ny_themeList m) (ny_previousTheme m)\<rparr>)
      (applyTheme E (ny_previousTheme m) ?m))"
    by (rule applyTheme_at [OF assms(1) inv]) (use slice_index_nth [OF prev] in simp_all)
  then show ?thesis
    using assms inv select_theme_safe [OF assms(1,2)] a
    by (auto simp: updateThemeInput_def nyaml_inv_def [of _ _ m])
qed

lemma updateSearchInput_safe:
  assumes "env_ok add nrm E" "nyaml_inv nrm E m"
    and "ny_Matches E k [''enter''] \<longrightarrow> ny_searchInput m = [] \<or> searchable nrm (ny_searchInput m)"
  shows "ny_safe nrm E (updateSearchInput E k m)"
proof -
  note inv = nyaml_inv_input [OF assms(2)]
  have "vp_safe nrm E (SetSearchTerm (ny_search E) (ny_searchInput m) (ny_viewport m))" if "ny_Matches E k [''enter'']"
    by (rule viewport_safe(10) [OF assms(1,2)]) (use that assms(3) in blast)
  then have "ny_safe nrm E (applySearch E (ny_searchInput m) (m\<lparr>ny_searching := False\<rparr>))" if "ny_Matches E k [''enter'']"
    using ny_safe_viewport [OF _ inv(2)] that by (simp add: applySearch_def)
  then show ?thesis
    using assms(2) inv(1) nyaml_inv_input(1) [OF inv(2)] by (auto simp: updateSearchInput_def)
qed

lemma own_key_safe:
  assumes "env_ok add nrm E" "nyaml_inv nrm E m" "\<not> ny_searching m" "\<not> ny_themePicking m"
  shows "ny_safe nrm E (own_key E k m)"
proof -
  note inv = nyaml_inv_input [OF assms(2)]
  have "ny_safe nrm E (Some (m\<lparr>ny_viewport := vp\<rparr>))" if "vp_safe nrm E (Some vp)" for vp
    using ny_safe_viewport [OF that assms(2)] by simp
  then show ?thesis
    using assms inv(5,6) nyaml_inv_input(1) [OF inv(5)] viewport_safe [OF assms(1,2)] ny_safe_viewport [OF _ assms(2)]
    by (auto simp: own_key_def Let_def simp del: ny_safe_Some) (simp_all only: ny_safe_Some)
qed

section \<open>Reachable states\<close>

text \<open>
  Confirming a search whose text normalizes to nothing does not return (theory Finder); every other message is
  admitted.
\<close>

definition msg_ok :: "(string \<Rightarrow> string) \<Rightarrow> ('k, 'g, 's, 'c, 'm, 'x) nyaml_env \<Rightarrow> ('f, 'o, 'c, 'x) nyaml \<Rightarrow> 'k tea_msg \<Rightarrow> bool" where
  "msg_ok nrm E m msg \<longleftrightarrow> (case msg of
     TeaMsg (KeyPressMsg k) \<Rightarrow> ny_searching m \<and> ny_Matches E k [''enter''] \<longrightarrow>
       ny_searchInput m = [] \<or> searchable nrm (ny_searchInput m)
   | _ \<Rightarrow> True)"

text \<open>\<open>Update\<close> with any message and \<open>View\<close>, which may set the width of the shared printer.\<close>

inductive nyaml_reach ::
  "(string \<Rightarrow> string) \<Rightarrow> ('k, 'g, 's, 'c, 'm, 'x) nyaml_env \<Rightarrow> ('f, 'o, 'c, 'x, 't, 'g, 's) painter \<Rightarrow> ('f, 'o, 'c, 'x) nyaml \<Rightarrow> bool"
  for nrm E P where
  reach_new: "mo_search opts = [] \<or> searchable nrm (mo_search opts) \<Longrightarrow> newModel E opts = Some m \<Longrightarrow> nyaml_reach nrm E P m"
| reach_Update: "nyaml_reach nrm E P m \<Longrightarrow> msg_ok nrm E m msg \<Longrightarrow> nyaml_Update E msg m = Some (m', cmd) \<Longrightarrow> nyaml_reach nrm E P m'"
| reach_View: "nyaml_reach nrm E P m \<Longrightarrow> nyaml_View E P m = Some (out, settings) \<Longrightarrow>
     nyaml_reach nrm E P (m\<lparr>ny_viewport := (ny_viewport m)\<lparr>m_printer := settings\<rparr>\<rparr>)"

inductive_cases nyaml_reachE: "nyaml_reach nrm E P m"

lemma nyaml_Update_safe:
  fixes m :: "('f, 'o, 'c, 'x) nyaml"
  assumes "env_ok add nrm E" "nyaml_inv nrm E m" "msg_ok nrm E m msg"
  shows "\<exists>m' cmd. nyaml_Update E msg m = Some (m', cmd) \<and> nyaml_inv nrm E m'"
proof -
  let ?fwd = "\<lambda>m. map_option (\<lambda>vp. (m\<lparr>ny_viewport := vp\<rparr>, NoCmd))
    (Update (ny_search E) (ny_Matches E) DefaultKeyMap (viewport_msg msg) (ny_viewport m))"
  have fwd: "\<exists>m' cmd. ?fwd m = Some (m', cmd) \<and> nyaml_inv nrm E m'" if "nyaml_inv nrm E m" for m :: "('f, 'o, 'c, 'x) nyaml"
    using viewport_safe(11) [OF assms(1) that, of "viewport_msg msg"] that by (auto simp: vp_safe_def nyaml_inv_viewport)
  show ?thesis
  proof (cases msg)
    case (WindowSizeMsg w h)
    obtain vp where vp: "SetWidth (ny_search E) w (ny_viewport m) = Some vp" "nyaml_inv nrm E (m\<lparr>ny_viewport := vp\<rparr>)"
      using viewport_safe(1) [OF assms(1,2), of w] nyaml_inv_viewport [OF assms(2)] unfolding vp_safe_def by blast
    have "nyaml_inv nrm E (m\<lparr>ny_viewport := SetHeight (h - 2) vp\<rparr>)"
      using ny_safe_viewport [OF viewport_safe(9) [OF assms(1) vp(2)] vp(2), of "h - 2"] by simp
    from fwd [OF nyaml_inv_input(4) [OF this, of h w]] show ?thesis
      using vp(1) WindowSizeMsg by (simp add: nyaml_Update_def)
  next
    case (TeaMsg m0)
    show ?thesis
    proof (cases m0)
      case (KeyPressMsg k)
      have "ny_safe nrm E (updateThemeInput E k m)" if "ny_themePicking m"
        by (rule updateThemeInput_safe [OF assms(1,2) that])
      moreover have "ny_safe nrm E (updateSearchInput E k m)" if "ny_searching m"
        by (rule updateSearchInput_safe [OF assms(1,2)]) (use that assms(3) TeaMsg KeyPressMsg in \<open>simp add: msg_ok_def\<close>)
      moreover have "\<exists>m' cmd. Option.bind (own_key E k m) ?fwd = Some (m', cmd) \<and> nyaml_inv nrm E m'"
        if idle: "\<not> ny_searching m" "\<not> ny_themePicking m"
      proof -
        obtain m1 where "own_key E k m = Some m1" "nyaml_inv nrm E m1"
          using own_key_safe [OF assms(1,2) idle, of k] unfolding ny_safe_def by blast
        with fwd [of m1] show ?thesis by simp
      qed
      ultimately show ?thesis
        using assms(2) TeaMsg KeyPressMsg by (auto simp: nyaml_Update_def ny_safe_def)
    qed (use fwd [OF assms(2)] TeaMsg in \<open>auto simp: nyaml_Update_def\<close>)
  qed
qed

text \<open>A new model.\<close>

lemma add_file_safe:
  fixes m :: "('f, 'o, 'c, 'x) nyaml"
  assumes "env_ok add nrm E" "nyaml_inv nrm E m"
  shows "ny_safe nrm E (add_file E m f)"
proof -
  obtain ls where "NewLines (ny_tokenize E (fe_content f)) = Some ls" using NewLines_built_any by blast
  then obtain s :: "('f, 'o) source" where "NewSourceFromString (ny_tokenize E) (fe_content f) [WithName (fp_Base (fe_path f))] = Some s"
    by (simp add: NewSourceFromString_def NewSourceFromTokens_def)
  with viewport_safe(3) [OF assms, of s] show ?thesis
    using nyaml_inv_viewport [OF assms(2)] by (auto simp: add_file_def vp_safe_def ny_safe_def)
qed

text \<open>The model before files are added.\<close>

lemma newModel_start_inv:
  fixes p :: "('c, 'x) printer"
  assumes "env_ok add nrm E"
  shows "nyaml_inv nrm E \<lparr>ny_searchInput = [], ny_currentTheme = ''charm'', ny_previousTheme = [], ny_themeList = theme_list E,
       ny_viewport = New_model DefaultKeyMap s [view_WithPrinter s] :: ('f, 'o, string list) model,
       ny_printer = p, ny_width = 0, ny_height = 0, ny_themeIndex = max 0 (slice_index (theme_list E) ''charm''),
       ny_lineNumbers = b, ny_searching = False, ny_themePicking = False\<rparr>"
proof -
  let ?vp = "New_model DefaultKeyMap s [view_WithPrinter s] :: ('f, 'o, string list) model"
  have "vinv (searchable nrm) (ny_search E) ?vp"
    using library_finder.New_model_vinv [of "[view_WithPrinter s]"] assms(1) by (simp add: env_ok_def)
  moreover have "m_KeyMap ?vp = DefaultKeyMap" by (simp add: New_model_def setInitialValues_def)
  ultimately show ?thesis using slice_index_nth [OF charm_in_theme_list [of E]] by (simp add: nyaml_inv_def)
qed

lemma newModel_safe:
  assumes "env_ok add nrm E" "mo_search opts = [] \<or> searchable nrm (mo_search opts)"
  shows "ny_safe nrm E (newModel E opts :: ('f, 'o, 'c, 'x) nyaml option)"
proof -
  obtain p where p: "theme_printer E (mo_lineNumbers opts) ''charm'' = Some p"
    using theme_printer_listed [OF assms(1) charm_in_theme_list] by blast
  let ?vp = "New_model DefaultKeyMap (print_settings_of p) [view_WithPrinter (print_settings_of p)] :: ('f, 'o, string list) model"
  let ?m = "\<lparr>ny_searchInput = [], ny_currentTheme = ''charm'', ny_previousTheme = [], ny_themeList = theme_list E,
       ny_viewport = ?vp, ny_printer = p, ny_width = 0, ny_height = 0,
       ny_themeIndex = max 0 (slice_index (theme_list E) ''charm''),
       ny_lineNumbers = mo_lineNumbers opts, ny_searching = False, ny_themePicking = False\<rparr>"
  have inv: "nyaml_inv nrm E ?m" by (rule newModel_start_inv [OF assms(1)])
  have step: "\<exists>m'. add_file E m f = Some m' \<and> nyaml_inv nrm E m'" if "nyaml_inv nrm E m" for m :: "('f, 'o, 'c, 'x) nyaml" and f
    using add_file_safe [OF assms(1) that, of f] by (simp add: ny_safe_def)
  obtain m1 where m1: "foldM (add_file E) ?m (mo_files opts) = Some m1" "nyaml_inv nrm E m1"
    using foldM_total [of "nyaml_inv nrm E" ?m "mo_files opts" "add_file E"] inv step by blast
  have "ny_safe nrm E (applySearch E (mo_search opts) m1)"
    using ny_safe_viewport [OF viewport_safe(10) [OF assms(1) m1(2) assms(2)] m1(2)] by (simp add: applySearch_def)
  then show ?thesis using m1 p by (auto simp: newModel_def Let_def)
qed

lemma nyaml_inv_printer:
  "nyaml_inv nrm E m \<Longrightarrow> env_ok add nrm E \<Longrightarrow> nyaml_inv nrm E (m\<lparr>ny_viewport := (ny_viewport m)\<lparr>m_printer := p\<rparr>\<rparr>)"
proof (rule nyaml_inv_viewport)
  assume m: "nyaml_inv nrm E m" and e: "env_ok add nrm E"
  have v: "vinv (searchable nrm) (ny_search E) (ny_viewport m)" using m by (simp add: nyaml_inv_def)
  show "vinv (searchable nrm) (ny_search E) ((ny_viewport m)\<lparr>m_printer := p\<rparr>)"
    by (rule vinv_fields [OF v]) (use v in \<open>auto simp: vinv_def settled_def revision_ok_def index_ok_def\<close>)
qed (auto simp: nyaml_inv_def)

lemma nyaml_reach_inv:
  fixes m :: "('f, 'o, 'c, 'x) nyaml"
  assumes "nyaml_reach nrm E P m" "env_ok add nrm E"
  shows "nyaml_inv nrm E m"
  using assms
proof (induction rule: nyaml_reach.induct)
  case (reach_new opts m)
  then have "ny_safe nrm E (newModel E opts :: ('f, 'o, 'c, 'x) nyaml option)" by - (rule newModel_safe)
  with reach_new show ?case by simp
next
  case (reach_Update m msg m' cmd)
  then show ?case using nyaml_Update_safe [of add nrm E m msg] by auto
next
  case (reach_View m out settings)
  then show ?case using nyaml_inv_printer by blast
qed

text \<open>A new model is neither searching nor picking a theme.\<close>

lemma newModel_idle:
  assumes "newModel E opts = Some m"
  shows "\<not> ny_searching m \<and> \<not> ny_themePicking m"
proof -
  obtain m0 m1 where m: "foldM (add_file E) m0 (mo_files opts) = Some m1" "\<not> ny_searching m0 \<and> \<not> ny_themePicking m0"
    "(if mo_search opts \<noteq> [] then applySearch E (mo_search opts) m1 else Some m1) = Some m"
    using assms by (auto simp: newModel_def Let_def Option.bind_eq_Some_conv)
  have "\<not> ny_searching m1 \<and> \<not> ny_themePicking m1"
    by (rule foldM_invariant [OF m(1), where P = "\<lambda>m. \<not> ny_searching m \<and> \<not> ny_themePicking m"]) (use m(2) in \<open>auto simp: add_file_def Option.bind_eq_Some_conv\<close>)
  with m(3) show ?thesis by (auto simp: applySearch_def split: if_splits)
qed

section \<open>Drawing returns\<close>

lemma DiffStats_total:
  assumes "vinv ok search vp"
  shows "\<exists>st. DiffStats vp = Some st"
proof (cases "IsShowingDiff vp \<and> m_diffResult vp = None")
  case True
  then obtain d where "fresh_diff vp = Some d"
    using fresh_diff_total [of vp] assms by (auto simp: vinv_def settled_def)
  with True show ?thesis using getDiffResult_fresh [of vp] by (simp add: DiffStats_def)
next
  case False
  then show ?thesis by (auto simp: DiffStats_def getDiffResult_def split: option.split)
qed

lemma RevisionName_total: "vinv ok search vp \<Longrightarrow> \<exists>name. RevisionName vp = Some name"
  by (auto simp: vinv_def settled_def revision_ok_def RevisionName_def rv_current_def split: option.split)

lemma style_lookup_total:
  assumes "nyaml_inv nrm E m"
  shows "\<exists>sty. style_lookup E P (ny_currentTheme m) = Some sty"
proof -
  have "ny_currentTheme m \<in> set (theme_list E)"
    using assms unfolding nyaml_inv_def by (metis nat_less_iff nth_mem)
  from theme_Styles_listed [OF this] show ?thesis by (auto simp: style_lookup_def)
qed

lemma statusBar_total:
  assumes "nyaml_inv nrm E m" "printer_total (pa_screen P (ny_printer m))"
  shows "\<exists>bar. statusBar E P m = Some bar"
proof -
  have v: "vinv (searchable nrm) (ny_search E) (ny_viewport m)" using assms(1) by (simp add: nyaml_inv_def)
  obtain sty where "style_lookup E P (ny_currentTheme m) = Some sty" using style_lookup_total [OF assms(1)] by blast
  moreover obtain st where "DiffStats (ny_viewport m) = Some st" using DiffStats_total [OF v] by blast
  moreover obtain name where "RevisionName (ny_viewport m) = Some name" using RevisionName_total [OF v] by blast
  moreover obtain ls where "visibleLines (pa_screen P (ny_printer m)) (ny_viewport m) [] = Some ls"
    using visibleLines_total [OF assms(2)] by blast
  ultimately show ?thesis
    by (simp add: statusBar_def titleLine_def textLine_def VisibleLineCount_def Let_def)
qed

lemma nyaml_View_total:
  assumes "env_ok add nrm E" "nyaml_inv nrm E m" "\<And>p. printer_total (pa_screen P p)"
  shows "\<exists>out settings. nyaml_View E P m = Some (out, settings)"
proof -
  have v: "vinv (searchable nrm) (finder_search add nrm) (ny_viewport m)" using assms(1,2) by (simp add: nyaml_inv_def env_ok_def)
  obtain content settings where c: "View (pa_screen P (ny_printer m)) (ny_viewport m) = Some (content, settings)"
    using library_finder.View_total [OF v assms(3)] by blast
  let ?m = "m\<lparr>ny_viewport := (ny_viewport m)\<lparr>m_printer := settings\<rparr>\<rparr>"
  have inv: "nyaml_inv nrm E ?m" by (rule nyaml_inv_printer [OF assms(2,1)])
  obtain bar where "statusBar E P ?m = Some bar" using statusBar_total [OF inv assms(3)] by blast
  moreover obtain sty where "style_lookup E P (ny_currentTheme ?m) = Some sty" using style_lookup_total [OF inv] by blast
  ultimately show ?thesis using c by (simp add: nyaml_View_def renderThemeOverlay_def Let_def)
qed

section \<open>The theme picker\<close>

lemma SetPrinter_wraps:
  assumes "env_ok add nrm E" "vinv (searchable nrm) (ny_search E) vp" "SetPrinter (ny_search E) p vp = Some vp'"
  shows "m_WrapEnabled vp' = m_WrapEnabled vp \<and> pr_wordWrap (m_printer vp') = pr_wordWrap p"
proof -
  let ?vp = "updatePrinterWidth (vp\<lparr>m_printer := p\<rparr>)"
  have "settled (searchable nrm) ?vp"
    using assms(2) by (auto simp: vinv_def settled_def updatePrinterWidth_def revision_ok_def index_ok_def)
  from library_finder.rerender_safe [OF this, of add] have "keeps ?vp vp'"
    using assms(1,3) by (auto simp: SetPrinter_def env_ok_def)
  from keeps_fields [OF this] show ?thesis by (simp add: updatePrinterWidth_def)
qed

text \<open>A state of the picker, opened in the state \<open>m0\<close>: nothing but the theme shown differs.\<close>

definition picking_from :: "('f, 'o, 'c, 'x) nyaml \<Rightarrow> ('f, 'o, 'c, 'x) nyaml \<Rightarrow> bool" where
  "picking_from m0 m \<longleftrightarrow> ny_themePicking m \<and> ny_previousTheme m = ny_currentTheme m0
     \<and> ny_lineNumbers m = ny_lineNumbers m0 \<and> ny_searchInput m = ny_searchInput m0
     \<and> m_WrapEnabled (ny_viewport m) = m_WrapEnabled (ny_viewport m0)"

definition press ::
  "('k, 'g, 's, 'c, 'm, 'x) nyaml_env \<Rightarrow> ('f, 'o, 'c, 'x) nyaml \<Rightarrow> 'k \<Rightarrow> ('f, 'o, 'c, 'x) nyaml option" where
  "press E m k = map_option fst (nyaml_Update E (TeaMsg (KeyPressMsg k)) m)"

lemma press_picking: "ny_themePicking m \<Longrightarrow> press E m k = updateThemeInput E k m"
  by (simp add: press_def nyaml_Update_def option.map_comp o_def option.map_ident)

lemma select_theme_picking:
  assumes "env_ok add nrm E" "nyaml_inv nrm E m" "picking_from m0 m" "0 \<le> i" "i < int (length (ny_themeList m))"
  shows "\<exists>m'. select_theme E i m = Some m' \<and> nyaml_inv nrm E m' \<and> picking_from m0 m'"
proof -
  obtain m' where m': "select_theme E i m = Some m'" "nyaml_inv nrm E m'"
    using select_theme_safe [OF assms(1,2,4,5)] unfolding ny_safe_def by blast
  then obtain name vp p where "m' = m\<lparr>ny_themeIndex := i, ny_currentTheme := name, ny_printer := p, ny_viewport := vp\<rparr>"
    "SetPrinter (ny_search E) (print_settings_of p) (ny_viewport m) = Some vp"
    by (auto simp: select_theme_def applyTheme_def Option.bind_eq_Some_conv Let_def)
  then have "picking_from m0 m'"
    using assms(2,3) SetPrinter_wraps [OF assms(1)] by (auto simp: picking_from_def nyaml_inv_def)
  with m' show ?thesis by blast
qed

lemma press_picking_from:
  assumes "env_ok add nrm E" "nyaml_inv nrm E m" "picking_from m0 m"
    and "\<not> ny_Matches E k [''enter'']" "\<not> ny_Matches E k [''esc'']"
  shows "\<exists>m'. press E m k = Some m' \<and> nyaml_inv nrm E m' \<and> picking_from m0 m'"
proof -
  have p: "ny_themePicking m" using assms(3) by (simp add: picking_from_def)
  have i: "0 \<le> ny_themeIndex m" using assms(2) by (simp add: nyaml_inv_def)
  show ?thesis
    using select_theme_picking [OF assms(1-3), of "ny_themeIndex m + 1"] select_theme_picking [OF assms(1-3), of "ny_themeIndex m - 1"]
      assms(2-5) i unfolding press_picking [OF p] updateThemeInput_def
    by (auto simp: nyaml_inv_def [of _ _ m])
qed

lemma theme_list_distinct: "distinct (theme_list E)"
  unfolding theme_list_def List_themes_def
  using distinct_map_filter [OF theme_names_distinct] by simp

lemma slice_index_distinct:
  "distinct xs \<Longrightarrow> i < length xs \<Longrightarrow> slice_index xs (xs ! i) = int i"
  using slice_index_nth [of "xs ! i" xs] nth_eq_iff_index_eq [of xs i "nat (slice_index xs (xs ! i))"]
  by (auto simp: nat_less_iff)

section \<open>A program to run\<close>

definition sample_env :: "(string, call_color, call_style, nat, nat, unit) nyaml_env" where
  "sample_env = \<lparr>ny_search = finder_search tokens_Add id, ny_Matches = (\<lambda>k keys. k \<in> set keys),
     ny_Text = (\<lambda>k. if length k = 1 then k else []),
     ny_tokenize = (\<lambda>s. [sample_token 1 StringType s]), ny_lipgloss = recording, ny_terminal = sample_terminal,
     ny_pointers = (\<lambda>_ _. Some 0), ny_heap = sample_styles, ny_default = sample_getter, ny_zero = sample_style 9\<rparr>"

definition sample_painter :: "(nat, nat, nat, unit, unit, call_color, call_style) painter" where
  "sample_painter = \<lparr>pa_style = recording_read, pa_screen = (\<lambda>_. sample_screen), pa_percent = (\<lambda>(a, b). 100 * a div b),
     pa_SetForeground = (\<lambda>s c. s\<lparr>cs_foreground := c\<rparr>), pa_SetBackground = (\<lambda>s c. s\<lparr>cs_background := c\<rparr>),
     pa_Inline = (\<lambda>s. s), pa_Render = (\<lambda>_ s. s), pa_Width = (\<lambda>s. int (rune_count s)), pa_Height = (\<lambda>s. int (length (split_nl s))),
     pa_PlaceRight = (\<lambda>w s. s), pa_SetWidth = (\<lambda>s _. s), pa_SetHeight = (\<lambda>s _. s), pa_Border = (\<lambda>s _ _. s),
     pa_Padding = (\<lambda>s _ _. s), pa_JoinVertical = join [LF], pa_Compose = (\<lambda>a b _ _. a @ b)\<rparr>"

definition sample_options :: model_options where
  "sample_options = \<lparr>mo_search = [], mo_files = [\<lparr>fe_path = ''a.yaml'', fe_content = ''a''\<rparr>], mo_lineNumbers = True\<rparr>"

lemma sample_env_ok: "env_ok tokens_Add id sample_env"
  by (simp add: env_ok_def sample_env_def deref_def sample_styles_def)

lemma sample_env_keys: "ny_Matches sample_env k keys \<longleftrightarrow> id k \<in> set keys"
  by (simp add: sample_env_def)

lemma sample_painter_prints: "printer_total (pa_screen sample_painter p)"
  by (simp add: printer_total_def sample_painter_def sample_screen_def)

lemma sample_nyaml:
  "\<exists>m :: (nat, nat, nat, unit) nyaml. newModel sample_env sample_options = Some m \<and> nyaml_reach id sample_env sample_painter m
     \<and> \<not> ny_searching m \<and> \<not> ny_themePicking m"
proof -
  have "ny_safe id sample_env (newModel sample_env sample_options :: (nat, nat, nat, unit) nyaml option)"
    by (rule newModel_safe [OF sample_env_ok]) (simp add: sample_options_def)
  then obtain m :: "(nat, nat, nat, unit) nyaml" where m: "newModel sample_env sample_options = Some m"
    unfolding ny_safe_def by blast
  have "\<not> ny_searching m \<and> \<not> ny_themePicking m" by (rule newModel_idle [OF m])
  moreover have "nyaml_reach id sample_env sample_painter m"
    by (rule reach_new [OF _ m]) (simp add: sample_options_def)
  ultimately show ?thesis using m by blast
qed

section \<open>Properties\<close>



text \<open>The keys of the model and of the viewport's bindings: no key is bound twice.\<close>

definition own_keys :: "string list" where
  "own_keys = [''q'', ''ctrl+c'', ''t'', ''/'', ''n'', ''N'', ''esc'', ''g'', ''G'']"

definition viewport_keys :: "string list keymap \<Rightarrow> string list" where
  "viewport_keys km = km_PageDown km @ km_PageUp km @ km_HalfPageUp km @ km_HalfPageDown km @ km_Down km @ km_Up km @
     km_Left km @ km_Right km @ km_NextRevision km @ km_PrevRevision km @ km_ToggleDiffMode km @ km_ToggleViewMode km @
     km_ToggleWordWrap km"

lemma keys_distinct: "distinct (own_keys @ viewport_keys DefaultKeyMap)"
  by (simp add: own_keys_def viewport_keys_def DefaultKeyMap_def)

lemma key_action_other:
  assumes "\<And>keys. matches k keys \<longleftrightarrow> name k \<in> set keys" "m_KeyMap vp = km" "name k \<notin> set (viewport_keys km)"
  shows "key_action search matches k vp = Some vp"
  using assms by (simp add: key_action_def viewport_keys_def)

lemma ny_viewport_same: "ny_viewport m = vp \<Longrightarrow> m\<lparr>ny_viewport := vp\<rparr> = m"
  by (cases m) simp

lemma own_keys_not_viewport: "x \<in> set own_keys \<Longrightarrow> x \<notin> set (viewport_keys DefaultKeyMap)"
  using keys_distinct by auto

text \<open>
  C37: outside the search input and the theme picker every key does exactly one thing: the keys of the model do what
  the model says and nothing in the viewport besides, all others what the viewport's key map says and nothing in the
  model; no key is bound twice.
\<close>

theorem nyaml_keys_exact:
  fixes m :: "('f, 'o, 'c, 'x) nyaml"
  assumes "nyaml_reach nrm E P m" "env_ok add nrm E" "\<And>k keys. ny_Matches E k keys \<longleftrightarrow> name k \<in> set keys"
    and "\<not> ny_searching m" "\<not> ny_themePicking m"
  shows "distinct (own_keys @ viewport_keys DefaultKeyMap) \<and>
    nyaml_Update E (TeaMsg (KeyPressMsg k)) m =
     (let vp = ny_viewport m; set_vp = map_option (\<lambda>vp. (m\<lparr>ny_viewport := vp\<rparr>, NoCmd)) in
      if name k \<in> {''q'', ''ctrl+c''} then Some (m, Quit)
      else if name k = ''t'' then Some (m\<lparr>ny_themePicking := True, ny_previousTheme := ny_currentTheme m\<rparr>, NoCmd)
      else if name k = ''/'' then Some (m\<lparr>ny_searching := True, ny_searchInput := []\<rparr>, NoCmd)
      else if name k = ''n'' then set_vp (SearchNext vp)
      else if name k = ''N'' then set_vp (SearchPrevious vp)
      else if name k = ''esc'' then set_vp (ClearSearch (ny_search E) vp)
      else if name k = ''g'' then set_vp (Some (GotoTop vp))
      else if name k = ''G'' then set_vp (Some (GotoBottom vp))
      else set_vp (key_action (ny_search E) (ny_Matches E) k vp))"
proof -
  note inv = nyaml_reach_inv [OF assms(1,2)]
  have upd: "Update (ny_search E) (ny_Matches E) DefaultKeyMap (KeyPressMsg k) vp =
      (if name k \<in> set own_keys then Some vp else key_action (ny_search E) (ny_Matches E) k vp)"
    if "vp_safe nrm E (Some vp)" for vp :: "('f, 'o, string list) model"
  proof -
    have vp: "m_initialized vp" "m_KeyMap vp = DefaultKeyMap" using that by (auto simp: vp_safe_def vinv_def settled_def)
    then show ?thesis
      using key_action_other [of "ny_Matches E" k name vp, OF assms(3) vp(2)] own_keys_not_viewport [of "name k"]
      by (simp add: Update_def)
  qed
  have v: "vp_safe nrm E (Some (ny_viewport m))" using inv by (simp add: nyaml_inv_def vp_safe_def)
  have fwd: "Option.bind r (\<lambda>vp. map_option (\<lambda>vp. (m\<lparr>ny_viewport := vp\<rparr>, NoCmd))
        (Update (ny_search E) (ny_Matches E) DefaultKeyMap (KeyPressMsg k) vp))
      = map_option (\<lambda>vp. (m\<lparr>ny_viewport := vp\<rparr>, NoCmd)) r"
    if r: "vp_safe nrm E r" "name k \<in> set own_keys" for r
  proof -
    obtain vp where vp: "r = Some vp" using r(1) unfolding vp_safe_def by blast
    then show ?thesis using upd [of vp] r by simp
  qed
  note defs = nyaml_Update_def own_key_def Let_def bind_map_option o_def
  show ?thesis
  proof (cases "name k \<in> set own_keys")
    case True
    note facts = fwd [OF viewport_safe(4) [OF assms(2) inv] True] fwd [OF viewport_safe(5) [OF assms(2) inv] True]
      fwd [OF viewport_safe(6) [OF assms(2) inv] True] upd [OF viewport_safe(7) [OF assms(2) inv]]
      upd [OF viewport_safe(8) [OF assms(2) inv]] upd [OF v]
    have "name k = ''q'' \<or> name k = ''ctrl+c'' \<or> name k = ''t'' \<or> name k = ''/'' \<or> name k = ''n'' \<or> name k = ''N''
        \<or> name k = ''esc'' \<or> name k = ''g'' \<or> name k = ''G''"
      using True by (simp add: own_keys_def)
    then show ?thesis
      using facts True assms(4,5) keys_distinct
      by (elim disjE) (simp_all add: defs assms(3) ny_viewport_same)
  next
    case False
    then have "own_key E k m = Some m" by (simp add: own_key_def assms(3) own_keys_def)
    then show ?thesis
      using False upd [OF v] assms(4,5) keys_distinct by (simp add: nyaml_Update_def own_keys_def assms(3) Let_def)
  qed
qed

theorem nyaml_keys_exact_witness:
  "\<exists>m :: (nat, nat, nat, unit) nyaml. newModel sample_env sample_options = Some m
     \<and> nyaml_Update sample_env (TeaMsg (KeyPressMsg ''g'')) m = Some (m\<lparr>ny_viewport := GotoTop (ny_viewport m)\<rparr>, NoCmd)"
proof -
  obtain m :: "(nat, nat, nat, unit) nyaml" where m: "newModel sample_env sample_options = Some m"
    "nyaml_reach id sample_env sample_painter m" "\<not> ny_searching m" "\<not> ny_themePicking m" using sample_nyaml by blast
  from nyaml_keys_exact [OF m(2) sample_env_ok sample_env_keys m(3,4), of "''g''"] m(1) show ?thesis by simp
qed

text \<open>
  C38: leaving the theme picker with escape undoes it: whatever keys but enter and escape are pressed in it, the theme
  shown, the selection and the printer of the viewport are those of before. The viewport's choice to wrap lines is
  kept, but the new printer wraps them always: after a look at the themes, lines are wrapped even where the viewport
  does not wrap.
\<close>

theorem theme_picker_escapes:
  assumes "nyaml_reach nrm E P m" "env_ok add nrm E" "\<not> ny_searching m" "\<not> ny_themePicking m"
    and "\<And>k keys. ny_Matches E k keys \<longleftrightarrow> name k \<in> set keys"
    and "name t = ''t''" "name e = ''esc''" "\<And>k. k \<in> set ks \<Longrightarrow> name k \<noteq> ''enter'' \<and> name k \<noteq> ''esc''"
  shows "\<exists>m'. foldM (press E) m (t # ks @ [e]) = Some m' \<and> \<not> ny_themePicking m'
     \<and> ny_currentTheme m' = ny_currentTheme m \<and> ny_themeIndex m' = ny_themeIndex m
     \<and> theme_printer E (ny_lineNumbers m) (ny_currentTheme m) = Some (ny_printer m')
     \<and> m_WrapEnabled (ny_viewport m') = m_WrapEnabled (ny_viewport m) \<and> pr_wordWrap (m_printer (ny_viewport m'))"
proof -
  note inv = nyaml_reach_inv [OF assms(1,2)]
  define m1 where "m1 = m\<lparr>ny_themePicking := True, ny_previousTheme := ny_currentTheme m\<rparr>"
  have "press E m t = Some m1"
    using nyaml_keys_exact [OF assms(1,2,5,3,4), of t] assms(6) by (simp add: press_def m1_def)
  moreover have inv1: "nyaml_inv nrm E m1"
    using nyaml_inv_input(6) [OF inv assms(3)] by (simp add: m1_def)
  moreover have "picking_from m m1" by (simp add: picking_from_def m1_def)
  moreover have step: "\<exists>t. press E s k = Some t \<and> nyaml_inv nrm E t \<and> picking_from m t"
    if "k \<in> set ks" "nyaml_inv nrm E s \<and> picking_from m s" for k s
    using press_picking_from [OF assms(2), of s m k] that assms(5) assms(8) [OF that(1)] by simp
  ultimately obtain m2 where m2: "foldM (press E) m1 ks = Some m2" "nyaml_inv nrm E m2" "picking_from m m2"
    using foldM_total [of "\<lambda>s. nyaml_inv nrm E s \<and> picking_from m s" m1 ks "press E"] by blast
  let ?m2 = "m2\<lparr>ny_themePicking := False\<rparr>" and ?name = "ny_currentTheme m"
  have picking: "ny_themePicking m2" "ny_previousTheme m2 = ?name" "ny_lineNumbers m2 = ny_lineNumbers m"
    "m_WrapEnabled (ny_viewport m2) = m_WrapEnabled (ny_viewport m)"
    using m2(3) by (simp_all add: picking_from_def)
  have list: "ny_themeList m2 = theme_list E" "ny_themeList m = theme_list E" using m2(2) inv by (simp_all add: nyaml_inv_def)
  have cur: "nat (ny_themeIndex m) < length (theme_list E)" "theme_list E ! nat (ny_themeIndex m) = ?name" "0 \<le> ny_themeIndex m"
    using inv list unfolding nyaml_inv_def by auto
  then have "?name \<in> set (theme_list E)" by (metis nth_mem)
  from applyTheme_listed [OF assms(2) nyaml_inv_input(3) [OF m2(2)] this] picking obtain p vp where
    a: "applyTheme E ?name ?m2 = Some (?m2\<lparr>ny_currentTheme := ?name, ny_printer := p, ny_viewport := vp\<rparr>)"
      "theme_printer E (ny_lineNumbers m) ?name = Some p"
      "SetPrinter (ny_search E) (print_settings_of p) (ny_viewport m2) = Some vp"
    by auto
  have "slice_index (theme_list E) ?name = ny_themeIndex m"
    using slice_index_distinct [OF theme_list_distinct cur(1)] cur(2,3) by simp
  then have "press E m2 e = Some (?m2\<lparr>ny_currentTheme := ?name, ny_printer := p, ny_viewport := vp, ny_themeIndex := ny_themeIndex m\<rparr>)"
    using a(1) picking list unfolding press_picking [OF picking(1)] updateThemeInput_def by (simp add: assms(5,7))
  moreover have "m_WrapEnabled vp = m_WrapEnabled (ny_viewport m) \<and> pr_wordWrap (m_printer vp)"
  proof -
    have "vinv (searchable nrm) (ny_search E) (ny_viewport m2)" using m2(2) by (simp add: nyaml_inv_def)
    from SetPrinter_wraps [OF assms(2) this a(3)] theme_printer_listed [OF assms(2) \<open>?name \<in> set (theme_list E)\<close>, of "ny_lineNumbers m"]
    show ?thesis using picking(4) a(2) by (simp add: print_settings_of_def)
  qed
  ultimately show ?thesis
    using \<open>press E m t = Some m1\<close> m2(1) a(2) by (simp add: foldM_append)
qed

theorem theme_picker_escapes_witness:
  "\<exists>m m' :: (nat, nat, nat, unit) nyaml. newModel sample_env sample_options = Some m
     \<and> foldM (press sample_env) m [''t'', ''j'', ''j'', ''k'', ''esc''] = Some m'
     \<and> ny_currentTheme m' = ny_currentTheme m \<and> ny_themeIndex m' = ny_themeIndex m"
proof -
  obtain m :: "(nat, nat, nat, unit) nyaml" where m: "newModel sample_env sample_options = Some m"
    "nyaml_reach id sample_env sample_painter m" "\<not> ny_searching m" "\<not> ny_themePicking m" using sample_nyaml by blast
  have "id k \<noteq> ''enter'' \<and> id k \<noteq> ''esc''" if "k \<in> set [''j'', ''j'', ''k'']" for k :: string
    using that by auto
  from theme_picker_escapes [OF m(2) sample_env_ok m(3,4) sample_env_keys _ _ this, where t = "''t''" and e = "''esc''" and ks = "[''j'', ''j'', ''k'']"] m(1)
  show ?thesis by auto
qed

text \<open>The overlay of the theme picker always shows the selection: of a list of themes it shows as many rows as fit,
  consecutive ones, the selected theme marked among them and only that one marked, in the middle unless the list ends.
\<close>

theorem overlay_shows_selection:
  assumes "0 \<le> i" "i < int (length names)"
  shows "\<exists>w h n start. overlay_size width height = (w, h, n) \<and> odd n \<and> 7 \<le> n \<and> n = h - 4
     \<and> start = scroll_offset (int (length names)) n i \<and> 0 \<le> start \<and> start \<le> i \<and> i < start + n
     \<and> int (length (overlay_items names i width height)) = min n (int (length names))
     \<and> (\<forall>j < length (overlay_items names i width height). overlay_items names i width height ! j =
          (if start + int j = i then ''> '' else ''  '') @ overlay_name w (names ! nat (start + int j)))
     \<and> (start \<noteq> 0 \<and> start + n \<noteq> int (length names) \<longrightarrow> i = start + n div 2)"
proof -
  obtain w h n where size: "overlay_size width height = (w, h, n)" by (cases "overlay_size width height")
  have n: "odd n" "7 \<le> n" "n = h - 4"
    using size by (auto simp: overlay_size_def Let_def split: if_splits) presburger+
  define start where "start = scroll_offset (int (length names)) n i"
  have half: "half n = n div 2" using n(2) by (simp add: half_def)
  have start: "0 \<le> start" "start \<le> i" "i < start + n" "start + n \<le> max n (int (length names))"
    "start \<noteq> 0 \<and> start + n \<noteq> int (length names) \<longrightarrow> i = start + n div 2"
    using assms n(1,2) by (auto simp: start_def scroll_offset_def Let_def half min_def max_def)
  have items: "overlay_items names i width height = map (\<lambda>(j, name). (if int j = i then ''> '' else ''  '') @ overlay_name w name)
      (take (nat n) (drop (nat start) (enumerate 0 names)))"
    by (simp add: overlay_items_def size start_def)
  have len: "int (length (overlay_items names i width height)) = min n (int (length names))"
    using start n(2) assms unfolding items by (auto simp: min_def)
  have "overlay_items names i width height ! j =
      (if start + int j = i then ''> '' else ''  '') @ overlay_name w (names ! nat (start + int j))"
    if "j < length (overlay_items names i width height)" for j
  proof -
    have j: "int j < n" "start + int j < int (length names)"
      using that start n(2) unfolding items by (auto simp: min_def split: if_splits)
    then have "(take (nat n) (drop (nat start) (enumerate 0 names))) ! j = (nat start + j, names ! (nat start + j))"
      using start(1) by (simp add: nth_enumerate_eq)
    moreover have "nat (start + int j) = nat start + j" "int (nat start + j) = start + int j" using start(1) by simp_all
    moreover have "j < length (take (nat n) (drop (nat start) (enumerate 0 names)))" using that unfolding items by simp
    ultimately show ?thesis unfolding items by simp
  qed
  then show ?thesis using size n start len unfolding start_def by blast
qed

theorem overlay_shows_selection_witness:
  "length (overlay_items [''a'', ''b'', ''c''] 1 80 24) = 3
   \<and> (\<exists>w start. overlay_items [''a'', ''b'', ''c''] 1 80 24 ! nat (1 - start) = ''> '' @ overlay_name w ''b'')"
proof -
  let ?items = "overlay_items [''a'', ''b'', ''c''] 1 80 24"
  have i: "0 \<le> (1 :: int)" "1 < int (length [''a'', ''b'', ''c''])" by simp_all
  obtain w h n start where n: "7 \<le> n" "0 \<le> start" "start \<le> 1" "int (length ?items) = min n (int (length [''a'', ''b'', ''c'']))"
    and rows: "\<forall>j < length ?items. ?items ! j = (if start + int j = 1 then ''> '' else ''  '') @ overlay_name w ([''a'', ''b'', ''c''] ! nat (start + int j))"
    using overlay_shows_selection [OF i] by blast
  have len: "length ?items = 3" using n(1,4) by simp
  moreover have "?items ! nat (1 - start) = ''> '' @ overlay_name w ''b''"
    using rows [THEN spec, of "nat (1 - start)"] len n(2,3) by simp
  ultimately show ?thesis by blast
qed

end
