(* ===== verification/Nyaml_Validate.thy ===== *)
theory Nyaml_Validate
  imports Registry_Facts
begin

text \<open>
  The command \<open>nyaml validate\<close> (\<open>cmd/nyaml/validate.go\<close>): the registry it builds, the validation of a file and
  of all files. The match loaders of its registry are the objects \<open>nyaml_loader\<close>: the loader of the schema flag, that
  of directives and the catalog; their state is with the world in \<open>nyaml_world\<close>. The current directory and the size
  of the terminal are parameters. \<open>None\<close> is a panic.
\<close>

section \<open>The registry\<close>

record ('c, 'w) nyaml_world =
  nw_world :: 'w
  nw_directive :: "'c directive_loader"
  nw_store :: "'c schema_store option"

datatype ('x, 'd, 'o, 'v, 'w) nyaml_loader =
  FlagLoader "('x, 'd, 'o, 'v, 'w) match_loader_wrapper"
| DirectiveLoader
| StoreLoader

definition nyaml_Match ::
  "('c, 'x, 'w) environment \<Rightarrow> (string \<Rightarrow> string + catalog) \<Rightarrow> (string \<Rightarrow> string \<Rightarrow> bool option)
    \<Rightarrow> ('x, 'd, 'o, 'v, 'w) nyaml_loader \<Rightarrow> ('x, 'd, 'o, ('c, 'w) nyaml_world) matcher" where
  "nyaml_Match E parse_catalog glob_match ml ctx doc s = (case ml of
     FlagLoader wr \<Rightarrow> map_option (\<lambda>(b, w). (b, s\<lparr>nw_world := w\<rparr>)) (wrapper_Match wr ctx doc (nw_world s))
   | DirectiveLoader \<Rightarrow> (case directive_Match doc (nw_directive s) of (b, dl) \<Rightarrow> Some (b, s\<lparr>nw_directive := dl\<rparr>))
   | StoreLoader \<Rightarrow> Option.bind (nw_store s) (\<lambda>st.
       map_option (\<lambda>(b, st', w). (b, s\<lparr>nw_store := Some st', nw_world := w\<rparr>))
         (store_Match E parse_catalog glob_match ctx doc (st, nw_world s))))"

definition nyaml_Load ::
  "('c, 'x, 'w) environment \<Rightarrow> (string \<Rightarrow> string + catalog) \<Rightarrow> (string \<Rightarrow> string \<Rightarrow> bool option)
    \<Rightarrow> ('x, 'd, 'o, 'v, 'w) nyaml_loader \<Rightarrow> ('x, 'd, 'o, 'v, ('c, 'w) nyaml_world) loader" where
  "nyaml_Load E parse_catalog glob_match ml ctx doc s = (case ml of
     FlagLoader wr \<Rightarrow> map_option (\<lambda>(res, w). (res, s\<lparr>nw_world := w\<rparr>)) (wrapper_Load wr ctx doc (nw_world s))
   | DirectiveLoader \<Rightarrow> Option.bind doc (\<lambda>doc.
       map_option (\<lambda>(res, dl, w). (res, s\<lparr>nw_directive := dl, nw_world := w\<rparr>))
         (directive_Load E ctx doc (nw_directive s, nw_world s)))
   | StoreLoader \<Rightarrow> Option.bind doc (\<lambda>doc. Option.bind (nw_store s) (\<lambda>st.
       map_option (\<lambda>(res, st', w). (res, s\<lparr>nw_store := Some st', nw_world := w\<rparr>))
         (store_Load E parse_catalog glob_match ctx doc (st, nw_world s)))))"

definition nyaml_loaders ::
  "('c, 'x, 'w) environment \<Rightarrow> (string \<Rightarrow> string + catalog) \<Rightarrow> (string \<Rightarrow> string \<Rightarrow> bool option)
    \<Rightarrow> (('x, 'd, 'o, 'v, 'w) nyaml_loader, 'x, 'd, 'o, 'v, ('c, 'w) nyaml_world) match_loaders" where
  "nyaml_loaders E parse_catalog glob_match =
     \<lparr>ml_Match = nyaml_Match E parse_catalog glob_match, ml_Load = nyaml_Load E parse_catalog glob_match\<rparr>"

text \<open>
  \<open>buildRegistry\<close>: the registry, the state of its loaders, and whether a warning was printed. \<open>cwd\<close> is what
  \<open>os.Getwd\<close> returns.
\<close>

definition buildRegistry ::
  "('c, 'x, 'w) environment \<Rightarrow> (string \<Rightarrow> string + catalog) \<Rightarrow> string option \<Rightarrow> 'x \<Rightarrow> string \<Rightarrow> 'w
    \<Rightarrow> (('v map_cache, ('x, 'd, 'o, 'v, 'w) nyaml_loader, 'j) registry \<times> ('c, 'w) nyaml_world \<times> catalog_error option) option" where
  "buildRegistry E parse_catalog cwd ctx schemaRef w =
     (let reg = New_registry newMapCache [];
          s = \<lparr>nw_world = w, nw_directive = Directive_loader [], nw_store = None\<rparr> in
      if schemaRef \<noteq> [] then
        let dir = (case cwd of Some d \<Rightarrow> d | None \<Rightarrow> ''.'') in
        Some (RegisterFunc FlagLoader Always (Ref_loader E dir schemaRef []) reg, s, None)
      else
        let reg1 = Register DirectiveLoader reg in
        (case New_store E parse_catalog ctx [] w of
           None \<Rightarrow> None
         | Some (Inl err, w') \<Rightarrow> Some (reg1, s\<lparr>nw_world := w'\<rparr>, Some err)
         | Some (Inr store, w') \<Rightarrow> Some (Register StoreLoader reg1, s\<lparr>nw_world := w', nw_store := Some store\<rparr>, None)))"

section \<open>Files\<close>

text \<open>The width of the terminal: of standard error where it is one whose size can be read.\<close>

definition getTerminalWidth :: "int option \<Rightarrow> int" where
  "getTerminalWidth termSize = max 0 ((case termSize of Some w \<Rightarrow> w | None \<Rightarrow> 90) - 2)"

datatype ('f, 'o, 'y, 'p) file_error =
  ReadSource string
| ParseSourceError "('f, 'o, 'y, 'p) go_error"
| LookupFailed nat lookup_error
| DocumentError "('f, 'o, 'y, 'p) yaml_error"
| DocumentPlain "('f, 'o, 'y, 'p) go_error"

text \<open>
  The error of a document with its number, wrapped by the source; \<open>WrapError\<close> returns an error that has no
  \<open>*Error\<close> in it, like those of a lookup, as it is.
\<close>

definition document_error ::
  "('o \<Rightarrow> ('f, 'o, 'y, 'p) error_option) \<Rightarrow> ('f, 'o) source \<Rightarrow> nat \<Rightarrow> lookup_error + ('f, 'o, 'y, 'p) go_error
    \<Rightarrow> ('f, 'o, 'y, 'p) file_error" where
  "document_error error_opt source i err = (case err of
     Inl e \<Rightarrow> LookupFailed i e
   | Inr (GoError msg y wrapped) \<Rightarrow>
       let e = GoError (''document '' @ itoa (int i) @ '': '' @ msg) None [GoError msg y wrapped] in
       (case WrapError error_opt source (Some e) of
          Some (Inl yamlErr) \<Rightarrow> DocumentError yamlErr
        | _ \<Rightarrow> DocumentPlain e))"

text \<open>What validates one document: \<open>ValidateDocument\<close> of the registry, in its state.\<close>

type_synonym ('d, 'o, 'e, 's) document_check = "('d, 'o) document_decoder \<Rightarrow> 's \<Rightarrow> ((lookup_error + 'e) option \<times> 's) option"

fun validate_documents ::
  "('d, 'o, ('f, 'o, 'y, 'p) go_error, 's) document_check \<Rightarrow> ('o \<Rightarrow> ('f, 'o, 'y, 'p) error_option) \<Rightarrow> ('f, 'o) source
    \<Rightarrow> (nat \<times> ('d, 'o) document_decoder) list \<Rightarrow> 's \<Rightarrow> (('f, 'o, 'y, 'p) file_error option \<times> 's) option" where
  "validate_documents check error_opt source [] st = Some (None, st)"
| "validate_documents check error_opt source ((i, doc) # docs) st = (case check doc st of
     None \<Rightarrow> None
   | Some (Some err, st') \<Rightarrow> Some (Some (document_error error_opt source i err), st')
   | Some (None, st') \<Rightarrow> validate_documents check error_opt source docs st')"

text \<open>
  \<open>validateFile\<close>. \<open>read\<close> is \<open>os.ReadFile\<close> in the state; \<open>ptr\<close> is the address of the first document decoder, of which
  each document takes one.
\<close>

definition validateFile ::
  "(string \<Rightarrow> 's \<Rightarrow> (string + string) \<times> 's) \<Rightarrow> (string \<Rightarrow> token list) \<Rightarrow> (token list \<Rightarrow> 'o list \<Rightarrow> parse_failure + 'f) \<Rightarrow> adder
    \<Rightarrow> 'o \<Rightarrow> ('o \<Rightarrow> ('f, 'o, 'y, 'p) error_option) \<Rightarrow> ('f, 'd, 'n, 'q, 'z) yaml_lib
    \<Rightarrow> ('d, 'o, ('f, 'o, 'y, 'p) go_error, 's) document_check \<Rightarrow> string \<Rightarrow> nat \<times> 's
    \<Rightarrow> (('f, 'o, 'y, 'p) file_error option \<times> nat \<times> 's) option" where
  "validateFile read tokenize parse add width_opt error_opt Y check yamlPath = (\<lambda>(ptr, st).
     (case read yamlPath st of (content, st') \<Rightarrow>
       case NewSourceFromFile (\<lambda>_. content) tokenize yamlPath [WithErrorOptions [width_opt]] of
         Inl err \<Rightarrow> Some (Some (ReadSource err), ptr, st')
       | Inr None \<Rightarrow> None
       | Inr (Some source) \<Rightarrow> (case source_Decoder parse add source of
           Inl err \<Rightarrow> Some (Some (ParseSourceError err), ptr, st')
         | Inr decoder \<Rightarrow>
             map_option (\<lambda>(res, st''). (res, ptr + length (yl_Docs Y (dec_file decoder)), st''))
               (validate_documents check error_opt source (decoder_Documents Y add ptr decoder) st'))))"

text \<open>
  The loop of the command over the files: each with its error, or \<open>None\<close> where it prints that the file is valid. The
  command fails when there is an error.
\<close>

fun validate_files ::
  "(string \<Rightarrow> nat \<times> 's \<Rightarrow> ('e option \<times> nat \<times> 's) option) \<Rightarrow> string list \<Rightarrow> nat \<times> 's \<Rightarrow> ((string \<times> 'e option) list \<times> nat \<times> 's) option" where
  "validate_files validate [] st = Some ([], st)"
| "validate_files validate (path # paths) st = (case validate path st of
     None \<Rightarrow> None
   | Some (err, st') \<Rightarrow> map_option (\<lambda>(rest, st''). ((path, err) # rest, st'')) (validate_files validate paths st'))"

definition command_fails :: "(string \<times> 'e option) list \<Rightarrow> bool" where
  "command_fails results \<longleftrightarrow> list_ex (\<lambda>(_, err). err \<noteq> None) results"

text \<open>The parts put together: reading a file and validating a document in the state of the command.\<close>

definition state_read ::
  "('c, 'x, 'w) environment \<Rightarrow> string \<Rightarrow> 'r \<times> ('c, 'w) nyaml_world \<Rightarrow> (string + string) \<times> 'r \<times> ('c, 'w) nyaml_world" where
  "state_read E path = (\<lambda>(r, s). case ev_ReadFile E path (nw_world s) of (content, w) \<Rightarrow> (content, r, s\<lparr>nw_world := w\<rparr>))"

definition registry_check ::
  "('c, 'x, 'w) environment \<Rightarrow> (string \<Rightarrow> string + catalog) \<Rightarrow> (string \<Rightarrow> string \<Rightarrow> bool option)
    \<Rightarrow> ('x \<Rightarrow> string \<Rightarrow> 'j list \<Rightarrow> string + 't) \<Rightarrow> ('f, 'd, 'n, 'q, 'z) yaml_lib
    \<Rightarrow> ('o, 'x, 'n, 'a, 'v, ('f, 'o, 'y, 'p) go_error) yaml_decoder
    \<Rightarrow> (('t, 'u) schema_validator \<Rightarrow> 'a \<Rightarrow> ('f, 'o, 'y, 'p) go_error option) \<Rightarrow> 'x
    \<Rightarrow> ('d, 'o, ('f, 'o, 'y, 'p) go_error,
        (('t, 'u) schema_validator map_cache, ('x, 'd, 'o, ('t, 'u) schema_validator, 'w) nyaml_loader, 'j) registry
          \<times> ('c, 'w) nyaml_world) document_check" where
  "registry_check E parse_catalog glob_match compile Y D validate ctx doc st =
     ValidateDocument Y D validate (nyaml_loaders E parse_catalog glob_match) mapCache compile ctx doc st"

definition validateCmd ::
  "(string \<Rightarrow> string + string list) \<Rightarrow> ('c, 'x, 'w) environment \<Rightarrow> (string \<Rightarrow> string + catalog) \<Rightarrow> (string \<Rightarrow> string \<Rightarrow> bool option)
    \<Rightarrow> ('x \<Rightarrow> string \<Rightarrow> 'j list \<Rightarrow> string + 't) \<Rightarrow> (string \<Rightarrow> token list) \<Rightarrow> (token list \<Rightarrow> 'o list \<Rightarrow> parse_failure + 'f) \<Rightarrow> adder
    \<Rightarrow> 'o \<Rightarrow> ('o \<Rightarrow> ('f, 'o, 'y, 'p) error_option) \<Rightarrow> ('f, 'd, 'n, 'q, 'z) yaml_lib
    \<Rightarrow> ('o, 'x, 'n, 'a, 'v, ('f, 'o, 'y, 'p) go_error) yaml_decoder
    \<Rightarrow> (('t, 'u) schema_validator \<Rightarrow> 'a \<Rightarrow> ('f, 'o, 'y, 'p) go_error option)
    \<Rightarrow> string option \<Rightarrow> 'x \<Rightarrow> string \<Rightarrow> string list \<Rightarrow> 'w
    \<Rightarrow> (string + (string \<times> ('f, 'o, 'y, 'p) file_error option) list) option" where
  "validateCmd glob E parse_catalog glob_match compile tokenize parse add width_opt error_opt Y D validate cwd ctx schemaRef args w =
     (case filepaths_Expand glob args of
        Inl err \<Rightarrow> Some (Inl err)
      | Inr yamlPaths \<Rightarrow> (case buildRegistry E parse_catalog cwd ctx schemaRef w of
          None \<Rightarrow> None
        | Some (reg, s, warning) \<Rightarrow>
            map_option (\<lambda>(results, _). Inr results)
              (validate_files
                 (validateFile (state_read E) tokenize parse add width_opt error_opt Y
                    (registry_check E parse_catalog glob_match compile Y D validate ctx))
                 yamlPaths (0, reg, s))))"

section \<open>Documents in order\<close>

text \<open>All documents pass, one after the other, from one state to another.\<close>

fun all_pass :: "('d, 'o, 'e, 's) document_check \<Rightarrow> (nat \<times> ('d, 'o) document_decoder) list \<Rightarrow> 's \<Rightarrow> 's \<Rightarrow> bool" where
  "all_pass check [] st st' \<longleftrightarrow> st' = st"
| "all_pass check ((i, doc) # docs) st st' \<longleftrightarrow> (\<exists>st1. check doc st = Some (None, st1) \<and> all_pass check docs st1 st')"

lemma validate_documents_pass:
  "validate_documents check error_opt source docs st = Some (None, st') \<longleftrightarrow> all_pass check docs st st'"
  by (induction docs arbitrary: st) (auto split: option.splits)

lemma validate_documents_fail:
  "validate_documents check error_opt source docs st = Some (Some e, st') \<longleftrightarrow>
     (\<exists>pre i doc post st1 err. docs = pre @ (i, doc) # post \<and> all_pass check pre st st1
        \<and> check doc st1 = Some (Some err, st') \<and> e = document_error error_opt source i err)"
proof (induction docs arbitrary: st)
  case step: (Cons d docs)
  obtain i doc where d: "d = (i, doc)" by (cases d)
  show ?case
  proof
    assume l: "validate_documents check error_opt source (d # docs) st = Some (Some e, st')"
    then consider (here) err where "check doc st = Some (Some err, st')" "e = document_error error_opt source i err"
      | (later) st1 where "check doc st = Some (None, st1)" "validate_documents check error_opt source docs st1 = Some (Some e, st')"
      by (auto simp: d split: option.splits)
    then show "\<exists>pre i doc post st1 err. d # docs = pre @ (i, doc) # post \<and> all_pass check pre st st1
        \<and> check doc st1 = Some (Some err, st') \<and> e = document_error error_opt source i err"
    proof cases
      case here
      then show ?thesis by (intro exI [of _ "[]"]) (auto simp: d)
    next
      case later
      from later(2) obtain pre j doc' post st2 err where "docs = pre @ (j, doc') # post" "all_pass check pre st1 st2"
        "check doc' st2 = Some (Some err, st')" "e = document_error error_opt source j err"
        unfolding step by blast
      with later(1) show ?thesis by (intro exI [of _ "d # pre"]) (auto simp: d)
    qed
  next
    assume "\<exists>pre i doc post st1 err. d # docs = pre @ (i, doc) # post \<and> all_pass check pre st st1
        \<and> check doc st1 = Some (Some err, st') \<and> e = document_error error_opt source i err"
    then obtain pre j doc' post st1 err where *: "d # docs = pre @ (j, doc') # post" "all_pass check pre st st1"
      "check doc' st1 = Some (Some err, st')" "e = document_error error_opt source j err" by blast
    show "validate_documents check error_opt source (d # docs) st = Some (Some e, st')"
    proof (cases pre)
      case Nil
      then show ?thesis using * d by simp
    next
      case (Cons q pre')
      then obtain st2 where p: "check doc st = Some (None, st2)" "all_pass check pre' st2 st1" "docs = pre' @ (j, doc') # post"
        using * d by auto
      then have "validate_documents check error_opt source docs st2 = Some (Some e, st')"
        unfolding step using * by blast
      with p(1) show ?thesis by (simp add: d)
    qed
  qed
qed simp

section \<open>Validation without a schema\<close>

text \<open>
  Without the flag and without the catalog, a document that has no directive is an error of its file: no match loader
  matches it.
\<close>

lemma no_flag_registry:
  assumes "New_store E parse_catalog ctx [] w = Some (Inl err, w')"
  shows "buildRegistry E parse_catalog cwd ctx [] w
     = Some (Register DirectiveLoader (New_registry newMapCache []),
         \<lparr>nw_world = w', nw_directive = Directive_loader [], nw_store = None\<rparr>, Some err)"
  using assms by (simp add: buildRegistry_def)

lemma unmatched_document_fails:
  assumes "rg_matchLoaders r = [DirectiveLoader]" "dl_cachedDoc (nw_directive s) \<noteq> Some (dd_id doc)"
    and "dd_tokens doc = [] \<or> ParseDocumentDirective (dd_tokens doc) = None"
  shows "\<exists>st'. registry_check E parse_catalog glob_match compile Y D validate ctx doc (r, s) = Some (Some (Inl (NoMatch (dd_filePath doc))), st')"
proof -
  obtain dl where "directive_Match doc (nw_directive s) = (False, dl)"
    using assms(2,3) by (auto simp: directive_Match_def parseAndCache_def)
  then show ?thesis
    using assms(1) by (simp add: registry_check_def ValidateDocument_def Lookup_def nyaml_loaders_def nyaml_Match_def)
qed

section \<open>Validation against the schema of the flag\<close>

text \<open>When a check does not depend on the state beyond an invariant, neither does the verdict on a file.\<close>

lemma validate_documents_verdict:
  assumes "\<And>doc st. I st \<Longrightarrow> \<exists>st'. check doc st = Some (map_option Inr (verdict doc), st') \<and> I st'" "I st"
  shows "\<exists>r st'. validate_documents check error_opt source docs st = Some (r, st') \<and> I st'
     \<and> (r = None \<longleftrightarrow> (\<forall>(i, doc) \<in> set docs. verdict doc = None))"
  using assms(2)
proof (induction docs arbitrary: st)
  case (Cons d docs)
  obtain i doc where d: "d = (i, doc)" by (cases d)
  obtain st1 where st1: "check doc st = Some (map_option Inr (verdict doc), st1)" "I st1" using assms(1) [OF Cons.prems] by blast
  show ?case
  proof (cases "verdict doc")
    case None
    then show ?thesis using st1 Cons.IH [OF st1(2)] d by simp
  next
    case (Some err)
    then show ?thesis using st1 d by simp
  qed
qed simp

lemma documents_loop_docs:
  "(\<And>i doc tks. dd_doc (mk i doc tks) = doc \<and> dd_decodeOpts (mk i doc tks) = opts) \<Longrightarrow>
     map (\<lambda>(i, dd). (dd_doc dd, dd_decodeOpts dd)) (documents_loop mk i docs pulled) = map (\<lambda>doc. (doc, opts)) docs"
  by (induction mk i docs pulled rule: documents_loop.induct) auto

lemma decoder_Documents_docs:
  "map (\<lambda>(i, dd). (dd_doc dd, dd_decodeOpts dd)) (decoder_Documents Y add ptr d)
     = map (\<lambda>doc. (doc, src_decodeOpts (dec_source d))) (yl_Docs Y (dec_file d))"
  unfolding decoder_Documents_def Let_def by (rule documents_loop_docs) simp

text \<open>What the flag's schema says of a document: the error of decoding it or of validating the data.\<close>

definition doc_verdict ::
  "('f, 'd, 'n, 'q, 'z) yaml_lib \<Rightarrow> ('o, 'x, 'n, 'a, 'v, ('f, 'o, 'y, 'p) go_error) yaml_decoder
    \<Rightarrow> ('a \<Rightarrow> ('f, 'o, 'y, 'p) go_error option) \<Rightarrow> 'x \<Rightarrow> ('d, 'o) document_decoder \<Rightarrow> ('f, 'o, 'y, 'p) go_error option" where
  "doc_verdict Y D conforms ctx doc = (case decodeNode_any Y D doc ctx of Inl err \<Rightarrow> Some err | Inr a \<Rightarrow> conforms a)"

text \<open>The path the flag's schema is read from.\<close>

definition flag_path :: "string option \<Rightarrow> string \<Rightarrow> string" where
  "flag_path cwd ref = (if fp_IsAbs ref then ref else fp_Join (case cwd of Some d \<Rightarrow> d | None \<Rightarrow> ''.'') ref)"

definition flag_inv ::
  "('c, 'x, 'w) environment \<Rightarrow> string option \<Rightarrow> string \<Rightarrow> 't
    \<Rightarrow> (('t, 'u) schema_validator map_cache, ('x, 'd, 'o, ('t, 'u) schema_validator, 'w) nyaml_loader, 'j) registry
        \<times> ('c, 'w) nyaml_world \<Rightarrow> bool" where
  "flag_inv E cwd ref t st \<longleftrightarrow>
     rg_matchLoaders (fst st) =
       [FlagLoader \<lparr>wr_matcher = Always, wr_loader = Ref_loader E (case cwd of Some d \<Rightarrow> d | None \<Rightarrow> ''.'') ref []\<rparr>]
     \<and> rg_validatorOpts (fst st) = []
     \<and> (rg_cache (fst st) = Map.empty \<or> rg_cache (fst st) = [flag_path cwd ref \<mapsto> Compiled t])"

lemma flag_loader:
  "\<not> isHTTPURL ref \<Longrightarrow>
     Ref_loader E (case cwd of Some d \<Rightarrow> d | None \<Rightarrow> ''.'') ref [] = File_loader E (flag_path cwd ref)"
  by (simp add: Ref_loader_def flag_path_def)

lemma flag_check:
  assumes "\<not> isHTTPURL ref" "\<And>w. ev_ReadFile E (flag_path cwd ref) w = (Inr schema, w)" "schema \<noteq> []"
    and "compile ctx schema [] = Inr t" "flag_inv E cwd ref t st"
  shows "\<exists>st'. registry_check E parse_catalog glob_match compile Y D validate ctx doc st
      = Some (map_option Inr (doc_verdict Y D (validate (Compiled t)) ctx doc), st') \<and> flag_inv E cwd ref t st'"
proof -
  obtain r s where st: "st = (r, s)" by (cases st)
  obtain ml where ml: "rg_matchLoaders r = [ml]"
    "ml = FlagLoader \<lparr>wr_matcher = Always, wr_loader = Ref_loader E (case cwd of Some d \<Rightarrow> d | None \<Rightarrow> ''.'') ref []\<rparr>"
    using assms(5) by (simp add: st flag_inv_def)
  have opts: "rg_validatorOpts r = []" and cache: "rg_cache r = Map.empty \<or> rg_cache r = [flag_path cwd ref \<mapsto> Compiled t]"
    using assms(5) by (simp_all add: st flag_inv_def)
  let ?M = "nyaml_loaders E parse_catalog glob_match"
  have load: "ml_Load ?M ml ctx (Some doc) s
      = Some (Inr \<lparr>res_Validator = None, res_URL = flag_path cwd ref, res_Data = schema\<rparr>, s)"
    using assms(2,3)
    by (simp add: nyaml_loaders_def ml(2) flag_loader [OF assms(1)] nyaml_Load_def wrapper_Load_def File_loader_def loader_Func_def
        NewResult_def)
  have "ml_Match ?M ml ctx doc s = Some (True, s)"
    by (simp add: nyaml_loaders_def ml(2) nyaml_Match_def wrapper_Match_def Always_def matcher_Func_def)
  then have look: "Lookup ?M mapCache compile ctx doc st = loadValidator ?M mapCache compile ctx doc ml st"
    by (simp add: Lookup_def st ml(1))
  have "\<exists>st'. loadValidator ?M mapCache compile ctx doc ml st = Some (Inr (Compiled t), st') \<and> flag_inv E cwd ref t st'"
    using cache
  proof
    assume "rg_cache r = Map.empty"
    then show ?thesis
      using ml(1) ml(2) [symmetric] assms(4) by (simp add: st loadValidator_def load mapCache_def mapCache_Get_def mapCache_Set_def opts
          build_validator_def NewValidator_def flag_inv_def)
  next
    assume "rg_cache r = [flag_path cwd ref \<mapsto> Compiled t]"
    then show ?thesis
      using ml(1) ml(2) [symmetric] by (simp add: st loadValidator_def load mapCache_def mapCache_Get_def opts flag_inv_def)
  qed
  then show ?thesis
    by (auto simp: registry_check_def ValidateDocument_def look ValidateSchemaContext_def doc_verdict_def
        split: sum.split option.split)
qed

text \<open>A file is good for a schema: it can be read and parsed, and all its documents decode and conform.\<close>

definition good_file ::
  "(string \<Rightarrow> token list) \<Rightarrow> (token list \<Rightarrow> 'o list \<Rightarrow> parse_failure + 'f) \<Rightarrow> adder \<Rightarrow> 'o
    \<Rightarrow> ('f, 'd, 'n, 'q, 'z) yaml_lib \<Rightarrow> ('o, 'x, 'n, 'a, 'v, ('f, 'o, 'y, 'p) go_error) yaml_decoder
    \<Rightarrow> ('a \<Rightarrow> ('f, 'o, 'y, 'p) go_error option) \<Rightarrow> 'x \<Rightarrow> string \<Rightarrow> string + string \<Rightarrow> bool" where
  "good_file tokenize parse add width_opt Y D conforms ctx path content \<longleftrightarrow>
     (\<exists>source decoder. NewSourceFromFile (\<lambda>_. content) tokenize path [WithErrorOptions [width_opt]] = Inr (Some source)
        \<and> (source_Decoder parse add source :: ('f, 'o, 'y, 'p) go_error + ('f, 'o) decoder) = Inr decoder
        \<and> (\<forall>d \<in> set (yl_Docs Y (dec_file decoder)).
             \<exists>a. yd_Any D (src_decodeOpts source) ctx (yl_Body Y d) = Inr a \<and> conforms a = None))"

lemma doc_verdict_None:
  "doc_verdict Y D conforms ctx dd = None \<longleftrightarrow>
     (\<exists>a. yd_Any D (dd_decodeOpts dd) ctx (yl_Body Y (dd_doc dd)) = Inr a \<and> conforms a = None)"
  by (auto simp: doc_verdict_def decodeNode_any_def split: sum.split)

lemma documents_conform:
  "(\<forall>(i, dd) \<in> set (decoder_Documents Y add ptr dec). doc_verdict Y D conforms ctx dd = None) \<longleftrightarrow>
     (\<forall>d \<in> set (yl_Docs Y (dec_file dec)).
        \<exists>a. yd_Any D (src_decodeOpts (dec_source dec)) ctx (yl_Body Y d) = Inr a \<and> conforms a = None)"
proof -
  let ?P = "\<lambda>(doc, opts). \<exists>a. yd_Any D opts ctx (yl_Body Y doc) = Inr a \<and> conforms a = None"
  have "list_all ?P (map (\<lambda>(i, dd). (dd_doc dd, dd_decodeOpts dd)) (decoder_Documents Y add ptr dec)) \<longleftrightarrow>
      list_all ?P (map (\<lambda>doc. (doc, src_decodeOpts (dec_source dec))) (yl_Docs Y (dec_file dec)))"
    by (simp only: decoder_Documents_docs)
  then show ?thesis by (auto simp: list_all_iff doc_verdict_None)
qed

lemma NewSourceFromFile_Some: "NewSourceFromFile (\<lambda>_. Inr data) tokenize path opts \<noteq> Inr None"
  using NewLines_built_any [of "tokenize data"]
  by (auto simp: NewSourceFromFile_def NewSourceFromString_def NewSourceFromTokens_def)

lemma source_Decoder_source: "source_Decoder parse add source = Inr dec \<Longrightarrow> dec_source dec = source"
  by (auto simp: source_Decoder_def NewDecoder_def split: sum.splits)

lemma validateFile_verdict:
  fixes Y :: "('f, 'd, 'n, 'q, 'z) yaml_lib" and D :: "('o, 'x, 'n, 'a, 'v, ('f, 'o, 'y, 'p) go_error) yaml_decoder"
  assumes check: "\<And>doc st. I st \<Longrightarrow> \<exists>st'. check doc st = Some (map_option Inr (doc_verdict Y D conforms ctx doc), st') \<and> I st'"
    and read: "read path st = (content, st1)" "I st1"
  shows "\<exists>r ptr' st'. validateFile read tokenize parse add width_opt error_opt Y check path (ptr, st) = Some (r, ptr', st') \<and> I st'
     \<and> (r = None \<longleftrightarrow> good_file tokenize parse add width_opt Y D conforms ctx path content)"
proof (cases "NewSourceFromFile (\<lambda>_. content) tokenize path [WithErrorOptions [width_opt]] :: string + ('f, 'o) source option")
  case (Inl err)
  then show ?thesis using read by (simp add: validateFile_def good_file_def)
next
  case (Inr src)
  then obtain data where "content = Inr data" by (auto simp: NewSourceFromFile_def split: sum.splits)
  with Inr NewSourceFromFile_Some [of data tokenize path] obtain source where src: "src = Some source" by (cases src) auto
  show ?thesis
  proof (cases "source_Decoder parse add source :: ('f, 'o, 'y, 'p) go_error + ('f, 'o) decoder")
    case (Inl err)
    then show ?thesis using read Inr src by (simp add: validateFile_def good_file_def)
  next
    case dec: (Inr dec)
    let ?docs = "decoder_Documents Y add ptr dec"
    have "\<exists>r st'. validate_documents check error_opt source ?docs st1 = Some (r, st') \<and> I st'
        \<and> (r = None \<longleftrightarrow> (\<forall>(i, doc) \<in> set ?docs. doc_verdict Y D conforms ctx doc = None))"
      by (rule validate_documents_verdict [where I = I, OF check read(2)])
    then obtain r st' where r: "validate_documents check error_opt source ?docs st1 = Some (r, st')" "I st'"
      "r = None \<longleftrightarrow> (\<forall>(i, doc) \<in> set ?docs. doc_verdict Y D conforms ctx doc = None)"
      by (elim exE conjE)
    show ?thesis
      using read(1) Inr src dec r(1,2) r(3) [unfolded documents_conform source_Decoder_source [OF dec]]
      by (simp add: validateFile_def good_file_def)
  qed
qed

lemma validate_files_verdict:
  assumes "\<And>path ptr st. path \<in> set paths \<Longrightarrow> I st \<Longrightarrow>
      \<exists>r ptr' st'. validate path (ptr, st) = Some (r, ptr', st') \<and> I st' \<and> (r = None \<longleftrightarrow> good path)"
    and "I st"
  shows "\<exists>results st'. validate_files validate paths (ptr, st) = Some (results, st') \<and> map fst results = paths
     \<and> (\<forall>(path, err) \<in> set results. err = None \<longleftrightarrow> good path)"
  using assms
proof (induction paths arbitrary: ptr st)
  case (Cons path paths)
  obtain r ptr1 st1 where r: "validate path (ptr, st) = Some (r, ptr1, st1)" "I st1" "r = None \<longleftrightarrow> good path"
    using Cons.prems(1) [of path st ptr] Cons.prems(2) by auto
  obtain results st' where "validate_files validate paths (ptr1, st1) = Some (results, st')" "map fst results = paths"
    "\<forall>(path, err) \<in> set results. err = None \<longleftrightarrow> good path"
    using Cons.IH [of st1 ptr1] Cons.prems(1) r(2) by auto
  with r show ?case by simp
qed simp

section \<open>Properties\<close>


text \<open>A run with one file, which holds a document of the number 5, and a schema that allows only it.\<close>

definition sample_reader :: "(unit, unit, unit) environment" where
  "sample_reader = \<lparr>ev_ReadFile = (\<lambda>p w. (if p = ''/s.json'' then Inr ''five'' else Inr ''a'', w)),
     ev_Get = (\<lambda>_ _ _ w. (FetchFailed [], w)), ev_DefaultClient = (), ev_Now = (\<lambda>w. (0, w)), ev_Done = (\<lambda>_ _. False),
     ev_WithTimeout = (\<lambda>x _. x)\<rparr>"

definition sample_trees :: "(nat, nat, nat, unit, nat) yaml_lib" where
  "sample_trees = \<lparr>yl_Docs = (\<lambda>f. [f]), yl_Body = Some, yl_IsDirective = (\<lambda>_. False), yl_FilterNode = (\<lambda>_ n. Inr n),
     yl_Scalar = (\<lambda>n. Some (Some n)), yl_Sprint = (\<lambda>_. []), yl_NodeString = (\<lambda>_. [])\<rparr>"

definition sample_decode :: "(unit, unit, nat, nat, unit, (nat, unit, unit, unit) go_error) yaml_decoder" where
  "sample_decode = \<lparr>yd_Any = (\<lambda>_ _ n. Inr (the n)), yd_Into = (\<lambda>_ _ _ t. (None, t)), yd_Background = ()\<rparr>"

definition sample_conforms :: "(nat, unit) schema_validator \<Rightarrow> nat \<Rightarrow> (nat, unit, unit, unit) go_error option" where
  "sample_conforms v a = (if v = Compiled a then None else Some (GoError ''no'' None []))"


end
