(* ===== verification/Nyaml_Commands.thy ===== *)
theory Nyaml_Commands
  imports Nyaml_Facts
begin

text \<open>
  The command \<open>nyaml view\<close> (\<open>cmd/nyaml/view.go\<close>): it expands its arguments, reads the files and starts the viewer on
  them. \<open>read\<close> is \<open>os.ReadFile\<close>; the result is an error or the model given to \<open>bubbletea\<close>, \<open>None\<close> is a panic.
\<close>

section \<open>The command\<close>

fun read_files :: "(string \<Rightarrow> string + string) \<Rightarrow> string list \<Rightarrow> string + file_entry list" where
  "read_files read [] = Inr []"
| "read_files read (path # paths) = (case read path of
     Inl err \<Rightarrow> Inl (''read file '' @ path @ '': '' @ err)
   | Inr content \<Rightarrow> (case read_files read paths of
       Inl err \<Rightarrow> Inl err
     | Inr files \<Rightarrow> Inr (\<lparr>fe_path = path, fe_content = content\<rparr> # files)))"

definition viewCmd ::
  "(string \<Rightarrow> string + string list) \<Rightarrow> (string \<Rightarrow> string + string) \<Rightarrow> ('k, 'g, 's, 'c, 'm, 'x) nyaml_env
    \<Rightarrow> bool \<Rightarrow> string \<Rightarrow> string list \<Rightarrow> (string + ('f, 'o, 'c, 'x) nyaml) option" where
  "viewCmd glob read E lineNumbers search args = (case filepaths_Expand glob args of
     Inl err \<Rightarrow> Some (Inl err)
   | Inr paths \<Rightarrow> (case read_files read paths of
       Inl err \<Rightarrow> Some (Inl err)
     | Inr files \<Rightarrow> map_option Inr (newModel E \<lparr>mo_search = search, mo_files = files, mo_lineNumbers = lineNumbers\<rparr>)))"

section \<open>Reading\<close>

lemma read_files_Inr:
  "read_files read paths = Inr files \<longleftrightarrow>
     list_all2 (\<lambda>path f. fe_path f = path \<and> read path = Inr (fe_content f)) paths files"
proof (induction paths arbitrary: files)
  case (Cons path paths)
  show ?case
  proof (cases "read path")
    case (Inr content)
    show ?thesis
    proof
      assume "read_files read (path # paths) = Inr files"
      with Inr obtain fs where "read_files read paths = Inr fs" "files = \<lparr>fe_path = path, fe_content = content\<rparr> # fs"
        by (auto split: sum.splits)
      then show "list_all2 (\<lambda>path f. fe_path f = path \<and> read path = Inr (fe_content f)) (path # paths) files"
        using Inr Cons.IH by simp
    next
      assume "list_all2 (\<lambda>path f. fe_path f = path \<and> read path = Inr (fe_content f)) (path # paths) files"
      then obtain f fs where f: "files = f # fs" "fe_path f = path" "fe_content f = content"
        "list_all2 (\<lambda>path f. fe_path f = path \<and> read path = Inr (fe_content f)) paths fs"
        using Inr by (auto simp: list_all2_Cons1)
      then have "read_files read paths = Inr fs" using Cons.IH by blast
      with f(1-3) Inr show "read_files read (path # paths) = Inr files" by (cases f) simp
    qed
  qed (auto simp: list_all2_Cons1)
qed auto

lemma read_files_Inl:
  "read_files read paths = Inl err \<longleftrightarrow>
     (\<exists>pre path post e. paths = pre @ path # post \<and> (\<forall>p \<in> set pre. \<exists>c. read p = Inr c) \<and> read path = Inl e
        \<and> err = ''read file '' @ path @ '': '' @ e)" (is "_ \<longleftrightarrow> ?failed paths")
proof (induction paths)
  case (Cons path paths)
  show ?case
  proof (cases "read path")
    case (Inl e)
    then have "?failed (path # paths) \<longleftrightarrow> err = ''read file '' @ path @ '': '' @ e"
      by (fastforce simp: Cons_eq_append_conv)
    with Inl show ?thesis by auto
  next
    case (Inr c)
    have "?failed (path # paths) \<longleftrightarrow> ?failed paths"
    proof
      assume "?failed (path # paths)"
      then obtain pre p post e where *: "path # paths = pre @ p # post" "\<forall>p \<in> set pre. \<exists>c. read p = Inr c" "read p = Inl e"
        "err = ''read file '' @ p @ '': '' @ e" by blast
      with Inr obtain pre' where "pre = path # pre'" by (cases pre) auto
      with * show "?failed paths" by auto
    next
      assume "?failed paths"
      then obtain pre p post e where "paths = pre @ p # post" "\<forall>p \<in> set pre. \<exists>c. read p = Inr c" "read p = Inl e"
        "err = ''read file '' @ p @ '': '' @ e" by blast
      then show "?failed (path # paths)" using Inr by (intro exI [of _ "path # pre"]) auto
    qed
    moreover have "read_files read (path # paths) = Inl err \<longleftrightarrow> read_files read paths = Inl err"
      using Inr by (simp split: sum.split)
    ultimately show ?thesis using Cons.IH by simp
  qed
qed simp

section \<open>The revisions of the viewer\<close>

text \<open>The viewer has the revisions of these names and is at the last of them.\<close>

definition opened :: "string list \<Rightarrow> ('f, 'o, 'c, 'x) nyaml \<Rightarrow> bool" where
  "opened names m \<longleftrightarrow> RevisionNames (ny_viewport m) = names \<and> IsAtLatestRevision (ny_viewport m)"

lemma same_revisions_names:
  assumes "same_revisions (m_revision m) (m_revision m')"
  shows "RevisionNames m' = RevisionNames m" "IsAtLatestRevision m' = IsAtLatestRevision m"
proof -
  have names: "list_all2 same_source xs ys \<Longrightarrow> map src_name ys = map src_name xs" for xs ys :: "('a, 'b) source list"
  proof (induction rule: list_all2_induct)
    case (Cons x xs y ys)
    have "y = x\<lparr>src_lines := src_lines y\<rparr>" using Cons.hyps(1) by (simp add: same_source_def)
    then have "src_name y = src_name (x\<lparr>src_lines := src_lines y\<rparr>)" by (rule arg_cong)
    then have "src_name y = src_name x" by simp
    with Cons show ?case by simp
  qed simp
  show "RevisionNames m' = RevisionNames m" "IsAtLatestRevision m' = IsAtLatestRevision m"
    using assms names
    by (cases "m_revision m"; cases "m_revision m'";
        auto simp: same_revisions_def RevisionNames_def IsAtLatestRevision_def rv_AtTip_def dest: list_all2_lengthD)+
qed

lemma rerender_names:
  assumes "settled (searchable nrm) m0" "rerender (finder_search add nrm) m0 = Some m"
  shows "RevisionNames m = RevisionNames m0 \<and> IsAtLatestRevision m = IsAtLatestRevision m0"
proof -
  have "keeps m0 m" using library_finder.rerender_safe [OF assms(1), of add] assms(2) by auto
  then show ?thesis using same_revisions_names [of m0 m] by (simp add: keeps_def)
qed

lemma scroll_names [simp]:
  "RevisionNames (GotoBottom m) = RevisionNames m" "IsAtLatestRevision (GotoBottom m) = IsAtLatestRevision m"
  "RevisionNames (scrollToCurrentMatch m) = RevisionNames m" "IsAtLatestRevision (scrollToCurrentMatch m) = IsAtLatestRevision m"
  by (simp_all add: GotoBottom_def scrollToCurrentMatch_def SetYOffset_def RevisionNames_def IsAtLatestRevision_def)

lemma AddRevision_names:
  assumes "vinv (searchable nrm) (finder_search add nrm) m" "AddRevision (finder_search add nrm) s m = Some m'"
  shows "RevisionNames m' = RevisionNames m @ [src_name s] \<and> IsAtLatestRevision m'"
proof -
  define rv where "rv = (case m_revision m of None \<Rightarrow> \<lparr>rv_sources = [s], rv_index = 0\<rparr>
      | Some rv \<Rightarrow> \<lparr>rv_sources = rv_sources rv @ [s], rv_index = length (rv_sources rv)\<rparr>)"
  let ?m = "m\<lparr>m_revision := Some rv\<rparr>"
  obtain m1 where m1: "rerender (finder_search add nrm) ?m = Some m1" "m' = (if m_yOffset m1 > maxYOffset m1 then GotoBottom m1 else m1)"
    using assms(2) by (auto simp: AddRevision_def rv_def Let_def Option.bind_eq_Some_conv)
  have "settled (searchable nrm) ?m"
    using assms(1) by (auto simp: vinv_def settled_def revision_ok_def index_ok_def rv_def split: option.split)
  then have "RevisionNames m1 = RevisionNames ?m \<and> IsAtLatestRevision m1 = IsAtLatestRevision ?m"
    by (rule rerender_names [OF _ m1(1)])
  moreover have "RevisionNames m' = RevisionNames m1 \<and> IsAtLatestRevision m' = IsAtLatestRevision m1" using m1(2) by simp
  ultimately show ?thesis
    by (auto simp: RevisionNames_def IsAtLatestRevision_def rv_def rv_AtTip_def split: option.split)
qed

lemma SetSearchTerm_names:
  assumes "vinv (searchable nrm) (finder_search add nrm) m" "searchable nrm t" "t \<noteq> []"
    and "SetSearchTerm (finder_search add nrm) t m = Some m'"
  shows "RevisionNames m' = RevisionNames m \<and> IsAtLatestRevision m' = IsAtLatestRevision m"
proof -
  obtain m1 where m1: "rerender (finder_search add nrm) (m\<lparr>m_searchTerm := t\<rparr>) = Some m1" "m' = scrollToCurrentMatch m1"
    using assms(3,4) by (auto simp: SetSearchTerm_def)
  have "settled (searchable nrm) (m\<lparr>m_searchTerm := t\<rparr>)"
    using assms(1-3) by (auto simp: vinv_def settled_def revision_ok_def index_ok_def)
  from rerender_names [OF this m1(1)] show ?thesis
    unfolding m1(2) scroll_names by (simp add: RevisionNames_def IsAtLatestRevision_def)
qed

lemma add_file_opened:
  assumes "env_ok add nrm E" "nyaml_inv nrm E m" "opened names m" "add_file E m f = Some m'"
  shows "opened (names @ [fp_Base (fe_path f)]) m'"
proof -
  obtain s vp where s: "NewSourceFromString (ny_tokenize E) (fe_content f) [WithName (fp_Base (fe_path f))] = Some s"
    "AddRevision (ny_search E) s (ny_viewport m) = Some vp" "m' = m\<lparr>ny_viewport := vp\<rparr>"
    using assms(4) by (auto simp: add_file_def Option.bind_eq_Some_conv)
  have "src_name s = fp_Base (fe_path f)"
    using s(1) by (auto simp: NewSourceFromString_def NewSourceFromTokens_def WithName_def)
  moreover have "ny_search E = finder_search add nrm" using assms(1) by (simp add: env_ok_def)
  ultimately show ?thesis
    using AddRevision_names [of nrm add "ny_viewport m" s vp] s(2,3) assms(2,3) by (simp add: opened_def nyaml_inv_def)
qed

lemma add_files_opened:
  assumes "env_ok add nrm E" "nyaml_inv nrm E m" "opened names m" "foldM (add_file E) m files = Some m'"
  shows "nyaml_inv nrm E m' \<and> opened (names @ map (\<lambda>f. fp_Base (fe_path f)) files) m'"
  using assms(2-4)
proof (induction files arbitrary: m names)
  case (Cons f files)
  obtain m1 where m1: "add_file E m f = Some m1" "foldM (add_file E) m1 files = Some m'"
    using Cons.prems(3) by (auto split: option.splits)
  have "nyaml_inv nrm E m1" using add_file_safe [OF assms(1) Cons.prems(1), of f] m1(1) by (simp add: ny_safe_def)
  from Cons.IH [OF this add_file_opened [OF assms(1) Cons.prems(1,2) m1(1)] m1(2)] show ?case by simp
qed simp

lemma newModel_opened:
  fixes m :: "('f, 'o, 'c, 'x) nyaml"
  assumes "env_ok add nrm E" "mo_search opts = [] \<or> searchable nrm (mo_search opts)" "newModel E opts = Some m"
  shows "opened (map (\<lambda>f. fp_Base (fe_path f)) (mo_files opts)) m"
proof -
  obtain p where p: "theme_printer E (mo_lineNumbers opts) ''charm'' = Some p"
    using theme_printer_listed [OF assms(1) charm_in_theme_list] by blast
  let ?vp = "New_model DefaultKeyMap (print_settings_of p) [view_WithPrinter (print_settings_of p)] :: ('f, 'o, string list) model"
  let ?m = "\<lparr>ny_searchInput = [], ny_currentTheme = ''charm'', ny_previousTheme = [], ny_themeList = theme_list E,
       ny_viewport = ?vp, ny_printer = p, ny_width = 0, ny_height = 0,
       ny_themeIndex = max 0 (slice_index (theme_list E) ''charm''),
       ny_lineNumbers = mo_lineNumbers opts, ny_searching = False, ny_themePicking = False\<rparr>"
  obtain m1 where m1: "foldM (add_file E) ?m (mo_files opts) = Some m1"
    "(if mo_search opts \<noteq> [] then applySearch E (mo_search opts) m1 else Some m1) = Some m"
    using assms(3) p by (auto simp: newModel_def Let_def Option.bind_eq_Some_conv)
  have "opened [] ?m"
    by (simp add: opened_def RevisionNames_def IsAtLatestRevision_def New_model_def setInitialValues_def zero_model_def view_WithPrinter_def)
  from add_files_opened [OF assms(1) newModel_start_inv [OF assms(1)] this m1(1)]
  have o: "nyaml_inv nrm E m1" "opened (map (\<lambda>f. fp_Base (fe_path f)) (mo_files opts)) m1" by simp_all
  show ?thesis
  proof (cases "mo_search opts = []")
    case False
    then obtain vp where vp: "SetSearchTerm (ny_search E) (mo_search opts) (ny_viewport m1) = Some vp" "m = m1\<lparr>ny_viewport := vp\<rparr>"
      using m1(2) by (auto simp: applySearch_def)
    have "ny_search E = finder_search add nrm" using assms(1) by (simp add: env_ok_def)
    with vp SetSearchTerm_names [of nrm add "ny_viewport m1" "mo_search opts" vp] o False assms(2) show ?thesis
      by (simp add: opened_def nyaml_inv_def)
  qed (use m1(2) o in simp)
qed

section \<open>Properties\<close>

text \<open>
  C40: \<open>nyaml view\<close> fails with the first file of its sorted arguments that cannot be read, and starts no viewer then;
  otherwise it never panics, and the viewer starts in a good state with one revision for each file, named after it and
  in order, at the last of them.
\<close>

theorem viewCmd_exact:
  assumes "env_ok add nrm E" "search = [] \<or> searchable nrm search" "filepaths_Expand glob args = Inr paths"
  shows "(\<exists>pre path post e. paths = pre @ path # post \<and> (\<forall>p \<in> set pre. \<exists>c. read p = Inr c) \<and> read path = Inl e
        \<and> viewCmd glob read E lineNumbers search args = Some (Inl (''read file '' @ path @ '': '' @ e)))
    \<or> ((\<forall>p \<in> set paths. \<exists>c. read p = Inr c)
        \<and> (\<exists>m :: ('f, 'o, 'c, 'x) nyaml. viewCmd glob read E lineNumbers search args = Some (Inr m)
            \<and> vinv (searchable nrm) (ny_search E) (ny_viewport m)
            \<and> RevisionNames (ny_viewport m) = map fp_Base paths \<and> IsAtLatestRevision (ny_viewport m)))"
proof (cases "read_files read paths")
  case (Inl err)
  then show ?thesis using read_files_Inl [of read paths err] assms(3) by (auto simp: viewCmd_def)
next
  case (Inr files)
  then have l: "list_all2 (\<lambda>path f. fe_path f = path \<and> read path = Inr (fe_content f)) paths files"
    by (simp add: read_files_Inr)
  then have paths: "map fe_path files = paths" "\<forall>p \<in> set paths. \<exists>c. read p = Inr c"
    by (induction rule: list_all2_induct) auto
  let ?opts = "\<lparr>mo_search = search, mo_files = files, mo_lineNumbers = lineNumbers\<rparr>"
  obtain m :: "('f, 'o, 'c, 'x) nyaml" where m: "newModel E ?opts = Some m" "nyaml_inv nrm E m"
    using newModel_safe [OF assms(1), of ?opts] assms(2) unfolding ny_safe_def by auto
  have "opened (map (\<lambda>f. fp_Base (fe_path f)) files) m"
    using newModel_opened [OF assms(1) _ m(1)] assms(2) by simp
  also have "map (\<lambda>f. fp_Base (fe_path f)) files = map fp_Base paths" by (simp add: paths(1) [symmetric])
  finally show ?thesis using m paths(2) Inr assms(3) by (auto simp: viewCmd_def opened_def nyaml_inv_def)
qed

theorem viewCmd_exact_witness:
  "\<exists>m :: (nat, nat, nat, unit) nyaml.
     viewCmd (\<lambda>_. Inr []) (\<lambda>_. Inr ''a'') sample_env True [] [''x/b.yaml'', ''a.yaml''] = Some (Inr m)
     \<and> RevisionNames (ny_viewport m) = [''a.yaml'', ''b.yaml'']"
proof -
  have paths: "filepaths_Expand (\<lambda>_. Inr []) [''x/b.yaml'', ''a.yaml''] = Inr [''a.yaml'', ''x/b.yaml'']"
    by (simp add: filepaths_Expand_def ContainsGlobChars_def less_char_def)
  have names: "map fp_Base [''a.yaml'', ''x/b.yaml''] = [''a.yaml'', ''b.yaml'']" by code_simp
  have search: "([] :: string) = [] \<or> searchable id []" by simp
  show ?thesis
    using viewCmd_exact [OF sample_env_ok search paths, where read = "\<lambda>_. Inr ''a''" and lineNumbers = True] names by auto
qed

end
