(* ===== verification/Normalizers.thy ===== *)
theory Normalizers
  imports Go_Strings
begin

text \<open>
  Package \<open>normalizer\<close> (\<open>normalizer/normalizer.go\<close>): the pipeline of Unicode transformations that options choose. The
  transformations, and \<open>transform.Chain\<close>, are golang.org/x/text: what running a pipeline gives is a parameter. The lock
  is left out.
\<close>

section \<open>The pipeline\<close>

datatype 't transformer = WidthFold | NFD | RemoveMn | NFC | CaseFold | Custom 't

datatype 't pipeline = Nop | Single "'t transformer" | Chain "'t transformer list"

record 't normalizer_config =
  nc_transformers :: "'t transformer list"
  nc_caseFold :: bool
  nc_diacritics :: bool
  nc_widthFold :: bool

type_synonym 't normalizer_option = "'t normalizer_config \<Rightarrow> 't normalizer_config"

definition WithCaseFold :: "bool \<Rightarrow> 't normalizer_option" where
  "WithCaseFold enabled c = c\<lparr>nc_caseFold := enabled\<rparr>"

definition WithDiacriticFold :: "bool \<Rightarrow> 't normalizer_option" where
  "WithDiacriticFold enabled c = c\<lparr>nc_diacritics := enabled\<rparr>"

definition WithTransformer :: "'t list \<Rightarrow> 't normalizer_option" where
  "WithTransformer ts c = c\<lparr>nc_transformers := nc_transformers c @ map Custom ts\<rparr>"

definition WithWidthFold :: "bool \<Rightarrow> 't normalizer_option" where
  "WithWidthFold enabled c = c\<lparr>nc_widthFold := enabled\<rparr>"

definition pipeline_of :: "'t transformer list \<Rightarrow> 't pipeline" where
  "pipeline_of ts = (case ts of [] \<Rightarrow> Nop | [t] \<Rightarrow> Single t | _ \<Rightarrow> Chain ts)"

definition New_normalizer :: "'t normalizer_option list \<Rightarrow> 't pipeline" where
  "New_normalizer opts =
     (let cfg = foldl (\<lambda>c opt. opt c)
            \<lparr>nc_transformers = [], nc_caseFold = True, nc_diacritics = True, nc_widthFold = False\<rparr> opts;
          transformers = [];
          transformers = (if nc_widthFold cfg then transformers @ [WidthFold] else transformers);
          transformers = (if nc_diacritics cfg then transformers @ [NFD, RemoveMn, NFC] else transformers);
          transformers = (if nc_caseFold cfg then transformers @ [CaseFold] else transformers);
          transformers = transformers @ nc_transformers cfg
      in pipeline_of transformers)"

text \<open>\<open>run\<close> is \<open>transform.String\<close> with a fresh transformer, \<open>None\<close> an error.\<close>

definition Normalize :: "('t pipeline \<Rightarrow> string \<Rightarrow> string option) \<Rightarrow> 't pipeline \<Rightarrow> string \<Rightarrow> string" where
  "Normalize run n s = (case run n s of None \<Rightarrow> s | Some out \<Rightarrow> out)"

section \<open>What options choose\<close>

text \<open>The options as data: the last one about a property decides, transformers add up.\<close>

datatype 't choice = CaseFolding bool | DiacriticFolding bool | WidthFolding bool | Transforming "'t list"

fun option_of :: "'t choice \<Rightarrow> 't normalizer_option" where
  "option_of (CaseFolding b) = WithCaseFold b"
| "option_of (DiacriticFolding b) = WithDiacriticFold b"
| "option_of (WidthFolding b) = WithWidthFold b"
| "option_of (Transforming ts) = WithTransformer ts"

definition last_of :: "('a \<Rightarrow> bool option) \<Rightarrow> bool \<Rightarrow> 'a list \<Rightarrow> bool" where
  "last_of f b xs = last (b # List.map_filter f xs)"

fun folds_case :: "'t choice \<Rightarrow> bool option" where
  "folds_case (CaseFolding b) = Some b" | "folds_case _ = None"

fun folds_diacritics :: "'t choice \<Rightarrow> bool option" where
  "folds_diacritics (DiacriticFolding b) = Some b" | "folds_diacritics _ = None"

fun folds_width :: "'t choice \<Rightarrow> bool option" where
  "folds_width (WidthFolding b) = Some b" | "folds_width _ = None"

fun added_transformers :: "'t choice \<Rightarrow> 't list" where
  "added_transformers (Transforming ts) = ts" | "added_transformers _ = []"

definition stages :: "'t pipeline \<Rightarrow> 't transformer list" where
  "stages p = (case p of Nop \<Rightarrow> [] | Single t \<Rightarrow> [t] | Chain ts \<Rightarrow> ts)"

lemma last_of_simps [simp]:
  "last_of f b [] = b"
  "last_of f b (x # xs) = last_of f (case f x of Some b' \<Rightarrow> b' | None \<Rightarrow> b) xs"
  by (auto simp: last_of_def map_filter_simps split: option.split)

lemma choices_config:
  "foldl (\<lambda>c opt. opt c) cfg (map option_of choices) = cfg\<lparr>
     nc_caseFold := last_of folds_case (nc_caseFold cfg) choices,
     nc_diacritics := last_of folds_diacritics (nc_diacritics cfg) choices,
     nc_widthFold := last_of folds_width (nc_widthFold cfg) choices,
     nc_transformers := nc_transformers cfg @ map Custom (concat (map added_transformers choices))\<rparr>"
proof (induction choices arbitrary: cfg)
  case (Cons c choices)
  then show ?case
    by (cases c) (simp_all add: WithCaseFold_def WithDiacriticFold_def WithWidthFold_def WithTransformer_def)
qed simp

lemma stages_pipeline: "stages (pipeline_of ts) = ts"
  by (auto simp: stages_def pipeline_of_def split: list.split)

lemma New_normalizer_stages:
  "stages (New_normalizer (map option_of choices)) =
     (if last_of folds_width False choices then [WidthFold] else [])
     @ (if last_of folds_diacritics True choices then [NFD, RemoveMn, NFC] else [])
     @ (if last_of folds_case True choices then [CaseFold] else [])
     @ map Custom (concat (map added_transformers choices))"
  by (simp add: New_normalizer_def choices_config Let_def stages_pipeline)

text \<open>The default pipeline folds diacritics, then case.\<close>

lemma New_normalizer_default: "New_normalizer [] = Chain [NFD, RemoveMn, NFC, CaseFold]"
  by (simp add: New_normalizer_def pipeline_of_def)

lemma New_normalizer_nothing: "New_normalizer [WithCaseFold False, WithDiacriticFold False] = Nop"
  by (simp add: New_normalizer_def pipeline_of_def WithCaseFold_def WithDiacriticFold_def)

lemma Normalize_fails: "run n s = None \<Longrightarrow> Normalize run n s = s"
  by (simp add: Normalize_def)

end
