(* ===== verification/Fangs.thy ===== *)
theory Fangs
  imports Go_Strings Styles "HOL-Library.Monad_Syntax"
begin

text \<open>
  Package \<open>fangs\<close> (\<open>fangs/fangs.go\<close>, \<open>fangs/colorscheme.go\<close>): the error handler and the colours of the command line.
  A writer is a function on its state, \<open>None\<close> an error of \<open>Write\<close>; \<open>mustN\<close> panics then, which is \<open>None\<close> again. What
  lipgloss renders, the header and the hint on usage, are parameters, as are the getters of its styles.
\<close>

section \<open>The error handler\<close>

definition usage_prefixes :: "string list" where
  "usage_prefixes = [''flag needs an argument:'', ''unknown flag:'', ''unknown shorthand flag:'', ''unknown command'', ''invalid argument'']"

definition isUsageError :: "string \<Rightarrow> bool" where
  "isUsageError err \<longleftrightarrow> list_ex (has_prefix err) usage_prefixes"

type_synonym 'w writer = "string \<Rightarrow> 'w \<Rightarrow> 'w option"

definition println :: "'w writer \<Rightarrow> 'w \<Rightarrow> string \<Rightarrow> 'w option" where
  "println write w s = write (s @ [LF]) w"

definition ErrorHandler :: "'w writer \<Rightarrow> string \<Rightarrow> string \<Rightarrow> string \<Rightarrow> 'w \<Rightarrow> 'w option" where
  "ErrorHandler write header hint err w = do {
     w1 \<leftarrow> println write w header;
     w2 \<leftarrow> foldM (\<lambda>w line. println write w (''  '' @ line)) w1 (split_nl err);
     w3 \<leftarrow> println write w2 [];
     (if isUsageError err then do { w4 \<leftarrow> println write w3 hint; println write w4 [] } else Some w3) }"

section \<open>Colours\<close>

record 'c color_scheme =
  cs_Base :: 'c
  cs_Title :: 'c
  cs_Description :: 'c
  cs_Codeblock :: 'c
  cs_Program :: 'c
  cs_Command :: 'c
  cs_DimmedArgument :: 'c
  cs_Comment :: 'c
  cs_Flag :: 'c
  cs_FlagDefault :: 'c
  cs_QuotedString :: 'c
  cs_Argument :: 'c
  cs_Dash :: 'c
  cs_ErrorHeader :: "'c \<times> 'c"

text \<open>\<open>emptyStyle\<close> is the style of a category that is not there; \<open>fg\<close> and \<open>bg\<close> are the getters.\<close>

definition ColorScheme :: "'s \<Rightarrow> ('s \<Rightarrow> 'c) \<Rightarrow> ('s \<Rightarrow> 'c) \<Rightarrow> 's styles \<Rightarrow> 'c color_scheme" where
  "ColorScheme emptyStyle fg bg styles =
     (let get = styles_Style emptyStyle styles; txt = get style_Text; comment = get style_Comment; genericError = get style_GenericError in
      \<lparr>cs_Base = fg txt,
       cs_Title = fg (get style_NameTag),
       cs_Description = fg txt,
       cs_Codeblock = bg txt,
       cs_Program = fg (get style_NameTag),
       cs_Command = fg (get style_NameAnchor),
       cs_DimmedArgument = fg comment,
       cs_Comment = fg comment,
       cs_Flag = fg (get style_LiteralNumber),
       cs_FlagDefault = fg comment,
       cs_QuotedString = fg (get style_LiteralString),
       cs_Argument = fg txt,
       cs_Dash = fg (get style_Punctuation),
       cs_ErrorHeader = (fg genericError, bg genericError)\<rparr>)"

definition ColorSchemeFunc :: "'s \<Rightarrow> ('s \<Rightarrow> 'c) \<Rightarrow> ('s \<Rightarrow> 'c) \<Rightarrow> 's styles \<Rightarrow> 'l \<Rightarrow> 'c color_scheme" where
  "ColorSchemeFunc emptyStyle fg bg styles _ = ColorScheme emptyStyle fg bg styles"

section \<open>Facts\<close>

text \<open>On a writer that takes everything: the rows of the error, each behind two spaces.\<close>

definition append_writer :: "string writer" where
  "append_writer s w = Some (w @ s)"

lemma append_lines:
  "foldM (\<lambda>w line. println append_writer w (''  '' @ line)) w rows = Some (w @ concat (map (\<lambda>row. ''  '' @ row @ [LF]) rows))"
  by (induction rows arbitrary: w) (simp_all add: println_def append_writer_def)

lemma ErrorHandler_output:
  "ErrorHandler append_writer header hint err w =
     Some (w @ header @ [LF] @ concat (map (\<lambda>row. ''  '' @ row @ [LF]) (split_nl err)) @ [LF]
       @ (if isUsageError err then hint @ [LF, LF] else []))"
proof -
  have line: "println append_writer w s = Some (w @ s @ [LF])" for w s by (simp add: println_def append_writer_def)
  show ?thesis using append_lines by (simp add: ErrorHandler_def line)
qed

text \<open>
  The message is kept: without the header and the two columns in front, the rows of what is written are the rows of
  the error, so that columns and carets of an excerpt stay under each other.
\<close>

lemma split_nl_append: "LF \<notin> set p \<Longrightarrow> split_nl (p @ [LF] @ s) = p # split_nl s"
  by (induction p) auto

lemma split_nl_rows: "\<forall>row \<in> set rows. LF \<notin> set row \<Longrightarrow> split_nl (concat (map (\<lambda>row. row @ [LF]) rows) @ s) = rows @ split_nl s"
proof (induction rows)
  case (Cons row rows)
  then show ?case using split_nl_append [of row "concat (map (\<lambda>row. row @ [LF]) rows) @ s"] by simp
qed simp

lemma ErrorHandler_rows:
  assumes "LF \<notin> set header" "\<not> isUsageError err" "ErrorHandler append_writer header hint err [] = Some out"
  shows "\<exists>rows. split_nl out = header # rows @ [[], []] \<and> map (drop 2) rows = split_nl err \<and> (\<forall>row \<in> set rows. take 2 row = ''  '')"
proof -
  let ?rows = "map ((@) ''  '') (split_nl err)"
  have "out = concat (map (\<lambda>row. row @ [LF]) (header # ?rows @ [[]])) @ []"
    using assms(2,3) by (simp add: ErrorHandler_output o_def)
  moreover have "\<forall>row \<in> set (header # ?rows @ [[]]). LF \<notin> set row"
    using assms(1) by (auto simp: LF_def dest: split_nl_no_newline)
  ultimately have "split_nl out = (header # ?rows @ [[]]) @ split_nl []"
    using split_nl_rows by blast
  moreover have "map (drop 2) ?rows = split_nl err" by (simp add: o_def numeral_2_eq_2 map_idI)
  ultimately show ?thesis by (intro exI [of _ ?rows]) (auto simp: numeral_2_eq_2)
qed

end
