(* ===== verification/Yamltest.thy ===== *)
theory Yamltest
  imports Tokens
begin

text \<open>
  Package \<open>internal/yamltest\<close>: the comparison, validation and formatting of tokens that the tests rest on
  (\<open>tokens.go\<close>) and the styles that print XML tags (\<open>styles.go\<close>). A token here has all its fields but the links to its
  neighbours, which nothing reads; a nil pointer is \<open>None\<close>, and so is the result of a function that panics on it. The
  names of token types, character types and indicators, and the quoting of \<open>%q\<close>, are parameters.
\<close>

section \<open>Tokens with all fields\<close>

record ('c, 'i) lexed =
  lx_Type :: token_type
  lx_CharacterType :: 'c
  lx_Indicator :: 'i
  lx_Value :: string
  lx_Origin :: string
  lx_Error :: string
  lx_Position :: "token_position option"

datatype invalid_reason = ErrNilToken | ErrNilPosition

record token_validation_error =
  tv_Reason :: invalid_reason
  tv_Which :: string
  tv_Index :: int

record ('c, 'i) token_diff =
  td_Want :: "('c, 'i) lexed"
  td_Got :: "('c, 'i) lexed"
  td_Fields :: "string list"

record ('c, 'i) tokens_diff =
  ts_Diffs :: "('c, 'i) token_diff list"
  ts_WantCount :: int
  ts_GotCount :: int
  ts_CountMismatch :: bool

record content_diff =
  ct_Want :: string
  ct_Got :: string

section \<open>Formatting\<close>

record ('c, 'i) token_names =
  tn_Type :: "token_type \<Rightarrow> string"
  tn_CharacterType :: "'c \<Rightarrow> string"
  tn_Indicator :: "'i \<Rightarrow> string"
  tn_quote :: "string \<Rightarrow> string"

definition FormatTokenPosition :: "token_position option \<Rightarrow> string" where
  "FormatTokenPosition pos = (case pos of
     None \<Rightarrow> ''<nil>''
   | Some p \<Rightarrow> ''Line='' @ itoa (tline p) @ '' Col='' @ itoa (tcolumn p) @ '' Offset='' @ itoa (toffset p)
       @ '' IndentNum='' @ itoa (tindent_num p) @ '' IndentLevel='' @ itoa (tindent_level p))"

definition FormatToken :: "('c, 'i) token_names \<Rightarrow> ('c, 'i) lexed option \<Rightarrow> string" where
  "FormatToken N tk = (case tk of
     None \<Rightarrow> ''<nil>''
   | Some t \<Rightarrow> ''Type='' @ tn_Type N (lx_Type t) @ '' Value='' @ tn_quote N (lx_Value t) @ '' Origin='' @ tn_quote N (lx_Origin t)
       @ '' Indicator='' @ tn_Indicator N (lx_Indicator t) @ '' CharacterType='' @ tn_CharacterType N (lx_CharacterType t)
       @ '' Position=('' @ FormatTokenPosition (lx_Position t) @ '')'')"

definition FormatTokens :: "('c, 'i) token_names \<Rightarrow> ('c, 'i) lexed option list \<Rightarrow> string" where
  "FormatTokens N tks = (if tks = [] then ''<empty>''
     else concat (map (\<lambda>(i, tk). (if i > 0 then [LF] else []) @ ''['' @ itoa (int i) @ '']'' @ [LF] @ FormatToken N tk) (enumerate 0 tks)))"

definition DumpTokenOrigins :: "('c, 'i) lexed list \<Rightarrow> string" where
  "DumpTokenOrigins tks = concat (map lx_Origin tks)"

section \<open>Validation\<close>

definition reason_text :: "invalid_reason \<Rightarrow> string" where
  "reason_text r = (case r of ErrNilToken \<Rightarrow> ''token is nil'' | ErrNilPosition \<Rightarrow> ''token position is nil'')"

definition validation_Error :: "token_validation_error \<Rightarrow> string" where
  "validation_Error e = (if tv_Index e < 0 then tv_Which e @ '': '' @ reason_text (tv_Reason e)
     else ''token '' @ itoa (tv_Index e) @ '' '' @ tv_Which e @ '': '' @ reason_text (tv_Reason e))"

definition check_token :: "int \<Rightarrow> string \<Rightarrow> ('c, 'i) lexed option \<Rightarrow> token_validation_error option" where
  "check_token i which tk = (case tk of
     None \<Rightarrow> Some \<lparr>tv_Reason = ErrNilToken, tv_Which = which, tv_Index = i\<rparr>
   | Some t \<Rightarrow> (case lx_Position t of
       None \<Rightarrow> Some \<lparr>tv_Reason = ErrNilPosition, tv_Which = which, tv_Index = i\<rparr>
     | Some _ \<Rightarrow> None))"

definition ValidateTokenPair :: "('c, 'i) lexed option \<Rightarrow> ('c, 'i) lexed option \<Rightarrow> token_validation_error option" where
  "ValidateTokenPair want got = (case check_token (-1) ''want'' want of
     Some e \<Rightarrow> Some e
   | None \<Rightarrow> check_token (-1) ''got'' got)"

datatype tokens_error = CountError string | TokenError token_validation_error

fun validate_pairs :: "int \<Rightarrow> (('c, 'i) lexed option \<times> ('c, 'i) lexed option) list \<Rightarrow> tokens_error option" where
  "validate_pairs i [] = None"
| "validate_pairs i ((want, got) # pairs) = (case check_token i ''want'' want of
     Some e \<Rightarrow> Some (TokenError e)
   | None \<Rightarrow> (case check_token i ''got'' got of
       Some e \<Rightarrow> Some (TokenError e)
     | None \<Rightarrow> validate_pairs (i + 1) pairs))"

definition ValidateTokens ::
  "('c, 'i) token_names \<Rightarrow> ('c, 'i) lexed option list \<Rightarrow> ('c, 'i) lexed option list \<Rightarrow> tokens_error option" where
  "ValidateTokens N want got =
     (if length want \<noteq> length got then
        Some (CountError (''token count mismatch: want '' @ itoa (int (length want)) @ '', got '' @ itoa (int (length got))
          @ [LF] @ ''want tokens:'' @ [LF] @ FormatTokens N want @ [LF] @ ''got tokens:'' @ [LF] @ FormatTokens N got))
      else validate_pairs 0 (zip want got))"

section \<open>Comparison\<close>

definition DiffTokenFields :: "('c, 'i) lexed option \<Rightarrow> ('c, 'i) lexed option \<Rightarrow> string list option" where
  "DiffTokenFields want got = Option.bind want (\<lambda>w. Option.bind got (\<lambda>g.
     Option.bind (lx_Position w) (\<lambda>p. Option.bind (lx_Position g) (\<lambda>q.
       Some ((if lx_Type w \<noteq> lx_Type g then [''Type''] else [])
         @ (if lx_Value w \<noteq> lx_Value g then [''Value''] else [])
         @ (if lx_Origin w \<noteq> lx_Origin g then [''Origin''] else [])
         @ (if lx_CharacterType w \<noteq> lx_CharacterType g then [''CharacterType''] else [])
         @ (if lx_Indicator w \<noteq> lx_Indicator g then [''Indicator''] else [])
         @ (if tcolumn p \<noteq> tcolumn q then [''Position.Column''] else [])
         @ (if tline p \<noteq> tline q then [''Position.Line''] else [])
         @ (if toffset p \<noteq> toffset q then [''Position.Offset''] else [])
         @ (if tindent_num p \<noteq> tindent_num q then [''Position.IndentNum''] else [])
         @ (if tindent_level p \<noteq> tindent_level q then [''Position.IndentLevel''] else []))))))"

definition CompareTokens :: "('c, 'i) lexed option \<Rightarrow> ('c, 'i) lexed option \<Rightarrow> ('c, 'i) token_diff option" where
  "CompareTokens want got = Option.bind (DiffTokenFields want got) (\<lambda>fields.
     Option.bind want (\<lambda>w. Option.bind got (\<lambda>g. Some \<lparr>td_Want = w, td_Got = g, td_Fields = fields\<rparr>)))"

definition diff_Equal :: "('c, 'i) token_diff \<Rightarrow> bool" where
  "diff_Equal d \<longleftrightarrow> length (td_Fields d) = 0"

definition diff_String :: "('c, 'i) token_names \<Rightarrow> ('c, 'i) token_diff \<Rightarrow> string" where
  "diff_String N d = (if diff_Equal d then ''tokens equal''
     else ''token mismatch:'' @ [LF] @ ''  want: '' @ FormatToken N (Some (td_Want d)) @ [LF] @ ''  got:  '' @ FormatToken N (Some (td_Got d))
       @ [LF] @ ''  differences: '' @ join '', '' (td_Fields d))"

fun compare_pairs :: "(('c, 'i) lexed option \<times> ('c, 'i) lexed option) list \<Rightarrow> ('c, 'i) token_diff list option" where
  "compare_pairs [] = Some []"
| "compare_pairs ((want, got) # pairs) = Option.bind (CompareTokens want got) (\<lambda>d. map_option ((#) d) (compare_pairs pairs))"

definition CompareTokenSlices :: "('c, 'i) lexed option list \<Rightarrow> ('c, 'i) lexed option list \<Rightarrow> ('c, 'i) tokens_diff option" where
  "CompareTokenSlices want got =
     (if length want \<noteq> length got then
        Some \<lparr>ts_Diffs = [], ts_WantCount = int (length want), ts_GotCount = int (length got), ts_CountMismatch = True\<rparr>
      else map_option (\<lambda>diffs. \<lparr>ts_Diffs = diffs, ts_WantCount = int (length want), ts_GotCount = int (length got), ts_CountMismatch = False\<rparr>)
        (compare_pairs (zip want got)))"

definition tokens_Equal :: "('c, 'i) tokens_diff \<Rightarrow> bool" where
  "tokens_Equal d \<longleftrightarrow> \<not> ts_CountMismatch d \<and> list_all diff_Equal (ts_Diffs d)"

text \<open>The loop of \<open>TokensDiff.String\<close> over the differences from an index on, behind what is written.\<close>

fun diffs_text :: "('c, 'i) token_names \<Rightarrow> string \<Rightarrow> int \<Rightarrow> ('c, 'i) token_diff list \<Rightarrow> string" where
  "diffs_text N sb i [] = sb"
| "diffs_text N sb i (d # ds) = diffs_text N
     (if diff_Equal d then sb
      else (if length sb > 0 then sb @ [LF] else sb) @ ''token '' @ itoa i @ '': '' @ diff_String N d) (i + 1) ds"

definition tokens_String :: "('c, 'i) token_names \<Rightarrow> ('c, 'i) tokens_diff \<Rightarrow> string" where
  "tokens_String N d = (if tokens_Equal d then ''token slices equal''
     else if ts_CountMismatch d then ''token count mismatch: want '' @ itoa (ts_WantCount d) @ '', got '' @ itoa (ts_GotCount d)
     else diffs_text N [] 0 (ts_Diffs d))"

section \<open>Content\<close>

fun replace_crlf :: "string \<Rightarrow> string" where
  "replace_crlf (c # d # s) = (if c = CR \<and> d = LF then LF # replace_crlf s else c # replace_crlf (d # s))"
| "replace_crlf s = s"

definition normalizeContent :: "string \<Rightarrow> string" where
  "normalizeContent s = trim_right {LF} (trim_left {LF} (replace_crlf s))"

definition CompareContent :: "string \<Rightarrow> string \<Rightarrow> content_diff" where
  "CompareContent want got = \<lparr>ct_Want = normalizeContent want, ct_Got = normalizeContent got\<rparr>"

definition content_Equal :: "content_diff \<Rightarrow> bool" where
  "content_Equal d \<longleftrightarrow> ct_Want d = ct_Got d"

definition content_String :: "('c, 'i) token_names \<Rightarrow> content_diff \<Rightarrow> string" where
  "content_String N d = (if content_Equal d then ''content equal''
     else ''content mismatch:'' @ [LF] @ ''  want: '' @ tn_quote N (ct_Want d) @ [LF] @ ''  got:  '' @ tn_quote N (ct_Got d))"

section \<open>The token builder\<close>

text \<open>
  A builder holds the only pointer to its token, and \<open>Build\<close> and \<open>Clone\<close> copy the token with its position, so a
  builder is its token and a setter a function on it. \<open>c0\<close> and \<open>i0\<close> are the zero values of go-yaml's enumerations.
  The position is never nil.
\<close>

definition NewTokenBuilder :: "'c \<Rightarrow> 'i \<Rightarrow> ('c, 'i) lexed" where
  "NewTokenBuilder c0 i0 = \<lparr>lx_Type = UnknownType, lx_CharacterType = c0, lx_Indicator = i0, lx_Value = [], lx_Origin = [],
     lx_Error = [], lx_Position = Some \<lparr>tline = 0, tcolumn = 0, toffset = 0, tindent_num = 0, tindent_level = 0\<rparr>\<rparr>"

definition tb_Clone :: "('c, 'i) lexed \<Rightarrow> ('c, 'i) lexed" where
  "tb_Clone b = b"

definition tb_Type :: "token_type \<Rightarrow> ('c, 'i) lexed \<Rightarrow> ('c, 'i) lexed" where
  "tb_Type t b = b\<lparr>lx_Type := t\<rparr>"

definition tb_CharacterType :: "'c \<Rightarrow> ('c, 'i) lexed \<Rightarrow> ('c, 'i) lexed" where
  "tb_CharacterType ct b = b\<lparr>lx_CharacterType := ct\<rparr>"

definition tb_Indicator :: "'i \<Rightarrow> ('c, 'i) lexed \<Rightarrow> ('c, 'i) lexed" where
  "tb_Indicator i b = b\<lparr>lx_Indicator := i\<rparr>"

definition tb_Value :: "string \<Rightarrow> ('c, 'i) lexed \<Rightarrow> ('c, 'i) lexed" where
  "tb_Value v b = b\<lparr>lx_Value := v\<rparr>"

definition tb_Origin :: "string \<Rightarrow> ('c, 'i) lexed \<Rightarrow> ('c, 'i) lexed" where
  "tb_Origin s b = b\<lparr>lx_Origin := s\<rparr>"

definition tb_Error :: "string \<Rightarrow> ('c, 'i) lexed \<Rightarrow> ('c, 'i) lexed" where
  "tb_Error e b = b\<lparr>lx_Error := e\<rparr>"

definition tb_Position :: "token_position \<Rightarrow> ('c, 'i) lexed \<Rightarrow> ('c, 'i) lexed" where
  "tb_Position p b = b\<lparr>lx_Position := Some p\<rparr>"

definition tb_PositionLine :: "int \<Rightarrow> ('c, 'i) lexed \<Rightarrow> ('c, 'i) lexed" where
  "tb_PositionLine n b = b\<lparr>lx_Position := map_option (\<lambda>p. p\<lparr>tline := n\<rparr>) (lx_Position b)\<rparr>"

definition tb_PositionColumn :: "int \<Rightarrow> ('c, 'i) lexed \<Rightarrow> ('c, 'i) lexed" where
  "tb_PositionColumn n b = b\<lparr>lx_Position := map_option (\<lambda>p. p\<lparr>tcolumn := n\<rparr>) (lx_Position b)\<rparr>"

definition tb_PositionOffset :: "int \<Rightarrow> ('c, 'i) lexed \<Rightarrow> ('c, 'i) lexed" where
  "tb_PositionOffset n b = b\<lparr>lx_Position := map_option (\<lambda>p. p\<lparr>toffset := n\<rparr>) (lx_Position b)\<rparr>"

definition tb_PositionIndentNum :: "int \<Rightarrow> ('c, 'i) lexed \<Rightarrow> ('c, 'i) lexed" where
  "tb_PositionIndentNum n b = b\<lparr>lx_Position := map_option (\<lambda>p. p\<lparr>tindent_num := n\<rparr>) (lx_Position b)\<rparr>"

definition tb_PositionIndentLevel :: "int \<Rightarrow> ('c, 'i) lexed \<Rightarrow> ('c, 'i) lexed" where
  "tb_PositionIndentLevel n b = b\<lparr>lx_Position := map_option (\<lambda>p. p\<lparr>tindent_level := n\<rparr>) (lx_Position b)\<rparr>"

definition tb_Build :: "('c, 'i) lexed \<Rightarrow> ('c, 'i) lexed" where
  "tb_Build b = b"

section \<open>Styles that print tags\<close>

record xml_styles =
  xs_only :: "style set option"
  xs_exclude :: "style set option"

definition XMLStyleInclude :: "style list \<Rightarrow> xml_styles \<Rightarrow> xml_styles" where
  "XMLStyleInclude styles x = x\<lparr>xs_only := Some (set styles \<union> (case xs_only x of None \<Rightarrow> {} | Some s \<Rightarrow> s))\<rparr>"

definition XMLStyleExclude :: "style list \<Rightarrow> xml_styles \<Rightarrow> xml_styles" where
  "XMLStyleExclude styles x = x\<lparr>xs_exclude := Some (set styles \<union> (case xs_exclude x of None \<Rightarrow> {} | Some s \<Rightarrow> s))\<rparr>"

definition NewXMLStyles :: "(xml_styles \<Rightarrow> xml_styles) list \<Rightarrow> xml_styles" where
  "NewXMLStyles opts = foldl (\<lambda>x opt. opt x) \<lparr>xs_only = None, xs_exclude = None\<rparr> opts"

text \<open>The style as the transformation of the text it is rendered with; the empty style changes nothing.\<close>

definition xml_Style :: "xml_styles \<Rightarrow> style \<Rightarrow> string \<Rightarrow> string" where
  "xml_Style x s = (case xs_exclude x of
     Some ex \<Rightarrow> if s \<in> ex then id else
       (case xs_only x of Some only \<Rightarrow> if s \<notin> only then id else (\<lambda>content. ''<'' @ s @ ''>'' @ content @ ''</'' @ s @ ''>'')
        | None \<Rightarrow> (\<lambda>content. ''<'' @ s @ ''>'' @ content @ ''</'' @ s @ ''>''))
   | None \<Rightarrow> (case xs_only x of Some only \<Rightarrow> if s \<notin> only then id else (\<lambda>content. ''<'' @ s @ ''>'' @ content @ ''</'' @ s @ ''>'')
        | None \<Rightarrow> (\<lambda>content. ''<'' @ s @ ''>'' @ content @ ''</'' @ s @ ''>'')))"

section \<open>Facts\<close>

lemma check_token_None [simp]: "check_token i which tk = None \<longleftrightarrow> (\<exists>t p. tk = Some t \<and> lx_Position t = Some p)"
  by (auto simp: check_token_def split: option.split)

lemma validate_pairs_None:
  "validate_pairs i pairs = None \<longleftrightarrow> (\<forall>(w, g) \<in> set pairs. check_token 0 [] w = None \<and> check_token 0 [] g = None)"
  by (induction i pairs rule: validate_pairs.induct) (auto simp: check_token_def simp del: check_token_None split: option.splits)

text \<open>The fields a comparison looks at: all but \<open>Error\<close>.\<close>

definition compared :: "('c, 'i) lexed \<Rightarrow> ('c, 'i) lexed" where
  "compared t = t\<lparr>lx_Error := []\<rparr>"

lemma compared_eq:
  "compared w = compared g \<longleftrightarrow> lx_Type w = lx_Type g \<and> lx_CharacterType w = lx_CharacterType g \<and> lx_Indicator w = lx_Indicator g
     \<and> lx_Value w = lx_Value g \<and> lx_Origin w = lx_Origin g \<and> lx_Position w = lx_Position g"
  by (cases w; cases g) (auto simp: compared_def)

lemma CompareTokens_valid:
  assumes "lx_Position w = Some p" "lx_Position g = Some q"
  shows "\<exists>d. CompareTokens (Some w) (Some g) = Some d \<and> td_Want d = w \<and> td_Got d = g \<and> (diff_Equal d \<longleftrightarrow> compared w = compared g)"
proof -
  have "p = q \<longleftrightarrow> tline p = tline q \<and> tcolumn p = tcolumn q \<and> toffset p = toffset q \<and> tindent_num p = tindent_num q
      \<and> tindent_level p = tindent_level q" by (cases p; cases q) auto
  then show ?thesis using assms by (simp add: CompareTokens_def DiffTokenFields_def diff_Equal_def compared_eq)
qed

lemma compare_pairs_valid:
  assumes "\<forall>(w, g) \<in> set pairs. check_token 0 [] w = None \<and> check_token 0 [] g = None"
  shows "\<exists>ds. compare_pairs pairs = Some ds \<and> length ds = length pairs
    \<and> (list_all diff_Equal ds \<longleftrightarrow> list_all (\<lambda>(w, g). map_option compared w = map_option compared g) pairs)"
  using assms
proof (induction pairs)
  case (Cons pair pairs)
  then obtain w p g q where pair: "pair = (Some w, Some g)" "lx_Position w = Some p" "lx_Position g = Some q"
    by (cases pair) auto
  obtain d where "CompareTokens (Some w) (Some g) = Some d" "diff_Equal d \<longleftrightarrow> compared w = compared g"
    using CompareTokens_valid [OF pair(2,3)] by blast
  moreover obtain ds where "compare_pairs pairs = Some ds" "length ds = length pairs"
    "list_all diff_Equal ds \<longleftrightarrow> list_all (\<lambda>(w, g). map_option compared w = map_option compared g) pairs"
    using Cons by auto
  ultimately show ?case by (simp add: pair(1))
qed simp

lemma list_all_zip_eq: "length xs = length ys \<Longrightarrow> list_all (\<lambda>(x, y). f x = f y) (zip xs ys) \<longleftrightarrow> map f xs = map f ys"
  by (induction xs ys rule: list_induct2) auto

section \<open>Properties\<close>

text \<open>
  Token slices that \<open>ValidateTokens\<close> accepts are compared without a panic, and found equal exactly when they agree in
  every field of every token but \<open>Error\<close>.
\<close>

theorem CompareTokenSlices_exact:
  assumes "ValidateTokens N want got = None"
  shows "\<exists>d. CompareTokenSlices want got = Some d
    \<and> (tokens_Equal d \<longleftrightarrow> map (map_option compared) want = map (map_option compared) got)"
proof -
  have len: "length want = length got" and valid: "validate_pairs 0 (zip want got) = None"
    using assms by (simp_all add: ValidateTokens_def split: if_splits)
  from compare_pairs_valid [OF valid [unfolded validate_pairs_None]] obtain ds where
    "compare_pairs (zip want got) = Some ds"
    "list_all diff_Equal ds \<longleftrightarrow> list_all (\<lambda>(w, g). map_option compared w = map_option compared g) (zip want got)" by blast
  then show ?thesis using list_all_zip_eq [OF len, of "map_option compared"] by (simp add: CompareTokenSlices_def len tokens_Equal_def)
qed

text \<open>Two tokens that differ only in their error.\<close>

theorem CompareTokenSlices_exact_witness:
  "\<exists>d. CompareTokenSlices [Some (NewTokenBuilder () ())] [Some (tb_Error ''e'' (NewTokenBuilder () ()))] = Some d \<and> tokens_Equal d"
proof -
  let ?N = "\<lparr>tn_Type = (\<lambda>_. []), tn_CharacterType = (\<lambda>_ :: unit. []), tn_Indicator = (\<lambda>_ :: unit. []), tn_quote = id\<rparr>"
  have "ValidateTokens ?N [Some (NewTokenBuilder () ())] [Some (tb_Error ''e'' (NewTokenBuilder () ()))] = None"
    by (simp add: ValidateTokens_def NewTokenBuilder_def tb_Error_def check_token_def)
  from CompareTokenSlices_exact [OF this] show ?thesis by (simp add: compared_def tb_Error_def)
qed

text \<open>What the styles print.\<close>

lemma xml_Style_default: "xml_Style (NewXMLStyles []) s text' = ''<'' @ s @ ''>'' @ text' @ ''</'' @ s @ ''>''"
  by (simp add: NewXMLStyles_def xml_Style_def)

lemma xml_Style_excluded: "xs_exclude x = Some ex \<Longrightarrow> s \<in> ex \<Longrightarrow> xml_Style x s = id"
  by (simp add: xml_Style_def)

end
