(* ===== verification/Spec2Isabelle.thy ===== *)
theory Spec2Isabelle
  imports Diff_Result Finder Viewport_View Printer_Facts Documents_Facts Schema_Facts
    Registry_Facts Themes Style_Strings Nyaml_Facts Nyaml_Validate Nyaml_Commands
    Normalizers Fangs Yamltest
begin

text \<open>
  \<^bold>\<open>niceyaml\<close>: a verification development for the Go library \<open>go.jacobcolvin.com/niceyaml\<close> and its program \<open>nyaml\<close>.

  \<^bold>\<open>The program.\<close> niceyaml shows, searches, compares and validates YAML files without losing how they were written. The
  lexer of go-yaml turns a file into tokens; a builder turns tokens into lines of segments, each of which knows the
  token it comes from (\<open>tokens\<close>, \<open>line\<close>); a \<open>Source\<close> holds the lines of a file with its name and options (\<open>source.go\<close>).
  On sources work the finder (\<open>find.go\<close>), the differ (\<open>diff.go\<close> on the algorithm of package \<open>diff\<close>), revisions
  (\<open>revision.go\<close>), errors that mark what they are about (\<open>error.go\<close>) and the printer (\<open>print.go\<close>), which takes its styles
  from the categories and themes of package \<open>style\<close>. Documents are decoded and validated (\<open>decode.go\<close>) against schemas
  that a registry finds by directives in comments, matchers or the SchemaStore catalog (package \<open>schema\<close>). The
  viewport (\<open>bubbles/yamlviewport\<close>) puts source, finder, differ, revisions and printer into one scrolling view; \<open>nyaml\<close>
  (\<open>cmd/nyaml\<close>) is that viewport with a search line and a theme picker, and a command that validates files.

  \<^bold>\<open>How the code is translated.\<close> A struct is a record, an enumeration a datatype, a method a function on the record that
  returns it updated. A panic is \<open>None\<close>; so is, for a loop that need not end, not returning. Errors are values of a sum or
  of an error datatype. A Go string is a list of bytes, a rune a natural number, and decoding UTF-8 is modelled with its
  errors (\<open>Go_Strings\<close>). Integers are mathematical where they count lines, columns and tokens, which stay below the
  length of a file, and words of 64 bits where the code packs them (\<open>Colors\<close>). Pointers are explicit where the code
  depends on them: the identity of tokens, the links of revisions, shared styles, and the pane that is a revision of the
  viewport or its own copy. What the code calls outside the repository is an argument: the lexer, parser, decoder, paths
  and syntax trees of go-yaml; lipgloss (styles, rendering, width, wrapping), go-colorful and golang.org/x/text; doublestar;
  the JSON schema library; bubbletea and key matching; files, network, clock and terminal. What is assumed of them is a
  hypothesis of the theorem or the law of a locale.

  \<^bold>\<open>The theories\<close>, each with the code it models.
  \<^item> \<open>Prelude\<close>, \<open>Go_Strings\<close>: lists, options, folds; the functions of \<open>strings\<close>, \<open>strconv\<close> and \<open>unicode/utf8\<close> that are used.
  \<^item> \<open>Positions\<close>: \<open>position/position.go\<close>. \<open>Styles\<close>, \<open>Style_Strings\<close>, \<open>Lipgloss\<close>, \<open>Themes\<close> with \<open>Themes_1\<close> to \<open>Themes_4\<close>: package
    \<open>style\<close> with all 74 built-in themes. \<open>Colors\<close>: \<open>internal/colors\<close>.
  \<^item> \<open>Tokens\<close>: package \<open>tokens\<close>. \<open>Lines\<close>, \<open>Lines_Builder\<close>: package \<open>line\<close>. \<open>Sources\<close>: \<open>source.go\<close> without parsing.
  \<^item> \<open>LCS\<close>, \<open>Hirschberg\<close>: package \<open>diff\<close>. \<open>Diff_Result\<close>: \<open>diff.go\<close>. \<open>Finder\<close>: \<open>find.go\<close>. \<open>Normalizers\<close>: \<open>normalizer\<close>. \<open>Revisions\<close>:
    \<open>revision.go\<close>.
  \<^item> \<open>Printer\<close>, \<open>Printer_Facts\<close>: \<open>print.go\<close> and \<open>internal/ansi\<close>. \<open>Yaml_Error\<close>, \<open>Error_Facts\<close>: \<open>error.go\<close> and the parsing of
    \<open>source.go\<close>. \<open>Paths\<close>: \<open>paths/paths.go\<close>.
  \<^item> \<open>Documents\<close>, \<open>Documents_Facts\<close>: \<open>decode.go\<close> and \<open>lexers\<close>. \<open>Filepaths\<close>: \<open>internal/filepaths\<close>. \<open>Schemas\<close>, \<open>Schema_Facts\<close>,
    \<open>Registry\<close>, \<open>Schemastore\<close>, \<open>Registry_Facts\<close>: package \<open>schema\<close> with \<open>matcher\<close>, \<open>loader\<close>, \<open>registry\<close> and \<open>schemastore\<close>.
  \<^item> \<open>Viewport\<close>, \<open>Viewport_Facts\<close>, \<open>Viewport_Safety\<close>, \<open>Viewport_View\<close>: \<open>bubbles/yamlviewport\<close>.
  \<^item> \<open>Nyaml\<close>, \<open>Nyaml_View\<close>, \<open>Nyaml_Facts\<close>: \<open>cmd/nyaml/model.go\<close>. \<open>Nyaml_Commands\<close>: \<open>cmd/nyaml/view.go\<close>. \<open>Nyaml_Validate\<close>:
    \<open>cmd/nyaml/validate.go\<close>. \<open>Fangs\<close>: package \<open>fangs\<close>. \<open>Yamltest\<close>: the token comparison of \<open>internal/yamltest\<close>.

  \<^bold>\<open>The interfaces\<close> are locales, each interpreted on the code's own implementation: \<open>token_stream\<close> (what the lines builder
  relies on when tokens are joined; \<open>tokens_Add\<close>), \<open>diff_algorithm\<close> (what the differ relies on; \<open>Hirschberg\<close> with its
  buffers), \<open>viewport_finder\<close> (what the viewport relies on; the library's finder), \<open>validator_cache\<close> and
  \<open>registry_cache\<close> (what a registry relies on; \<open>MapCache\<close>).

  \<^bold>\<open>What is shown.\<close>
  \<^item> Nothing is lost: lines give back the token stream they were built from and hold every byte of it; splitting into
    documents, while scanning or after it, keeps every token; both panes and the unified text of a diff carry both files.
  \<^item> Algorithms meet a specification written without them: \<open>Diff\<close> keeps a longest common subsequence (\<open>LCS\<close>), \<open>Find\<close>
    returns exactly the leftmost matches that do not overlap, hunks cover exactly the context of the changes, a category
    gets the style of its nearest defined ancestor, style strings parse exactly the words they document and what
    \<open>Encode\<close> writes is read back.
  \<^item> What is drawn is what is meant: the printer draws every rune once, in the style of the overlays on its column, and
    one row for each line; the view shows the rows from the offset on; highlights are exactly the matches; an error marks
    exactly its columns and starts with the position it is about.
  \<^item> State: an invariant of the viewport, and one of the viewer on top of it, that every operation and every message keeps;
    from every reachable state each operation returns and drawing returns. A chain of revisions refines a list with a cursor.
  \<^item> Caches change nothing: validators, directives, the blender's styles and the catalog give what computing anew would
    give. A schema read from the network is the whole body or an error.
  \<^item> The commands as a whole: \<open>nyaml view\<close> opens one revision for each file or fails with the first that cannot be read;
    \<open>nyaml validate\<close> with a schema calls a file valid exactly when it is.

  \<^bold>\<open>Bounds, loops and fuel.\<close> There is no fuel. Recursion that is not structural has a measure: Hirschberg on the length of
  its inputs, \<open>resolve\<close> on the rank of a category in the table of parents, decoding on the bytes left. Loops that need not
  end are partial functions with \<open>None\<close> for not returning: the search of the finder (it does not return for a search that
  normalizes to nothing, and returns for any other), the scanner loop of \<open>TokenizeDocuments\<close> (it returns exactly when the
  scanner ends), and following the links of revisions and tokens (they return on the chains that the code builds). The
  blender numbers styles and packs two numbers into a key of 64 bits, so the theorem on it assumes at most \<open>2 ^ 31\<close> of them. A schema is at
  most ten megabytes, and the catalog refresh of the store is compared with its clock.

  \<^bold>\<open>Not modelled, and why.\<close> Concurrency: mutexes and \<open>sync.Once\<close> are left out, the calls are a sequence. Getters of one field are the record's fields. Fields of tokens that are copied and never read
  (\<open>CharacterType\<close>, \<open>Indicator\<close>, \<open>Error\<close>) are only in \<open>Yamltest\<close>, which compares them. \<open>encode.go\<close> and \<open>cmd/nyaml/main.go\<close>
  pass everything on to libraries; the mocks of \<open>internal/yamltest\<close>, \<open>ci\<close> and \<open>examples\<close> are support. Paths and globs are those
  of Unix. A zero \<open>Path\<close> without a YAML path is read as no path.
\<close>

end
